(* ===== verification/Prelude.thy ===== *)
theory Prelude
  imports Main
begin

section \<open>Shared vocabulary: commands, refusals and keyed lists\<close>

text \<open>
  What every component of the development shares.  The server's operations read a Workspace
  file, refuse by throwing, and write whole lists back; here an operation is a
  \<open>cmd\<close>: a function from the state to a result (a refusal \<open>Inl\<close> or a value \<open>Inr\<close>) and
  the state it leaves behind.  A thrown error keeps the state reached so far, exactly as an
  exception does after an earlier write has been committed.

  The second half is the list vocabulary the stores use: a record is looked up by its identity
  with \<open>find\<close> and replaced with \<open>map\<close>.
\<close>

named_theorems cmd_simps \<open>unfolding rules for commands\<close>

subsection \<open>Commands\<close>

type_synonym ('s, 'e, 'a) cmd = "'s \<Rightarrow> ('e + 'a) \<times> 's"

definition ret :: "'a \<Rightarrow> ('s, 'e, 'a) cmd" where
  "ret x = (\<lambda>s. (Inr x, s))"

definition throw :: "'e \<Rightarrow> ('s, 'e, 'a) cmd" where
  "throw e = (\<lambda>s. (Inl e, s))"

definition andThen :: "('s, 'e, 'a) cmd \<Rightarrow> ('a \<Rightarrow> ('s, 'e, 'b) cmd) \<Rightarrow> ('s, 'e, 'b) cmd" where
  "andThen m f = (\<lambda>s. case m s of (Inl e, s') \<Rightarrow> (Inl e, s') | (Inr x, s') \<Rightarrow> f x s')"

definition query :: "('s \<Rightarrow> 'e + 'a) \<Rightarrow> ('s, 'e, 'a) cmd" where
  "query q = (\<lambda>s. (q s, s))"

definition check :: "'e + 'a \<Rightarrow> ('s, 'e, 'a) cmd" where
  "check r = (\<lambda>s. (r, s))"

definition require :: "bool \<Rightarrow> 'e \<Rightarrow> ('s, 'e, unit) cmd" where
  "require b e = (if b then ret () else throw e)"

text \<open>A \<open>try\<close>/\<open>catch\<close> that handles every refusal, with the state as the failure left it.\<close>

definition catching :: "('s, 'e, 'a) cmd \<Rightarrow> ('e \<Rightarrow> ('s, 'e, 'a) cmd) \<Rightarrow> ('s, 'e, 'a) cmd" where
  "catching m h = (\<lambda>s. case m s of (Inl e, s') \<Rightarrow> h e s' | (Inr x, s') \<Rightarrow> (Inr x, s'))"

text \<open>A loop over a list that stops at the first refusal, keeping what it already wrote.\<close>

fun forEach :: "('a \<Rightarrow> ('s, 'e, 'b) cmd) \<Rightarrow> 'a list \<Rightarrow> ('s, 'e, 'b list) cmd" where
  "forEach f [] = ret []"
| "forEach f (x # xs) = andThen (f x) (\<lambda>y. andThen (forEach f xs) (\<lambda>ys. ret (y # ys)))"

lemma ret_run [simp, cmd_simps]: "ret x s = (Inr x, s)"
  by (simp add: ret_def)

lemma throw_run [simp, cmd_simps]: "throw e s = (Inl e, s)"
  by (simp add: throw_def)

lemma query_run [simp, cmd_simps]: "query q s = (q s, s)"
  by (simp add: query_def)

lemma check_run [simp, cmd_simps]: "check r s = (r, s)"
  by (simp add: check_def)

lemma andThen_Inr [simp]: "m s = (Inr x, s') \<Longrightarrow> andThen m f s = f x s'"
  by (simp add: andThen_def)

lemma andThen_Inl [simp]: "m s = (Inl e, s') \<Longrightarrow> andThen m f s = (Inl e, s')"
  by (simp add: andThen_def)

lemma require_True [simp]: "b \<Longrightarrow> require b e s = (Inr (), s)"
  by (simp add: require_def)

lemma require_False [simp]: "\<not> b \<Longrightarrow> require b e s = (Inl e, s)"
  by (simp add: require_def)

lemma require_run [cmd_simps]: "require b e s = (if b then (Inr (), s) else (Inl e, s))"
  by (simp add: require_def)

lemma andThen_run [cmd_simps]:
  "andThen m f s = (case m s of (Inl e, s') \<Rightarrow> (Inl e, s') | (Inr x, s') \<Rightarrow> f x s')"
  by (simp add: andThen_def)

lemma andThen_InrE:
  assumes "andThen m f s = (Inr y, s')"
  obtains x s'' where "m s = (Inr x, s'')" "f x s'' = (Inr y, s')"
  using assms by (auto simp: andThen_def split: prod.splits sum.splits)

lemma andThen_InlE:
  assumes "andThen m f s = (Inl e, s')"
  obtains "m s = (Inl e, s')" | x s'' where "m s = (Inr x, s'')" "f x s'' = (Inl e, s')"
  using assms by (auto simp: andThen_def split: prod.splits sum.splits)

named_theorems run_elims \<open>stepping backwards through a command that answered\<close>

lemma query_InrE [run_elims]:
  assumes "andThen (query q) f s = (Inr y, s')"
  obtains x where "q s = Inr x" "f x s = (Inr y, s')"
  using assms by (auto elim: andThen_InrE)

lemma check_InrE [run_elims]:
  assumes "andThen (check r) f s = (Inr y, s')"
  obtains x where "r = Inr x" "f x s = (Inr y, s')"
  using assms by (auto elim: andThen_InrE)

lemma require_InrE [run_elims]:
  assumes "andThen (require b e) f s = (Inr y, s')"
  obtains "b" "f () s = (Inr y, s')"
  using assms by (cases b) (auto elim!: andThen_InrE)

lemma option_InrE [run_elims]:
  assumes "(case v of None \<Rightarrow> throw e | Some x \<Rightarrow> f x) s = (Inr y, s')"
  obtains x where "v = Some x" "f x s = (Inr y, s')"
  using assms by (cases v) auto

lemma ret_InrE [run_elims]:
  assumes "ret x s = (Inr y, s')"
  obtains "y = x" "s' = s"
  using assms by simp

lemma require_InrD: "require b e s = (Inr u, s') \<Longrightarrow> b \<and> s' = s"
  by (cases b) auto

lemma require_InlD: "require b e s = (Inl e', s') \<Longrightarrow> \<not> b \<and> s' = s \<and> e' = e"
  by (cases b) auto

text \<open>
  Frame rule for commands: a predicate on states that every stage keeps is kept by the whole,
  whether it answers or refuses.
\<close>

definition keeps :: "('s \<Rightarrow> bool) \<Rightarrow> ('s, 'e, 'a) cmd \<Rightarrow> bool" where
  "keeps P m \<longleftrightarrow> (\<forall>s. P s \<longrightarrow> P (snd (m s)))"

named_theorems keeps_intros \<open>introduction rules for invariants kept by commands\<close>

lemma keepsD: "keeps P m \<Longrightarrow> P s \<Longrightarrow> P (snd (m s))"
  by (simp add: keeps_def)

lemma keeps_ret [keeps_intros]: "keeps P (ret x)"
  by (simp add: keeps_def)

lemma keeps_throw [keeps_intros]: "keeps P (throw e)"
  by (simp add: keeps_def)

lemma keeps_query [keeps_intros]: "keeps P (query q)"
  by (simp add: keeps_def)

lemma keeps_check [keeps_intros]: "keeps P (check r)"
  by (simp add: keeps_def)

lemma keeps_require [keeps_intros]: "keeps P (require b e)"
  by (simp add: keeps_def require_def)

lemma keeps_andThen [keeps_intros]:
  assumes "keeps P m" and "\<And>x. keeps P (f x)"
  shows "keeps P (andThen m f)"
  unfolding keeps_def
proof (intro allI impI)
  fix s assume "P s"
  obtain r s' where ms: "m s = (r, s')" by (cases "m s")
  with \<open>P s\<close> assms(1) have "P s'" by (auto simp: keeps_def dest: spec [where x = s])
  with ms assms(2) show "P (snd (andThen m f s))"
    by (cases r) (auto simp: keeps_def)
qed

lemma keeps_catching [keeps_intros]:
  assumes "keeps P m" and "\<And>e. keeps P (h e)"
  shows "keeps P (catching m h)"
  unfolding keeps_def
proof (intro allI impI)
  fix s assume "P s"
  obtain r s' where ms: "m s = (r, s')" by (cases "m s")
  with \<open>P s\<close> assms(1) have "P s'" by (auto simp: keeps_def dest: spec [where x = s])
  with ms assms(2) show "P (snd (catching m h s))"
    by (cases r) (auto simp: keeps_def catching_def)
qed

lemma keeps_forEach [keeps_intros]: "(\<And>x. keeps P (f x)) \<Longrightarrow> keeps P (forEach f xs)"
  by (induction xs) (auto intro!: keeps_intros)

lemma keeps_if [keeps_intros]:
  "(b \<Longrightarrow> keeps P m) \<Longrightarrow> (\<not> b \<Longrightarrow> keeps P n) \<Longrightarrow> keeps P (if b then m else n)"
  by simp

lemma keeps_let [keeps_intros]: "keeps P (f x) \<Longrightarrow> keeps P (let y = x in f y)"
  by simp

lemma keeps_case_option [keeps_intros]:
  "(v = None \<Longrightarrow> keeps P m) \<Longrightarrow> (\<And>x. v = Some x \<Longrightarrow> keeps P (f x)) \<Longrightarrow> keeps P (case v of None \<Rightarrow> m | Some x \<Rightarrow> f x)"
  by (cases v) simp_all

lemma keeps_case_sum [keeps_intros]:
  "(\<And>e. keeps P (g e)) \<Longrightarrow> (\<And>x. keeps P (f x)) \<Longrightarrow>
    keeps P (case v of Inl e \<Rightarrow> g e | Inr x \<Rightarrow> f x)"
  by (cases v) simp_all

subsection \<open>Lists of identified records\<close>

definition find_by :: "('r \<Rightarrow> 'k) \<Rightarrow> 'k \<Rightarrow> 'r list \<Rightarrow> 'r option" where
  "find_by key k xs = find (\<lambda>x. key x = k) xs"

definition replace_by :: "('r \<Rightarrow> 'k) \<Rightarrow> 'k \<Rightarrow> 'r \<Rightarrow> 'r list \<Rightarrow> 'r list" where
  "replace_by key k n xs = map (\<lambda>x. if key x = k then n else x) xs"

lemma find_by_Nil [simp]: "find_by key k [] = None"
  by (simp add: find_by_def)

lemma find_by_Cons [simp]:
  "find_by key k (x # xs) = (if key x = k then Some x else find_by key k xs)"
  by (simp add: find_by_def)

lemma replace_by_Nil [simp]: "replace_by key k n [] = []"
  by (simp add: replace_by_def)

lemma replace_by_Cons [simp]:
  "replace_by key k n (x # xs) = (if key x = k then n else x) # replace_by key k n xs"
  by (simp add: replace_by_def)

lemma find_by_SomeD: "find_by key k xs = Some x \<Longrightarrow> x \<in> set xs \<and> key x = k"
  by (induction xs) (auto split: if_splits)

lemma find_by_None_iff: "find_by key k xs = None \<longleftrightarrow> k \<notin> key ` set xs"
  by (induction xs) auto

lemma find_by_append:
  "find_by key k (xs @ ys) = (case find_by key k xs of None \<Rightarrow> find_by key k ys | Some x \<Rightarrow> Some x)"
  by (induction xs) auto

lemma find_by_distinct:
  "distinct (map key xs) \<Longrightarrow> x \<in> set xs \<Longrightarrow> find_by key (key x) xs = Some x"
  by (induction xs) (auto simp: rev_image_eqI)

lemma length_replace_by [simp]: "length (replace_by key k n xs) = length xs"
  by (simp add: replace_by_def)

lemma map_key_replace_by: "key n = k \<Longrightarrow> map key (replace_by key k n xs) = map key xs"
  by (induction xs) auto

lemma find_by_replace_same:
  "key n = k \<Longrightarrow> find_by key k xs = Some x \<Longrightarrow> find_by key k (replace_by key k n xs) = Some n"
  by (induction xs) (auto split: if_splits)

lemma find_by_replace_other:
  "key n = k \<Longrightarrow> j \<noteq> k \<Longrightarrow> find_by key j (replace_by key k n xs) = find_by key j xs"
  by (induction xs) auto

lemma set_replace_by: "set (replace_by key k n xs) \<subseteq> insert n (set xs)"
  by (induction xs) auto

lemma replace_by_mem_other: "x \<in> set xs \<Longrightarrow> key x \<noteq> k \<Longrightarrow> x \<in> set (replace_by key k n xs)"
  by (induction xs) auto

lemma replace_by_mem_cases:
  "x \<in> set (replace_by key k n xs) \<Longrightarrow> x = n \<or> (x \<in> set xs \<and> key x \<noteq> k)"
  by (auto simp: replace_by_def split: if_splits)

lemma replace_by_id: "find_by key k xs = Some x \<Longrightarrow> distinct (map key xs) \<Longrightarrow> replace_by key k x xs = xs"
proof (induction xs)
  case (Cons y ys)
  have "replace_by key (key y) y ys = ys" if "key y \<notin> key ` set ys"
    using that by (induction ys) auto
  with Cons show ?case by (auto split: if_splits)
qed simp

lemma find_filter_other:
  "j \<noteq> k \<Longrightarrow> find_by key j (filter (\<lambda>x. key x \<noteq> k) xs) = find_by key j xs"
  by (induction xs) auto

lemma find_filter_same: "find_by key k (filter (\<lambda>x. key x \<noteq> k) xs) = None"
  by (induction xs) auto

text \<open>An optional filter value: unset matches everything, a set one has to be equal.\<close>

definition matches :: "'a option \<Rightarrow> 'a \<Rightarrow> bool" where
  "matches expected actual \<longleftrightarrow> (expected = None \<or> expected = Some actual)"

lemma matches_None [simp]: "matches None x"
  by (simp add: matches_def)

lemma matches_Some [simp]: "matches (Some y) x \<longleftrightarrow> y = x"
  by (simp add: matches_def)

end
