(* ===== verification/JsText.thy ===== *)
theory JsText
  imports Prelude "HOL-Library.List_Lexorder" "HOL-Library.Char_ord"
begin

section \<open>JavaScript values and strings\<close>

text \<open>
  The part of the language's standard library that the Tasks product relies on.

  A \<open>jsval\<close> is a value of type \<open>unknown\<close>: what a request body or a parsed JSON file may
  hold.  \<open>JNum\<close> is an integral number and \<open>JFrac\<close> any other number, with its JSON text.

  Strings are lists of code units below 256 (\<open>string\<close>).  On those code units \<open>trim\<close>,
  \<open>toLowerCase\<close> and the white space class of regular expressions are the ones of ECMAScript:
  tab, line feed, vertical tab, form feed, carriage return, space and no-break space are white
  space, and the letters A to Z and the accented capitals 192 to 222 (but 215, the multiplication
  sign) have a lower case 32 code units further.  The comparison \<open><\<close> on strings is the one by
  code units, which is the lexicographic order of \<open>HOL-Library.List_Lexorder\<close>.
\<close>

datatype jsval =
    Undefined
  | JNull
  | JBool bool
  | JNum int
  | JFrac string
  | JStr string
  | JArr "jsval list"
  | JObj "(string \<times> jsval) list"

text \<open>Property access on a value that is not null: absent properties read as undefined.\<close>

fun field :: "jsval \<Rightarrow> string \<Rightarrow> jsval" where
  "field (JObj fs) k = (case map_of fs k of None \<Rightarrow> Undefined | Some v \<Rightarrow> v)"
| "field _ k = Undefined"

text \<open>The operator \<open>??\<close>.\<close>

fun nullish :: "jsval \<Rightarrow> jsval \<Rightarrow> jsval" where
  "nullish Undefined d = d"
| "nullish JNull d = d"
| "nullish v d = v"

fun is_string :: "jsval \<Rightarrow> bool" where
  "is_string (JStr _) = True"
| "is_string _ = False"

text \<open>\<open>typeof v === "object"\<close>, which holds of null and of arrays too.\<close>

fun is_object :: "jsval \<Rightarrow> bool" where
  "is_object JNull = True"
| "is_object (JArr _) = True"
| "is_object (JObj _) = True"
| "is_object _ = False"

fun is_number :: "jsval \<Rightarrow> bool" where
  "is_number (JNum _) = True"
| "is_number (JFrac _) = True"
| "is_number _ = False"

definition max_safe_integer :: int where
  "max_safe_integer = 9007199254740991"

fun is_safe_integer :: "jsval \<Rightarrow> bool" where
  "is_safe_integer (JNum n) = (- max_safe_integer \<le> n \<and> n \<le> max_safe_integer)"
| "is_safe_integer _ = False"

subsection \<open>White space, case and search\<close>

definition is_space :: "char \<Rightarrow> bool" where
  "is_space c = (of_char c \<in> {9, 10, 11, 12, 13, 32, 160 :: nat})"

definition lower_char :: "char \<Rightarrow> char" where
  "lower_char c = (let n = of_char c :: nat in
     if (65 \<le> n \<and> n \<le> 90) \<or> (192 \<le> n \<and> n \<le> 222 \<and> n \<noteq> 215) then char_of (n + 32) else c)"

definition toLowerCase :: "string \<Rightarrow> string" where
  "toLowerCase s = map lower_char s"

definition trim :: "string \<Rightarrow> string" where
  "trim s = rev (dropWhile is_space (rev (dropWhile is_space s)))"

text \<open>The replacement of every maximal run of white space by one space.\<close>

function collapse_spaces :: "string \<Rightarrow> string" where
  "collapse_spaces [] = []"
| "collapse_spaces (c # cs) =
     (if is_space c then CHR '' '' # collapse_spaces (dropWhile is_space cs)
      else c # collapse_spaces cs)"
  by pat_completeness auto
termination
  by (relation "measure length") (auto simp: less_Suc_eq_le length_dropWhile_le)

fun includes_text :: "string \<Rightarrow> string \<Rightarrow> bool" where
  "includes_text t [] = (t = [])"
| "includes_text t (c # cs) = (take (length t) (c # cs) = t \<or> includes_text t cs)"

lemma includes_iff: "includes_text t s \<longleftrightarrow> (\<exists>p q. s = p @ t @ q)"
proof (induction s)
  case (Cons c cs)
  have "take (length t) (c # cs) = t \<longleftrightarrow> (\<exists>q. c # cs = t @ q)"
    by (metis append_eq_conv_conj)
  with Cons show ?case
    by (auto simp: Cons_eq_append_conv)
qed auto

subsection \<open>Normal forms of text\<close>

lemma lower_char_idem: "lower_char (lower_char c) = lower_char c"
  by (auto simp: lower_char_def Let_def)

lemma is_space_lower_char [simp]: "is_space (lower_char c) = is_space c"
  by (auto simp: lower_char_def is_space_def Let_def)

lemma lower_char_space: "is_space c \<Longrightarrow> lower_char c = c"
  by (auto simp: lower_char_def is_space_def Let_def)

lemma is_space_blank [simp]: "is_space CHR '' ''"
  by (simp add: is_space_def)

lemma toLowerCase_idem [simp]: "toLowerCase (toLowerCase s) = toLowerCase s"
  by (simp add: toLowerCase_def lower_char_idem)

lemma dropWhile_space_lower:
  "dropWhile is_space (map lower_char s) = map lower_char (dropWhile is_space s)"
  by (simp add: dropWhile_map comp_def)

lemma trim_toLowerCase: "trim (toLowerCase s) = toLowerCase (trim s)"
  by (simp add: trim_def toLowerCase_def dropWhile_space_lower rev_map)

lemma collapse_toLowerCase: "collapse_spaces (toLowerCase s) = toLowerCase (collapse_spaces s)"
  by (induction s rule: collapse_spaces.induct)
    (auto simp: toLowerCase_def dropWhile_space_lower lower_char_space)

lemma dropWhile_collapse:
  "dropWhile is_space (collapse_spaces s) = collapse_spaces (dropWhile is_space s)"
proof (induction s rule: collapse_spaces.induct)
  case (2 c cs)
  then show ?case
    by (cases "is_space c") auto
qed simp

lemma collapse_idem [simp]: "collapse_spaces (collapse_spaces s) = collapse_spaces s"
proof (induction s rule: collapse_spaces.induct)
  case (2 c cs)
  then show ?case
    by (cases "is_space c") (auto simp: dropWhile_collapse)
qed simp

text \<open>A text is trimmed when neither end is white space; trimming makes it so.\<close>

definition trimmed :: "string \<Rightarrow> bool" where
  "trimmed s \<longleftrightarrow> s = [] \<or> (\<not> is_space (hd s) \<and> \<not> is_space (last s))"

lemma hd_dropWhile_space: "dropWhile is_space s \<noteq> [] \<Longrightarrow> \<not> is_space (hd (dropWhile is_space s))"
  by (induction s) auto

lemma trim_Nil [simp]: "trim [] = []"
  by (simp add: trim_def)

lemma trim_trimmed: "trimmed s \<Longrightarrow> trim s = s"
proof (cases s)
  case (Cons c cs)
  assume "trimmed s"
  with Cons have "\<not> is_space c" "\<not> is_space (last s)" by (auto simp: trimmed_def)
  moreover have "dropWhile is_space (rev s) = rev s"
    using \<open>\<not> is_space (last s)\<close> Cons by (cases "rev s") (auto simp flip: hd_rev)
  ultimately show ?thesis using Cons by (simp add: trim_def)
qed simp

lemma hd_rev_dropWhile_rev:
  "rev (dropWhile p (rev s)) \<noteq> [] \<Longrightarrow> hd (rev (dropWhile p (rev s))) = hd s"
proof -
  assume ne: "rev (dropWhile p (rev s)) \<noteq> []"
  have "rev s = takeWhile p (rev s) @ dropWhile p (rev s)" by simp
  then have "s = rev (dropWhile p (rev s)) @ rev (takeWhile p (rev s))"
    by (metis rev_append rev_rev_ident)
  with ne show ?thesis by (metis hd_append2)
qed

lemma trimmed_trim: "trimmed (trim s)"
proof (cases "trim s = []")
  case False
  let ?d = "dropWhile is_space s"
  have r: "trim s = rev (dropWhile is_space (rev ?d))" by (simp add: trim_def)
  with False have "dropWhile is_space (rev ?d) \<noteq> []" by simp
  then have l: "\<not> is_space (last (trim s))"
    using r hd_dropWhile_space by (simp add: last_rev)
  have "hd (trim s) = hd ?d" using False r hd_rev_dropWhile_rev by metis
  moreover have "?d \<noteq> []" using False r by (metis dropWhile.simps(1) rev.simps(1))
  ultimately have "\<not> is_space (hd (trim s))" using hd_dropWhile_space by simp
  with l show ?thesis by (simp add: trimmed_def)
qed (simp add: trimmed_def)

lemma trim_idem [simp]: "trim (trim s) = trim s"
  by (simp add: trim_trimmed trimmed_trim)

subsection \<open>The collation of identifiers\<close>

text \<open>
  \<open>String.prototype.localeCompare\<close> on the identifiers the store mints (lower case letters,
  digits and the underscore): in the root collation the underscore sorts before the digits and
  the digits before the letters, and nothing is ignored.
\<close>

definition collation_rank :: "char \<Rightarrow> nat" where
  "collation_rank c = (if c = CHR ''_'' then 0 else Suc (of_char c))"

fun localeCompare :: "string \<Rightarrow> string \<Rightarrow> int" where
  "localeCompare [] [] = 0"
| "localeCompare [] (_ # _) = -1"
| "localeCompare (_ # _) [] = 1"
| "localeCompare (a # as) (b # bs) =
     (if collation_rank a < collation_rank b then -1
      else if collation_rank b < collation_rank a then 1
      else localeCompare as bs)"

lemma collation_rank_inj: "collation_rank a = collation_rank b \<Longrightarrow> a = b"
  by (auto simp: collation_rank_def split: if_splits)

lemma localeCompare_eq_0 [simp]: "localeCompare a b = 0 \<longleftrightarrow> a = b"
  by (induction a b rule: localeCompare.induct) (auto dest: collation_rank_inj)

lemma localeCompare_antisym: "localeCompare b a = - localeCompare a b"
  by (induction a b rule: localeCompare.induct) auto

lemma localeCompare_trans:
  "localeCompare a b \<le> 0 \<Longrightarrow> localeCompare b c \<le> 0 \<Longrightarrow> localeCompare a c \<le> 0"
proof (induction a b arbitrary: c rule: localeCompare.induct)
  case (2 b bs)
  then show ?case by (cases c) simp_all
next
  case (4 a as b bs)
  show ?case
  proof (cases c)
    case Nil
    with "4.prems" show ?thesis by simp
  next
    case (Cons d ds)
    have ab: "collation_rank a < collation_rank b \<or>
        collation_rank a = collation_rank b \<and> localeCompare as bs \<le> 0"
      using "4.prems"(1) by (simp split: if_split_asm)
    have bd: "collation_rank b < collation_rank d \<or>
        collation_rank b = collation_rank d \<and> localeCompare bs ds \<le> 0"
      using "4.prems"(2) Cons by (simp split: if_split_asm)
    show ?thesis
    proof (cases "collation_rank a = collation_rank b \<and> collation_rank b = collation_rank d")
      case True
      with ab bd have "localeCompare as ds \<le> 0" using "4.IH" [of ds] by simp
      with True Cons show ?thesis by simp
    next
      case False
      with ab bd have "collation_rank a < collation_rank d" by linarith
      with Cons show ?thesis by simp
    qed
  qed
qed simp_all

end
