(* ===== verification/TaskTypes.thy ===== *)
theory TaskTypes
  imports JsText
begin

section \<open>The Task vocabulary\<close>

text \<open>
  The data of \<open>packages/shared/src/task.ts\<close>: Tasks, Task Lists, Task Destinations and
  External Task Links, and the refusal codes of \<open>TaskValidationError\<close>.  A string literal union is
  a datatype, \<open>T | null\<close> is an option, and an optional property that the code only tests for
  truth (\<open>creationUncertain\<close>) is a bool.
\<close>

datatype task_priority = NoPriority | LowPriority | MediumPriority | HighPriority

datatype task_status = Open | Completed

abbreviation INBOX_TASK_LIST_ID :: string where
  "INBOX_TASK_LIST_ID \<equiv> ''inbox''"

abbreviation INBOX_TASK_LIST_NAME :: string where
  "INBOX_TASK_LIST_NAME \<equiv> ''Inbox''"

datatype task_destination =
    LocalOnly
  | GoogleTasks (googleTaskListId: string) (googleTaskListTitle: string)
  | Asana (workspaceGid: string) (workspaceName: string) (projectGid: string)
      (projectName: string) (sectionGid: "string option") (sectionName: "string option")

datatype provider = Local | Google | AsanaProvider

fun destination_provider :: "task_destination \<Rightarrow> provider" where
  "destination_provider LocalOnly = Local"
| "destination_provider (GoogleTasks _ _) = Google"
| "destination_provider (Asana _ _ _ _ _ _) = AsanaProvider"

datatype link_state =
  Waiting | Synchronized | Failed | Missing | ChangedExternally | Conflicted

datatype failure_kind =
  Authorization | Validation | Network | RateLimit | NotFound | Unavailable

record link_failure =
  lf_kind :: failure_kind
  lf_message :: string
  lf_authorizationRevision :: "string option"

record baseline =
  bl_title :: string
  bl_notes :: string
  bl_dueDate :: "string option"
  bl_status :: task_status

record external_link =
  el_creationUncertain :: bool
  el_state :: link_state
  el_destination :: task_destination
  el_remoteId :: "string option"
  el_url :: "string option"
  el_baseline :: "baseline option"
  el_external :: "baseline option"
  el_failure :: "link_failure option"
  el_updatedAt :: string

datatype responsible_person = Owner | PersonProfile (profileId: string)

record task_source =
  ts_actionItemId :: string
  ts_debriefRunId :: string
  ts_transcriptId :: string
  ts_meetingId :: "string option"

record task =
  task_version :: int
  task_id :: string
  task_title :: string
  task_notes :: string
  task_status :: task_status
  task_dueDate :: "string option"
  task_priority :: task_priority
  task_listId :: string
  task_responsiblePerson :: "responsible_person option"
  task_destination :: task_destination
  task_source :: "task_source option"
  task_externalLink :: "external_link option"
  task_createdAt :: string
  task_updatedAt :: string
  task_completedAt :: "string option"
  task_deletedAt :: "string option"

record task_list =
  tl_id :: string
  tl_name :: string
  tl_defaultDestination :: task_destination

text \<open>
  A creation request.  The fields that the code re-checks at run time keep the type \<open>unknown\<close>;
  an absent property is \<open>Undefined\<close>.
\<close>

record task_create_input =
  ci_title :: jsval
  ci_notes :: jsval
  ci_dueDate :: jsval
  ci_priority :: jsval
  ci_listId :: "string option"
  ci_responsiblePerson :: jsval
  ci_destination :: jsval

record task_update_input =
  ui_title :: jsval
  ui_notes :: jsval
  ui_dueDate :: jsval
  ui_priority :: jsval
  ui_listId :: "string option"
  ui_responsiblePerson :: jsval

text \<open>The candidate of a duplicate check.\<close>

record task_duplicate_candidate =
  dc_title :: jsval
  dc_dueDate :: jsval
  dc_responsiblePerson :: "responsible_person option option"

datatype action_item_policy = StageAll | AutoCreateMine

text \<open>
  The automatic promotion release and the owner's decisions.  \<open>Restricted\<close> carries its basis
  and when the restriction began; \<open>Released\<close> adds when it was released and on which evidence.
\<close>

datatype promotion_release =
    Restricted (release_basis: string) (release_since: "string option")
  | Released (release_basis: string) (release_since: "string option") (releasedAt: string)
      (evidence_reference: string) (evidence_checksum: string)

datatype decision_kind = Enable | Disable

record promotion_decision =
  pd_id :: string
  pd_kind :: decision_kind
  pd_at :: string

record promotion_authorization =
  pa_release :: promotion_release
  pa_decisions :: "promotion_decision list"

record authorization_facts =
  af_released :: bool
  af_enabledAt :: "string option"
  af_preference :: string
  af_basis :: string

datatype promotion_state = PromotionUnavailable | PromotionAvailable | PromotionActive

record promotion_status =
  ps_effective :: bool
  ps_state :: promotion_state
  ps_message :: string
  ps_nextAction :: "decision_kind option"

subsection \<open>Refusals\<close>

datatype task_error =
    InvalidTitle | InvalidNotes | InvalidListName | InvalidDueDate | InvalidPriority
  | InvalidResponsiblePerson | InvalidDestination | InvalidToken
  | TaskListNotFound | TaskListNotEmpty | InboxIsPermanent
  | TaskNotFound | TaskNotInTrash | LinkNotDrifted | LinkNotConflicted | ConfirmationRequired
  | TaskAlreadyLinked | TaskNotLinked | LinkNotMissing
  | ActionItemNotFound | ActionItemAlreadyPromoted | ActionItemDismissed
  | ActionItemRecoveryConflict | ActionItemVersionConflict | ActionItemNotPromotable
  | ActionItemRevisionNotFound | ActionItemReconciliationInvalid | ActionItemAmendmentInvalid
  | ActionItemMissingContentAcknowledgment | TaskVersionConflict

text \<open>
  What an operation on the Workspace may throw: a named refusal, an unreadable store
  (\<open>TaskStoreCorruptionError\<close>), a store of a later build (\<open>TaskStoreFormatError\<close>) or an
  inconsistent materialization (\<open>MaterializationIntegrityError\<close>).  The messages are prose for
  a person and are not modelled; callers branch on the code.
\<close>

datatype corruption =
    SnapshotUnreadable | VersionMetadataInvalid | FileNotJson | FileNotList | InvalidRecord nat

datatype ws_error =
    TaskRefused task_error
  | StoreCorrupt corruption
  | StoreFormat int
  | MaterializationIntegrity string

end
