(* ===== verification/Handoff.thy ===== *)
theory Handoff
  imports JsText
begin

section \<open>Meeting handoffs and responsibility claims\<close>

text \<open>
  The handoff and claim shapes of \<open>packages/shared/src/meeting-debrief.ts\<close> and the accessors of
  \<open>packages/shared/src/handoff-notes.ts\<close>.  A handoff is stored in the current shape
  (\<open>HandoffV2\<close>) or in the one written before provenance existed (\<open>HandoffV1\<close>); every reader goes
  through the accessors, which never upgrade an older claim.
\<close>

subsection \<open>Shapes\<close>

datatype handoff_provenance = Supported | Suggested | UnknownProvenance | Explicit | Inferred

datatype legacy_basis = LegacyExplicit | LegacyInferred

record handoff_source =
  hs_quote :: string
  hs_speaker :: "string option"
  hs_timestamp :: "string option"

record handoff_detail =
  hd_text :: string
  hd_provenance :: handoff_provenance
  hd_sources :: "handoff_source list"

datatype dependency_unresolved =
  AmbiguousTitle | NotExtracted | SelfReference | NotResolved | MissingRecord | RedirectCycle

datatype dependency_target =
    OutputTarget (target_entry: string)
  | UnresolvedTarget dependency_unresolved
  | ExternalTarget

datatype responsibility_basis = BasisExplicit | BasisInferred | BasisUnknown

record handoff_responsibility =
  hr_names :: "string list"
  hr_basis :: responsibility_basis
  hr_reason :: string

record missing_input =
  mi_information :: handoff_detail
  mi_obtainBy :: handoff_detail

datatype dependency_reference = ReferencesExtracted | ReferencesExternal

record handoff_dependency =
  hdp_actionTitle :: string
  hdp_condition :: string
  hdp_provenance :: handoff_provenance
  hdp_sources :: "handoff_source list"
  hdp_references :: dependency_reference
  hdp_target :: "dependency_target option"

datatype timing_kind = Deadline | Trigger | Unspecified

record handoff_timing =
  ht_kind :: timing_kind
  ht_stated :: string
  ht_referenceDate :: "string option"
  ht_reasoning :: string

record meeting_handoff =
  mh_commitment :: legacy_basis
  mh_purpose :: handoff_detail
  mh_responsibility :: handoff_responsibility
  mh_completionCriteria :: "handoff_detail list"
  mh_requiredInputs :: "handoff_detail list"
  mh_missingInputs :: "missing_input list"
  mh_dependencies :: "handoff_dependency list"
  mh_timing :: handoff_timing
  mh_evidence :: "handoff_source list"
  mh_statusReasoning :: string

record stored_missing_input =
  smi_information :: string
  smi_obtainBy :: string
  smi_basis :: legacy_basis

record stored_dependency =
  sd_actionTitle :: string
  sd_condition :: string
  sd_basis :: legacy_basis

record stored_meeting_handoff =
  smh_commitment :: legacy_basis
  smh_purpose :: string
  smh_responsibility :: handoff_responsibility
  smh_completionCriteria :: "(string \<times> legacy_basis) list"
  smh_requiredInputs :: "string list"
  smh_missingInputs :: "stored_missing_input list"
  smh_dependencies :: "stored_dependency list"
  smh_timing :: handoff_timing
  smh_evidence :: "handoff_source list"
  smh_statusReasoning :: string

datatype handoff_record =
  HandoffV1 stored_meeting_handoff | HandoffV2 meeting_handoff

text \<open>The fields both shapes share.\<close>

fun handoff_commitment :: "handoff_record \<Rightarrow> legacy_basis" where
  "handoff_commitment (HandoffV1 h) = smh_commitment h"
| "handoff_commitment (HandoffV2 h) = mh_commitment h"

fun handoff_responsibility_of :: "handoff_record \<Rightarrow> handoff_responsibility" where
  "handoff_responsibility_of (HandoffV1 h) = smh_responsibility h"
| "handoff_responsibility_of (HandoffV2 h) = mh_responsibility h"

fun handoff_timing_of :: "handoff_record \<Rightarrow> handoff_timing" where
  "handoff_timing_of (HandoffV1 h) = smh_timing h"
| "handoff_timing_of (HandoffV2 h) = mh_timing h"

fun handoff_evidence :: "handoff_record \<Rightarrow> handoff_source list" where
  "handoff_evidence (HandoffV1 h) = smh_evidence h"
| "handoff_evidence (HandoffV2 h) = mh_evidence h"

fun handoff_statusReasoning :: "handoff_record \<Rightarrow> string" where
  "handoff_statusReasoning (HandoffV1 h) = smh_statusReasoning h"
| "handoff_statusReasoning (HandoffV2 h) = mh_statusReasoning h"

subsection \<open>Accessors\<close>

fun basis_provenance :: "legacy_basis \<Rightarrow> handoff_provenance" where
  "basis_provenance LegacyExplicit = Explicit"
| "basis_provenance LegacyInferred = Inferred"

fun responsibility_provenance :: "responsibility_basis \<Rightarrow> handoff_provenance" where
  "responsibility_provenance BasisExplicit = Explicit"
| "responsibility_provenance BasisInferred = Inferred"
| "responsibility_provenance BasisUnknown = UnknownProvenance"

definition handoffProvenanceIsSupported :: "handoff_provenance \<Rightarrow> bool" where
  "handoffProvenanceIsSupported p \<longleftrightarrow> p = Supported \<or> p = Explicit"

fun provenance_text :: "handoff_provenance \<Rightarrow> string" where
  "provenance_text Supported = ''supported''"
| "provenance_text Suggested = ''suggested''"
| "provenance_text UnknownProvenance = ''unknown''"
| "provenance_text Explicit = ''explicit''"
| "provenance_text Inferred = ''inferred''"

fun commitment_text :: "legacy_basis \<Rightarrow> string" where
  "commitment_text LegacyExplicit = ''explicit''"
| "commitment_text LegacyInferred = ''inferred''"

fun handoffDependencyUnresolvedReason :: "dependency_unresolved \<Rightarrow> string" where
  "handoffDependencyUnresolvedReason AmbiguousTitle = ''two proposals share that title''"
| "handoffDependencyUnresolvedReason NotExtracted = ''no proposal in this Debrief matched''"
| "handoffDependencyUnresolvedReason SelfReference = ''it names itself''"
| "handoffDependencyUnresolvedReason NotResolved = ''no stable reference was recorded''"
| "handoffDependencyUnresolvedReason MissingRecord = ''the record it named is no longer held''"
| "handoffDependencyUnresolvedReason RedirectCycle = ''its reference points back at itself''"

fun handoffPurpose :: "handoff_record \<Rightarrow> handoff_detail" where
  "handoffPurpose (HandoffV1 h) =
     \<lparr>hd_text = smh_purpose h, hd_provenance = UnknownProvenance, hd_sources = []\<rparr>"
| "handoffPurpose (HandoffV2 h) = mh_purpose h"

fun handoffCompletionCriteria :: "handoff_record \<Rightarrow> handoff_detail list" where
  "handoffCompletionCriteria (HandoffV1 h) =
     map (\<lambda>(txt, basis). \<lparr>hd_text = txt, hd_provenance = basis_provenance basis, hd_sources = []\<rparr>)
       (smh_completionCriteria h)"
| "handoffCompletionCriteria (HandoffV2 h) = mh_completionCriteria h"

fun handoffRequiredInputs :: "handoff_record \<Rightarrow> handoff_detail list" where
  "handoffRequiredInputs (HandoffV1 h) =
     map (\<lambda>txt. \<lparr>hd_text = txt, hd_provenance = UnknownProvenance, hd_sources = []\<rparr>)
       (smh_requiredInputs h)"
| "handoffRequiredInputs (HandoffV2 h) = mh_requiredInputs h"

fun handoffMissingInputs :: "handoff_record \<Rightarrow> missing_input list" where
  "handoffMissingInputs (HandoffV1 h) =
     map (\<lambda>i. \<lparr>mi_information = \<lparr>hd_text = smi_information i,
                 hd_provenance = basis_provenance (smi_basis i), hd_sources = []\<rparr>,
               mi_obtainBy = \<lparr>hd_text = smi_obtainBy i, hd_provenance = Inferred,
                 hd_sources = []\<rparr>\<rparr>)
       (smh_missingInputs h)"
| "handoffMissingInputs (HandoffV2 h) = mh_missingInputs h"

record dependency_view =
  dv_wording :: string
  dv_condition :: string
  dv_provenance :: handoff_provenance
  dv_sources :: "handoff_source list"
  dv_target :: dependency_target

fun handoffDependencies :: "handoff_record \<Rightarrow> dependency_view list" where
  "handoffDependencies (HandoffV1 h) =
     map (\<lambda>d. \<lparr>dv_wording = sd_actionTitle d, dv_condition = sd_condition d,
               dv_provenance = basis_provenance (sd_basis d), dv_sources = [],
               dv_target = UnresolvedTarget NotResolved\<rparr>)
       (smh_dependencies h)"
| "handoffDependencies (HandoffV2 h) =
     map (\<lambda>d. \<lparr>dv_wording = hdp_actionTitle d, dv_condition = hdp_condition d,
               dv_provenance = hdp_provenance d, dv_sources = hdp_sources d,
               dv_target = (case hdp_target d of
                  None \<Rightarrow> UnresolvedTarget NotResolved | Some t \<Rightarrow> t)\<rparr>)
       (mh_dependencies h)"

subsection \<open>Execution notes\<close>

record note_row =
  nr_label :: string
  nr_text :: string
  nr_provenance :: "handoff_provenance option"
  nr_target :: "dependency_target option"
  nr_dependencyIndex :: "nat option"

definition plain_row :: "string \<Rightarrow> string \<Rightarrow> handoff_provenance option \<Rightarrow> note_row" where
  "plain_row label txt p = \<lparr>nr_label = label, nr_text = txt, nr_provenance = p,
     nr_target = None, nr_dependencyIndex = None\<rparr>"

text \<open>\<open>a || b\<close> on strings: the empty string is falsy.\<close>

definition or_text :: "string \<Rightarrow> string \<Rightarrow> string" where
  "or_text a b = (if a = [] then b else a)"

fun join_text :: "string \<Rightarrow> string list \<Rightarrow> string" where
  "join_text sep [] = []"
| "join_text sep [x] = x"
| "join_text sep (x # xs) = x @ sep @ join_text sep xs"

definition truthy_text :: "string option \<Rightarrow> bool" where
  "truthy_text v \<longleftrightarrow> (case v of None \<Rightarrow> False | Some s \<Rightarrow> s \<noteq> [])"

definition evidence_row :: "handoff_source \<Rightarrow> note_row" where
  "evidence_row src =
     (let stamp = (if truthy_text (hs_timestamp src) then [''at '' @ the (hs_timestamp src)] else []);
          whole = join_text '' '' ((case hs_speaker src of None \<Rightarrow> [] | Some s \<Rightarrow> [s]) @ stamp)
      in plain_row ''Evidence''
           ((if whole \<noteq> [] then whole @ '': '' else []) @ [CHR 0x22] @ hs_quote src @ [CHR 0x22]) None)"

definition timing_row :: "handoff_timing \<Rightarrow> note_row" where
  "timing_row t = plain_row ''Timing''
     (or_text (ht_stated t) ''Not stated'' @ ''. '' @ ht_reasoning t
        @ (if truthy_text (ht_referenceDate t)
           then '' Reference meeting date: '' @ the (ht_referenceDate t) @ ''.'' else [])) None"

definition dependency_row :: "nat \<Rightarrow> dependency_view \<Rightarrow> note_row" where
  "dependency_row i d =
     \<lparr>nr_label = ''Dependency'', nr_text = dv_wording d @ ''. '' @ dv_condition d,
      nr_provenance = Some (dv_provenance d), nr_target = Some (dv_target d),
      nr_dependencyIndex = Some i\<rparr>"

definition missing_input_rows :: "missing_input \<Rightarrow> note_row list" where
  "missing_input_rows i =
     [plain_row ''Missing input'' (hd_text (mi_information i)) (Some (hd_provenance (mi_information i))),
      plain_row (if handoffProvenanceIsSupported (hd_provenance (mi_obtainBy i))
                 then ''Retrieval'' else ''Suggested retrieval'')
        (hd_text (mi_obtainBy i)) (Some (hd_provenance (mi_obtainBy i)))]"

definition handoffNoteRows :: "handoff_record \<Rightarrow> note_row list" where
  "handoffNoteRows h =
     [plain_row ''Commitment'' (commitment_text (handoff_commitment h)) None,
      plain_row ''Purpose'' (or_text (hd_text (handoffPurpose h)) ''Not stated'')
        (Some (hd_provenance (handoffPurpose h))),
      plain_row ''Responsibility''
        (or_text (join_text '', '' (hr_names (handoff_responsibility_of h))) ''Unassigned''
          @ ''. '' @ hr_reason (handoff_responsibility_of h))
        (Some (responsibility_provenance (hr_basis (handoff_responsibility_of h))))]
     @ map (\<lambda>c. plain_row ''Completion'' (hd_text c) (Some (hd_provenance c)))
         (handoffCompletionCriteria h)
     @ map (\<lambda>i. plain_row ''Required input'' (hd_text i) (Some (hd_provenance i)))
         (handoffRequiredInputs h)
     @ concat (map missing_input_rows (handoffMissingInputs h))
     @ map (\<lambda>(i, d). dependency_row i d)
         (zip [0..<length (handoffDependencies h)] (handoffDependencies h))
     @ [timing_row (handoff_timing_of h),
        plain_row ''Status'' (or_text (handoff_statusReasoning h) ''Not stated'') None]
     @ (if handoff_evidence h = []
        then [plain_row ''Evidence''
               ''No verified transcript quote available; review against the source.'' None]
        else [])
     @ map evidence_row (handoff_evidence h)"

definition target_note :: "dependency_target option \<Rightarrow> string" where
  "target_note t = (case t of
     None \<Rightarrow> []
   | Some (OutputTarget _) \<Rightarrow> []
   | Some ExternalTarget \<Rightarrow> '' (outside this Debrief)''
   | Some (UnresolvedTarget r) \<Rightarrow>
       '' (unresolved: '' @ handoffDependencyUnresolvedReason r @ '')'')"

definition noteLine :: "note_row \<Rightarrow> string" where
  "noteLine row = (case nr_provenance row of
     None \<Rightarrow> nr_label row @ '': '' @ nr_text row
   | Some p \<Rightarrow> nr_label row @ '' ['' @ provenance_text p @ '']''
       @ (if nr_label row = ''Completion'' then '' '' else '': '') @ nr_text row
       @ target_note (nr_target row))"

definition handoffNotes :: "handoff_record \<Rightarrow> string" where
  "handoffNotes h = join_text [CHR 0x0A] (map noteLine (handoffNoteRows h))"

subsection \<open>Responsibility claims\<close>

datatype responsibility_relationship =
  SelfCommitment | AcceptedRequest | RequestOnly | ReportedCommitment | SharedWork | UnresolvedWork

datatype later_update_kind = Completion | Cancellation | Reassignment | Qualification

record occurrence =
  oc_quote :: string
  oc_speaker :: "string option"
  oc_timestamp :: "string option"
  oc_locator :: string

record later_update =
  lu_kind :: later_update_kind
  lu_occurrence :: occurrence

record claim_contract =
  cc_contractVersion :: int
  cc_validatorVersion :: int
  cc_transcriptId :: string
  cc_observedRevision :: "int option"
  cc_checksum :: "string option"
  cc_contextChecksum :: string
  cc_validatedAt :: string

record responsibility_claim =
  rc_version :: int
  rc_obligation :: string
  rc_speaker :: "string option"
  rc_statement :: occurrence
  rc_performerName :: "string option"
  rc_performerBasis :: responsibility_basis
  rc_relationship :: responsibility_relationship
  rc_assignment :: "occurrence option"
  rc_acceptance :: "occurrence option"
  rc_laterUpdates :: "later_update list"
  rc_unresolvedReasons :: "string list"
  rc_contract :: claim_contract

definition RESPONSIBILITY_CLAIM_VERSION :: int where
  "RESPONSIBILITY_CLAIM_VERSION = 1"

definition RESPONSIBILITY_CLAIM_VALIDATOR_VERSION :: int where
  "RESPONSIBILITY_CLAIM_VALIDATOR_VERSION = 1"

text \<open>The structural check of a stored claim: non-empty texts and the supported versions.\<close>

definition occurrence_sound :: "occurrence \<Rightarrow> bool" where
  "occurrence_sound o' \<longleftrightarrow> oc_quote o' \<noteq> [] \<and> oc_locator o' \<noteq> []"

definition responsibilityClaimSound :: "responsibility_claim \<Rightarrow> bool" where
  "responsibilityClaimSound c \<longleftrightarrow>
     rc_version c = RESPONSIBILITY_CLAIM_VERSION
     \<and> rc_obligation c \<noteq> []
     \<and> occurrence_sound (rc_statement c)
     \<and> (case rc_performerName c of None \<Rightarrow> True | Some n \<Rightarrow> n \<noteq> [])
     \<and> (case rc_assignment c of None \<Rightarrow> True | Some o' \<Rightarrow> occurrence_sound o')
     \<and> (case rc_acceptance c of None \<Rightarrow> True | Some o' \<Rightarrow> occurrence_sound o')
     \<and> list_all (\<lambda>u. occurrence_sound (lu_occurrence u)) (rc_laterUpdates c)
     \<and> list_all (\<lambda>r. r \<noteq> []) (rc_unresolvedReasons c)
     \<and> cc_contractVersion (rc_contract c) = RESPONSIBILITY_CLAIM_VERSION
     \<and> 0 < cc_validatorVersion (rc_contract c)
     \<and> cc_transcriptId (rc_contract c) \<noteq> []
     \<and> cc_contextChecksum (rc_contract c) \<noteq> []
     \<and> cc_validatedAt (rc_contract c) \<noteq> []"

end
