(* ===== verification/ActionItemTypes.thy ===== *)
theory ActionItemTypes
  imports TaskTypes Handoff
begin

section \<open>Action Items\<close>

text \<open>
  The data of \<open>packages/shared/src/action-item.ts\<close> and its pure readers: the content promotion
  accepts, the standing reconciliation, the newest revision, and the promotability rule.
\<close>

datatype action_item_state = Pending | Promoted | Dismissed

datatype promotion_claim = FirstExtraction | ReviewOnlyClaim | UnknownClaim

record stored_authorization =
  sau_released :: bool
  sau_enabledAt :: "string option"
  sau_preference :: string
  sau_basis :: string

record promotion_reservation =
  pr_claim :: promotion_claim
  pr_basis :: string
  pr_operationId :: "string option"
  pr_reservedAt :: string
  pr_authorization :: "stored_authorization option"

record action_item_source =
  as_debriefRunId :: string
  as_transcriptId :: string
  as_meetingId :: "string option"
  as_reviewOnly :: bool
  as_contextChecksum :: "string option"
  as_promotion :: "promotion_reservation option"

record action_item_evidence =
  ae_responsibleMentionId :: "string option"
  ae_responsibleSurfaceName :: "string option"

record proposal =
  pp_title :: string
  pp_notes :: string
  pp_dueDate :: "string option"
  pp_responsiblePerson :: "responsible_person option"

record extraction_origin =
  eo_debriefRunId :: string
  eo_transcriptId :: string
  eo_meetingId :: "string option"
  eo_materializationKey :: string
  eo_outputEntryId :: string
  eo_payloadChecksum :: string
  eo_candidateAlias :: "string option"

datatype proposal_origin =
    Extraction extraction_origin
  | LegacyImport "string option"
  | OwnerCorrection int

record proposal_revision =
  rv_revision :: int
  rv_content :: proposal
  rv_origin :: proposal_origin
  rv_extractionRevision :: int
  rv_createdAt :: string

record item_occurrence =
  io_locator :: string
  io_timestamp :: "string option"
  io_quote :: "string option"

record source_observation =
  ob_id :: string
  ob_proposalRevision :: int
  ob_transcriptId :: string
  ob_transcriptObservedRevision :: "int option"
  ob_transcriptChecksum :: "string option"
  ob_occurrence :: item_occurrence
  ob_artifactId :: "string option"
  ob_outputEntryId :: "string option"
  ob_candidateAliases :: "string list"
  ob_notedAt :: string

datatype disposition = Unresolved | DistinctNewWork | NewCommitment | EvidenceOfHistorical

record item_versions =
  iv_actionItemVersion :: int
  iv_proposalRevision :: int
  iv_taskId :: "string option"
  iv_taskVersion :: "int option"

datatype decider = DecidedByOwner | DecidedByExtraction

record reconciliation =
  rn_id :: string
  rn_proposalRevision :: int
  rn_debriefRunId :: "string option"
  rn_disposition :: disposition
  rn_targetActionItemId :: "string option"
  rn_candidateActionItemIds :: "string list"
  rn_decidedBy :: decider
  rn_decidedAt :: string
  rn_versions :: item_versions

datatype item_decision_kind =
    DPromote | DDismiss | DRestore | DSelectProposal | DReconcile | DAttachEvidence
  | DCorrectProposal | DSuggestAmendment | DApplyAmendment | DDeclineAmendment

record decision_record =
  dr_at :: string
  dr_actor :: string
  dr_kind :: item_decision_kind
  dr_proposalRevision :: int
  dr_versions :: item_versions
  dr_missingContentAcknowledged :: bool

text \<open>A partial proposal: an absent field is \<open>None\<close>, a field set to null is \<open>Some None\<close>.\<close>

record proposal_fields =
  pf_title :: "string option"
  pf_notes :: "string option"
  pf_dueDate :: "string option option"
  pf_responsiblePerson :: "responsible_person option option"

datatype amendment_status = AmendmentSuggested | AmendmentApplied | AmendmentDeclined

record amendment =
  am_id :: string
  am_taskId :: string
  am_proposalRevision :: int
  am_fields :: proposal_fields
  am_observedTaskVersion :: int
  am_status :: amendment_status
  am_createdAt :: string
  am_resolvedAt :: "string option"

record action_item =
  ai_handoff :: "handoff_record option"
  ai_responsibilityClaim :: "responsibility_claim option"
  ai_id :: string
  ai_source :: action_item_source
  ai_extractionRevision :: int
  ai_evidence :: action_item_evidence
  ai_proposalRevisions :: "proposal_revision list"
  ai_selectedRevision :: int
  ai_reviewedThrough :: int
  ai_observations :: "source_observation list"
  ai_decisions :: "decision_record list"
  ai_reconciliations :: "reconciliation list"
  ai_reconciledInto :: "string option"
  ai_amendments :: "amendment list"
  ai_version :: int
  ai_state :: action_item_state
  ai_promotedTaskId :: "string option"
  ai_createdAt :: string
  ai_updatedAt :: string
  ai_decidedAt :: "string option"

text \<open>
  A resolved dependency reference, as the queue reports it.
\<close>

datatype resolved_target =
    ResolvedItem (resolved_id: string) (resolved_revision: int) (redirected_from: "string option")
  | ResolvedNot dependency_unresolved
  | ResolvedExternal

record resolved_dependency =
  rd_wording :: string
  rd_condition :: string
  rd_provenance :: handoff_provenance
  rd_target :: resolved_target

record dependency_mapping =
  dm_index :: nat
  dm_wording :: string
  dm_target :: dependency_target

record materialization_mapping =
  mm_key :: string
  mm_debriefRunId :: string
  mm_outputEntryId :: string
  mm_candidateAlias :: "string option"
  mm_payloadChecksum :: string
  mm_actionItemId :: string
  mm_proposalRevision :: int
  mm_allocatedAt :: string
  mm_dependencies :: "dependency_mapping list"

subsection \<open>Readers\<close>

text \<open>
  The selected revision's content; without one the content of the first revision.  Every stored
  record has a revision (the store refuses one without), so the head of the list exists.
\<close>

definition actionItemProposal :: "action_item \<Rightarrow> proposal" where
  "actionItemProposal item =
     (case find_by rv_revision (ai_selectedRevision item) (ai_proposalRevisions item) of
        Some r \<Rightarrow> rv_content r
      | None \<Rightarrow> rv_content (hd (ai_proposalRevisions item)))"

definition currentReconciliation :: "action_item \<Rightarrow> reconciliation option" where
  "currentReconciliation item =
     (if ai_reconciliations item = [] then None else Some (last (ai_reconciliations item)))"

definition latestProposalRevision :: "action_item \<Rightarrow> int" where
  "latestProposalRevision item =
     foldl (\<lambda>m r. max m (rv_revision r)) 0 (ai_proposalRevisions item)"

definition selectionPending :: "action_item \<Rightarrow> bool" where
  "selectionPending item \<longleftrightarrow> ai_reviewedThrough item < latestProposalRevision item"

definition standing_disposition :: "action_item \<Rightarrow> disposition option" where
  "standing_disposition item = map_option rn_disposition (currentReconciliation item)"

definition promotable :: "action_item \<Rightarrow> bool" where
  "promotable item \<longleftrightarrow>
     ai_state item = Pending
     \<and> ai_reconciledInto item = None
     \<and> standing_disposition item \<noteq> Some Unresolved
     \<and> \<not> selectionPending item"

lemma foldl_max_ge: "(m::int) \<le> foldl (\<lambda>m r. max m (f r)) m xs"
proof (induction xs arbitrary: m)
  case (Cons a xs)
  have "m \<le> max m (f a)" by simp
  also have "\<dots> \<le> foldl (\<lambda>m r. max m (f r)) (max m (f a)) xs" by (rule Cons.IH)
  finally show ?case by simp
qed simp

lemma foldl_max_mem: "x \<in> set xs \<Longrightarrow> f x \<le> foldl (\<lambda>m r. max m (f r)) (m::int) xs"
proof (induction xs arbitrary: m)
  case (Cons y ys)
  have "f y \<le> foldl (\<lambda>m r. max m (f r)) (max m (f y)) ys"
    by (rule order_trans [OF _ foldl_max_ge]) simp
  with Cons show ?case by auto
qed simp

lemma foldl_max_le:
  "(m::int) \<le> b \<Longrightarrow> (\<And>x. x \<in> set xs \<Longrightarrow> f x \<le> b) \<Longrightarrow> foldl (\<lambda>m r. max m (f r)) m xs \<le> b"
  by (induction xs arbitrary: m) auto

lemma latestProposalRevision_ge:
  "r \<in> set (ai_proposalRevisions item) \<Longrightarrow> rv_revision r \<le> latestProposalRevision item"
  by (simp add: latestProposalRevision_def foldl_max_mem)

lemma latestProposalRevision_snoc:
  "ai_proposalRevisions item' = ai_proposalRevisions item @ [r] \<Longrightarrow>
   latestProposalRevision item' = max (latestProposalRevision item) (rv_revision r)"
  by (simp add: latestProposalRevision_def)

lemma latestProposalRevision_cong:
  "ai_proposalRevisions item' = ai_proposalRevisions item \<Longrightarrow>
   latestProposalRevision item' = latestProposalRevision item"
  by (simp add: latestProposalRevision_def)

lemma standing_disposition_Nil: "ai_reconciliations item = [] \<Longrightarrow> standing_disposition item = None"
  by (simp add: standing_disposition_def currentReconciliation_def)

lemma standing_disposition_snoc:
  "ai_reconciliations item = rs @ [r] \<Longrightarrow> standing_disposition item = Some (rn_disposition r)"
  by (simp add: standing_disposition_def currentReconciliation_def)

end
