(* ===== verification/TaskStore.thy ===== *)
theory TaskStore
  imports ActionItemTypes
begin

section \<open>The Workspace task store\<close>

text \<open>
  \<open>apps/server/src/tasks/store.ts\<close>.  The state is what is on disk: the canonical snapshot
  \<open>state.json\<close> and the three per-record files.  A parsed file is a list of entries, each the JSON
  value the guards examine together with the record it is read as; a file may also be missing, not
  JSON or not a list.

  A record written before a field existed lacks it: \<open>stored_task\<close> and \<open>stored_item\<close> hold the later
  fields as options, and reading fills them in.  Writing through the verified commit
  (\<open>writeJsonVerifiedSync\<close>) replaces the file; input/output failures of the disk are not modelled.

  The locale \<open>table\<close> is the contract the operations above rely on (what was written is read back,
  a store that is not writable refuses without changing); it is interpreted for the Tasks, the
  Task Lists and the Action Items.
\<close>

subsection \<open>What is on disk\<close>

record stored_task =
  st_task :: task
  st_externalLink :: "external_link option option"
  st_deletedAt :: "string option option"
  st_version :: "int option"

record stored_item =
  sa_item :: action_item
  sa_proposal :: "proposal option option"
  sa_proposalRevisions :: "proposal_revision list option"
  sa_selectedRevision :: "int option"
  sa_reviewedThrough :: "int option"
  sa_observations :: "source_observation list option"
  sa_decisions :: "decision_record list option"
  sa_reconciliations :: "reconciliation list option"
  sa_reconciledInto :: "string option"
  sa_amendments :: "amendment list option"
  sa_version :: "int option"

datatype receipt_origin = Pristine | Migrated

record cutover_counts =
  co_legacyRuns :: int
  co_receipts :: int
  co_tasks :: int
  co_actionItems :: int
  co_taskLists :: int
  co_tasksToCreate :: int
  co_actionItemsToCreate :: int

record cutover_receipt =
  cr_origin :: receipt_origin
  cr_workspace :: string
  cr_fingerprint :: string
  cr_counts :: cutover_counts
  cr_completedAt :: string

datatype 'r record_file = FileMissing | FileBadJson | FileNotArray | FileRecords "(jsval \<times> 'r) list"

text \<open>
  A parsed snapshot object.  \<open>None\<close> stands for a property that is missing or not a list; the
  receipt is \<open>None\<close> when the schema refuses it.
\<close>

record snapshot_doc =
  sn_format :: jsval
  sn_generation :: jsval
  sn_tasks :: "(jsval \<times> stored_task) list option"
  sn_lists :: "(jsval \<times> task_list) list option"
  sn_actionItems :: "(jsval \<times> stored_item) list option"
  sn_receipt :: "cutover_receipt option"

datatype snapshot = NoSnapshot | SnapshotBadJson | SnapshotNotObject | SnapshotDoc snapshot_doc

record wstore =
  ws_snapshot :: snapshot
  ws_tasksFile :: "stored_task record_file"
  ws_listsFile :: "task_list record_file"
  ws_actionItemsFile :: "stored_item record_file"

record task_bundle =
  bd_format :: int
  bd_generation :: int
  bd_tasks :: "(jsval \<times> stored_task) list"
  bd_lists :: "(jsval \<times> task_list) list"
  bd_actionItems :: "action_item list"
  bd_receipt :: cutover_receipt

abbreviation BUNDLE_FORMAT :: int where
  "BUNDLE_FORMAT \<equiv> 3"

subsection \<open>Guards\<close>

definition record_value :: "jsval \<Rightarrow> bool" where
  "record_value v \<longleftrightarrow> is_object v \<and> v \<noteq> JNull"

definition isTask :: "jsval \<Rightarrow> bool" where
  "isTask v \<longleftrightarrow> record_value v
     \<and> is_string (field v ''id'')
     \<and> is_string (field v ''title'')
     \<and> is_string (field v ''listId'')
     \<and> is_string (field v ''createdAt'')
     \<and> (field v ''status'' = JStr ''open'' \<or> field v ''status'' = JStr ''completed'')"

definition isTaskList :: "jsval \<Rightarrow> bool" where
  "isTaskList v \<longleftrightarrow> record_value v \<and> is_string (field v ''id'') \<and> is_string (field v ''name'')"

definition isRevisionEntry :: "jsval \<Rightarrow> bool" where
  "isRevisionEntry v \<longleftrightarrow> record_value v \<and> is_object (field v ''content'')
     \<and> is_number (field v ''revision'')"

definition isActionItem :: "jsval \<Rightarrow> bool" where
  "isActionItem v \<longleftrightarrow> record_value v
     \<and> is_string (field v ''id'')
     \<and> (record_value (field v ''proposal'')
        \<or> (case field v ''proposalRevisions'' of
             JArr rs \<Rightarrow> rs \<noteq> [] \<and> list_all isRevisionEntry rs | _ \<Rightarrow> False))
     \<and> is_object (field v ''source'')
     \<and> field v ''state'' \<in> {JStr ''pending'', JStr ''promoted'', JStr ''dismissed''}"

text \<open>The part of a written record's JSON that the guards examine.\<close>

definition task_view :: "task \<Rightarrow> jsval" where
  "task_view t = JObj
     [(''id'', JStr (task_id t)), (''title'', JStr (task_title t)),
      (''listId'', JStr (task_listId t)), (''createdAt'', JStr (task_createdAt t)),
      (''status'', JStr (case task_status t of Open \<Rightarrow> ''open'' | Completed \<Rightarrow> ''completed''))]"

definition list_view :: "task_list \<Rightarrow> jsval" where
  "list_view l = JObj [(''id'', JStr (tl_id l)), (''name'', JStr (tl_name l))]"

definition item_view :: "action_item \<Rightarrow> jsval" where
  "item_view i = JObj
     [(''id'', JStr (ai_id i)),
      (''proposalRevisions'', JArr (map (\<lambda>r. JObj [(''content'', JObj []), (''revision'', JNum (rv_revision r))])
          (ai_proposalRevisions i))),
      (''source'', JObj []),
      (''state'', JStr (case ai_state i of Pending \<Rightarrow> ''pending'' | Promoted \<Rightarrow> ''promoted''
          | Dismissed \<Rightarrow> ''dismissed''))]"

lemma isTask_view [simp]: "isTask (task_view t)"
  by (cases "task_status t") (simp_all add: isTask_def task_view_def record_value_def)

lemma isTaskList_view [simp]: "isTaskList (list_view l)"
  by (simp add: isTaskList_def list_view_def record_value_def)

lemma isActionItem_view [simp]: "isActionItem (item_view i) \<longleftrightarrow> ai_proposalRevisions i \<noteq> []"
  by (cases "ai_state i")
    (simp_all add: isActionItem_def item_view_def record_value_def isRevisionEntry_def list_all_iff)

subsection \<open>Reading older records\<close>

definition read_task :: "stored_task \<Rightarrow> task" where
  "read_task st = (st_task st)\<lparr>
     task_externalLink := (case st_externalLink st of None \<Rightarrow> None | Some l \<Rightarrow> l),
     task_deletedAt := (case st_deletedAt st of None \<Rightarrow> None | Some d \<Rightarrow> d),
     task_version := (case st_version st of None \<Rightarrow> 1 | Some v \<Rightarrow> v)\<rparr>"

definition store_task :: "task \<Rightarrow> stored_task" where
  "store_task t = \<lparr>st_task = t, st_externalLink = Some (task_externalLink t),
     st_deletedAt = Some (task_deletedAt t), st_version = Some (task_version t)\<rparr>"

lemma read_store_task [simp]: "read_task (store_task t) = t"
  by (simp add: read_task_def store_task_def)

definition or_else :: "'a option \<Rightarrow> 'a \<Rightarrow> 'a" where
  "or_else v d = (case v of None \<Rightarrow> d | Some x \<Rightarrow> x)"

lemma or_else_simps [simp]: "or_else None d = d" "or_else (Some x) d = x"
  by (simp_all add: or_else_def)

definition empty_proposal :: proposal where
  "empty_proposal = \<lparr>pp_title = [], pp_notes = [], pp_dueDate = None, pp_responsiblePerson = None\<rparr>"

definition legacy_observation :: "action_item \<Rightarrow> source_observation" where
  "legacy_observation i = \<lparr>ob_id = ''observation_legacy_'' @ ai_id i, ob_proposalRevision = 1,
     ob_transcriptId = as_transcriptId (ai_source i), ob_transcriptObservedRevision = None,
     ob_transcriptChecksum = None,
     ob_occurrence = \<lparr>io_locator = ''legacy:unknown'', io_timestamp = None, io_quote = None\<rparr>,
     ob_artifactId = None, ob_outputEntryId = None, ob_candidateAliases = [],
     ob_notedAt = ai_createdAt i\<rparr>"

definition legacy_revision :: "action_item \<Rightarrow> proposal \<Rightarrow> proposal_revision" where
  "legacy_revision i content = \<lparr>rv_revision = 1, rv_content = content,
     rv_origin = LegacyImport (Some (as_debriefRunId (ai_source i))),
     rv_extractionRevision = ai_extractionRevision i, rv_createdAt = ai_createdAt i\<rparr>"

definition legacy_content :: "stored_item \<Rightarrow> proposal" where
  "legacy_content st =
     (case sa_proposal st of
        Some (Some p) \<Rightarrow> p
      | _ \<Rightarrow> (case sa_proposalRevisions st of Some (r # _) \<Rightarrow> rv_content r | _ \<Rightarrow> empty_proposal))"

definition normalizeActionItem :: "stored_item \<Rightarrow> action_item" where
  "normalizeActionItem st =
     (let rest = sa_item st; revisions = or_else (sa_proposalRevisions st) [] in
      if revisions \<noteq> [] \<and> sa_proposal st = None then
        rest\<lparr>ai_proposalRevisions := revisions,
          ai_selectedRevision := or_else (sa_selectedRevision st) 1,
          ai_reviewedThrough := or_else (sa_reviewedThrough st) (or_else (sa_selectedRevision st) 1),
          ai_observations := or_else (sa_observations st) [],
          ai_decisions := or_else (sa_decisions st) [],
          ai_reconciliations := or_else (sa_reconciliations st) [],
          ai_reconciledInto := sa_reconciledInto st,
          ai_amendments := or_else (sa_amendments st) [],
          ai_version := or_else (sa_version st) 1\<rparr>
      else
        rest\<lparr>ai_proposalRevisions := [legacy_revision rest (legacy_content st)],
          ai_selectedRevision := 1,
          ai_reviewedThrough := 1,
          ai_observations := or_else (sa_observations st) [legacy_observation rest],
          ai_decisions := or_else (sa_decisions st) [],
          ai_reconciliations := or_else (sa_reconciliations st) [],
          ai_reconciledInto := sa_reconciledInto st,
          ai_amendments := or_else (sa_amendments st) [],
          ai_version := or_else (sa_version st) 1\<rparr>)"

definition store_item :: "action_item \<Rightarrow> stored_item" where
  "store_item i = \<lparr>sa_item = i, sa_proposal = None,
     sa_proposalRevisions = Some (ai_proposalRevisions i),
     sa_selectedRevision = Some (ai_selectedRevision i),
     sa_reviewedThrough = Some (ai_reviewedThrough i),
     sa_observations = Some (ai_observations i), sa_decisions = Some (ai_decisions i),
     sa_reconciliations = Some (ai_reconciliations i),
     sa_reconciledInto = ai_reconciledInto i, sa_amendments = Some (ai_amendments i),
     sa_version = Some (ai_version i)\<rparr>"

lemma normalize_store_item:
  "ai_proposalRevisions i \<noteq> [] \<Longrightarrow> normalizeActionItem (store_item i) = i"
  by (simp add: normalizeActionItem_def store_item_def)

lemma normalize_has_revision: "ai_proposalRevisions (normalizeActionItem st) \<noteq> []"
  by (simp add: normalizeActionItem_def Let_def)

subsection \<open>The canonical bundle\<close>

definition bundle_doc :: "snapshot_doc \<Rightarrow> ws_error + task_bundle" where
  "bundle_doc d = (case (sn_tasks d, sn_lists d, sn_actionItems d, sn_receipt d) of
     (Some ts, Some ls, Some is, Some rc) \<Rightarrow>
       if list_all (isTask \<circ> fst) ts \<and> list_all (isTaskList \<circ> fst) ls
          \<and> list_all (isActionItem \<circ> fst) is then
         (let format = (if sn_format d = Undefined then JNum 1 else sn_format d);
              generation = (if sn_generation d = Undefined then JNum 0 else sn_generation d)
          in case (format, generation) of
               (JNum f, JNum g) \<Rightarrow>
                 if \<not> is_safe_integer format \<or> f < 1 \<or> \<not> is_safe_integer generation \<or> g < 0
                 then Inl (StoreCorrupt VersionMetadataInvalid)
                 else if BUNDLE_FORMAT < f then Inl (StoreFormat f)
                 else Inr \<lparr>bd_format = f, bd_generation = g, bd_tasks = ts, bd_lists = ls,
                        bd_actionItems = map (normalizeActionItem \<circ> snd) is, bd_receipt = rc\<rparr>
             | _ \<Rightarrow> Inl (StoreCorrupt VersionMetadataInvalid))
       else Inl (StoreCorrupt SnapshotUnreadable)
   | _ \<Rightarrow> Inl (StoreCorrupt SnapshotUnreadable))"

definition readBundle :: "wstore \<Rightarrow> ws_error + task_bundle option" where
  "readBundle s = (case ws_snapshot s of
     NoSnapshot \<Rightarrow> Inr None
   | SnapshotBadJson \<Rightarrow> Inl (StoreCorrupt SnapshotUnreadable)
   | SnapshotNotObject \<Rightarrow> Inl (StoreCorrupt SnapshotUnreadable)
   | SnapshotDoc d \<Rightarrow> (case bundle_doc d of Inl e \<Rightarrow> Inl e | Inr b \<Rightarrow> Inr (Some b)))"

definition readGeneration :: "wstore \<Rightarrow> ws_error + int" where
  "readGeneration s = (case readBundle s of Inl e \<Rightarrow> Inl e
     | Inr None \<Rightarrow> Inr 0 | Inr (Some b) \<Rightarrow> Inr (bd_generation b))"

definition cutoverReceipt :: "wstore \<Rightarrow> ws_error + cutover_receipt option" where
  "cutoverReceipt s = (case readBundle s of Inl e \<Rightarrow> Inl e
     | Inr None \<Rightarrow> Inr None | Inr (Some b) \<Rightarrow> Inr (Some (bd_receipt b)))"

text \<open>The document a bundle is written as, with the current format and the next generation.\<close>

definition bundle_json :: "task_bundle \<Rightarrow> snapshot_doc" where
  "bundle_json b = \<lparr>sn_format = JNum (bd_format b), sn_generation = JNum (bd_generation b),
     sn_tasks = Some (bd_tasks b), sn_lists = Some (bd_lists b),
     sn_actionItems = Some (map (\<lambda>i. (item_view i, store_item i)) (bd_actionItems b)),
     sn_receipt = Some (bd_receipt b)\<rparr>"

definition nextBundle :: "task_bundle \<Rightarrow> wstore \<Rightarrow> ws_error + task_bundle" where
  "nextBundle next s = (case readGeneration s of Inl e \<Rightarrow> Inl e
     | Inr g \<Rightarrow> Inr (next\<lparr>bd_format := BUNDLE_FORMAT, bd_generation := g + 1\<rparr>))"

definition writeSnapshot :: "task_bundle \<Rightarrow> (wstore, ws_error, unit) cmd" where
  "writeSnapshot next = (\<lambda>s. case nextBundle next s of
      Inl e \<Rightarrow> (Inl e, s)
    | Inr b \<Rightarrow> (Inr (), s\<lparr>ws_snapshot := SnapshotDoc (bundle_json b)\<rparr>))"

subsection \<open>Reading and writing\<close>

definition first_invalid :: "(jsval \<Rightarrow> bool) \<Rightarrow> (jsval \<times> 'r) list \<Rightarrow> nat option" where
  "first_invalid guard es =
     (let n = length (takeWhile (guard \<circ> fst) es) in if n < length es then Some n else None)"

definition readRecords :: "(jsval \<Rightarrow> bool) \<Rightarrow> 'r record_file \<Rightarrow> ws_error + 'r list" where
  "readRecords guard f = (case f of
     FileMissing \<Rightarrow> Inr []
   | FileBadJson \<Rightarrow> Inl (StoreCorrupt FileNotJson)
   | FileNotArray \<Rightarrow> Inl (StoreCorrupt FileNotList)
   | FileRecords es \<Rightarrow> (case first_invalid guard es of
        Some i \<Rightarrow> Inl (StoreCorrupt (InvalidRecord i)) | None \<Rightarrow> Inr (map snd es)))"

definition map_result :: "('a \<Rightarrow> 'b) \<Rightarrow> 'e + 'a \<Rightarrow> 'e + 'b" where
  "map_result f r = (case r of Inl e \<Rightarrow> Inl e | Inr x \<Rightarrow> Inr (f x))"

definition readTasks :: "wstore \<Rightarrow> ws_error + task list" where
  "readTasks s = (case readBundle s of Inl e \<Rightarrow> Inl e
     | Inr (Some b) \<Rightarrow> Inr (map (read_task \<circ> snd) (bd_tasks b))
     | Inr None \<Rightarrow> map_result (map read_task) (readRecords isTask (ws_tasksFile s)))"

definition readLists :: "wstore \<Rightarrow> ws_error + task_list list" where
  "readLists s = (case readBundle s of Inl e \<Rightarrow> Inl e
     | Inr (Some b) \<Rightarrow> Inr (map snd (bd_lists b))
     | Inr None \<Rightarrow> readRecords isTaskList (ws_listsFile s))"

definition readActionItems :: "wstore \<Rightarrow> ws_error + action_item list" where
  "readActionItems s = (case readBundle s of Inl e \<Rightarrow> Inl e
     | Inr (Some b) \<Rightarrow> Inr (bd_actionItems b)
     | Inr None \<Rightarrow> map_result (map normalizeActionItem) (readRecords isActionItem (ws_actionItemsFile s)))"

definition task_entries :: "task list \<Rightarrow> (jsval \<times> stored_task) list" where
  "task_entries ts = map (\<lambda>t. (task_view t, store_task t)) ts"

definition list_entries :: "task_list list \<Rightarrow> (jsval \<times> task_list) list" where
  "list_entries ls = map (\<lambda>l. (list_view l, l)) ls"

definition item_entries :: "action_item list \<Rightarrow> (jsval \<times> stored_item) list" where
  "item_entries is = map (\<lambda>i. (item_view i, store_item i)) is"

definition writeTasks :: "task list \<Rightarrow> (wstore, ws_error, unit) cmd" where
  "writeTasks ts = andThen (query readBundle) (\<lambda>b. case b of
      Some b \<Rightarrow> writeSnapshot (b\<lparr>bd_tasks := task_entries ts\<rparr>)
    | None \<Rightarrow> (\<lambda>s. (Inr (), s\<lparr>ws_tasksFile := FileRecords (task_entries ts)\<rparr>)))"

definition writeLists :: "task_list list \<Rightarrow> (wstore, ws_error, unit) cmd" where
  "writeLists ls = andThen (query readBundle) (\<lambda>b. case b of
      Some b \<Rightarrow> writeSnapshot (b\<lparr>bd_lists := list_entries ls\<rparr>)
    | None \<Rightarrow> (\<lambda>s. (Inr (), s\<lparr>ws_listsFile := FileRecords (list_entries ls)\<rparr>)))"

definition writeActionItems :: "action_item list \<Rightarrow> (wstore, ws_error, unit) cmd" where
  "writeActionItems is = andThen (query readBundle) (\<lambda>b. case b of
      Some b \<Rightarrow> writeSnapshot (b\<lparr>bd_actionItems := is\<rparr>)
    | None \<Rightarrow> (\<lambda>s. (Inr (), s\<lparr>ws_actionItemsFile := FileRecords (item_entries is)\<rparr>)))"

text \<open>The two commits of a Workspace still on the per-record files, in their order.\<close>

definition commitTasksFile :: "task list \<Rightarrow> (wstore, ws_error, unit) cmd" where
  "commitTasksFile ts = (\<lambda>s. (Inr (), s\<lparr>ws_tasksFile := FileRecords (task_entries ts)\<rparr>))"

definition commitItemsFile :: "action_item list \<Rightarrow> (wstore, ws_error, unit) cmd" where
  "commitItemsFile is = (\<lambda>s. (Inr (), s\<lparr>ws_actionItemsFile := FileRecords (item_entries is)\<rparr>))"

definition commitAcceptance :: "task list \<Rightarrow> action_item list \<Rightarrow> (wstore, ws_error, unit) cmd" where
  "commitAcceptance ts is = andThen (query readBundle) (\<lambda>b. case b of
      Some b \<Rightarrow> writeSnapshot (b\<lparr>bd_tasks := task_entries ts, bd_actionItems := is\<rparr>)
    | None \<Rightarrow> andThen (commitTasksFile ts) (\<lambda>_. commitItemsFile is))"

definition publishCutover ::
  "task list \<Rightarrow> task_list list \<Rightarrow> action_item list \<Rightarrow> cutover_receipt \<Rightarrow> (wstore, ws_error, unit) cmd" where
  "publishCutover ts ls is rc = writeSnapshot
     \<lparr>bd_format = BUNDLE_FORMAT, bd_generation = 0, bd_tasks = task_entries ts,
      bd_lists = list_entries ls, bd_actionItems = is, bd_receipt = rc\<rparr>"

subsection \<open>The contract of a table\<close>

text \<open>
  What the operations of the Tasks product rely on: a write on a writable store answers, is read
  back exactly, and a refused write leaves the store as it was.  \<open>table_frame\<close> adds that the write
  leaves another reading of the store alone.
\<close>

locale table =
  fixes read :: "'s \<Rightarrow> 'e + 'r list"
    and "write" :: "'r list \<Rightarrow> ('s, 'e, unit) cmd"
    and writable :: "'s \<Rightarrow> bool"
    and valid :: "'r list \<Rightarrow> bool"
  assumes write_total: "writable s \<Longrightarrow> valid rs \<Longrightarrow> fst (write rs s) = Inr ()"
    and read_write: "writable s \<Longrightarrow> valid rs \<Longrightarrow> read (snd (write rs s)) = Inr rs"
    and write_refused: "fst (write rs s) = Inl e \<Longrightarrow> snd (write rs s) = s"
begin

lemma write_run: "writable s \<Longrightarrow> valid rs \<Longrightarrow> write rs s = (Inr (), snd (write rs s))"
  using write_total by (metis prod.collapse)

text \<open>A read-modify-write commits the modified list and nothing else.\<close>

lemma read_modify_write:
  assumes "writable s" "read s = Inr rs" "valid (f rs)"
  shows "andThen (query read) (\<lambda>rs. write (f rs)) s = (Inr (), snd (write (f rs) s))
    \<and> read (snd (write (f rs) s)) = Inr (f rs)"
  using assms write_run read_write by simp

lemma read_modify_refused:
  assumes "read s = Inl e"
  shows "andThen (query read) m s = (Inl e, s)"
  using assms by simp

lemma last_write_wins:
  assumes "writable s" "valid rs" "writable (snd (write rs s))" "valid rs'"
  shows "read (snd (andThen (write rs) (\<lambda>_. write rs') s)) = Inr rs'"
  using assms read_write write_run [of s rs] by (metis andThen_Inr)

end

locale table_frame = table read "write" writable valid
  for read :: "'s \<Rightarrow> 'e + 'r list" and "write" :: "'r list \<Rightarrow> ('s, 'e, unit) cmd"
    and writable :: "'s \<Rightarrow> bool" and valid :: "'r list \<Rightarrow> bool" +
  fixes other :: "'s \<Rightarrow> 'x"
  assumes frame: "writable s \<Longrightarrow> valid rs \<Longrightarrow> other (snd (write rs s)) = other s"
begin

lemma read_modify_write_frame:
  assumes "writable s" "read s = Inr rs" "valid (f rs)"
  shows "other (snd (andThen (query read) (\<lambda>rs. write (f rs)) s)) = other s"
  using assms frame by simp

end

subsection \<open>The store satisfies the contract\<close>

text \<open>
  A store is writable when its snapshot is readable and has a generation left: generations are safe
  integers, so the last one a bundle can be written with is \<open>max_safe_integer\<close>.
\<close>

definition can_write :: "wstore \<Rightarrow> bool" where
  "can_write s = (case readBundle s of Inl _ \<Rightarrow> False | Inr None \<Rightarrow> True
     | Inr (Some b) \<Rightarrow> bd_generation b < max_safe_integer)"

definition revised :: "action_item list \<Rightarrow> bool" where
  "revised is \<longleftrightarrow> (\<forall>i \<in> set is. ai_proposalRevisions i \<noteq> [])"

lemma revised_simps [simp]:
  "revised []" "revised (i # is) \<longleftrightarrow> ai_proposalRevisions i \<noteq> [] \<and> revised is"
  "revised (is @ js) \<longleftrightarrow> revised is \<and> revised js"
  by (auto simp: revised_def)

definition bundle_valid :: "task_bundle \<Rightarrow> bool" where
  "bundle_valid b \<longleftrightarrow> list_all (isTask \<circ> fst) (bd_tasks b) \<and> list_all (isTaskList \<circ> fst) (bd_lists b)
     \<and> revised (bd_actionItems b)"

lemma bundle_doc_valid: "bundle_doc d = Inr b \<Longrightarrow>
  bundle_valid b \<and> 0 \<le> bd_generation b \<and> bd_generation b \<le> max_safe_integer \<and> bd_format b \<le> BUNDLE_FORMAT"
  by (auto simp: bundle_doc_def bundle_valid_def revised_def normalize_has_revision Let_def
      split: option.splits jsval.splits if_splits)

lemma readBundle_valid: "readBundle s = Inr (Some b) \<Longrightarrow>
  bundle_valid b \<and> 0 \<le> bd_generation b \<and> bd_generation b \<le> max_safe_integer \<and> bd_format b \<le> BUNDLE_FORMAT"
  by (auto simp: readBundle_def dest: bundle_doc_valid split: snapshot.splits sum.splits)

lemma entries_valid [simp]:
  "list_all (isTask \<circ> fst) (task_entries ts)"
  "list_all (isTaskList \<circ> fst) (list_entries ls)"
  "list_all (isActionItem \<circ> fst) (item_entries is) \<longleftrightarrow> revised is"
  by (auto simp: task_entries_def list_entries_def item_entries_def list_all_iff revised_def)

lemma entries_read [simp]:
  "map (read_task \<circ> snd) (task_entries ts) = ts"
  "map snd (list_entries ls) = ls"
  "revised is \<Longrightarrow> map (normalizeActionItem \<circ> snd) (item_entries is) = is"
  by (simp_all add: task_entries_def list_entries_def item_entries_def comp_def revised_def
      normalize_store_item map_idI)

lemma map_read_task_entries [simp]: "map read_task (map snd (task_entries ts)) = ts"
  using entries_read(1) [of ts] by (simp add: comp_def)

lemma first_invalid_None: "list_all (guard \<circ> fst) es \<Longrightarrow> first_invalid guard es = None"
  by (simp add: first_invalid_def list_all_iff takeWhile_eq_all_conv [THEN iffD2] Let_def comp_def)

lemma readRecords_entries: "list_all (guard \<circ> fst) es \<Longrightarrow> readRecords guard (FileRecords es) = Inr (map snd es)"
  by (simp add: readRecords_def first_invalid_None)

text \<open>What a written snapshot reads as: the written bundle, one generation on.\<close>

lemma bundle_doc_json:
  assumes "bundle_valid b" "bd_format b = BUNDLE_FORMAT"
    "0 \<le> bd_generation b" "bd_generation b \<le> max_safe_integer"
  shows "bundle_doc (bundle_json b) = Inr b"
proof -
  have items: "map (\<lambda>i. (item_view i, store_item i)) (bd_actionItems b) = item_entries (bd_actionItems b)"
    by (simp add: item_entries_def)
  have r: "revised (bd_actionItems b)" using assms(1) by (simp add: bundle_valid_def)
  show ?thesis
    using assms r by (simp add: bundle_doc_def bundle_json_def items bundle_valid_def
        max_safe_integer_def Let_def)
qed

lemma writeSnapshot_run:
  assumes "readGeneration s = Inr g" "0 \<le> g" "g < max_safe_integer" "bundle_valid n"
  shows "\<exists>s'. writeSnapshot n s = (Inr (), s')
    \<and> readBundle s' = Inr (Some (n\<lparr>bd_format := BUNDLE_FORMAT, bd_generation := g + 1\<rparr>))
    \<and> ws_tasksFile s' = ws_tasksFile s \<and> ws_listsFile s' = ws_listsFile s
    \<and> ws_actionItemsFile s' = ws_actionItemsFile s"
proof -
  let ?b = "n\<lparr>bd_format := BUNDLE_FORMAT, bd_generation := g + 1\<rparr>"
  have "bundle_valid ?b" using assms(4) by (simp add: bundle_valid_def)
  then have "bundle_doc (bundle_json ?b) = Inr ?b"
    using assms(2,3) by (intro bundle_doc_json) simp_all
  then show ?thesis
    using assms(1) by (simp add: writeSnapshot_def nextBundle_def readBundle_def)
qed

lemma writeSnapshot_refused: "fst (writeSnapshot n s) = Inl e \<Longrightarrow> snd (writeSnapshot n s) = s"
  by (auto simp: writeSnapshot_def split: sum.splits)

lemma readGeneration_bundle: "readBundle s = Inr (Some b) \<Longrightarrow> readGeneration s = Inr (bd_generation b)"
  by (simp add: readGeneration_def)

text \<open>
  Every write of one table: it answers, reads back, leaves the other two tables alone, and on the
  canonical bundle advances the generation by one.
\<close>

definition next_generation :: "wstore \<Rightarrow> wstore \<Rightarrow> bool" where
  "next_generation s s' = (case readBundle s of Inl _ \<Rightarrow> False
     | Inr None \<Rightarrow> readBundle s' = Inr None
     | Inr (Some b) \<Rightarrow> (\<exists>b'. readBundle s' = Inr (Some b') \<and> bd_generation b' = bd_generation b + 1
          \<and> bd_format b' = BUNDLE_FORMAT \<and> bd_receipt b' = bd_receipt b))"

lemma can_write_cases:
  assumes "can_write s"
  obtains (files) "readBundle s = Inr None"
  | (snapshot) b where "readBundle s = Inr (Some b)" "0 \<le> bd_generation b"
      "bd_generation b < max_safe_integer" "bundle_valid b" "readGeneration s = Inr (bd_generation b)"
  using assms readBundle_valid readGeneration_bundle
  by (auto simp: can_write_def split: sum.splits option.splits)

text \<open>Room for a number of further writes.\<close>

definition room :: "nat \<Rightarrow> wstore \<Rightarrow> bool" where
  "room n s \<longleftrightarrow> (case readBundle s of Inl _ \<Rightarrow> False | Inr None \<Rightarrow> True
     | Inr (Some b) \<Rightarrow> bd_generation b + int n \<le> max_safe_integer)"

lemma room_can_write: "room (Suc n) s \<Longrightarrow> can_write s"
  by (auto simp: room_def can_write_def split: sum.splits option.splits)

lemma can_write_room: "can_write s \<longleftrightarrow> room 1 s"
  by (auto simp: room_def can_write_def split: sum.splits option.splits)

lemma room_next: "room (Suc n) s \<Longrightarrow> next_generation s s' \<Longrightarrow> room n s'"
  by (auto simp: room_def next_generation_def split: sum.splits option.splits)

lemma room_less: "room n s \<Longrightarrow> m \<le> n \<Longrightarrow> room m s"
  by (auto simp: room_def split: sum.splits option.splits)

lemma ws_files_snapshot [simp]:
  "readBundle (s\<lparr>ws_tasksFile := x\<rparr>) = readBundle s"
  "readBundle (s\<lparr>ws_listsFile := y\<rparr>) = readBundle s"
  "readBundle (s\<lparr>ws_actionItemsFile := z\<rparr>) = readBundle s"
  by (simp_all add: readBundle_def)

lemmas read_defs = readTasks_def readLists_def readActionItems_def map_result_def

lemma writeTasks_spec:
  assumes "can_write s"
  shows "\<exists>s'. writeTasks ts s = (Inr (), s') \<and> readTasks s' = Inr ts \<and> readLists s' = readLists s
    \<and> readActionItems s' = readActionItems s \<and> next_generation s s'"
  using assms
proof (cases rule: can_write_cases)
  case files
  then show ?thesis
    by (simp add: writeTasks_def read_defs readRecords_entries next_generation_def)
next
  case (snapshot b)
  let ?n = "b\<lparr>bd_tasks := task_entries ts\<rparr>"
  have "bundle_valid ?n" using snapshot(4) by (simp add: bundle_valid_def)
  from writeSnapshot_run [OF snapshot(5,2,3) this] snapshot(1) show ?thesis
    by (auto simp: writeTasks_def read_defs next_generation_def)
qed

lemma writeLists_spec:
  assumes "can_write s"
  shows "\<exists>s'. writeLists ls s = (Inr (), s') \<and> readLists s' = Inr ls \<and> readTasks s' = readTasks s
    \<and> readActionItems s' = readActionItems s \<and> next_generation s s'"
  using assms
proof (cases rule: can_write_cases)
  case files
  then show ?thesis
    by (simp add: writeLists_def read_defs readRecords_entries next_generation_def)
next
  case (snapshot b)
  let ?n = "b\<lparr>bd_lists := list_entries ls\<rparr>"
  have "bundle_valid ?n" using snapshot(4) by (simp add: bundle_valid_def)
  from writeSnapshot_run [OF snapshot(5,2,3) this] snapshot(1) show ?thesis
    by (auto simp: writeLists_def read_defs next_generation_def)
qed

lemma map_normalize_entries [simp]:
  "revised is \<Longrightarrow> map normalizeActionItem (map snd (item_entries is)) = is"
  using entries_read(3) [of "is"] by (simp add: comp_def)

lemma writeActionItems_spec:
  assumes "can_write s" "revised is"
  shows "\<exists>s'. writeActionItems is s = (Inr (), s') \<and> readActionItems s' = Inr is
    \<and> readTasks s' = readTasks s \<and> readLists s' = readLists s \<and> next_generation s s'"
  using assms(1)
proof (cases rule: can_write_cases)
  case files
  with assms(2) show ?thesis
    by (simp add: writeActionItems_def read_defs readRecords_entries next_generation_def del: map_map)
next
  case (snapshot b)
  let ?n = "b\<lparr>bd_actionItems := is\<rparr>"
  have "bundle_valid ?n" using snapshot(4) assms(2) by (simp add: bundle_valid_def)
  from writeSnapshot_run [OF snapshot(5,2,3) this] snapshot(1) show ?thesis
    by (auto simp: writeActionItems_def read_defs next_generation_def)
qed

lemma commitAcceptance_spec:
  assumes "can_write s" "revised is"
  shows "\<exists>s'. commitAcceptance ts is s = (Inr (), s') \<and> readTasks s' = Inr ts
    \<and> readActionItems s' = Inr is \<and> readLists s' = readLists s \<and> next_generation s s'"
  using assms(1)
proof (cases rule: can_write_cases)
  case files
  with assms(2) show ?thesis
    by (simp add: commitAcceptance_def commitTasksFile_def commitItemsFile_def read_defs andThen_def
        readRecords_entries next_generation_def del: map_map)
next
  case (snapshot b)
  let ?n = "b\<lparr>bd_tasks := task_entries ts, bd_actionItems := is\<rparr>"
  have "bundle_valid ?n" using snapshot(4) assms(2) by (simp add: bundle_valid_def)
  from writeSnapshot_run [OF snapshot(5,2,3) this] snapshot(1) show ?thesis
    by (auto simp: commitAcceptance_def read_defs next_generation_def)
qed

lemma write_refused:
  "fst (writeTasks ts s) = Inl e \<Longrightarrow> snd (writeTasks ts s) = s"
  "fst (writeLists ls s) = Inl e \<Longrightarrow> snd (writeLists ls s) = s"
  "fst (writeActionItems is s) = Inl e \<Longrightarrow> snd (writeActionItems is s) = s"
  "fst (commitAcceptance ts is s) = Inl e \<Longrightarrow> snd (commitAcceptance ts is s) = s"
  by (auto simp: writeTasks_def writeLists_def writeActionItems_def commitAcceptance_def andThen_run
      commitTasksFile_def commitItemsFile_def
      dest: writeSnapshot_refused split: sum.splits option.splits prod.splits)

lemma writeTasks_facts:
  assumes "can_write s"
  shows "fst (writeTasks ts s) = Inr ()" "readTasks (snd (writeTasks ts s)) = Inr ts"
    "readLists (snd (writeTasks ts s)) = readLists s"
    "readActionItems (snd (writeTasks ts s)) = readActionItems s"
    "next_generation s (snd (writeTasks ts s))"
  using writeTasks_spec [OF assms, of ts] by auto

lemma writeLists_facts:
  assumes "can_write s"
  shows "fst (writeLists ls s) = Inr ()" "readLists (snd (writeLists ls s)) = Inr ls"
    "readTasks (snd (writeLists ls s)) = readTasks s"
    "readActionItems (snd (writeLists ls s)) = readActionItems s"
    "next_generation s (snd (writeLists ls s))"
  using writeLists_spec [OF assms, of ls] by auto

lemma writeActionItems_facts:
  assumes "can_write s" "revised is"
  shows "fst (writeActionItems is s) = Inr ()" "readActionItems (snd (writeActionItems is s)) = Inr is"
    "readTasks (snd (writeActionItems is s)) = readTasks s"
    "readLists (snd (writeActionItems is s)) = readLists s"
    "next_generation s (snd (writeActionItems is s))"
  using writeActionItems_spec [OF assms] by auto

interpretation tasks_table: table_frame readTasks writeTasks can_write "\<lambda>_. True"
  "\<lambda>s. (readLists s, readActionItems s)"
proof unfold_locales
  show "fst (writeTasks rs s) = Inl e \<Longrightarrow> snd (writeTasks rs s) = s" for rs s e
    by (rule write_refused)
qed (simp_all add: writeTasks_facts)

interpretation lists_table: table_frame readLists writeLists can_write "\<lambda>_. True"
  "\<lambda>s. (readTasks s, readActionItems s)"
proof unfold_locales
  show "fst (writeLists rs s) = Inl e \<Longrightarrow> snd (writeLists rs s) = s" for rs s e
    by (rule write_refused)
qed (simp_all add: writeLists_facts)

interpretation items_table: table_frame readActionItems writeActionItems can_write revised
  "\<lambda>s. (readTasks s, readLists s)"
proof unfold_locales
  show "fst (writeActionItems rs s) = Inl e \<Longrightarrow> snd (writeActionItems rs s) = s" for rs s e
    by (rule write_refused)
qed (simp_all add: writeActionItems_facts)

end
