(* ===== verification/JsSort.thy ===== *)
theory JsSort
  imports Prelude "HOL-Library.Multiset"
begin

section \<open>Array.prototype.sort with a comparator\<close>

text \<open>
  The language's sort is stable and orders by the sign of a comparator.  It is modelled by stable
  insertion; for a comparator that is consistent (the contract \<open>comparator\<close> below, which the
  language asks of its callers) every stable sort gives this list.

  The locale \<open>comparator\<close> is that contract, and \<open>identity_comparator\<close> extends it by the
  promise that a tie means the same identity: then the sorted list does not depend on the order the
  records were read in.
\<close>

fun insert_sorted :: "('a \<Rightarrow> 'a \<Rightarrow> int) \<Rightarrow> 'a \<Rightarrow> 'a list \<Rightarrow> 'a list" where
  "insert_sorted cmp x [] = [x]"
| "insert_sorted cmp x (y # ys) =
     (if cmp x y \<le> 0 then x # y # ys else y # insert_sorted cmp x ys)"

fun js_sort :: "('a \<Rightarrow> 'a \<Rightarrow> int) \<Rightarrow> 'a list \<Rightarrow> 'a list" where
  "js_sort cmp [] = []"
| "js_sort cmp (x # xs) = insert_sorted cmp x (js_sort cmp xs)"

lemma mset_insert_sorted [simp]: "mset (insert_sorted cmp x xs) = add_mset x (mset xs)"
  by (induction xs) auto

lemma mset_js_sort [simp]: "mset (js_sort cmp xs) = mset xs"
  by (induction xs) auto

lemma set_js_sort [simp]: "set (js_sort cmp xs) = set xs"
  by (metis mset_js_sort set_mset_mset)

lemma length_js_sort [simp]: "length (js_sort cmp xs) = length xs"
  by (metis mset_js_sort size_mset)

lemma length_filter_js_sort: "length (filter p (js_sort cmp xs)) = length (filter p xs)"
  by (metis mset_filter mset_js_sort size_mset)

lemma set_insert_sorted: "set (insert_sorted cmp x xs) = insert x (set xs)"
  by (induction xs) auto

locale comparator =
  fixes cmp :: "'a \<Rightarrow> 'a \<Rightarrow> int"
  assumes cmp_antisym: "sgn (cmp y x) = - sgn (cmp x y)"
    and cmp_trans: "cmp x y \<le> 0 \<Longrightarrow> cmp y z \<le> 0 \<Longrightarrow> cmp x z \<le> 0"
begin

lemma cmp_refl: "cmp x x = 0"
proof -
  have "sgn (cmp x x) = - sgn (cmp x x)" by (rule cmp_antisym)
  then show ?thesis by (simp add: sgn_if split: if_splits)
qed

lemma cmp_total: "cmp x y \<le> 0 \<or> cmp y x \<le> 0"
  using cmp_antisym [of x y] by (auto simp: sgn_if split: if_splits)

lemma cmp_not_le: "\<not> cmp x y \<le> 0 \<Longrightarrow> cmp y x \<le> 0"
  using cmp_total by blast

lemma sorted_insert_sorted:
  "sorted_wrt (\<lambda>a b. cmp a b \<le> 0) xs \<Longrightarrow> sorted_wrt (\<lambda>a b. cmp a b \<le> 0) (insert_sorted cmp x xs)"
proof (induction xs)
  case (Cons y ys)
  show ?case
  proof (cases "cmp x y \<le> 0")
    case True
    with Cons.prems show ?thesis by (auto intro: cmp_trans)
  next
    case False
    with Cons cmp_not_le show ?thesis by (auto simp: set_insert_sorted)
  qed
qed simp

lemma sorted_js_sort: "sorted_wrt (\<lambda>a b. cmp a b \<le> 0) (js_sort cmp xs)"
  by (induction xs) (simp_all add: sorted_insert_sorted)

lemma insert_sorted_head:
  "sorted_wrt (\<lambda>a b. cmp a b \<le> 0) (x # xs) \<Longrightarrow> insert_sorted cmp x xs = x # xs"
  by (cases xs) auto

lemma js_sort_sorted: "sorted_wrt (\<lambda>a b. cmp a b \<le> 0) xs \<Longrightarrow> js_sort cmp xs = xs"
  by (induction xs) (auto simp: insert_sorted_head simp del: insert_sorted.simps)

lemma js_sort_idem: "js_sort cmp (js_sort cmp xs) = js_sort cmp xs"
  by (rule js_sort_sorted [OF sorted_js_sort])

lemma filter_insert_sorted:
  "sorted_wrt (\<lambda>a b. cmp a b \<le> 0) xs \<Longrightarrow>
   filter p (insert_sorted cmp x xs) = (if p x then insert_sorted cmp x (filter p xs) else filter p xs)"
proof (induction xs)
  case (Cons y ys)
  have head: "insert_sorted cmp x (filter p ys) = x # filter p ys" if "cmp x y \<le> 0"
  proof (rule insert_sorted_head)
    show "sorted_wrt (\<lambda>a b. cmp a b \<le> 0) (x # filter p ys)"
      using Cons.prems that by (auto intro: sorted_wrt_filter cmp_trans)
  qed
  with Cons show ?case by auto
qed simp

lemma filter_js_sort: "filter p (js_sort cmp xs) = js_sort cmp (filter p xs)"
  by (induction xs) (auto simp: filter_insert_sorted sorted_js_sort)

end

locale identity_comparator = comparator cmp for cmp :: "'a \<Rightarrow> 'a \<Rightarrow> int" +
  fixes key :: "'a \<Rightarrow> 'k"
  assumes cmp_tie: "cmp x y = 0 \<Longrightarrow> key x = key y"
begin

lemma cmp_both: "cmp x y \<le> 0 \<Longrightarrow> cmp y x \<le> 0 \<Longrightarrow> key x = key y"
  using cmp_antisym [of x y] cmp_tie [of x y] by (auto simp: sgn_if split: if_splits)

lemma sorted_unique:
  assumes "sorted_wrt (\<lambda>a b. cmp a b \<le> 0) xs" "sorted_wrt (\<lambda>a b. cmp a b \<le> 0) ys"
    and "mset xs = mset ys" "distinct (map key xs)"
  shows "xs = ys"
  using assms
proof (induction xs arbitrary: ys)
  case (Cons x xs)
  then obtain y ys' where ys: "ys = y # ys'" by (cases ys) auto
  have xin: "x \<in> set ys" and yin: "y \<in> set (x # xs)"
    using Cons.prems(3) ys by (metis list.set_intros(1) set_mset_mset)+
  have "x = y"
  proof (rule ccontr)
    assume "x \<noteq> y"
    with xin yin ys have "x \<in> set ys'" "y \<in> set xs" by auto
    with Cons.prems(1,2) ys have "cmp x y \<le> 0" "cmp y x \<le> 0" by auto
    then have "key x = key y" by (rule cmp_both)
    with \<open>y \<in> set xs\<close> Cons.prems(4) show False by auto
  qed
  with Cons.prems ys Cons.IH [of ys'] show ?case by auto
qed simp

lemma js_sort_order_irrelevant:
  assumes "mset xs = mset ys" and "distinct (map key xs)"
  shows "js_sort cmp xs = js_sort cmp ys"
proof (rule sorted_unique [OF sorted_js_sort sorted_js_sort])
  show "mset (js_sort cmp xs) = mset (js_sort cmp ys)" using assms(1) by simp
  have "mset (map key (js_sort cmp xs)) = mset (map key xs)" by simp
  then show "distinct (map key (js_sort cmp xs))"
    using assms(2) by (metis mset_eq_imp_distinct_iff)
qed

end

end
