(* ===== verification/CalendarDate.thy ===== *)
theory CalendarDate
  imports JsText
begin

section \<open>Date-only due dates\<close>

text \<open>
  Due dates are the strings \<open>YYYY-MM-DD\<close>.  This theory models what the language does with such
  a string: the shape test of the regular expression, the UTC parse of \<open>new Date\<close> (a day that
  the month does not have rolls over into the next month, a month or day that no calendar has gives
  no date) and the date part of \<open>toISOString\<close>.  The lemmas show that the round trip accepts
  exactly the days of the calendar and that comparing two such strings by code units compares the
  days.
\<close>

definition is_digit :: "char \<Rightarrow> bool" where
  "is_digit c \<longleftrightarrow> 48 \<le> (of_char c :: nat) \<and> (of_char c :: nat) \<le> 57"

definition digit_value :: "char \<Rightarrow> nat" where
  "digit_value c = of_char c - 48"

primrec digits_value :: "string \<Rightarrow> nat" where
  "digits_value [] = 0"
| "digits_value (c # cs) = digit_value c * 10 ^ length cs + digits_value cs"

definition digit_char :: "nat \<Rightarrow> char" where
  "digit_char n = char_of (48 + n)"

text \<open>The regular expression of a date, with the three numbers it delimits.\<close>

definition date_fields :: "string \<Rightarrow> (nat \<times> nat \<times> nat) option" where
  "date_fields s =
     (if length s = 10 \<and> list_all is_digit (take 4 s) \<and> s ! 4 = CHR ''-''
         \<and> list_all is_digit (take 2 (drop 5 s)) \<and> s ! 7 = CHR ''-''
         \<and> list_all is_digit (drop 8 s)
      then Some (digits_value (take 4 s), digits_value (take 2 (drop 5 s)), digits_value (drop 8 s))
      else None)"

definition leap_year :: "nat \<Rightarrow> bool" where
  "leap_year y \<longleftrightarrow> y mod 4 = 0 \<and> (y mod 100 \<noteq> 0 \<or> y mod 400 = 0)"

definition days_in_month :: "nat \<Rightarrow> nat \<Rightarrow> nat" where
  "days_in_month y m =
     (if m = 2 then (if leap_year y then 29 else 28)
      else if m \<in> {4, 6, 9, 11} then 30 else 31)"

text \<open>The UTC day a parsed date stands for; none when the month or the day is out of range.\<close>

definition utc_day :: "nat \<times> nat \<times> nat \<Rightarrow> (nat \<times> nat \<times> nat) option" where
  "utc_day f = (case f of (y, m, d) \<Rightarrow>
     if 1 \<le> m \<and> m \<le> 12 \<and> 1 \<le> d \<and> d \<le> 31
     then Some (if d \<le> days_in_month y m then (y, m, d) else (y, m + 1, d - days_in_month y m))
     else None)"

definition two_digits :: "nat \<Rightarrow> string" where
  "two_digits n = [digit_char (n div 10), digit_char (n mod 10)]"

text \<open>The first ten characters of \<open>toISOString\<close>.\<close>

definition iso_day :: "nat \<times> nat \<times> nat \<Rightarrow> string" where
  "iso_day f = (case f of (y, m, d) \<Rightarrow>
     two_digits (y div 100) @ two_digits (y mod 100) @ ''-'' @ two_digits m @ ''-'' @ two_digits d)"

text \<open>A day of the calendar, the specification the round trip implements.\<close>

definition calendar_day :: "nat \<times> nat \<times> nat \<Rightarrow> bool" where
  "calendar_day f = (case f of (y, m, d) \<Rightarrow> 1 \<le> m \<and> m \<le> 12 \<and> 1 \<le> d \<and> d \<le> days_in_month y m)"

lemma digit_value_less: "is_digit c \<Longrightarrow> digit_value c < 10"
  unfolding is_digit_def digit_value_def by linarith

lemma digit_char_value [simp]: "is_digit c \<Longrightarrow> digit_char (digit_value c) = c"
  by (simp add: is_digit_def digit_value_def digit_char_def)

lemma digit_value_char [simp]: "n < 10 \<Longrightarrow> digit_value (digit_char n) = n"
  by (simp add: digit_value_def digit_char_def)

lemma is_digit_char: "n < 10 \<Longrightarrow> is_digit (digit_char n)"
  by (simp add: is_digit_def digit_char_def)

lemma two_digits_value: "is_digit a \<Longrightarrow> is_digit b \<Longrightarrow> two_digits (digits_value [a, b]) = [a, b]"
  using digit_value_less [of a] digit_value_less [of b] by (simp add: two_digits_def)

lemma digits_two_digits: "n < 100 \<Longrightarrow> digits_value (two_digits n) = n"
  by (simp add: two_digits_def less_mult_imp_div_less)

lemma list_10E:
  assumes "length s = 10"
  obtains a b c d e f g h i j where "s = [a, b, c, d, e, f, g, h, i, j]"
  using assms by (auto simp: numeral_eq_Suc length_Suc_conv)

lemma date_fields_SomeE:
  assumes "date_fields s = Some (y, m, d)"
  obtains a b c e f g h i where
    "s = [a, b, c, e, CHR ''-'', f, g, CHR ''-'', h, i]"
    "is_digit a" "is_digit b" "is_digit c" "is_digit e" "is_digit f" "is_digit g"
    "is_digit h" "is_digit i"
    "y = digits_value [a, b, c, e]" "m = digits_value [f, g]" "d = digits_value [h, i]"
proof -
  from assms have "length s = 10" by (simp add: date_fields_def split: if_splits)
  then obtain a b c e p f g q h i where s: "s = [a, b, c, e, p, f, g, q, h, i]"
    by (rule list_10E)
  from assms show thesis
    unfolding s by (intro that [of a b c e f g h i])
      (auto simp: date_fields_def s split: if_splits)
qed

lemma iso_day_date_fields:
  assumes "date_fields s = Some f"
  shows "iso_day f = s"
proof -
  obtain y m d where f: "f = (y, m, d)" by (cases f)
  from assms [unfolded f] show ?thesis
  proof (rule date_fields_SomeE)
    fix a b c e g h i j
    assume s: "s = [a, b, c, e, CHR ''-'', g, h, CHR ''-'', i, j]"
      and dig: "is_digit a" "is_digit b" "is_digit c" "is_digit e" "is_digit g" "is_digit h"
        "is_digit i" "is_digit j"
      and v: "y = digits_value [a, b, c, e]" "m = digits_value [g, h]" "d = digits_value [i, j]"
    have y: "y = digits_value [a, b] * 100 + digits_value [c, e]" using v(1) by simp
    have "digits_value [c, e] < 100"
      using digit_value_less [OF dig(3)] digit_value_less [OF dig(4)] by simp
    with y have "y div 100 = digits_value [a, b]" "y mod 100 = digits_value [c, e]"
      by (simp_all only: div_mult_self3 mod_mult_self3 div_less mod_less)
    then have "two_digits (y div 100) = [a, b]" "two_digits (y mod 100) = [c, e]"
      using dig by (simp_all only: two_digits_value)
    moreover have "two_digits m = [g, h]" "two_digits d = [i, j]"
      using dig v by (simp_all only: two_digits_value)
    ultimately show ?thesis by (simp add: f s iso_day_def)
  qed
qed

lemma date_fields_month_less: "date_fields s = Some (y, m, d) \<Longrightarrow> m < 100"
proof (erule date_fields_SomeE)
  fix g h assume "is_digit g" "is_digit h" and m: "m = digits_value [g, h]"
  then have "digit_value g < 10" "digit_value h < 10" by (simp_all add: digit_value_less)
  then show "m < 100" by (simp add: m)
qed

lemma iso_day_inj_month:
  assumes "iso_day (y, m, d) = iso_day (y', m', d')" and "m < 100" and "m' < 100"
  shows "m = m'"
proof -
  from assms(1) have "two_digits m = two_digits m'" by (simp add: iso_day_def two_digits_def)
  then show ?thesis using digits_two_digits assms(2,3) by metis
qed

text \<open>The round trip accepts exactly the days of the calendar.\<close>

lemma utc_day_round_trip:
  assumes "date_fields s = Some f"
  shows "(case utc_day f of None \<Rightarrow> False | Some u \<Rightarrow> iso_day u = s) \<longleftrightarrow> calendar_day f"
proof -
  obtain y m d where f: "f = (y, m, d)" by (cases f)
  have s: "iso_day f = s" using assms by (rule iso_day_date_fields)
  have roll: "iso_day (y, m + 1, d - days_in_month y m) \<noteq> s" if "m \<le> 12"
    using iso_day_inj_month [of y "m + 1" "d - days_in_month y m" y m d] that s f by auto
  have "days_in_month y m \<le> 31" by (simp add: days_in_month_def)
  then show ?thesis using s roll by (auto simp: f utc_day_def calendar_day_def)
qed

subsection \<open>The order of date strings\<close>

lemma digits_value_bound: "list_all is_digit xs \<Longrightarrow> digits_value xs < 10 ^ length xs"
proof (induction xs)
  case (Cons c cs)
  then have "digit_value c * 10 ^ length cs + digits_value cs < 9 * 10 ^ length cs + 10 ^ length cs"
    using digit_value_less [of c] by (intro add_le_less_mono mult_le_mono1) auto
  then show ?case by simp
qed simp

lemma is_digit_less_iff: "is_digit a \<Longrightarrow> is_digit b \<Longrightarrow> a < b \<longleftrightarrow> digit_value a < digit_value b"
  by (auto simp: is_digit_def digit_value_def less_char_def)

lemma is_digit_eq_iff: "is_digit a \<Longrightarrow> is_digit b \<Longrightarrow> a = b \<longleftrightarrow> digit_value a = digit_value b"
  by (metis digit_char_value)

lemma mixed_radix_less:
  fixes a b u v B :: nat
  assumes "u < B" "v < B"
  shows "a * B + u < b * B + v \<longleftrightarrow> a < b \<or> (a = b \<and> u < v)"
proof (cases a b rule: linorder_cases)
  case less
  then have "a * B + B \<le> b * B" by (metis Suc_leI mult_Suc mult_le_mono1 add.commute)
  with less assms show ?thesis by simp
next
  case greater
  then have "b * B + B \<le> a * B" by (metis Suc_leI mult_Suc mult_le_mono1 add.commute)
  with greater assms show ?thesis by simp
qed simp

lemma digits_less_iff:
  "length xs = length ys \<Longrightarrow> list_all is_digit xs \<Longrightarrow> list_all is_digit ys \<Longrightarrow>
   xs < ys \<longleftrightarrow> digits_value xs < digits_value ys"
proof (induction xs ys rule: list_induct2)
  case (Cons x xs y ys)
  then have "digits_value xs < 10 ^ length ys" "digits_value ys < 10 ^ length ys"
    using digits_value_bound [of xs] digits_value_bound [of ys] by simp_all
  with Cons show ?case
    by (simp add: mixed_radix_less is_digit_less_iff is_digit_eq_iff)
qed simp

lemma append_less_iff:
  fixes xs ys :: string
  shows "length xs = length ys \<Longrightarrow> xs @ us < ys @ vs \<longleftrightarrow> xs < ys \<or> (xs = ys \<and> us < vs)"
  by (induction xs ys rule: list_induct2) auto

definition day_less :: "nat \<times> nat \<times> nat \<Rightarrow> nat \<times> nat \<times> nat \<Rightarrow> bool" where
  "day_less f g = (case (f, g) of ((y, m, d), (y', m', d')) \<Rightarrow>
     y < y' \<or> (y = y' \<and> (m < m' \<or> (m = m' \<and> d < d'))))"

lemma digits_eq_iff:
  assumes "length xs = length ys" "list_all is_digit xs" "list_all is_digit ys"
  shows "xs = ys \<longleftrightarrow> digits_value xs = digits_value ys"
  using digits_less_iff [of xs ys] digits_less_iff [of ys xs] assms
  by (metis linorder_neq_iff)

text \<open>Comparing two date strings compares the days they name.\<close>

lemma date_string_less:
  assumes "date_fields s = Some f" and "date_fields t = Some g"
  shows "s < t \<longleftrightarrow> day_less f g"
proof -
  have split: "u = take 4 u @ ''-'' @ take 2 (drop 5 u) @ ''-'' @ drop 8 u
      \<and> length u = 10 \<and> list_all is_digit (take 4 u) \<and> list_all is_digit (take 2 (drop 5 u))
      \<and> list_all is_digit (drop 8 u)
      \<and> h = (digits_value (take 4 u), digits_value (take 2 (drop 5 u)), digits_value (drop 8 u))"
    if "date_fields u = Some h" for u h
  proof -
    from that have "length u = 10" by (simp add: date_fields_def split: if_splits)
    then obtain a b c d e f g i j k where "u = [a, b, c, d, e, f, g, i, j, k]" by (rule list_10E)
    with that show ?thesis by (auto simp: date_fields_def split: if_splits)
  qed
  note S = split [OF assms(1)] and T = split [OF assms(2)]
  let ?y = "take 4" and ?m = "\<lambda>u. take 2 (drop 5 u)" and ?d = "drop 8"
  have "s < t \<longleftrightarrow> ?y s < ?y t \<or> (?y s = ?y t \<and> (?m s < ?m t \<or> (?m s = ?m t \<and> ?d s < ?d t)))"
    using S T append_less_iff [of "?y s" "?y t" "''-'' @ ?m s @ ''-'' @ ?d s" "''-'' @ ?m t @ ''-'' @ ?d t"]
      append_less_iff [of "?m s" "?m t" "''-'' @ ?d s" "''-'' @ ?d t"] by simp
  also have "\<dots> \<longleftrightarrow> day_less f g"
    using S T by (simp add: digits_less_iff digits_eq_iff day_less_def)
  finally show ?thesis .
qed

lemma date_string_eq:
  assumes "date_fields s = Some f" and "date_fields t = Some g"
  shows "s = t \<longleftrightarrow> f = g"
  using assms iso_day_date_fields by (metis option.inject)

end
