(* ===== verification/TaskOrder.thy ===== *)
theory TaskOrder
  imports TaskTypes JsSort CalendarDate
begin

section \<open>How open Tasks are read: groups and order\<close>

text \<open>
  \<open>packages/shared/src/task-grouping.ts\<close>: the due-date group of a Task, the comparator of the
  default order and the grouping itself.  The comparator is shown to satisfy the contract of a
  consistent comparator whose ties are ties of identity (\<open>interpretation task_order\<close>), so that the
  order of a list of Tasks is a function of the set of records and not of the order they were read.
\<close>

datatype task_group = Overdue | DueToday | Upcoming | NoDueDate

definition taskGroupOf :: "task \<Rightarrow> string \<Rightarrow> task_group" where
  "taskGroupOf t today = (case task_dueDate t of
     None \<Rightarrow> NoDueDate
   | Some d \<Rightarrow> if d < today then Overdue else if d = today then DueToday else Upcoming)"

fun PRIORITY_RANK :: "task_priority \<Rightarrow> int" where
  "PRIORITY_RANK HighPriority = 0"
| "PRIORITY_RANK MediumPriority = 1"
| "PRIORITY_RANK LowPriority = 2"
| "PRIORITY_RANK NoPriority = 3"

definition compareTasks :: "task \<Rightarrow> task \<Rightarrow> int" where
  "compareTasks l r =
     (if task_dueDate l \<noteq> task_dueDate r then
        (case (task_dueDate l, task_dueDate r) of
           (None, _) \<Rightarrow> 1
         | (_, None) \<Rightarrow> -1
         | (Some a, Some b) \<Rightarrow> if a < b then -1 else 1)
      else let byPriority = PRIORITY_RANK (task_priority l) - PRIORITY_RANK (task_priority r) in
        if byPriority \<noteq> 0 then byPriority
        else if task_createdAt l \<noteq> task_createdAt r then
          (if task_createdAt l < task_createdAt r then -1 else 1)
        else localeCompare (task_id l) (task_id r))"

record task_groups =
  tg_overdue :: "task list"
  tg_today :: "task list"
  tg_upcoming :: "task list"
  tg_noDueDate :: "task list"

definition push_group :: "string \<Rightarrow> task_groups \<Rightarrow> task \<Rightarrow> task_groups" where
  "push_group today g t = (case taskGroupOf t today of
     Overdue \<Rightarrow> g\<lparr>tg_overdue := tg_overdue g @ [t]\<rparr>
   | DueToday \<Rightarrow> g\<lparr>tg_today := tg_today g @ [t]\<rparr>
   | Upcoming \<Rightarrow> g\<lparr>tg_upcoming := tg_upcoming g @ [t]\<rparr>
   | NoDueDate \<Rightarrow> g\<lparr>tg_noDueDate := tg_noDueDate g @ [t]\<rparr>)"

definition groupTasks :: "task list \<Rightarrow> string \<Rightarrow> task_groups" where
  "groupTasks tasks today =
     foldl (push_group today) \<lparr>tg_overdue = [], tg_today = [], tg_upcoming = [], tg_noDueDate = []\<rparr>
       (js_sort compareTasks tasks)"

subsection \<open>The comparator is consistent\<close>

definition due_compare :: "string option \<Rightarrow> string option \<Rightarrow> int" where
  "due_compare a b = (case (a, b) of
     (None, None) \<Rightarrow> 0 | (None, Some _) \<Rightarrow> 1 | (Some _, None) \<Rightarrow> -1
   | (Some x, Some y) \<Rightarrow> if x = y then 0 else if x < y then -1 else 1)"

definition text_compare :: "string \<Rightarrow> string \<Rightarrow> int" where
  "text_compare x y = (if x = y then 0 else if x < y then -1 else 1)"

text \<open>The comparator reads lexicographically over due date, priority, creation time and identity.\<close>

lemma compareTasks_lex:
  "compareTasks l r =
     (let d = due_compare (task_dueDate l) (task_dueDate r);
          p = PRIORITY_RANK (task_priority l) - PRIORITY_RANK (task_priority r);
          c = text_compare (task_createdAt l) (task_createdAt r)
      in if d \<noteq> 0 then d else if p \<noteq> 0 then p else if c \<noteq> 0 then c
         else localeCompare (task_id l) (task_id r))"
  by (auto simp: compareTasks_def due_compare_def text_compare_def Let_def split: option.splits)

lemma due_compare_eq_0: "due_compare a b = 0 \<longleftrightarrow> a = b"
  by (auto simp: due_compare_def split: option.splits)

lemma due_compare_antisym: "due_compare b a = - due_compare a b"
  by (auto simp: due_compare_def split: option.splits)

lemma due_compare_trans: "due_compare a b \<le> 0 \<Longrightarrow> due_compare b c \<le> 0 \<Longrightarrow> due_compare a c \<le> 0"
  by (auto simp: due_compare_def split: option.splits if_splits)

lemma text_compare_eq_0: "text_compare a b = 0 \<longleftrightarrow> a = b"
  by (simp add: text_compare_def)

lemma text_compare_antisym: "text_compare b a = - text_compare a b"
  by (auto simp: text_compare_def)

lemma text_compare_trans: "text_compare a b \<le> 0 \<Longrightarrow> text_compare b c \<le> 0 \<Longrightarrow> text_compare a c \<le> 0"
  by (auto simp: text_compare_def split: if_splits)

lemma rank_inj: "PRIORITY_RANK a = PRIORITY_RANK b \<Longrightarrow> a = b"
  by (cases a; cases b) auto

text \<open>Chaining two lexicographic stages keeps antisymmetry and transitivity.\<close>

definition chain :: "('a \<Rightarrow> 'a \<Rightarrow> int) \<Rightarrow> ('a \<Rightarrow> 'a \<Rightarrow> int) \<Rightarrow> 'a \<Rightarrow> 'a \<Rightarrow> int" where
  "chain f g x y = (if f x y \<noteq> 0 then f x y else g x y)"

lemma chain_antisym:
  fixes f g :: "'a \<Rightarrow> 'a \<Rightarrow> int"
  assumes f: "\<And>x y. f y x = - f x y" and g: "\<And>x y. g y x = - g x y"
  shows "chain f g y x = - chain f g x y"
  using f [of y x] g [of y x] by (simp add: chain_def)

lemma chain_trans:
  fixes f g :: "'a \<Rightarrow> 'a \<Rightarrow> int"
  assumes anti: "\<And>x y. f y x = - f x y"
    and f: "\<And>x y z. f x y \<le> 0 \<Longrightarrow> f y z \<le> 0 \<Longrightarrow> f x z \<le> 0"
    and g: "\<And>x y z. g x y \<le> 0 \<Longrightarrow> g y z \<le> 0 \<Longrightarrow> g x z \<le> 0"
    and xy: "chain f g x y \<le> 0" and yz: "chain f g y z \<le> 0"
  shows "chain f g x z \<le> 0"
proof -
  from xy yz have le: "f x y \<le> 0" "f y z \<le> 0" by (auto simp: chain_def split: if_splits)
  then have xz: "f x z \<le> 0" by (rule f)
  show ?thesis
  proof (cases "f x z = 0")
    case True
    have "f z x \<le> 0" using anti [of x z] True by simp
    then have "f z y \<le> 0" using le(1) by (rule f)
    moreover have "f y x \<le> 0" using le(2) \<open>f z x \<le> 0\<close> by (rule f)
    ultimately have "f x y = 0" "f y z = 0"
      using anti [of x y] anti [of y z] le by simp_all
    then show ?thesis using xy yz True g by (simp add: chain_def)
  next
    case False
    then show ?thesis using xz by (simp add: chain_def)
  qed
qed

lemma compareTasks_chain:
  "compareTasks =
     chain (\<lambda>l r. due_compare (task_dueDate l) (task_dueDate r))
       (chain (\<lambda>l r. PRIORITY_RANK (task_priority l) - PRIORITY_RANK (task_priority r))
         (chain (\<lambda>l r. text_compare (task_createdAt l) (task_createdAt r))
           (\<lambda>l r. localeCompare (task_id l) (task_id r))))"
  by (intro ext) (simp add: compareTasks_lex chain_def Let_def)

lemma compareTasks_antisym: "compareTasks r l = - compareTasks l r"
  unfolding compareTasks_chain
  by (rule chain_antisym due_compare_antisym text_compare_antisym localeCompare_antisym
      minus_diff_eq [symmetric])+

lemma compareTasks_trans: "compareTasks x y \<le> 0 \<Longrightarrow> compareTasks y z \<le> 0 \<Longrightarrow> compareTasks x z \<le> 0"
  unfolding compareTasks_chain
  by (erule chain_trans [rotated 3], assumption?)
    (assumption | erule (1) chain_trans [rotated 3] due_compare_trans text_compare_trans
      localeCompare_trans | rule due_compare_antisym text_compare_antisym | simp)+

lemma compareTasks_tie:
  "compareTasks l r = 0 \<Longrightarrow> task_id l = task_id r \<and> task_dueDate l = task_dueDate r
     \<and> task_priority l = task_priority r \<and> task_createdAt l = task_createdAt r"
  by (auto simp: compareTasks_lex Let_def due_compare_eq_0 text_compare_eq_0 rank_inj split: if_splits)

interpretation task_order: identity_comparator compareTasks task_id
proof unfold_locales
  show "sgn (compareTasks y x) = - sgn (compareTasks x y)" for x y
    using compareTasks_antisym [of y x] by simp
qed (auto dest: compareTasks_tie intro: compareTasks_trans)

subsection \<open>Groups\<close>

definition group_list :: "task_groups \<Rightarrow> task_group \<Rightarrow> task list" where
  "group_list g k = (case k of Overdue \<Rightarrow> tg_overdue g | DueToday \<Rightarrow> tg_today g
     | Upcoming \<Rightarrow> tg_upcoming g | NoDueDate \<Rightarrow> tg_noDueDate g)"

lemma group_list_push:
  "group_list (push_group today g t) k =
     group_list g k @ (if taskGroupOf t today = k then [t] else [])"
  by (cases "taskGroupOf t today"; cases k) (simp_all add: group_list_def push_group_def)

lemma group_list_foldl:
  "group_list (foldl (push_group today) g ts) k =
     group_list g k @ filter (\<lambda>t. taskGroupOf t today = k) ts"
  by (induction ts arbitrary: g) (auto simp: group_list_push)

text \<open>Every group is the sorted list of the Tasks that fall into it.\<close>

lemma groupTasks_filter:
  "group_list (groupTasks tasks today) k =
     js_sort compareTasks (filter (\<lambda>t. taskGroupOf t today = k) tasks)"
proof -
  have "group_list (groupTasks tasks today) k =
      filter (\<lambda>t. taskGroupOf t today = k) (js_sort compareTasks tasks)"
    unfolding groupTasks_def group_list_foldl by (cases k) (simp_all add: group_list_def)
  then show ?thesis by (simp add: task_order.filter_js_sort)
qed

end
