(* ===== verification/WorkspaceTasks.thy ===== *)
theory WorkspaceTasks
  imports TaskStore TaskOrder
begin

section \<open>The Workspace's Tasks\<close>

text \<open>
  \<open>apps/server/src/tasks/tasks.ts\<close>: Task Lists, Tasks and the one External Task Link a Task may
  have, every operation a command over the store.

  \<open>tasks_env\<close> is what the class is constructed with, as one operation sees it: the readings of the
  clock in program order (\<open>env_now env 0\<close>, \<open>env_now env 1\<close>), the random characters of a new
  identity, which Profiles are confirmed, which outward destinations are enabled, and today's date in
  the Workspace timezone.
\<close>

record tasks_env =
  env_now :: "nat \<Rightarrow> string"
  env_hex :: string
  env_isConfirmedPerson :: "string \<Rightarrow> bool"
  env_isGoogleTasksEnabled :: bool
  env_isAsanaEnabled :: bool
  env_today :: string

subsection \<open>Checks on request values\<close>

abbreviation refuse :: "task_error \<Rightarrow> ws_error + 'a" where
  "refuse e \<equiv> Inl (TaskRefused e)"

definition requireTitle :: "jsval \<Rightarrow> ws_error + string" where
  "requireTitle v = (let title = (case v of JStr s \<Rightarrow> trim s | _ \<Rightarrow> []) in
     if title = [] then refuse InvalidTitle else Inr title)"

definition requireName :: "jsval \<Rightarrow> ws_error + string" where
  "requireName v = (let name = (case v of JStr s \<Rightarrow> trim s | _ \<Rightarrow> []) in
     if name = [] then refuse InvalidListName else Inr name)"

definition requireNotes :: "jsval \<Rightarrow> ws_error + string" where
  "requireNotes v = (case v of JStr s \<Rightarrow> Inr s | _ \<Rightarrow> refuse InvalidNotes)"

definition requireDueDate :: "jsval \<Rightarrow> ws_error + string option" where
  "requireDueDate v = (case v of
     JNull \<Rightarrow> Inr None
   | JStr s \<Rightarrow> (case date_fields s of
        None \<Rightarrow> refuse InvalidDueDate
      | Some f \<Rightarrow> (case utc_day f of
           None \<Rightarrow> refuse InvalidDueDate
         | Some u \<Rightarrow> if iso_day u = s then Inr (Some s) else refuse InvalidDueDate))
   | _ \<Rightarrow> refuse InvalidDueDate)"

definition requirePriority :: "jsval \<Rightarrow> ws_error + task_priority" where
  "requirePriority v =
     (if v = JStr ''none'' then Inr NoPriority
      else if v = JStr ''low'' then Inr LowPriority
      else if v = JStr ''medium'' then Inr MediumPriority
      else if v = JStr ''high'' then Inr HighPriority
      else refuse InvalidPriority)"

definition requireResponsiblePerson :: "tasks_env \<Rightarrow> jsval \<Rightarrow> ws_error + responsible_person option" where
  "requireResponsiblePerson env v =
     (if v = JNull \<or> v = Undefined then Inr None
      else if is_object v \<and> field v ''kind'' = JStr ''owner'' then Inr (Some Owner)
      else (case (field v ''kind'' = JStr ''person-profile'', field v ''profileId'') of
         (True, JStr p) \<Rightarrow>
           if is_object v \<and> env_isConfirmedPerson env p then Inr (Some (PersonProfile p))
           else refuse InvalidResponsiblePerson
       | _ \<Rightarrow> refuse InvalidResponsiblePerson))"

definition nonempty_text :: "jsval \<Rightarrow> string option" where
  "nonempty_text v = (case v of JStr s \<Rightarrow> if s = [] then None else Some s | _ \<Rightarrow> None)"

definition text_of :: "jsval \<Rightarrow> string option" where
  "text_of v = (case v of JStr s \<Rightarrow> Some s | _ \<Rightarrow> None)"

definition normalizeDestination :: "tasks_env \<Rightarrow> jsval \<Rightarrow> ws_error + task_destination" where
  "normalizeDestination env v =
     (if v = Undefined then Inr LocalOnly
      else if field v ''provider'' = JStr ''local'' then Inr LocalOnly
      else case (field v ''provider'' = JStr ''google-tasks'',
                 nonempty_text (field v ''googleTaskListId''), text_of (field v ''googleTaskListTitle'')) of
        (True, Some lid, Some title) \<Rightarrow>
          if env_isGoogleTasksEnabled env then Inr (GoogleTasks lid title)
          else refuse InvalidDestination
      | _ \<Rightarrow>
        (case (field v ''provider'' = JStr ''asana'',
               nonempty_text (field v ''workspaceGid''), text_of (field v ''workspaceName''),
               nonempty_text (field v ''projectGid''), text_of (field v ''projectName'')) of
           (True, Some wg, Some wn, Some pg, Some pn) \<Rightarrow>
             (let sg = nonempty_text (field v ''sectionGid'');
                  sn = (if sg \<noteq> None then text_of (field v ''sectionName'') else None)
              in if (sg \<noteq> None) \<noteq> (sn \<noteq> None) then refuse InvalidDestination
                 else if \<not> env_isAsanaEnabled env then refuse InvalidDestination
                 else Inr (Asana wg wn pg pn sg sn))
         | _ \<Rightarrow> refuse InvalidDestination))"

text \<open>The JSON of a typed destination or Responsible Person, where the code passes one on.\<close>

definition null_or_text :: "string option \<Rightarrow> jsval" where
  "null_or_text v = (case v of None \<Rightarrow> JNull | Some s \<Rightarrow> JStr s)"

fun destination_json :: "task_destination \<Rightarrow> jsval" where
  "destination_json LocalOnly = JObj [(''provider'', JStr ''local'')]"
| "destination_json (GoogleTasks lid title) = JObj [(''provider'', JStr ''google-tasks''),
     (''googleTaskListId'', JStr lid), (''googleTaskListTitle'', JStr title)]"
| "destination_json (Asana wg wn pg pn sg sn) = JObj [(''provider'', JStr ''asana''),
     (''workspaceGid'', JStr wg), (''workspaceName'', JStr wn), (''projectGid'', JStr pg),
     (''projectName'', JStr pn), (''sectionGid'', null_or_text sg), (''sectionName'', null_or_text sn)]"

fun person_json :: "responsible_person option \<Rightarrow> jsval" where
  "person_json None = JNull"
| "person_json (Some Owner) = JObj [(''kind'', JStr ''owner'')]"
| "person_json (Some (PersonProfile p)) =
     JObj [(''kind'', JStr ''person-profile''), (''profileId'', JStr p)]"

subsection \<open>New identities\<close>

definition stamp :: "string \<Rightarrow> string" where
  "stamp now = filter (\<lambda>c. c \<notin> {CHR ''-'', CHR '':'', CHR ''.'', CHR ''T'', CHR ''Z''}) now"

definition newId :: "tasks_env \<Rightarrow> string \<Rightarrow> string \<Rightarrow> string" where
  "newId env prefix now = prefix @ ''_'' @ stamp now @ ''_'' @ env_hex env"

subsection \<open>Task Lists\<close>

definition inbox_list :: task_list where
  "inbox_list = \<lparr>tl_id = INBOX_TASK_LIST_ID, tl_name = INBOX_TASK_LIST_NAME,
     tl_defaultDestination = LocalOnly\<rparr>"

definition with_inbox :: "task_list list \<Rightarrow> task_list list" where
  "with_inbox persisted =
     (case find_by tl_id INBOX_TASK_LIST_ID persisted of None \<Rightarrow> inbox_list | Some l \<Rightarrow> l)
     # filter (\<lambda>l. tl_id l \<noteq> INBOX_TASK_LIST_ID) persisted"

definition lists :: "wstore \<Rightarrow> ws_error + task_list list" where
  "lists s = map_result with_inbox (readLists s)"

definition getList :: "string \<Rightarrow> wstore \<Rightarrow> ws_error + task_list option" where
  "getList lid s = map_result (find_by tl_id lid) (lists s)"

definition createList :: "tasks_env \<Rightarrow> jsval \<Rightarrow> jsval \<Rightarrow> (wstore, ws_error, task_list) cmd" where
  "createList env name dest =
     andThen (check (requireName name)) (\<lambda>n.
     andThen (check (normalizeDestination env dest)) (\<lambda>d.
     andThen (query lists) (\<lambda>ls.
       let list = \<lparr>tl_id = newId env ''list'' (env_now env 0), tl_name = n, tl_defaultDestination = d\<rparr>
       in andThen (writeLists (ls @ [list])) (\<lambda>_. ret list))))"

definition updateList :: "tasks_env \<Rightarrow> string \<Rightarrow> jsval \<Rightarrow> jsval \<Rightarrow> (wstore, ws_error, task_list) cmd" where
  "updateList env lid name dest =
     andThen (query lists) (\<lambda>ls.
     case find_by tl_id lid ls of
       None \<Rightarrow> throw (TaskRefused TaskListNotFound)
     | Some current \<Rightarrow>
         andThen (require (\<not> (name \<noteq> Undefined \<and> lid = INBOX_TASK_LIST_ID)) (TaskRefused InboxIsPermanent)) (\<lambda>_.
         andThen (check (if name = Undefined then Inr (tl_name current) else requireName name)) (\<lambda>n.
         andThen (check (if dest = Undefined then Inr (tl_defaultDestination current)
                         else normalizeDestination env dest)) (\<lambda>d.
           let next = current\<lparr>tl_name := n, tl_defaultDestination := d\<rparr>
           in andThen (writeLists (replace_by tl_id lid next ls)) (\<lambda>_. ret next)))))"

definition deleteList :: "string \<Rightarrow> (wstore, ws_error, unit) cmd" where
  "deleteList lid =
     andThen (require (lid \<noteq> INBOX_TASK_LIST_ID) (TaskRefused InboxIsPermanent)) (\<lambda>_.
     andThen (query lists) (\<lambda>ls.
     andThen (require (lid \<in> tl_id ` set ls) (TaskRefused TaskListNotFound)) (\<lambda>_.
     andThen (query readTasks) (\<lambda>ts.
     andThen (require (filter (\<lambda>t. task_listId t = lid) ts = []) (TaskRefused TaskListNotEmpty)) (\<lambda>_.
       writeLists (filter (\<lambda>l. tl_id l \<noteq> lid) ls))))))"

subsection \<open>Queries\<close>

datatype responsible_filter = ByOwner | ByNobody | ByProfile string

record task_query =
  tq_listId :: "string option"
  tq_status :: "task_status option"
  tq_trashed :: bool
  tq_search :: "string option"
  tq_priority :: "task_priority option"
  tq_responsible :: "responsible_filter option"
  tq_linked :: "bool option"

definition any_task :: task_query where
  "any_task = \<lparr>tq_listId = None, tq_status = None, tq_trashed = False, tq_search = None,
     tq_priority = None, tq_responsible = None, tq_linked = None\<rparr>"

definition responsibleMatches :: "responsible_filter option \<Rightarrow> responsible_person option \<Rightarrow> bool" where
  "responsibleMatches expected actual = (case expected of
     None \<Rightarrow> True
   | Some ByNobody \<Rightarrow> actual = None
   | Some ByOwner \<Rightarrow> actual = Some Owner
   | Some (ByProfile p) \<Rightarrow> actual = Some (PersonProfile p))"

fun sameResponsiblePerson :: "responsible_person option \<Rightarrow> responsible_person option \<Rightarrow> bool" where
  "sameResponsiblePerson None b = (b = None)"
| "sameResponsiblePerson a None = (a = None)"
| "sameResponsiblePerson (Some Owner) (Some b) = (b = Owner)"
| "sameResponsiblePerson (Some a) (Some Owner) = (a = Owner)"
| "sameResponsiblePerson (Some (PersonProfile p)) (Some (PersonProfile q)) = (p = q)"

definition normalizedTitle :: "string \<Rightarrow> string" where
  "normalizedTitle s = collapse_spaces (toLowerCase (trim s))"

definition search_term :: "task_query \<Rightarrow> string" where
  "search_term q = (case tq_search q of None \<Rightarrow> [] | Some s \<Rightarrow> toLowerCase (trim s))"

definition query_matches :: "task_query \<Rightarrow> task \<Rightarrow> bool" where
  "query_matches q t \<longleftrightarrow>
     tq_trashed q = (task_deletedAt t \<noteq> None)
     \<and> matches (tq_listId q) (task_listId t)
     \<and> matches (tq_status q) (task_status t)
     \<and> matches (tq_priority q) (task_priority t)
     \<and> matches (tq_linked q) (task_externalLink t \<noteq> None)
     \<and> responsibleMatches (tq_responsible q) (task_responsiblePerson t)
     \<and> (search_term q = [] \<or> includes_text (search_term q) (toLowerCase (task_title t))
        \<or> includes_text (search_term q) (toLowerCase (task_notes t)))"

definition listTasks :: "task_query \<Rightarrow> wstore \<Rightarrow> ws_error + task list" where
  "listTasks q s = map_result (\<lambda>ts. js_sort compareTasks (filter (query_matches q) ts)) (readTasks s)"

definition getTask :: "string \<Rightarrow> wstore \<Rightarrow> ws_error + task option" where
  "getTask tid s = map_result (find_by task_id tid) (readTasks s)"

definition is_duplicate :: "string \<Rightarrow> string option \<Rightarrow> responsible_person option \<Rightarrow> task \<Rightarrow> bool" where
  "is_duplicate title due responsible t \<longleftrightarrow>
     task_status t = Open \<and> task_deletedAt t = None \<and> task_dueDate t = due
     \<and> normalizedTitle (task_title t) = title
     \<and> sameResponsiblePerson (task_responsiblePerson t) responsible"

definition findDuplicates :: "task_duplicate_candidate \<Rightarrow> (wstore, ws_error, task list) cmd" where
  "findDuplicates c =
     andThen (check (requireTitle (dc_title c))) (\<lambda>raw.
     andThen (check (requireDueDate (nullish (dc_dueDate c) JNull))) (\<lambda>due.
     let responsible = (case dc_responsiblePerson c of None \<Rightarrow> Some Owner | Some r \<Rightarrow> r) in
     andThen (query readTasks) (\<lambda>ts.
       ret (js_sort compareTasks (filter (is_duplicate (normalizedTitle raw) due responsible) ts)))))"

subsection \<open>Capture\<close>

definition prepare :: "tasks_env \<Rightarrow> task_create_input \<Rightarrow> task_source option \<Rightarrow> (wstore, ws_error, task) cmd" where
  "prepare env input src =
     andThen (check (requireTitle (ci_title input))) (\<lambda>title.
     let listId = or_else (ci_listId input) INBOX_TASK_LIST_ID in
     andThen (query (getList listId)) (\<lambda>l. case l of
       None \<Rightarrow> throw (TaskRefused TaskListNotFound)
     | Some list \<Rightarrow>
         andThen (check (requireNotes (nullish (ci_notes input) (JStr [])))) (\<lambda>notes.
         andThen (check (requireDueDate (nullish (ci_dueDate input) JNull))) (\<lambda>due.
         andThen (check (requirePriority (nullish (ci_priority input) (JStr ''none'')))) (\<lambda>priority.
         andThen (check (requireResponsiblePerson env
             (if ci_responsiblePerson input = Undefined then person_json (Some Owner)
              else ci_responsiblePerson input))) (\<lambda>responsible.
         andThen (check (normalizeDestination env
             (nullish (ci_destination input) (destination_json (tl_defaultDestination list))))) (\<lambda>dest.
           let at = env_now env 0 in
           ret \<lparr>task_version = 1, task_id = newId env ''task'' (env_now env 1), task_title = title,
             task_notes = notes, task_status = Open, task_dueDate = due, task_priority = priority,
             task_listId = listId, task_responsiblePerson = responsible, task_destination = dest,
             task_source = src, task_externalLink = None, task_createdAt = at, task_updatedAt = at,
             task_completedAt = None, task_deletedAt = None\<rparr>)))))))"

definition createTask :: "tasks_env \<Rightarrow> task_create_input \<Rightarrow> task_source option \<Rightarrow> (wstore, ws_error, task) cmd" where
  "createTask env input src =
     andThen (prepare env input src) (\<lambda>task.
     andThen (query readTasks) (\<lambda>ts.
     andThen (writeTasks (ts @ [task])) (\<lambda>_. ret task)))"

definition acceptTask :: "task \<Rightarrow> action_item list \<Rightarrow> (wstore, ws_error, task) cmd" where
  "acceptTask task items =
     andThen (query readTasks) (\<lambda>ts.
     andThen (commitAcceptance (ts @ [task]) items) (\<lambda>_. ret task))"

definition completedNow :: "tasks_env \<Rightarrow> task \<Rightarrow> task" where
  "completedNow env t = t\<lparr>task_status := Completed, task_completedAt := Some (env_now env 2)\<rparr>"

subsection \<open>One Task's critical section\<close>

text \<open>
  \<open>edit\<close> reads the current record, applies the change and commits it with the version advanced.
  A change answers \<open>None\<close> when it returns the very record it was given, which commits nothing.
\<close>

definition edit ::
  "tasks_env \<Rightarrow> string \<Rightarrow> (task \<Rightarrow> wstore \<Rightarrow> ws_error + task option) \<Rightarrow> (wstore, ws_error, task) cmd" where
  "edit env tid change =
     andThen (query readTasks) (\<lambda>ts.
     case find_by task_id tid ts of
       None \<Rightarrow> throw (TaskRefused TaskNotFound)
     | Some current \<Rightarrow>
         andThen (query (change current)) (\<lambda>c. case c of
           None \<Rightarrow> ret current
         | Some changed \<Rightarrow>
             let next = changed\<lparr>task_updatedAt := env_now env 1,
                          task_version := task_version current + 1\<rparr>
             in andThen (writeTasks (replace_by task_id tid next ts)) (\<lambda>_. ret next)))"

definition requireExpectedVersion :: "string \<Rightarrow> int option \<Rightarrow> (wstore, ws_error, unit) cmd" where
  "requireExpectedVersion tid expected = (case expected of
     None \<Rightarrow> ret ()
   | Some v \<Rightarrow> andThen (query readTasks) (\<lambda>ts.
       case find_by task_id tid ts of
         None \<Rightarrow> throw (TaskRefused TaskNotFound)
       | Some current \<Rightarrow> require (task_version current = v) (TaskRefused TaskVersionConflict)))"

definition or_undefined :: "jsval \<Rightarrow> (jsval \<Rightarrow> ws_error + 'a) \<Rightarrow> 'a \<Rightarrow> ws_error + 'a" where
  "or_undefined v f d = (if v = Undefined then Inr d else f v)"

definition update_change :: "tasks_env \<Rightarrow> task_update_input \<Rightarrow> task \<Rightarrow> wstore \<Rightarrow> ws_error + task option" where
  "update_change env input t = (\<lambda>s. fst (
     andThen (check (or_undefined (ui_title input) requireTitle (task_title t))) (\<lambda>title.
     andThen (check (or_undefined (ui_notes input) requireNotes (task_notes t))) (\<lambda>notes.
     andThen (check (or_undefined (ui_dueDate input) requireDueDate (task_dueDate t))) (\<lambda>due.
     andThen (check (or_undefined (ui_priority input) requirePriority (task_priority t))) (\<lambda>priority.
     andThen (case ui_listId input of
         None \<Rightarrow> ret (task_listId t)
       | Some lid \<Rightarrow> andThen (query (getList lid)) (\<lambda>l.
           andThen (require (l \<noteq> None) (TaskRefused TaskListNotFound)) (\<lambda>_. ret lid))) (\<lambda>listId.
     andThen (check (or_undefined (ui_responsiblePerson input) (requireResponsiblePerson env)
         (task_responsiblePerson t))) (\<lambda>responsible.
       ret (Some (t\<lparr>task_title := title, task_notes := notes, task_dueDate := due,
         task_priority := priority, task_listId := listId,
         task_responsiblePerson := responsible\<rparr>)))))))) s))"

definition updateTask :: "tasks_env \<Rightarrow> string \<Rightarrow> task_update_input \<Rightarrow> int option \<Rightarrow> (wstore, ws_error, task) cmd" where
  "updateTask env tid input expected =
     andThen (requireExpectedVersion tid expected) (\<lambda>_. edit env tid (update_change env input))"

definition completeTask :: "tasks_env \<Rightarrow> string \<Rightarrow> int option \<Rightarrow> (wstore, ws_error, task) cmd" where
  "completeTask env tid expected =
     andThen (requireExpectedVersion tid expected) (\<lambda>_. edit env tid (\<lambda>t s.
       Inr (if task_status t = Completed then None
            else Some (t\<lparr>task_status := Completed, task_completedAt := Some (env_now env 0)\<rparr>))))"

definition reopenTask :: "tasks_env \<Rightarrow> string \<Rightarrow> (wstore, ws_error, task) cmd" where
  "reopenTask env tid = edit env tid (\<lambda>t s.
     Inr (if task_status t = Open then None
          else Some (t\<lparr>task_status := Open, task_completedAt := None\<rparr>)))"

definition trashTask :: "tasks_env \<Rightarrow> string \<Rightarrow> (wstore, ws_error, task) cmd" where
  "trashTask env tid = edit env tid (\<lambda>t s.
     Inr (if task_deletedAt t = None then Some (t\<lparr>task_deletedAt := Some (env_now env 0)\<rparr>) else None))"

definition restoreTask :: "tasks_env \<Rightarrow> string \<Rightarrow> (wstore, ws_error, task) cmd" where
  "restoreTask env tid = edit env tid (\<lambda>t s.
     Inr (if task_deletedAt t = None then None else Some (t\<lparr>task_deletedAt := None\<rparr>)))"

definition deleteForever :: "string \<Rightarrow> bool \<Rightarrow> (wstore, ws_error, unit) cmd" where
  "deleteForever tid confirmed =
     andThen (query readTasks) (\<lambda>ts.
     case find_by task_id tid ts of
       None \<Rightarrow> throw (TaskRefused TaskNotFound)
     | Some t \<Rightarrow>
         andThen (require (task_deletedAt t \<noteq> None) (TaskRefused TaskNotInTrash)) (\<lambda>_.
         andThen (require confirmed (TaskRefused ConfirmationRequired)) (\<lambda>_.
           writeTasks (filter (\<lambda>c. task_id c \<noteq> tid) ts))))"

definition holds_live_record :: "external_link \<Rightarrow> bool" where
  "holds_live_record l \<longleftrightarrow>
     el_state l = Synchronized \<or> (el_state l = Failed \<and> el_remoteId l \<noteq> None)"

definition recordExternalLink :: "tasks_env \<Rightarrow> string \<Rightarrow> external_link \<Rightarrow> (wstore, ws_error, task) cmd" where
  "recordExternalLink env tid link = edit env tid (\<lambda>t s.
     if (case task_externalLink t of None \<Rightarrow> False | Some existing \<Rightarrow> holds_live_record existing)
     then refuse TaskAlreadyLinked
     else Inr (Some (t\<lparr>task_destination := el_destination link,
            task_externalLink := Some (link\<lparr>el_updatedAt := env_now env 0\<rparr>)\<rparr>)))"

definition refreshExternalLink :: "tasks_env \<Rightarrow> string \<Rightarrow> external_link \<Rightarrow> (wstore, ws_error, task) cmd" where
  "refreshExternalLink env tid link = edit env tid (\<lambda>t s.
     if task_externalLink t = None then refuse TaskNotLinked
     else Inr (Some (t\<lparr>task_externalLink := Some (link\<lparr>el_updatedAt := env_now env 0\<rparr>)\<rparr>)))"

definition clearExternalLink :: "tasks_env \<Rightarrow> string \<Rightarrow> (wstore, ws_error, task) cmd" where
  "clearExternalLink env tid = edit env tid (\<lambda>t s.
     Inr (if task_externalLink t = None then None else Some (t\<lparr>task_externalLink := None\<rparr>)))"

end
