(* ===== verification/TaskFacts.thy ===== *)
theory TaskFacts
  imports WorkspaceTasks
begin

section \<open>What the Task operations guarantee\<close>

text \<open>
  The contract that update, complete, reopen, trash, restore and the three link writes share
  (\<open>edits_one_task\<close>: one record, one version on, everything else untouched), its interpretation for
  each of them, and the well-formedness of the Workspace's Tasks as an invariant of every command.
\<close>

named_theorems check_results \<open>what a passed check says about its value\<close>

subsection \<open>Checks\<close>

lemma requireTitle_InrD [check_results]: "requireTitle v = Inr x \<Longrightarrow> x \<noteq> [] \<and> trimmed x"
  by (auto simp: requireTitle_def Let_def trimmed_trim split: jsval.splits if_splits)

lemma requireName_InrD [check_results]: "requireName v = Inr x \<Longrightarrow> x \<noteq> [] \<and> trimmed x"
  by (auto simp: requireName_def Let_def trimmed_trim split: jsval.splits if_splits)

definition valid_due_date :: "string option \<Rightarrow> bool" where
  "valid_due_date d = (case d of None \<Rightarrow> True
     | Some s \<Rightarrow> (case date_fields s of None \<Rightarrow> False | Some f \<Rightarrow> calendar_day f))"

lemma requireDueDate_Str:
  "requireDueDate (JStr s) = (if valid_due_date (Some s) then Inr (Some s) else refuse InvalidDueDate)"
proof (cases "date_fields s")
  case (Some f)
  from utc_day_round_trip [OF Some] show ?thesis
    by (cases "utc_day f") (simp_all add: requireDueDate_def Some valid_due_date_def del: split_paired_All)
qed (simp add: requireDueDate_def valid_due_date_def)

lemma requireDueDate_InrD [check_results]: "requireDueDate v = Inr d \<Longrightarrow> valid_due_date d"
proof (cases v)
  case (JStr s)
  then show "requireDueDate v = Inr d \<Longrightarrow> valid_due_date d"
    by (auto simp: requireDueDate_Str split: if_splits)
qed (auto simp: requireDueDate_def valid_due_date_def)

subsection \<open>Well-formed Tasks\<close>

definition task_wf :: "task \<Rightarrow> bool" where
  "task_wf t \<longleftrightarrow> task_title t \<noteq> [] \<and> trimmed (task_title t) \<and> valid_due_date (task_dueDate t)
     \<and> (task_status t = Completed \<longleftrightarrow> task_completedAt t \<noteq> None) \<and> 1 \<le> task_version t"

definition same_record :: "task \<Rightarrow> task \<Rightarrow> bool" where
  "same_record t u \<longleftrightarrow> task_id u = task_id t \<and> task_source u = task_source t
     \<and> task_createdAt u = task_createdAt t"

definition workspace_wf :: "task list \<Rightarrow> task_list list \<Rightarrow> bool" where
  "workspace_wf ts ls \<longleftrightarrow> distinct (map task_id ts) \<and> (\<forall>t \<in> set ts. task_wf t)
     \<and> distinct (map tl_id ls) \<and> (\<forall>t \<in> set ts. task_listId t \<in> tl_id ` set ls)"

subsection \<open>The shared contract of an edit\<close>

definition edit_outcome ::
  "tasks_env \<Rightarrow> string \<Rightarrow> task list \<Rightarrow> wstore \<Rightarrow> (ws_error + task) \<times> wstore \<Rightarrow> bool" where
  "edit_outcome env tid ts s r \<longleftrightarrow>
     (\<exists>e. r = (Inl e, s))
     \<or> (\<exists>t. find_by task_id tid ts = Some t \<and> r = (Inr t, s))
     \<or> (\<exists>cur t s'. find_by task_id tid ts = Some cur \<and> r = (Inr t, s') \<and> same_record cur t
          \<and> task_version t = task_version cur + 1 \<and> task_updatedAt t = env_now env 1
          \<and> readTasks s' = Inr (replace_by task_id tid t ts)
          \<and> readLists s' = readLists s \<and> readActionItems s' = readActionItems s
          \<and> next_generation s s')"

lemma edit_outcome_edit:
  assumes "can_write s" "readTasks s = Inr ts"
    and "\<And>cur c. change cur s = Inr (Some c) \<Longrightarrow> same_record cur c"
  shows "edit_outcome env tid ts s (edit env tid change s)"
proof (cases "find_by task_id tid ts")
  case None
  with assms(2) show ?thesis by (simp add: edit_def edit_outcome_def)
next
  case (Some cur)
  show ?thesis
  proof (cases "change cur s")
    case (Inl e)
    with Some assms(2) show ?thesis by (simp add: edit_def edit_outcome_def)
  next
    case (Inr c)
    show ?thesis
    proof (cases c)
      case None
      with Inr Some assms(2) show ?thesis by (simp add: edit_def edit_outcome_def)
    next
      case (Some u)
      let ?n = "u\<lparr>task_updatedAt := env_now env 1, task_version := task_version cur + 1\<rparr>"
      let ?ts = "replace_by task_id tid ?n ts"
      have "same_record cur ?n" using assms(3) Inr Some by (simp add: same_record_def)
      moreover have "edit env tid change s = (Inr ?n, snd (writeTasks ?ts s))"
        using Inr Some assms(2) \<open>find_by task_id tid ts = Some cur\<close>
          tasks_table.write_run [OF assms(1), of ?ts]
        by (simp add: edit_def Let_def)
      ultimately show ?thesis
        using \<open>find_by task_id tid ts = Some cur\<close> writeTasks_facts [OF assms(1), of ?ts]
        unfolding edit_outcome_def by auto
    qed
  qed
qed

lemma requireExpectedVersion_run:
  assumes "readTasks s = Inr ts"
  shows "requireExpectedVersion tid expected s =
    (case expected of None \<Rightarrow> (Inr (), s)
     | Some v \<Rightarrow> (case find_by task_id tid ts of None \<Rightarrow> (Inl (TaskRefused TaskNotFound), s)
        | Some t \<Rightarrow> if task_version t = v then (Inr (), s) else (Inl (TaskRefused TaskVersionConflict), s)))"
  using assms by (auto simp: requireExpectedVersion_def require_run split: option.splits)

lemma edit_outcome_versioned:
  assumes "can_write s" "readTasks s = Inr ts"
    and "\<And>cur c. change cur s = Inr (Some c) \<Longrightarrow> same_record cur c"
  shows "edit_outcome env tid ts s
    (andThen (requireExpectedVersion tid expected) (\<lambda>_. edit env tid change) s)"
proof (cases "requireExpectedVersion tid expected s")
  case (Pair r s')
  with assms(2) have s': "s' = s"
    by (auto simp: requireExpectedVersion_run split: option.splits if_splits)
  show ?thesis
  proof (cases r)
    case (Inl e)
    with Pair s' show ?thesis by (simp add: edit_outcome_def)
  next
    case (Inr u)
    with Pair s' edit_outcome_edit [OF assms] show ?thesis by simp
  qed
qed

locale edits_one_task =
  fixes env :: tasks_env
    and run :: "string \<Rightarrow> (wstore, ws_error, task) cmd"
  assumes outcome: "can_write s \<Longrightarrow> readTasks s = Inr ts \<Longrightarrow> edit_outcome env tid ts s (run tid s)"
    and unreadable: "readTasks s = Inl e \<Longrightarrow> run tid s = (Inl e, s)"
begin

lemma outcome_cases:
  assumes "can_write s" "readTasks s = Inr ts"
  obtains (refused) e where "run tid s = (Inl e, s)"
  | (unchanged) t where "find_by task_id tid ts = Some t" "run tid s = (Inr t, s)"
  | (committed) cur t s' where "find_by task_id tid ts = Some cur" "run tid s = (Inr t, s')"
      "same_record cur t" "task_version t = task_version cur + 1" "task_updatedAt t = env_now env 1"
      "readTasks s' = Inr (replace_by task_id tid t ts)" "readLists s' = readLists s"
      "readActionItems s' = readActionItems s" "next_generation s s'"
  using outcome [OF assms, of tid] unfolding edit_outcome_def by blast

lemma refusal_keeps_store:
  assumes "can_write s" "readTasks s = Inr ts" "fst (run tid s) = Inl e"
  shows "snd (run tid s) = s"
  using assms(1,2) by (cases rule: outcome_cases [where tid = tid]) (use assms(3) in auto)

lemma missing_refused:
  assumes "can_write s" "readTasks s = Inr ts" "find_by task_id tid ts = None"
  shows "\<exists>e. run tid s = (Inl e, s)"
  using assms(1,2) by (cases rule: outcome_cases [where tid = tid]) (use assms(3) in auto)

text \<open>Whatever the edit does, every other Task, the lists and the Action Items stay as they are.\<close>

lemma frame:
  assumes "can_write s" "readTasks s = Inr ts"
  obtains ts' where "readTasks (snd (run tid s)) = Inr ts'" "map task_id ts' = map task_id ts"
    "\<And>j. j \<noteq> tid \<Longrightarrow> find_by task_id j ts' = find_by task_id j ts"
    "readLists (snd (run tid s)) = readLists s" "readActionItems (snd (run tid s)) = readActionItems s"
  using assms
proof (cases rule: outcome_cases [where tid = tid])
  case (committed cur t s')
  then have "task_id t = tid" by (auto simp: same_record_def dest: find_by_SomeD)
  with committed show ?thesis
    by (intro that [of "replace_by task_id tid t ts"]) (simp_all add: map_key_replace_by find_by_replace_other)
qed (use assms(2) that in auto)

text \<open>A Task's version never goes back, and an answer is the record the store now holds.\<close>

lemma answer_is_stored:
  assumes "can_write s" "readTasks s = Inr ts" "fst (run tid s) = Inr t"
  shows "\<exists>ts' cur. readTasks (snd (run tid s)) = Inr ts' \<and> find_by task_id tid ts' = Some t
    \<and> find_by task_id tid ts = Some cur \<and> same_record cur t \<and> task_version cur \<le> task_version t"
  using assms(1,2)
proof (cases rule: outcome_cases [where tid = tid])
  case (committed cur u s')
  then have "task_id u = tid" by (auto simp: same_record_def dest: find_by_SomeD)
  with committed assms(3) show ?thesis by (auto simp: find_by_replace_same)
qed (use assms(2,3) in \<open>auto simp: same_record_def\<close>)

end

text \<open>
  A passed edit keeps the records well formed as soon as its change does.
\<close>

locale edits_one_wf_task = edits_one_task +
  assumes wf_commit: "can_write s \<Longrightarrow> readTasks s = Inr ts \<Longrightarrow> lists s = Inr ls \<Longrightarrow>
      workspace_wf ts ls \<Longrightarrow> run tid s = (Inr t, s') \<Longrightarrow> task_wf t \<and> task_listId t \<in> tl_id ` set ls"
begin

lemma keeps_workspace_wf:
  assumes "can_write s" "readTasks s = Inr ts" "lists s = Inr ls" "workspace_wf ts ls"
  shows "\<exists>ts'. readTasks (snd (run tid s)) = Inr ts' \<and> lists (snd (run tid s)) = Inr ls \<and> workspace_wf ts' ls"
  using assms(1,2)
proof (cases rule: outcome_cases [where tid = tid])
  case (committed cur t s')
  have t: "task_wf t \<and> task_listId t \<in> tl_id ` set ls"
    using assms committed(2) by (rule wf_commit)
  have "task_id t = tid" using committed by (auto simp: same_record_def dest: find_by_SomeD)
  then have "workspace_wf (replace_by task_id tid t ts) ls"
    using assms(4) t by (auto simp: workspace_wf_def map_key_replace_by dest!: replace_by_mem_cases)
  moreover have "lists s' = Inr ls" using assms(3) committed by (simp add: lists_def)
  ultimately show ?thesis using committed by auto
qed (use assms in auto)

end

lemma edit_unreadable: "readTasks s = Inl e \<Longrightarrow> edit env tid change s = (Inl e, s)"
  by (simp add: edit_def)

lemma versioned_unreadable:
  "readTasks s = Inl e \<Longrightarrow>
   andThen (requireExpectedVersion tid expected) (\<lambda>_. edit env tid change) s = (Inl e, s)"
  by (cases expected) (simp_all add: requireExpectedVersion_def edit_unreadable)

text \<open>What a committed edit's answer is made of.\<close>

lemma edit_InrE:
  assumes "edit env tid change s = (Inr t, s')"
  obtains ts cur where "readTasks s = Inr ts" "find_by task_id tid ts = Some cur"
    "change cur s = Inr None" "t = cur" "s' = s"
  | ts cur c where "readTasks s = Inr ts" "find_by task_id tid ts = Some cur"
    "change cur s = Inr (Some c)"
    "t = c\<lparr>task_updatedAt := env_now env 1, task_version := task_version cur + 1\<rparr>"
proof -
  obtain ts where ts: "readTasks s = Inr ts"
    using assms(1) by (cases "readTasks s") (simp_all add: edit_def)
  then obtain cur where cur: "find_by task_id tid ts = Some cur"
    using assms(1) by (cases "find_by task_id tid ts") (simp_all add: edit_def)
  with ts obtain c where c: "change cur s = Inr c"
    using assms(1) by (cases "change cur s") (simp_all add: edit_def)
  show thesis
  proof (cases c)
    case None
    with ts cur c assms(1) show ?thesis by (intro that(1)) (simp_all add: edit_def)
  next
    case (Some u)
    let ?n = "u\<lparr>task_updatedAt := env_now env 1, task_version := task_version cur + 1\<rparr>"
    have "t = ?n"
      using ts cur c Some assms(1)
      by (cases "writeTasks (replace_by task_id tid ?n ts) s"; cases "fst (writeTasks (replace_by task_id tid ?n ts) s)")
        (simp_all add: edit_def Let_def)
    with ts cur c Some show ?thesis by (intro that(2)) simp_all
  qed
qed

lemma versioned_InrD:
  assumes "andThen (requireExpectedVersion tid expected) (\<lambda>_. m) s = (Inr t, s')" "readTasks s = Inr ts"
  shows "m s = (Inr t, s')"
  using assms by (auto simp: requireExpectedVersion_run andThen_run split: option.splits if_splits sum.splits)

lemma edit_wf:
  assumes "edit env tid change s = (Inr t, s')" "readTasks s = Inr ts" "workspace_wf ts ls"
    and "\<And>cur c. cur \<in> set ts \<Longrightarrow> task_wf cur \<Longrightarrow> task_listId cur \<in> tl_id ` set ls \<Longrightarrow>
      change cur s = Inr (Some c) \<Longrightarrow>
      task_wf (c\<lparr>task_version := task_version cur + 1\<rparr>) \<and> task_listId c \<in> tl_id ` set ls"
  shows "task_wf t \<and> task_listId t \<in> tl_id ` set ls"
  using assms(1)
proof (cases rule: edit_InrE)
  case (1 ts' cur)
  with assms show ?thesis by (auto simp: workspace_wf_def dest: find_by_SomeD)
next
  case (2 ts' cur c)
  with assms(2) have cur: "cur \<in> set ts" by (auto dest: find_by_SomeD)
  with assms(3) have "task_wf cur" "task_listId cur \<in> tl_id ` set ls"
    by (auto simp: workspace_wf_def)
  from assms(4) [OF cur this 2(3)] 2(4) show ?thesis by (simp add: task_wf_def)
qed

subsection \<open>Every edit satisfies the contract\<close>

lemma update_change_InrD:
  assumes "update_change env input cur s = Inr (Some c)"
  shows "same_record cur c \<and> task_status c = task_status cur \<and> task_completedAt c = task_completedAt cur
    \<and> (task_title c = task_title cur \<or> task_title c \<noteq> [] \<and> trimmed (task_title c))
    \<and> (task_dueDate c = task_dueDate cur \<or> valid_due_date (task_dueDate c))
    \<and> (task_listId c = task_listId cur
       \<or> (\<exists>ls. lists s = Inr ls \<and> task_listId c \<in> tl_id ` set ls))
    \<and> task_externalLink c = task_externalLink cur \<and> task_destination c = task_destination cur
    \<and> task_deletedAt c = task_deletedAt cur"
proof -
  have t: "or_undefined v requireTitle d = Inr x \<Longrightarrow> x = d \<or> x \<noteq> [] \<and> trimmed x" for v d x
    by (auto simp: or_undefined_def dest: requireTitle_InrD split: if_splits)
  have d: "or_undefined v requireDueDate e = Inr x \<Longrightarrow> x = e \<or> valid_due_date x" for v e x
    by (auto simp: or_undefined_def dest: requireDueDate_InrD split: if_splits)
  have l: "getList lid s = Inr (Some y) \<Longrightarrow> \<exists>ls. lists s = Inr ls \<and> lid \<in> tl_id ` set ls" for lid y
    by (auto simp: getList_def map_result_def dest: find_by_SomeD split: sum.splits)
  show ?thesis
    using assms
    by (auto simp: update_change_def same_record_def andThen_run require_run
        dest!: t d intro: l split: sum.splits prod.splits option.splits if_splits)
qed

text \<open>
  A change that keeps the identity of the record, and its well-formedness, gives a contract edit,
  with or without the version check in front of it.
\<close>

definition wf_change :: "(task \<Rightarrow> wstore \<Rightarrow> ws_error + task option) \<Rightarrow> bool" where
  "wf_change change \<longleftrightarrow> (\<forall>cur s c. change cur s = Inr (Some c) \<longrightarrow> same_record cur c
     \<and> (task_wf cur \<longrightarrow> task_wf (c\<lparr>task_version := task_version cur + 1\<rparr>))
     \<and> (task_listId c = task_listId cur \<or> (\<exists>ls. lists s = Inr ls \<and> task_listId c \<in> tl_id ` set ls)))"

lemma wf_changeD:
  assumes "wf_change change" "change cur s = Inr (Some c)"
  shows "same_record cur c" "task_wf cur \<Longrightarrow> task_wf (c\<lparr>task_version := task_version cur + 1\<rparr>)"
    "lists s = Inr ls \<Longrightarrow> task_listId cur \<in> tl_id ` set ls \<Longrightarrow> task_listId c \<in> tl_id ` set ls"
  using assms unfolding wf_change_def by fastforce+

lemma edits_one_wf_edit:
  assumes "wf_change change"
  shows "edits_one_wf_task env (\<lambda>tid. edit env tid change)"
proof
  show "edit_outcome env tid ts s (edit env tid change s)"
    if "can_write s" "readTasks s = Inr ts" for s ts tid
    by (rule edit_outcome_edit [OF that wf_changeD(1) [OF assms]])
  show "task_wf t \<and> task_listId t \<in> tl_id ` set ls"
    if "readTasks s = Inr ts" "lists s = Inr ls" "workspace_wf ts ls"
      "edit env tid change s = (Inr t, s')" for s ts ls tid t s'
    using that(4,1,3) by (rule edit_wf) (use wf_changeD [OF assms] that(2) in blast)
qed (simp add: edit_unreadable)

lemma edits_one_wf_versioned:
  assumes "wf_change change"
  shows "edits_one_wf_task env
    (\<lambda>tid. andThen (requireExpectedVersion tid expected) (\<lambda>_. edit env tid change))"
proof
  show "edit_outcome env tid ts s
      (andThen (requireExpectedVersion tid expected) (\<lambda>_. edit env tid change) s)"
    if "can_write s" "readTasks s = Inr ts" for s ts tid
    by (rule edit_outcome_versioned [OF that wf_changeD(1) [OF assms]])
  show "task_wf t \<and> task_listId t \<in> tl_id ` set ls"
    if "readTasks s = Inr ts" "lists s = Inr ls" "workspace_wf ts ls"
      "andThen (requireExpectedVersion tid expected) (\<lambda>_. edit env tid change) s = (Inr t, s')"
    for s ts ls tid t s'
    using versioned_InrD [OF that(4,1)] that(1,3)
    by (rule edit_wf) (use wf_changeD [OF assms] that(2) in blast)
qed (simp add: versioned_unreadable)

lemmas wf_change_simps = wf_change_def same_record_def task_wf_def

interpretation update_edit: edits_one_wf_task env "\<lambda>tid. updateTask env tid input expected"
  for env input expected
proof -
  have "wf_change (update_change env input)"
    unfolding wf_change_def task_wf_def by (auto dest!: update_change_InrD)
  then show "edits_one_wf_task env (\<lambda>tid. updateTask env tid input expected)"
    unfolding updateTask_def by (rule edits_one_wf_versioned)
qed

interpretation complete_edit: edits_one_wf_task env "\<lambda>tid. completeTask env tid expected"
  for env expected
  unfolding completeTask_def by (rule edits_one_wf_versioned) (simp add: wf_change_simps)

interpretation reopen_edit: edits_one_wf_task env "reopenTask env" for env
  unfolding reopenTask_def [abs_def] by (rule edits_one_wf_edit) (simp add: wf_change_simps)

interpretation trash_edit: edits_one_wf_task env "trashTask env" for env
  unfolding trashTask_def [abs_def] by (rule edits_one_wf_edit) (simp add: wf_change_simps)

interpretation restore_edit: edits_one_wf_task env "restoreTask env" for env
  unfolding restoreTask_def [abs_def] by (rule edits_one_wf_edit) (simp add: wf_change_simps)

interpretation recordLink_edit: edits_one_wf_task env "\<lambda>tid. recordExternalLink env tid link"
  for env link
  unfolding recordExternalLink_def by (rule edits_one_wf_edit) (simp add: wf_change_simps)

interpretation refreshLink_edit: edits_one_wf_task env "\<lambda>tid. refreshExternalLink env tid link"
  for env link
  unfolding refreshExternalLink_def by (rule edits_one_wf_edit) (simp add: wf_change_simps)

interpretation clearLink_edit: edits_one_wf_task env "clearExternalLink env" for env
  unfolding clearExternalLink_def [abs_def] by (rule edits_one_wf_edit) (simp add: wf_change_simps)

end
