(* ===== verification/TaskCommands.thy ===== *)
theory TaskCommands
  imports TaskFacts
begin

section \<open>The owner's commands on Tasks and Task Lists\<close>

text \<open>
  Every operation of \<open>WorkspaceTasks\<close> that changes state, as one step relation over the store.  A
  step is any command, answered or refused, on a store that can still be written; the only other
  premise is that the identities the command mints are new, which is what the clock and the random
  characters of \<open>newId\<close> are for.  The invariant \<open>store_wf\<close> says that the store reads, that the Tasks
  are well formed and uniquely identified, and that every Task is filed in a list that exists.
\<close>

datatype owner_command =
    CreateList jsval jsval
  | UpdateList string jsval jsval
  | DeleteList string
  | Capture task_create_input "task_source option"
  | Update string task_update_input "int option"
  | Complete string "int option"
  | Reopen string
  | Trash string
  | Restore string
  | DeleteForever string bool
  | RecordLink string external_link
  | RefreshLink string external_link
  | ClearLink string

definition as_unit :: "('s, 'e, 'a) cmd \<Rightarrow> ('s, 'e, unit) cmd" where
  "as_unit m = andThen m (\<lambda>_. ret ())"

fun run_command :: "tasks_env \<Rightarrow> owner_command \<Rightarrow> (wstore, ws_error, unit) cmd" where
  "run_command env (CreateList name dest) = as_unit (createList env name dest)"
| "run_command env (UpdateList lid name dest) = as_unit (updateList env lid name dest)"
| "run_command env (DeleteList lid) = deleteList lid"
| "run_command env (Capture input src) = as_unit (createTask env input src)"
| "run_command env (Update tid input v) = as_unit (updateTask env tid input v)"
| "run_command env (Complete tid v) = as_unit (completeTask env tid v)"
| "run_command env (Reopen tid) = as_unit (reopenTask env tid)"
| "run_command env (Trash tid) = as_unit (trashTask env tid)"
| "run_command env (Restore tid) = as_unit (restoreTask env tid)"
| "run_command env (DeleteForever tid c) = deleteForever tid c"
| "run_command env (RecordLink tid l) = as_unit (recordExternalLink env tid l)"
| "run_command env (RefreshLink tid l) = as_unit (refreshExternalLink env tid l)"
| "run_command env (ClearLink tid) = as_unit (clearExternalLink env tid)"

lemma snd_as_unit [simp]: "snd (as_unit m s) = snd (m s)"
  by (simp add: as_unit_def andThen_def split: prod.splits sum.splits)

definition store_wf :: "wstore \<Rightarrow> bool" where
  "store_wf s \<longleftrightarrow> (\<exists>ts ls. readTasks s = Inr ts \<and> lists s = Inr ls \<and> workspace_wf ts ls
     \<and> INBOX_TASK_LIST_ID \<in> tl_id ` set ls)"

definition fresh_ids :: "tasks_env \<Rightarrow> wstore \<Rightarrow> bool" where
  "fresh_ids env s \<longleftrightarrow>
     (\<forall>ts. readTasks s = Inr ts \<longrightarrow> newId env ''task'' (env_now env 1) \<notin> task_id ` set ts)
     \<and> (\<forall>ls. lists s = Inr ls \<longrightarrow> newId env ''list'' (env_now env 0) \<notin> tl_id ` set ls)"

inductive task_step :: "wstore \<Rightarrow> wstore \<Rightarrow> bool" where
  command: "can_write s \<Longrightarrow> fresh_ids env s \<Longrightarrow> task_step s (snd (run_command env c s))"

inductive task_reachable :: "wstore \<Rightarrow> wstore \<Rightarrow> bool" for s0 where
  start: "task_reachable s0 s0"
| step: "task_reachable s0 s \<Longrightarrow> task_step s s' \<Longrightarrow> task_reachable s0 s'"

inductive_cases task_stepE: "task_step s s'"

subsection \<open>Lists\<close>

lemma with_inbox_ids: "INBOX_TASK_LIST_ID \<in> tl_id ` set (with_inbox ls)"
  by (auto simp: with_inbox_def inbox_list_def split: option.splits dest: find_by_SomeD)

lemma with_inbox_shape:
  "\<exists>l. with_inbox ls = l # filter (\<lambda>l. tl_id l \<noteq> INBOX_TASK_LIST_ID) ls \<and> tl_id l = INBOX_TASK_LIST_ID"
  by (auto simp: with_inbox_def inbox_list_def split: option.splits dest: find_by_SomeD)

text \<open>Once Inbox leads the stored lists, reading them again changes nothing.\<close>

lemma with_inbox_idem:
  "tl_id l = INBOX_TASK_LIST_ID \<Longrightarrow> \<forall>m \<in> set ls. tl_id m \<noteq> INBOX_TASK_LIST_ID \<Longrightarrow>
   with_inbox (l # ls) = l # ls"
  by (simp add: with_inbox_def filter_id_conv)

lemma lists_InrE:
  assumes "lists s = Inr ls"
  obtains l rest where "ls = l # rest" "tl_id l = INBOX_TASK_LIST_ID"
    "\<forall>m \<in> set rest. tl_id m \<noteq> INBOX_TASK_LIST_ID"
proof -
  from assms obtain ps where "readLists s = Inr ps" "ls = with_inbox ps"
    by (auto simp: lists_def map_result_def split: sum.splits)
  moreover obtain l where "with_inbox ps = l # filter (\<lambda>l. tl_id l \<noteq> INBOX_TASK_LIST_ID) ps"
    "tl_id l = INBOX_TASK_LIST_ID"
    using with_inbox_shape by blast
  ultimately show thesis by (intro that [of l "filter (\<lambda>l. tl_id l \<noteq> INBOX_TASK_LIST_ID) ps"]) simp_all
qed

lemma lists_unwritten: "readLists s' = readLists s \<Longrightarrow> lists s' = lists s"
  by (simp add: lists_def)

lemma lists_written: "readLists s = Inr (l # ls) \<Longrightarrow> tl_id l = INBOX_TASK_LIST_ID \<Longrightarrow>
  \<forall>m \<in> set ls. tl_id m \<noteq> INBOX_TASK_LIST_ID \<Longrightarrow> lists s = Inr (l # ls)"
  by (simp add: lists_def map_result_def with_inbox_idem)

lemma newId_not_inbox: "newId env ''list'' now \<noteq> INBOX_TASK_LIST_ID"
  by (simp add: newId_def)

lemma createList_run:
  assumes "can_write s" "lists s = Inr ls"
  shows "(\<exists>e. createList env name dest s = (Inl e, s)) \<or>
    (\<exists>l s'. createList env name dest s = (Inr l, s') \<and> tl_id l = newId env ''list'' (env_now env 0)
      \<and> tl_name l \<noteq> [] \<and> trimmed (tl_name l) \<and> lists s' = Inr (ls @ [l]) \<and> readTasks s' = readTasks s
      \<and> readActionItems s' = readActionItems s \<and> next_generation s s')"
proof (cases "requireName name")
  case (Inl e)
  then show ?thesis by (simp add: createList_def)
next
  case n: (Inr n)
  show ?thesis
  proof (cases "normalizeDestination env dest")
    case (Inl e)
    with n show ?thesis by (simp add: createList_def)
  next
    case (Inr d)
    let ?l = "\<lparr>tl_id = newId env ''list'' (env_now env 0), tl_name = n, tl_defaultDestination = d\<rparr>"
    let ?s = "snd (writeLists (ls @ [?l]) s)"
    have "createList env name dest s = (Inr ?l, ?s)"
      using n Inr assms(2) lists_table.write_run [OF assms(1), of "ls @ [?l]"]
      by (simp add: createList_def Let_def)
    moreover have "lists ?s = Inr (ls @ [?l])"
      using assms(2)
    proof (rule lists_InrE)
      fix i rest assume i: "ls = i # rest" "tl_id i = INBOX_TASK_LIST_ID"
        "\<forall>m \<in> set rest. tl_id m \<noteq> INBOX_TASK_LIST_ID"
      then show ?thesis
        using writeLists_facts(2) [OF assms(1), of "ls @ [?l]"] newId_not_inbox
        by (simp add: lists_written)
    qed
    ultimately show ?thesis
      using requireName_InrD [OF n] writeLists_facts(3-5) [OF assms(1), of "ls @ [?l]"] by auto
  qed
qed

lemma updateList_run:
  assumes "can_write s" "lists s = Inr ls"
  shows "(\<exists>e. updateList env lid name dest s = (Inl e, s)) \<or>
    (\<exists>l s'. updateList env lid name dest s = (Inr l, s') \<and> tl_id l = lid
      \<and> lists s' = Inr (replace_by tl_id lid l ls) \<and> readTasks s' = readTasks s
      \<and> readActionItems s' = readActionItems s \<and> next_generation s s')"
proof -
  have written: "lists (snd (writeLists (replace_by tl_id lid n ls) s)) = Inr (replace_by tl_id lid n ls)"
    if "tl_id n = lid" for n
    using assms(2)
  proof (rule lists_InrE)
    fix i rest assume i: "ls = i # rest" "tl_id i = INBOX_TASK_LIST_ID"
      "\<forall>m \<in> set rest. tl_id m \<noteq> INBOX_TASK_LIST_ID"
    then have "\<forall>m \<in> set (replace_by tl_id lid n rest). tl_id m \<noteq> INBOX_TASK_LIST_ID"
      using that by (auto simp: replace_by_def)
    with i that writeLists_facts(2) [OF assms(1), of "replace_by tl_id lid n ls"]
    show ?thesis by (simp add: lists_written)
  qed
  show ?thesis
  proof (cases "find_by tl_id lid ls")
    case None
    with assms(2) show ?thesis by (simp add: updateList_def)
  next
    case (Some cur)
    define rn where "rn = (if name = Undefined then Inr (tl_name cur) else requireName name)"
    define rd where "rd = (if dest = Undefined then Inr (tl_defaultDestination cur)
      else normalizeDestination env dest)"
    have cur: "tl_id cur = lid" using Some by (auto dest: find_by_SomeD)
    show ?thesis
    proof (cases "(name \<noteq> Undefined \<and> lid = INBOX_TASK_LIST_ID) \<or> (\<exists>e. rn = Inl e) \<or> (\<exists>e. rd = Inl e)")
      case True
      then show ?thesis
        using Some assms(2) unfolding rn_def [symmetric] rd_def [symmetric] updateList_def
        by (cases rn; cases rd) (auto simp: andThen_run require_run rn_def [symmetric] rd_def [symmetric])
    next
      case False
      then obtain n d where nd: "rn = Inr n" "rd = Inr d" by (cases rn; cases rd) auto
      let ?n = "cur\<lparr>tl_name := n, tl_defaultDestination := d\<rparr>"
      have "updateList env lid name dest s = (Inr ?n, snd (writeLists (replace_by tl_id lid ?n ls) s))"
        using Some assms(2) False nd lists_table.write_run [OF assms(1), of "replace_by tl_id lid ?n ls"]
        by (simp add: updateList_def rn_def [symmetric] rd_def [symmetric] Let_def)
      then show ?thesis
        using written [of ?n] cur writeLists_facts(3-5) [OF assms(1), of "replace_by tl_id lid ?n ls"]
        by auto
    qed
  qed
qed

lemma deleteList_run:
  assumes "can_write s" "lists s = Inr ls" "readTasks s = Inr ts"
  shows "(\<exists>e. deleteList lid s = (Inl e, s)) \<or>
    (\<exists>s'. deleteList lid s = (Inr (), s') \<and> lid \<noteq> INBOX_TASK_LIST_ID \<and> lid \<in> tl_id ` set ls
      \<and> (\<forall>t \<in> set ts. task_listId t \<noteq> lid)
      \<and> lists s' = Inr (filter (\<lambda>l. tl_id l \<noteq> lid) ls) \<and> readTasks s' = readTasks s
      \<and> readActionItems s' = readActionItems s \<and> next_generation s s')"
proof (cases "lid \<noteq> INBOX_TASK_LIST_ID \<and> lid \<in> tl_id ` set ls \<and> (\<forall>t \<in> set ts. task_listId t \<noteq> lid)")
  case True
  let ?f = "filter (\<lambda>l. tl_id l \<noteq> lid) ls"
  have "lists (snd (writeLists ?f s)) = Inr ?f"
    using assms(2)
  proof (rule lists_InrE)
    fix i rest assume "ls = i # rest" "tl_id i = INBOX_TASK_LIST_ID"
      "\<forall>m \<in> set rest. tl_id m \<noteq> INBOX_TASK_LIST_ID"
    moreover have "INBOX_TASK_LIST_ID \<noteq> lid" using True by auto
    ultimately show ?thesis
      using writeLists_facts(2) [OF assms(1), of ?f] by (simp add: lists_written)
  qed
  moreover have "deleteList lid s = (Inr (), snd (writeLists ?f s))"
    using True assms lists_table.write_run [OF assms(1), of ?f]
    by (auto simp: deleteList_def filter_empty_conv)
  ultimately show ?thesis
    using True writeLists_facts(3-5) [OF assms(1), of ?f] by auto
next
  case False
  then show ?thesis
    using assms by (auto simp: deleteList_def andThen_run require_run filter_empty_conv)
qed

subsection \<open>Capture and permanent deletion\<close>

lemma prepare_InrD:
  assumes "prepare env input src s = (Inr t, s')"
  shows "s' = s \<and> task_wf t \<and> task_id t = newId env ''task'' (env_now env 1) \<and> task_status t = Open
    \<and> task_source t = src \<and> task_externalLink t = None \<and> task_deletedAt t = None \<and> task_version t = 1
    \<and> task_listId t = or_else (ci_listId input) INBOX_TASK_LIST_ID
    \<and> (\<exists>ls. lists s = Inr ls \<and> task_listId t \<in> tl_id ` set ls)
    \<and> requireTitle (ci_title input) = Inr (task_title t)
    \<and> requireDueDate (nullish (ci_dueDate input) JNull) = Inr (task_dueDate t)
    \<and> requireNotes (nullish (ci_notes input) (JStr [])) = Inr (task_notes t)
    \<and> requireResponsiblePerson env (if ci_responsiblePerson input = Undefined
         then person_json (Some Owner) else ci_responsiblePerson input) = Inr (task_responsiblePerson t)"
proof -
  have l: "\<exists>ls. lists s0 = Inr ls \<and> lid \<in> tl_id ` set ls" if "getList lid s0 = Inr (Some y)" for lid s0 y
    using that by (auto simp: getList_def map_result_def dest: find_by_SomeD split: sum.splits)
  from assms show ?thesis
    unfolding prepare_def Let_def
    by (elim run_elims) (simp add: task_wf_def requireTitle_InrD requireDueDate_InrD l)
qed

lemma prepare_reads: "keeps ((=) s) (prepare env input src)"
  unfolding prepare_def Let_def by (intro keeps_intros)

lemma prepare_InlD: "prepare env input src s = (Inl e, s') \<Longrightarrow> s' = s"
  using prepare_reads [of s env input src] by (auto simp: keeps_def)

lemma createTask_run:
  assumes "can_write s" "readTasks s = Inr ts"
  shows "(\<exists>e. createTask env input src s = (Inl e, s)) \<or>
    (\<exists>t s'. createTask env input src s = (Inr t, s') \<and> prepare env input src s = (Inr t, s)
      \<and> readTasks s' = Inr (ts @ [t]) \<and> readLists s' = readLists s
      \<and> readActionItems s' = readActionItems s \<and> next_generation s s')"
proof (cases "prepare env input src s")
  case (Pair r s')
  show ?thesis
  proof (cases r)
    case (Inl e)
    with Pair have "s' = s" by (auto dest: prepare_InlD)
    with Pair Inl show ?thesis by (simp add: createTask_def)
  next
    case (Inr t)
    with Pair have p: "prepare env input src s = (Inr t, s)" by (auto dest: prepare_InrD)
    have "createTask env input src s = (Inr t, snd (writeTasks (ts @ [t]) s))"
      using p assms(2) tasks_table.write_run [OF assms(1), of "ts @ [t]"] by (simp add: createTask_def)
    with p writeTasks_facts [OF assms(1), of "ts @ [t]"] show ?thesis by auto
  qed
qed

lemma deleteForever_run:
  assumes "can_write s" "readTasks s = Inr ts"
  shows "(\<exists>e. deleteForever tid confirmed s = (Inl e, s)) \<or>
    (\<exists>t s'. find_by task_id tid ts = Some t \<and> task_deletedAt t \<noteq> None \<and> confirmed
      \<and> deleteForever tid confirmed s = (Inr (), s')
      \<and> readTasks s' = Inr (filter (\<lambda>c. task_id c \<noteq> tid) ts) \<and> readLists s' = readLists s
      \<and> readActionItems s' = readActionItems s \<and> next_generation s s')"
proof (cases "find_by task_id tid ts")
  case None
  with assms(2) show ?thesis by (simp add: deleteForever_def)
next
  case (Some t)
  let ?f = "filter (\<lambda>c. task_id c \<noteq> tid) ts"
  show ?thesis
  proof (cases "task_deletedAt t \<noteq> None \<and> confirmed")
    case True
    with Some assms(2) have "deleteForever tid confirmed s = (Inr (), snd (writeTasks ?f s))"
      using tasks_table.write_run [OF assms(1), of ?f] by (simp add: deleteForever_def)
    with Some True writeTasks_facts [OF assms(1), of ?f] show ?thesis by auto
  next
    case False
    with Some assms(2) show ?thesis by (auto simp: deleteForever_def andThen_run require_run)
  qed
qed

subsection \<open>Every command keeps the store well formed\<close>

lemma store_wfI:
  "readTasks s = Inr ts \<Longrightarrow> lists s = Inr ls \<Longrightarrow> workspace_wf ts ls \<Longrightarrow>
   INBOX_TASK_LIST_ID \<in> tl_id ` set ls \<Longrightarrow> store_wf s"
  by (auto simp: store_wf_def)

lemma store_wfE:
  assumes "store_wf s"
  obtains ts ls where "readTasks s = Inr ts" "lists s = Inr ls" "workspace_wf ts ls"
    "INBOX_TASK_LIST_ID \<in> tl_id ` set ls"
  using assms by (auto simp: store_wf_def)

context edits_one_wf_task begin

lemma keeps_store_wf: "can_write s \<Longrightarrow> store_wf s \<Longrightarrow> store_wf (snd (run tid s))"
  by (erule store_wfE, frule (3) keeps_workspace_wf [where tid = tid]) (auto intro: store_wfI)

end

lemma createList_wf:
  assumes "can_write s" "store_wf s" "fresh_ids env s"
  shows "store_wf (snd (createList env name dest s))"
  using assms(2)
proof (rule store_wfE)
  fix ts ls assume r: "readTasks s = Inr ts" "lists s = Inr ls" "workspace_wf ts ls"
    "INBOX_TASK_LIST_ID \<in> tl_id ` set ls"
  from createList_run [OF assms(1) r(2), of env name dest] show ?thesis
  proof (elim disjE exE conjE)
    fix l s' assume c: "createList env name dest s = (Inr l, s')"
      "tl_id l = newId env ''list'' (env_now env 0)" "lists s' = Inr (ls @ [l])" "readTasks s' = readTasks s"
    then have "workspace_wf ts (ls @ [l])"
      using r assms(3) by (auto simp: workspace_wf_def fresh_ids_def)
    with c r show ?thesis by (auto intro!: store_wfI)
  qed (use assms(2) in simp)
qed

lemma updateList_wf:
  assumes "can_write s" "store_wf s"
  shows "store_wf (snd (updateList env lid name dest s))"
  using assms(2)
proof (rule store_wfE)
  fix ts ls assume r: "readTasks s = Inr ts" "lists s = Inr ls" "workspace_wf ts ls"
    "INBOX_TASK_LIST_ID \<in> tl_id ` set ls"
  from updateList_run [OF assms(1) r(2), of env lid name dest] show ?thesis
  proof (elim disjE exE conjE)
    fix l s' assume c: "updateList env lid name dest s = (Inr l, s')" "tl_id l = lid"
      "lists s' = Inr (replace_by tl_id lid l ls)" "readTasks s' = readTasks s"
    from c(2) have m: "map tl_id (replace_by tl_id lid l ls) = map tl_id ls"
      by (rule map_key_replace_by)
    then have "tl_id ` set (replace_by tl_id lid l ls) = tl_id ` set ls"
      by (metis list.set_map)
    with m r have "workspace_wf ts (replace_by tl_id lid l ls)"
      "INBOX_TASK_LIST_ID \<in> tl_id ` set (replace_by tl_id lid l ls)"
      by (simp_all add: workspace_wf_def)
    with c r show ?thesis by (auto intro!: store_wfI)
  qed (use assms(2) in simp)
qed

lemma deleteList_wf:
  assumes "can_write s" "store_wf s"
  shows "store_wf (snd (deleteList lid s))"
  using assms(2)
proof (rule store_wfE)
  fix ts ls assume r: "readTasks s = Inr ts" "lists s = Inr ls" "workspace_wf ts ls"
    "INBOX_TASK_LIST_ID \<in> tl_id ` set ls"
  let ?f = "filter (\<lambda>l. tl_id l \<noteq> lid) ls"
  from deleteList_run [OF assms(1) r(2,1), of lid] show ?thesis
  proof (elim disjE exE conjE)
    fix s' assume c: "deleteList lid s = (Inr (), s')" "lid \<noteq> INBOX_TASK_LIST_ID"
      "\<forall>t \<in> set ts. task_listId t \<noteq> lid" "lists s' = Inr ?f" "readTasks s' = readTasks s"
    have ids: "tl_id ` set ?f = tl_id ` set ls - {lid}" by auto
    have "distinct (map tl_id ?f)" using r(3) by (simp add: workspace_wf_def distinct_map_filter)
    with ids r c have "workspace_wf ts ?f" "INBOX_TASK_LIST_ID \<in> tl_id ` set ?f"
      by (simp_all add: workspace_wf_def)
    with c r show ?thesis by (auto intro!: store_wfI)
  qed (use assms(2) in simp)
qed

lemma createTask_wf:
  assumes "can_write s" "store_wf s" "fresh_ids env s"
  shows "store_wf (snd (createTask env input src s))"
  using assms(2)
proof (rule store_wfE)
  fix ts ls assume r: "readTasks s = Inr ts" "lists s = Inr ls" "workspace_wf ts ls"
    "INBOX_TASK_LIST_ID \<in> tl_id ` set ls"
  from createTask_run [OF assms(1) r(1), of env input src] show ?thesis
  proof (elim disjE exE conjE)
    fix t s' assume c: "createTask env input src s = (Inr t, s')" "prepare env input src s = (Inr t, s)"
      "readTasks s' = Inr (ts @ [t])" "readLists s' = readLists s"
    from prepare_InrD [OF c(2)] have t: "task_wf t"
      "task_id t = newId env ''task'' (env_now env 1)"
      "\<exists>ls. lists s = Inr ls \<and> task_listId t \<in> tl_id ` set ls"
      by blast+
    have "task_id t \<notin> task_id ` set ts" "task_listId t \<in> tl_id ` set ls"
      using t r(1,2) assms(3) by (simp_all add: fresh_ids_def)
    with t(1) have "workspace_wf (ts @ [t]) ls" using r(3) by (auto simp: workspace_wf_def)
    with c r show ?thesis by (auto intro!: store_wfI simp: lists_def)
  qed (use assms(2) in simp)
qed

lemma deleteForever_wf:
  assumes "can_write s" "store_wf s"
  shows "store_wf (snd (deleteForever tid confirmed s))"
  using assms(2)
proof (rule store_wfE)
  fix ts ls assume r: "readTasks s = Inr ts" "lists s = Inr ls" "workspace_wf ts ls"
    "INBOX_TASK_LIST_ID \<in> tl_id ` set ls"
  from deleteForever_run [OF assms(1) r(1), of tid confirmed] show ?thesis
  proof (elim disjE exE conjE)
    fix t s' assume c: "deleteForever tid confirmed s = (Inr (), s')"
      "readTasks s' = Inr (filter (\<lambda>c. task_id c \<noteq> tid) ts)" "readLists s' = readLists s"
    have "workspace_wf (filter (\<lambda>c. task_id c \<noteq> tid) ts) ls"
      using r(3) by (simp add: workspace_wf_def distinct_map_filter)
    with c r show ?thesis by (auto intro!: store_wfI simp: lists_def)
  qed (use assms(2) in simp)
qed

lemma task_step_wf: "task_step s s' \<Longrightarrow> store_wf s \<Longrightarrow> store_wf s'"
proof (induction rule: task_step.induct)
  case (command s env c)
  then show ?case
    by (cases c) (simp_all add: createList_wf updateList_wf deleteList_wf createTask_wf deleteForever_wf
        update_edit.keeps_store_wf complete_edit.keeps_store_wf reopen_edit.keeps_store_wf
        trash_edit.keeps_store_wf restore_edit.keeps_store_wf recordLink_edit.keeps_store_wf
        refreshLink_edit.keeps_store_wf clearLink_edit.keeps_store_wf)
qed

lemma reachable_wf: "task_reachable s0 s \<Longrightarrow> store_wf s0 \<Longrightarrow> store_wf s"
  by (induction rule: task_reachable.induct) (auto dest: task_step_wf)

end
