(* ===== verification/ExternalLinks.thy ===== *)
theory ExternalLinks
  imports TaskCommands
begin

section \<open>External Task Links\<close>

text \<open>
  \<open>apps/server/src/tasks/external-link.ts\<close>: the one state machine that every outward destination
  shares.  The state is the Workspace's store, the log of the provider calls made so far, a counter
  of Workspace operations (each reads the clock afresh), the last authorization revision seen per
  provider and the stored Google settings.

  A provider is a parameter: \<open>remote_connector\<close> answers each call as a function of the calls made
  before it, so nothing is assumed of what a provider does.  An \<open>await\<close> is a plain call here: one
  operation runs to its end before the next begins.
\<close>

subsection \<open>Provider failures\<close>

text \<open>A thrown value: its properties as the code reads them, and its message.\<close>

record thrown =
  th_value :: jsval
  th_message :: string

definition integer_of :: "jsval \<Rightarrow> int option" where
  "integer_of v = (case v of JNum n \<Rightarrow> Some n | _ \<Rightarrow> None)"

fun first_integer :: "jsval \<Rightarrow> string list \<Rightarrow> int option" where
  "first_integer v [] = None"
| "first_integer v (k # ks) =
     (case integer_of (field v k) of Some n \<Rightarrow> Some n | None \<Rightarrow> first_integer v ks)"

definition providerStatus :: "jsval \<Rightarrow> int option" where
  "providerStatus v =
     (if v \<noteq> JNull \<and> is_object v then
        (case first_integer v [''code'', ''status'', ''statusCode''] of
           Some n \<Rightarrow> Some n
         | None \<Rightarrow>
             let response = field v ''response'' in
             if response \<noteq> JNull \<and> is_object response then integer_of (field response ''status'') else None)
      else None)"

text \<open>
  The redactions of \<open>sanitizeDetail\<close>.  A matcher answers, at the start of a text, the captured
  group and what follows the match; \<open>redact\<close> is \<open>String.replace\<close> with a global expression.
\<close>

definition lit_ci :: "string \<Rightarrow> string \<Rightarrow> (string \<times> string) option" where
  "lit_ci p s = (if toLowerCase (take (length p) s) = p then Some (take (length p) s, drop (length p) s) else None)"

definition some_of :: "(char \<Rightarrow> bool) \<Rightarrow> string \<Rightarrow> (string \<times> string) option" where
  "some_of p s = (if takeWhile p s = [] then None else Some (takeWhile p s, dropWhile p s))"

definition any_of :: "(char \<Rightarrow> bool) \<Rightarrow> string \<Rightarrow> string \<times> string" where
  "any_of p s = (takeWhile p s, dropWhile p s)"

definition bearer_match :: "string \<Rightarrow> (string \<times> string) option" where
  "bearer_match s = (case lit_ci ''bearer'' s of None \<Rightarrow> None | Some (a, r) \<Rightarrow>
     (case some_of is_space r of None \<Rightarrow> None | Some (b, r) \<Rightarrow>
     (case some_of (\<lambda>c. \<not> is_space c) r of None \<Rightarrow> None | Some (_, r) \<Rightarrow> Some (a @ b, r))))"

definition ya29_match :: "string \<Rightarrow> (string \<times> string) option" where
  "ya29_match s = (case lit_ci ''ya29.'' s of None \<Rightarrow> None | Some (a, r) \<Rightarrow>
     (case some_of (\<lambda>c. \<not> is_space c \<and> c \<noteq> CHR 0x22 \<and> c \<noteq> CHR 0x27) r of None \<Rightarrow> None
      | Some (_, r) \<Rightarrow> Some (a, r)))"

definition optional_separator :: "string \<Rightarrow> string \<times> string" where
  "optional_separator s = (case s of c # cs \<Rightarrow> if c = CHR ''_'' \<or> c = CHR ''-'' then ([c], cs) else ([], s)
     | [] \<Rightarrow> ([], []))"

fun secret_name :: "(string \<times> string) list \<Rightarrow> string \<Rightarrow> (string \<times> string) option" where
  "secret_name [] s = None"
| "secret_name ((p, q) # ns) s =
     (case lit_ci p s of
        None \<Rightarrow> secret_name ns s
      | Some (a, r) \<Rightarrow>
          let (b, r') = optional_separator r in
          (case lit_ci q r' of None \<Rightarrow> secret_name ns s | Some (c, r'') \<Rightarrow> Some (a @ b @ c, r'')))"

definition secret_names :: "(string \<times> string) list" where
  "secret_names = [(''api'', ''key''), (''refresh'', ''token''), (''access'', ''token''),
     (''client'', ''secret''), (''id'', ''token'')]"

definition secret_match :: "string \<Rightarrow> (string \<times> string) option" where
  "secret_match s = (case secret_name secret_names s of None \<Rightarrow> None | Some (a, r) \<Rightarrow>
     let (b, r) = any_of is_space r in
     (case r of
        c # r \<Rightarrow> if c = CHR '':'' \<or> c = CHR ''='' then
           (let (d, r) = any_of is_space r in
            case some_of (\<lambda>x. \<not> is_space x \<and> x \<notin> {CHR ''&'', CHR 0x22, CHR 0x27, CHR ''}''}) r of
              None \<Rightarrow> None
            | Some (_, r) \<Rightarrow> Some (a @ b @ [c] @ d, r))
           else None
      | [] \<Rightarrow> None))"

function redact :: "(string \<Rightarrow> (string \<times> string) option) \<Rightarrow> string \<Rightarrow> string" where
  "redact m [] = []"
| "redact m (c # cs) =
     (case m (c # cs) of
        None \<Rightarrow> c # redact m cs
      | Some (kept, rest) \<Rightarrow>
          if length rest \<le> length cs then kept @ ''[redacted]'' @ redact m rest else c # redact m cs)"
  by pat_completeness auto
termination by (relation "measure (\<lambda>(m, s). length s)") auto

text \<open>The ellipsis U+2026 is one character; its 8-bit code here is the one of Windows-1252.\<close>

definition ellipsis :: string where
  "ellipsis = [CHR 0x85]"

definition sanitizeDetail :: "string \<Rightarrow> string" where
  "sanitizeDetail message =
     (let redacted = trim (redact secret_match (redact ya29_match (redact bearer_match message)))
      in if 280 < length redacted then take 277 redacted @ ellipsis else redacted)"

definition mentions_ci :: "string list \<Rightarrow> string \<Rightarrow> bool" where
  "mentions_ci ps raw \<longleftrightarrow> list_ex (\<lambda>p. includes_text (toLowerCase p) (toLowerCase raw)) ps"

definition link_fault :: "failure_kind \<Rightarrow> string \<Rightarrow> link_failure" where
  "link_fault k m = \<lparr>lf_kind = k, lf_message = m, lf_authorizationRevision = None\<rparr>"

definition classifyTaskLinkError :: "thrown \<Rightarrow> string \<Rightarrow> link_failure" where
  "classifyTaskLinkError err provider =
     (let status = providerStatus (th_value err); raw = th_message err in
      if mentions_ci [''rateLimitExceeded'', ''userRateLimitExceeded'', ''quotaExceeded''] raw then
        link_fault RateLimit (provider @ '' is rate-limited. Retry shortly.'')
      else if status = Some 401 \<or> status = Some 403 \<or> includes_text ''invalid_grant'' raw then
        link_fault Authorization (provider @ '' refused the saved credential. Reconnect '' @ provider @ ''.'')
      else if status = Some 400 then
        link_fault Validation (provider @ '' refused that change as invalid.'')
      else if status = Some 404 then
        link_fault NotFound (provider @ '' no longer holds that Task.'')
      else if status = Some 429 then
        link_fault RateLimit (provider @ '' is rate-limited. Retry shortly.'')
      else if status = Some 408 \<or> (case status of None \<Rightarrow> False | Some n \<Rightarrow> 500 \<le> n)
          \<or> mentions_ci [''ENOTFOUND'', ''ETIMEDOUT'', ''ECONNRESET'', ''EAI_AGAIN'', ''fetch failed'', ''network''] raw then
        link_fault Network (provider @ '' is unreachable; the Task is intact.'')
      else
        let detail = sanitizeDetail raw in
        link_fault Unavailable (if detail = [] then provider @ '' failed; the Task is intact.'' else detail))"

subsection \<open>The linking world\<close>

record task_content =
  ct_title :: string
  ct_notes :: string
  ct_dueDate :: "string option"

datatype provider_call =
    ResolveDestination task_destination
  | CreateRecord task task_destination
  | ReadRecord task_destination string
  | UpdateStatus task_destination string bool
  | UpdateContent task_destination string task_content
  | DeleteRecord task_destination string
  | ListRemoteLists

type_synonym 'a answer = "provider_call list \<Rightarrow> thrown + 'a"

record remote_connector =
  rc_resolveDestination :: "(task_destination \<Rightarrow> task_destination answer) option"
  rc_create :: "task \<Rightarrow> task_destination \<Rightarrow> (string \<times> string option) answer"
  rc_read :: "task_destination \<Rightarrow> string \<Rightarrow> baseline option answer"
  rc_updateStatus :: "task_destination \<Rightarrow> string \<Rightarrow> bool \<Rightarrow> unit answer"
  rc_updateContent :: "task_destination \<Rightarrow> string \<Rightarrow> task_content \<Rightarrow> unit answer"
  rc_delete :: "task_destination \<Rightarrow> string \<Rightarrow> unit answer"

record google_settings =
  gs_enabled :: bool
  gs_taskListId :: string
  gs_taskListTitle :: string

record link_env =
  le_tasks :: "nat \<Rightarrow> tasks_env"
  le_thrown :: "ws_error \<Rightarrow> thrown"
  le_authorizationRevision :: "(provider \<Rightarrow> string) option"
  le_listRemoteLists :: "(string \<times> string) list answer"
  le_google :: remote_connector
  le_asana :: "remote_connector option"

record link_world =
  lw_store :: wstore
  lw_calls :: "provider_call list"
  lw_ticks :: nat
  lw_revisions :: "provider \<Rightarrow> string option"
  lw_settings :: google_settings

datatype link_error = Workspace ws_error | Provider thrown

type_synonym 'a link_cmd = "(link_world, link_error, 'a) cmd"

text \<open>One operation of \<open>WorkspaceTasks\<close>, with the clock as it reads now.\<close>

definition tasksOp :: "link_env \<Rightarrow> (tasks_env \<Rightarrow> (wstore, ws_error, 'a) cmd) \<Rightarrow> 'a link_cmd" where
  "tasksOp env f = (\<lambda>w. case f (le_tasks env (lw_ticks w)) (lw_store w) of
     (r, s) \<Rightarrow> (map_sum Workspace id r, w\<lparr>lw_store := s, lw_ticks := Suc (lw_ticks w)\<rparr>))"

definition callProvider :: "provider_call \<Rightarrow> 'a answer \<Rightarrow> 'a link_cmd" where
  "callProvider c f = (\<lambda>w. (map_sum Provider id (f (lw_calls w)), w\<lparr>lw_calls := lw_calls w @ [c]\<rparr>))"

text \<open>\<open>try { x = m } catch (error) { return h(error) }\<close> followed by the rest.\<close>

definition attempt :: "('s, 'e, 'a) cmd \<Rightarrow> ('e \<Rightarrow> ('s, 'e, 'b) cmd) \<Rightarrow> ('a \<Rightarrow> ('s, 'e, 'b) cmd) \<Rightarrow> ('s, 'e, 'b) cmd" where
  "attempt m h f = (\<lambda>s. case m s of (Inl e, s') \<Rightarrow> h e s' | (Inr x, s') \<Rightarrow> f x s')"

abbreviation refuse_link :: "task_error \<Rightarrow> 'a link_cmd" where
  "refuse_link e \<equiv> throw (Workspace (TaskRefused e))"

definition connectorFor :: "link_env \<Rightarrow> provider \<Rightarrow> remote_connector option" where
  "connectorFor env p = (case p of Google \<Rightarrow> Some (le_google env) | AsanaProvider \<Rightarrow> le_asana env | Local \<Rightarrow> None)"

definition providerName :: "task_destination \<Rightarrow> string" where
  "providerName d = (if destination_provider d = AsanaProvider then ''Asana'' else ''Google Tasks'')"

definition classify :: "link_env \<Rightarrow> link_error \<Rightarrow> string \<Rightarrow> link_failure" where
  "classify env err provider =
     (let failure = classifyTaskLinkError (case err of Provider t \<Rightarrow> t | Workspace e \<Rightarrow> le_thrown env e) provider in
      case le_authorizationRevision env of
        None \<Rightarrow> failure
      | Some revision \<Rightarrow> if lf_kind failure = Authorization
          then failure\<lparr>lf_authorizationRevision := Some (revision (if provider = ''Asana'' then AsanaProvider else Google))\<rparr>
          else failure)"

definition contentOf :: "baseline \<Rightarrow> task_content" where
  "contentOf b = \<lparr>ct_title = bl_title b, ct_notes = bl_notes b, ct_dueDate = bl_dueDate b\<rparr>"

definition task_contentOf :: "task \<Rightarrow> task_content" where
  "task_contentOf t = \<lparr>ct_title = task_title t, ct_notes = task_notes t, ct_dueDate = task_dueDate t\<rparr>"

definition with_status :: "task_content \<Rightarrow> task_status \<Rightarrow> baseline" where
  "with_status c st = \<lparr>bl_title = ct_title c, bl_notes = ct_notes c, bl_dueDate = ct_dueDate c, bl_status = st\<rparr>"

definition sameContent :: "baseline \<Rightarrow> baseline \<Rightarrow> bool" where
  "sameContent a b \<longleftrightarrow> bl_title a = bl_title b \<and> bl_notes a = bl_notes b \<and> bl_dueDate a = bl_dueDate b"

definition baselineFor :: "task \<Rightarrow> task_status \<Rightarrow> baseline" where
  "baselineFor t sent = \<lparr>bl_title = task_title t, bl_notes = task_notes t, bl_dueDate = task_dueDate t, bl_status = sent\<rparr>"

definition requireTask :: "link_env \<Rightarrow> string \<Rightarrow> task link_cmd" where
  "requireTask env tid = andThen (tasksOp env (\<lambda>_. query (getTask tid))) (\<lambda>t. case t of
     None \<Rightarrow> refuse_link TaskNotFound | Some t \<Rightarrow> ret t)"

abbreviation recordLink :: "link_env \<Rightarrow> string \<Rightarrow> external_link \<Rightarrow> task link_cmd" where
  "recordLink env tid l \<equiv> tasksOp env (\<lambda>te. recordExternalLink te tid l)"

abbreviation refreshLink :: "link_env \<Rightarrow> string \<Rightarrow> external_link \<Rightarrow> task link_cmd" where
  "refreshLink env tid l \<equiv> tasksOp env (\<lambda>te. refreshExternalLink te tid l)"

text \<open>The link that \<open>link\<close> stores at each stage; the update time is stamped when it is written.\<close>

definition new_link :: "link_state \<Rightarrow> task_destination \<Rightarrow> (string \<times> string option) option \<Rightarrow> baseline \<Rightarrow>
    link_failure option \<Rightarrow> bool \<Rightarrow> external_link" where
  "new_link st d created b failure uncertain =
     \<lparr>el_creationUncertain = uncertain, el_state = st, el_destination = d,
      el_remoteId = map_option fst created, el_url = Option.bind created snd,
      el_baseline = Some b, el_external = None, el_failure = failure, el_updatedAt = []\<rparr>"

definition failed_state :: "link_failure \<Rightarrow> link_state" where
  "failed_state f = (if lf_kind f = NotFound then Missing else Failed)"

definition uncertain_creation :: "failure_kind \<Rightarrow> bool" where
  "uncertain_creation k \<longleftrightarrow> k \<notin> {Authorization, Validation, RateLimit}"

subsection \<open>Destination settings\<close>

definition selectGoogleTasks :: "link_env \<Rightarrow> bool \<Rightarrow> string option \<Rightarrow> google_settings link_cmd" where
  "selectGoogleTasks env enabled taskListId =
     andThen (query (\<lambda>w. Inr (lw_settings w))) (\<lambda>current.
     let save = (\<lambda>next w. (Inr next, w\<lparr>lw_settings := next\<rparr>)) in
     if \<not> enabled then save (current\<lparr>gs_enabled := False\<rparr>)
     else
       let chosen = or_else taskListId (gs_taskListId current) in
       if chosen = [] then refuse_link InvalidDestination
       else andThen (callProvider ListRemoteLists (le_listRemoteLists env)) (\<lambda>remotes.
         case find_by fst chosen remotes of
           None \<Rightarrow> refuse_link InvalidDestination
         | Some m \<Rightarrow> save \<lparr>gs_enabled = True, gs_taskListId = fst m, gs_taskListTitle = snd m\<rparr>))"

subsection \<open>Creating the external record\<close>

definition linkTask_create :: "link_env \<Rightarrow> string \<Rightarrow> task \<Rightarrow> task link_cmd" where
  "linkTask_create env tid task =
     (let destination = task_destination task; provider = providerName destination in
      if destination_provider destination = Local then refuse_link InvalidDestination
      else case connectorFor env (destination_provider destination) of
        None \<Rightarrow> refuse_link InvalidDestination
      | Some connector \<Rightarrow>
          andThen (recordLink env tid
            (new_link Waiting destination None (baselineFor task Open) None True)) (\<lambda>_.
          attempt (callProvider (CreateRecord task destination) (rc_create connector task destination))
            (\<lambda>err. recordLink env tid
              (new_link Failed destination None (baselineFor task Open) (Some (classify env err provider))
                (uncertain_creation (lf_kind (classify env err provider)))))
            (\<lambda>created.
              andThen (recordLink env tid
                (new_link Synchronized destination (Some created) (baselineFor task Open) None False)) (\<lambda>_.
              let finish = refreshLink env tid
                (new_link Synchronized destination (Some created) (baselineFor task (task_status task)) None False) in
              if task_status task = Completed then
                attempt (callProvider (UpdateStatus destination (fst created) True)
                    (rc_updateStatus connector destination (fst created) True))
                  (\<lambda>err. refreshLink env tid
                    (new_link Failed destination (Some created) (baselineFor task Open)
                      (Some (classify env err provider)) False))
                  (\<lambda>_. finish)
              else finish))))"

definition linkTask :: "link_env \<Rightarrow> string \<Rightarrow> task link_cmd" where
  "linkTask env tid =
     andThen (requireTask env tid) (\<lambda>task.
     case task_externalLink task of
       Some l \<Rightarrow>
         if el_creationUncertain l then
           recordLink env tid (l\<lparr>el_state := Failed, el_failure := Some (link_fault Network
             ''The creation response was lost. Inspect the provider and recover its existing record by ID before retrying.'')\<rparr>)
         else if el_remoteId l \<noteq> None then refuse_link TaskAlreadyLinked
         else linkTask_create env tid task
     | None \<Rightarrow> linkTask_create env tid task)"

subsection \<open>Outward writes\<close>

text \<open>
  A link that outward writes leave alone: it names no provider record, or a person has to settle it
  first.
\<close>

definition pushable :: "external_link \<Rightarrow> string option" where
  "pushable l = (if el_state l \<in> {Missing, Conflicted, ChangedExternally}
       \<or> destination_provider (el_destination l) = Local then None else el_remoteId l)"

text \<open>
  The Workspace write that follows a push sits inside the same \<open>try\<close>, so its own refusal is
  classified like a provider's.
\<close>

definition pushed :: "link_env \<Rightarrow> string \<Rightarrow> external_link \<Rightarrow> unit link_cmd \<Rightarrow> external_link \<Rightarrow> task link_cmd" where
  "pushed env tid l call done_link =
     catching (andThen call (\<lambda>_. refreshLink env tid done_link))
       (\<lambda>err. let classified = classify env err (providerName (el_destination l)) in
         refreshLink env tid (l\<lparr>el_state := failed_state classified, el_failure := Some classified\<rparr>))"

definition pushStatus :: "link_env \<Rightarrow> string \<Rightarrow> task link_cmd" where
  "pushStatus env tid =
     andThen (requireTask env tid) (\<lambda>task.
     case task_externalLink task of None \<Rightarrow> ret task | Some l \<Rightarrow>
     (case pushable l of None \<Rightarrow> ret task | Some remoteId \<Rightarrow>
     if map_option bl_status (el_baseline l) = Some (task_status task) then ret task
     else case connectorFor env (destination_provider (el_destination l)) of None \<Rightarrow> ret task
     | Some connector \<Rightarrow>
         let completed = (task_status task = Completed);
             content = (case el_baseline l of Some b \<Rightarrow> contentOf b | None \<Rightarrow> task_contentOf task)
         in pushed env tid l
           (callProvider (UpdateStatus (el_destination l) remoteId completed)
             (rc_updateStatus connector (el_destination l) remoteId completed))
           (l\<lparr>el_state := Synchronized, el_baseline := Some (with_status content (task_status task)),
              el_failure := None\<rparr>)))"

definition pushContent :: "link_env \<Rightarrow> string \<Rightarrow> task link_cmd" where
  "pushContent env tid =
     andThen (requireTask env tid) (\<lambda>task.
     case task_externalLink task of None \<Rightarrow> ret task | Some l \<Rightarrow>
     (case pushable l of None \<Rightarrow> ret task | Some remoteId \<Rightarrow>
     (case connectorFor env (destination_provider (el_destination l)) of None \<Rightarrow> ret task
     | Some connector \<Rightarrow>
         if (case el_baseline l of None \<Rightarrow> False
             | Some b \<Rightarrow> sameContent b (baselineFor task (task_status task))) then ret task
         else pushed env tid l
           (callProvider (UpdateContent (el_destination l) remoteId (task_contentOf task))
             (rc_updateContent connector (el_destination l) remoteId (task_contentOf task)))
           (l\<lparr>el_state := Synchronized,
              el_baseline := Some (with_status (task_contentOf task)
                (case el_baseline l of Some b \<Rightarrow> bl_status b | None \<Rightarrow> task_status task)),
              el_external := None, el_failure := None\<rparr>))))"

subsection \<open>Reading the provider's copy\<close>

text \<open>What one read decides, from the Task, the link and the provider's snapshot.\<close>

datatype reading =
    Gone
  | BothMovedStatus
  | RemoteMovedStatus baseline
  | LocalMovedStatus
  | RemoteMovedContent
  | Settled
  | Converge

definition read_decision :: "task \<Rightarrow> external_link \<Rightarrow> baseline option \<Rightarrow> reading" where
  "read_decision task l snapshot = (case snapshot of None \<Rightarrow> Gone | Some remote \<Rightarrow>
     (case el_baseline l of
        None \<Rightarrow> Converge
      | Some b \<Rightarrow>
          if bl_status remote \<noteq> bl_status b \<and> task_status task \<noteq> bl_status b then BothMovedStatus
          else if bl_status remote \<noteq> bl_status b then RemoteMovedStatus b
          else if task_status task \<noteq> bl_status b then LocalMovedStatus
          else if \<not> sameContent remote b then RemoteMovedContent
          else if bl_status b = task_status task \<and> el_failure l = None then Settled
          else Converge))"

definition apply_status :: "link_env \<Rightarrow> string \<Rightarrow> task_status \<Rightarrow> task link_cmd" where
  "apply_status env tid st =
     tasksOp env (\<lambda>te. if st = Completed then completeTask te tid None else reopenTask te tid)"

definition apply_reading :: "link_env \<Rightarrow> string \<Rightarrow> task \<Rightarrow> external_link \<Rightarrow> baseline option \<Rightarrow> task link_cmd" where
  "apply_reading env tid task l snapshot = (case read_decision task l snapshot of
     Gone \<Rightarrow> refreshLink env tid (l\<lparr>el_state := Missing, el_failure := Some (link_fault NotFound
       (providerName (el_destination l) @ '' no longer holds that Task.''))\<rparr>)
   | BothMovedStatus \<Rightarrow> refreshLink env tid
       (l\<lparr>el_state := Conflicted, el_external := snapshot, el_failure := None\<rparr>)
   | RemoteMovedStatus b \<Rightarrow>
       andThen (apply_status env tid (case snapshot of Some r \<Rightarrow> bl_status r | None \<Rightarrow> Open)) (\<lambda>applied.
       refreshLink env tid (l\<lparr>el_state := Synchronized,
         el_baseline := Some (with_status (contentOf b) (task_status applied)),
         el_external := None, el_failure := None\<rparr>))
   | LocalMovedStatus \<Rightarrow> ret task
   | RemoteMovedContent \<Rightarrow> refreshLink env tid
       (l\<lparr>el_state := ChangedExternally, el_external := snapshot, el_failure := None\<rparr>)
   | Settled \<Rightarrow> ret task
   | Converge \<Rightarrow> refreshLink env tid (l\<lparr>el_state := Synchronized,
       el_baseline := Some (with_status
         (case el_baseline l of Some b \<Rightarrow> contentOf b
          | None \<Rightarrow> (case snapshot of Some r \<Rightarrow> contentOf r | None \<Rightarrow> task_contentOf task))
         (task_status task)),
       el_external := None, el_failure := None\<rparr>))"

text \<open>
  The guarded read: resolve the destination, store it when it moved, read the record.  A failure
  carries the link as far as the destination had been resolved.
\<close>

definition guarded_read :: "link_env \<Rightarrow> string \<Rightarrow> remote_connector \<Rightarrow> external_link \<Rightarrow> string \<Rightarrow>
    (link_world, external_link \<times> link_error, external_link \<times> baseline option) cmd" where
  "guarded_read env tid connector l remoteId =
     (\<lambda>w. let d0 = el_destination l in
      case (case rc_resolveDestination connector of None \<Rightarrow> ret d0
            | Some f \<Rightarrow> callProvider (ResolveDestination d0) (f d0)) w of
        (Inl e, w') \<Rightarrow> (Inl (l, e), w')
      | (Inr d, w') \<Rightarrow>
          let l' = (if d \<noteq> d0 then l\<lparr>el_destination := d\<rparr> else l) in
          (case (if d \<noteq> d0 then andThen (refreshLink env tid l') (\<lambda>_. ret ()) else ret ()) w' of
             (Inl e, w'') \<Rightarrow> (Inl (l', e), w'')
           | (Inr _, w'') \<Rightarrow>
               (case callProvider (ReadRecord d remoteId) (rc_read connector d remoteId) w'' of
                  (Inl e, w3) \<Rightarrow> (Inl (l', e), w3)
                | (Inr snapshot, w3) \<Rightarrow> (Inr (l', snapshot), w3))))"

text \<open>\<open>inspect\<close> answers whether the read failed, the flag its callback sets, with the Task.\<close>

definition inspect :: "link_env \<Rightarrow> string \<Rightarrow> (bool \<times> task) link_cmd" where
  "inspect env tid =
     andThen (requireTask env tid) (\<lambda>task.
     case task_externalLink task of None \<Rightarrow> refuse_link TaskNotLinked | Some l \<Rightarrow>
     (case el_remoteId l of None \<Rightarrow> refuse_link TaskNotLinked | Some remoteId \<Rightarrow>
     if el_state l = Waiting \<or> destination_provider (el_destination l) = Local then refuse_link TaskNotLinked
     else case connectorFor env (destination_provider (el_destination l)) of None \<Rightarrow> refuse_link TaskNotLinked
     | Some connector \<Rightarrow>
         if el_state l \<in> {Missing, ChangedExternally, Conflicted} then ret (False, task)
         else (\<lambda>w. case guarded_read env tid connector l remoteId w of
             (Inl (l', err), w') \<Rightarrow>
               let classified = classify env err (providerName (el_destination l')) in
               andThen (refreshLink env tid (l'\<lparr>el_state := failed_state classified, el_failure := Some classified\<rparr>))
                 (\<lambda>t. ret (True, t)) w'
           | (Inr (l', snapshot), w') \<Rightarrow>
               andThen (apply_reading env tid task l' snapshot) (\<lambda>t. ret (False, t)) w')))"

definition synchronize :: "link_env \<Rightarrow> string \<Rightarrow> task link_cmd" where
  "synchronize env tid = andThen (inspect env tid) (\<lambda>(_, t). ret t)"

subsection \<open>Removing, deleting and recreating\<close>

definition removeLink :: "link_env \<Rightarrow> string \<Rightarrow> task link_cmd" where
  "removeLink env tid = andThen (requireTask env tid) (\<lambda>_. tasksOp env (\<lambda>te. clearExternalLink te tid))"

definition deleteExternal :: "link_env \<Rightarrow> string \<Rightarrow> task link_cmd" where
  "deleteExternal env tid =
     andThen (requireTask env tid) (\<lambda>task.
     case task_externalLink task of None \<Rightarrow> ret task | Some l \<Rightarrow>
     if el_remoteId l = None \<or> el_state l = Missing \<or> destination_provider (el_destination l) = Local
     then removeLink env tid
     else case connectorFor env (destination_provider (el_destination l)) of None \<Rightarrow> ret task
     | Some connector \<Rightarrow>
         let remoteId = (case el_remoteId l of Some r \<Rightarrow> r | None \<Rightarrow> []) in
         attempt (callProvider (DeleteRecord (el_destination l) remoteId)
             (rc_delete connector (el_destination l) remoteId))
           (\<lambda>err. let failure = classify env err (providerName (el_destination l)) in
              if lf_kind failure \<noteq> NotFound
              then refreshLink env tid (l\<lparr>el_state := Failed, el_failure := Some failure\<rparr>)
              else removeLink env tid)
           (\<lambda>_. removeLink env tid))"

datatype external_choice = DeleteExternal | PreserveExternal

definition trashLinked :: "link_env \<Rightarrow> string \<Rightarrow> external_choice option \<Rightarrow> task link_cmd" where
  "trashLinked env tid external =
     andThen (requireTask env tid) (\<lambda>task.
     if task_externalLink task \<noteq> None \<and> external = None then refuse_link ConfirmationRequired
     else andThen (tasksOp env (\<lambda>te. trashTask te tid)) (\<lambda>_.
       if external = Some DeleteExternal then deleteExternal env tid else removeLink env tid))"

definition recreate :: "link_env \<Rightarrow> string \<Rightarrow> task link_cmd" where
  "recreate env tid =
     andThen (requireTask env tid) (\<lambda>task.
     case task_externalLink task of None \<Rightarrow> refuse_link LinkNotMissing | Some l \<Rightarrow>
     if el_state l \<noteq> Missing \<or> destination_provider (el_destination l) = Local then refuse_link LinkNotMissing
     else andThen (refreshLink env tid (l\<lparr>el_state := Waiting, el_remoteId := None, el_failure := None,
            el_creationUncertain := False\<rparr>)) (\<lambda>_. linkTask env tid))"

subsection \<open>Retrying\<close>

definition settles_by_owner :: "link_state \<Rightarrow> bool" where
  "settles_by_owner st \<longleftrightarrow> st \<in> {Missing, Conflicted, ChangedExternally}"

definition link_state_is :: "(link_state \<Rightarrow> bool) \<Rightarrow> task \<Rightarrow> bool" where
  "link_state_is P t = (case task_externalLink t of None \<Rightarrow> False | Some l \<Rightarrow> P (el_state l))"

definition retryOne :: "link_env \<Rightarrow> string \<Rightarrow> task link_cmd" where
  "retryOne env tid =
     andThen (requireTask env tid) (\<lambda>task.
     if task_deletedAt task \<noteq> None then deleteExternal env tid
     else case task_externalLink task of None \<Rightarrow> ret task | Some l \<Rightarrow>
     if settles_by_owner (el_state l) then ret task
     else if el_remoteId l = None then linkTask env tid
     else andThen (inspect env tid) (\<lambda>(readFailed, t).
       if readFailed then ret t
       else if link_state_is settles_by_owner t then ret t
       else andThen (pushStatus env tid) (\<lambda>t.
         if link_state_is (\<lambda>st. st = Failed) t then ret t
         else pushContent env tid)))"

definition retry :: "link_env \<Rightarrow> string \<Rightarrow> task link_cmd" where
  "retry env tid = retryOne env tid"

definition recoverCreation :: "link_env \<Rightarrow> string \<Rightarrow> string \<Rightarrow> task link_cmd" where
  "recoverCreation env tid remoteId =
     andThen (requireTask env tid) (\<lambda>task.
     case task_externalLink task of None \<Rightarrow> refuse_link InvalidDestination | Some l \<Rightarrow>
     if \<not> el_creationUncertain l \<or> trim remoteId = [] \<or> destination_provider (el_destination l) = Local
     then refuse_link InvalidDestination
     else andThen (case connectorFor env (destination_provider (el_destination l)) of
           None \<Rightarrow> ret None
         | Some connector \<Rightarrow> callProvider (ReadRecord (el_destination l) remoteId)
             (rc_read connector (el_destination l) remoteId)) (\<lambda>remote.
       if remote = None then refuse_link TaskNotFound
       else andThen (recordLink env tid (l\<lparr>el_creationUncertain := False, el_remoteId := Some remoteId,
            el_state := Synchronized, el_failure := None\<rparr>)) (\<lambda>_. retry env tid)))"

subsection \<open>What the owner decides\<close>

datatype link_resolution = App | External

definition resolveDrift :: "link_env \<Rightarrow> string \<Rightarrow> link_resolution \<Rightarrow> task link_cmd" where
  "resolveDrift env tid choice =
     andThen (requireTask env tid) (\<lambda>task.
     case task_externalLink task of None \<Rightarrow> refuse_link LinkNotDrifted | Some l \<Rightarrow>
     (case (el_external l, el_remoteId l) of
       (Some external, Some remoteId) \<Rightarrow>
         if el_state l \<noteq> ChangedExternally \<or> destination_provider (el_destination l) = Local
         then refuse_link LinkNotDrifted
         else if choice = External then
           andThen (tasksOp env (\<lambda>te. updateTask te tid
             \<lparr>ui_title = JStr (bl_title external), ui_notes = JStr (bl_notes external),
              ui_dueDate = (case bl_dueDate external of None \<Rightarrow> JNull | Some d \<Rightarrow> JStr d),
              ui_priority = Undefined, ui_listId = None, ui_responsiblePerson = Undefined\<rparr> None)) (\<lambda>updated.
           refreshLink env tid (l\<lparr>el_state := Synchronized,
             el_baseline := Some (with_status (contentOf external)
               (case el_baseline l of Some b \<Rightarrow> bl_status b | None \<Rightarrow> task_status updated)),
             el_external := None, el_failure := None\<rparr>))
         else (case connectorFor env (destination_provider (el_destination l)) of
             None \<Rightarrow> refuse_link InvalidDestination
           | Some connector \<Rightarrow>
               attempt (callProvider (UpdateContent (el_destination l) remoteId (task_contentOf task))
                   (rc_updateContent connector (el_destination l) remoteId (task_contentOf task)))
                 (\<lambda>err. refreshLink env tid
                   (l\<lparr>el_failure := Some (classify env err (providerName (el_destination l)))\<rparr>))
                 (\<lambda>_. refreshLink env tid (l\<lparr>el_state := Synchronized,
                   el_baseline := Some (with_status (task_contentOf task)
                     (case el_baseline l of Some b \<Rightarrow> bl_status b | None \<Rightarrow> task_status task)),
                   el_external := None, el_failure := None\<rparr>)))
     | _ \<Rightarrow> refuse_link LinkNotDrifted))"

definition resolveConflict :: "link_env \<Rightarrow> string \<Rightarrow> link_resolution \<Rightarrow> task link_cmd" where
  "resolveConflict env tid choice =
     andThen (requireTask env tid) (\<lambda>task.
     case task_externalLink task of None \<Rightarrow> refuse_link LinkNotConflicted | Some l \<Rightarrow>
     (case (el_external l, el_remoteId l) of
       (Some external, Some remoteId) \<Rightarrow>
         let settled = (\<lambda>st. l\<lparr>el_state := Synchronized,
           el_baseline := Some (with_status
             (contentOf (case el_baseline l of Some b \<Rightarrow> b | None \<Rightarrow> external)) st),
           el_external := None, el_failure := None\<rparr>) in
         if el_state l \<noteq> Conflicted \<or> destination_provider (el_destination l) = Local
         then refuse_link LinkNotConflicted
         else if choice = External then
           andThen (apply_status env tid (bl_status external)) (\<lambda>applied.
           refreshLink env tid (settled (task_status applied)))
         else (case connectorFor env (destination_provider (el_destination l)) of
             None \<Rightarrow> refuse_link InvalidDestination
           | Some connector \<Rightarrow>
               attempt (callProvider (UpdateStatus (el_destination l) remoteId (task_status task = Completed))
                   (rc_updateStatus connector (el_destination l) remoteId (task_status task = Completed)))
                 (\<lambda>err. refreshLink env tid
                   (l\<lparr>el_failure := Some (classify env err (providerName (el_destination l)))\<rparr>))
                 (\<lambda>_. refreshLink env tid (settled (task_status task))))
     | _ \<Rightarrow> refuse_link LinkNotConflicted))"

subsection \<open>Refreshing every link\<close>

text \<open>
  Reconnected providers are those whose authorization revision moved since the last sweep; a
  refused operation is dropped from the answer and does not stop the others.
\<close>

definition reconnected :: "link_env \<Rightarrow> link_world \<Rightarrow> provider \<Rightarrow> bool" where
  "reconnected env w p \<longleftrightarrow> (case le_authorizationRevision env of
     None \<Rightarrow> False
   | Some revision \<Rightarrow> p \<in> {Google, AsanaProvider} \<and> lw_revisions w p \<noteq> Some (revision p))"

definition note_revisions :: "link_env \<Rightarrow> link_world \<Rightarrow> link_world" where
  "note_revisions env w = (case le_authorizationRevision env of
     None \<Rightarrow> w
   | Some revision \<Rightarrow> w\<lparr>lw_revisions := (\<lambda>p. if p = Local then lw_revisions w p else Some (revision p))\<rparr>)"

definition refresh_selects :: "link_env \<Rightarrow> (provider \<Rightarrow> bool) \<Rightarrow> bool \<Rightarrow> bool \<Rightarrow> task \<Rightarrow> bool" where
  "refresh_selects env again failedOnly manual t =
     (case task_externalLink t of None \<Rightarrow> False | Some l \<Rightarrow>
       (\<not> failedOnly \<or> el_state l = Failed) \<and>
       (manual \<or> again (destination_provider (el_destination l))
        \<or> (case (le_authorizationRevision env, el_failure l) of
             (Some revision, Some f) \<Rightarrow>
               (case lf_authorizationRevision f of None \<Rightarrow> False
                | Some seen \<Rightarrow> destination_provider (el_destination l) \<noteq> Local
                    \<and> seen \<noteq> revision (destination_provider (el_destination l)))
           | _ \<Rightarrow> False)
        \<or> map_option lf_kind (el_failure l) \<noteq> Some Authorization))"

definition settled_results :: "link_env \<Rightarrow> string list \<Rightarrow> task list link_cmd" where
  "settled_results env ids = andThen
     (forEach (\<lambda>tid. catching (andThen (retry env tid) (\<lambda>t. ret [t])) (\<lambda>_. ret [])) ids)
     (\<lambda>rs. ret (concat rs))"

definition refreshLinks :: "link_env \<Rightarrow> bool \<Rightarrow> bool \<Rightarrow> task list link_cmd" where
  "refreshLinks env failedOnly manual =
     (\<lambda>w. andThen (tasksOp env (\<lambda>_. query (listTasks any_task))) (\<lambda>live.
        andThen (tasksOp env (\<lambda>_. query (listTasks (any_task\<lparr>tq_trashed := True\<rparr>)))) (\<lambda>trashed.
          settled_results env
            (map task_id (filter (refresh_selects env (reconnected env w) failedOnly manual) (live @ trashed)))))
        (note_revisions env w))"

end
