(* ===== verification/LinkFacts.thy ===== *)
theory LinkFacts
  imports ExternalLinks
begin

section \<open>What linking guarantees\<close>

text \<open>
  Three families: the owner's decisions are never taken by a background operation
  (\<open>settles_by_owner\<close> links are left alone), the Task stays local first (only the link changes), and
  a Task is never created twice at its provider, however its link operations are interleaved.
\<close>

subsection \<open>What a store holds under an identity, with no assumption on the store\<close>

definition stored_task :: "wstore \<Rightarrow> string \<Rightarrow> task \<Rightarrow> bool" where
  "stored_task s tid t \<longleftrightarrow> (\<exists>ts. readTasks s = Inr ts \<and> find_by task_id tid ts = Some t)"

lemma stored_task_fun: "stored_task s tid t \<Longrightarrow> stored_task s tid u \<Longrightarrow> t = u"
  by (auto simp: stored_task_def)

lemma stored_task_id: "stored_task s tid t \<Longrightarrow> task_id t = tid"
  by (auto simp: stored_task_def dest: find_by_SomeD)

lemma bundle_doc_exhausted: "max_safe_integer < bd_generation b \<Longrightarrow> \<exists>e. bundle_doc (bundle_json b) = Inl e"
  by (auto simp: bundle_doc_def bundle_json_def Let_def)

lemma writeTasks_any:
  assumes "fst (writeTasks ts s) = Inr ()" "readTasks (snd (writeTasks ts s)) = Inr us"
  shows "us = ts"
proof (cases "can_write s")
  case True
  with assms writeTasks_facts(2) [OF True, of ts] show ?thesis by simp
next
  case False
  show ?thesis
  proof (cases "readBundle s")
    case (Inl e)
    with assms show ?thesis by (simp add: writeTasks_def)
  next
    case (Inr o')
    with False obtain b where b: "readBundle s = Inr (Some b)" "\<not> bd_generation b < max_safe_integer"
      by (auto simp: can_write_def split: option.splits)
    let ?n = "b\<lparr>bd_tasks := task_entries ts, bd_format := BUNDLE_FORMAT, bd_generation := bd_generation b + 1\<rparr>"
    from b(2) bundle_doc_exhausted [of ?n] obtain e where "bundle_doc (bundle_json ?n) = Inl e" by auto
    then have "readTasks (snd (writeTasks ts s)) = Inl e"
      using b(1) by (simp add: writeTasks_def writeSnapshot_def nextBundle_def readGeneration_bundle
          readTasks_def readBundle_def [of "s\<lparr>ws_snapshot := x\<rparr>" for x])
    with assms show ?thesis by simp
  qed
qed

definition keeps_id :: "(task \<Rightarrow> wstore \<Rightarrow> ws_error + task option) \<Rightarrow> bool" where
  "keeps_id change \<longleftrightarrow> (\<forall>cur s c. change cur s = Inr (Some c) \<longrightarrow> task_id c = task_id cur)"

text \<open>What an edit leaves stored under any identity, on any store.\<close>

lemma edit_stored:
  assumes "stored_task (snd (edit env k change s)) tid t" "keeps_id change"
  shows "stored_task s tid t \<or>
    (tid = k \<and> (\<exists>cur c. stored_task s tid cur \<and> change cur s = Inr (Some c)
       \<and> t = c\<lparr>task_updatedAt := env_now env 1, task_version := task_version cur + 1\<rparr>
       \<and> fst (edit env k change s) = Inr t))"
proof (cases "snd (edit env k change s) = s")
  case True
  with assms(1) show ?thesis by simp
next
  case False
  obtain ts where ts: "readTasks s = Inr ts"
    using False by (cases "readTasks s") (simp_all add: edit_def)
  then obtain cur where cur: "find_by task_id k ts = Some cur"
    using False by (cases "find_by task_id k ts") (simp_all add: edit_def)
  with ts obtain c where c: "change cur s = Inr (Some c)"
    using False by (cases "change cur s"; cases "projr (change cur s)") (simp_all add: edit_def)
  let ?n = "c\<lparr>task_updatedAt := env_now env 1, task_version := task_version cur + 1\<rparr>"
  let ?us = "replace_by task_id k ?n ts"
  have id: "task_id ?n = k" using c cur assms(2) by (auto simp: keeps_id_def dest: find_by_SomeD)
  obtain r s' where w: "writeTasks ?us s = (r, s')" by (cases "writeTasks ?us s")
  have e: "edit env k change s = (case r of Inl e \<Rightarrow> Inl e | Inr _ \<Rightarrow> Inr ?n, s')"
    using ts cur c w by (cases r) (simp_all add: edit_def Let_def)
  have r: "r = Inr ()"
  proof (cases r)
    case (Inl x)
    with w write_refused(1) [of ?us s x] have "s' = s" by simp
    with e False show ?thesis by simp
  qed simp
  from assms(1) e obtain us where us: "readTasks s' = Inr us" "find_by task_id tid us = Some t"
    by (auto simp: stored_task_def)
  have "us = ?us" using writeTasks_any [of ?us s us] w r us(1) by simp
  show ?thesis
  proof (cases "tid = k")
    case True
    with us(2) \<open>us = ?us\<close> id find_by_replace_same [of task_id ?n k ts cur] cur have "t = ?n" by simp
    with True ts cur c e r show ?thesis by (auto simp: stored_task_def)
  next
    case False
    with us(2) \<open>us = ?us\<close> id have "find_by task_id tid ts = Some t" by (simp add: find_by_replace_other)
    with ts show ?thesis by (auto simp: stored_task_def)
  qed
qed

text \<open>After an answered edit that always commits, the store holds the answer, or nothing readable.\<close>

lemma edit_answer_stored:
  assumes "edit env tid change s = (Inr t', s')" "stored_task s' tid t" "keeps_id change"
    and "\<And>cur. change cur s \<noteq> Inr None"
  shows "t = t'"
proof -
  from assms(1) show ?thesis
  proof (cases rule: edit_InrE)
    case (1 ts cur)
    with assms(4) show ?thesis by simp
  next
    case (2 ts cur c)
    let ?us = "replace_by task_id tid t' ts"
    have t': "task_id t' = tid" using 2 assms(3) by (auto simp: keeps_id_def dest: find_by_SomeD)
    have "andThen (writeTasks ?us) (\<lambda>_. ret t') s = (Inr t', s')"
      using assms(1) 2 by (simp add: edit_def Let_def)
    then have s': "s' = snd (writeTasks ?us s)" "fst (writeTasks ?us s) = Inr ()"
      by (auto elim!: andThen_InrE)
    from assms(2) obtain us where us: "readTasks s' = Inr us" "find_by task_id tid us = Some t"
      by (auto simp: stored_task_def)
    with writeTasks_any [of ?us s us] s' have "us = ?us" by simp
    with us(2) t' 2(2) show ?thesis by (simp add: find_by_replace_same)
  qed
qed

subsection \<open>One provider record per Task\<close>

text \<open>
  A creation call may have left a record at the provider unless it failed in a way that says it did
  not (authorization, validation, rate limit).  \<open>possible_creates\<close> counts those calls for one Task in
  a log of calls.
\<close>

definition may_create :: "link_env \<Rightarrow> string \<Rightarrow> provider_call list \<Rightarrow> provider_call \<Rightarrow> bool" where
  "may_create env tid calls c = (case c of
     CreateRecord t d \<Rightarrow> task_id t = tid \<and>
       (case connectorFor env (destination_provider d) of
          None \<Rightarrow> False
        | Some k \<Rightarrow> (case rc_create k t d calls of
             Inr _ \<Rightarrow> True
           | Inl e \<Rightarrow> uncertain_creation (lf_kind (classify env (Provider e) (providerName d)))))
   | _ \<Rightarrow> False)"

definition possible_creates :: "link_env \<Rightarrow> string \<Rightarrow> provider_call list \<Rightarrow> nat" where
  "possible_creates env tid calls =
     length (filter (\<lambda>i. may_create env tid (take i calls) (calls ! i)) [0..<length calls])"

lemma possible_creates_Nil [simp]: "possible_creates env tid [] = 0"
  by (simp add: possible_creates_def)

lemma possible_creates_snoc [simp]:
  "possible_creates env tid (calls @ [c]) =
   possible_creates env tid calls + (if may_create env tid calls c then 1 else 0)"
proof -
  have "filter (\<lambda>i. may_create env tid (take i (calls @ [c])) ((calls @ [c]) ! i)) [0..<length calls] =
        filter (\<lambda>i. may_create env tid (take i calls) (calls ! i)) [0..<length calls]"
    by (rule filter_cong) (auto simp: nth_append)
  then show ?thesis by (simp add: possible_creates_def)
qed

text \<open>A guarded Task is one that no link operation will create again.\<close>

definition guarded_link :: "external_link \<Rightarrow> bool" where
  "guarded_link l \<longleftrightarrow> el_creationUncertain l \<or> el_remoteId l \<noteq> None"

definition guarded :: "task \<Rightarrow> bool" where
  "guarded t = (case task_externalLink t of None \<Rightarrow> False | Some l \<Rightarrow> guarded_link l)"

definition uncreated :: "link_env \<Rightarrow> string \<Rightarrow> link_world \<Rightarrow> bool" where
  "uncreated env tid w \<longleftrightarrow> possible_creates env tid (lw_calls w) = 0"

definition created_once :: "link_env \<Rightarrow> string \<Rightarrow> link_world \<Rightarrow> bool" where
  "created_once env tid w \<longleftrightarrow> possible_creates env tid (lw_calls w) \<le> 1
     \<and> (\<forall>t. stored_task (lw_store w) tid t \<longrightarrow> guarded t)"

definition creation_safe :: "link_env \<Rightarrow> string \<Rightarrow> link_world \<Rightarrow> bool" where
  "creation_safe env tid w \<longleftrightarrow> uncreated env tid w \<or> created_once env tid w"

text \<open>Workspace operations that leave the links of every Task as they are, or write a guarded one.\<close>

definition guards :: "string \<Rightarrow> (tasks_env \<Rightarrow> (wstore, ws_error, 'a) cmd) \<Rightarrow> bool" where
  "guards tid f \<longleftrightarrow> (\<forall>te s t. stored_task (snd (f te s)) tid t \<longrightarrow>
     guarded t \<or> (\<exists>t0. stored_task s tid t0 \<and> task_externalLink t = task_externalLink t0))"

lemma tasksOp_run: "tasksOp env f w =
   (map_sum Workspace id (fst (f (le_tasks env (lw_ticks w)) (lw_store w))),
    w\<lparr>lw_store := snd (f (le_tasks env (lw_ticks w)) (lw_store w)), lw_ticks := Suc (lw_ticks w)\<rparr>)"
  by (simp add: tasksOp_def split: prod.split)

lemma keeps_uncreated_op [keeps_intros]: "keeps (uncreated env tid) (tasksOp env' f)"
  by (simp add: keeps_def tasksOp_run uncreated_def)

lemma keeps_created_op: "guards tid f \<Longrightarrow> keeps (created_once env tid) (tasksOp env' f)"
  unfolding keeps_def created_once_def guards_def tasksOp_run by (fastforce simp: guarded_def)

lemma keeps_safe_op: "guards tid f \<Longrightarrow> keeps (creation_safe env tid) (tasksOp env' f)"
  using keeps_uncreated_op [of env tid env' f] keeps_created_op [of tid f env env']
  by (auto simp: creation_safe_def keeps_def)

lemma guards_query [keeps_intros]: "guards tid (\<lambda>_. query q)"
  by (auto simp: guards_def)

lemma guards_refresh: "guarded_link l \<or> k \<noteq> tid \<Longrightarrow> guards tid (\<lambda>te. refreshExternalLink te k l)"
  unfolding guards_def
proof (intro allI impI)
  fix te s t
  assume g: "guarded_link l \<or> k \<noteq> tid" and t: "stored_task (snd (refreshExternalLink te k l s)) tid t"
  have "keeps_id (\<lambda>t s. if task_externalLink t = None then refuse TaskNotLinked
     else Inr (Some (t\<lparr>task_externalLink := Some (l\<lparr>el_updatedAt := env_now te 0\<rparr>)\<rparr>)))"
    by (simp add: keeps_id_def)
  from edit_stored [OF t [unfolded refreshExternalLink_def] this] g
  show "guarded t \<or> (\<exists>t0. stored_task s tid t0 \<and> task_externalLink t = task_externalLink t0)"
    by (auto simp: guarded_def guarded_link_def split: if_splits)
qed

lemma guards_record: "guarded_link l \<or> k \<noteq> tid \<Longrightarrow> guards tid (\<lambda>te. recordExternalLink te k l)"
  unfolding guards_def
proof (intro allI impI)
  fix te s t
  assume g: "guarded_link l \<or> k \<noteq> tid" and t: "stored_task (snd (recordExternalLink te k l s)) tid t"
  have "keeps_id (\<lambda>t s. if (case task_externalLink t of None \<Rightarrow> False | Some existing \<Rightarrow> holds_live_record existing)
     then refuse TaskAlreadyLinked
     else Inr (Some (t\<lparr>task_destination := el_destination l,
            task_externalLink := Some (l\<lparr>el_updatedAt := env_now te 0\<rparr>)\<rparr>)))"
    by (auto simp: keeps_id_def split: option.splits)
  from edit_stored [OF t [unfolded recordExternalLink_def] this] g
  show "guarded t \<or> (\<exists>t0. stored_task s tid t0 \<and> task_externalLink t = task_externalLink t0)"
    by (auto simp: guarded_def guarded_link_def split: if_splits)
qed

lemma guards_edit:
  assumes "\<And>te cur s c. change te cur s = Inr (Some c) \<Longrightarrow>
      task_id c = task_id cur \<and> task_externalLink c = task_externalLink cur"
  shows "guards tid (\<lambda>te. edit te k (change te))"
  unfolding guards_def
proof (intro allI impI)
  fix te s t assume t: "stored_task (snd (edit te k (change te) s)) tid t"
  have "keeps_id (change te)" using assms by (simp add: keeps_id_def)
  from edit_stored [OF t this] assms
  show "guarded t \<or> (\<exists>t0. stored_task s tid t0 \<and> task_externalLink t = task_externalLink t0)"
    by fastforce
qed

lemma requireExpectedVersion_snd: "snd (requireExpectedVersion tid expected s) = s"
proof -
  have "keeps ((=) s) (requireExpectedVersion tid expected)"
    unfolding requireExpectedVersion_def by (intro keeps_intros)
  from keepsD [OF this] show ?thesis by simp
qed

lemma guards_versioned:
  assumes "guards tid f"
  shows "guards tid (\<lambda>te. andThen (requireExpectedVersion k expected) (\<lambda>_. f te))"
  unfolding guards_def
proof (intro allI impI)
  fix te s t
  assume t: "stored_task (snd (andThen (requireExpectedVersion k expected) (\<lambda>_. f te) s)) tid t"
  have "snd (andThen (requireExpectedVersion k expected) (\<lambda>_. f te) s) \<in> {s, snd (f te s)}"
    using requireExpectedVersion_snd [of k expected s] by (auto simp: andThen_def split: prod.splits sum.splits)
  then have "stored_task s tid t \<or> stored_task (snd (f te s)) tid t" using t by auto
  with assms show "guarded t \<or> (\<exists>t0. stored_task s tid t0 \<and> task_externalLink t = task_externalLink t0)"
    unfolding guards_def by blast
qed

lemma guards_owner_edits:
  "guards tid (\<lambda>te. completeTask te k v)" "guards tid (\<lambda>te. reopenTask te k)"
  "guards tid (\<lambda>te. updateTask te k input v)" "guards tid (\<lambda>te. trashTask te k)"
  "guards tid (\<lambda>te. restoreTask te k)"
  unfolding completeTask_def reopenTask_def updateTask_def trashTask_def restoreTask_def
  by (intro guards_versioned guards_edit; auto dest: update_change_InrD simp: same_record_def split: if_splits)+

lemma guards_if: "guards tid f \<Longrightarrow> guards tid g \<Longrightarrow> guards tid (\<lambda>te. if b then f te else g te)"
  by (cases b) simp_all

lemma keeps_safe_call:
  assumes "\<And>t d. c \<noteq> CreateRecord t d"
  shows "keeps (creation_safe env tid) (callProvider c f)"
proof -
  have "\<not> may_create env tid calls c" for calls
    using assms by (auto simp: may_create_def split: provider_call.splits)
  then show ?thesis
    by (auto simp: keeps_def creation_safe_def uncreated_def created_once_def callProvider_def)
qed

lemma keeps_safe_requireTask [keeps_intros]: "keeps (creation_safe env tid) (requireTask env' k)"
  unfolding requireTask_def by (intro keeps_intros keeps_safe_op)

lemma keeps_safe_refresh [keeps_intros]:
  "guarded_link l \<or> k \<noteq> tid \<Longrightarrow> keeps (creation_safe env tid) (refreshLink env' k l)"
  by (intro keeps_safe_op guards_refresh)

lemma keeps_safe_record [keeps_intros]:
  "guarded_link l \<or> k \<noteq> tid \<Longrightarrow> keeps (creation_safe env tid) (recordLink env' k l)"
  by (intro keeps_safe_op guards_record)

lemma keeps_safe_apply [keeps_intros]: "keeps (creation_safe env tid) (apply_status env' k st)"
  unfolding apply_status_def by (intro keeps_safe_op guards_if guards_owner_edits)

lemma pushable_guarded: "pushable l = Some r \<Longrightarrow> el_remoteId l = Some r"
  by (simp add: pushable_def split: if_splits)

lemma keeps_safe_pushed [keeps_intros]:
  assumes "keeps (creation_safe env tid) call" "guarded_link l" "guarded_link l'"
  shows "keeps (creation_safe env tid) (pushed env' k l call l')"
  unfolding pushed_def Let_def using assms
  by (intro keeps_intros) (auto simp: guarded_link_def)

lemma keeps_safe_pushStatus: "keeps (creation_safe env tid) (pushStatus env k)"
  unfolding pushStatus_def Let_def
  by (intro keeps_intros keeps_safe_call) (auto simp: guarded_link_def dest: pushable_guarded)

lemma keeps_safe_pushContent: "keeps (creation_safe env tid) (pushContent env k)"
  unfolding pushContent_def Let_def
  by (intro keeps_intros keeps_safe_call) (auto simp: guarded_link_def dest: pushable_guarded)

lemma keeps_attempt [keeps_intros]:
  assumes "keeps P m" "\<And>e. keeps P (h e)" "\<And>x. keeps P (f x)"
  shows "keeps P (attempt m h f)"
  using assms by (fastforce simp: keeps_def attempt_def split: prod.splits sum.splits)

lemma guarded_read_link:
  "guarded_read env tid k l rid w = (Inl (l', e), w') \<Longrightarrow> el_remoteId l' = el_remoteId l"
  "guarded_read env tid k l rid w = (Inr (l', sn), w') \<Longrightarrow> el_remoteId l' = el_remoteId l"
  by (auto simp: guarded_read_def Let_def split: prod.splits sum.splits if_splits)

lemma keeps_guarded_read:
  assumes "\<And>d. keeps P (refreshLink env tid (l\<lparr>el_destination := d\<rparr>))"
    "\<And>c f. (\<And>t d. c \<noteq> CreateRecord t d) \<Longrightarrow> keeps P (callProvider c f :: task_destination link_cmd)"
    "\<And>c f. (\<And>t d. c \<noteq> CreateRecord t d) \<Longrightarrow> keeps P (callProvider c f :: baseline option link_cmd)"
  shows "keeps P (guarded_read env tid k l rid)"
  unfolding keeps_def
proof (intro allI impI)
  fix w assume w: "P w"
  let ?d0 = "el_destination l"
  let ?m = "case rc_resolveDestination k of None \<Rightarrow> ret ?d0
            | Some f \<Rightarrow> callProvider (ResolveDestination ?d0) (f ?d0)"
  obtain r w1 where m: "?m w = (r, w1)" by (cases "?m w")
  have "keeps P ?m" by (intro keeps_intros assms(2)) simp
  from keepsD [OF this w] m have w1: "P w1" by simp
  show "P (snd (guarded_read env tid k l rid w))"
  proof (cases r)
    case (Inl e)
    with m w1 show ?thesis by (simp add: guarded_read_def)
  next
    case (Inr d)
    let ?l = "if d \<noteq> ?d0 then l\<lparr>el_destination := d\<rparr> else l"
    let ?n = "if d \<noteq> ?d0 then andThen (refreshLink env tid ?l) (\<lambda>_. ret ()) else ret ()"
    obtain r2 w2 where n: "?n w1 = (r2, w2)" by (cases "?n w1")
    have "keeps P ?n" using assms(1) by (auto intro!: keeps_intros)
    from keepsD [OF this w1] n have w2: "P w2" by simp
    let ?c = "callProvider (ReadRecord d rid) (rc_read k d rid)"
    obtain r3 w3 where c: "?c w2 = (r3, w3)" by (cases "?c w2")
    have "keeps P ?c" by (intro assms(3)) simp
    from keepsD [OF this w2] c have "P w3" by simp
    with m n c w2 Inr show ?thesis
      unfolding guarded_read_def Let_def by (cases r2; cases r3) simp_all
  qed
qed

lemma keeps_bind_read:
  assumes "keeps P g"
    and "\<And>w l e w'. g w = (Inl (l, e), w') \<Longrightarrow> keeps P (h l e)"
    and "\<And>w l b w'. g w = (Inr (l, b), w') \<Longrightarrow> keeps P (f l b)"
  shows "keeps P (\<lambda>w. case g w of (Inl (l, e), w') \<Rightarrow> h l e w' | (Inr (l, b), w') \<Rightarrow> f l b w')"
  using assms unfolding keeps_def by (fastforce split: prod.splits sum.splits)

lemma keeps_safe_apply_reading:
  "el_remoteId l \<noteq> None \<Longrightarrow> keeps (creation_safe env tid) (apply_reading env' k task l snapshot)"
  unfolding apply_reading_def
  by (cases "read_decision task l snapshot") (auto intro!: keeps_intros simp: guarded_link_def)

lemma keeps_safe_inspect: "keeps (creation_safe env tid) (inspect env k)"
  unfolding inspect_def Let_def
  by (intro keeps_intros keeps_bind_read keeps_guarded_read keeps_safe_call keeps_safe_apply_reading)
    (auto simp: guarded_link_def dest!: guarded_read_link)

lemma keeps_safe_synchronize: "keeps (creation_safe env tid) (synchronize env k)"
  unfolding synchronize_def by (intro keeps_intros keeps_safe_inspect) (auto intro: keeps_intros)

lemma keeps_safe_resolveDrift: "keeps (creation_safe env tid) (resolveDrift env k choice)"
  unfolding resolveDrift_def Let_def
  by (intro keeps_intros; (simp split: option.split prod.split)?)
    (auto intro!: keeps_intros keeps_safe_call keeps_safe_op [OF guards_owner_edits(3)] simp: guarded_link_def)

lemma keeps_safe_resolveConflict: "keeps (creation_safe env tid) (resolveConflict env k choice)"
  unfolding resolveConflict_def Let_def
  by (intro keeps_intros; (simp split: option.split prod.split)?)
    (auto intro!: keeps_intros keeps_safe_call simp: guarded_link_def)

subsection \<open>Creation is guarded before the provider is called\<close>

lemma uncreated_or_guarded:
  "creation_safe env tid w \<Longrightarrow> stored_task (lw_store w) tid t \<Longrightarrow> \<not> guarded t \<Longrightarrow> uncreated env tid w"
  by (auto simp: creation_safe_def created_once_def)

text \<open>Once the waiting link is stored, the Task is guarded whatever the provider answers.\<close>

lemma record_stores_guard:
  assumes "uncreated env tid w" "recordLink env' tid l w = (Inr t, w')" "guarded_link l"
  shows "uncreated env tid w' \<and> created_once env tid w' \<and> lw_calls w' = lw_calls w"
proof -
  let ?te = "le_tasks env' (lw_ticks w)"
  let ?ch = "\<lambda>t s. if (case task_externalLink t of None \<Rightarrow> False | Some existing \<Rightarrow> holds_live_record existing)
     then refuse TaskAlreadyLinked
     else Inr (Some (t\<lparr>task_destination := el_destination l,
            task_externalLink := Some (l\<lparr>el_updatedAt := env_now ?te 0\<rparr>)\<rparr>))"
  obtain s' where e: "edit ?te tid ?ch (lw_store w) = (Inr t, s')" "lw_store w' = s'" "lw_calls w' = lw_calls w"
    using assms(2)
    by (cases "edit ?te tid ?ch (lw_store w)")
      (auto simp: tasksOp_run recordExternalLink_def map_sum_def split: sum.splits)
  have k: "keeps_id ?ch" by (auto simp: keeps_id_def split: option.splits)
  have "guarded u" if u: "stored_task s' tid u" for u
  proof -
    have "u = t" by (rule edit_answer_stored [OF e(1) u k]) (auto split: option.splits)
    moreover have "guarded t"
      using e(1) assms(3) by (elim edit_InrE) (auto simp: guarded_def guarded_link_def split: if_splits)
    ultimately show ?thesis by simp
  qed
  with assms(1) e show ?thesis by (simp add: uncreated_def created_once_def)
qed

lemma created_once_safe: "created_once env tid w \<Longrightarrow> creation_safe env tid w"
  by (simp add: creation_safe_def)

lemma creation_call_safe:
  assumes "uncreated env tid w" "created_once env tid w" "connectorFor env (destination_provider d) = Some k"
    "callProvider (CreateRecord task d) (rc_create k task d) w = (r, w')"
  shows "created_once env tid w'"
    "r = Inl e \<Longrightarrow> \<not> uncertain_creation (lf_kind (classify env e (providerName d))) \<Longrightarrow> uncreated env tid w'"
  using assms
  by (auto simp: callProvider_def uncreated_def created_once_def may_create_def map_sum_def split: sum.splits)

lemma keeps_safe_create:
  assumes "creation_safe env tid w" "stored_task (lw_store w) tid task" "\<not> guarded task"
  shows "creation_safe env tid (snd (linkTask_create env tid task w))"
proof -
  let ?d = "task_destination task"
  have un: "uncreated env tid w" by (rule uncreated_or_guarded [OF assms])
  show ?thesis
  proof (cases "destination_provider ?d = Local \<or> connectorFor env (destination_provider ?d) = None")
    case True
    with assms(1) show ?thesis by (auto simp: linkTask_create_def Let_def)
  next
    case False
    then obtain k where k: "connectorFor env (destination_provider ?d) = Some k" by auto
    let ?wait = "new_link Waiting ?d None (baselineFor task Open) None True"
    obtain r1 w1 where r1: "recordLink env tid ?wait w = (r1, w1)" by (cases "recordLink env tid ?wait w")
    have g: "guarded_link ?wait" by (simp add: guarded_link_def new_link_def)
    show ?thesis
    proof (cases r1)
      case (Inl e)
      have "creation_safe env tid w1"
        using keepsD [OF keeps_safe_record [where k = tid and env' = env, OF disjI1 [OF g]] assms(1)] r1 by simp
      with r1 Inl k False show ?thesis by (simp add: linkTask_create_def Let_def)
    next
      case (Inr t1)
      from record_stores_guard [OF un r1 [unfolded Inr] g] have w1: "uncreated env tid w1" "created_once env tid w1" by auto
      let ?c = "callProvider (CreateRecord task ?d) (rc_create k task ?d)"
      obtain r2 w2 where r2: "?c w1 = (r2, w2)" by (cases "?c w1")
      note c = creation_call_safe [OF w1 k r2]
      show ?thesis
      proof (cases r2)
        case (Inl err)
        let ?f = "classify env err (providerName ?d)"
        let ?l = "new_link Failed ?d None (baselineFor task Open) (Some ?f) (uncertain_creation (lf_kind ?f))"
        have "creation_safe env tid (snd (recordLink env tid ?l w2))"
        proof (cases "uncertain_creation (lf_kind ?f)")
          case True
          then have "guarded_link ?l" by (simp add: guarded_link_def new_link_def)
          from keepsD [OF keeps_safe_record [where k = tid and env' = env, OF disjI1 [OF this]] created_once_safe [OF c(1)]] show ?thesis .
        next
          case False
          have "uncreated env tid (snd (recordLink env tid ?l w2))"
            by (rule keepsD [OF keeps_uncreated_op c(2) [OF Inl False]])
          then show ?thesis by (simp add: creation_safe_def)
        qed
        with r1 Inr r2 Inl k False show ?thesis by (simp add: linkTask_create_def Let_def attempt_def)
      next
        case created: (Inr rec)
        have l: "guarded_link (new_link st ?d (Some rec) b f u)" for st b f u
          by (simp add: guarded_link_def new_link_def)
        have "keeps (creation_safe env tid)
          (andThen (recordLink env tid (new_link Synchronized ?d (Some rec) (baselineFor task Open) None False)) (\<lambda>_.
              let finish = refreshLink env tid
                (new_link Synchronized ?d (Some rec) (baselineFor task (task_status task)) None False) in
              if task_status task = Completed then
                attempt (callProvider (UpdateStatus ?d (fst rec) True)
                    (rc_updateStatus k ?d (fst rec) True))
                  (\<lambda>err. refreshLink env tid
                    (new_link Failed ?d (Some rec) (baselineFor task Open)
                      (Some (classify env err (providerName ?d))) False))
                  (\<lambda>_. finish)
              else finish))"
          unfolding Let_def by (intro keeps_intros keeps_safe_call disjI1 l) simp
        from keepsD [OF this created_once_safe [OF c(1)]] r1 Inr r2 created k False show ?thesis
          by (simp add: linkTask_create_def Let_def attempt_def)
      qed
    qed
  qed
qed

lemma keeps_safe_create_other:
  assumes "k \<noteq> tid" "task_id task = k"
  shows "keeps (creation_safe env tid) (linkTask_create env k task)"
proof -
  have call: "keeps (creation_safe env tid) (callProvider (CreateRecord task d) f)" for d f
    using assms
    by (auto simp: keeps_def creation_safe_def uncreated_def created_once_def callProvider_def may_create_def)
  show ?thesis
    unfolding linkTask_create_def Let_def using assms(1)
    by (intro keeps_intros keeps_safe_call call disjI2) simp_all
qed

lemma requireTask_InrD: "requireTask env k w = (Inr t, w') \<Longrightarrow>
  stored_task (lw_store w) k t \<and> lw_store w' = lw_store w \<and> lw_calls w' = lw_calls w"
  by (auto simp: requireTask_def tasksOp_run andThen_run getTask_def map_result_def map_sum_def stored_task_def
      split: sum.splits option.splits)

text \<open>A command that begins by reading a Task, with what that reading says.\<close>

lemma keeps_after_requireTask:
  assumes "keeps P (requireTask env k)"
    and "\<And>w t. P w \<Longrightarrow> stored_task (lw_store w) k t \<Longrightarrow> P (snd (f t w))"
  shows "keeps P (andThen (requireTask env k) f)"
  unfolding keeps_def
proof (intro allI impI)
  fix w assume w: "P w"
  obtain r w' where r: "requireTask env k w = (r, w')" by (cases "requireTask env k w")
  from keepsD [OF assms(1) w] r have "P w'" by simp
  with r assms(2) [of w'] show "P (snd (andThen (requireTask env k) f w))"
    by (cases r) (auto dest: requireTask_InrD)
qed

lemma keeps_safe_link: "keeps (creation_safe env tid) (linkTask env k)"
  unfolding linkTask_def
proof (rule keeps_after_requireTask [OF keeps_safe_requireTask])
  fix w t assume w: "creation_safe env tid w" "stored_task (lw_store w) k t"
  have create: "creation_safe env tid (snd (linkTask_create env k t w))" if "\<not> guarded t"
  proof (cases "k = tid")
    case True
    with w that keeps_safe_create show ?thesis by simp
  next
    case False
    from keepsD [OF keeps_safe_create_other [OF this stored_task_id [OF w(2)]] w(1)] show ?thesis .
  qed
  show "creation_safe env tid (snd ((case task_externalLink t of
       Some l \<Rightarrow>
         if el_creationUncertain l then
           recordLink env k (l\<lparr>el_state := Failed, el_failure := Some (link_fault Network
             ''The creation response was lost. Inspect the provider and recover its existing record by ID before retrying.'')\<rparr>)
         else if el_remoteId l \<noteq> None then refuse_link TaskAlreadyLinked
         else linkTask_create env k t
     | None \<Rightarrow> linkTask_create env k t) w))"
  proof (cases "task_externalLink t")
    case None
    with create show ?thesis by (simp add: guarded_def)
  next
    case (Some l)
    have rec: "creation_safe env tid (snd (recordLink env k (l\<lparr>el_state := st, el_failure := f\<rparr>) w))"
      if "el_creationUncertain l" for st f
      using that by (intro keepsD [OF keeps_safe_record w(1)]) (simp add: guarded_link_def)
    show ?thesis
      using Some create rec w(1) by (auto simp: guarded_def guarded_link_def)
  qed
qed

text \<open>Unlinking another Task changes nothing for this one.\<close>

lemma guards_clear_other: "k \<noteq> tid \<Longrightarrow> guards tid (\<lambda>te. clearExternalLink te k)"
  unfolding guards_def
proof (intro allI impI)
  fix te s t
  assume "k \<noteq> tid" and t: "stored_task (snd (clearExternalLink te k s)) tid t"
  have "keeps_id (\<lambda>t s. Inr (if task_externalLink t = None then None else Some (t\<lparr>task_externalLink := None\<rparr>)))"
    by (simp add: keeps_id_def)
  from edit_stored [OF t [unfolded clearExternalLink_def] this] \<open>k \<noteq> tid\<close>
  show "guarded t \<or> (\<exists>t0. stored_task s tid t0 \<and> task_externalLink t = task_externalLink t0)"
    by auto
qed

lemma keeps_safe_removeLink: "k \<noteq> tid \<Longrightarrow> keeps (creation_safe env tid) (removeLink env' k)"
  unfolding removeLink_def by (intro keeps_intros keeps_safe_op guards_clear_other)

lemma keeps_safe_deleteExternal: "k \<noteq> tid \<Longrightarrow> keeps (creation_safe env tid) (deleteExternal env' k)"
  unfolding deleteExternal_def Let_def
  by (intro keeps_intros keeps_safe_removeLink keeps_safe_call disjI2) auto

text \<open>Retrying a Task that is not in Trash.\<close>

definition live_in :: "string \<Rightarrow> link_world \<Rightarrow> bool" where
  "live_in tid w \<longleftrightarrow> (\<forall>t. stored_task (lw_store w) tid t \<longrightarrow> task_deletedAt t = None)"

lemma keeps_safe_settle:
  "keeps (creation_safe env tid) (andThen (inspect env k) (\<lambda>(readFailed, t).
       if readFailed then ret t
       else if link_state_is settles_by_owner t then ret t
       else andThen (pushStatus env k) (\<lambda>t.
         if link_state_is (\<lambda>st. st = Failed) t then ret t
         else pushContent env k)))"
  by (rule keeps_andThen [OF keeps_safe_inspect])
    (simp split: prod.split, intro allI impI conjI keeps_intros keeps_safe_pushStatus keeps_safe_pushContent)

lemma safe_retryOne:
  assumes "creation_safe env tid w" "k = tid \<Longrightarrow> live_in tid w"
  shows "creation_safe env tid (snd (retryOne env k w))"
proof -
  obtain r w1 where r: "requireTask env k w = (r, w1)" by (cases "requireTask env k w")
  from keepsD [OF keeps_safe_requireTask assms(1)] r have w1: "creation_safe env tid w1" by (metis snd_conv)
  show ?thesis
  proof (cases r)
    case (Inl e)
    with r w1 show ?thesis by (simp add: retryOne_def)
  next
    case (Inr t)
    have t: "stored_task (lw_store w) k t" using r Inr by (auto dest: requireTask_InrD)
    let ?f = "\<lambda>t. if task_deletedAt t \<noteq> None then deleteExternal env k
     else case task_externalLink t of None \<Rightarrow> ret t | Some l \<Rightarrow>
     if settles_by_owner (el_state l) then ret t
     else if el_remoteId l = None then linkTask env k
     else andThen (inspect env k) (\<lambda>(readFailed, t).
       if readFailed then ret t
       else if link_state_is settles_by_owner t then ret t
       else andThen (pushStatus env k) (\<lambda>t.
         if link_state_is (\<lambda>st. st = Failed) t then ret t
         else pushContent env k))"
    have "keeps (creation_safe env tid) (?f t)"
    proof (intro keeps_if)
      assume "task_deletedAt t \<noteq> None"
      with t assms(2) have "k \<noteq> tid" by (auto simp: live_in_def)
      then show "keeps (creation_safe env tid) (deleteExternal env k)" by (rule keeps_safe_deleteExternal)
    qed (intro keeps_intros keeps_safe_link keeps_safe_settle)
    from keepsD [OF this w1] r Inr show ?thesis by (simp add: retryOne_def)
  qed
qed

lemma keeps_live_edit:
  assumes "\<And>te cur s c. change te cur s = Inr (Some c) \<Longrightarrow>
      task_id c = task_id cur \<and> task_deletedAt c = task_deletedAt cur"
  shows "keeps (live_in tid) (tasksOp env (\<lambda>te. edit te k (change te)))"
  unfolding keeps_def live_in_def
proof (intro allI impI)
  fix w t
  assume l: "\<forall>t. stored_task (lw_store w) tid t \<longrightarrow> task_deletedAt t = None"
    and t: "stored_task (lw_store (snd (tasksOp env (\<lambda>te. edit te k (change te)) w))) tid t"
  let ?te = "le_tasks env (lw_ticks w)"
  have "keeps_id (change ?te)" using assms by (simp add: keeps_id_def)
  from edit_stored [OF _ this, of ?te k "lw_store w" tid t] t l assms
  show "task_deletedAt t = None" by (fastforce simp: tasksOp_run)
qed

lemma keeps_conj: "keeps P m \<Longrightarrow> keeps Q m \<Longrightarrow> keeps (\<lambda>s. P s \<and> Q s) m"
  by (simp add: keeps_def)

lemma keeps_live_requireTask: "keeps (live_in tid) (requireTask env k)"
  unfolding requireTask_def by (intro keeps_intros) (simp add: keeps_def tasksOp_run live_in_def)

lemma keeps_live_call: "keeps (live_in tid) (callProvider c f)"
  by (simp add: keeps_def live_in_def callProvider_def)

lemma keeps_live_record: "keeps (live_in tid) (recordLink env k l)"
  unfolding recordExternalLink_def by (rule keeps_live_edit) (auto split: option.splits if_splits)

lemma safe_recoverCreation:
  assumes "creation_safe env tid w" "live_in tid w"
  shows "creation_safe env tid (snd (recoverCreation env k rid w))"
proof -
  let ?I = "\<lambda>w. creation_safe env tid w \<and> live_in tid w"
  let ?O = "creation_safe env tid"
  have w: "?I w" using assms by simp
  have weaken: "keeps ?I m \<Longrightarrow> ?I v \<Longrightarrow> ?O (snd (m v))" for m :: "'x link_cmd" and v
    by (auto simp: keeps_def)
  have q: "keeps ?I (requireTask env k)"
    by (intro keeps_conj keeps_safe_requireTask keeps_live_requireTask)
  have rec: "keeps ?I (recordLink env k l)" if "guarded_link l" for l
    using that by (intro keeps_conj keeps_safe_record keeps_live_record disjI1)
  have call: "keeps ?I (callProvider (ReadRecord d rid) f)" for d and f :: "baseline option answer"
    by (intro keeps_conj keeps_safe_call keeps_live_call) simp
  have seq: "?O (snd (andThen m g v))"
    if "keeps ?I m" "?I v" "\<And>x v. ?I v \<Longrightarrow> ?O (snd (g x v))"
    for m :: "'x link_cmd" and g :: "'x \<Rightarrow> 'y link_cmd" and v
    using that by (cases "m v") (fastforce simp: keeps_def andThen_run split: sum.splits)
  have after: "?O (snd ((case task_externalLink task of None \<Rightarrow> refuse_link InvalidDestination | Some l \<Rightarrow>
     if \<not> el_creationUncertain l \<or> trim rid = [] \<or> destination_provider (el_destination l) = Local
     then refuse_link InvalidDestination
     else andThen (case connectorFor env (destination_provider (el_destination l)) of
           None \<Rightarrow> ret None
         | Some connector \<Rightarrow> callProvider (ReadRecord (el_destination l) rid)
             (rc_read connector (el_destination l) rid)) (\<lambda>remote.
       if remote = None then refuse_link TaskNotFound
       else andThen (recordLink env k (l\<lparr>el_creationUncertain := False, el_remoteId := Some rid,
            el_state := Synchronized, el_failure := None\<rparr>)) (\<lambda>_. retry env k))) v))"
    if v: "?I v" for task v
  proof (cases "task_externalLink task")
    case None
    with v show ?thesis by simp
  next
    case (Some l)
    have "keeps ?I (case connectorFor env (destination_provider (el_destination l)) of
           None \<Rightarrow> ret None
         | Some connector \<Rightarrow> callProvider (ReadRecord (el_destination l) rid)
             (rc_read connector (el_destination l) rid))"
      by (intro keeps_case_option keeps_ret call)
    then show ?thesis
      using Some v
      by (auto intro!: rec seq simp: retry_def safe_retryOne guarded_link_def)
  qed
  show ?thesis
    unfolding recoverCreation_def by (rule seq [OF q w after])
qed

text \<open>
  Every operation that neither unlinks a Task nor declares its record gone, in any order, on any
  Tasks, against any provider.  \<open>retry\<close> and \<open>recoverCreation\<close> of a Task in Trash delete its record,
  which ends the epoch the invariant is about.
\<close>

datatype link_op =
    LinkOp string
  | PushStatusOp string
  | PushContentOp string
  | SynchronizeOp string
  | ResolveDriftOp string link_resolution
  | ResolveConflictOp string link_resolution
  | RetryOp string
  | RecoverCreationOp string string
  | OwnerUpdateOp string task_update_input "int option"
  | OwnerCompleteOp string "int option"
  | OwnerReopenOp string
  | OwnerTrashOp string
  | OwnerRestoreOp string

fun run_link_op :: "link_env \<Rightarrow> link_op \<Rightarrow> task link_cmd" where
  "run_link_op env (LinkOp k) = linkTask env k"
| "run_link_op env (PushStatusOp k) = pushStatus env k"
| "run_link_op env (PushContentOp k) = pushContent env k"
| "run_link_op env (SynchronizeOp k) = synchronize env k"
| "run_link_op env (ResolveDriftOp k c) = resolveDrift env k c"
| "run_link_op env (ResolveConflictOp k c) = resolveConflict env k c"
| "run_link_op env (RetryOp k) = retry env k"
| "run_link_op env (RecoverCreationOp k rid) = recoverCreation env k rid"
| "run_link_op env (OwnerUpdateOp k input v) = tasksOp env (\<lambda>te. updateTask te k input v)"
| "run_link_op env (OwnerCompleteOp k v) = tasksOp env (\<lambda>te. completeTask te k v)"
| "run_link_op env (OwnerReopenOp k) = tasksOp env (\<lambda>te. reopenTask te k)"
| "run_link_op env (OwnerTrashOp k) = tasksOp env (\<lambda>te. trashTask te k)"
| "run_link_op env (OwnerRestoreOp k) = tasksOp env (\<lambda>te. restoreTask te k)"

fun retries :: "link_op \<Rightarrow> bool" where
  "retries (RetryOp _) = True"
| "retries (RecoverCreationOp _ _) = True"
| "retries _ = False"

inductive link_reachable :: "link_env \<Rightarrow> string \<Rightarrow> link_world \<Rightarrow> link_world \<Rightarrow> bool"
  for env tid w0 where
  start: "link_reachable env tid w0 w0"
| step: "link_reachable env tid w0 w \<Longrightarrow> (retries c \<Longrightarrow> live_in tid w) \<Longrightarrow>
    link_reachable env tid w0 (snd (run_link_op env c w))"

lemma run_link_op_safe:
  assumes "creation_safe env tid w" "retries c \<Longrightarrow> live_in tid w"
  shows "creation_safe env tid (snd (run_link_op env c w))"
  using assms
proof (cases c)
  case (RetryOp k)
  with assms show ?thesis by (simp add: retry_def safe_retryOne)
next
  case (RecoverCreationOp k rid)
  with assms show ?thesis by (simp add: safe_recoverCreation)
qed (simp_all add: keepsD [OF keeps_safe_link] keepsD [OF keeps_safe_pushStatus]
  keepsD [OF keeps_safe_pushContent] keepsD [OF keeps_safe_synchronize]
  keepsD [OF keeps_safe_resolveDrift] keepsD [OF keeps_safe_resolveConflict]
  keepsD [OF keeps_safe_op [OF guards_owner_edits(1)]] keepsD [OF keeps_safe_op [OF guards_owner_edits(2)]]
  keepsD [OF keeps_safe_op [OF guards_owner_edits(3)]] keepsD [OF keeps_safe_op [OF guards_owner_edits(4)]]
  keepsD [OF keeps_safe_op [OF guards_owner_edits(5)]])

lemma link_reachable_safe:
  "link_reachable env tid w0 w \<Longrightarrow> creation_safe env tid w0 \<Longrightarrow> creation_safe env tid w"
  by (induction rule: link_reachable.induct) (auto intro: run_link_op_safe)

subsection \<open>Linking changes the link and nothing else of a Task\<close>

definition unlinked_task :: "task \<Rightarrow> task" where
  "unlinked_task t = t\<lparr>task_externalLink := None, task_destination := LocalOnly, task_updatedAt := [],
     task_version := 0\<rparr>"

definition holds_content :: "string \<Rightarrow> task \<Rightarrow> link_world \<Rightarrow> bool" where
  "holds_content tid c w \<longleftrightarrow> (\<forall>t. stored_task (lw_store w) tid t \<longrightarrow> unlinked_task t = c)"

named_theorems content_intros \<open>operations that keep the content of Tasks\<close>

lemma keeps_content_edit:
  assumes "\<And>te cur s c. change te cur s = Inr (Some c) \<Longrightarrow> unlinked_task c = unlinked_task cur"
  shows "keeps (holds_content tid c0) (tasksOp env (\<lambda>te. edit te k (change te)))"
  unfolding keeps_def holds_content_def
proof (intro allI impI)
  fix w t
  assume l: "\<forall>t. stored_task (lw_store w) tid t \<longrightarrow> unlinked_task t = c0"
    and t: "stored_task (lw_store (snd (tasksOp env (\<lambda>te. edit te k (change te)) w))) tid t"
  let ?te = "le_tasks env (lw_ticks w)"
  have "task_id (unlinked_task x) = task_id x" for x by (simp add: unlinked_task_def)
  then have id: "unlinked_task c = unlinked_task cur \<Longrightarrow> task_id c = task_id cur" for c cur by metis
  have "keeps_id (change ?te)" unfolding keeps_id_def using id assms by blast
  from edit_stored [OF _ this, of ?te k "lw_store w" tid t] t
  consider "stored_task (lw_store w) tid t"
    | cur c where "stored_task (lw_store w) tid cur" "change ?te cur (lw_store w) = Inr (Some c)"
      "t = c\<lparr>task_updatedAt := env_now ?te 1, task_version := task_version cur + 1\<rparr>"
    by (auto simp: tasksOp_run)
  then show "unlinked_task t = c0"
  proof cases
    case 2
    from assms [OF 2(2)] 2(3) have "unlinked_task t = unlinked_task cur" by (simp add: unlinked_task_def)
    with l 2(1) show ?thesis by simp
  qed (use l in simp)
qed

lemma keeps_content_refresh [content_intros]: "keeps (holds_content tid c) (refreshLink env k l)"
  unfolding refreshExternalLink_def
  by (rule keeps_content_edit) (auto simp: unlinked_task_def split: if_splits)

lemma keeps_content_record [content_intros]: "keeps (holds_content tid c) (recordLink env k l)"
  unfolding recordExternalLink_def
  by (rule keeps_content_edit) (auto simp: unlinked_task_def split: if_splits)

lemma keeps_content_clear [content_intros]:
  "keeps (holds_content tid c) (tasksOp env (\<lambda>te. clearExternalLink te k))"
  unfolding clearExternalLink_def
  by (rule keeps_content_edit) (auto simp: unlinked_task_def split: if_splits)

lemma keeps_content_requireTask [content_intros]: "keeps (holds_content tid c) (requireTask env k)"
  unfolding requireTask_def by (intro keeps_intros) (simp add: keeps_def tasksOp_run holds_content_def)

lemma keeps_content_call [content_intros]: "keeps (holds_content tid c) (callProvider pc f)"
  by (simp add: keeps_def holds_content_def callProvider_def)

lemma keeps_content_pushed [content_intros]:
  "keeps (holds_content tid c) call \<Longrightarrow> keeps (holds_content tid c) (pushed env k l call l')"
  unfolding pushed_def Let_def by (intro keeps_intros content_intros)

lemma keeps_content_pushStatus [content_intros]: "keeps (holds_content tid c) (pushStatus env k)"
  unfolding pushStatus_def Let_def by (intro keeps_intros content_intros)

lemma keeps_content_pushContent [content_intros]: "keeps (holds_content tid c) (pushContent env k)"
  unfolding pushContent_def Let_def by (intro keeps_intros content_intros)

lemma keeps_content_link [content_intros]: "keeps (holds_content tid c) (linkTask env k)"
  unfolding linkTask_def linkTask_create_def Let_def by (intro keeps_intros content_intros)

lemma keeps_content_removeLink [content_intros]: "keeps (holds_content tid c) (removeLink env k)"
  unfolding removeLink_def by (intro keeps_intros content_intros)

lemma keeps_content_deleteExternal [content_intros]: "keeps (holds_content tid c) (deleteExternal env k)"
  unfolding deleteExternal_def Let_def by (intro keeps_intros content_intros)

lemma keeps_content_recreate [content_intros]: "keeps (holds_content tid c) (recreate env k)"
  unfolding recreate_def Let_def by (intro keeps_intros content_intros)

lemmas local_first = keeps_content_link keeps_content_pushStatus keeps_content_pushContent
  keeps_content_recreate keeps_content_removeLink keeps_content_deleteExternal

subsection \<open>A link the owner has to settle is left alone\<close>

lemma requireTask_run:
  "stored_task (lw_store w) k t \<Longrightarrow>
   requireTask env k w = (Inr t, w\<lparr>lw_ticks := Suc (lw_ticks w)\<rparr>)"
  by (auto simp: requireTask_def tasksOp_run getTask_def map_result_def stored_task_def andThen_run)

lemma pushable_settles: "settles_by_owner (el_state l) \<Longrightarrow> pushable l = None"
  by (simp add: pushable_def settles_by_owner_def)

lemma settled_left_alone:
  assumes "stored_task (lw_store w) k t" "task_externalLink t = Some l" "settles_by_owner (el_state l)"
    "task_deletedAt t = None"
  shows "pushStatus env k w = (Inr t, w\<lparr>lw_ticks := Suc (lw_ticks w)\<rparr>)"
    "pushContent env k w = (Inr t, w\<lparr>lw_ticks := Suc (lw_ticks w)\<rparr>)"
    "retry env k w = (Inr t, w\<lparr>lw_ticks := Suc (lw_ticks w)\<rparr>)"
    "snd (synchronize env k w) = w\<lparr>lw_ticks := Suc (lw_ticks w)\<rparr>"
proof -
  have st: "el_state l \<in> {Missing, ChangedExternally, Conflicted}" "el_state l \<noteq> Waiting"
    using assms(3) by (auto simp: settles_by_owner_def)
  note r = requireTask_run [OF assms(1), of env]
  show "pushStatus env k w = (Inr t, w\<lparr>lw_ticks := Suc (lw_ticks w)\<rparr>)"
    "pushContent env k w = (Inr t, w\<lparr>lw_ticks := Suc (lw_ticks w)\<rparr>)"
    using assms r by (simp_all add: pushStatus_def pushContent_def pushable_settles)
  show "retry env k w = (Inr t, w\<lparr>lw_ticks := Suc (lw_ticks w)\<rparr>)"
    using assms r by (simp add: retry_def retryOne_def)
  show "snd (synchronize env k w) = w\<lparr>lw_ticks := Suc (lw_ticks w)\<rparr>"
    using assms(2) r st
    by (auto simp: synchronize_def inspect_def andThen_run split: option.splits)
qed

end
