(* ===== verification/LinkRuns.thy ===== *)
theory LinkRuns
  imports LinkFacts
begin

section \<open>What one synchronization of a link does\<close>

text \<open>
  The runs of \<open>inspect\<close>, \<open>pushStatus\<close> and \<open>pushContent\<close> on a store with room for their writes: what
  is written, what is sent, and in which order.
\<close>

definition linked :: "link_env \<Rightarrow> link_world \<Rightarrow> task \<Rightarrow> external_link \<Rightarrow> task" where
  "linked env w t l = t\<lparr>task_externalLink := Some (l\<lparr>el_updatedAt := env_now (le_tasks env (lw_ticks w)) 0\<rparr>),
     task_updatedAt := env_now (le_tasks env (lw_ticks w)) 1, task_version := task_version t + 1\<rparr>"

lemma linked_simps [simp]:
  "task_status (linked env w t l) = task_status t" "task_title (linked env w t l) = task_title t"
  "task_notes (linked env w t l) = task_notes t" "task_dueDate (linked env w t l) = task_dueDate t"
  "task_deletedAt (linked env w t l) = task_deletedAt t" "task_id (linked env w t l) = task_id t"
  "task_externalLink (linked env w t l) = Some (l\<lparr>el_updatedAt := env_now (le_tasks env (lw_ticks w)) 0\<rparr>)"
  "task_contentOf (linked env w t l) = task_contentOf t"
  "baselineFor (linked env w t l) st = baselineFor t st"
  by (simp_all add: linked_def task_contentOf_def baselineFor_def)

lemma refresh_run:
  assumes "room (Suc n) (lw_store w)" "stored_task (lw_store w) k t" "task_externalLink t \<noteq> None"
  obtains w' where "refreshLink env k l w = (Inr (linked env w t l), w')"
    "stored_task (lw_store w') k (linked env w t l)" "room n (lw_store w')" "lw_calls w' = lw_calls w"
    "lw_ticks w' = Suc (lw_ticks w)"
proof -
  from assms(2) obtain ts where ts: "readTasks (lw_store w) = Inr ts" "find_by task_id k ts = Some t"
    by (auto simp: stored_task_def)
  let ?us = "replace_by task_id k (linked env w t l) ts"
  have cw: "can_write (lw_store w)" using assms(1) by (rule room_can_write)
  let ?s = "snd (writeTasks ?us (lw_store w))"
  have "refreshExternalLink (le_tasks env (lw_ticks w)) k l (lw_store w) = (Inr (linked env w t l), ?s)"
    using ts assms(3) tasks_table.write_run [OF cw, of ?us]
    by (simp add: refreshExternalLink_def edit_def Let_def linked_def)
  moreover have "stored_task ?s k (linked env w t l)"
    using writeTasks_facts(2) [OF cw, of ?us] ts stored_task_id [OF assms(2)]
    by (auto simp: stored_task_def find_by_replace_same)
  moreover have "room n ?s"
    using room_next [OF assms(1) writeTasks_facts(5) [OF cw]] .
  ultimately show thesis
    by (intro that [of "w\<lparr>lw_store := ?s, lw_ticks := Suc (lw_ticks w)\<rparr>"]) (simp_all add: tasksOp_run)
qed

text \<open>A link that a synchronization may read: it names a record of a composed provider.\<close>

definition readable :: "link_env \<Rightarrow> external_link \<Rightarrow> string \<Rightarrow> remote_connector \<Rightarrow> bool" where
  "readable env l r k \<longleftrightarrow> el_remoteId l = Some r \<and> el_state l \<in> {Synchronized, Failed}
     \<and> connectorFor env (destination_provider (el_destination l)) = Some k
     \<and> rc_resolveDestination k = None"

lemma readable_remote: "readable env l r k \<Longrightarrow> destination_provider (el_destination l) \<noteq> Local"
  by (auto simp: readable_def connectorFor_def)

lemma readable_simps:
  assumes "readable env l r k"
  shows "pushable l = Some r" "connectorFor env (destination_provider (el_destination l)) = Some k"
    "el_remoteId l = Some r" "\<not> settles_by_owner (el_state l)"
  using assms readable_remote [OF assms]
  by (auto simp: readable_def pushable_def settles_by_owner_def)

lemma readable_cong:
  "el_state l' \<in> {Synchronized, Failed} \<Longrightarrow> el_remoteId l' = el_remoteId l \<Longrightarrow>
   el_destination l' = el_destination l \<Longrightarrow> readable env l r k \<Longrightarrow> readable env l' r k"
  by (simp add: readable_def)

definition asked :: "provider_call list \<Rightarrow> link_world \<Rightarrow> link_world" where
  "asked cs w = w\<lparr>lw_calls := lw_calls w @ cs, lw_ticks := Suc (lw_ticks w)\<rparr>"

lemma asked_simps [simp]:
  "lw_store (asked cs w) = lw_store w" "lw_calls (asked cs w) = lw_calls w @ cs"
  "lw_ticks (asked cs w) = Suc (lw_ticks w)"
  by (simp_all add: asked_def)

lemma inspect_reads:
  assumes "stored_task (lw_store w) tid t" "task_externalLink t = Some l" "readable env l r k"
    "rc_read k (el_destination l) r (lw_calls w) = Inr snapshot"
  shows "inspect env tid w = andThen (apply_reading env tid t l snapshot) (\<lambda>t. ret (False, t))
    (asked [ReadRecord (el_destination l) r] w)"
proof -
  have st: "el_state l \<noteq> Waiting" "el_state l \<notin> {Missing, ChangedExternally, Conflicted}"
    "rc_resolveDestination k = None"
    using assms(3) by (auto simp: readable_def)
  have g: "guarded_read env tid k l r (w\<lparr>lw_ticks := Suc (lw_ticks w)\<rparr>) =
      (Inr (l, snapshot), asked [ReadRecord (el_destination l) r] w)"
    using st assms(4) by (simp add: guarded_read_def Let_def callProvider_def asked_def)
  show ?thesis
    using assms(2) st readable_remote [OF assms(3)] readable_simps [OF assms(3)]
    by (simp add: inspect_def requireTask_run [OF assms(1)] g)
qed

subsection \<open>The branches of a reading\<close>

lemma read_decision_simps:
  "read_decision t l None = Gone"
  "el_baseline l = Some b \<Longrightarrow> bl_status r \<noteq> bl_status b \<Longrightarrow> task_status t \<noteq> bl_status b \<Longrightarrow>
     read_decision t l (Some r) = BothMovedStatus"
  "el_baseline l = Some b \<Longrightarrow> bl_status r \<noteq> bl_status b \<Longrightarrow> task_status t = bl_status b \<Longrightarrow>
     read_decision t l (Some r) = RemoteMovedStatus b"
  "el_baseline l = Some b \<Longrightarrow> bl_status r = bl_status b \<Longrightarrow> task_status t \<noteq> bl_status b \<Longrightarrow>
     read_decision t l (Some r) = LocalMovedStatus"
  "el_baseline l = Some b \<Longrightarrow> bl_status r = bl_status b \<Longrightarrow> task_status t = bl_status b \<Longrightarrow>
     \<not> sameContent r b \<Longrightarrow> read_decision t l (Some r) = RemoteMovedContent"
  "el_baseline l = Some b \<Longrightarrow> bl_status r = bl_status b \<Longrightarrow> task_status t = bl_status b \<Longrightarrow>
     sameContent r b \<Longrightarrow> el_failure l = None \<Longrightarrow> read_decision t l (Some r) = Settled"
  by (simp_all add: read_decision_def)

text \<open>The one write of a reading that finds a disagreement.\<close>

lemma inspect_refreshes:
  assumes "stored_task (lw_store w) tid t" "task_externalLink t = Some l" "readable env l r k"
    "rc_read k (el_destination l) r (lw_calls w) = Inr snapshot" "room 1 (lw_store w)"
    "apply_reading env tid t l snapshot = refreshLink env tid l'"
  obtains w' t' where "inspect env tid w = (Inr (False, t'), w')" "stored_task (lw_store w') tid t'"
    "lw_calls w' = lw_calls w @ [ReadRecord (el_destination l) r]"
    "t' = linked env (asked [ReadRecord (el_destination l) r] w) t l'"
proof -
  have rm: "room (Suc 0) (lw_store (asked [ReadRecord (el_destination l) r] w))"
    using assms(5) by simp
  have stt: "stored_task (lw_store (asked [ReadRecord (el_destination l) r] w)) tid t"
    using assms(1) by simp
  from refresh_run [OF rm stt, of env l'] assms(2) obtain w' where
    "refreshLink env tid l' (asked [ReadRecord (el_destination l) r] w) =
       (Inr (linked env (asked [ReadRecord (el_destination l) r] w) t l'), w')"
    "stored_task (lw_store w') tid (linked env (asked [ReadRecord (el_destination l) r] w) t l')"
    "lw_calls w' = lw_calls (asked [ReadRecord (el_destination l) r] w)"
    by auto
  then show thesis
    by (intro that [of _ w']) (simp_all add: inspect_reads [OF assms(1-4)] assms(6))
qed

lemma inspect_quiet:
  assumes "stored_task (lw_store w) tid t" "task_externalLink t = Some l" "readable env l r k"
    "rc_read k (el_destination l) r (lw_calls w) = Inr (Some snapshot)"
    "read_decision t l (Some snapshot) \<in> {Settled, LocalMovedStatus}"
  shows "inspect env tid w = (Inr (False, t), asked [ReadRecord (el_destination l) r] w)"
  using assms(5) by (auto simp: inspect_reads [OF assms(1-4)] apply_reading_def)

subsection \<open>Pushing\<close>

lemma pushStatus_quiet:
  assumes "stored_task (lw_store w) tid t" "task_externalLink t = Some l" "readable env l r k"
    "el_baseline l = Some b" "bl_status b = task_status t"
  shows "pushStatus env tid w = (Inr t, w\<lparr>lw_ticks := Suc (lw_ticks w)\<rparr>)"
  using assms(2,4,5) readable_simps [OF assms(3)]
  by (simp add: pushStatus_def requireTask_run [OF assms(1)])

lemma pushContent_quiet:
  assumes "stored_task (lw_store w) tid t" "task_externalLink t = Some l" "readable env l r k"
    "el_baseline l = Some b" "sameContent b (baselineFor t (task_status t))"
  shows "pushContent env tid w = (Inr t, w\<lparr>lw_ticks := Suc (lw_ticks w)\<rparr>)"
  using assms(2,4,5) readable_simps [OF assms(3)]
  by (simp add: pushContent_def requireTask_run [OF assms(1)])

lemma pushed_run:
  assumes "stored_task (lw_store w) tid t" "task_externalLink t \<noteq> None" "room (Suc n) (lw_store w)"
    "call w = (Inr (), wc)" "lw_store wc = lw_store w" "lw_ticks wc = lw_ticks w"
  obtains w' where "pushed env tid l call l' w = (Inr (linked env wc t l'), w')"
    "stored_task (lw_store w') tid (linked env wc t l')" "room n (lw_store w')" "lw_calls w' = lw_calls wc"
proof -
  have "stored_task (lw_store wc) tid t" "room (Suc n) (lw_store wc)" using assms by simp_all
  from refresh_run [OF this(2,1) assms(2), of env l'] obtain w' where
    "refreshLink env tid l' wc = (Inr (linked env wc t l'), w')"
    "stored_task (lw_store w') tid (linked env wc t l')" "room n (lw_store w')" "lw_calls w' = lw_calls wc" .
  then show thesis
    using assms(4) by (intro that [of w']) (simp_all add: pushed_def catching_def)
qed

lemma pushStatus_run:
  assumes "stored_task (lw_store w) tid t" "task_externalLink t = Some l" "readable env l r k"
    "el_baseline l = Some b" "task_status t \<noteq> bl_status b" "room (Suc n) (lw_store w)"
    "rc_updateStatus k (el_destination l) r (task_status t = Completed) (lw_calls w) = Inr ()"
  obtains w' t' l' where "pushStatus env tid w = (Inr t', w')" "stored_task (lw_store w') tid t'"
    "room n (lw_store w')"
    "lw_calls w' = lw_calls w @ [UpdateStatus (el_destination l) r (task_status t = Completed)]"
    "unlinked_task t' = unlinked_task t" "task_externalLink t' = Some l'" "readable env l' r k"
    "el_destination l' = el_destination l" "el_state l' = Synchronized"
    "el_baseline l' = Some (with_status (contentOf b) (task_status t))"
proof -
  let ?c = "UpdateStatus (el_destination l) r (task_status t = Completed)"
  let ?call = "callProvider ?c (rc_updateStatus k (el_destination l) r (task_status t = Completed))"
  let ?w = "w\<lparr>lw_ticks := Suc (lw_ticks w)\<rparr>"
  let ?l = "l\<lparr>el_state := Synchronized, el_baseline := Some (with_status (contentOf b) (task_status t)),
    el_failure := None\<rparr>"
  have call: "?call ?w = (Inr (), ?w\<lparr>lw_calls := lw_calls w @ [?c]\<rparr>)"
    using assms(7) by (simp add: callProvider_def)
  from pushed_run [where w = ?w and n = n and tid = tid and t = t and env = env and l = l and l' = ?l
      and call = ?call and wc = "?w\<lparr>lw_calls := lw_calls w @ [?c]\<rparr>", OF _ _ _ call]
    assms(1,2,6)
  obtain w' where w': "pushed env tid l ?call ?l ?w = (Inr (linked env (?w\<lparr>lw_calls := lw_calls w @ [?c]\<rparr>) t ?l), w')"
    "stored_task (lw_store w') tid (linked env (?w\<lparr>lw_calls := lw_calls w @ [?c]\<rparr>) t ?l)"
    "room n (lw_store w')" "lw_calls w' = lw_calls w @ [?c]"
    by auto
  have ps: "pushStatus env tid w = pushed env tid l ?call ?l ?w"
    using assms(2,4,5) readable_simps [OF assms(3)] by (simp add: pushStatus_def requireTask_run [OF assms(1)] Let_def)
  show thesis
    by (rule that [where l' = "?l\<lparr>el_updatedAt := env_now (le_tasks env (Suc (lw_ticks w))) 0\<rparr>",
        OF ps [THEN trans, OF w'(1)] w'(2-4)])
      (use assms(3) in \<open>simp_all add: linked_def unlinked_task_def readable_def\<close>)
qed

lemma pushContent_run:
  assumes "stored_task (lw_store w) tid t" "task_externalLink t = Some l" "readable env l r k"
    "el_baseline l = Some b" "\<not> sameContent b (baselineFor t (task_status t))" "room (Suc n) (lw_store w)"
    "rc_updateContent k (el_destination l) r (task_contentOf t) (lw_calls w) = Inr ()"
  obtains w' t' l' where "pushContent env tid w = (Inr t', w')" "stored_task (lw_store w') tid t'"
    "room n (lw_store w')"
    "lw_calls w' = lw_calls w @ [UpdateContent (el_destination l) r (task_contentOf t)]"
    "unlinked_task t' = unlinked_task t" "task_externalLink t' = Some l'" "readable env l' r k"
    "el_state l' = Synchronized" "el_external l' = None"
    "el_baseline l' = Some (with_status (task_contentOf t) (bl_status b))"
proof -
  let ?c = "UpdateContent (el_destination l) r (task_contentOf t)"
  let ?call = "callProvider ?c (rc_updateContent k (el_destination l) r (task_contentOf t))"
  let ?w = "w\<lparr>lw_ticks := Suc (lw_ticks w)\<rparr>"
  let ?l = "l\<lparr>el_state := Synchronized, el_baseline := Some (with_status (task_contentOf t) (bl_status b)),
    el_external := None, el_failure := None\<rparr>"
  have call: "?call ?w = (Inr (), ?w\<lparr>lw_calls := lw_calls w @ [?c]\<rparr>)"
    using assms(7) by (simp add: callProvider_def)
  from pushed_run [where w = ?w and n = n and tid = tid and t = t and env = env and l = l and l' = ?l
      and call = ?call and wc = "?w\<lparr>lw_calls := lw_calls w @ [?c]\<rparr>", OF _ _ _ call]
    assms(1,2,6)
  obtain w' where w': "pushed env tid l ?call ?l ?w = (Inr (linked env (?w\<lparr>lw_calls := lw_calls w @ [?c]\<rparr>) t ?l), w')"
    "stored_task (lw_store w') tid (linked env (?w\<lparr>lw_calls := lw_calls w @ [?c]\<rparr>) t ?l)"
    "room n (lw_store w')" "lw_calls w' = lw_calls w @ [?c]"
    by auto
  have ps: "pushContent env tid w = pushed env tid l ?call ?l ?w"
    using assms(2,4,5) readable_simps [OF assms(3)] by (simp add: pushContent_def requireTask_run [OF assms(1)] Let_def)
  show thesis
    by (rule that [where l' = "?l\<lparr>el_updatedAt := env_now (le_tasks env (Suc (lw_ticks w))) 0\<rparr>",
        OF ps [THEN trans, OF w'(1)] w'(2-4)])
      (use assms(3) in \<open>simp_all add: linked_def unlinked_task_def readable_def\<close>)
qed

subsection \<open>Retrying a readable link\<close>

lemma retry_reads:
  assumes "stored_task (lw_store w) tid t" "task_externalLink t = Some l" "readable env l r k"
    "task_deletedAt t = None"
  shows "retry env tid w = andThen (inspect env tid) (\<lambda>(readFailed, t).
       if readFailed then ret t
       else if link_state_is settles_by_owner t then ret t
       else andThen (pushStatus env tid) (\<lambda>t.
         if link_state_is (\<lambda>st. st = Failed) t then ret t
         else pushContent env tid)) (w\<lparr>lw_ticks := Suc (lw_ticks w)\<rparr>)"
  using assms(2,4) readable_simps [OF assms(3)]
  by (simp add: retry_def retryOne_def requireTask_run [OF assms(1)])

lemma inspect_ticked:
  "lw_store v = lw_store w \<Longrightarrow> lw_calls v = lw_calls w \<Longrightarrow> stored_task (lw_store w) tid t \<Longrightarrow>
   stored_task (lw_store v) tid t"
  by simp

lemma task_content_eq:
  "unlinked_task t' = unlinked_task t \<Longrightarrow> task_status t' = task_status t \<and> task_title t' = task_title t
    \<and> task_notes t' = task_notes t \<and> task_dueDate t' = task_dueDate t \<and> task_deletedAt t' = task_deletedAt t
    \<and> task_contentOf t' = task_contentOf t \<and> (\<forall>st. baselineFor t' st = baselineFor t st)"
proof -
  assume e: "unlinked_task t' = unlinked_task t"
  have "task_status (unlinked_task x) = task_status x" "task_title (unlinked_task x) = task_title x"
    "task_notes (unlinked_task x) = task_notes x" "task_dueDate (unlinked_task x) = task_dueDate x"
    "task_deletedAt (unlinked_task x) = task_deletedAt x" for x
    by (simp_all add: unlinked_task_def)
  with e have f: "task_status t' = task_status t" "task_title t' = task_title t"
    "task_notes t' = task_notes t" "task_dueDate t' = task_dueDate t" "task_deletedAt t' = task_deletedAt t"
    by metis+
  then show ?thesis by (simp add: task_contentOf_def baselineFor_def)
qed

text \<open>
  A link whose three readings agree costs one read and no write; after both pushes of an unsent
  local change, nothing is left to send.
\<close>

lemma retry_converged:
  assumes "stored_task (lw_store w) tid t" "task_externalLink t = Some l" "readable env l r k"
    "task_deletedAt t = None" "el_state l = Synchronized" "el_failure l = None"
    "el_baseline l = Some b" "bl_status b = task_status t" "sameContent b (baselineFor t (task_status t))"
    "rc_read k (el_destination l) r (lw_calls w) = Inr (Some remote)"
    "bl_status remote = bl_status b" "sameContent remote b"
  shows "fst (retry env tid w) = Inr t \<and> lw_store (snd (retry env tid w)) = lw_store w
    \<and> lw_calls (snd (retry env tid w)) = lw_calls w @ [ReadRecord (el_destination l) r]"
proof -
  let ?w = "w\<lparr>lw_ticks := Suc (lw_ticks w)\<rparr>"
  have t: "stored_task (lw_store ?w) tid t" using assms(1) by simp
  let ?v = "asked [ReadRecord (el_destination l) r] ?w"
  let ?u = "?v\<lparr>lw_ticks := Suc (lw_ticks ?v)\<rparr>"
  have i: "inspect env tid ?w = (Inr (False, t), ?v)"
    by (rule inspect_quiet [where snapshot = remote, OF t assms(2,3)]) (use assms in \<open>simp_all add: read_decision_def\<close>)
  have st: "stored_task (lw_store ?v) tid t" "stored_task (lw_store ?u) tid t" using assms(1) by simp_all
  note ps = pushStatus_quiet [OF st(1) assms(2,3,7,8)]
  note pc = pushContent_quiet [OF st(2) assms(2,3,7,9)]
  show ?thesis
    using assms(2,5) i ps pc [simplified]
    by (simp add: retry_reads [OF assms(1-4)] link_state_is_def settles_by_owner_def)
qed

text \<open>
  The same retry when the Workspace moved both completion and content: the read answers unchanged
  whatever the provider's content says, and both local values are sent over it.
\<close>

lemma retry_overwrites:
  assumes "stored_task (lw_store w) tid t" "task_externalLink t = Some l" "readable env l r k"
    "task_deletedAt t = None" "el_baseline l = Some b"
    "rc_read k (el_destination l) r (lw_calls w) = Inr (Some remote)"
    "bl_status remote = bl_status b" "task_status t \<noteq> bl_status b"
    "\<not> sameContent b (baselineFor t (task_status t))"
    "\<And>calls. rc_updateStatus k (el_destination l) r (task_status t = Completed) calls = Inr ()"
    "\<And>calls. rc_updateContent k (el_destination l) r (task_contentOf t) calls = Inr ()"
    "room 2 (lw_store w)"
  shows "\<exists>t' l' w'. retry env tid w = (Inr t', w') \<and> unlinked_task t' = unlinked_task t
    \<and> lw_calls w' = lw_calls w @ [ReadRecord (el_destination l) r,
         UpdateStatus (el_destination l) r (task_status t = Completed),
         UpdateContent (el_destination l) r (task_contentOf t)]
    \<and> task_externalLink t' = Some l' \<and> el_state l' = Synchronized \<and> el_external l' = None"
proof -
  let ?w = "w\<lparr>lw_ticks := Suc (lw_ticks w)\<rparr>"
  let ?v = "asked [ReadRecord (el_destination l) r] ?w"
  have t: "stored_task (lw_store ?w) tid t" "stored_task (lw_store ?v) tid t" using assms(1) by simp_all
  have i: "inspect env tid ?w = (Inr (False, t), ?v)"
    by (rule inspect_quiet [where snapshot = remote, OF t(1) assms(2,3)]) (use assms in \<open>simp_all add: read_decision_def\<close>)
  have rm: "room (Suc 1) (lw_store ?v)" using assms(12) by (simp add: numeral_2_eq_2)
  obtain w1 t1 l1 where s1: "pushStatus env tid ?v = (Inr t1, w1)" "stored_task (lw_store w1) tid t1"
    "room 1 (lw_store w1)"
    "lw_calls w1 = lw_calls ?v @ [UpdateStatus (el_destination l) r (task_status t = Completed)]"
    "unlinked_task t1 = unlinked_task t" "task_externalLink t1 = Some l1" "readable env l1 r k"
    "el_destination l1 = el_destination l" "el_state l1 = Synchronized"
    "el_baseline l1 = Some (with_status (contentOf b) (task_status t))"
    by (rule pushStatus_run [OF t(2) assms(2,3,5,8) rm assms(10)])
  note c1 = task_content_eq [OF s1(5)]
  have nb: "\<not> sameContent (with_status (contentOf b) (task_status t)) (baselineFor t1 (task_status t1))"
    using assms(9) c1 by (simp add: sameContent_def with_status_def contentOf_def baselineFor_def)
  have rm1: "room (Suc 0) (lw_store w1)" using s1(3) by simp
  have uc: "rc_updateContent k (el_destination l1) r (task_contentOf t1) (lw_calls w1) = Inr ()"
    using assms(11) s1(8) c1 by simp
  obtain w2 t2 l2 where s2: "pushContent env tid w1 = (Inr t2, w2)" "stored_task (lw_store w2) tid t2"
    "room 0 (lw_store w2)" "lw_calls w2 = lw_calls w1 @ [UpdateContent (el_destination l1) r (task_contentOf t1)]"
    "unlinked_task t2 = unlinked_task t1" "task_externalLink t2 = Some l2" "readable env l2 r k"
    "el_state l2 = Synchronized" "el_external l2 = None"
    by (rule pushContent_run [OF s1(2,6,7,10) nb rm1 uc])
  have "retry env tid w = (Inr t2, w2)"
    using i s1(1,6,9) s2(1) readable_simps(4) [OF assms(3)] assms(2)
    by (simp add: retry_reads [OF assms(1-4)] link_state_is_def)
  with s1 s2 c1 show ?thesis by auto
qed

end
