(* ===== verification/CanonicalJson.thy ===== *)
theory CanonicalJson
  imports Handoff TaskTypes "HOL-Library.Multiset"
begin

section \<open>Canonical JSON\<close>

text \<open>
  \<open>canonicalJson\<close> of \<open>apps/server/src/tasks/materialization.ts\<close> with \<open>JSON.stringify\<close> on the scalars,
  and the JavaScript values that the checked handoffs and claims are.
\<close>

subsection \<open>Scalars\<close>

definition hex_digit :: "nat \<Rightarrow> char" where
  "hex_digit n = ''0123456789abcdef'' ! n"

text \<open>\<open>JSON.stringify\<close> of one code unit below 256.\<close>

definition json_char :: "char \<Rightarrow> string" where
  "json_char c = (let n = of_char c :: nat; esc = (\<lambda>x. [CHR 0x5C, x]) in
     if n = 34 then esc (CHR 0x22)
     else if n = 92 then esc (CHR 0x5C)
     else if n = 8 then esc (CHR ''b'')
     else if n = 9 then esc (CHR ''t'')
     else if n = 10 then esc (CHR ''n'')
     else if n = 12 then esc (CHR ''f'')
     else if n = 13 then esc (CHR ''r'')
     else if n < 32 then esc (CHR ''u'') @ ''00'' @ [hex_digit (n div 16), hex_digit (n mod 16)]
     else [c])"

definition json_string :: "string \<Rightarrow> string" where
  "json_string s = [CHR 0x22] @ concat (map json_char s) @ [CHR 0x22]"

fun digits :: "nat \<Rightarrow> string" where
  "digits n = (if n < 10 then [char_of (48 + n)] else digits (n div 10) @ [char_of (48 + n mod 10)])"

declare digits.simps [simp del]

definition json_int :: "int \<Rightarrow> string" where
  "json_int n = (if n < 0 then CHR ''-'' # digits (nat (- n)) else digits (nat n))"

subsection \<open>Values\<close>

definition json_object :: "(string \<times> string) list \<Rightarrow> string" where
  "json_object ms = ''{'' @ join_text '','' (map (\<lambda>(k, t). json_string k @ '':'' @ t) (sort_key fst ms)) @ ''}''"

function (sequential) canonicalJson :: "jsval \<Rightarrow> string" where
  "canonicalJson Undefined = ''null''"
| "canonicalJson JNull = ''null''"
| "canonicalJson (JBool b) = (if b then ''true'' else ''false'')"
| "canonicalJson (JNum n) = json_int n"
| "canonicalJson (JFrac t) = t"
| "canonicalJson (JStr s) = json_string s"
| "canonicalJson (JArr vs) = ''['' @ join_text '','' (map canonicalJson vs) @ '']''"
| "canonicalJson (JObj fs) =
     json_object (map (\<lambda>(k, v). (k, canonicalJson v)) (filter (\<lambda>(k, v). v \<noteq> Undefined) fs))"
  by pat_completeness auto
termination
proof (relation "measure size")
  show "(v, JObj fs) \<in> measure size"
    if "x \<in> set (filter (\<lambda>(k, v). v \<noteq> Undefined) fs)" "(k, v) = x" for fs x k v
  proof -
    have "(k, v) \<in> set fs" using that by auto
    then have "size v < size_list (size_prod (\<lambda>_. 0) size) fs"
      by (induction fs) auto
    then show ?thesis by simp
  qed
qed (auto simp: less_Suc_eq_le size_list_estimation')

text \<open>Reordering the properties of an object does not change its canonical text.\<close>

lemma filter_key_single:
  "distinct (map f xs) \<Longrightarrow> k \<in> set xs \<Longrightarrow> filter (\<lambda>x. f k = f x) xs = [k]"
proof (induction xs)
  case (Cons x xs)
  show ?case
  proof (cases "k = x")
    case True
    with Cons.prems have "\<forall>y \<in> set xs. f k \<noteq> f y" by (auto simp: image_iff)
    with True show ?thesis by (simp add: filter_empty_conv)
  next
    case False
    with Cons.prems have "f k \<noteq> f x" by (auto simp: image_iff)
    with False Cons show ?thesis by auto
  qed
qed simp

lemma sort_key_mset_distinct:
  assumes "mset xs = mset ys" "distinct (map f xs)"
  shows "sort_key f xs = sort_key f ys"
proof (rule properties_for_sort_key)
  have "mset (map f (sort_key f ys)) = mset (map f xs)" using assms(1) by simp
  then have ds: "distinct (map f (sort_key f ys))"
    using assms(2) mset_eq_imp_distinct_iff by blast
  show "mset (sort_key f ys) = mset xs" using assms(1) by simp
  fix k assume k: "k \<in> set (sort_key f ys)"
  then have "k \<in> set xs" using assms(1) by (metis set_mset_mset set_sort)
  with k ds assms(2) show "filter (\<lambda>x. f k = f x) (sort_key f ys) = filter (\<lambda>x. f k = f x) xs"
    by (simp add: filter_key_single)
qed simp

lemma json_object_order:
  "mset ms = mset ns \<Longrightarrow> distinct (map fst ms) \<Longrightarrow> json_object ms = json_object ns"
  unfolding json_object_def by (drule (1) sort_key_mset_distinct) simp

lemma canonical_fields_order:
  assumes "mset fs = mset gs" "distinct (map fst fs)"
  shows "canonicalJson (JObj fs) = canonicalJson (JObj gs)"
proof -
  let ?c = "\<lambda>fs. map (\<lambda>(k, v). (k, canonicalJson v)) (filter (\<lambda>(k, v). v \<noteq> Undefined) fs)"
  have "mset (?c fs) = mset (?c gs)" unfolding mset_map mset_filter assms(1) ..
  moreover have "map fst (?c fs) = map fst (filter (\<lambda>(k, v). v \<noteq> Undefined) fs)"
    by (induction fs) auto
  then have "distinct (map fst (?c fs))" using assms(2) by (simp only: distinct_map_filter)
  ultimately show ?thesis by (simp add: json_object_order del: map_map)
qed

subsection \<open>The JavaScript values of checked content\<close>

definition opt_text :: "string option \<Rightarrow> jsval" where
  "opt_text v = (case v of None \<Rightarrow> JNull | Some s \<Rightarrow> JStr s)"

definition opt_int :: "int option \<Rightarrow> jsval" where
  "opt_int v = (case v of None \<Rightarrow> JNull | Some n \<Rightarrow> JNum n)"

definition opt_value :: "('a \<Rightarrow> jsval) \<Rightarrow> 'a option \<Rightarrow> jsval" where
  "opt_value f v = (case v of None \<Rightarrow> JNull | Some x \<Rightarrow> f x)"

fun responsibility_basis_text :: "responsibility_basis \<Rightarrow> string" where
  "responsibility_basis_text BasisExplicit = ''explicit''"
| "responsibility_basis_text BasisInferred = ''inferred''"
| "responsibility_basis_text BasisUnknown = ''unknown''"

fun unresolved_text :: "dependency_unresolved \<Rightarrow> string" where
  "unresolved_text AmbiguousTitle = ''ambiguous-title''"
| "unresolved_text NotExtracted = ''not-extracted''"
| "unresolved_text SelfReference = ''self-reference''"
| "unresolved_text NotResolved = ''not-resolved''"
| "unresolved_text MissingRecord = ''missing-record''"
| "unresolved_text RedirectCycle = ''redirect-cycle''"

fun timing_kind_text :: "timing_kind \<Rightarrow> string" where
  "timing_kind_text Deadline = ''deadline''"
| "timing_kind_text Trigger = ''trigger''"
| "timing_kind_text Unspecified = ''unspecified''"

fun relationship_text :: "responsibility_relationship \<Rightarrow> string" where
  "relationship_text SelfCommitment = ''self-commitment''"
| "relationship_text AcceptedRequest = ''accepted-request''"
| "relationship_text RequestOnly = ''request''"
| "relationship_text ReportedCommitment = ''reported-commitment''"
| "relationship_text SharedWork = ''shared''"
| "relationship_text UnresolvedWork = ''unresolved''"

fun later_update_text :: "later_update_kind \<Rightarrow> string" where
  "later_update_text Completion = ''completion''"
| "later_update_text Cancellation = ''cancellation''"
| "later_update_text Reassignment = ''reassignment''"
| "later_update_text Qualification = ''qualification''"

definition source_json :: "handoff_source \<Rightarrow> jsval" where
  "source_json s = JObj [(''quote'', JStr (hs_quote s)), (''speaker'', opt_text (hs_speaker s)),
     (''timestamp'', opt_text (hs_timestamp s))]"

definition detail_json :: "handoff_detail \<Rightarrow> jsval" where
  "detail_json d = JObj [(''text'', JStr (hd_text d)),
     (''provenance'', JStr (provenance_text (hd_provenance d))),
     (''sources'', JArr (map source_json (hd_sources d)))]"

definition responsibility_json :: "handoff_responsibility \<Rightarrow> jsval" where
  "responsibility_json r = JObj [(''names'', JArr (map JStr (hr_names r))),
     (''basis'', JStr (responsibility_basis_text (hr_basis r))), (''reason'', JStr (hr_reason r))]"

definition timing_json :: "handoff_timing \<Rightarrow> jsval" where
  "timing_json t = JObj [(''kind'', JStr (timing_kind_text (ht_kind t))), (''stated'', JStr (ht_stated t)),
     (''referenceDate'', opt_text (ht_referenceDate t)), (''reasoning'', JStr (ht_reasoning t))]"

fun target_json :: "dependency_target \<Rightarrow> jsval" where
  "target_json (OutputTarget e) = JObj [(''kind'', JStr ''output''), (''outputEntryId'', JStr e)]"
| "target_json (UnresolvedTarget r) = JObj [(''kind'', JStr ''unresolved''), (''reason'', JStr (unresolved_text r))]"
| "target_json ExternalTarget = JObj [(''kind'', JStr ''external'')]"

definition dependency_json :: "handoff_dependency \<Rightarrow> jsval" where
  "dependency_json d = JObj [(''actionTitle'', JStr (hdp_actionTitle d)),
     (''condition'', JStr (hdp_condition d)), (''provenance'', JStr (provenance_text (hdp_provenance d))),
     (''sources'', JArr (map source_json (hdp_sources d))),
     (''references'', JStr (case hdp_references d of ReferencesExtracted \<Rightarrow> ''extracted''
        | ReferencesExternal \<Rightarrow> ''external'')),
     (''target'', case hdp_target d of None \<Rightarrow> Undefined | Some t \<Rightarrow> target_json t)]"

fun handoff_json :: "handoff_record \<Rightarrow> jsval" where
  "handoff_json (HandoffV2 h) = JObj [(''version'', JNum 2), (''commitment'', JStr (commitment_text (mh_commitment h))),
     (''purpose'', detail_json (mh_purpose h)), (''responsibility'', responsibility_json (mh_responsibility h)),
     (''completionCriteria'', JArr (map detail_json (mh_completionCriteria h))),
     (''requiredInputs'', JArr (map detail_json (mh_requiredInputs h))),
     (''missingInputs'', JArr (map (\<lambda>i. JObj [(''information'', detail_json (mi_information i)),
        (''obtainBy'', detail_json (mi_obtainBy i))]) (mh_missingInputs h))),
     (''dependencies'', JArr (map dependency_json (mh_dependencies h))),
     (''timing'', timing_json (mh_timing h)), (''evidence'', JArr (map source_json (mh_evidence h))),
     (''statusReasoning'', JStr (mh_statusReasoning h))]"
| "handoff_json (HandoffV1 h) = JObj [(''version'', JNum 1), (''commitment'', JStr (commitment_text (smh_commitment h))),
     (''purpose'', JStr (smh_purpose h)), (''responsibility'', responsibility_json (smh_responsibility h)),
     (''completionCriteria'', JArr (map (\<lambda>(t, b). JObj [(''text'', JStr t), (''basis'', JStr (commitment_text b))])
        (smh_completionCriteria h))),
     (''requiredInputs'', JArr (map JStr (smh_requiredInputs h))),
     (''missingInputs'', JArr (map (\<lambda>i. JObj [(''information'', JStr (smi_information i)),
        (''obtainBy'', JStr (smi_obtainBy i)), (''basis'', JStr (commitment_text (smi_basis i)))]) (smh_missingInputs h))),
     (''dependencies'', JArr (map (\<lambda>d. JObj [(''actionTitle'', JStr (sd_actionTitle d)),
        (''condition'', JStr (sd_condition d)), (''basis'', JStr (commitment_text (sd_basis d)))]) (smh_dependencies h))),
     (''timing'', timing_json (smh_timing h)), (''evidence'', JArr (map source_json (smh_evidence h))),
     (''statusReasoning'', JStr (smh_statusReasoning h))]"

definition occurrence_json :: "occurrence \<Rightarrow> jsval" where
  "occurrence_json o' = JObj [(''quote'', JStr (oc_quote o')), (''speaker'', opt_text (oc_speaker o')),
     (''timestamp'', opt_text (oc_timestamp o')), (''locator'', JStr (oc_locator o'))]"

definition claim_json :: "responsibility_claim \<Rightarrow> jsval" where
  "claim_json c = JObj [(''version'', JNum (rc_version c)), (''obligation'', JStr (rc_obligation c)),
     (''speaker'', opt_text (rc_speaker c)), (''statement'', occurrence_json (rc_statement c)),
     (''performer'', JObj [(''name'', opt_text (rc_performerName c)),
        (''basis'', JStr (responsibility_basis_text (rc_performerBasis c)))]),
     (''relationship'', JStr (relationship_text (rc_relationship c))),
     (''assignment'', opt_value occurrence_json (rc_assignment c)),
     (''acceptance'', opt_value occurrence_json (rc_acceptance c)),
     (''laterUpdates'', JArr (map (\<lambda>u. JObj [(''kind'', JStr (later_update_text (lu_kind u))),
        (''occurrence'', occurrence_json (lu_occurrence u))]) (rc_laterUpdates c))),
     (''unresolvedReasons'', JArr (map JStr (rc_unresolvedReasons c))),
     (''contract'', JObj [(''contractVersion'', JNum (cc_contractVersion (rc_contract c))),
        (''validatorVersion'', JNum (cc_validatorVersion (rc_contract c))),
        (''source'', JObj [(''transcriptId'', JStr (cc_transcriptId (rc_contract c))),
           (''observedRevision'', opt_int (cc_observedRevision (rc_contract c))),
           (''checksum'', opt_text (cc_checksum (rc_contract c)))]),
        (''contextChecksum'', JStr (cc_contextChecksum (rc_contract c))),
        (''validatedAt'', JStr (cc_validatedAt (rc_contract c)))])]"

definition person_value :: "responsible_person option \<Rightarrow> jsval" where
  "person_value p = (case p of None \<Rightarrow> JNull | Some Owner \<Rightarrow> JObj [(''kind'', JStr ''owner'')]
     | Some (PersonProfile i) \<Rightarrow> JObj [(''kind'', JStr ''person-profile''), (''profileId'', JStr i)])"

end
