(* ===== verification/Materialization.thy ===== *)
theory Materialization
  imports CanonicalJson ActionItemTypes
begin

section \<open>Exact materialization\<close>

text \<open>
  \<open>apps/server/src/tasks/materialization.ts\<close>: the versioned key a checked extraction entry
  materializes under, the index of the keys already allocated, and the dependency targets of one
  checked output.  \<open>sha\<close> is the SHA-256 of \<open>node:crypto\<close> in hexadecimal, a parameter: nothing is
  assumed of it here, and a theorem that needs two inputs to have different hashes says so.
\<close>

definition MATERIALIZATION_KEY_VERSION :: int where
  "MATERIALIZATION_KEY_VERSION = 1"

record entry_payload =
  ep_title :: string
  ep_owner :: "string option"
  ep_ownerMentionId :: "string option"
  ep_ownerProfileId :: "string option"
  ep_dueDate :: "string option"
  ep_notes :: string
  ep_responsiblePerson :: "responsible_person option"
  ep_occurrence :: item_occurrence
  ep_handoff :: "handoff_record option"
  ep_responsibilityClaim :: "responsibility_claim option"

record output_entry =
  oe_candidateAlias :: "string option"
  oe_payload :: entry_payload

definition item_occurrence_json :: "item_occurrence \<Rightarrow> jsval" where
  "item_occurrence_json o' = JObj [(''locator'', JStr (io_locator o')),
     (''timestamp'', opt_text (io_timestamp o')), (''quote'', opt_text (io_quote o'))]"

definition payload_json :: "entry_payload \<Rightarrow> jsval" where
  "payload_json p = JObj [(''title'', JStr (ep_title p)), (''owner'', opt_text (ep_owner p)),
     (''ownerMentionId'', opt_text (ep_ownerMentionId p)), (''ownerProfileId'', opt_text (ep_ownerProfileId p)),
     (''dueDate'', opt_text (ep_dueDate p)), (''notes'', JStr (ep_notes p)),
     (''responsiblePerson'', person_value (ep_responsiblePerson p)),
     (''occurrence'', item_occurrence_json (ep_occurrence p)),
     (''handoff'', opt_value handoff_json (ep_handoff p)),
     (''responsibilityClaim'', opt_value claim_json (ep_responsibilityClaim p))]"

definition payloadChecksum :: "(string \<Rightarrow> string) \<Rightarrow> entry_payload \<Rightarrow> string" where
  "payloadChecksum sha p = ''sha256:'' @ sha (canonicalJson (payload_json p))"

definition entry_ordinal :: "(string \<Rightarrow> string) \<Rightarrow> output_entry list \<Rightarrow> nat \<Rightarrow> nat" where
  "entry_ordinal sha entries i =
     length (filter (\<lambda>c. payloadChecksum sha (oe_payload (entries ! c)) = payloadChecksum sha (oe_payload (entries ! i)))
       [0..<Suc i])"

definition entry_seed :: "(string \<Rightarrow> string) \<Rightarrow> output_entry list \<Rightarrow> nat \<Rightarrow> string" where
  "entry_seed sha entries i =
     payloadChecksum sha (oe_payload (entries ! i)) @ ''#'' @ digits (entry_ordinal sha entries i)"

definition outputEntryId :: "(string \<Rightarrow> string) \<Rightarrow> output_entry list \<Rightarrow> nat \<Rightarrow> string" where
  "outputEntryId sha entries i = ''ce_'' @ take 16 (sha (entry_seed sha entries i))"

definition materializationKey :: "string \<Rightarrow> string \<Rightarrow> string" where
  "materializationKey debriefRunId entryId =
     ''materialization:v'' @ json_int MATERIALIZATION_KEY_VERSION @ '':'' @ debriefRunId @ '':'' @ entryId"

definition normalizeTitle :: "string \<Rightarrow> string" where
  "normalizeTitle s = collapse_spaces (toLowerCase (trim s))"

definition dependency_target_of :: "(string \<Rightarrow> string) \<Rightarrow> output_entry list \<Rightarrow> nat \<Rightarrow> handoff_dependency \<Rightarrow> dependency_target" where
  "dependency_target_of sha entries index d =
     (if hdp_references d = ReferencesExternal then ExternalTarget
      else
        let wording = normalizeTitle (hdp_actionTitle d);
            named = filter (\<lambda>c. normalizeTitle (ep_title (oe_payload (entries ! c))) = wording) [0..<length entries]
        in case named of
             [] \<Rightarrow> UnresolvedTarget NotExtracted
           | [c] \<Rightarrow> if c = index then UnresolvedTarget SelfReference else OutputTarget (outputEntryId sha entries c)
           | _ \<Rightarrow> UnresolvedTarget AmbiguousTitle)"

definition resolveDependencyTargets :: "(string \<Rightarrow> string) \<Rightarrow> output_entry list \<Rightarrow> dependency_target list list" where
  "resolveDependencyTargets sha entries = map (\<lambda>index.
     case ep_handoff (oe_payload (entries ! index)) of
       None \<Rightarrow> []
     | Some (HandoffV1 _) \<Rightarrow> []
     | Some (HandoffV2 h) \<Rightarrow> map (dependency_target_of sha entries index) (mh_dependencies h))
     [0..<length entries]"

definition dependencyMappings :: "handoff_record option \<Rightarrow> dependency_mapping list" where
  "dependencyMappings h = (case h of None \<Rightarrow> [] | Some h \<Rightarrow>
     map (\<lambda>(i, d). \<lparr>dm_index = i, dm_wording = dv_wording d, dm_target = dv_target d\<rparr>)
       (zip [0..<length (handoffDependencies h)] (handoffDependencies h)))"

subsection \<open>The index\<close>

definition revision_mapping :: "action_item \<Rightarrow> proposal_revision \<Rightarrow> materialization_mapping option" where
  "revision_mapping item r = (case rv_origin r of
     Extraction eo \<Rightarrow> Some \<lparr>mm_key = eo_materializationKey eo, mm_debriefRunId = eo_debriefRunId eo,
       mm_outputEntryId = eo_outputEntryId eo, mm_candidateAlias = eo_candidateAlias eo,
       mm_payloadChecksum = eo_payloadChecksum eo, mm_actionItemId = ai_id item,
       mm_proposalRevision = rv_revision r, mm_allocatedAt = rv_createdAt r,
       mm_dependencies = dependencyMappings (ai_handoff item)\<rparr>
   | _ \<Rightarrow> None)"

definition item_mappings :: "action_item \<Rightarrow> materialization_mapping list" where
  "item_mappings item = List.map_filter (revision_mapping item) (ai_proposalRevisions item)"

text \<open>\<open>Map.set\<close> in the order of the records: a later entry under a key replaces an earlier one.\<close>

definition index_of :: "materialization_mapping list \<Rightarrow> (string \<rightharpoonup> materialization_mapping)" where
  "index_of ms = foldl (\<lambda>index m. index(mm_key m \<mapsto> m)) (\<lambda>_. None) ms"

definition materializationIndex :: "action_item list \<Rightarrow> (string \<rightharpoonup> materialization_mapping)" where
  "materializationIndex items = index_of (concat (map item_mappings items))"

lemma index_of_snoc: "index_of (ms @ [m]) = (index_of ms)(mm_key m \<mapsto> m)"
  by (simp add: index_of_def)

lemma index_of_append_other: "k \<notin> mm_key ` set ns \<Longrightarrow> index_of (ms @ ns) k = index_of ms k"
proof (induction ns rule: rev_induct)
  case (snoc n ns)
  then show ?case by (simp add: index_of_snoc flip: append_assoc)
qed simp

lemma index_of_None: "index_of ms k = None \<longleftrightarrow> k \<notin> mm_key ` set ms"
  by (induction ms rule: rev_induct) (auto simp: index_of_def)

lemma index_of_SomeD: "index_of ms k = Some m \<Longrightarrow> m \<in> set ms \<and> mm_key m = k"
  by (induction ms rule: rev_induct) (auto simp: index_of_def split: if_splits)

lemma index_of_distinct:
  "distinct (map mm_key ms) \<Longrightarrow> m \<in> set ms \<Longrightarrow> index_of ms (mm_key m) = Some m"
proof (induction ms rule: rev_induct)
  case (snoc n ms)
  then show ?case by (cases "m = n") (auto simp: index_of_snoc image_iff)
qed simp

lemma index_of_appended:
  assumes "distinct (map mm_key ns)" "m \<in> set ns"
  shows "index_of (ms @ ns) (mm_key m) = Some m"
  using assms
proof (induction ns rule: rev_induct)
  case (snoc n ns)
  show ?case
  proof (cases "m = n")
    case True
    then show ?thesis by (simp add: index_of_snoc flip: append_assoc)
  next
    case False
    with snoc.prems have "mm_key m \<noteq> mm_key n" by (auto simp: image_iff)
    with False snoc show ?thesis by (simp add: index_of_snoc flip: append_assoc)
  qed
qed simp

subsection \<open>Entry identities\<close>

text \<open>
  Two places of one output have the same seed only when they are the same place: equal content at
  two places is told apart by its ordinal.
\<close>

lemma entry_ordinal_less:
  assumes "i < j" "payloadChecksum sha (oe_payload (entries ! i)) = payloadChecksum sha (oe_payload (entries ! j))"
  shows "entry_ordinal sha entries i < entry_ordinal sha entries j"
proof -
  let ?P = "\<lambda>c. payloadChecksum sha (oe_payload (entries ! c)) = payloadChecksum sha (oe_payload (entries ! j))"
  have "[0..<Suc j] = [0..<Suc i] @ [Suc i..<j] @ [j]"
    using assms(1) upt_add_eq_append [of 0 "Suc i" "j - Suc i"] by simp
  then have "entry_ordinal sha entries j = length (filter ?P [0..<Suc i]) + length (filter ?P [Suc i..<j]) + 1"
    by (simp add: entry_ordinal_def)
  with assms(2) show ?thesis by (simp add: entry_ordinal_def)
qed

lemma char_of_digit: "k < 10 \<Longrightarrow> of_char (char_of (48 + k) :: char) = (48 + k :: nat)"
  by simp

lemma digits_no_hash: "CHR ''#'' \<notin> set (digits n)"
proof (induction n rule: digits.induct)
  case (1 n)
  have d: "CHR ''#'' \<noteq> (char_of (48 + k) :: char)" if "k < 10" for k :: nat
  proof
    assume "CHR ''#'' = (char_of (48 + k) :: char)"
    then have "of_char CHR ''#'' = (of_char (char_of (48 + k) :: char) :: nat)" by simp
    with char_of_digit [OF that] show False by simp
  qed
  show ?case
    by (subst digits.simps) (use 1 d in auto)
qed

definition undigits :: "string \<Rightarrow> nat" where
  "undigits s = foldl (\<lambda>a c. 10 * a + (of_char c - 48)) 0 s"

lemma undigits_digits: "undigits (digits n) = n"
proof (induction n rule: digits.induct)
  case (1 n)
  show ?case
    by (subst digits.simps) (use 1 char_of_digit in \<open>auto simp: undigits_def\<close>)
qed

lemma digits_inj: "digits m = digits n \<longleftrightarrow> m = n"
  by (metis undigits_digits)

lemma split_first_mark:
  "xs @ c # zs = ys @ c # ws \<Longrightarrow> c \<notin> set xs \<Longrightarrow> c \<notin> set ys \<Longrightarrow> xs = ys \<and> zs = ws"
proof (induction xs arbitrary: ys)
  case Nil
  then show ?case by (cases ys) auto
next
  case (Cons x xs)
  then show ?case by (cases ys) auto
qed

lemma split_last_mark:
  assumes "xs @ c # ys = xs' @ c # ys'" "c \<notin> set ys" "c \<notin> set ys'"
  shows "xs = xs' \<and> ys = ys'"
proof -
  have "rev ys @ c # rev xs = rev ys' @ c # rev xs'"
    using arg_cong [OF assms(1), of rev] by simp
  then have "rev ys = rev ys' \<and> rev xs = rev xs'"
    using assms(2,3) by (intro split_first_mark) simp_all
  then show ?thesis by simp
qed

lemma entry_seed_inj:
  assumes "entry_seed sha entries i = entry_seed sha entries j"
  shows "i = j"
proof (rule ccontr)
  assume ne: "i \<noteq> j"
  let ?c = "\<lambda>i. payloadChecksum sha (oe_payload (entries ! i))"
  have "?c i = ?c j \<and> digits (entry_ordinal sha entries i) = digits (entry_ordinal sha entries j)"
    using assms digits_no_hash by (intro split_last_mark [of _ "CHR ''#''"]) (simp_all add: entry_seed_def)
  then have e: "?c i = ?c j" "entry_ordinal sha entries i = entry_ordinal sha entries j"
    by (simp_all add: digits_inj)
  from ne show False
    using entry_ordinal_less [of i j sha entries] entry_ordinal_less [of j i sha entries] e
    by (cases "i < j") auto
qed

text \<open>
  So, unless two seeds of one output collide in the first sixteen hexadecimal digits of their
  hashes, its entries have different identities and keys.
\<close>

definition collision_free :: "(string \<Rightarrow> string) \<Rightarrow> output_entry list \<Rightarrow> bool" where
  "collision_free sha entries \<longleftrightarrow>
     inj_on (\<lambda>x. take 16 (sha x)) (entry_seed sha entries ` {..<length entries})"

lemma outputEntryId_inj:
  assumes "collision_free sha entries" "i < length entries" "j < length entries"
    "outputEntryId sha entries i = outputEntryId sha entries j"
  shows "i = j"
proof -
  have "entry_seed sha entries i = entry_seed sha entries j"
    using assms by (auto simp: collision_free_def outputEntryId_def dest: inj_onD)
  then show ?thesis by (rule entry_seed_inj)
qed

lemma materializationKey_inj [simp]: "materializationKey r e = materializationKey r e' \<longleftrightarrow> e = e'"
  by (simp add: materializationKey_def)

subsection \<open>Dependency targets\<close>

lemma resolve_length: "length (resolveDependencyTargets sha entries) = length entries"
  by (simp add: resolveDependencyTargets_def)

text \<open>An answer is the one entry that carries the wording, never the entry that asks.\<close>

lemma dependency_target_of_output:
  assumes "dependency_target_of sha entries index d = OutputTarget e"
  shows "\<exists>c < length entries. c \<noteq> index \<and> e = outputEntryId sha entries c
    \<and> hdp_references d = ReferencesExtracted
    \<and> normalizeTitle (ep_title (oe_payload (entries ! c))) = normalizeTitle (hdp_actionTitle d)
    \<and> (\<forall>c' < length entries. normalizeTitle (ep_title (oe_payload (entries ! c'))) = normalizeTitle (hdp_actionTitle d)
        \<longrightarrow> c' = c)"
proof -
  let ?P = "\<lambda>c. normalizeTitle (ep_title (oe_payload (entries ! c))) = normalizeTitle (hdp_actionTitle d)"
  from assms obtain c where c: "filter ?P [0..<length entries] = [c]" "c \<noteq> index"
    "e = outputEntryId sha entries c" "hdp_references d = ReferencesExtracted"
    by (cases "hdp_references d")
      (auto simp: dependency_target_of_def Let_def split: list.splits if_splits)
  then have "set (filter ?P [0..<length entries]) = {c}" by simp
  then have "{x. x < length entries \<and> ?P x} = {c}" by (auto simp: set_eq_iff)
  with c show ?thesis by blast
qed

lemma dependency_target_of_external:
  "hdp_references d = ReferencesExternal \<Longrightarrow> dependency_target_of sha entries index d = ExternalTarget"
  by (simp add: dependency_target_of_def)

end
