(* ===== verification/ActionItems.thy ===== *)
theory ActionItems
  imports Materialization WorkspaceTasks
begin

section \<open>The Workspace's Action Items\<close>

text \<open>
  \<open>apps/server/src/tasks/action-items.ts\<close>: materialization of checked extraction entries, the
  owner's commands on one record, and the read-only joins.

  \<open>items_env\<close> is what one operation reads of its surroundings: the clock, the random identities it
  draws, the owner's Person Profile and the SHA-256 of the runtime.
\<close>

record items_env =
  ie_now :: string
  ie_uuid :: "nat \<Rightarrow> string"
  ie_ownerProfileId :: "string option"
  ie_sha :: "string \<Rightarrow> string"

record extraction_reservation =
  er_operationId :: string
  er_claim :: promotion_claim
  er_basis :: string
  er_reservedAt :: string
  er_authorization :: "stored_authorization option"

record extracted_item =
  xi_handoff :: "handoff_record option"
  xi_responsibilityClaim :: "responsibility_claim option"
  xi_title :: string
  xi_owner :: "string option"
  xi_ownerMentionId :: "string option"
  xi_ownerProfileId :: "string option"
  xi_dueDate :: "string option"

record item_materialization =
  im_debriefRunId :: string
  im_transcriptId :: string
  im_meetingId :: "string option"
  im_transcriptObservedRevision :: "int option"
  im_transcriptChecksum :: "string option"
  im_contextChecksum :: "string option"
  im_actionItems :: "extracted_item list"
  im_candidateAliases :: "string option list"
  im_firstExtraction :: "extraction_reservation option"
  im_reviewOnly :: bool

record item_query =
  iq_state :: "action_item_state option"
  iq_debriefRunId :: "string option"
  iq_transcriptId :: "string option"
  iq_meetingId :: "string option"

record item_command =
  ic_expectedVersion :: "int option"
  ic_actor :: "string option"
  ic_missingContentAcknowledged :: bool

definition no_command :: item_command where
  "no_command = \<lparr>ic_expectedVersion = None, ic_actor = None, ic_missingContentAcknowledged = False\<rparr>"

definition any_item :: item_query where
  "any_item = \<lparr>iq_state = None, iq_debriefRunId = None, iq_transcriptId = None, iq_meetingId = None\<rparr>"

subsection \<open>Checked entries\<close>

definition proposedResponsiblePerson :: "items_env \<Rightarrow> string option \<Rightarrow> responsible_person option" where
  "proposedResponsiblePerson env pid = (case pid of
     None \<Rightarrow> None
   | Some p \<Rightarrow> if ie_ownerProfileId env = Some p then Some Owner else Some (PersonProfile p))"

text \<open>
  The ordinal is the place of the located evidence among the evidence with its quotation and time;
  \<open>indexOf\<close> compares identities, so places stand for the evidence objects.
\<close>

definition occurrenceOf :: "extracted_item \<Rightarrow> item_occurrence" where
  "occurrenceOf x = (case (case xi_handoff x of None \<Rightarrow> [] | Some h \<Rightarrow> handoff_evidence h) of
     [] \<Rightarrow> \<lparr>io_locator = ''unlocated'', io_timestamp = None, io_quote = None\<rparr>
   | e # es \<Rightarrow>
       let evidence = e # es;
           identical = filter (\<lambda>i. hs_quote (evidence ! i) = hs_quote e \<and> hs_timestamp (evidence ! i) = hs_timestamp e)
             [0..<length evidence];
           ordinal = Suc (length (takeWhile (\<lambda>i. i \<noteq> 0) identical))
       in \<lparr>io_locator = or_else (hs_timestamp e) ''no-timestamp'' @ ''#'' @ digits ordinal,
           io_timestamp = hs_timestamp e, io_quote = Some (hs_quote e)\<rparr>)"

definition multipleResponsibility :: "extracted_item \<Rightarrow> bool" where
  "multipleResponsibility x = (case xi_handoff x of None \<Rightarrow> False | Some h \<Rightarrow>
     length (hr_names (handoff_responsibility_of h)) \<noteq> 1
     \<or> hr_basis (handoff_responsibility_of h) = BasisUnknown)"

definition checkedEntry :: "items_env \<Rightarrow> extracted_item \<Rightarrow> item_occurrence \<Rightarrow> string option \<Rightarrow> output_entry" where
  "checkedEntry env x occ alias = \<lparr>oe_candidateAlias = alias, oe_payload =
     \<lparr>ep_title = xi_title x, ep_owner = xi_owner x, ep_ownerMentionId = xi_ownerMentionId x,
      ep_ownerProfileId = xi_ownerProfileId x, ep_dueDate = xi_dueDate x,
      ep_notes = (case xi_handoff x of None \<Rightarrow> [] | Some h \<Rightarrow> handoffNotes h),
      ep_responsiblePerson = (if multipleResponsibility x then None
        else proposedResponsiblePerson env (xi_ownerProfileId x)),
      ep_occurrence = occ, ep_handoff = xi_handoff x, ep_responsibilityClaim = xi_responsibilityClaim x\<rparr>\<rparr>"

definition alias_at :: "string option list \<Rightarrow> nat \<Rightarrow> string option" where
  "alias_at as i = (if i < length as then as ! i else None)"

definition checked_entries :: "items_env \<Rightarrow> item_materialization \<Rightarrow> output_entry list" where
  "checked_entries env input = map (\<lambda>i. let x = im_actionItems input ! i in
     checkedEntry env x (occurrenceOf x) (alias_at (im_candidateAliases input) i))
     [0..<length (im_actionItems input)]"

subsection \<open>A new record\<close>

definition withDependencyTargets :: "handoff_record \<Rightarrow> dependency_target list \<Rightarrow> handoff_record" where
  "withDependencyTargets h targets = (case h of
     HandoffV1 s \<Rightarrow> HandoffV1 s
   | HandoffV2 m \<Rightarrow> HandoffV2 (m\<lparr>mh_dependencies := map (\<lambda>i. let d = mh_dependencies m ! i in
       if i < length targets then d\<lparr>hdp_target := Some (targets ! i)\<rparr> else d)
       [0..<length (mh_dependencies m)]\<rparr>))"

definition reconciliationCandidates :: "action_item list \<Rightarrow> item_materialization \<Rightarrow> entry_payload \<Rightarrow> string list" where
  "reconciliationCandidates stored input p =
     map ai_id (filter (\<lambda>item. as_transcriptId (ai_source item) = im_transcriptId input
         \<and> as_debriefRunId (ai_source item) \<noteq> im_debriefRunId input
         \<and> normalizeTitle (pp_title (actionItemProposal item)) = normalizeTitle (ep_title p)) stored)"

definition item_source_of :: "item_materialization \<Rightarrow> action_item_source" where
  "item_source_of input = \<lparr>as_debriefRunId = im_debriefRunId input, as_transcriptId = im_transcriptId input,
     as_meetingId = im_meetingId input, as_reviewOnly = im_reviewOnly input,
     as_contextChecksum = (if truthy_text (im_contextChecksum input) then im_contextChecksum input else None),
     as_promotion = map_option (\<lambda>r. \<lparr>pr_claim = er_claim r, pr_basis = er_basis r,
       pr_operationId = Some (er_operationId r), pr_reservedAt = er_reservedAt r,
       pr_authorization = er_authorization r\<rparr>) (im_firstExtraction input)\<rparr>"

definition allocateActionItemId :: "string \<Rightarrow> string" where
  "allocateActionItemId uuid = ''ai_'' @ filter (\<lambda>c. c \<noteq> CHR ''-'') uuid"

text \<open>The random identities of the entry at one place: the record, its observation, its question.\<close>

definition newActionItem :: "items_env \<Rightarrow> item_materialization \<Rightarrow> output_entry list \<Rightarrow> nat \<Rightarrow> int \<Rightarrow>
    string list \<Rightarrow> dependency_target list \<Rightarrow> action_item" where
  "newActionItem env input entries i revision candidates targets =
     (let entry = entries ! i; p = oe_payload entry; entryId = outputEntryId (ie_sha env) entries i; at = ie_now env in
      \<lparr>ai_handoff = map_option (\<lambda>h. withDependencyTargets h targets) (ep_handoff p),
       ai_responsibilityClaim = ep_responsibilityClaim p,
       ai_id = allocateActionItemId (ie_uuid env (3 * i)),
       ai_source = item_source_of input,
       ai_extractionRevision = revision,
       ai_evidence = \<lparr>ae_responsibleMentionId = ep_ownerMentionId p, ae_responsibleSurfaceName = ep_owner p\<rparr>,
       ai_proposalRevisions = [\<lparr>rv_revision = 1,
         rv_content = \<lparr>pp_title = ep_title p, pp_notes = ep_notes p, pp_dueDate = ep_dueDate p,
           pp_responsiblePerson = ep_responsiblePerson p\<rparr>,
         rv_origin = Extraction \<lparr>eo_debriefRunId = im_debriefRunId input, eo_transcriptId = im_transcriptId input,
           eo_meetingId = im_meetingId input, eo_materializationKey = materializationKey (im_debriefRunId input) entryId,
           eo_outputEntryId = entryId, eo_payloadChecksum = payloadChecksum (ie_sha env) p,
           eo_candidateAlias = oe_candidateAlias entry\<rparr>,
         rv_extractionRevision = revision, rv_createdAt = at\<rparr>],
       ai_selectedRevision = 1, ai_reviewedThrough = 1,
       ai_observations = [\<lparr>ob_id = ''observation_'' @ ie_uuid env (3 * i + 1), ob_proposalRevision = 1,
         ob_transcriptId = im_transcriptId input, ob_transcriptObservedRevision = im_transcriptObservedRevision input,
         ob_transcriptChecksum = im_transcriptChecksum input, ob_occurrence = ep_occurrence p,
         ob_artifactId = Some (im_debriefRunId input), ob_outputEntryId = Some entryId,
         ob_candidateAliases = (case oe_candidateAlias entry of None \<Rightarrow> [] | Some a \<Rightarrow> [a]), ob_notedAt = at\<rparr>],
       ai_decisions = [],
       ai_reconciliations = (if candidates = [] then [] else
         [\<lparr>rn_id = ''reconciliation_'' @ ie_uuid env (3 * i + 2), rn_proposalRevision = 1,
           rn_debriefRunId = Some (im_debriefRunId input), rn_disposition = Unresolved,
           rn_targetActionItemId = None, rn_candidateActionItemIds = candidates,
           rn_decidedBy = DecidedByExtraction, rn_decidedAt = at,
           rn_versions = \<lparr>iv_actionItemVersion = 1, iv_proposalRevision = 1, iv_taskId = None, iv_taskVersion = None\<rparr>\<rparr>]),
       ai_reconciledInto = None, ai_amendments = [], ai_version = 1, ai_state = Pending,
       ai_promotedTaskId = None, ai_createdAt = at, ai_updatedAt = at, ai_decidedAt = None\<rparr>)"

subsection \<open>Materializing\<close>

definition entry_key :: "items_env \<Rightarrow> item_materialization \<Rightarrow> output_entry list \<Rightarrow> nat \<Rightarrow> string" where
  "entry_key env input entries i = materializationKey (im_debriefRunId input) (outputEntryId (ie_sha env) entries i)"

definition nextRevision :: "items_env \<Rightarrow> action_item list \<Rightarrow> output_entry list \<Rightarrow> item_materialization \<Rightarrow>
    (string \<rightharpoonup> materialization_mapping) \<Rightarrow> int" where
  "nextRevision env held entries input byKey =
     (if held = [] then 1
      else let highest = foldl (\<lambda>m item. max m (ai_extractionRevision item)) 1 held in
        if list_ex (\<lambda>i. byKey (entry_key env input entries i) = None) [0..<length entries]
        then highest + 1 else highest)"

text \<open>\<open>new Map(stored.map(...))\<close>: the last record under an identity wins.\<close>

definition by_id :: "action_item list \<Rightarrow> string \<Rightarrow> action_item option" where
  "by_id stored k = find_by ai_id k (rev stored)"

text \<open>One entry: the record it already has, or a new one.\<close>

datatype materialized = Known action_item | Added action_item

fun materialized_item :: "materialized \<Rightarrow> action_item" where
  "materialized_item (Known i) = i"
| "materialized_item (Added i) = i"

fun added_items :: "materialized list \<Rightarrow> action_item list" where
  "added_items [] = []"
| "added_items (Added i # ms) = i # added_items ms"
| "added_items (Known _ # ms) = added_items ms"

definition materialize_entry :: "items_env \<Rightarrow> item_materialization \<Rightarrow> action_item list \<Rightarrow> output_entry list \<Rightarrow>
    int \<Rightarrow> nat \<Rightarrow> ws_error + materialized" where
  "materialize_entry env input stored entries revision i =
     (let key = entry_key env input entries i; p = oe_payload (entries ! i) in
      case materializationIndex stored key of
        Some existing \<Rightarrow>
          if mm_payloadChecksum existing \<noteq> payloadChecksum (ie_sha env) p
          then Inl (MaterializationIntegrity key)
          else (case by_id stored (mm_actionItemId existing) of
             None \<Rightarrow> Inl (MaterializationIntegrity key)
           | Some item \<Rightarrow> Inr (Known item))
      | None \<Rightarrow> Inr (Added (newActionItem env input entries i revision
          (reconciliationCandidates stored input p) (resolveDependencyTargets (ie_sha env) entries ! i))))"

fun all_results :: "('e + 'a) list \<Rightarrow> 'e + 'a list" where
  "all_results [] = Inr []"
| "all_results (r # rs) = (case r of Inl e \<Rightarrow> Inl e | Inr x \<Rightarrow>
     (case all_results rs of Inl e \<Rightarrow> Inl e | Inr xs \<Rightarrow> Inr (x # xs)))"

definition materialize :: "items_env \<Rightarrow> item_materialization \<Rightarrow> (wstore, ws_error, action_item list) cmd" where
  "materialize env input =
     andThen (query readActionItems) (\<lambda>stored.
     let entries = checked_entries env input;
         held = filter (\<lambda>item. as_debriefRunId (ai_source item) = im_debriefRunId input) stored;
         revision = nextRevision env held entries input (materializationIndex stored) in
     andThen (check (all_results (map (materialize_entry env input stored entries revision) [0..<length entries]))) (\<lambda>ms.
     if added_items ms \<noteq> []
     then andThen (writeActionItems (stored @ added_items ms)) (\<lambda>_. ret (map materialized_item ms))
     else ret (map materialized_item ms)))"

subsection \<open>Reading\<close>

definition item_matches :: "item_query \<Rightarrow> action_item \<Rightarrow> bool" where
  "item_matches q item \<longleftrightarrow> matches (iq_state q) (ai_state item)
     \<and> matches (iq_debriefRunId q) (as_debriefRunId (ai_source item))
     \<and> matches (iq_transcriptId q) (as_transcriptId (ai_source item))
     \<and> matches (map_option Some (iq_meetingId q)) (as_meetingId (ai_source item))"

definition listItems :: "item_query \<Rightarrow> wstore \<Rightarrow> ws_error + action_item list" where
  "listItems q s = map_result (filter (item_matches q)) (readActionItems s)"

definition getItem :: "string \<Rightarrow> wstore \<Rightarrow> ws_error + action_item option" where
  "getItem aid s = map_result (find_by ai_id aid) (readActionItems s)"

definition forExtraction :: "items_env \<Rightarrow> item_materialization \<Rightarrow> action_item list \<Rightarrow>
    action_item option list \<times> action_item list" where
  "forExtraction env input stored =
     (let currentItems = filter (item_matches (any_item\<lparr>iq_debriefRunId := Some (im_debriefRunId input)\<rparr>)) stored;
          items = (if truthy_text (im_meetingId input)
            then filter (item_matches (any_item\<lparr>iq_meetingId := im_meetingId input\<rparr>)) stored else currentItems);
          entries = checked_entries env input;
          ids = map (\<lambda>i. map_option mm_actionItemId (materializationIndex stored (entry_key env input entries i)))
            [0..<length entries]
      in (map (\<lambda>k. case k of None \<Rightarrow> None | Some k \<Rightarrow> find_by ai_id k currentItems) ids,
          filter (\<lambda>item. Some (ai_id item) \<notin> set ids) items))"

text \<open>What a recorded reference resolves to, following the reconciliations.\<close>

datatype followed = FollowedTo string "string option" | FollowedMissing | FollowedCycle

function follow_from :: "action_item list \<Rightarrow> string \<Rightarrow> string list \<Rightarrow> string \<Rightarrow> followed" where
  "follow_from items start visited current =
     (if current \<in> set visited then FollowedCycle
      else case find_by ai_id current items of
        None \<Rightarrow> FollowedMissing
      | Some held \<Rightarrow>
          (case ai_reconciledInto held of
             None \<Rightarrow> FollowedTo current (if current = start then None else Some start)
           | Some k \<Rightarrow> follow_from items start (current # visited) k))"
  by pat_completeness auto
termination
proof (relation "measure (\<lambda>(items, start, visited, current). card (ai_id ` set items - set visited))")
  fix items start visited current held k
  assume a: "current \<notin> set visited" "find_by ai_id current items = Some held"
  then have "current \<in> ai_id ` set items - set visited" by (auto dest: find_by_SomeD)
  then have "ai_id ` set items - set (current # visited) \<subset> ai_id ` set items - set visited" by auto
  then show "((items, start, current # visited, k), items, start, visited, current)
      \<in> measure (\<lambda>(items, start, visited, current). card (ai_id ` set items - set visited))"
    by (simp add: psubset_card_mono)
qed simp

declare follow_from.simps [simp del]

definition followRedirect :: "action_item list \<Rightarrow> string \<Rightarrow> followed" where
  "followRedirect items aid = follow_from items aid [] aid"

definition resolve_dependency :: "action_item list \<Rightarrow> action_item \<Rightarrow> dependency_view \<Rightarrow> resolved_dependency" where
  "resolve_dependency items item d = \<lparr>rd_wording = dv_wording d, rd_condition = dv_condition d,
     rd_provenance = dv_provenance d, rd_target = (case dv_target d of
       ExternalTarget \<Rightarrow> ResolvedExternal
     | UnresolvedTarget r \<Rightarrow> ResolvedNot r
     | OutputTarget e \<Rightarrow>
         (case materializationIndex items (materializationKey (as_debriefRunId (ai_source item)) e) of
            None \<Rightarrow> ResolvedNot MissingRecord
          | Some m \<Rightarrow> (case followRedirect items (mm_actionItemId m) of
               FollowedMissing \<Rightarrow> ResolvedNot MissingRecord
             | FollowedCycle \<Rightarrow> ResolvedNot RedirectCycle
             | FollowedTo k from \<Rightarrow> ResolvedItem k (mm_proposalRevision m) from)))\<rparr>"

definition item_references :: "action_item list \<Rightarrow> action_item \<Rightarrow> resolved_dependency list option" where
  "item_references items item = (case ai_handoff item of None \<Rightarrow> None | Some h \<Rightarrow>
     if handoffDependencies h = [] then None
     else Some (map (resolve_dependency items item) (handoffDependencies h)))"

text \<open>\<open>Map.set\<close> per record: the last record under an identity wins, unless it has no references.\<close>

definition actionItemDependencyReferences :: "action_item list \<Rightarrow> (string \<rightharpoonup> resolved_dependency list)" where
  "actionItemDependencyReferences items = foldl (\<lambda>m item. case item_references items item of
     None \<Rightarrow> m | Some rs \<Rightarrow> m(ai_id item \<mapsto> rs)) (\<lambda>_. None) items"

definition dependencyReferences :: "action_item list \<Rightarrow> action_item list \<Rightarrow> (string \<times> resolved_dependency list) list" where
  "dependencyReferences stored items = concat (map (\<lambda>item.
     case actionItemDependencyReferences stored (ai_id item) of None \<Rightarrow> [] | Some rs \<Rightarrow> [(ai_id item, rs)]) items)"

end
