(* ===== verification/ItemCommands.thy ===== *)
theory ItemCommands
  imports ActionItems
begin

section \<open>The owner's commands on Action Items\<close>

text \<open>
  The write half of \<open>apps/server/src/tasks/action-items.ts\<close>.  Every command is a change applied in
  one critical section (\<open>stage\<close>): read the record, refuse a stale command, apply the change, advance
  the version.  A change that answers \<open>None\<close> commits nothing.
\<close>

definition OWNER :: string where
  "OWNER = ''owner''"

record task_binding =
  tb_taskId :: "string option"
  tb_taskVersion :: "int option"
  tb_missingContentAcknowledged :: bool

definition no_task :: task_binding where
  "no_task = \<lparr>tb_taskId = None, tb_taskVersion = None, tb_missingContentAcknowledged = False\<rparr>"

definition decision :: "item_decision_kind \<Rightarrow> string \<Rightarrow> string \<Rightarrow> action_item \<Rightarrow> int \<Rightarrow> task_binding \<Rightarrow> decision_record" where
  "decision kind at actor current version task =
     \<lparr>dr_at = at, dr_actor = actor, dr_kind = kind, dr_proposalRevision = ai_selectedRevision current,
      dr_versions = \<lparr>iv_actionItemVersion = version, iv_proposalRevision = ai_selectedRevision current,
        iv_taskId = tb_taskId task, iv_taskVersion = tb_taskVersion task\<rparr>,
      dr_missingContentAcknowledged = tb_missingContentAcknowledged task\<rparr>"

definition decided :: "item_command \<Rightarrow> item_decision_kind \<Rightarrow> string \<Rightarrow> int \<Rightarrow> task_binding \<Rightarrow> action_item \<Rightarrow> decision_record list" where
  "decided command kind at version task current =
     ai_decisions current @ [decision kind at (or_else (ic_actor command) OWNER) current version task]"

type_synonym item_change = "action_item \<Rightarrow> string \<Rightarrow> int \<Rightarrow> wstore \<Rightarrow> ws_error + action_item option"

definition stage :: "items_env \<Rightarrow> string \<Rightarrow> item_command \<Rightarrow> item_change \<Rightarrow> bool \<Rightarrow>
    (wstore, ws_error, action_item \<times> action_item list option) cmd" where
  "stage env aid command change alreadyPromoted =
     andThen (query readActionItems) (\<lambda>stored.
     case find_by ai_id aid stored of
       None \<Rightarrow> throw (TaskRefused ActionItemNotFound)
     | Some current \<Rightarrow>
         andThen (require (matches (ic_expectedVersion command) (ai_version current))
           (TaskRefused ActionItemVersionConflict)) (\<lambda>_.
         andThen (require (\<not> (alreadyPromoted \<and> ai_state current = Promoted))
           (TaskRefused ActionItemAlreadyPromoted)) (\<lambda>_.
         let version = ai_version current + 1 in
         andThen (query (change current (ie_now env) version)) (\<lambda>next. case next of
           None \<Rightarrow> ret (current, None)
         | Some n \<Rightarrow>
             let committed = n\<lparr>ai_version := version\<rparr>
             in ret (committed, Some (replace_by ai_id aid committed stored))))))"

definition transition :: "items_env \<Rightarrow> string \<Rightarrow> item_command \<Rightarrow> item_change \<Rightarrow> bool \<Rightarrow> (wstore, ws_error, action_item) cmd" where
  "transition env aid command change alreadyPromoted =
     andThen (stage env aid command change alreadyPromoted) (\<lambda>(committed, all). case all of
       None \<Rightarrow> ret committed
     | Some items \<Rightarrow> andThen (writeActionItems items) (\<lambda>_. ret committed))"

subsection \<open>Promotion's own write\<close>

definition promotion_change :: "string \<Rightarrow> int option \<Rightarrow> item_command \<Rightarrow> item_change" where
  "promotion_change taskId taskVersion command current at version s = Inr (Some (current\<lparr>
     ai_state := Promoted, ai_promotedTaskId := Some taskId, ai_updatedAt := at, ai_decidedAt := Some at,
     ai_decisions := decided command DPromote at version
       \<lparr>tb_taskId = Some taskId, tb_taskVersion = taskVersion,
        tb_missingContentAcknowledged = ic_missingContentAcknowledged command\<rparr> current\<rparr>))"

definition recordPromotion :: "items_env \<Rightarrow> string \<Rightarrow> string \<Rightarrow> int option \<Rightarrow> item_command \<Rightarrow> (wstore, ws_error, action_item) cmd" where
  "recordPromotion env aid taskId taskVersion command =
     transition env aid command (promotion_change taskId taskVersion command) True"

definition stagePromotion :: "items_env \<Rightarrow> string \<Rightarrow> string \<Rightarrow> int option \<Rightarrow> item_command \<Rightarrow>
    (wstore, ws_error, action_item \<times> action_item list option) cmd" where
  "stagePromotion env aid taskId taskVersion command =
     stage env aid command (promotion_change taskId taskVersion command) True"

subsection \<open>Dismissing and restoring\<close>

definition decide_change :: "action_item_state \<Rightarrow> item_decision_kind \<Rightarrow> item_command \<Rightarrow> item_change" where
  "decide_change to kind command current at version s =
     (if ai_state current = to then Inr None
      else if ai_state current = Promoted then refuse ActionItemAlreadyPromoted
      else Inr (Some (current\<lparr>ai_state := to, ai_updatedAt := at,
        ai_decidedAt := (if to = Dismissed then Some at else None),
        ai_decisions := decided command kind at version (no_task\<lparr>tb_taskId := ai_promotedTaskId current\<rparr>) current\<rparr>)))"

definition dismiss :: "items_env \<Rightarrow> string \<Rightarrow> item_command \<Rightarrow> (wstore, ws_error, action_item) cmd" where
  "dismiss env aid command = transition env aid command (decide_change Dismissed DDismiss command) True"

definition restore :: "items_env \<Rightarrow> string \<Rightarrow> item_command \<Rightarrow> (wstore, ws_error, action_item) cmd" where
  "restore env aid command = transition env aid command (decide_change Pending DRestore command) True"

subsection \<open>Proposals\<close>

definition select_change :: "int \<Rightarrow> item_command \<Rightarrow> item_change" where
  "select_change revision command current at version s =
     (case find_by rv_revision revision (ai_proposalRevisions current) of
        None \<Rightarrow> refuse ActionItemRevisionNotFound
      | Some _ \<Rightarrow>
          if ai_selectedRevision current = revision \<and> revision \<le> ai_reviewedThrough current then Inr None
          else Inr (Some (current\<lparr>ai_selectedRevision := revision,
            ai_reviewedThrough := latestProposalRevision current, ai_updatedAt := at,
            ai_decisions := decided command DSelectProposal at version no_task current\<rparr>)))"

definition selectProposal :: "items_env \<Rightarrow> string \<Rightarrow> int \<Rightarrow> item_command \<Rightarrow> (wstore, ws_error, action_item) cmd" where
  "selectProposal env aid revision command = transition env aid command (select_change revision command) False"

definition correct_change :: "proposal \<Rightarrow> item_command \<Rightarrow> item_change" where
  "correct_change content command current at version s =
     (let previous = latestProposalRevision current in
      Inr (Some (current\<lparr>ai_proposalRevisions := ai_proposalRevisions current @
          [\<lparr>rv_revision = previous + 1, rv_content = content, rv_origin = OwnerCorrection previous,
            rv_extractionRevision = ai_extractionRevision current, rv_createdAt = at\<rparr>],
        ai_updatedAt := at,
        ai_decisions := decided command DCorrectProposal at version no_task current\<rparr>)))"

definition correctProposal :: "items_env \<Rightarrow> string \<Rightarrow> proposal \<Rightarrow> item_command \<Rightarrow> (wstore, ws_error, action_item) cmd" where
  "correctProposal env aid content command = transition env aid command (correct_change content command) False"

subsection \<open>Reconciliation\<close>

definition sameReconciliation :: "reconciliation \<Rightarrow> disposition \<Rightarrow> string option \<Rightarrow> bool" where
  "sameReconciliation current d target \<longleftrightarrow>
     rn_disposition current = d \<and> (d = EvidenceOfHistorical \<longrightarrow> rn_targetActionItemId current = target)"

definition attachable :: "string \<Rightarrow> string option \<Rightarrow> wstore \<Rightarrow> ws_error + unit" where
  "attachable aid target s = (case target of
     None \<Rightarrow> refuse ActionItemReconciliationInvalid
   | Some k \<Rightarrow> if k = aid then refuse ActionItemReconciliationInvalid
       else (case getItem k s of
          Inl e \<Rightarrow> Inl e
        | Inr None \<Rightarrow> refuse ActionItemReconciliationInvalid
        | Inr (Some held) \<Rightarrow> if ai_reconciledInto held \<noteq> None then refuse ActionItemReconciliationInvalid else Inr ()))"

definition owner_reconciliation :: "items_env \<Rightarrow> action_item \<Rightarrow> disposition \<Rightarrow> string option \<Rightarrow> string \<Rightarrow> int \<Rightarrow> reconciliation" where
  "owner_reconciliation env current d target at version =
     \<lparr>rn_id = ''reconciliation_'' @ ie_uuid env 0, rn_proposalRevision = ai_selectedRevision current,
      rn_debriefRunId = Some (as_debriefRunId (ai_source current)), rn_disposition = d,
      rn_targetActionItemId = (if d = EvidenceOfHistorical then target else None),
      rn_candidateActionItemIds = (case currentReconciliation current of None \<Rightarrow> []
        | Some r \<Rightarrow> rn_candidateActionItemIds r),
      rn_decidedBy = DecidedByOwner, rn_decidedAt = at,
      rn_versions = \<lparr>iv_actionItemVersion = version, iv_proposalRevision = ai_selectedRevision current,
        iv_taskId = ai_promotedTaskId current, iv_taskVersion = None\<rparr>\<rparr>"

definition reconcile_change :: "items_env \<Rightarrow> string \<Rightarrow> disposition \<Rightarrow> string option \<Rightarrow> item_command \<Rightarrow> item_change" where
  "reconcile_change env aid d target command current at version s =
     (if (case currentReconciliation current of None \<Rightarrow> False | Some r \<Rightarrow> sameReconciliation r d target) then Inr None
      else case (if d = EvidenceOfHistorical then attachable aid target s else Inr ()) of
        Inl e \<Rightarrow> Inl e
      | Inr _ \<Rightarrow>
          let reconciliation = owner_reconciliation env current d target at version in
          Inr (Some (current\<lparr>
            ai_reconciliations := ai_reconciliations current @ [reconciliation],
            ai_reconciledInto := rn_targetActionItemId reconciliation, ai_updatedAt := at,
            ai_decisions := decided command (if d = EvidenceOfHistorical then DAttachEvidence else DReconcile)
              at version (no_task\<lparr>tb_taskId := ai_promotedTaskId current\<rparr>) current\<rparr>)))"

definition reconcile :: "items_env \<Rightarrow> string \<Rightarrow> disposition \<Rightarrow> string option \<Rightarrow> item_command \<Rightarrow> (wstore, ws_error, action_item) cmd" where
  "reconcile env aid d target command = transition env aid command (reconcile_change env aid d target command) False"

subsection \<open>Task amendments\<close>

definition no_fields :: "proposal_fields \<Rightarrow> bool" where
  "no_fields f \<longleftrightarrow> pf_title f = None \<and> pf_notes f = None \<and> pf_dueDate f = None \<and> pf_responsiblePerson f = None"

definition suggest_change :: "items_env \<Rightarrow> string \<Rightarrow> proposal_fields \<Rightarrow> int \<Rightarrow> item_command \<Rightarrow> item_change" where
  "suggest_change env taskId pf observed command current at version s =
     (if ai_promotedTaskId current \<noteq> Some taskId then refuse ActionItemAmendmentInvalid
      else if no_fields pf then refuse ActionItemAmendmentInvalid
      else Inr (Some (current\<lparr>
        ai_amendments := ai_amendments current @
          [\<lparr>am_id = ''amendment_'' @ ie_uuid env 0, am_taskId = taskId,
            am_proposalRevision = ai_selectedRevision current, am_fields = pf,
            am_observedTaskVersion = observed, am_status = AmendmentSuggested,
            am_createdAt = at, am_resolvedAt = None\<rparr>],
        ai_updatedAt := at,
        ai_decisions := decided command DSuggestAmendment at version
          (no_task\<lparr>tb_taskId := Some taskId, tb_taskVersion := Some observed\<rparr>) current\<rparr>)))"

definition suggestAmendment :: "items_env \<Rightarrow> string \<Rightarrow> string \<Rightarrow> proposal_fields \<Rightarrow> int \<Rightarrow> item_command \<Rightarrow> (wstore, ws_error, action_item) cmd" where
  "suggestAmendment env aid taskId pf observed command =
     transition env aid command (suggest_change env taskId pf observed command) False"

definition resolve_change :: "string \<Rightarrow> amendment_status \<Rightarrow> int option \<Rightarrow> item_command \<Rightarrow> item_change" where
  "resolve_change amendmentId status taskVersion command current at version s =
     (case find_by am_id amendmentId (ai_amendments current) of
        None \<Rightarrow> refuse ActionItemNotFound
      | Some a \<Rightarrow>
          if am_status a = status then Inr None
          else Inr (Some (current\<lparr>
            ai_amendments := map (\<lambda>e. if am_id e = amendmentId
               then e\<lparr>am_status := status, am_resolvedAt := Some at\<rparr> else e) (ai_amendments current),
            ai_updatedAt := at,
            ai_decisions := decided command
              (if status = AmendmentApplied then DApplyAmendment else DDeclineAmendment) at version
              (no_task\<lparr>tb_taskId := Some (am_taskId a), tb_taskVersion := taskVersion\<rparr>) current\<rparr>)))"

definition amendment_holder :: "string \<Rightarrow> action_item list \<Rightarrow> action_item option" where
  "amendment_holder amendmentId stored =
     find (\<lambda>item. list_ex (\<lambda>a. am_id a = amendmentId) (ai_amendments item)) stored"

definition resolveAmendment :: "items_env \<Rightarrow> string \<Rightarrow> amendment_status \<Rightarrow> int option \<Rightarrow> item_command \<Rightarrow> (wstore, ws_error, action_item) cmd" where
  "resolveAmendment env amendmentId status taskVersion command =
     andThen (query readActionItems) (\<lambda>stored. case amendment_holder amendmentId stored of
       None \<Rightarrow> throw (TaskRefused ActionItemNotFound)
     | Some holder \<Rightarrow>
         transition env (ai_id holder) command (resolve_change amendmentId status taskVersion command) False)"

subsection \<open>Whether a record may become a Task\<close>

definition promotionRefusal :: "action_item \<Rightarrow> task_error option" where
  "promotionRefusal item =
     (if ai_state item = Dismissed then Some ActionItemDismissed
      else if ai_reconciledInto item \<noteq> None then Some ActionItemNotPromotable
      else if map_option rn_disposition (currentReconciliation item) = Some Unresolved then Some ActionItemNotPromotable
      else if ai_reviewedThrough item < latestProposalRevision item then Some ActionItemNotPromotable
      else None)"

end
