(* ===== verification/ItemFacts.thy ===== *)
theory ItemFacts
  imports ItemCommands TaskFacts "HOL-Library.Sublist"
begin

section \<open>What the Action Item commands guarantee\<close>

text \<open>
  The contract that every owner command on an Action Item satisfies (\<open>commands_one_item\<close>): history
  only grows, the source and the evidence never change, the version advances by one with one decision
  recorded, and nothing else in the Workspace moves.
\<close>

definition extends_item :: "action_item \<Rightarrow> action_item \<Rightarrow> int \<Rightarrow> bool" where
  "extends_item cur n version \<longleftrightarrow>
     ai_id n = ai_id cur \<and> ai_source n = ai_source cur \<and> ai_extractionRevision n = ai_extractionRevision cur
     \<and> ai_evidence n = ai_evidence cur \<and> ai_observations n = ai_observations cur
     \<and> ai_handoff n = ai_handoff cur \<and> ai_responsibilityClaim n = ai_responsibilityClaim cur
     \<and> ai_createdAt n = ai_createdAt cur
     \<and> prefix (ai_proposalRevisions cur) (ai_proposalRevisions n)
     \<and> prefix (ai_reconciliations cur) (ai_reconciliations n)
     \<and> (\<exists>d. ai_decisions n = ai_decisions cur @ [d] \<and> iv_actionItemVersion (dr_versions d) = version)"

definition extending :: "item_change \<Rightarrow> bool" where
  "extending change \<longleftrightarrow> (\<forall>cur at version s n. change cur at version s = Inr (Some n) \<longrightarrow> extends_item cur n version)"

lemma extendingD: "extending change \<Longrightarrow> change cur at version s = Inr (Some n) \<Longrightarrow> extends_item cur n version"
  by (auto simp: extending_def)

lemma readActionItems_revised: "readActionItems s = Inr is \<Longrightarrow> revised is"
  by (auto simp: readActionItems_def revised_def map_result_def normalize_has_revision
      dest!: readBundle_valid simp: bundle_valid_def split: sum.splits option.splits)

lemma extends_revised: "extends_item cur n v \<Longrightarrow> ai_proposalRevisions cur \<noteq> [] \<Longrightarrow> ai_proposalRevisions n \<noteq> []"
  by (auto simp: extends_item_def)

definition item_outcome :: "string \<Rightarrow> action_item list \<Rightarrow> wstore \<Rightarrow> (ws_error + action_item) \<times> wstore \<Rightarrow> bool" where
  "item_outcome aid is s r \<longleftrightarrow>
     (\<exists>e. r = (Inl e, s))
     \<or> (\<exists>i. find_by ai_id aid is = Some i \<and> r = (Inr i, s))
     \<or> (\<exists>cur i s'. find_by ai_id aid is = Some cur \<and> r = (Inr i, s') \<and> extends_item cur i (ai_version cur + 1)
          \<and> ai_version i = ai_version cur + 1
          \<and> readActionItems s' = Inr (replace_by ai_id aid i is)
          \<and> readTasks s' = readTasks s \<and> readLists s' = readLists s \<and> next_generation s s')"

text \<open>What staging a change answers, whatever the store.\<close>

lemma stage_cases:
  assumes "readActionItems s = Inr is"
  obtains (refused) e where "stage env aid command change p s = (Inl e, s)"
  | (unchanged) cur where "find_by ai_id aid is = Some cur"
      "change cur (ie_now env) (ai_version cur + 1) s = Inr None"
      "stage env aid command change p s = (Inr (cur, None), s)"
  | (staged) cur n where "find_by ai_id aid is = Some cur"
      "matches (ic_expectedVersion command) (ai_version cur)" "\<not> (p \<and> ai_state cur = Promoted)"
      "change cur (ie_now env) (ai_version cur + 1) s = Inr (Some n)"
      "stage env aid command change p s =
        (Inr (n\<lparr>ai_version := ai_version cur + 1\<rparr>,
              Some (replace_by ai_id aid (n\<lparr>ai_version := ai_version cur + 1\<rparr>) is)), s)"
proof (cases "find_by ai_id aid is")
  case None
  with assms show ?thesis by (intro refused) (simp add: stage_def)
next
  case (Some cur)
  show ?thesis
  proof (cases "matches (ic_expectedVersion command) (ai_version cur) \<and> \<not> (p \<and> ai_state cur = Promoted)")
    case False
    then show ?thesis
      using Some assms that(1)
      by (cases "matches (ic_expectedVersion command) (ai_version cur)") (simp_all add: stage_def)
  next
    case ok: True
    show ?thesis
    proof (cases "change cur (ie_now env) (ai_version cur + 1) s")
      case (Inl e)
      with Some ok assms show ?thesis by (intro refused) (simp add: stage_def Let_def)
    next
      case (Inr c)
      show ?thesis
      proof (cases c)
        case None
        with Inr Some ok assms show ?thesis by (intro unchanged) (simp_all add: stage_def Let_def)
      next
        case (Some n)
        with Inr \<open>find_by ai_id aid is = Some cur\<close> ok assms show ?thesis
          by (intro staged) (simp_all add: stage_def Let_def)
      qed
    qed
  qed
qed

lemma transition_outcome:
  assumes "can_write s" "readActionItems s = Inr is" "extending change"
  shows "item_outcome aid is s (transition env aid command change p s)"
  using assms(2)
proof (cases rule: stage_cases [where env = env and aid = aid and command = command and change = change and p = p])
  case (staged cur n)
  let ?n = "n\<lparr>ai_version := ai_version cur + 1\<rparr>"
  let ?is = "replace_by ai_id aid ?n is"
  have e: "extends_item cur n (ai_version cur + 1)" using staged(4) assms(3) by (rule extendingD [rotated])
  then have e': "extends_item cur ?n (ai_version cur + 1)" by (simp add: extends_item_def)
  have "revised is" using assms(2) by (rule readActionItems_revised)
  moreover from this have "ai_proposalRevisions ?n \<noteq> []"
    using extends_revised [OF e'] staged(1) by (auto simp: revised_def dest: find_by_SomeD)
  ultimately have "revised ?is"
    by (auto simp: revised_def dest!: replace_by_mem_cases)
  with staged e' writeActionItems_facts [OF assms(1) \<open>revised ?is\<close>] items_table.write_run [OF assms(1) \<open>revised ?is\<close>]
  show ?thesis unfolding item_outcome_def transition_def by simp
qed (simp_all add: item_outcome_def transition_def)

locale commands_one_item =
  fixes run :: "string \<Rightarrow> (wstore, ws_error, action_item) cmd"
  assumes outcome: "can_write s \<Longrightarrow> readActionItems s = Inr is \<Longrightarrow> item_outcome aid is s (run aid s)"
begin

lemma outcome_cases:
  assumes "can_write s" "readActionItems s = Inr is"
  obtains (refused) e where "run aid s = (Inl e, s)"
  | (unchanged) i where "find_by ai_id aid is = Some i" "run aid s = (Inr i, s)"
  | (committed) cur i s' where "find_by ai_id aid is = Some cur" "run aid s = (Inr i, s')"
      "extends_item cur i (ai_version cur + 1)" "ai_version i = ai_version cur + 1"
      "readActionItems s' = Inr (replace_by ai_id aid i is)" "readTasks s' = readTasks s"
      "readLists s' = readLists s" "next_generation s s'"
  using outcome [OF assms, of aid] unfolding item_outcome_def by blast

lemma refusal_keeps_store:
  assumes "can_write s" "readActionItems s = Inr is" "fst (run aid s) = Inl e"
  shows "snd (run aid s) = s"
  using assms(1,2) by (cases rule: outcome_cases [where aid = aid]) (use assms(3) in auto)

text \<open>Tasks, lists and every other Action Item are untouched, whatever the command decides.\<close>

lemma frame:
  assumes "can_write s" "readActionItems s = Inr is"
  shows "\<exists>is'. readActionItems (snd (run aid s)) = Inr is' \<and> map ai_id is' = map ai_id is
    \<and> (\<forall>k. k \<noteq> aid \<longrightarrow> find_by ai_id k is' = find_by ai_id k is)
    \<and> readTasks (snd (run aid s)) = readTasks s \<and> readLists (snd (run aid s)) = readLists s"
  using assms
proof (cases rule: outcome_cases [where aid = aid])
  case (committed cur i s')
  then have "ai_id i = aid" by (auto simp: extends_item_def dest: find_by_SomeD)
  with committed show ?thesis by (simp add: map_key_replace_by find_by_replace_other)
qed (use assms(2) in auto)

lemma history_grows:
  assumes "can_write s" "readActionItems s = Inr is" "find_by ai_id aid is = Some cur" "fst (run aid s) = Inr i"
  shows "prefix (ai_decisions cur) (ai_decisions i) \<and> prefix (ai_proposalRevisions cur) (ai_proposalRevisions i)
    \<and> ai_version i = ai_version cur + int (length (ai_decisions i) - length (ai_decisions cur))
    \<and> ai_source i = ai_source cur \<and> ai_evidence i = ai_evidence cur"
  using assms(1,2)
proof (cases rule: outcome_cases [where aid = aid])
  case (committed cur' i' s')
  with assms(3,4) show ?thesis by (auto simp: extends_item_def)
qed (use assms(3,4) in auto)

end

lemma commands_transition:
  "extending change \<Longrightarrow> commands_one_item (\<lambda>aid. transition env aid command change p)"
  by unfold_locales (rule transition_outcome)

lemmas change_defs = promotion_change_def decide_change_def select_change_def correct_change_def
  suggest_change_def resolve_change_def decided_def decision_def extends_item_def

lemma extending_changes:
  "extending (promotion_change taskId tv command)"
  "extending (decide_change to kind command)"
  "extending (select_change revision command)"
  "extending (correct_change content command)"
  "extending (suggest_change env taskId pf observed command)"
  "extending (resolve_change amendmentId status tv command)"
  unfolding extending_def change_defs
  by (auto simp: Let_def split: if_splits option.splits)

lemma extending_reconcile: "extending (reconcile_change env aid d target command)"
  unfolding extending_def reconcile_change_def decided_def decision_def extends_item_def
  by (auto simp: Let_def split: if_splits option.splits sum.splits)

interpretation record_promotion: commands_one_item "\<lambda>aid. recordPromotion env aid taskId tv command"
  for env taskId tv command
  unfolding recordPromotion_def by (intro commands_transition extending_changes)

interpretation dismiss_item: commands_one_item "\<lambda>aid. dismiss env aid command" for env command
  unfolding dismiss_def by (intro commands_transition extending_changes)

interpretation restore_item: commands_one_item "\<lambda>aid. restore env aid command" for env command
  unfolding restore_def by (intro commands_transition extending_changes)

interpretation select_proposal: commands_one_item "\<lambda>aid. selectProposal env aid revision command"
  for env revision command
  unfolding selectProposal_def by (intro commands_transition extending_changes)

interpretation correct_proposal: commands_one_item "\<lambda>aid. correctProposal env aid content command"
  for env content command
  unfolding correctProposal_def by (intro commands_transition extending_changes)

interpretation suggest_amendment: commands_one_item "\<lambda>aid. suggestAmendment env aid taskId pf observed command"
  for env taskId pf observed command
  unfolding suggestAmendment_def by (intro commands_transition extending_changes)

interpretation reconcile_item: commands_one_item "\<lambda>aid. reconcile env aid d target command"
  for env d target command
proof
  show "item_outcome aid is s (reconcile env aid d target command s)"
    if "can_write s" "readActionItems s = Inr is" for s "is" aid
    unfolding reconcile_def by (rule transition_outcome [OF that extending_reconcile])
qed

interpretation resolve_held: commands_one_item
  "\<lambda>aid. transition env aid command (resolve_change amendmentId status tv command) False"
  for env command amendmentId status tv
  by (intro commands_transition extending_changes)

subsection \<open>Well-formed records\<close>

text \<open>
  Revisions are numbered upwards, the selected one exists, the review never runs ahead of the newest
  one, promotion and its Task go together, the decision time is set exactly while a decision stands,
  and the redirect is the one of the standing reconciliation.
\<close>

definition redirect_of :: "reconciliation option \<Rightarrow> string option" where
  "redirect_of r = (case r of None \<Rightarrow> None | Some r \<Rightarrow> rn_targetActionItemId r)"

definition item_wf :: "action_item \<Rightarrow> bool" where
  "item_wf i \<longleftrightarrow> ai_proposalRevisions i \<noteq> []
     \<and> sorted_wrt (<) (map rv_revision (ai_proposalRevisions i))
     \<and> (\<forall>r \<in> set (ai_proposalRevisions i). 1 \<le> rv_revision r)
     \<and> ai_selectedRevision i \<in> rv_revision ` set (ai_proposalRevisions i)
     \<and> ai_selectedRevision i \<le> ai_reviewedThrough i
     \<and> ai_reviewedThrough i \<le> latestProposalRevision i
     \<and> (ai_state i = Promoted \<longleftrightarrow> ai_promotedTaskId i \<noteq> None)
     \<and> (ai_state i = Pending \<longleftrightarrow> ai_decidedAt i = None)
     \<and> ai_reconciledInto i = redirect_of (currentReconciliation i)
     \<and> ai_version i = 1 + int (length (ai_decisions i))
     \<and> map (\<lambda>d. iv_actionItemVersion (dr_versions d)) (ai_decisions i) = map int [2..<2 + length (ai_decisions i)]"

definition wf_item_change :: "item_change \<Rightarrow> bool" where
  "wf_item_change change \<longleftrightarrow> (\<forall>cur at s n. item_wf cur \<longrightarrow>
     change cur at (ai_version cur + 1) s = Inr (Some n) \<longrightarrow> item_wf (n\<lparr>ai_version := ai_version cur + 1\<rparr>))"

text \<open>The part about history follows from the extension alone.\<close>

definition content_wf :: "action_item \<Rightarrow> bool" where
  "content_wf i \<longleftrightarrow> ai_proposalRevisions i \<noteq> []
     \<and> sorted_wrt (<) (map rv_revision (ai_proposalRevisions i))
     \<and> (\<forall>r \<in> set (ai_proposalRevisions i). 1 \<le> rv_revision r)
     \<and> ai_selectedRevision i \<in> rv_revision ` set (ai_proposalRevisions i)
     \<and> ai_selectedRevision i \<le> ai_reviewedThrough i
     \<and> ai_reviewedThrough i \<le> latestProposalRevision i
     \<and> (ai_state i = Promoted \<longleftrightarrow> ai_promotedTaskId i \<noteq> None)
     \<and> (ai_state i = Pending \<longleftrightarrow> ai_decidedAt i = None)
     \<and> ai_reconciledInto i = redirect_of (currentReconciliation i)"

definition history_wf :: "action_item \<Rightarrow> bool" where
  "history_wf i \<longleftrightarrow> ai_version i = 1 + int (length (ai_decisions i))
     \<and> map (\<lambda>d. iv_actionItemVersion (dr_versions d)) (ai_decisions i) = map int [2..<2 + length (ai_decisions i)]"

lemma item_wf_parts: "item_wf i \<longleftrightarrow> content_wf i \<and> history_wf i"
  by (auto simp: item_wf_def content_wf_def history_wf_def)

lemma history_wf_extends:
  assumes "history_wf cur" "extends_item cur n (ai_version cur + 1)"
  shows "history_wf (n\<lparr>ai_version := ai_version cur + 1\<rparr>)"
  using assms by (auto simp: history_wf_def extends_item_def)

lemma content_wf_version [simp]: "content_wf (n\<lparr>ai_version := v\<rparr>) = content_wf n"
  by (simp add: content_wf_def latestProposalRevision_def currentReconciliation_def)

lemma wf_item_changeI:
  assumes "extending change"
    and "\<And>cur at s n. content_wf cur \<Longrightarrow> change cur at (ai_version cur + 1) s = Inr (Some n) \<Longrightarrow> content_wf n"
  shows "wf_item_change change"
  unfolding wf_item_change_def item_wf_parts
  using assms history_wf_extends extendingD by fastforce

lemmas content_defs = content_wf_def latestProposalRevision_def currentReconciliation_def

lemma wf_promotion: "wf_item_change (promotion_change taskId tv command)"
  by (rule wf_item_changeI [OF extending_changes(1)]) (auto simp: promotion_change_def content_defs)

lemma wf_decide: "to \<noteq> Promoted \<Longrightarrow> wf_item_change (decide_change to kind command)"
  by (rule wf_item_changeI [OF extending_changes(2)])
    (cases to; auto simp: decide_change_def content_defs split: if_splits)

lemma wf_select: "wf_item_change (select_change revision command)"
proof (rule wf_item_changeI [OF extending_changes(3)])
  fix cur at s n
  assume c: "content_wf cur" and n: "select_change revision command cur at (ai_version cur + 1) s = Inr (Some n)"
  from n obtain r where r: "find_by rv_revision revision (ai_proposalRevisions cur) = Some r"
    by (cases "find_by rv_revision revision (ai_proposalRevisions cur)") (simp_all add: select_change_def)
  then have m: "revision \<in> rv_revision ` set (ai_proposalRevisions cur)" "revision \<le> latestProposalRevision cur"
    using latestProposalRevision_ge [of r cur] by (auto dest!: find_by_SomeD)
  from n r have "n = cur\<lparr>ai_selectedRevision := revision,
            ai_reviewedThrough := latestProposalRevision cur, ai_updatedAt := at,
            ai_decisions := decided command DSelectProposal at (ai_version cur + 1) no_task cur\<rparr>"
    by (simp add: select_change_def split: if_splits)
  with c m show "content_wf n"
    by (simp add: content_wf_def currentReconciliation_def latestProposalRevision_def)
qed

lemma wf_correct: "wf_item_change (correct_change content command)"
proof (rule wf_item_changeI [OF extending_changes(4)])
  fix cur at s n
  assume c: "content_wf cur" and n: "correct_change content command cur at (ai_version cur + 1) s = Inr (Some n)"
  let ?r = "\<lparr>rv_revision = latestProposalRevision cur + 1, rv_content = content,
    rv_origin = OwnerCorrection (latestProposalRevision cur),
    rv_extractionRevision = ai_extractionRevision cur, rv_createdAt = at\<rparr>"
  have rs: "ai_proposalRevisions n = ai_proposalRevisions cur @ [?r]"
    using n by (auto simp: correct_change_def Let_def)
  have l: "latestProposalRevision n = latestProposalRevision cur + 1"
    using latestProposalRevision_snoc [OF rs] by simp
  have "\<forall>r \<in> set (ai_proposalRevisions cur). rv_revision r < latestProposalRevision cur + 1"
    using latestProposalRevision_ge by fastforce
  moreover have "0 \<le> latestProposalRevision cur"
    using c foldl_max_ge [of 0 rv_revision] by (simp add: latestProposalRevision_def)
  ultimately show "content_wf n"
    using c n rs l by (auto simp: content_wf_def correct_change_def Let_def currentReconciliation_def sorted_wrt_append)
qed

text \<open>What a recorded reconciliation changes.\<close>

lemma owner_reconciliation_simps [simp]:
  "rn_disposition (owner_reconciliation env cur d target at v) = d"
  "rn_targetActionItemId (owner_reconciliation env cur d target at v)
     = (if d = EvidenceOfHistorical then target else None)"
  by (simp_all add: owner_reconciliation_def)

lemma reconcile_change_InrE:
  assumes "reconcile_change env aid d target command cur at v s = Inr (Some n)"
  obtains r ds where
    "n = cur\<lparr>ai_reconciliations := ai_reconciliations cur @ [r], ai_reconciledInto := rn_targetActionItemId r,
       ai_updatedAt := at, ai_decisions := ds\<rparr>"
    "rn_disposition r = d" "rn_targetActionItemId r = (if d = EvidenceOfHistorical then target else None)"
    "d = EvidenceOfHistorical \<Longrightarrow> attachable aid target s = Inr ()"
proof -
  let ?same = "case currentReconciliation cur of None \<Rightarrow> False | Some r \<Rightarrow> sameReconciliation r d target"
  let ?ok = "if d = EvidenceOfHistorical then attachable aid target s else Inr ()"
  have ns: "\<not> ?same" using assms unfolding reconcile_change_def Let_def by (cases ?same) simp_all
  show thesis
  proof (cases ?ok)
    case (Inl e)
    with assms ns show ?thesis by (simp add: reconcile_change_def Let_def)
  next
    case (Inr u)
    have att: "d = EvidenceOfHistorical \<Longrightarrow> attachable aid target s = Inr ()" using Inr by simp
    let ?r = "owner_reconciliation env cur d target at v"
    show ?thesis
      using assms ns Inr by (intro that [where r = ?r and ds = "decided command (if d = EvidenceOfHistorical
          then DAttachEvidence else DReconcile) at v (no_task\<lparr>tb_taskId := ai_promotedTaskId cur\<rparr>) cur", OF _ _ _ att])
        (simp_all add: reconcile_change_def Let_def)
  qed
qed

lemma wf_reconcile: "wf_item_change (reconcile_change env aid d target command)"
proof (rule wf_item_changeI [OF extending_reconcile])
  fix cur at s n
  assume c: "content_wf cur"
    and n: "reconcile_change env aid d target command cur at (ai_version cur + 1) s = Inr (Some n)"
  from n show "content_wf n"
  proof (rule reconcile_change_InrE)
    fix r ds
    assume "n = cur\<lparr>ai_reconciliations := ai_reconciliations cur @ [r], ai_reconciledInto := rn_targetActionItemId r,
       ai_updatedAt := at, ai_decisions := ds\<rparr>"
    with c show "content_wf n" by (simp add: content_defs redirect_of_def)
  qed
qed

text \<open>A change that leaves the reviewed content alone keeps it well formed.\<close>

lemma content_wf_kept:
  assumes "content_wf cur" "ai_proposalRevisions n = ai_proposalRevisions cur"
    "ai_selectedRevision n = ai_selectedRevision cur" "ai_reviewedThrough n = ai_reviewedThrough cur"
    "ai_state n = ai_state cur" "ai_promotedTaskId n = ai_promotedTaskId cur" "ai_decidedAt n = ai_decidedAt cur"
    "ai_reconciledInto n = ai_reconciledInto cur" "ai_reconciliations n = ai_reconciliations cur"
  shows "content_wf n"
  using assms by (simp add: content_defs)

lemma wf_suggest: "wf_item_change (suggest_change env taskId pf observed command)"
proof (rule wf_item_changeI [OF extending_changes(5)])
  fix cur at s n
  assume "content_wf cur" "suggest_change env taskId pf observed command cur at (ai_version cur + 1) s = Inr (Some n)"
  then show "content_wf n" by (elim content_wf_kept) (auto simp: suggest_change_def split: if_splits)
qed

lemma wf_resolve: "wf_item_change (resolve_change amendmentId status tv command)"
proof (rule wf_item_changeI [OF extending_changes(6)])
  fix cur at s n
  assume "content_wf cur" "resolve_change amendmentId status tv command cur at (ai_version cur + 1) s = Inr (Some n)"
  then show "content_wf n" by (elim content_wf_kept) (auto simp: resolve_change_def split: if_splits option.splits)
qed

end
