(* ===== verification/ItemSteps.thy ===== *)
theory ItemSteps
  imports ItemFacts
begin

section \<open>Reachable Action Items\<close>

text \<open>
  The owner's commands and the materialization of an extraction as one step relation, and its
  invariant: identities are unique, every record is well formed, and the redirects that
  reconciliations leave form no cycle, so following one always ends at a record.
\<close>

definition redirects :: "action_item list \<Rightarrow> (string \<times> string) set" where
  "redirects is = {(ai_id i, k) | i k. i \<in> set is \<and> ai_reconciledInto i = Some k}"

definition items_wf :: "action_item list \<Rightarrow> bool" where
  "items_wf is \<longleftrightarrow> distinct (map ai_id is) \<and> (\<forall>i \<in> set is. item_wf i) \<and> acyclic (redirects is)"

definition items_store_wf :: "wstore \<Rightarrow> bool" where
  "items_store_wf s \<longleftrightarrow> (\<exists>is. readActionItems s = Inr is \<and> items_wf is)"

datatype item_op =
    PromoteOp string string "int option" item_command
  | DismissOp string item_command
  | RestoreOp string item_command
  | SelectOp string int item_command
  | CorrectOp string proposal item_command
  | ReconcileOp string disposition "string option" item_command
  | SuggestOp string string proposal_fields int item_command
  | ResolveOp string amendment_status "int option" item_command

fun run_item_op :: "items_env \<Rightarrow> item_op \<Rightarrow> (wstore, ws_error, action_item) cmd" where
  "run_item_op env (PromoteOp aid tid tv c) = recordPromotion env aid tid tv c"
| "run_item_op env (DismissOp aid c) = dismiss env aid c"
| "run_item_op env (RestoreOp aid c) = restore env aid c"
| "run_item_op env (SelectOp aid r c) = selectProposal env aid r c"
| "run_item_op env (CorrectOp aid p c) = correctProposal env aid p c"
| "run_item_op env (ReconcileOp aid d t c) = reconcile env aid d t c"
| "run_item_op env (SuggestOp aid tid pf v c) = suggestAmendment env aid tid pf v c"
| "run_item_op env (ResolveOp mid st tv c) = resolveAmendment env mid st tv c"

subsection \<open>Redirects\<close>

text \<open>What a change may do to the redirect of the record it edits.\<close>

definition safe_redirect :: "string \<Rightarrow> item_change \<Rightarrow> bool" where
  "safe_redirect aid change \<longleftrightarrow> (\<forall>cur at v s n. change cur at v s = Inr (Some n) \<longrightarrow>
     ai_reconciledInto n = ai_reconciledInto cur \<or> ai_reconciledInto n = None
     \<or> (\<exists>k held is. ai_reconciledInto n = Some k \<and> k \<noteq> aid \<and> readActionItems s = Inr is
          \<and> find_by ai_id k is = Some held \<and> ai_reconciledInto held = None))"

lemma acyclic_replace:
  assumes "acyclic (redirects is)" "distinct (map ai_id is)" "find_by ai_id aid is = Some cur" "ai_id n = aid"
    and "ai_reconciledInto n = ai_reconciledInto cur \<or> ai_reconciledInto n = None
     \<or> (\<exists>k held. ai_reconciledInto n = Some k \<and> k \<noteq> aid \<and> find_by ai_id k is = Some held \<and> ai_reconciledInto held = None)"
  shows "acyclic (redirects (replace_by ai_id aid n is))"
proof -
  let ?r = "{(a, b) \<in> redirects is. a \<noteq> aid}"
  have rest: "acyclic ?r" using assms(1) by (rule acyclic_subset) auto
  have sub: "redirects (replace_by ai_id aid n is) \<subseteq>
      ?r \<union> (case ai_reconciledInto n of None \<Rightarrow> {} | Some k \<Rightarrow> {(aid, k)})"
    using assms(4) by (auto simp: redirects_def dest!: replace_by_mem_cases)
  from assms(5) show ?thesis
  proof (elim disjE exE conjE)
    assume "ai_reconciledInto n = ai_reconciledInto cur"
    moreover have "cur \<in> set is" "ai_id cur = aid" using assms(3) by (auto dest: find_by_SomeD)
    ultimately have "redirects (replace_by ai_id aid n is) \<subseteq> redirects is"
      using assms(4) unfolding redirects_def by (fastforce dest: replace_by_mem_cases)
    with assms(1) show ?thesis by (rule acyclic_subset)
  next
    assume "ai_reconciledInto n = None"
    with sub rest show ?thesis by (auto intro: acyclic_subset)
  next
    fix k held
    assume k: "ai_reconciledInto n = Some k" "k \<noteq> aid" "find_by ai_id k is = Some held" "ai_reconciledInto held = None"
    have "i = held" if "i \<in> set is" "ai_id i = k" for i
      using find_by_distinct [OF assms(2) that(1)] that(2) k(3) by simp
    then have "(k, b) \<notin> redirects is" for b using k(4) by (auto simp: redirects_def)
    then have "(k, aid) \<notin> ?r\<^sup>*" using k(2) by (auto elim: converse_rtranclE)
    with rest have "acyclic (insert (aid, k) ?r)" by (simp add: acyclic_insert)
    with sub k(1) show ?thesis by (auto intro: acyclic_subset)
  qed
qed

lemma items_wf_changed:
  assumes "items_wf is" "find_by ai_id aid is = Some cur" "readActionItems s = Inr is"
    "change cur at (ai_version cur + 1) s = Inr (Some n)"
    "extending change" "wf_item_change change" "safe_redirect aid change"
  shows "items_wf (replace_by ai_id aid (n\<lparr>ai_version := ai_version cur + 1\<rparr>) is)"
proof -
  let ?n = "n\<lparr>ai_version := ai_version cur + 1\<rparr>"
  have cur: "cur \<in> set is" "ai_id cur = aid" using assms(2) by (auto dest: find_by_SomeD)
  have id: "ai_id ?n = aid"
    using extendingD [OF assms(5,4)] cur(2) by (simp add: extends_item_def)
  have "item_wf cur" using assms(1) cur(1) by (simp add: items_wf_def)
  then have n: "item_wf ?n" using assms(4,6) by (auto simp: wf_item_change_def)
  have "acyclic (redirects (replace_by ai_id aid ?n is))"
  proof (rule acyclic_replace [OF _ _ assms(2) id])
    show "acyclic (redirects is)" "distinct (map ai_id is)" using assms(1) by (simp_all add: items_wf_def)
    show "ai_reconciledInto ?n = ai_reconciledInto cur \<or> ai_reconciledInto ?n = None
      \<or> (\<exists>k held. ai_reconciledInto ?n = Some k \<and> k \<noteq> aid \<and> find_by ai_id k is = Some held \<and> ai_reconciledInto held = None)"
      using assms(3,4,7) unfolding safe_redirect_def by fastforce
  qed
  then show ?thesis
    using assms(1) n id by (auto simp: items_wf_def map_key_replace_by dest!: replace_by_mem_cases)
qed

lemma items_wf_revised: "items_wf is \<Longrightarrow> revised is"
  by (auto simp: items_wf_def item_wf_def revised_def)

lemma transition_wf:
  assumes "can_write s" "items_store_wf s" "extending change" "wf_item_change change" "safe_redirect aid change"
  shows "items_store_wf (snd (transition env aid command change p s))"
proof -
  from assms(2) obtain "is" where i: "readActionItems s = Inr is" "items_wf is"
    by (auto simp: items_store_wf_def)
  from i(1) show ?thesis
  proof (cases rule: stage_cases [where env = env and aid = aid and command = command and change = change and p = p])
    case (staged cur n)
    note wf = items_wf_changed [OF i(2) staged(1) i(1) staged(4) assms(3-5)]
    note w = writeActionItems_facts [OF assms(1) items_wf_revised [OF wf]]
      items_table.write_run [OF assms(1) items_wf_revised [OF wf]]
    show ?thesis using staged(5) w wf by (simp add: transition_def items_store_wf_def)
  qed (use assms(2) in \<open>simp_all add: transition_def\<close>)
qed

lemma safe_redirects:
  "safe_redirect aid (promotion_change taskId tv command)"
  "safe_redirect aid (decide_change to kind command)"
  "safe_redirect aid (select_change revision command)"
  "safe_redirect aid (correct_change content command)"
  "safe_redirect aid (suggest_change env taskId pf observed command)"
  "safe_redirect aid (resolve_change amendmentId status tv command)"
  unfolding safe_redirect_def promotion_change_def decide_change_def select_change_def correct_change_def
    suggest_change_def resolve_change_def
  by (auto simp: Let_def split: if_splits option.splits)

lemma safe_redirect_reconcile: "safe_redirect aid (reconcile_change env aid d target command)"
  unfolding safe_redirect_def
proof (intro allI impI)
  fix cur at v s n
  assume "reconcile_change env aid d target command cur at v s = Inr (Some n)"
  then show "ai_reconciledInto n = ai_reconciledInto cur \<or> ai_reconciledInto n = None
     \<or> (\<exists>k held is. ai_reconciledInto n = Some k \<and> k \<noteq> aid \<and> readActionItems s = Inr is
          \<and> find_by ai_id k is = Some held \<and> ai_reconciledInto held = None)"
  proof (rule reconcile_change_InrE)
    fix r ds
    assume n: "n = cur\<lparr>ai_reconciliations := ai_reconciliations cur @ [r], ai_reconciledInto := rn_targetActionItemId r,
       ai_updatedAt := at, ai_decisions := ds\<rparr>"
      and r: "rn_targetActionItemId r = (if d = EvidenceOfHistorical then target else None)"
      and a: "d = EvidenceOfHistorical \<Longrightarrow> attachable aid target s = Inr ()"
    show ?thesis
    proof (cases "d = EvidenceOfHistorical")
      case True
      with a have "attachable aid target s = Inr ()" by simp
      with n r True show ?thesis
        by (auto simp: attachable_def getItem_def map_result_def split: option.splits if_splits sum.splits)
    qed (use n r in simp)
  qed
qed

lemma run_item_op_wf:
  assumes "can_write s" "items_store_wf s"
  shows "items_store_wf (snd (run_item_op env c s))"
proof (cases c)
  case (ResolveOp mid st tv command)
  obtain "is" where "readActionItems s = Inr is" using assms(2) by (auto simp: items_store_wf_def)
  with ResolveOp assms show ?thesis
    by (auto simp: resolveAmendment_def split: option.split
        intro!: transition_wf extending_changes wf_resolve safe_redirects)
qed (use assms in \<open>auto simp: recordPromotion_def dismiss_def restore_def selectProposal_def correctProposal_def
    reconcile_def suggestAmendment_def
    intro!: transition_wf extending_changes extending_reconcile wf_promotion wf_decide wf_select wf_correct
      wf_reconcile wf_suggest safe_redirects safe_redirect_reconcile\<close>)

subsection \<open>Following a redirect\<close>

text \<open>
  On acyclic redirects the loop never meets an identity twice; when it starts at a record it ends at
  one that redirects nowhere, unless a redirect names a record that is not held.
\<close>

lemma follow_not_cycle:
  assumes "acyclic (redirects is)" "\<And>v. v \<in> set visited \<Longrightarrow> (v, current) \<in> (redirects is)\<^sup>+"
  shows "follow_from is start visited current \<noteq> FollowedCycle"
  using assms
proof (induction "is" start visited current rule: follow_from.induct)
  case (1 "is" start visited current)
  have nv: "current \<notin> set visited" using 1(2,3) by (auto simp: acyclic_def)
  show ?case
  proof (cases "find_by ai_id current is")
    case None
    with nv show ?thesis by (simp add: follow_from.simps)
  next
    case (Some held)
    show ?thesis
    proof (cases "ai_reconciledInto held")
      case None
      with nv Some show ?thesis by (simp add: follow_from.simps)
    next
      case k: (Some k)
      have e: "(current, k) \<in> redirects is"
        using Some k by (auto simp: redirects_def dest: find_by_SomeD)
      have "follow_from is start (current # visited) k \<noteq> FollowedCycle"
        by (rule 1(1) [OF nv Some k 1(2)]) (use 1(3) e in \<open>auto intro: trancl_into_trancl\<close>)
      with nv Some k show ?thesis by (subst follow_from.simps) simp
    qed
  qed
qed

lemma follow_lands:
  "follow_from is start visited current = FollowedTo k from \<Longrightarrow>
   \<exists>held. find_by ai_id k is = Some held \<and> ai_reconciledInto held = None \<and> (current, k) \<in> (redirects is)\<^sup>*
     \<and> from = (if k = start then None else Some start)"
proof (induction "is" start visited current rule: follow_from.induct)
  case (1 "is" start visited current)
  show ?case
  proof (cases "current \<in> set visited \<or> find_by ai_id current is = None")
    case True
    with 1(2) show ?thesis by (auto simp: follow_from.simps split: if_splits)
  next
    case False
    then obtain held where h: "find_by ai_id current is = Some held" by auto
    show ?thesis
    proof (cases "ai_reconciledInto held")
      case None
      with 1(2) False h show ?thesis by (auto simp: follow_from.simps)
    next
      case (Some j)
      have e: "(current, j) \<in> redirects is"
        using h Some by (auto simp: redirects_def dest: find_by_SomeD)
      from 1(2) False h Some have "follow_from is start (current # visited) j = FollowedTo k from"
        by (subst (asm) follow_from.simps) simp
      from 1(1) [OF _ h Some this] False e show ?thesis
        by (auto intro: converse_rtrancl_into_rtrancl)
    qed
  qed
qed

end
