(* ===== verification/Promotion.thy ===== *)
theory Promotion
  imports ItemSteps TaskCommands
begin

section \<open>Promoting one reviewed Action Item into a Task\<close>

text \<open>
  \<^theory_text>\<open>apps/server/src/tasks/promotion.ts\<close>: the guards of a promotion in the order the
  code has them, the adoption of a Task an interrupted attempt left behind, and the publication of
  an accepted Task together with the decision that accepted it.
\<close>

record promotion_input =
  pi_title :: jsval
  pi_notes :: jsval
  pi_dueDate :: jsval
  pi_priority :: jsval
  pi_listId :: "string option"
  pi_responsiblePerson :: jsval
  pi_destination :: jsval
  pi_completed :: jsval
  pi_expectedVersion :: "int option"
  pi_expectedProposalRevision :: "int option"
  pi_missingContentAcknowledged :: jsval

definition no_input :: promotion_input where
  "no_input = \<lparr>pi_title = Undefined, pi_notes = Undefined, pi_dueDate = Undefined, pi_priority = Undefined,
     pi_listId = None, pi_responsiblePerson = Undefined, pi_destination = Undefined, pi_completed = Undefined,
     pi_expectedVersion = None, pi_expectedProposalRevision = None, pi_missingContentAcknowledged = Undefined\<rparr>"

record promotion_result =
  pr_task :: task
  pr_actionItem :: action_item
  pr_created :: bool

abbreviation acknowledged :: "promotion_input \<Rightarrow> bool" where
  "acknowledged input \<equiv> pi_missingContentAcknowledged input = JBool True"

definition default_to :: "jsval \<Rightarrow> jsval \<Rightarrow> jsval" where
  "default_to v d = (if v = Undefined then d else v)"

definition accepted_input :: "promotion_input \<Rightarrow> proposal \<Rightarrow> task_create_input" where
  "accepted_input input p =
     \<lparr>ci_title = nullish (pi_title input) (JStr (pp_title p)),
      ci_notes = nullish (pi_notes input) (JStr (pp_notes p)),
      ci_dueDate = default_to (pi_dueDate input) (null_or_text (pp_dueDate p)),
      ci_priority = pi_priority input, ci_listId = pi_listId input,
      ci_responsiblePerson = default_to (pi_responsiblePerson input) (person_json (pp_responsiblePerson p)),
      ci_destination = pi_destination input\<rparr>"

definition accepted_source :: "action_item \<Rightarrow> task_source" where
  "accepted_source item = \<lparr>ts_actionItemId = ai_id item,
     ts_debriefRunId = as_debriefRunId (ai_source item), ts_transcriptId = as_transcriptId (ai_source item),
     ts_meetingId = as_meetingId (ai_source item)\<rparr>"

definition promotion_command :: "promotion_input \<Rightarrow> action_item \<Rightarrow> item_command" where
  "promotion_command input item = \<lparr>ic_expectedVersion =
       (if pi_expectedVersion input = None then None else Some (ai_version item)),
     ic_actor = None, ic_missingContentAcknowledged = acknowledged input\<rparr>"

definition promotion_guards :: "promotion_input \<Rightarrow> action_item \<Rightarrow> ws_error + unit" where
  "promotion_guards input item =
     (case (promotionRefusal item, ai_state item = Promoted) of
        (Some e, False) \<Rightarrow> refuse e
      | _ \<Rightarrow>
        if as_reviewOnly (ai_source item) \<and> \<not> acknowledged input then refuse ActionItemMissingContentAcknowledgment
        else if \<not> matches (pi_expectedVersion input) (ai_version item) then refuse ActionItemVersionConflict
        else if \<not> matches (pi_expectedProposalRevision input) (ai_selectedRevision item)
        then refuse ActionItemVersionConflict
        else Inr ())"

definition tasks_naming :: "string \<Rightarrow> task list \<Rightarrow> task list" where
  "tasks_naming aid ts = filter (\<lambda>t. case task_source t of None \<Rightarrow> False | Some src \<Rightarrow> ts_actionItemId src = aid) ts"

definition adopt_orphan :: "items_env \<Rightarrow> promotion_input \<Rightarrow> action_item \<Rightarrow> task \<Rightarrow> (wstore, ws_error, promotion_result) cmd" where
  "adopt_orphan ienv input item orphan =
     andThen (require (task_source orphan = Some (accepted_source item)) (TaskRefused ActionItemRecoveryConflict)) (\<lambda>_.
     andThen (recordPromotion ienv (ai_id item) (task_id orphan) (Some (task_version orphan))
         (promotion_command input item)) (\<lambda>item'.
       ret \<lparr>pr_task = orphan, pr_actionItem = item', pr_created = False\<rparr>))"

definition accept_new :: "tasks_env \<Rightarrow> items_env \<Rightarrow> promotion_input \<Rightarrow> action_item \<Rightarrow> (wstore, ws_error, promotion_result) cmd" where
  "accept_new tenv ienv input item =
     andThen (prepare tenv (accepted_input input (actionItemProposal item)) (Some (accepted_source item))) (\<lambda>prepared.
     let task = (if pi_completed input = JBool True then completedNow tenv prepared else prepared) in
     andThen (stagePromotion ienv (ai_id item) (task_id task) (Some (task_version task))
         (promotion_command input item)) (\<lambda>(committed, all).
     andThen (case all of Some items \<Rightarrow> ret items | None \<Rightarrow> query (listItems any_item)) (\<lambda>items.
     andThen (acceptTask task items) (\<lambda>_.
     andThen (query (getTask (task_id task))) (\<lambda>stored.
       ret \<lparr>pr_task = or_else stored task, pr_actionItem = committed, pr_created = True\<rparr>)))))"

definition promoteActionItem :: "tasks_env \<Rightarrow> items_env \<Rightarrow> string \<Rightarrow> promotion_input \<Rightarrow>
    (wstore, ws_error, promotion_result) cmd" where
  "promoteActionItem tenv ienv aid input =
     andThen (query (getItem aid)) (\<lambda>found. case found of
       None \<Rightarrow> throw (TaskRefused TaskNotFound)
     | Some item \<Rightarrow>
         andThen (check (promotion_guards input item)) (\<lambda>_.
         case (ai_state item = Promoted, ai_promotedTaskId item) of
           (True, Some tid) \<Rightarrow>
             andThen (query (getTask tid)) (\<lambda>existing. case existing of
               Some t \<Rightarrow> ret \<lparr>pr_task = t, pr_actionItem = item, pr_created = False\<rparr>
             | None \<Rightarrow> throw (TaskRefused TaskNotFound))
         | _ \<Rightarrow>
             andThen (query (listTasks any_task)) (\<lambda>live.
             andThen (query (listTasks (any_task\<lparr>tq_trashed := True\<rparr>))) (\<lambda>trashed.
             let orphans = tasks_naming (ai_id item) (live @ trashed) in
             andThen (require (length orphans \<le> 1) (TaskRefused ActionItemRecoveryConflict)) (\<lambda>_.
             case orphans of
               orphan # _ \<Rightarrow> adopt_orphan ienv input item orphan
             | [] \<Rightarrow> accept_new tenv ienv input item)))))"

subsection \<open>The parts of a promotion\<close>

lemma tasks_naming_perm: "mset xs = mset ys \<Longrightarrow> mset (tasks_naming aid xs) = mset (tasks_naming aid ys)"
  by (simp add: tasks_naming_def mset_filter)

lemma listTasks_any:
  "readTasks s = Inr ts \<Longrightarrow> listTasks any_task s = Inr (js_sort compareTasks (filter (\<lambda>t. task_deletedAt t = None) ts))"
  "readTasks s = Inr ts \<Longrightarrow> listTasks (any_task\<lparr>tq_trashed := True\<rparr>) s
     = Inr (js_sort compareTasks (filter (\<lambda>t. task_deletedAt t \<noteq> None) ts))"
  by (auto simp: listTasks_def map_result_def query_matches_def any_task_def responsibleMatches_def search_term_def
      matches_def intro!: arg_cong [where f = "js_sort compareTasks"] filter_cong)

text \<open>The Tasks of one Action Item, in the order the two lists give them.\<close>

definition orphans_of :: "string \<Rightarrow> task list \<Rightarrow> task list" where
  "orphans_of aid ts = tasks_naming aid
     (js_sort compareTasks (filter (\<lambda>t. task_deletedAt t = None) ts)
      @ js_sort compareTasks (filter (\<lambda>t. task_deletedAt t \<noteq> None) ts))"

lemma orphans_of_mset: "mset (orphans_of aid ts) = mset (tasks_naming aid ts)"
proof -
  have "mset (filter (\<lambda>t. task_deletedAt t = None) ts) + mset (filter (\<lambda>t. task_deletedAt t \<noteq> None) ts) = mset ts"
    by (simp add: multiset_partition [symmetric])
  then show ?thesis unfolding orphans_of_def by (intro tasks_naming_perm) simp
qed

lemma orphans_of_empty: "orphans_of aid ts = [] \<longleftrightarrow> tasks_naming aid ts = []"
  using orphans_of_mset [of aid ts] by (metis mset_zero_iff)

lemma orphans_of_single: "tasks_naming aid ts = [t] \<Longrightarrow> orphans_of aid ts = [t]"
  using orphans_of_mset [of aid ts] by simp

lemma length_orphans_of: "length (orphans_of aid ts) = length (tasks_naming aid ts)"
  using orphans_of_mset [of aid ts] by (metis size_mset)

lemma promote_steps:
  assumes "readActionItems s = Inr is" "readTasks s = Inr ts" "find_by ai_id aid is = Some item"
    "promotion_guards input item = Inr ()" "\<not> (ai_state item = Promoted \<and> ai_promotedTaskId item \<noteq> None)"
  shows "promoteActionItem tenv ienv aid input s =
    (case orphans_of aid ts of
       [] \<Rightarrow> accept_new tenv ienv input item s
     | [orphan] \<Rightarrow> adopt_orphan ienv input item orphan s
     | _ \<Rightarrow> (Inl (TaskRefused ActionItemRecoveryConflict), s))"
proof -
  have id: "ai_id item = aid" using assms(3) by (auto dest: find_by_SomeD)
  show ?thesis
    using assms id listTasks_any [OF assms(2)]
    by (auto simp: promoteActionItem_def getItem_def map_result_def orphans_of_def Let_def require_run
        split: list.split option.splits bool.splits)
qed

lemma promote_already:
  assumes "readActionItems s = Inr is" "readTasks s = Inr ts" "find_by ai_id aid is = Some item"
    "promotion_guards input item = Inr ()" "ai_state item = Promoted" "ai_promotedTaskId item = Some tid"
  shows "promoteActionItem tenv ienv aid input s =
    (case find_by task_id tid ts of
       None \<Rightarrow> Inl (TaskRefused TaskNotFound)
     | Some t \<Rightarrow> Inr \<lparr>pr_task = t, pr_actionItem = item, pr_created = False\<rparr>, s)"
  using assms by (auto simp: promoteActionItem_def getItem_def getTask_def map_result_def split: option.split)

text \<open>The record a promotion leaves: the decision it carries and everything else as it was.\<close>

definition promoted :: "items_env \<Rightarrow> promotion_input \<Rightarrow> action_item \<Rightarrow> task \<Rightarrow> action_item" where
  "promoted ienv input item t = item\<lparr>ai_state := Promoted, ai_promotedTaskId := Some (task_id t),
     ai_updatedAt := ie_now ienv, ai_decidedAt := Some (ie_now ienv),
     ai_decisions := ai_decisions item @ [decision DPromote (ie_now ienv) OWNER item (ai_version item + 1)
       \<lparr>tb_taskId = Some (task_id t), tb_taskVersion = Some (task_version t),
        tb_missingContentAcknowledged = acknowledged input\<rparr>],
     ai_version := ai_version item + 1\<rparr>"

lemma promoted_simps [simp]:
  "ai_state (promoted ienv input item t) = Promoted"
  "ai_promotedTaskId (promoted ienv input item t) = Some (task_id t)"
  "ai_id (promoted ienv input item t) = ai_id item"
  "ai_source (promoted ienv input item t) = ai_source item"
  "ai_proposalRevisions (promoted ienv input item t) = ai_proposalRevisions item"
  "ai_selectedRevision (promoted ienv input item t) = ai_selectedRevision item"
  "ai_version (promoted ienv input item t) = ai_version item + 1"
  by (simp_all add: promoted_def)

lemma promotion_command_matches [simp]: "matches (ic_expectedVersion (promotion_command input item)) (ai_version item)"
  by (simp add: promotion_command_def)

lemma stage_promotion_run:
  assumes "readActionItems s = Inr is" "find_by ai_id (ai_id item) is = Some item" "ai_state item \<noteq> Promoted"
  shows "stagePromotion ienv (ai_id item) (task_id t) (Some (task_version t)) (promotion_command input item) s
    = (Inr (promoted ienv input item t, Some (replace_by ai_id (ai_id item) (promoted ienv input item t) is)), s)"
  using assms by (simp add: stagePromotion_def stage_def promotion_change_def promoted_def decided_def Let_def
      promotion_command_def)

lemma accept_new_run:
  assumes "can_write s" "readActionItems s = Inr is" "readTasks s = Inr ts" "fresh_ids tenv s"
    "find_by ai_id (ai_id item) is = Some item" "ai_state item \<noteq> Promoted"
  obtains (refused) e where "accept_new tenv ienv input item s = (Inl e, s)"
      "prepare tenv (accepted_input input (actionItemProposal item)) (Some (accepted_source item)) s = (Inl e, s)"
  | (accepted) t s' where
      "accept_new tenv ienv input item s = (Inr \<lparr>pr_task = t, pr_actionItem = promoted ienv input item t, pr_created = True\<rparr>, s')"
      "\<exists>u. prepare tenv (accepted_input input (actionItemProposal item)) (Some (accepted_source item)) s = (Inr u, s)
        \<and> t = (if pi_completed input = JBool True then completedNow tenv u else u)"
      "task_id t \<notin> task_id ` set ts" "task_source t = Some (accepted_source item)" "task_deletedAt t = None"
      "readTasks s' = Inr (ts @ [t])"
      "readActionItems s' = Inr (replace_by ai_id (ai_id item) (promoted ienv input item t) is)"
      "readLists s' = readLists s" "next_generation s s'"
proof (cases "prepare tenv (accepted_input input (actionItemProposal item)) (Some (accepted_source item)) s")
  case (Pair r s1)
  show ?thesis
  proof (cases r)
    case (Inl e)
    from Pair have p: "prepare tenv (accepted_input input (actionItemProposal item)) (Some (accepted_source item)) s = (Inl e, s1)"
      unfolding Inl .
    from prepare_InlD [OF p] p show ?thesis by (intro refused [of e]) (simp_all add: accept_new_def)
  next
    case (Inr u)
    note pre = prepare_InrD [OF Pair [unfolded Inr]]
    define t where "t = (if pi_completed input = JBool True then completedNow tenv u else u)"
    have t: "task_id t = task_id u" "task_source t = task_source u" "task_deletedAt t = task_deletedAt u"
      by (simp_all add: t_def completedNow_def)
    let ?p = "promoted ienv input item t"
    let ?is = "replace_by ai_id (ai_id item) ?p is"
    have "revised is" using assms(2) by (rule readActionItems_revised)
    moreover have "ai_proposalRevisions item \<noteq> []"
      using calculation assms(5) by (auto simp: revised_def dest!: find_by_SomeD)
    ultimately have rev: "revised ?is"
      by (auto simp: revised_def dest!: replace_by_mem_cases)
    obtain s' where c: "commitAcceptance (ts @ [t]) ?is s = (Inr (), s')" "readTasks s' = Inr (ts @ [t])"
        "readActionItems s' = Inr ?is" "readLists s' = readLists s" "next_generation s s'"
      using commitAcceptance_spec [OF assms(1) rev, of "ts @ [t]"] by blast
    have fresh: "task_id t \<notin> task_id ` set ts"
      using assms(3,4) pre t by (simp add: fresh_ids_def)
    then have found: "getTask (task_id t) s' = Inr (Some t)"
      using c(2) by (simp add: getTask_def map_result_def find_by_append find_by_None_iff [THEN iffD2])
    have "accept_new tenv ienv input item s = (Inr \<lparr>pr_task = t, pr_actionItem = ?p, pr_created = True\<rparr>, s')"
      using Pair Inr pre stage_promotion_run [OF assms(2,5,6)] assms(3) c(1) found
      by (simp add: accept_new_def acceptTask_def Let_def flip: t_def)
    with Pair Inr pre t c fresh show ?thesis
      by (intro accepted [of t s']) (auto simp: t_def)
  qed
qed

lemma adopt_orphan_run:
  assumes "can_write s" "readActionItems s = Inr is" "find_by ai_id (ai_id item) is = Some item"
    "ai_state item \<noteq> Promoted" "task_source t = Some (accepted_source item)"
  obtains s' where
    "adopt_orphan ienv input item t s =
       (Inr \<lparr>pr_task = t, pr_actionItem = promoted ienv input item t, pr_created = False\<rparr>, s')"
    "readActionItems s' = Inr (replace_by ai_id (ai_id item) (promoted ienv input item t) is)"
    "readTasks s' = readTasks s" "readLists s' = readLists s" "next_generation s s'"
proof -
  let ?p = "promoted ienv input item t"
  let ?is = "replace_by ai_id (ai_id item) ?p is"
  have "revised is" using assms(2) by (rule readActionItems_revised)
  moreover have "ai_proposalRevisions item \<noteq> []"
    using calculation assms(3) by (auto simp: revised_def dest!: find_by_SomeD)
  ultimately have rev: "revised ?is"
    by (auto simp: revised_def dest!: replace_by_mem_cases)
  have "adopt_orphan ienv input item t s =
      (Inr \<lparr>pr_task = t, pr_actionItem = ?p, pr_created = False\<rparr>, snd (writeActionItems ?is s))"
    using stage_promotion_run [OF assms(2-4), of ienv t input] assms(5) items_table.write_run [OF assms(1) rev]
    by (simp add: adopt_orphan_def recordPromotion_def transition_def stagePromotion_def)
  with writeActionItems_facts [OF assms(1) rev] show ?thesis by (intro that)
qed

text \<open>Every way a promotion can go.\<close>

lemma promote_cases:
  assumes "can_write s" "readActionItems s = Inr is" "readTasks s = Inr ts" "fresh_ids tenv s" "items_wf is"
  obtains (refused) e where "promoteActionItem tenv ienv aid input s = (Inl e, s)"
  | (already) item tid t where "find_by ai_id aid is = Some item" "promotion_guards input item = Inr ()"
      "ai_state item = Promoted" "ai_promotedTaskId item = Some tid" "find_by task_id tid ts = Some t"
      "promoteActionItem tenv ienv aid input s = (Inr \<lparr>pr_task = t, pr_actionItem = item, pr_created = False\<rparr>, s)"
  | (adopted) item t s' where "find_by ai_id aid is = Some item" "promotion_guards input item = Inr ()"
      "ai_state item \<noteq> Promoted" "tasks_naming aid ts = [t]" "task_source t = Some (accepted_source item)"
      "promoteActionItem tenv ienv aid input s =
         (Inr \<lparr>pr_task = t, pr_actionItem = promoted ienv input item t, pr_created = False\<rparr>, s')"
      "readActionItems s' = Inr (replace_by ai_id aid (promoted ienv input item t) is)"
      "readTasks s' = readTasks s" "readLists s' = readLists s" "next_generation s s'"
  | (created) item t s' where "find_by ai_id aid is = Some item" "promotion_guards input item = Inr ()"
      "ai_state item \<noteq> Promoted" "tasks_naming aid ts = []"
      "promoteActionItem tenv ienv aid input s =
         (Inr \<lparr>pr_task = t, pr_actionItem = promoted ienv input item t, pr_created = True\<rparr>, s')"
      "\<exists>u. prepare tenv (accepted_input input (actionItemProposal item)) (Some (accepted_source item)) s = (Inr u, s)
        \<and> t = (if pi_completed input = JBool True then completedNow tenv u else u)"
      "task_id t \<notin> task_id ` set ts" "task_source t = Some (accepted_source item)" "task_deletedAt t = None"
      "readTasks s' = Inr (ts @ [t])"
      "readActionItems s' = Inr (replace_by ai_id aid (promoted ienv input item t) is)"
      "readLists s' = readLists s" "next_generation s s'"
proof (cases "find_by ai_id aid is")
  case None
  with assms(2) show ?thesis
    by (intro refused) (simp add: promoteActionItem_def getItem_def map_result_def)
next
  case (Some item)
  have item: "ai_id item = aid" "item_wf item"
    using Some assms(5) by (auto simp: items_wf_def dest: find_by_SomeD)
  show ?thesis
  proof (cases "promotion_guards input item")
    case (Inl e)
    with Some assms(2) show ?thesis
      by (intro refused) (simp add: promoteActionItem_def getItem_def map_result_def)
  next
    case guards: (Inr u)
    show ?thesis
    proof (cases "ai_state item = Promoted")
      case True
      with item(2) obtain tid where tid: "ai_promotedTaskId item = Some tid" by (auto simp: item_wf_def)
      from promote_already [OF assms(2,3) Some _ True tid, of input tenv ienv] guards show ?thesis
        by (cases "find_by task_id tid ts") (auto intro: refused already [OF Some _ True tid])
    next
      case False
      note steps = promote_steps [OF assms(2,3) Some, of input tenv ienv]
      have same: "find_by ai_id (ai_id item) is = Some item" using Some item(1) by simp
      consider "orphans_of aid ts = []" | t where "orphans_of aid ts = [t]" | "2 \<le> length (orphans_of aid ts)"
        by (cases "orphans_of aid ts"; cases "tl (orphans_of aid ts)") auto
      then show ?thesis
      proof cases
        case 1
        from assms(1-4) same False show ?thesis
        proof (cases rule: accept_new_run [where ienv = ienv and input = input])
          case (refused e)
          with steps 1 guards False show ?thesis by (intro that(1)) simp
        next
          case (accepted t s')
          have "tasks_naming aid ts = []" using 1 by (simp add: orphans_of_empty)
          then show ?thesis using steps 1 guards False accepted item(1) by (intro created [OF Some]) simp_all
        qed
      next
        case (2 t)
        then have "tasks_naming aid ts = [t]" using orphans_of_mset [of aid ts] by simp
        show ?thesis
        proof (cases "task_source t = Some (accepted_source item)")
          case True
          from assms(1,2) same False True obtain s' where "adopt_orphan ienv input item t s =
              (Inr \<lparr>pr_task = t, pr_actionItem = promoted ienv input item t, pr_created = False\<rparr>, s')"
            "readActionItems s' = Inr (replace_by ai_id (ai_id item) (promoted ienv input item t) is)"
            "readTasks s' = readTasks s" "readLists s' = readLists s" "next_generation s s'"
            by (rule adopt_orphan_run)
          with steps 2 guards False True item(1) \<open>tasks_naming aid ts = [t]\<close> show ?thesis
            by (intro adopted [OF Some]) simp_all
        next
          case wrong: False
          with steps 2 guards False show ?thesis by (intro refused) (simp add: adopt_orphan_def)
        qed
      next
        case 3
        with steps guards False show ?thesis
          by (intro refused) (auto split: list.splits)
      qed
    qed
  qed
qed

end
