(* ===== verification/MaterializeFacts.thy ===== *)
theory MaterializeFacts
  imports ItemSteps
begin

section \<open>Materializing an extraction\<close>

text \<open>
  What one \<^theory_text>\<open>materialize\<close> does to the stored Action Items: it appends the records of the
  entries it has never seen and changes none that is held; a second run over the same extraction
  allocates nothing and answers the same records.
\<close>

abbreviation allocated_id :: "items_env \<Rightarrow> nat \<Rightarrow> string" where
  "allocated_id env i \<equiv> allocateActionItemId (ie_uuid env (3 * i))"

text \<open>The identities one run may allocate are new: what \<^theory_text>\<open>randomUUID\<close> documents.\<close>

definition fresh_items :: "items_env \<Rightarrow> item_materialization \<Rightarrow> action_item list \<Rightarrow> bool" where
  "fresh_items env input is \<longleftrightarrow>
     inj_on (allocated_id env) {..<length (im_actionItems input)}
     \<and> allocated_id env ` {..<length (im_actionItems input)} \<inter> ai_id ` set is = {}"

lemma newActionItem_simps [simp]:
  "ai_id (newActionItem env input entries i v cs ts) = allocated_id env i"
  "ai_state (newActionItem env input entries i v cs ts) = Pending"
  "ai_reconciledInto (newActionItem env input entries i v cs ts) = None"
  "ai_promotedTaskId (newActionItem env input entries i v cs ts) = None"
  "ai_source (newActionItem env input entries i v cs ts) = item_source_of input"
  "ai_proposalRevisions (newActionItem env input entries i v cs ts) \<noteq> []"
  by (simp_all add: newActionItem_def Let_def)

lemma newActionItem_wf: "item_wf (newActionItem env input entries i v cs ts)"
  by (simp add: newActionItem_def Let_def item_wf_def latestProposalRevision_def redirect_of_def
      currentReconciliation_def)

lemma newActionItem_mapping:
  "item_mappings (newActionItem env input entries i v cs ts) =
     [\<lparr>mm_key = entry_key env input entries i, mm_debriefRunId = im_debriefRunId input,
       mm_outputEntryId = outputEntryId (ie_sha env) entries i,
       mm_candidateAlias = oe_candidateAlias (entries ! i),
       mm_payloadChecksum = payloadChecksum (ie_sha env) (oe_payload (entries ! i)),
       mm_actionItemId = allocated_id env i, mm_proposalRevision = 1, mm_allocatedAt = ie_now env,
       mm_dependencies = dependencyMappings (ai_handoff (newActionItem env input entries i v cs ts))\<rparr>]"
  by (simp add: item_mappings_def revision_mapping_def newActionItem_def Let_def entry_key_def
      List.map_filter_simps)

subsection \<open>The results of the entries\<close>

lemma all_results_map_Inr [simp]: "all_results (map Inr xs) = Inr xs"
  by (induction xs) simp_all

lemma all_results_Inr: "all_results rs = Inr xs \<longleftrightarrow> rs = map Inr xs"
proof
  show "all_results rs = Inr xs \<Longrightarrow> rs = map Inr xs"
    by (induction rs arbitrary: xs) (auto split: sum.splits)
qed simp

lemma set_added: "i \<in> set (added_items ms) \<longleftrightarrow> Added i \<in> set ms"
  by (induction ms rule: added_items.induct) auto

lemma added_items_append [simp]: "added_items (ms @ ns) = added_items ms @ added_items ns"
  by (induction ms rule: added_items.induct) auto

lemma materialize_entry_Added:
  assumes "materialize_entry env input stored entries v i = Inr (Added x)"
  shows "materializationIndex stored (entry_key env input entries i) = None
    \<and> x = newActionItem env input entries i v (reconciliationCandidates stored input (oe_payload (entries ! i)))
        (resolveDependencyTargets (ie_sha env) entries ! i)"
  using assms by (auto simp: materialize_entry_def Let_def split: option.splits if_splits)

lemma materialize_entry_Known:
  assumes "materialize_entry env input stored entries v i = Inr (Known x)"
  shows "\<exists>m. materializationIndex stored (entry_key env input entries i) = Some m
    \<and> mm_payloadChecksum m = payloadChecksum (ie_sha env) (oe_payload (entries ! i))
    \<and> by_id stored (mm_actionItemId m) = Some x"
  using assms by (auto simp: materialize_entry_def Let_def split: option.splits if_splits)

lemma length_checked [simp]: "length (checked_entries env input) = length (im_actionItems input)"
  by (simp add: checked_entries_def)

definition held_run :: "item_materialization \<Rightarrow> action_item list \<Rightarrow> action_item list" where
  "held_run input stored = filter (\<lambda>item. as_debriefRunId (ai_source item) = im_debriefRunId input) stored"

definition run_results :: "items_env \<Rightarrow> item_materialization \<Rightarrow> action_item list \<Rightarrow> ws_error + materialized list" where
  "run_results env input stored = (let entries = checked_entries env input in
     all_results (map (materialize_entry env input stored entries
       (nextRevision env (held_run input stored) entries input (materializationIndex stored)))
       [0..<length entries]))"

lemma materialize_run:
  assumes "readActionItems s = Inr is"
  shows "materialize env input s = (case run_results env input is of
      Inl e \<Rightarrow> (Inl e, s)
    | Inr ms \<Rightarrow> if added_items ms = [] then (Inr (map materialized_item ms), s)
        else andThen (writeActionItems (is @ added_items ms)) (\<lambda>_. ret (map materialized_item ms)) s)"
  using assms by (auto simp: materialize_def run_results_def held_run_def Let_def split: sum.split)

lemma run_results_nth:
  assumes "run_results env input is = Inr ms"
  shows "length ms = length (im_actionItems input)"
    and "i < length ms \<Longrightarrow> materialize_entry env input is (checked_entries env input)
      (nextRevision env (held_run input is) (checked_entries env input) input (materializationIndex is)) i = Inr (ms ! i)"
proof -
  have m: "map (materialize_entry env input is (checked_entries env input)
      (nextRevision env (held_run input is) (checked_entries env input) input (materializationIndex is)))
      [0..<length (im_actionItems input)] = map Inr ms"
    using assms by (simp add: run_results_def Let_def all_results_Inr)
  show l: "length ms = length (im_actionItems input)"
    using arg_cong [OF m, of length] by simp
  assume "i < length ms"
  with l arg_cong [OF m, of "\<lambda>xs. xs ! i"] show "materialize_entry env input is (checked_entries env input)
      (nextRevision env (held_run input is) (checked_entries env input) input (materializationIndex is)) i = Inr (ms ! i)"
    by simp
qed

lemma added_mem:
  assumes "run_results env input is = Inr ms" "x \<in> set (added_items ms)"
  obtains i where "i < length (im_actionItems input)" "ms ! i = Added x"
    "materializationIndex is (entry_key env input (checked_entries env input) i) = None"
    "\<exists>v cs ts. x = newActionItem env input (checked_entries env input) i v cs ts"
proof -
  from assms(2) have "Added x \<in> set ms" by (simp add: set_added)
  then obtain i where i: "i < length ms" "ms ! i = Added x" by (auto simp: in_set_conv_nth)
  from run_results_nth(2) [OF assms(1) i(1)] i(2) have "materialize_entry env input is (checked_entries env input)
      (nextRevision env (held_run input is) (checked_entries env input) input (materializationIndex is)) i = Inr (Added x)"
    by simp
  from materialize_entry_Added [OF this] i run_results_nth(1) [OF assms(1)] show thesis
    by (intro that [of i]) auto
qed

text \<open>Any reading of the new records is a reading of the positions they were allocated for.\<close>

lemma added_reading_take:
  assumes "run_results env input is = Inr ms" "n \<le> length ms"
    and "\<And>i v cs ts. F (newActionItem env input (checked_entries env input) i v cs ts) = [g i]"
  shows "concat (map F (added_items (take n ms))) = map g (filter (\<lambda>i. \<exists>x. ms ! i = Added x) [0..<n])"
  using assms(2)
proof (induction n)
  case (Suc n)
  then have n: "n < length ms" "n \<le> length ms" by simp_all
  show ?case
  proof (cases "ms ! n")
    case (Known x)
    with Suc.IH n show ?thesis by (simp add: take_Suc_conv_app_nth)
  next
    case (Added x)
    with run_results_nth(2) [OF assms(1) n(1)] materialize_entry_Added assms(3) have "F x = [g n]" by metis
    with Added Suc.IH n show ?thesis by (simp add: take_Suc_conv_app_nth)
  qed
qed simp

lemma added_reading:
  assumes "run_results env input is = Inr ms"
    and "\<And>i v cs ts. F (newActionItem env input (checked_entries env input) i v cs ts) = [g i]"
  shows "concat (map F (added_items ms)) =
    map g (filter (\<lambda>i. \<exists>x. ms ! i = Added x) [0..<length (im_actionItems input)])"
  using added_reading_take [where F = F and g = g, OF assms(1) order_refl assms(2)] run_results_nth(1) [OF assms(1)] by simp

lemma added_ids:
  assumes "run_results env input is = Inr ms"
  shows "map ai_id (added_items ms) =
    map (allocated_id env) (filter (\<lambda>i. \<exists>x. ms ! i = Added x) [0..<length (im_actionItems input)])"
  using added_reading [OF assms, of "\<lambda>x. [ai_id x]"] by simp

lemma added_keys:
  assumes "run_results env input is = Inr ms"
  shows "map mm_key (concat (map item_mappings (added_items ms))) =
    map (entry_key env input (checked_entries env input))
      (filter (\<lambda>i. \<exists>x. ms ! i = Added x) [0..<length (im_actionItems input)])"
  using added_reading [OF assms, of "\<lambda>x. map mm_key (item_mappings x)"]
  by (simp add: newActionItem_mapping map_concat o_def)

lemma materialized_wf:
  assumes "items_wf is" "run_results env input is = Inr ms" "fresh_items env input is"
  shows "items_wf (is @ added_items ms)"
proof -
  have ids: "distinct (map ai_id (added_items ms))"
    unfolding added_ids [OF assms(2)] distinct_map
    using assms(3) by (auto simp: fresh_items_def intro: inj_on_subset)
  have new: "ai_id x \<notin> ai_id ` set is" if "x \<in> set (added_items ms)" for x
    using assms(2) that
  proof (rule added_mem)
    fix i assume "i < length (im_actionItems input)"
      "\<exists>v cs ts. x = newActionItem env input (checked_entries env input) i v cs ts"
    with assms(3) show ?thesis by (auto simp: fresh_items_def)
  qed
  have "item_wf x \<and> ai_reconciledInto x = None" if "x \<in> set (added_items ms)" for x
    using assms(2) that by (rule added_mem) (auto simp: newActionItem_wf)
  moreover from this have "redirects (is @ added_items ms) = redirects is"
    by (auto simp: redirects_def)
  moreover have "ai_id ` set is \<inter> ai_id ` set (added_items ms) = {}"
  proof (rule equals0I, elim IntE)
    fix k assume "k \<in> ai_id ` set is" "k \<in> ai_id ` set (added_items ms)"
    then obtain x where "x \<in> set (added_items ms)" "ai_id x \<in> ai_id ` set is" by (elim imageE) simp
    with new show False by simp
  qed
  ultimately show ?thesis
    using assms(1) ids by (simp add: items_wf_def) blast
qed

text \<open>Materializing either leaves the store as it was or appends records to the ones held.\<close>

lemma materialize_cases:
  assumes "can_write s" "readActionItems s = Inr is"
  obtains (refused) e where "run_results env input is = Inl e" "materialize env input s = (Inl e, s)"
  | (stored) ms s' where "run_results env input is = Inr ms"
      "materialize env input s = (Inr (map materialized_item ms), s')"
      "readActionItems s' = Inr (is @ added_items ms)" "readTasks s' = readTasks s" "readLists s' = readLists s"
      "added_items ms = [] \<Longrightarrow> s' = s" "added_items ms \<noteq> [] \<Longrightarrow> next_generation s s'"
proof (cases "run_results env input is")
  case (Inl e)
  with materialize_run [OF assms(2)] show ?thesis by (intro refused) simp_all
next
  case (Inr ms)
  show ?thesis
  proof (cases "added_items ms = []")
    case True
    with Inr materialize_run [OF assms(2)] assms(2) show ?thesis by (intro stored [of ms s]) simp_all
  next
    case False
    have "\<forall>x \<in> set (added_items ms). ai_proposalRevisions x \<noteq> []"
      by (auto elim!: added_mem [OF Inr])
    then have rev: "revised (is @ added_items ms)"
      using readActionItems_revised [OF assms(2)] by (auto simp: revised_def)
    from False Inr materialize_run [OF assms(2)] items_table.write_run [OF assms(1) rev]
      writeActionItems_facts [OF assms(1) rev] show ?thesis
      by (intro stored [of ms "snd (writeActionItems (is @ added_items ms) s)"]) simp_all
  qed
qed

subsection \<open>Replaying an extraction\<close>

lemma by_id_distinct: "distinct (map ai_id stored) \<Longrightarrow> x \<in> set stored \<Longrightarrow> by_id stored (ai_id x) = Some x"
  unfolding by_id_def by (rule find_by_distinct) (simp_all flip: rev_map)

lemma by_id_SomeD: "by_id stored k = Some x \<Longrightarrow> x \<in> set stored \<and> ai_id x = k"
  by (auto simp: by_id_def dest: find_by_SomeD)

lemma entry_keys_distinct:
  assumes "collision_free (ie_sha env) (checked_entries env input)"
  shows "inj_on (entry_key env input (checked_entries env input)) {..<length (im_actionItems input)}"
  using outputEntryId_inj [OF assms] by (auto simp: inj_on_def entry_key_def)

lemma checked_entries_cong:
  "ie_ownerProfileId env' = ie_ownerProfileId env \<Longrightarrow> checked_entries env' input = checked_entries env input"
  by (simp add: checked_entries_def checkedEntry_def proposedResponsiblePerson_def Let_def cong: option.case_cong)

lemma run_results_replay:
  assumes "items_wf is" "run_results env input is = Inr ms" "fresh_items env input is"
    and cf: "collision_free (ie_sha env) (checked_entries env input)"
    and env': "ie_sha env' = ie_sha env" "ie_ownerProfileId env' = ie_ownerProfileId env"
  shows "run_results env' input (is @ added_items ms) = Inr (map (\<lambda>m. Known (materialized_item m)) ms)"
proof -
  let ?es = "checked_entries env input" and ?n = "length (im_actionItems input)" and ?st = "is @ added_items ms"
  let ?B = "concat (map item_mappings (added_items ms))"
  have len: "length ms = ?n" using run_results_nth(1) [OF assms(2)] .
  have ids: "distinct (map ai_id ?st)" using materialized_wf [OF assms(1-3)] by (simp add: items_wf_def)
  have idx: "materializationIndex ?st = index_of (concat (map item_mappings is) @ ?B)"
    by (simp add: materializationIndex_def)
  have keys: "distinct (map mm_key ?B)"
    unfolding added_keys [OF assms(2)] distinct_map
    using entry_keys_distinct [OF cf] by (auto intro: inj_on_subset)
  have "materialize_entry env' input ?st ?es v i = Inr (Known (materialized_item (ms ! i)))" if "i < ?n" for i v
  proof -
    let ?k = "entry_key env input ?es i"
    have k: "entry_key env' input ?es i = ?k" using env'(1) by (simp add: entry_key_def)
    note e = run_results_nth(2) [OF assms(2), unfolded len, OF that]
    have "\<exists>m. materializationIndex ?st ?k = Some m
      \<and> mm_payloadChecksum m = payloadChecksum (ie_sha env) (oe_payload (?es ! i))
      \<and> by_id ?st (mm_actionItemId m) = Some (materialized_item (ms ! i))"
    proof (cases "ms ! i")
      case (Known x)
      with e materialize_entry_Known obtain m where m: "materializationIndex is ?k = Some m"
          "mm_payloadChecksum m = payloadChecksum (ie_sha env) (oe_payload (?es ! i))"
          "by_id is (mm_actionItemId m) = Some x" by metis
      have "?k \<notin> mm_key ` set ?B"
      proof
        assume "?k \<in> mm_key ` set ?B"
        then have "?k \<in> set (map mm_key ?B)" by simp
        then obtain j where j: "j < ?n" "\<exists>y. ms ! j = Added y" "?k = entry_key env input ?es j"
          unfolding added_keys [OF assms(2)] by auto
        with entry_keys_distinct [OF cf] that have "i = j" by (auto simp: inj_on_def)
        with j(2) Known show False by simp
      qed
      then have "materializationIndex ?st ?k = Some m"
        using m(1) by (simp add: idx index_of_append_other materializationIndex_def)
      with m(2) by_id_SomeD [OF m(3)] by_id_distinct [OF ids, of x] Known show ?thesis by auto
    next
      case (Added x)
      from Added len that have "Added x \<in> set ms" by (metis nth_mem)
      then have x: "x \<in> set (added_items ms)" by (simp add: set_added)
      from Added e materialize_entry_Added obtain v cs ts where new: "x = newActionItem env input ?es i v cs ts"
        by metis
      let ?m = "hd (item_mappings x)"
      have m: "item_mappings x = [?m]" "mm_key ?m = ?k" "mm_actionItemId ?m = ai_id x"
          "mm_payloadChecksum ?m = payloadChecksum (ie_sha env) (oe_payload (?es ! i))"
        by (simp_all add: new newActionItem_mapping)
      have "?m \<in> set (item_mappings x)" by (subst m(1)) simp
      with x have "?m \<in> set ?B" by auto
      from index_of_appended [OF keys this] m(2) have "materializationIndex ?st ?k = Some ?m" by (simp add: idx)
      with m(3,4) by_id_distinct [OF ids, of x] x Added show ?thesis by simp
    qed
    then show ?thesis using env' k by (auto simp: materialize_entry_def Let_def)
  qed
  then have "map (materialize_entry env' input ?st ?es v) [0..<?n] = map Inr (map (\<lambda>m. Known (materialized_item m)) ms)" for v
    by (intro nth_equalityI) (simp_all add: len)
  then show ?thesis
    using checked_entries_cong [OF env'(2)] by (simp add: run_results_def Let_def del: map_map)
qed

lemma added_known [simp]: "added_items (map (\<lambda>m. Known (f m)) ms) = []"
  by (induction ms) simp_all

text \<open>A second materialization of the same extraction writes nothing and answers the same records.\<close>

lemma materialize_replay:
  assumes "can_write s" "readActionItems s = Inr is" "items_wf is" "fresh_items env input is"
    "collision_free (ie_sha env) (checked_entries env input)"
    "ie_sha env' = ie_sha env" "ie_ownerProfileId env' = ie_ownerProfileId env"
    "materialize env input s = (Inr xs, s')"
  shows "materialize env' input s' = (Inr xs, s')"
  using assms(1,2)
proof (cases rule: materialize_cases [where env = env and input = input])
  case (stored ms s'')
  with assms(8) have s: "s'' = s'" "xs = map materialized_item ms" by simp_all
  have "run_results env' input (is @ added_items ms) = Inr (map (\<lambda>m. Known (materialized_item m)) ms)"
    by (rule run_results_replay [OF assms(3) stored(1) assms(4-7)])
  with materialize_run [OF stored(3)] s show ?thesis by (simp add: o_def)
qed (use assms(8) in simp)

end
