(* ===== verification/Workspace.thy ===== *)
theory Workspace
  imports Promotion MaterializeFacts
begin

section \<open>The Tasks product as one transition system\<close>

text \<open>
  The owner's Task commands, the review of Action Items, materialization and promotion as steps on
  the one store they share, with the interruption between the two files of a promotion as a step of
  its own.  The invariant says that at most one Task ever descends from an Action Item, and that an
  Action Item accepted as a Task names exactly that Task.
\<close>

definition lineage :: "task list \<Rightarrow> (string \<times> string) list" where
  "lineage ts = concat (map (\<lambda>t. case task_source t of None \<Rightarrow> []
     | Some src \<Rightarrow> [(ts_actionItemId src, task_id t)]) ts)"

definition lineage_ok :: "task list \<Rightarrow> action_item list \<Rightarrow> bool" where
  "lineage_ok ts is \<longleftrightarrow> distinct (map fst (lineage ts))
     \<and> (\<forall>(aid, tid) \<in> set (lineage ts). \<exists>i. find_by ai_id aid is = Some i
          \<and> (ai_state i = Promoted \<longrightarrow> ai_promotedTaskId i = Some tid))"

definition workspace_ok :: "wstore \<Rightarrow> bool" where
  "workspace_ok s \<longleftrightarrow> store_wf s \<and> items_store_wf s
     \<and> (\<exists>ts is. readTasks s = Inr ts \<and> readActionItems s = Inr is \<and> lineage_ok ts is)"

fun unsourced :: "owner_command \<Rightarrow> bool" where
  "unsourced (Capture _ src) = (src = None)"
| "unsourced _ = True"

fun decides_promotion :: "item_op \<Rightarrow> bool" where
  "decides_promotion (PromoteOp _ _ _ _) = True"
| "decides_promotion _ = False"

text \<open>Stopping between the two files: the Tasks reached the disk and the decision did not.\<close>

definition interrupted :: "wstore \<Rightarrow> wstore \<Rightarrow> wstore" where
  "interrupted s s' = s\<lparr>ws_tasksFile := ws_tasksFile s'\<rparr>"

inductive workspace_step :: "wstore \<Rightarrow> wstore \<Rightarrow> bool" where
  owner: "can_write s \<Longrightarrow> fresh_ids tenv s \<Longrightarrow> unsourced c \<Longrightarrow> workspace_step s (snd (run_command tenv c s))"
| review: "can_write s \<Longrightarrow> \<not> decides_promotion c \<Longrightarrow> workspace_step s (snd (run_item_op ienv c s))"
| extraction: "can_write s \<Longrightarrow> (\<And>is. readActionItems s = Inr is \<Longrightarrow> fresh_items ienv input is) \<Longrightarrow>
    workspace_step s (snd (materialize ienv input s))"
| promotion: "can_write s \<Longrightarrow> fresh_ids tenv s \<Longrightarrow> workspace_step s (snd (promoteActionItem tenv ienv aid p s))"
| interruption: "can_write s \<Longrightarrow> fresh_ids tenv s \<Longrightarrow> readBundle s = Inr None \<Longrightarrow>
    promoteActionItem tenv ienv aid p s = (Inr r, s') \<Longrightarrow> pr_created r \<Longrightarrow> workspace_step s (interrupted s s')"

inductive workspace_reachable :: "wstore \<Rightarrow> wstore \<Rightarrow> bool" for s0 where
  start: "workspace_reachable s0 s0"
| step: "workspace_reachable s0 s \<Longrightarrow> workspace_step s s' \<Longrightarrow> workspace_reachable s0 s'"

inductive_cases workspace_stepE: "workspace_step s s'"

subsection \<open>Lineage\<close>

lemma lineage_append [simp]: "lineage (ts @ us) = lineage ts @ lineage us"
  by (simp add: lineage_def)

lemma lineage_Nil [simp]: "lineage [] = []"
  by (simp add: lineage_def)

lemma lineage_Cons: "lineage (t # ts) = (case task_source t of None \<Rightarrow> []
     | Some src \<Rightarrow> [(ts_actionItemId src, task_id t)]) @ lineage ts"
  by (simp add: lineage_def)

lemma lineage_mem:
  "(aid, tid) \<in> set (lineage ts) \<longleftrightarrow>
     (\<exists>t src. t \<in> set ts \<and> task_source t = Some src \<and> ts_actionItemId src = aid \<and> task_id t = tid)"
proof (induction ts)
  case (Cons t ts)
  then show ?case by (cases "task_source t") (auto simp: lineage_Cons)
qed simp

lemma lineage_replace:
  assumes "find_by task_id tid ts = Some cur" "same_record cur t" "distinct (map task_id ts)"
  shows "lineage (replace_by task_id tid t ts) = lineage ts"
proof -
  let ?f = "\<lambda>u. case task_source u of None \<Rightarrow> [] | Some src \<Rightarrow> [(ts_actionItemId src, task_id u)]"
  have "?f (if task_id u = tid then t else u) = ?f u" if "u \<in> set ts" for u
  proof (cases "task_id u = tid")
    case True
    with find_by_distinct [OF assms(3) that] assms(1) have "u = cur" by simp
    with True assms(2) show ?thesis by (simp add: same_record_def split: option.split)
  qed simp
  then show ?thesis by (simp add: lineage_def replace_by_def o_def cong: map_cong)
qed

lemma lineage_filter: "subseq (lineage (filter p ts)) (lineage ts)"
  by (induction ts) (auto simp: lineage_Cons intro: list_emb_append2 list_emb_append_mono)

lemma tasks_naming_lineage:
  "length (tasks_naming aid ts) = length (filter (\<lambda>l. fst l = aid) (lineage ts))"
  by (induction ts) (auto simp: lineage_Cons tasks_naming_def split: option.splits)

lemma distinct_fst_filter: "distinct (map fst ls) \<Longrightarrow> length (filter (\<lambda>l. fst l = k) ls) \<le> 1"
proof (induction ls)
  case (Cons l ls)
  then show ?case
  proof (cases "fst l = k")
    case True
    with Cons.prems have "\<forall>m \<in> set ls. fst m \<noteq> k" by (auto simp: image_iff)
    then have "filter (\<lambda>l. fst l = k) ls = []" by (simp add: filter_empty_conv)
    with True show ?thesis by simp
  next
    case False
    with Cons show ?thesis by simp
  qed
qed simp

lemma tasks_naming_empty: "tasks_naming aid ts = [] \<longleftrightarrow> aid \<notin> fst ` set (lineage ts)"
proof -
  have "tasks_naming aid ts = [] \<longleftrightarrow> filter (\<lambda>l. fst l = aid) (lineage ts) = []"
    using tasks_naming_lineage [of aid ts] by (metis length_0_conv)
  then show ?thesis by (auto simp: filter_empty_conv)
qed

definition decision_of :: "action_item \<Rightarrow> bool \<times> string option" where
  "decision_of i = (ai_state i = Promoted, ai_promotedTaskId i)"

definition decisions_kept :: "action_item list \<Rightarrow> action_item list \<Rightarrow> bool" where
  "decisions_kept is is' \<longleftrightarrow> (\<forall>k i. find_by ai_id k is = Some i \<longrightarrow>
     (\<exists>i'. find_by ai_id k is' = Some i' \<and> decision_of i' = decision_of i))"

lemma decisions_kept_refl [simp]: "decisions_kept is is"
  by (simp add: decisions_kept_def)

lemma decisions_kept_append: "decisions_kept is (is @ js)"
  by (simp add: decisions_kept_def find_by_append)

lemma decisions_kept_replace:
  assumes "find_by ai_id aid is = Some cur" "ai_id n = aid" "decision_of n = decision_of cur"
  shows "decisions_kept is (replace_by ai_id aid n is)"
  unfolding decisions_kept_def
proof (intro allI impI)
  fix k i assume i: "find_by ai_id k is = Some i"
  show "\<exists>i'. find_by ai_id k (replace_by ai_id aid n is) = Some i' \<and> decision_of i' = decision_of i"
  proof (cases "k = aid")
    case True
    with assms i find_by_replace_same [OF assms(2,1)] show ?thesis by simp
  next
    case False
    with i find_by_replace_other [where key = ai_id, OF assms(2) False] show ?thesis by simp
  qed
qed

lemma lineage_ok_kept:
  assumes "lineage_ok ts is" "subseq (lineage ts') (lineage ts)" "decisions_kept is is'"
  shows "lineage_ok ts' is'"
proof -
  obtain N where "lineage ts' = nths (lineage ts) N" using assms(2) by (auto simp: subseq_conv_nths)
  with assms(1) have "distinct (map fst (lineage ts'))"
    by (auto simp: lineage_ok_def nths_map [symmetric] intro: distinct_nthsI)
  moreover have "set (lineage ts') \<subseteq> set (lineage ts)" using assms(2) by (auto dest: list_emb_set)
  ultimately show ?thesis
    using assms(1,3) unfolding lineage_ok_def decisions_kept_def decision_of_def by fastforce
qed

subsection \<open>Each step keeps the invariant\<close>

context edits_one_task begin

lemma keeps_lineage:
  assumes "can_write s" "readTasks s = Inr ts" "distinct (map task_id ts)"
  shows "\<exists>ts'. readTasks (snd (run tid s)) = Inr ts' \<and> subseq (lineage ts') (lineage ts)
    \<and> readActionItems (snd (run tid s)) = readActionItems s"
  using assms(1,2)
proof (cases rule: outcome_cases [where tid = tid])
  case (committed cur t s')
  with lineage_replace [OF committed(1,3) assms(3)] show ?thesis by simp
qed (use assms(2) in simp_all)

end

lemmas edits_keep_lineage = update_edit.keeps_lineage complete_edit.keeps_lineage reopen_edit.keeps_lineage
  trash_edit.keeps_lineage restore_edit.keeps_lineage recordLink_edit.keeps_lineage
  refreshLink_edit.keeps_lineage clearLink_edit.keeps_lineage

lemma command_lineage:
  assumes "can_write s" "readTasks s = Inr ts" "lists s = Inr ls" "distinct (map task_id ts)" "unsourced c"
  shows "\<exists>ts'. readTasks (snd (run_command env c s)) = Inr ts' \<and> subseq (lineage ts') (lineage ts)
    \<and> readActionItems (snd (run_command env c s)) = readActionItems s"
proof (cases c)
  case (CreateList name dest)
  with createList_run [OF assms(1,3), of env name dest] assms(2) show ?thesis by auto
next
  case (UpdateList lid name dest)
  with updateList_run [OF assms(1,3), of env lid name dest] assms(2) show ?thesis by auto
next
  case (DeleteList lid)
  with deleteList_run [OF assms(1,3,2), of lid] assms(2) show ?thesis by auto
next
  case (Capture input src)
  with createTask_run [OF assms(1,2), of env input src] assms(2,5) show ?thesis
    by (auto simp: lineage_Cons dest!: prepare_InrD)
next
  case (DeleteForever tid confirmed)
  with deleteForever_run [OF assms(1,2), of tid confirmed] assms(2) show ?thesis
    by (auto simp: lineage_filter)
qed (use edits_keep_lineage [OF assms(1,2,4)] in simp_all)

definition keeps_decision :: "item_change \<Rightarrow> bool" where
  "keeps_decision change \<longleftrightarrow> (\<forall>cur at v s n. change cur at v s = Inr (Some n) \<longrightarrow> decision_of n = decision_of cur)"

lemma decision_of_version [simp]: "decision_of (n\<lparr>ai_version := v\<rparr>) = decision_of n"
  by (simp add: decision_of_def)

lemma keeps_decisions:
  "to \<noteq> Promoted \<Longrightarrow> keeps_decision (decide_change to kind command)"
  "keeps_decision (select_change revision command)"
  "keeps_decision (correct_change content command)"
  "keeps_decision (suggest_change ienv taskId pf observed command)"
  "keeps_decision (resolve_change amendmentId status tv command)"
  unfolding keeps_decision_def decision_of_def decide_change_def select_change_def correct_change_def
    suggest_change_def resolve_change_def
  by (auto simp: Let_def split: if_splits option.splits)

lemma keeps_decision_reconcile: "keeps_decision (reconcile_change ienv aid d target command)"
  by (auto simp: keeps_decision_def decision_of_def elim!: reconcile_change_InrE)

lemma transition_decisions:
  assumes "can_write s" "readActionItems s = Inr is" "extending change" "keeps_decision change"
  shows "\<exists>is'. readActionItems (snd (transition ienv aid command change p s)) = Inr is' \<and> decisions_kept is is'
    \<and> readTasks (snd (transition ienv aid command change p s)) = readTasks s
    \<and> readLists (snd (transition ienv aid command change p s)) = readLists s"
  using assms(2)
proof (cases rule: stage_cases [where env = ienv and aid = aid and command = command and change = change and p = p])
  case (staged cur n)
  let ?n = "n\<lparr>ai_version := ai_version cur + 1\<rparr>"
  note ext = extendingD [OF assms(3) staged(4)]
  have id: "ai_id ?n = aid" using ext staged(1) by (auto simp: extends_item_def dest: find_by_SomeD)
  have dec: "decision_of ?n = decision_of cur"
    using assms(4) staged(4) by (simp add: keeps_decision_def)
  have cur: "ai_proposalRevisions cur \<noteq> []"
    using readActionItems_revised [OF assms(2)] staged(1) by (auto simp: revised_def dest!: find_by_SomeD)
  have "revised (replace_by ai_id aid ?n is)"
    using readActionItems_revised [OF assms(2)] extends_revised [OF ext cur]
    by (auto simp: revised_def dest!: replace_by_mem_cases)
  note w = writeActionItems_facts [OF assms(1) this] items_table.write_run [OF assms(1) this]
  show ?thesis
    using staged(5) w decisions_kept_replace [OF staged(1) id dec] by (simp add: transition_def)
qed (use assms(2) in \<open>simp_all add: transition_def\<close>)

lemma item_op_decisions:
  assumes "can_write s" "readActionItems s = Inr is" "\<not> decides_promotion c"
  shows "\<exists>is'. readActionItems (snd (run_item_op ienv c s)) = Inr is' \<and> decisions_kept is is'
    \<and> readTasks (snd (run_item_op ienv c s)) = readTasks s \<and> readLists (snd (run_item_op ienv c s)) = readLists s"
proof (cases c)
  case (ResolveOp mid st tv command)
  show ?thesis
  proof (cases "amendment_holder mid is")
    case None
    with ResolveOp assms(2) show ?thesis by (simp add: resolveAmendment_def)
  next
    case (Some holder)
    with ResolveOp assms(2) show ?thesis
      using transition_decisions [OF assms(1,2) extending_changes(6) keeps_decisions(5)]
      by (simp add: resolveAmendment_def)
  qed
next
  case (DismissOp aid command)
  show ?thesis unfolding DismissOp run_item_op.simps dismiss_def
    by (rule transition_decisions [OF assms(1,2) extending_changes(2) keeps_decisions(1)]) simp
next
  case (RestoreOp aid command)
  show ?thesis unfolding RestoreOp run_item_op.simps restore_def
    by (rule transition_decisions [OF assms(1,2) extending_changes(2) keeps_decisions(1)]) simp
next
  case (SelectOp aid revision command)
  show ?thesis unfolding SelectOp run_item_op.simps selectProposal_def
    by (rule transition_decisions [OF assms(1,2) extending_changes(3) keeps_decisions(2)])
next
  case (CorrectOp aid content command)
  show ?thesis unfolding CorrectOp run_item_op.simps correctProposal_def
    by (rule transition_decisions [OF assms(1,2) extending_changes(4) keeps_decisions(3)])
next
  case (ReconcileOp aid d target command)
  show ?thesis unfolding ReconcileOp run_item_op.simps reconcile_def
    by (rule transition_decisions [OF assms(1,2) extending_reconcile keeps_decision_reconcile])
next
  case (SuggestOp aid taskId pf observed command)
  show ?thesis unfolding SuggestOp run_item_op.simps suggestAmendment_def
    by (rule transition_decisions [OF assms(1,2) extending_changes(5) keeps_decisions(4)])
qed (use assms(3) in simp)

lemma store_wf_cong: "readTasks s' = readTasks s \<Longrightarrow> readLists s' = readLists s \<Longrightarrow> store_wf s' = store_wf s"
  by (simp add: store_wf_def lists_def)

lemma workspace_okE:
  assumes "workspace_ok s"
  obtains ts ls "is" where "readTasks s = Inr ts" "lists s = Inr ls" "readActionItems s = Inr is" "workspace_wf ts ls"
    "INBOX_TASK_LIST_ID \<in> tl_id ` set ls" "items_wf is" "lineage_ok ts is" "store_wf s" "items_store_wf s"
proof -
  from assms have wf: "store_wf s" "items_store_wf s"
    and ok: "\<exists>ts is. readTasks s = Inr ts \<and> readActionItems s = Inr is \<and> lineage_ok ts is"
    by (simp_all add: workspace_ok_def)
  from wf(1) obtain ts ls where t: "readTasks s = Inr ts" "lists s = Inr ls" "workspace_wf ts ls"
    "INBOX_TASK_LIST_ID \<in> tl_id ` set ls" by (rule store_wfE)
  from wf(2) obtain "is" where i: "readActionItems s = Inr is" "items_wf is" by (auto simp: items_store_wf_def)
  from ok t(1) i(1) have "lineage_ok ts is" by simp
  with t i wf show thesis by (intro that)
qed

lemma workspace_okI:
  "readTasks s = Inr ts \<Longrightarrow> readActionItems s = Inr is \<Longrightarrow> store_wf s \<Longrightarrow> items_wf is \<Longrightarrow> lineage_ok ts is \<Longrightarrow>
   workspace_ok s"
  by (auto simp: workspace_ok_def items_store_wf_def)

lemma owner_step_ok:
  assumes "workspace_ok s" "can_write s" "fresh_ids tenv s" "unsourced c"
  shows "workspace_ok (snd (run_command tenv c s))"
  using assms(1)
proof (rule workspace_okE)
  fix ts ls "is" assume r: "readTasks s = Inr ts" "lists s = Inr ls" "readActionItems s = Inr is" "workspace_wf ts ls"
    "items_wf is" "lineage_ok ts is" "store_wf s"
  from r(4) have "distinct (map task_id ts)" by (simp add: workspace_wf_def)
  from command_lineage [OF assms(2) r(1,2) this assms(4)] obtain ts' where t:
    "readTasks (snd (run_command tenv c s)) = Inr ts'" "subseq (lineage ts') (lineage ts)"
    "readActionItems (snd (run_command tenv c s)) = readActionItems s" by blast
  have "store_wf (snd (run_command tenv c s))"
    using task_step_wf [OF task_step.command [OF assms(2,3)] r(7)] .
  from workspace_okI [OF t(1) _ this r(5) lineage_ok_kept [OF r(6) t(2) decisions_kept_refl]] t(3) r(3)
  show ?thesis by simp
qed

lemma review_step_ok:
  assumes "workspace_ok s" "can_write s" "\<not> decides_promotion c"
  shows "workspace_ok (snd (run_item_op ienv c s))"
  using assms(1)
proof (rule workspace_okE)
  fix ts ls "is" assume r: "readTasks s = Inr ts" "readActionItems s = Inr is" "lineage_ok ts is" "store_wf s"
    "items_store_wf s"
  from item_op_decisions [OF assms(2) r(2) assms(3), of ienv] obtain is' where i:
    "readActionItems (snd (run_item_op ienv c s)) = Inr is'" "decisions_kept is is'"
    "readTasks (snd (run_item_op ienv c s)) = readTasks s" "readLists (snd (run_item_op ienv c s)) = readLists s"
    by blast
  have "items_wf is'" using run_item_op_wf [OF assms(2) r(5), of ienv c] i(1) by (simp add: items_store_wf_def)
  from workspace_okI [OF _ i(1) _ this lineage_ok_kept [OF r(3) subseq_order.refl i(2)]]
    i(3) r(1,4) store_wf_cong [OF i(3,4)]
  show ?thesis by simp
qed

lemma extraction_step_ok:
  assumes "workspace_ok s" "can_write s" "\<And>is. readActionItems s = Inr is \<Longrightarrow> fresh_items ienv input is"
  shows "workspace_ok (snd (materialize ienv input s))"
  using assms(1)
proof (rule workspace_okE)
  fix ts ls "is" assume r: "readTasks s = Inr ts" "readActionItems s = Inr is" "items_wf is" "lineage_ok ts is" "store_wf s"
  from assms(2) r(2) show ?thesis
  proof (cases rule: materialize_cases [where env = ienv and input = input])
    case (stored ms s')
    have "items_wf (is @ added_items ms)" by (rule materialized_wf [OF r(3) stored(1) assms(3) [OF r(2)]])
    from workspace_okI [OF _ stored(3) _ this lineage_ok_kept [OF r(4) subseq_order.refl decisions_kept_append]]
      stored(2,4) r(1,5) store_wf_cong [OF stored(4,5)] show ?thesis by simp
  qed (use assms(1) in simp)
qed

text \<open>The Task a promotion accepts, and the decision that accepts it.\<close>

lemma items_wf_promoted:
  assumes "items_wf is" "readActionItems s = Inr is" "find_by ai_id aid is = Some item"
  shows "items_wf (replace_by ai_id aid (promoted ienv input item t) is)"
  using items_wf_changed [OF assms(1,3,2) _ extending_changes(1) wf_promotion safe_redirects(1),
    of "task_id t" "Some (task_version t)" "promotion_command input item" "ie_now ienv"]
  by (simp add: promotion_change_def promoted_def decided_def promotion_command_def)

lemma lineage_ok_promoted:
  assumes "lineage_ok ts is" "find_by ai_id aid is = Some item" "ai_id item = aid"
    "\<And>tid. (aid, tid) \<in> set (lineage ts) \<Longrightarrow> tid = task_id t"
  shows "lineage_ok ts (replace_by ai_id aid (promoted ienv input item t) is)"
proof -
  let ?p = "promoted ienv input item t"
  have "\<exists>i. find_by ai_id k (replace_by ai_id aid ?p is) = Some i \<and> (ai_state i = Promoted \<longrightarrow> ai_promotedTaskId i = Some tid)"
    if "(k, tid) \<in> set (lineage ts)" for k tid
  proof (cases "k = aid")
    case True
    have "ai_id ?p = aid" using assms(3) by simp
    from find_by_replace_same [where key = ai_id, OF this assms(2)] True that assms(4) show ?thesis by auto
  next
    case False
    have "ai_id ?p = aid" using assms(3) by simp
    from find_by_replace_other [where key = ai_id, OF this False] that assms(1) show ?thesis
      by (auto simp: lineage_ok_def)
  qed
  then show ?thesis using assms(1) by (auto simp: lineage_ok_def)
qed

lemma lineage_ok_accepted:
  assumes "lineage_ok ts is" "find_by ai_id aid is = Some item" "ai_state item \<noteq> Promoted"
    "tasks_naming aid ts = []" "task_source t = Some (accepted_source item)"
  shows "lineage_ok (ts @ [t]) is"
proof -
  have "ai_id item = aid" using assms(2) by (auto dest: find_by_SomeD)
  with assms(5) have "lineage [t] = [(aid, task_id t)]" by (simp add: lineage_Cons accepted_source_def)
  moreover have "aid \<notin> fst ` set (lineage ts)" using assms(4) by (simp add: tasks_naming_empty)
  ultimately show ?thesis using assms(1-3) by (auto simp: lineage_ok_def)
qed

lemma accepted_wf:
  assumes "prepare tenv input src s = (Inr u, s)" "t = (if b then completedNow tenv u else u)" "lists s = Inr ls"
  shows "task_wf t \<and> task_listId t \<in> tl_id ` set ls"
proof -
  note u = prepare_InrD [OF assms(1)]
  have "task_wf t" using u assms(2) by (auto simp: completedNow_def task_wf_def)
  moreover have "task_listId t = task_listId u" using assms(2) by (simp add: completedNow_def)
  moreover from u obtain ls' where "lists s = Inr ls'" "task_listId u \<in> tl_id ` set ls'" by blast
  then have "task_listId u \<in> tl_id ` set ls" using assms(3) by simp
  ultimately show ?thesis by simp
qed

lemma store_wf_accepted:
  assumes "store_wf s" "readTasks s = Inr ts" "readTasks s' = Inr (ts @ [t])" "readLists s' = readLists s"
    "task_id t \<notin> task_id ` set ts" "\<And>ls. lists s = Inr ls \<Longrightarrow> task_wf t \<and> task_listId t \<in> tl_id ` set ls"
  shows "store_wf s'"
  using assms(1)
proof (rule store_wfE)
  fix us ls assume w: "readTasks s = Inr us" "lists s = Inr ls" "workspace_wf us ls" "INBOX_TASK_LIST_ID \<in> tl_id ` set ls"
  have "workspace_wf (ts @ [t]) ls"
    using w assms(2,5,6) by (auto simp: workspace_wf_def)
  moreover have "lists s' = Inr ls" using w(2) assms(4) by (simp add: lists_def)
  ultimately show ?thesis using store_wfI [OF assms(3)] w(4) by simp
qed

lemma promotion_step_ok:
  assumes "workspace_ok s" "can_write s" "fresh_ids tenv s"
  shows "workspace_ok (snd (promoteActionItem tenv ienv aid input s))"
  using assms(1)
proof (rule workspace_okE)
  fix ts ls "is" assume r: "readTasks s = Inr ts" "lists s = Inr ls" "readActionItems s = Inr is"
    "items_wf is" "lineage_ok ts is" "store_wf s"
  from assms(2) r(3,1) assms(3) r(4) show ?thesis
  proof (cases rule: promote_cases [where ienv = ienv and aid = aid and input = input])
    case (adopted item t s')
    have id: "ai_id item = aid" using adopted(1) by (auto dest: find_by_SomeD)
    have "tid = task_id t" if "(aid, tid) \<in> set (lineage ts)" for tid
    proof -
      from that obtain u src where "u \<in> set ts" "task_source u = Some src" "ts_actionItemId src = aid" "task_id u = tid"
        unfolding lineage_mem by blast
      then have "u \<in> set (tasks_naming aid ts)" by (simp add: tasks_naming_def)
      with adopted(4) \<open>task_id u = tid\<close> show ?thesis by simp
    qed
    note ok = lineage_ok_promoted [OF r(5) adopted(1) id this, of ienv input]
    from workspace_okI [OF _ adopted(7) _ items_wf_promoted [OF r(4,3) adopted(1)] ok] adopted(6,8) r(1,6)
      store_wf_cong [OF adopted(8,9)] show ?thesis by simp
  next
    case (created item t s')
    have id: "ai_id item = aid" using created(1) by (auto dest: find_by_SomeD)
    have "tid = task_id t" if "(aid, tid) \<in> set (lineage (ts @ [t]))" for tid
    proof -
      have "aid \<notin> fst ` set (lineage ts)" using created(4) by (simp add: tasks_naming_empty)
      with that created(8) id show ?thesis by (auto simp: lineage_Cons accepted_source_def image_iff)
    qed
    note ok = lineage_ok_promoted [OF lineage_ok_accepted [OF r(5) created(1,3,4,8)] created(1) id this, of ienv input]
    have "store_wf s'"
      using created(6) accepted_wf by (intro store_wf_accepted [OF r(6,1) created(10,12,7)]) blast
    from workspace_okI [OF created(10,11) this items_wf_promoted [OF r(4,3) created(1)] ok] created(5) show ?thesis
      by simp
  qed (use assms(1) in simp_all)
qed

lemma interrupted_reads:
  assumes "readBundle s = Inr None" "readBundle s' = Inr None"
  shows "readTasks (interrupted s s') = readTasks s'" "readActionItems (interrupted s s') = readActionItems s"
    "readLists (interrupted s s') = readLists s"
  using assms by (simp_all add: interrupted_def readTasks_def readActionItems_def readLists_def)

lemma interruption_step_ok:
  assumes "workspace_ok s" "can_write s" "fresh_ids tenv s" "readBundle s = Inr None"
    "promoteActionItem tenv ienv aid input s = (Inr r, s')" "pr_created r"
  shows "workspace_ok (interrupted s s')"
  using assms(1)
proof (rule workspace_okE)
  fix ts ls "is" assume w: "readTasks s = Inr ts" "lists s = Inr ls" "readActionItems s = Inr is"
    "items_wf is" "lineage_ok ts is" "store_wf s"
  from assms(2) w(3,1) assms(3) w(4) show ?thesis
  proof (cases rule: promote_cases [where ienv = ienv and aid = aid and input = input])
    case (created item t s'')
    with assms(5) have s: "s'' = s'" by simp
    have "readBundle s' = Inr None" using created(13) assms(4) s by (simp add: next_generation_def)
    note reads = interrupted_reads [OF assms(4) this]
    have "store_wf (interrupted s s')"
      using created(6) accepted_wf reads created(10) s
      by (intro store_wf_accepted [OF w(6,1) _ _ created(7)]) (simp, simp, blast)
    with workspace_okI [OF _ _ _ w(4) lineage_ok_accepted [OF w(5) created(1,3,4,8)]] reads created(10) w(3) s
    show ?thesis by simp
  qed (use assms(5,6) in simp_all)
qed

lemma workspace_step_ok: "workspace_step s s' \<Longrightarrow> workspace_ok s \<Longrightarrow> workspace_ok s'"
  by (erule workspace_stepE)
    (auto intro: owner_step_ok review_step_ok extraction_step_ok promotion_step_ok interruption_step_ok)

lemma workspace_reachable_ok: "workspace_reachable s0 s \<Longrightarrow> workspace_ok s0 \<Longrightarrow> workspace_ok s"
  by (induction rule: workspace_reachable.induct) (auto dest: workspace_step_ok)

end
