(* ===== verification/Samples.thy ===== *)
theory Samples
  imports LinkRuns Workspace
begin

section \<open>A small Workspace\<close>

text \<open>
  Concrete Tasks, Action Items, stores and environments at which the properties of the development
  are applied.
\<close>

definition sample_env :: tasks_env where
  "sample_env = \<lparr>env_now = (\<lambda>i. if i = 0 then ''2026-03-02T09:00:00.000Z'' else ''2026-03-02T09:00:01.000Z''),
     env_hex = ''0a1b2c'', env_isConfirmedPerson = (\<lambda>_. True), env_isGoogleTasksEnabled = True,
     env_isAsanaEnabled = False, env_today = ''2026-03-02''\<rparr>"

definition sample_task :: "string \<Rightarrow> task" where
  "sample_task k = \<lparr>task_version = 1, task_id = k, task_title = ''Send the brief'', task_notes = [],
     task_status = Open, task_dueDate = Some ''2026-03-05'', task_priority = HighPriority,
     task_listId = INBOX_TASK_LIST_ID, task_responsiblePerson = Some Owner, task_destination = LocalOnly,
     task_source = None, task_externalLink = None, task_createdAt = ''2026-03-01T08:00:00.000Z'',
     task_updatedAt = ''2026-03-01T08:00:00.000Z'', task_completedAt = None, task_deletedAt = None\<rparr>"

definition open_task :: task where
  "open_task = sample_task ''task_1''"

definition trashed_task :: task where
  "trashed_task = (sample_task ''task_2'')\<lparr>task_deletedAt := Some ''2026-03-01T10:00:00.000Z''\<rparr>"

definition sample_items_env :: items_env where
  "sample_items_env = \<lparr>ie_now = ''2026-03-02T09:00:02.000Z'', ie_uuid = (\<lambda>i. ''f00d'' @ replicate i (CHR ''e'')),
     ie_ownerProfileId = Some ''owner'', ie_sha = id\<rparr>"

definition sample_source :: action_item_source where
  "sample_source = \<lparr>as_debriefRunId = ''run_1'', as_transcriptId = ''transcript_1'', as_meetingId = None,
     as_reviewOnly = False, as_contextChecksum = None, as_promotion = None\<rparr>"

definition sample_item :: "string \<Rightarrow> action_item" where
  "sample_item k = \<lparr>ai_handoff = None, ai_responsibilityClaim = None, ai_id = k, ai_source = sample_source,
     ai_extractionRevision = 1,
     ai_evidence = \<lparr>ae_responsibleMentionId = None, ae_responsibleSurfaceName = None\<rparr>,
     ai_proposalRevisions = [\<lparr>rv_revision = 1, rv_content = \<lparr>pp_title = ''Book the room'', pp_notes = [],
       pp_dueDate = None, pp_responsiblePerson = Some Owner\<rparr>, rv_origin = LegacyImport None,
       rv_extractionRevision = 1, rv_createdAt = ''2026-03-01T08:00:00.000Z''\<rparr>],
     ai_selectedRevision = 1, ai_reviewedThrough = 1, ai_observations = [], ai_decisions = [],
     ai_reconciliations = [], ai_reconciledInto = None, ai_amendments = [], ai_version = 1, ai_state = Pending,
     ai_promotedTaskId = None, ai_createdAt = ''2026-03-01T08:00:00.000Z'',
     ai_updatedAt = ''2026-03-01T08:00:00.000Z'', ai_decidedAt = None\<rparr>"

definition sample_receipt :: cutover_receipt where
  "sample_receipt = \<lparr>cr_origin = Pristine, cr_workspace = ''w'', cr_fingerprint = ''f'',
     cr_counts = \<lparr>co_legacyRuns = 0, co_receipts = 0, co_tasks = 0, co_actionItems = 0, co_taskLists = 0,
       co_tasksToCreate = 0, co_actionItemsToCreate = 0\<rparr>, cr_completedAt = ''2026-01-01''\<rparr>"

definition bundle_of :: "int \<Rightarrow> task list \<Rightarrow> action_item list \<Rightarrow> task_bundle" where
  "bundle_of g ts is = \<lparr>bd_format = BUNDLE_FORMAT, bd_generation = g, bd_tasks = task_entries ts,
     bd_lists = [], bd_actionItems = is, bd_receipt = sample_receipt\<rparr>"

definition store_at :: "int \<Rightarrow> task list \<Rightarrow> action_item list \<Rightarrow> wstore" where
  "store_at g ts is = \<lparr>ws_snapshot = SnapshotDoc (bundle_json (bundle_of g ts is)),
     ws_tasksFile = FileMissing, ws_listsFile = FileMissing, ws_actionItemsFile = FileMissing\<rparr>"

definition files_of :: "task list \<Rightarrow> action_item list \<Rightarrow> wstore" where
  "files_of ts is = \<lparr>ws_snapshot = NoSnapshot, ws_tasksFile = FileRecords (task_entries ts),
     ws_listsFile = FileMissing, ws_actionItemsFile = FileRecords (item_entries is)\<rparr>"

abbreviation sample_store :: wstore where
  "sample_store \<equiv> store_at 4 [open_task, trashed_task] [sample_item ''ai_1'', sample_item ''ai_2'']"

abbreviation sample_files :: wstore where
  "sample_files \<equiv> files_of [open_task, trashed_task] [sample_item ''ai_1'', sample_item ''ai_2'']"

lemma readBundle_store_at:
  "revised is \<Longrightarrow> 0 \<le> g \<Longrightarrow> g \<le> max_safe_integer \<Longrightarrow> readBundle (store_at g ts is) = Inr (Some (bundle_of g ts is))"
  by (simp add: store_at_def readBundle_def bundle_doc_json bundle_of_def bundle_valid_def)

lemma store_at_reads:
  assumes "revised is" "0 \<le> g" "g \<le> max_safe_integer"
  shows "readTasks (store_at g ts is) = Inr ts" "readActionItems (store_at g ts is) = Inr is"
    "lists (store_at g ts is) = Inr [inbox_list]" "can_write (store_at g ts is) \<longleftrightarrow> g < max_safe_integer"
    "room n (store_at g ts is) \<longleftrightarrow> g + int n \<le> max_safe_integer"
  using readBundle_store_at [OF assms]
  by (simp_all add: read_defs lists_def with_inbox_def can_write_def room_def bundle_of_def)

lemma readBundle_files_of [simp]: "readBundle (files_of ts is) = Inr None"
  by (simp add: files_of_def readBundle_def)

lemma files_of_reads:
  assumes "revised is"
  shows "readTasks (files_of ts is) = Inr ts" "readActionItems (files_of ts is) = Inr is"
    "lists (files_of ts is) = Inr [inbox_list]" "can_write (files_of ts is)"
  using assms
  by (simp_all add: read_defs lists_def with_inbox_def can_write_def files_of_def readBundle_def
      readRecords_entries, simp add: readRecords_def with_inbox_def)

lemma sample_item_wf [simp]: "item_wf (sample_item k)"
  by (simp add: sample_item_def item_wf_def latestProposalRevision_def redirect_of_def currentReconciliation_def)

lemma sample_item_simps [simp]:
  "ai_id (sample_item k) = k" "ai_proposalRevisions (sample_item k) \<noteq> []" "ai_reconciledInto (sample_item k) = None"
  "ai_state (sample_item k) = Pending" "ai_version (sample_item k) = 1" "ai_selectedRevision (sample_item k) = 1"
  "ai_source (sample_item k) = sample_source" "ai_promotedTaskId (sample_item k) = None"
  by (simp_all add: sample_item_def)

lemma sample_task_wf [simp]: "task_wf open_task" "task_wf trashed_task"
  by (simp_all add: open_task_def trashed_task_def sample_task_def task_wf_def trimmed_def is_space_def
      valid_due_date_def date_fields_def is_digit_def digits_value.simps digit_value_def calendar_day_def days_in_month_def)

lemma sample_ids [simp]:
  "task_id open_task = ''task_1''" "task_id trashed_task = ''task_2''"
  "task_version open_task = 1" "task_status open_task = Open" "task_deletedAt open_task = None"
  "task_deletedAt trashed_task = Some ''2026-03-01T10:00:00.000Z''"
  "task_source open_task = None" "task_source trashed_task = None"
  "task_listId open_task = INBOX_TASK_LIST_ID" "task_listId trashed_task = INBOX_TASK_LIST_ID"
  "task_externalLink open_task = None" "task_completedAt open_task = None"
  by (simp_all add: open_task_def trashed_task_def sample_task_def)

lemma sample_reads [simp]:
  "readTasks sample_store = Inr [open_task, trashed_task]"
  "readActionItems sample_store = Inr [sample_item ''ai_1'', sample_item ''ai_2'']"
  "lists sample_store = Inr [inbox_list]" "can_write sample_store" "room 2 sample_store"
  by (simp_all add: store_at_reads max_safe_integer_def)

lemma sample_file_reads [simp]:
  "readTasks sample_files = Inr [open_task, trashed_task]"
  "readActionItems sample_files = Inr [sample_item ''ai_1'', sample_item ''ai_2'']"
  "lists sample_files = Inr [inbox_list]" "can_write sample_files"
  by (simp_all add: files_of_reads)

lemma sample_workspace: "workspace_wf [open_task, trashed_task] [inbox_list]"
  by (simp add: workspace_wf_def inbox_list_def)

lemma sample_new_ids:
  "newId sample_env ''task'' (env_now sample_env (Suc 0)) = ''task_20260302090001000_0a1b2c''"
  "newId sample_env ''list'' (env_now sample_env 0) = ''list_20260302090000000_0a1b2c''"
  by (simp_all add: newId_def stamp_def sample_env_def)

lemma sample_fresh [simp]: "fresh_ids sample_env sample_store" "fresh_ids sample_env sample_files"
  by (simp_all add: fresh_ids_def sample_new_ids inbox_list_def)

lemma sample_store_wf [simp]: "store_wf sample_store" "store_wf sample_files"
  using sample_workspace by (auto simp: inbox_list_def intro!: store_wfI [OF sample_reads(1,3)] store_wfI [OF sample_file_reads(1,3)])

lemma sample_items_wf [simp]: "items_wf [sample_item ''ai_1'', sample_item ''ai_2'']"
proof -
  have "redirects [sample_item ''ai_1'', sample_item ''ai_2''] = {}" by (auto simp: redirects_def)
  then show ?thesis by (simp add: items_wf_def acyclic_def)
qed

lemma sample_workspace_ok [simp]: "workspace_ok sample_store" "workspace_ok sample_files"
  by (auto simp: lineage_ok_def lineage_Cons intro: workspace_okI [OF sample_reads(1,2)] workspace_okI [OF sample_file_reads(1,2)])

end
