(* ===== verification/TaskProperties.thy ===== *)
theory TaskProperties
  imports Samples
begin

section \<open>Properties of the Tasks\<close>

text \<open>
  What the owner's Task commands promise: the invariant every reachable store keeps, what a command
  commits and what a refused one leaves, the round trips, and what the reading operations answer.
\<close>

context edits_one_task begin

lemma unit_refused:
  assumes "can_write s" "readTasks s = Inr ts" "fst (as_unit (run tid) s) = Inl e"
  shows "snd (run tid s) = s"
  using assms(1,2)
proof (rule refusal_keeps_store)
  show "fst (run tid s) = Inl e"
    using assms(3) by (cases "run tid s"; cases "fst (run tid s)") (auto simp: as_unit_def andThen_run)
qed

end

lemmas edits_refused = update_edit.unit_refused complete_edit.unit_refused reopen_edit.unit_refused
  trash_edit.unit_refused restore_edit.unit_refused recordLink_edit.unit_refused
  refreshLink_edit.unit_refused clearLink_edit.unit_refused

text \<open>C5: Every store that the owner's commands reach from a well-formed one is well formed: Task and list
  identities stay unique, every Task has a trimmed title, a real calendar due date, a completion time
  exactly when it is completed and a list that exists, and the Inbox is always there.\<close>

theorem reachable_store_wf: "task_reachable s0 s \<Longrightarrow> store_wf s0 \<Longrightarrow> store_wf s"
  by (rule reachable_wf)

theorem reachable_store_wf_witness: "store_wf (snd (run_command sample_env (Trash ''task_1'') sample_store))"
  by (rule reachable_store_wf [OF task_reachable.step [OF task_reachable.start task_step.command [OF sample_reads(4) sample_fresh(1)]]
      sample_store_wf(1)])

text \<open>C21: A command that is refused changes nothing: whatever the owner asks and whatever the reason of the
  refusal, the store is the one the command found.\<close>

theorem refused_command_changes_nothing:
  assumes "can_write s" "store_wf s" "fst (run_command env c s) = Inl e"
  shows "snd (run_command env c s) = s"
proof -
  from assms(2) obtain ts ls where r: "readTasks s = Inr ts" "lists s = Inr ls" by (rule store_wfE)
  show ?thesis
  proof (cases c)
    case (CreateList name dest)
    with createList_run [OF assms(1) r(2), of env name dest] assms(3) show ?thesis by (auto simp: as_unit_def)
  next
    case (UpdateList lid name dest)
    with updateList_run [OF assms(1) r(2), of env lid name dest] assms(3) show ?thesis by (auto simp: as_unit_def)
  next
    case (DeleteList lid)
    with deleteList_run [OF assms(1) r(2,1), of lid] assms(3) show ?thesis by auto
  next
    case (Capture input src)
    with createTask_run [OF assms(1) r(1), of env input src] assms(3) show ?thesis by (auto simp: as_unit_def)
  next
    case (DeleteForever tid confirmed)
    with deleteForever_run [OF assms(1) r(1), of tid confirmed] assms(3) show ?thesis by auto
  qed (use assms(3) edits_refused [OF assms(1) r(1)] in simp_all)
qed

theorem refused_command_changes_nothing_witness:
  "snd (run_command sample_env (DeleteForever ''task_1'' True) sample_store) = sample_store"
  by (rule refused_command_changes_nothing [where e = "TaskRefused TaskNotInTrash"])
    (simp_all add: deleteForever_def)

subsection \<open>What an edit commits\<close>

lemma edit_commits:
  assumes "can_write s" "readTasks s = Inr ts" "find_by task_id tid ts = Some cur" "change cur s = Inr (Some c)"
  obtains s' where
    "edit env tid change s =
       (Inr (c\<lparr>task_updatedAt := env_now env 1, task_version := task_version cur + 1\<rparr>), s')"
    "readTasks s' = Inr (replace_by task_id tid
       (c\<lparr>task_updatedAt := env_now env 1, task_version := task_version cur + 1\<rparr>) ts)"
    "readLists s' = readLists s" "readActionItems s' = readActionItems s" "next_generation s s'"
proof -
  let ?n = "c\<lparr>task_updatedAt := env_now env 1, task_version := task_version cur + 1\<rparr>"
  let ?ts = "replace_by task_id tid ?n ts"
  show thesis
    using assms(2-4) tasks_table.write_run [OF assms(1), of ?ts] writeTasks_facts [OF assms(1), of ?ts]
    by (intro that [of "snd (writeTasks ?ts s)"]) (simp_all add: edit_def Let_def)
qed

lemma update_never_idle: "update_change env input cur s \<noteq> Inr None"
  by (auto simp: update_change_def andThen_run split: sum.splits prod.splits option.splits)

lemma versioned_edit_InrD:
  assumes "andThen (requireExpectedVersion tid expected) (\<lambda>_. edit env tid change) s = (Inr t, s')" "readTasks s = Inr ts"
  shows "edit env tid change s = (Inr t, s') \<and> (\<exists>cur. find_by task_id tid ts = Some cur \<and> matches expected (task_version cur))"
proof -
  from versioned_InrD [OF assms] have e: "edit env tid change s = (Inr t, s')" .
  then obtain cur where "find_by task_id tid ts = Some cur" using assms(2) by (auto elim!: edit_InrE)
  then show ?thesis
    using assms e by (cases expected) (auto simp: requireExpectedVersion_def andThen_run require_run split: if_splits)
qed

lemma update_commits:
  assumes "can_write s" "readTasks s = Inr ts" "updateTask env tid input expected s = (Inr t, s')"
  obtains cur where "find_by task_id tid ts = Some cur" "matches expected (task_version cur)"
    "readTasks s' = Inr (replace_by task_id tid t ts)" "task_version t = task_version cur + 1" "task_id t = tid"
    "task_source t = task_source cur" "task_createdAt t = task_createdAt cur" "task_status t = task_status cur"
    "task_externalLink t = task_externalLink cur" "task_deletedAt t = task_deletedAt cur"
    "readLists s' = readLists s" "readActionItems s' = readActionItems s" "next_generation s s'"
proof -
  from versioned_edit_InrD [OF assms(3) [unfolded updateTask_def] assms(2)] obtain cur where
    e: "edit env tid (update_change env input) s = (Inr t, s')"
    and cur: "find_by task_id tid ts = Some cur" "matches expected (task_version cur)" by auto
  from e show thesis
  proof (rule edit_InrE)
    fix ts' cur' c assume "readTasks s = Inr ts'" "find_by task_id tid ts' = Some cur'"
      "update_change env input cur' s = Inr (Some c)"
    with assms(2) cur(1) have c: "update_change env input cur s = Inr (Some c)" by simp
    note u = update_change_InrD [OF c]
    from assms(1,2) cur(1) c obtain s'' where
      "edit env tid (update_change env input) s =
         (Inr (c\<lparr>task_updatedAt := env_now env 1, task_version := task_version cur + 1\<rparr>), s'')"
      "readTasks s'' = Inr (replace_by task_id tid
         (c\<lparr>task_updatedAt := env_now env 1, task_version := task_version cur + 1\<rparr>) ts)"
      "readLists s'' = readLists s" "readActionItems s'' = readActionItems s" "next_generation s s''"
      by (rule edit_commits)
    with e u cur show thesis by (intro that [OF cur]) (auto simp: same_record_def dest: find_by_SomeD)
  qed (simp add: update_never_idle)
qed

text \<open>An update commits exactly one Task: the answered Task is the stored one, one version later, with the
  identity, the source, the status and the creation time it had; every other Task, the lists and the Action
  Items stay as they were.\<close>

theorem update_commits_one_task:
  assumes "can_write s" "readTasks s = Inr ts" "updateTask env tid input expected s = (Inr t, s')"
  shows "\<exists>cur. find_by task_id tid ts = Some cur \<and> matches expected (task_version cur)
    \<and> readTasks s' = Inr (replace_by task_id tid t ts)
    \<and> task_version t = task_version cur + 1 \<and> task_id t = tid \<and> task_source t = task_source cur
    \<and> task_status t = task_status cur \<and> task_createdAt t = task_createdAt cur
    \<and> readLists s' = readLists s \<and> readActionItems s' = readActionItems s"
  using update_commits [OF assms] by metis

text \<open>An update that renames a Task and clears its due date.\<close>

definition sample_update :: task_update_input where
  "sample_update = \<lparr>ui_title = JStr '' Send it'', ui_notes = Undefined, ui_dueDate = JNull,
     ui_priority = Undefined, ui_listId = None, ui_responsiblePerson = Undefined\<rparr>"

lemma sample_update_change:
  "update_change sample_env sample_update t s = Inr (Some (t\<lparr>task_title := ''Send it'', task_dueDate := None\<rparr>))"
  by (simp add: update_change_def sample_update_def or_undefined_def requireTitle_def requireDueDate_def
      trim_def is_space_def Let_def)

lemma sample_update_run:
  obtains t s' where "updateTask sample_env ''task_1'' sample_update (Some 1) sample_store = (Inr t, s')"
    "task_title t = ''Send it''" "can_write s'"
proof -
  let ?t = "open_task\<lparr>task_title := ''Send it'', task_dueDate := None, task_updatedAt := env_now sample_env 1,
    task_version := task_version open_task + 1\<rparr>"
  have f: "find_by task_id ''task_1'' [open_task, trashed_task] = Some open_task" by simp
  obtain s' where s: "edit sample_env ''task_1'' (update_change sample_env sample_update) sample_store = (Inr ?t, s')"
      "next_generation sample_store s'"
    by (rule edit_commits [OF sample_reads(4,1) f sample_update_change])
  then have "updateTask sample_env ''task_1'' sample_update (Some 1) sample_store = (Inr ?t, s')"
    by (simp add: updateTask_def requireExpectedVersion_def)
  moreover have "can_write s'"
    using room_next [of 1 sample_store s'] s(2) sample_reads(5) by (simp add: can_write_room numeral_2_eq_2)
  ultimately show thesis by (intro that) auto
qed

theorem update_commits_one_task_witness:
  "\<exists>t s'. updateTask sample_env ''task_1'' sample_update (Some 1) sample_store = (Inr t, s')
     \<and> readTasks s' = Inr [t, trashed_task] \<and> task_version t = 2"
proof -
  obtain t s' where u: "updateTask sample_env ''task_1'' sample_update (Some 1) sample_store = (Inr t, s')"
    by (rule sample_update_run)
  from update_commits_one_task [OF sample_reads(4,1) u] u show ?thesis by auto
qed

text \<open>C35: No update is lost: when an edit that named the version it had read has committed, a second edit that
  names the same version is refused as a conflict and changes nothing.\<close>

theorem no_lost_update:
  assumes "can_write s" "updateTask env tid input (Some v) s = (Inr t, s')"
  shows "updateTask env' tid input' (Some v) s' = (Inl (TaskRefused TaskVersionConflict), s')"
proof -
  obtain ts where ts: "readTasks s = Inr ts"
    using assms(2) by (cases "readTasks s") (auto simp: updateTask_def requireExpectedVersion_def andThen_run)
  from assms(1) ts assms(2) show ?thesis
  proof (rule update_commits)
    fix cur assume c: "find_by task_id tid ts = Some cur" "matches (Some v) (task_version cur)"
      "readTasks s' = Inr (replace_by task_id tid t ts)" "task_version t = task_version cur + 1" "task_id t = tid"
    from find_by_replace_same [where key = task_id, OF c(5,1)] c(2-4) show ?thesis
      by (simp add: updateTask_def requireExpectedVersion_def)
  qed
qed

theorem no_lost_update_witness:
  "\<exists>t s'. updateTask sample_env ''task_1'' sample_update (Some 1) sample_store = (Inr t, s')
     \<and> updateTask sample_env ''task_1'' sample_update (Some 1) s' = (Inl (TaskRefused TaskVersionConflict), s')"
proof -
  obtain t s' where u: "updateTask sample_env ''task_1'' sample_update (Some 1) sample_store = (Inr t, s')"
    by (rule sample_update_run)
  from no_lost_update [OF sample_reads(4) u] u show ?thesis by auto
qed

subsection \<open>Round trips\<close>

lemma replace_by_twice [simp]: "replace_by key k n (replace_by key k m xs) = replace_by key k n xs" if "key m = k"
  using that by (induction xs) auto

text \<open>Two edits of one Task, the second undoing the first.\<close>

lemma edit_twice:
  assumes "room 2 s" "readTasks s = Inr ts" "find_by task_id tid ts = Some cur"
    and "change cur s = Inr (Some c)" "task_id c = task_id cur"
    and undo: "\<And>s1. undo (c\<lparr>task_updatedAt := env_now env 1, task_version := task_version cur + 1\<rparr>) s1 =
      Inr (Some (cur\<lparr>task_updatedAt := env_now env 1, task_version := task_version cur + 1\<rparr>))"
  shows "\<exists>s'. andThen (edit env tid change) (\<lambda>_. edit env' tid undo) s =
      (Inr (cur\<lparr>task_updatedAt := env_now env' 1, task_version := task_version cur + 2\<rparr>), s')
    \<and> readTasks s' = Inr (replace_by task_id tid
      (cur\<lparr>task_updatedAt := env_now env' 1, task_version := task_version cur + 2\<rparr>) ts)"
proof -
  let ?c = "c\<lparr>task_updatedAt := env_now env 1, task_version := task_version cur + 1\<rparr>"
  let ?u = "cur\<lparr>task_updatedAt := env_now env 1, task_version := task_version cur + 1\<rparr>"
  have w: "can_write s" using assms(1) by (simp add: room_can_write numeral_2_eq_2)
  obtain s1 where one: "edit env tid change s = (Inr ?c, s1)"
      "readTasks s1 = Inr (replace_by task_id tid ?c ts)" "next_generation s s1"
    by (rule edit_commits [where change = change, OF w assms(2-4)])
  have id: "task_id ?c = tid" using assms(3,5) by (auto dest: find_by_SomeD)
  have w1: "can_write s1" using room_next [of 1 s s1] assms(1) one(3) by (simp add: can_write_room numeral_2_eq_2)
  obtain s2 where two: "edit env' tid undo s1 =
        (Inr (?u\<lparr>task_updatedAt := env_now env' 1, task_version := task_version ?c + 1\<rparr>), s2)"
      "readTasks s2 = Inr (replace_by task_id tid
        (?u\<lparr>task_updatedAt := env_now env' 1, task_version := task_version ?c + 1\<rparr>) (replace_by task_id tid ?c ts))"
    by (rule edit_commits [where change = undo, OF w1 one(2) find_by_replace_same [where key = task_id, OF id assms(3)] undo])
  show ?thesis using one(1) two id by (intro exI [of _ s2]) (simp add: add.commute)
qed

text \<open>Completing an open Task and reopening it gives the Task back as it was, content, list, link and
  position in the store included; only its version and its modification time have moved.\<close>

theorem complete_then_reopen:
  assumes "room 2 s" "readTasks s = Inr ts" "find_by task_id tid ts = Some cur" "task_status cur = Open"
    "task_completedAt cur = None"
  shows "\<exists>s'. andThen (completeTask env tid None) (\<lambda>_. reopenTask env' tid) s =
      (Inr (cur\<lparr>task_updatedAt := env_now env' 1, task_version := task_version cur + 2\<rparr>), s')
    \<and> readTasks s' = Inr (replace_by task_id tid
      (cur\<lparr>task_updatedAt := env_now env' 1, task_version := task_version cur + 2\<rparr>) ts)"
proof -
  have run: "completeTask env tid None = edit env tid (\<lambda>t s.
       Inr (if task_status t = Completed then None
            else Some (t\<lparr>task_status := Completed, task_completedAt := Some (env_now env 0)\<rparr>)))"
    by (simp add: completeTask_def requireExpectedVersion_def andThen_def)
  show ?thesis unfolding run reopenTask_def
    by (rule edit_twice [OF assms(1-3), where c = "cur\<lparr>task_status := Completed, task_completedAt := Some (env_now env 0)\<rparr>"])
      (use assms(4,5) in auto)
qed

theorem complete_then_reopen_witness:
  "\<exists>s'. andThen (completeTask sample_env ''task_1'' None) (\<lambda>_. reopenTask sample_env ''task_1'') sample_store =
      (Inr (open_task\<lparr>task_updatedAt := env_now sample_env 1, task_version := 3\<rparr>), s')"
  using complete_then_reopen [OF sample_reads(5,1), of "''task_1''" open_task sample_env sample_env] by auto

text \<open>Moving a Task to Trash and restoring it gives the Task back as it was; only its version and its
  modification time have moved, so a completed Task comes back completed.\<close>

theorem trash_then_restore:
  assumes "room 2 s" "readTasks s = Inr ts" "find_by task_id tid ts = Some cur" "task_deletedAt cur = None"
  shows "\<exists>s'. andThen (trashTask env tid) (\<lambda>_. restoreTask env' tid) s =
      (Inr (cur\<lparr>task_updatedAt := env_now env' 1, task_version := task_version cur + 2\<rparr>), s')
    \<and> readTasks s' = Inr (replace_by task_id tid
      (cur\<lparr>task_updatedAt := env_now env' 1, task_version := task_version cur + 2\<rparr>) ts)"
  unfolding trashTask_def restoreTask_def
  by (rule edit_twice [OF assms(1-3), where c = "cur\<lparr>task_deletedAt := Some (env_now env 0)\<rparr>"])
    (use assms(4) in auto)

theorem trash_then_restore_witness:
  "\<exists>s'. andThen (trashTask sample_env ''task_1'') (\<lambda>_. restoreTask sample_env ''task_1'') sample_store =
      (Inr (open_task\<lparr>task_updatedAt := env_now sample_env 1, task_version := 3\<rparr>), s')"
  using trash_then_restore [OF sample_reads(5,1), of "''task_1''" open_task sample_env sample_env] by auto

text \<open>A Task is destroyed only from Trash and only with the owner's confirmation, and then nothing else is:
  the remaining Tasks keep their order and their content.\<close>

theorem deleted_forever_only_from_trash:
  assumes "can_write s" "readTasks s = Inr ts"
  shows "(fst (deleteForever tid confirmed s) = Inr () \<longleftrightarrow>
      confirmed \<and> (\<exists>t. find_by task_id tid ts = Some t \<and> task_deletedAt t \<noteq> None))
    \<and> readTasks (snd (deleteForever tid confirmed s)) =
      Inr (if fst (deleteForever tid confirmed s) = Inr () then filter (\<lambda>t. task_id t \<noteq> tid) ts else ts)"
proof -
  have "fst (deleteForever tid confirmed s) = Inr ()"
    if "confirmed" "find_by task_id tid ts = Some t" "task_deletedAt t \<noteq> None" for t
    using that assms(2) writeTasks_facts(1) [OF assms(1)] by (auto simp: deleteForever_def)
  moreover from deleteForever_run [OF assms, of tid confirmed] assms(2)
  have "readTasks (snd (deleteForever tid confirmed s)) =
      Inr (if fst (deleteForever tid confirmed s) = Inr () then filter (\<lambda>t. task_id t \<noteq> tid) ts else ts)"
    and "fst (deleteForever tid confirmed s) = Inr () \<Longrightarrow>
      confirmed \<and> (\<exists>t. find_by task_id tid ts = Some t \<and> task_deletedAt t \<noteq> None)"
    by auto
  ultimately show ?thesis by blast
qed

theorem deleted_forever_only_from_trash_witness:
  "fst (deleteForever ''task_2'' True sample_store) = Inr ()
   \<and> readTasks (snd (deleteForever ''task_2'' True sample_store)) = Inr [open_task]"
  using deleted_forever_only_from_trash [OF sample_reads(4,1), of "''task_2''" True] by simp

text \<open>A list is deleted exactly when it exists, is not the Inbox and no Task is filed in it, Tasks in Trash
  included, so that a restored Task always finds its list.\<close>

theorem list_deleted_only_when_empty:
  assumes "can_write s" "lists s = Inr ls" "readTasks s = Inr ts"
  shows "fst (deleteList lid s) = Inr () \<longleftrightarrow>
    lid \<noteq> INBOX_TASK_LIST_ID \<and> lid \<in> tl_id ` set ls \<and> (\<forall>t \<in> set ts. task_listId t \<noteq> lid)"
proof -
  have "fst (deleteList lid s) = Inr ()"
    if "lid \<noteq> INBOX_TASK_LIST_ID" "lid \<in> tl_id ` set ls" "\<forall>t \<in> set ts. task_listId t \<noteq> lid"
    using that assms(2,3) writeLists_facts(1) [OF assms(1)] by (simp add: deleteList_def filter_empty_conv)
  with deleteList_run [OF assms, of lid] show ?thesis by auto
qed

theorem list_deleted_only_when_empty_witness:
  "fst (deleteList ''list_9'' sample_store) \<noteq> Inr ()"
  using list_deleted_only_when_empty [OF sample_reads(4,3,1), of "''list_9''"] by (simp add: inbox_list_def)

subsection \<open>What the reading operations answer\<close>

lemma sameResponsiblePerson_eq: "sameResponsiblePerson a b \<longleftrightarrow> a = b"
  by (cases "(a, b)" rule: sameResponsiblePerson.cases) auto

text \<open>A due date is accepted exactly when it is written as four, two and two digits and names a day of the
  calendar, leap years included; what is accepted is stored unchanged.\<close>

theorem due_date_is_a_calendar_day:
  "requireDueDate v = Inr (Some d) \<longleftrightarrow> v = JStr d \<and> (\<exists>f. date_fields d = Some f \<and> calendar_day f)"
proof (cases v)
  case (JStr s)
  then show ?thesis
    by (auto simp: requireDueDate_Str valid_due_date_def split: option.splits if_splits)
qed (auto simp: requireDueDate_def)

text \<open>A Task with a real due date is overdue, due today or upcoming exactly as its day lies before, on or after
  today in the calendar, although the code compares the two dates as strings.\<close>

theorem grouped_by_calendar_day:
  assumes "task_dueDate t = Some d" "date_fields d = Some f" "date_fields today = Some g"
  shows "taskGroupOf t today = (if day_less f g then Overdue else if f = g then DueToday else Upcoming)"
  using assms date_string_less [OF assms(2,3)] date_string_eq [OF assms(2,3)] by (simp add: taskGroupOf_def)

theorem grouped_by_calendar_day_witness: "taskGroupOf open_task ''2026-03-10'' = Overdue"
proof -
  have f: "date_fields ''2026-03-05'' = Some (2026, 3, 5)" "date_fields ''2026-03-10'' = Some (2026, 3, 10)"
    by (simp_all add: date_fields_def is_digit_def digit_value_def)
  have "task_dueDate open_task = Some ''2026-03-05''" by (simp add: open_task_def sample_task_def)
  from grouped_by_calendar_day [OF this f] show ?thesis by (simp add: day_less_def)
qed

text \<open>Grouping loses and repeats no Task: the four groups together hold the Tasks that went in, each group holds
  exactly the Tasks of its kind, and each is in the order of the Task list.\<close>

theorem groups_partition_the_tasks:
  "mset (tg_overdue (groupTasks ts today) @ tg_today (groupTasks ts today)
       @ tg_upcoming (groupTasks ts today) @ tg_noDueDate (groupTasks ts today)) = mset ts
   \<and> group_list (groupTasks ts today) k = js_sort compareTasks (filter (\<lambda>t. taskGroupOf t today = k) ts)"
proof -
  let ?g = "\<lambda>k. filter_mset (\<lambda>t. taskGroupOf t today = k) (mset ts)"
  have part: "M = filter_mset (\<lambda>t. taskGroupOf t today = Overdue) M + filter_mset (\<lambda>t. taskGroupOf t today = DueToday) M
      + filter_mset (\<lambda>t. taskGroupOf t today = Upcoming) M + filter_mset (\<lambda>t. taskGroupOf t today = NoDueDate) M" for M
  proof (induction M)
    case (add t M)
    then show ?case by (cases "taskGroupOf t today") auto
  qed simp
  have "mset (group_list (groupTasks ts today) k) = ?g k" for k by (simp add: groupTasks_filter)
  from this [of Overdue] this [of DueToday] this [of Upcoming] this [of NoDueDate] part [of "mset ts", symmetric]
  show ?thesis by (simp add: add.assoc group_list_def groupTasks_filter [unfolded group_list_def])
qed

text \<open>A listing answers exactly the Tasks that match the query, each once, ordered by due date, priority,
  creation time and identity.\<close>

theorem listing_sorted_and_complete:
  assumes "readTasks s = Inr ts"
  shows "\<exists>r. listTasks q s = Inr r \<and> sorted_wrt (\<lambda>a b. compareTasks a b \<le> 0) r
    \<and> mset r = filter_mset (query_matches q) (mset ts)"
  using assms task_order.sorted_js_sort by (simp add: listTasks_def map_result_def)

theorem listing_sorted_and_complete_witness:
  "\<exists>r. listTasks any_task sample_store = Inr r \<and> sorted_wrt (\<lambda>a b. compareTasks a b \<le> 0) r"
  using listing_sorted_and_complete [OF sample_reads(1), of any_task] by blast

text \<open>The order of a listing does not depend on the order in which the Tasks are stored: two stores with the same
  Tasks answer every query with the same list.\<close>

theorem listing_ignores_storage_order:
  assumes "readTasks s = Inr ts" "readTasks s' = Inr ts'" "mset ts = mset ts'" "distinct (map task_id ts)"
  shows "listTasks q s = listTasks q s'"
proof -
  have "js_sort compareTasks (filter (query_matches q) ts) = js_sort compareTasks (filter (query_matches q) ts')"
    using assms(3,4) by (intro task_order.js_sort_order_irrelevant) (simp_all add: distinct_map_filter)
  with assms(1,2) show ?thesis by (simp add: listTasks_def map_result_def)
qed

theorem listing_ignores_storage_order_witness:
  "listTasks any_task sample_store = listTasks any_task (store_at 9 [trashed_task, open_task] [])"
  by (rule listing_ignores_storage_order [OF sample_reads(1) store_at_reads(1)])
    (simp_all add: max_safe_integer_def add_mset_commute)

text \<open>The duplicates offered for a candidate are exactly the open Tasks outside Trash with the same title up to
  case and spacing, the same due date and the same responsible person, an unnamed person meaning the owner.\<close>

theorem duplicates_are_exact:
  assumes "readTasks s = Inr ts" "requireTitle (dc_title c) = Inr title"
    "requireDueDate (nullish (dc_dueDate c) JNull) = Inr due"
  shows "\<exists>ds. findDuplicates c s = (Inr ds, s) \<and> set ds = {t \<in> set ts. task_status t = Open
    \<and> task_deletedAt t = None \<and> task_dueDate t = due \<and> normalizedTitle (task_title t) = normalizedTitle title
    \<and> task_responsiblePerson t = or_else (dc_responsiblePerson c) (Some Owner)}"
  using assms
  by (auto simp: findDuplicates_def Let_def is_duplicate_def sameResponsiblePerson_eq or_else_def split: option.split)

definition sample_candidate :: task_duplicate_candidate where
  "sample_candidate = \<lparr>dc_title = JStr ''  send  THE brief'', dc_dueDate = JStr ''2026-03-05'', dc_responsiblePerson = None\<rparr>"

theorem duplicates_are_exact_witness:
  "\<exists>ds. findDuplicates sample_candidate sample_store = (Inr ds, sample_store) \<and> set ds = {open_task}"
proof -
  have d: "requireDueDate (nullish (dc_dueDate sample_candidate) JNull) = Inr (Some ''2026-03-05'')"
    by (simp add: sample_candidate_def requireDueDate_Str valid_due_date_def date_fields_def is_digit_def digit_value_def
        calendar_day_def days_in_month_def)
  have t: "requireTitle (dc_title sample_candidate) = Inr ''send  THE brief''"
    by (simp add: sample_candidate_def requireTitle_def trim_def is_space_def)
  have n: "normalizedTitle ''send  THE brief'' = normalizedTitle ''Send the brief''" by code_simp
  have o: "task_dueDate open_task = Some ''2026-03-05''" "task_title open_task = ''Send the brief''"
    "task_responsiblePerson open_task = Some Owner" by (simp_all add: open_task_def sample_task_def)
  have p: "or_else (dc_responsiblePerson sample_candidate) (Some Owner) = Some Owner" by (simp add: sample_candidate_def)
  from duplicates_are_exact [OF sample_reads(1) t d] obtain ds where
    ds: "findDuplicates sample_candidate sample_store = (Inr ds, sample_store)"
    and set: "set ds = {t \<in> set [open_task, trashed_task]. task_status t = Open \<and> task_deletedAt t = None
      \<and> task_dueDate t = Some ''2026-03-05'' \<and> normalizedTitle (task_title t) = normalizedTitle ''send  THE brief''
      \<and> task_responsiblePerson t = Some Owner}" unfolding p by blast
  have "x \<in> set ds \<longleftrightarrow> x = open_task" for x
  proof (cases "x = open_task \<or> x = trashed_task")
    case True
    then show ?thesis unfolding set mem_Collect_eq by (elim disjE) (simp_all add: o n, metis option.distinct(1) sample_ids(5,6))
  next
    case False
    then show ?thesis unfolding set mem_Collect_eq by simp
  qed
  then have "set ds = {open_task}" by blast
  with ds show ?thesis by blast
qed

end
