(* ===== verification/StoreForms.thy ===== *)
theory StoreForms
  imports Promotion MaterializeFacts
begin

section \<open>The two forms of the store\<close>

text \<open>
  The Workspace keeps its records either in one snapshot or in three files.  The abstract store is the
  three tables a reader sees; every operation of the product is a function of them, so the two forms
  answer alike and stay alike.
\<close>

type_synonym tables = "(ws_error + task list) \<times> (ws_error + task_list list) \<times> (ws_error + action_item list)"

definition tables :: "wstore \<Rightarrow> tables" where
  "tables s = (readTasks s, readLists s, readActionItems s)"

definition agree :: "wstore \<Rightarrow> wstore \<Rightarrow> bool" where
  "agree s s' \<longleftrightarrow> tables s = tables s' \<and> can_write s \<and> can_write s'"

text \<open>An operation that only reads, and one that writes at most once, at its end.\<close>

definition reading :: "(wstore, 'e, 'a) cmd \<Rightarrow> bool" where
  "reading m \<longleftrightarrow> (\<forall>s. snd (m s) = s) \<and> (\<forall>s s'. tables s = tables s' \<longrightarrow> fst (m s) = fst (m s'))"

definition abstracts :: "(wstore, 'e, 'a) cmd \<Rightarrow> bool" where
  "abstracts m \<longleftrightarrow> (\<forall>s s'. agree s s' \<longrightarrow> fst (m s) = fst (m s') \<and> tables (snd (m s)) = tables (snd (m s')))"

named_theorems form_intros \<open>operations that are functions of the tables\<close>

lemma agreeD: "agree s s' \<Longrightarrow> tables s = tables s'" by (simp add: agree_def)

lemma reading_run: "reading m \<Longrightarrow> m s = (fst (m s), s)"
  unfolding reading_def by (metis prod.collapse)

lemma reading_cong: "reading m \<Longrightarrow> tables s = tables s' \<Longrightarrow> fst (m s) = fst (m s')"
  unfolding reading_def by blast

lemmas readingD = reading_run reading_cong

lemma tables_eqD:
  assumes "tables s = tables s'"
  shows "readTasks s = readTasks s'" "readLists s = readLists s'" "readActionItems s = readActionItems s'"
  using assms by (simp_all add: tables_def)

lemma reading_ret [form_intros]: "reading (ret x)" by (simp add: reading_def)
lemma reading_throw [form_intros]: "reading (throw e)" by (simp add: reading_def)
lemma reading_check [form_intros]: "reading (check r)" by (simp add: reading_def)
lemma reading_require [form_intros]: "reading (require b e)" by (simp add: reading_def require_run)

lemma reading_query: "(\<And>s s'. tables s = tables s' \<Longrightarrow> q s = q s') \<Longrightarrow> reading (query q)"
  unfolding reading_def query_run fst_conv snd_conv by blast

lemma reading_queries [form_intros]:
  "reading (query readTasks)" "reading (query readLists)" "reading (query readActionItems)" "reading (query lists)"
  "reading (query (getList lid))" "reading (query (getTask tid))" "reading (query (getItem aid))"
  "reading (query (listTasks tq))" "reading (query (listItems iq))"
proof -
  have q: "readTasks s = readTasks s'" "readLists s = readLists s'" "readActionItems s = readActionItems s'"
    "lists s = lists s'" if "tables s = tables s'" for s s'
    using tables_eqD [OF that] by (simp_all add: lists_def)
  show "reading (query readTasks)" "reading (query readLists)" "reading (query readActionItems)" "reading (query lists)"
    by (rule reading_query, erule q)+
  show "reading (query (getList lid))" by (rule reading_query) (simp only: getList_def, drule q(4), simp)
  show "reading (query (getTask tid))" "reading (query (listTasks tq))"
    by (rule reading_query, drule q(1), simp only: getTask_def listTasks_def)+
  show "reading (query (getItem aid))" "reading (query (listItems iq))"
    by (rule reading_query, drule q(3), simp only: getItem_def listItems_def)+
qed

lemma reading_andThen [form_intros]:
  assumes "reading m" "\<And>x. reading (f x)"
  shows "reading (andThen m f)"
  unfolding reading_def
proof (intro conjI allI impI)
  fix s
  show "snd (andThen m f s) = s"
    using readingD(1) [OF assms(1), of s] assms(2) by (cases "fst (m s)") (auto simp: andThen_run reading_def)
next
  fix s s' assume t: "tables s = tables s'"
  from readingD(2) [OF assms(1) t] readingD(1) [OF assms(1), of s] readingD(1) [OF assms(1), of s'] readingD(2) [OF assms(2) t]
  show "fst (andThen m f s) = fst (andThen m f s')" by (cases "fst (m s)") (auto simp: andThen_run split: prod.splits)
qed

lemma reading_option [form_intros]:
  "reading m \<Longrightarrow> (\<And>x. reading (f x)) \<Longrightarrow> reading (case v of None \<Rightarrow> m | Some x \<Rightarrow> f x)" by (cases v) simp_all
lemma reading_if [form_intros]: "reading m \<Longrightarrow> reading n \<Longrightarrow> reading (if b then m else n)" by simp
lemma reading_let [form_intros]: "(\<And>y. reading (f y)) \<Longrightarrow> reading (let y = x in f y)" by simp
lemma abstracts_option [form_intros]:
  "abstracts m \<Longrightarrow> (\<And>x. abstracts (f x)) \<Longrightarrow> abstracts (case v of None \<Rightarrow> m | Some x \<Rightarrow> f x)" by (cases v) simp_all
lemma abstracts_if [form_intros]: "abstracts m \<Longrightarrow> abstracts n \<Longrightarrow> abstracts (if b then m else n)" by simp
lemma abstracts_let [form_intros]: "(\<And>y. abstracts (f y)) \<Longrightarrow> abstracts (let y = x in f y)" by simp
lemma abstracts_pair [form_intros]: "(\<And>a b. abstracts (f a b)) \<Longrightarrow> abstracts (case p of (a, b) \<Rightarrow> f a b)" by (cases p) simp
lemma abstracts_list [form_intros]:
  "abstracts m \<Longrightarrow> (\<And>x xs. abstracts (f x xs)) \<Longrightarrow> abstracts (case v of [] \<Rightarrow> m | x # xs \<Rightarrow> f x xs)" by (cases v) simp_all
lemma abstracts_bool [form_intros]: "abstracts m \<Longrightarrow> abstracts n \<Longrightarrow> abstracts (case b of True \<Rightarrow> m | False \<Rightarrow> n)"
  by (cases b) simp_all

lemma abstracts_reading: "reading m \<Longrightarrow> abstracts m"
  unfolding abstracts_def agree_def by (metis reading_run reading_cong snd_conv)

lemmas abstracts_plain [form_intros] =
  abstracts_reading [OF reading_ret] abstracts_reading [OF reading_throw]

lemma abstracts_after_reading [form_intros]:
  assumes "reading m" "\<And>x. abstracts (f x)"
  shows "abstracts (andThen m f)"
  unfolding abstracts_def
proof (intro allI impI)
  fix s s' assume a: "agree s s'"
  from readingD(1) [OF assms(1), of s] readingD(1) [OF assms(1), of s'] readingD(2) [OF assms(1) agreeD [OF a]]
  have m: "m s = (fst (m s), s)" "m s' = (fst (m s), s')" by simp_all
  show "fst (andThen m f s) = fst (andThen m f s') \<and> tables (snd (andThen m f s)) = tables (snd (andThen m f s'))"
  proof (cases "fst (m s)")
    case (Inl e)
    with m agreeD [OF a] show ?thesis by (simp add: andThen_Inl)
  next
    case (Inr x)
    with m have "andThen m f s = f x s" "andThen m f s' = f x s'" by (simp_all add: andThen_Inr)
    with assms(2) [of x] a show ?thesis by (simp add: abstracts_def)
  qed
qed

lemma abstracts_before_reading [form_intros]:
  assumes "abstracts m" "\<And>x. reading (f x)"
  shows "abstracts (andThen m f)"
  unfolding abstracts_def
proof (intro allI impI)
  fix s s' assume a: "agree s s'"
  from assms(1) a have m: "fst (m s') = fst (m s)" "tables (snd (m s)) = tables (snd (m s'))" by (simp_all add: abstracts_def)
  obtain r t t' where p: "m s = (r, t)" "m s' = (r, t')" using m(1) by (metis prod.collapse)
  with m(2) have t: "tables t = tables t'" by simp
  show "fst (andThen m f s) = fst (andThen m f s') \<and> tables (snd (andThen m f s)) = tables (snd (andThen m f s'))"
  proof (cases r)
    case (Inl e)
    with p t show ?thesis by (simp add: andThen_Inl)
  next
    case (Inr x)
    with p have "andThen m f s = f x t" "andThen m f s' = f x t'" by (simp_all add: andThen_Inr)
    with readingD [OF assms(2) [of x]] t show ?thesis by (metis snd_conv)
  qed
qed

lemma abstracts_writes [form_intros]:
  "abstracts (writeTasks ts)" "abstracts (writeLists ls)"
  "revised is \<Longrightarrow> abstracts (writeActionItems is)" "revised is \<Longrightarrow> abstracts (commitAcceptance ts is)"
proof -
  show "abstracts (writeTasks ts)" "abstracts (writeLists ls)"
    by (simp_all add: abstracts_def agree_def tables_def writeTasks_facts writeLists_facts)
  assume r: "revised is"
  show "abstracts (writeActionItems is)" using r by (simp add: abstracts_def agree_def tables_def writeActionItems_facts)
  have "fst (commitAcceptance ts is s) = Inr () \<and> tables (snd (commitAcceptance ts is s)) = (Inr ts, readLists s, Inr is)"
    if "can_write s" for s
    using commitAcceptance_spec [OF that r, of ts] by (auto simp: tables_def)
  then show "abstracts (commitAcceptance ts is)" by (simp add: abstracts_def agree_def) (simp add: tables_def)
qed


text \<open>A write that depends on what was read: the continuation only has to be a function of the tables for the answers
  the reading can give.\<close>

lemma abstracts_reading_then:
  assumes "reading m" "\<And>s x. fst (m s) = Inr x \<Longrightarrow> abstracts (f x)"
  shows "abstracts (andThen m f)"
  unfolding abstracts_def
proof (intro allI impI)
  fix s s' assume a: "agree s s'"
  have m: "m s = (fst (m s), s)" "m s' = (fst (m s), s')"
    using reading_run [OF assms(1), of s] reading_run [OF assms(1), of s'] reading_cong [OF assms(1) agreeD [OF a]] by simp_all
  show "fst (andThen m f s) = fst (andThen m f s') \<and> tables (snd (andThen m f s)) = tables (snd (andThen m f s'))"
  proof (cases "fst (m s)")
    case (Inl e)
    with m agreeD [OF a] show ?thesis by (simp add: andThen_Inl)
  next
    case (Inr x)
    with m have "andThen m f s = f x s" "andThen m f s' = f x s'" by (simp_all add: andThen_Inr)
    with assms(2) [OF Inr] a show ?thesis by (simp add: abstracts_def)
  qed
qed

lemma abstracts_reading_items:
  "(\<And>is. revised is \<Longrightarrow> abstracts (f is)) \<Longrightarrow> abstracts (andThen (query readActionItems) f)"
  by (rule abstracts_reading_then [OF reading_queries(3)]) (simp add: readActionItems_revised)

subsection \<open>The owner's commands\<close>

lemma reading_change_const: "reading (query (\<lambda>s. x))" by (rule reading_query) simp

lemma abstracts_edit:
  assumes "\<And>t. reading (query (change t))"
  shows "abstracts (edit env tid change)"
  unfolding edit_def Let_def by (intro form_intros assms abstracts_writes)

lemma reading_run_result: "reading m \<Longrightarrow> reading (query (\<lambda>s. fst (m s)))"
  by (rule reading_query) (rule reading_cong)

lemma reading_expected: "reading (requireExpectedVersion tid expected)"
  unfolding requireExpectedVersion_def by (intro form_intros)

lemma reading_prepare: "reading (prepare env input src)"
  unfolding prepare_def by (intro form_intros)

lemma reading_update_change: "reading (query (update_change env input t))"
  unfolding update_change_def by (intro reading_run_result form_intros)

lemma abstracts_run_command: "abstracts (run_command env c)"
proof -
  have u: "abstracts (as_unit m)" if "abstracts m" for m :: "(wstore, ws_error, 'a) cmd"
    unfolding as_unit_def by (intro form_intros that)
  have e: "abstracts (edit env tid (\<lambda>t s. f t))" for tid f
    by (intro abstracts_edit reading_change_const)
  show ?thesis
    by (cases c; simp only: run_command.simps createList_def updateList_def deleteList_def createTask_def updateTask_def
        completeTask_def reopenTask_def trashTask_def restoreTask_def deleteForever_def recordExternalLink_def
        refreshExternalLink_def clearExternalLink_def Let_def)
      (intro u form_intros e abstracts_edit reading_update_change reading_expected reading_prepare abstracts_writes)+
qed


subsection \<open>The reviews of Action Items\<close>

lemma reading_stage:
  assumes "\<And>cur at v. reading (query (change cur at v))"
  shows "reading (stage env aid command change p)"
  unfolding stage_def Let_def
  by (rule reading_andThen [OF reading_queries(3)], rule reading_option [OF reading_throw],
      rule reading_andThen [OF reading_require], rule reading_andThen [OF reading_require],
      rule reading_andThen [OF assms], rule reading_option [OF reading_ret reading_ret])

lemma stage_revised:
  assumes "extending change" "fst (stage env aid command change p s) = Inr (c, Some items)"
  shows "revised items"
proof (cases "readActionItems s")
  case (Inl e)
  with assms(2) show ?thesis by (simp add: stage_def)
next
  case (Inr stored)
  then have r: "revised stored" by (rule readActionItems_revised)
  from Inr show ?thesis
  proof (cases rule: stage_cases [where env = env and aid = aid and command = command and change = change and p = p])
    case (staged cur n)
    have "ai_proposalRevisions cur \<noteq> []" using staged(1) r by (auto simp: revised_def dest!: find_by_SomeD)
    with extendingD [OF assms(1) staged(4)] have n: "ai_proposalRevisions n \<noteq> []" by (rule extends_revised)
    have "items = replace_by ai_id aid (n\<lparr>ai_version := ai_version cur + 1\<rparr>) stored"
      using staged(5) assms(2) by auto
    with n r show ?thesis by (auto simp: revised_def dest!: replace_by_mem_cases)
  qed (use assms(2) in simp_all)
qed

lemma abstracts_transition:
  assumes "\<And>cur at v. reading (query (change cur at v))" "extending change"
  shows "abstracts (transition env aid command change p)"
  unfolding transition_def
proof (rule abstracts_reading_then [OF reading_stage [OF assms(1)]])
  fix s x assume "fst (stage env aid command change p s) = Inr x"
  then show "abstracts (case x of (committed, all) \<Rightarrow> case all of None \<Rightarrow> ret committed
      | Some items \<Rightarrow> andThen (writeActionItems items) (\<lambda>_. ret committed))"
    using stage_revised [OF assms(2)]
    by (cases x; cases "snd x") (simp_all add: abstracts_before_reading [OF abstracts_writes(3) reading_ret] abstracts_plain)
qed

lemma reading_reconcile_change: "reading (query (reconcile_change env aid d target command cur at v))"
proof (rule reading_query)
  fix s s' :: wstore assume "tables s = tables s'"
  then have "readActionItems s = readActionItems s'" by (rule tables_eqD)
  then show "reconcile_change env aid d target command cur at v s = reconcile_change env aid d target command cur at v s'"
    by (simp only: reconcile_change_def attachable_def getItem_def)
qed

lemma abstracts_run_item_op: "abstracts (run_item_op env op)"
proof -
  have const: "reading (query (promotion_change tid tv command cur at v))" "reading (query (decide_change to kind command cur at v))"
    "reading (query (select_change revision command cur at v))" "reading (query (correct_change content command cur at v))"
    "reading (query (suggest_change env tid pf observed command cur at v))" "reading (query (resolve_change mid status tv command cur at v))"
    for tid tv command cur at v to kind revision content pf observed mid status
    by (rule reading_query; simp only: promotion_change_def decide_change_def select_change_def correct_change_def
        suggest_change_def resolve_change_def)+
  note t = abstracts_transition [OF const(1) extending_changes(1)] abstracts_transition [OF const(2) extending_changes(2)]
    abstracts_transition [OF const(3) extending_changes(3)] abstracts_transition [OF const(4) extending_changes(4)]
    abstracts_transition [OF const(5) extending_changes(5)] abstracts_transition [OF const(6) extending_changes(6)]
    abstracts_transition [OF reading_reconcile_change extending_reconcile]
  show ?thesis
    by (cases op; simp only: run_item_op.simps recordPromotion_def dismiss_def restore_def selectProposal_def
        correctProposal_def reconcile_def suggestAmendment_def resolveAmendment_def)
      (intro t abstracts_reading_items abstracts_option abstracts_plain)+
qed

subsection \<open>Materialization and promotion\<close>

lemma abstracts_materialize: "abstracts (materialize env input)"
  unfolding materialize_def Let_def
proof (rule abstracts_reading_items, rule abstracts_reading_then [OF reading_check])
  fix stored s ms
  assume r: "revised stored" and ms: "fst (check (all_results (map (materialize_entry env input stored (checked_entries env input)
      (nextRevision env (filter (\<lambda>item. as_debriefRunId (ai_source item) = im_debriefRunId input) stored)
         (checked_entries env input) input (materializationIndex stored))) [0..<length (checked_entries env input)])) s) = Inr ms"
  then have "run_results env input stored = Inr ms" by (simp add: run_results_def held_run_def Let_def)
  then have "\<forall>x \<in> set (added_items ms). ai_proposalRevisions x \<noteq> []" by (auto elim!: added_mem)
  with r have "revised (stored @ added_items ms)" by (auto simp: revised_def)
  then show "abstracts (if added_items ms \<noteq> [] then andThen (writeActionItems (stored @ added_items ms))
      (\<lambda>_. ret (map materialized_item ms)) else ret (map materialized_item ms))"
    by (rule abstracts_if [OF abstracts_before_reading [OF abstracts_writes(3) reading_ret] abstracts_plain(1)])
qed

lemma abstracts_accept_new: "abstracts (accept_new tenv ienv input item)"
  unfolding accept_new_def Let_def acceptTask_def stagePromotion_def
proof (rule abstracts_after_reading [OF reading_prepare],
    rule abstracts_reading_then [OF reading_stage [OF reading_query]])
  fix prepared s x
  let ?task = "if pi_completed input = JBool True then completedNow tenv prepared else prepared"
  let ?stage = "stage ienv (ai_id item) (promotion_command input item)
    (promotion_change (task_id ?task) (Some (task_version ?task)) (promotion_command input item)) True"
  assume "fst (?stage s) = Inr x"
  moreover obtain committed all where x: "x = (committed, all)" by (cases x)
  ultimately have some: "all = Some items \<Longrightarrow> revised items" for items
    using stage_revised [OF extending_changes(1)] by blast
  have "abstracts (andThen (case all of None \<Rightarrow> query (listItems any_item) | Some items \<Rightarrow> ret items) (\<lambda>items.
      andThen (andThen (query readTasks) (\<lambda>ts. andThen (commitAcceptance (ts @ [?task]) items) (\<lambda>_. ret ?task))) (\<lambda>_.
      andThen (query (getTask (task_id ?task))) (\<lambda>stored.
        ret \<lparr>pr_task = or_else stored ?task, pr_actionItem = committed, pr_created = True\<rparr>))))"
  proof (rule abstracts_reading_then)
    show "reading (case all of None \<Rightarrow> query (listItems any_item) | Some items \<Rightarrow> ret items)"
      by (rule reading_option [OF reading_queries(9) reading_ret])
    fix t items assume i: "fst ((case all of None \<Rightarrow> query (listItems any_item) | Some items \<Rightarrow> ret items) t) = Inr items"
    have "revised items"
    proof (cases all)
      case None
      with i have "listItems any_item t = Inr items" by simp
      then obtain stored where "readActionItems t = Inr stored" "items = filter (item_matches any_item) stored"
        by (auto simp: listItems_def map_result_def split: sum.splits)
      with readActionItems_revised [OF this(1)] show ?thesis by (auto simp: revised_def)
    qed (use i some in auto)
    then show "abstracts (andThen (andThen (query readTasks) (\<lambda>ts. andThen (commitAcceptance (ts @ [?task]) items) (\<lambda>_. ret ?task)))
        (\<lambda>_. andThen (query (getTask (task_id ?task))) (\<lambda>stored.
        ret \<lparr>pr_task = or_else stored ?task, pr_actionItem = committed, pr_created = True\<rparr>)))"
      by (intro abstracts_before_reading [OF abstracts_after_reading [OF reading_queries(1)
            abstracts_before_reading [OF abstracts_writes(4) reading_ret]]]
          reading_andThen [OF reading_queries(6) reading_ret])
  qed
  then show "abstracts (case x of (committed, all) \<Rightarrow> andThen (case all of None \<Rightarrow> query (listItems any_item) | Some items \<Rightarrow> ret items)
      (\<lambda>items. andThen (andThen (query readTasks) (\<lambda>ts. andThen (commitAcceptance (ts @ [?task]) items) (\<lambda>_. ret ?task))) (\<lambda>_.
      andThen (query (getTask (task_id ?task))) (\<lambda>stored.
        ret \<lparr>pr_task = or_else stored ?task, pr_actionItem = committed, pr_created = True\<rparr>))))"
    by (simp only: x prod.case)
qed (simp only: promotion_change_def)

lemma abstracts_adopt_orphan: "abstracts (adopt_orphan ienv input item orphan)"
proof -
  have "abstracts (recordPromotion ienv aid tid tv c)" for aid tid tv c
    using abstracts_run_item_op [of ienv "PromoteOp aid tid tv c"] by simp
  then show ?thesis
    unfolding adopt_orphan_def
    by (rule abstracts_after_reading [OF reading_require abstracts_before_reading [OF _ reading_ret]])
qed

lemma abstracts_promote: "abstracts (promoteActionItem tenv ienv aid input)"
proof -
  have orphans: "abstracts (case ts of [] \<Rightarrow> accept_new tenv ienv input item | orphan # _ \<Rightarrow> adopt_orphan ienv input item orphan)"
    for ts item by (rule abstracts_list [OF abstracts_accept_new abstracts_adopt_orphan])
  have find: "abstracts (andThen (query (listTasks any_task)) (\<lambda>live.
      andThen (query (listTasks (any_task\<lparr>tq_trashed := True\<rparr>))) (\<lambda>trashed.
      let orphans = tasks_naming (ai_id item) (live @ trashed) in
      andThen (require (length orphans \<le> 1) (TaskRefused ActionItemRecoveryConflict)) (\<lambda>_.
      case orphans of orphan # _ \<Rightarrow> adopt_orphan ienv input item orphan | [] \<Rightarrow> accept_new tenv ienv input item))))" for item
    unfolding Let_def
    by (rule abstracts_after_reading [OF reading_queries(8) abstracts_after_reading [OF reading_queries(8)
        abstracts_after_reading [OF reading_require orphans]]])
  have again: "abstracts (andThen (query (getTask tid)) (\<lambda>existing. case existing of
      Some t \<Rightarrow> ret \<lparr>pr_task = t, pr_actionItem = item, pr_created = False\<rparr> | None \<Rightarrow> throw (TaskRefused TaskNotFound)))"
    for tid item
    by (rule abstracts_after_reading [OF reading_queries(6) abstracts_option [OF abstracts_plain(2) abstracts_plain(1)]])
  show ?thesis
    unfolding promoteActionItem_def
  proof (rule abstracts_after_reading [OF reading_queries(7) abstracts_option [OF abstracts_plain(2)
        abstracts_after_reading [OF reading_check]]])
    fix item :: action_item
    show "abstracts (case (ai_state item = Promoted, ai_promotedTaskId item) of
        (True, Some tid) \<Rightarrow> andThen (query (getTask tid)) (\<lambda>existing. case existing of
            Some t \<Rightarrow> ret \<lparr>pr_task = t, pr_actionItem = item, pr_created = False\<rparr> | None \<Rightarrow> throw (TaskRefused TaskNotFound))
      | _ \<Rightarrow> andThen (query (listTasks any_task)) (\<lambda>live.
          andThen (query (listTasks (any_task\<lparr>tq_trashed := True\<rparr>))) (\<lambda>trashed.
          let orphans = tasks_naming (ai_id item) (live @ trashed) in
          andThen (require (length orphans \<le> 1) (TaskRefused ActionItemRecoveryConflict)) (\<lambda>_.
          case orphans of orphan # _ \<Rightarrow> adopt_orphan ienv input item orphan | [] \<Rightarrow> accept_new tenv ienv input item))))"
      using find [of item] again [of _ item]
      by (cases "ai_state item = Promoted"; cases "ai_promotedTaskId item") (simp_all only: prod.case bool.case option.case simp_thms)
  qed
qed


subsection \<open>One operation of the product\<close>

datatype workspace_op =
    OwnerOp owner_command
  | ReviewOp item_op
  | ExtractionOp item_materialization
  | PromotionOp string promotion_input

datatype op_answer = Settled_ok | Reviewed action_item | Materialized "action_item list" | PromotedTo promotion_result

definition answered :: "('a \<Rightarrow> op_answer) \<Rightarrow> (wstore, ws_error, 'a) cmd \<Rightarrow> (wstore, ws_error, op_answer) cmd" where
  "answered f m = andThen m (\<lambda>x. ret (f x))"

fun run_op :: "tasks_env \<Rightarrow> items_env \<Rightarrow> workspace_op \<Rightarrow> (wstore, ws_error, op_answer) cmd" where
  "run_op tenv ienv (OwnerOp c) = answered (\<lambda>_. Settled_ok) (run_command tenv c)"
| "run_op tenv ienv (ReviewOp c) = answered Reviewed (run_item_op ienv c)"
| "run_op tenv ienv (ExtractionOp input) = answered Materialized (materialize ienv input)"
| "run_op tenv ienv (PromotionOp aid p) = answered PromotedTo (promoteActionItem tenv ienv aid p)"

lemma abstracts_run_op: "abstracts (run_op tenv ienv op)"
proof -
  have a: "abstracts m \<Longrightarrow> abstracts (answered f m)" for f and m :: "(wstore, ws_error, 'a) cmd"
    unfolding answered_def by (rule abstracts_before_reading [OF _ reading_ret])
  show ?thesis
    by (cases op) (simp_all add: a abstracts_run_command abstracts_run_item_op abstracts_materialize abstracts_promote)
qed

text \<open>The abstract Workspace: the three tables, with the operation run on the plain files that hold them.\<close>

definition plain_store :: "task list \<Rightarrow> task_list list \<Rightarrow> action_item list \<Rightarrow> wstore" where
  "plain_store ts ls is = \<lparr>ws_snapshot = NoSnapshot, ws_tasksFile = FileRecords (task_entries ts),
     ws_listsFile = FileRecords (list_entries ls), ws_actionItemsFile = FileRecords (item_entries is)\<rparr>"

definition spec_op :: "tasks_env \<Rightarrow> items_env \<Rightarrow> workspace_op \<Rightarrow> task list \<Rightarrow> task_list list \<Rightarrow> action_item list \<Rightarrow>
    (ws_error + op_answer) \<times> tables" where
  "spec_op tenv ienv op ts ls is = (case run_op tenv ienv op (plain_store ts ls is) of (r, s) \<Rightarrow> (r, tables s))"

lemma plain_store_tables:
  assumes "revised is"
  shows "can_write (plain_store ts ls is)" "tables (plain_store ts ls is) = (Inr ts, Inr ls, Inr is)"
proof -
  let ?s = "\<lparr>ws_snapshot = NoSnapshot, ws_tasksFile = FileMissing, ws_listsFile = FileMissing, ws_actionItemsFile = FileMissing\<rparr>"
  have w: "can_write ?s" "readBundle ?s = Inr None" by (simp_all add: can_write_def readBundle_def)
  have e: "plain_store ts ls is = snd (writeActionItems is (snd (writeLists ls (snd (writeTasks ts ?s)))))"
    by (simp add: plain_store_def writeActionItems_def writeLists_def writeTasks_def readBundle_def)
  have w1: "can_write (snd (writeTasks ts ?s))" "can_write (snd (writeLists ls (snd (writeTasks ts ?s))))"
    by (simp_all add: writeTasks_def writeLists_def can_write_def readBundle_def)
  show "can_write (plain_store ts ls is)" by (simp add: plain_store_def can_write_def readBundle_def)
  show "tables (plain_store ts ls is) = (Inr ts, Inr ls, Inr is)"
    unfolding e by (simp add: tables_def writeActionItems_facts [OF w1(2) assms] writeLists_facts [OF w1(1)] writeTasks_facts [OF w(1)])
qed

lemma run_op_refines:
  assumes "can_write s" "tables s = (Inr ts, Inr ls, Inr is)"
  shows "spec_op tenv ienv op ts ls is = (fst (run_op tenv ienv op s), tables (snd (run_op tenv ienv op s)))"
proof -
  have "readActionItems s = Inr is" using assms(2) by (simp add: tables_def)
  then have "revised is" by (rule readActionItems_revised)
  from plain_store_tables [OF this, of ts ls] assms have "agree (plain_store ts ls is) s" by (simp add: agree_def)
  with abstracts_run_op [of tenv ienv op] show ?thesis
    by (simp add: spec_op_def abstracts_def split: prod.split) (metis fst_conv snd_conv)
qed

end
