(* ===== verification/StoreProperties.thy ===== *)
theory StoreProperties
  imports Samples StoreForms
begin

section \<open>Properties of the store\<close>

text \<open>
  What the Workspace's one store promises to the components that share it: what is written is read back,
  the rest is left alone, a store it cannot read is never written over, and a record of an older build reads
  as one of this build.
\<close>

text \<open>C38: What a component writes is what every later read answers, in the snapshot form and in the file form of the
  store alike: the written records come back unchanged, the other two tables are untouched, and a snapshot moves
  on by exactly one generation.\<close>

theorem written_is_read:
  assumes "can_write s" "revised is"
  shows "fst (writeTasks ts s) = Inr () \<and> readTasks (snd (writeTasks ts s)) = Inr ts
      \<and> readLists (snd (writeTasks ts s)) = readLists s
      \<and> readActionItems (snd (writeTasks ts s)) = readActionItems s \<and> next_generation s (snd (writeTasks ts s))
    \<and> fst (writeActionItems is s) = Inr () \<and> readActionItems (snd (writeActionItems is s)) = Inr is \<and> readTasks (snd (writeActionItems is s)) = readTasks s
      \<and> readLists (snd (writeActionItems is s)) = readLists s \<and> next_generation s (snd (writeActionItems is s))
    \<and> fst (commitAcceptance ts is s) = Inr () \<and> readTasks (snd (commitAcceptance ts is s)) = Inr ts \<and> readActionItems (snd (commitAcceptance ts is s)) = Inr is
      \<and> readLists (snd (commitAcceptance ts is s)) = readLists s \<and> next_generation s (snd (commitAcceptance ts is s))"
  using writeTasks_facts [OF assms(1)] writeActionItems_facts [OF assms] commitAcceptance_spec [OF assms, of ts] by auto

theorem written_is_read_witness:
  "readTasks (snd (writeTasks [] sample_store)) = Inr []
   \<and> readTasks (snd (commitAcceptance [open_task] [] sample_files)) = Inr [open_task]"
  using written_is_read [OF sample_reads(4), of "[]" "[]"]
    written_is_read [OF sample_file_reads(4), of "[]" "[open_task]"] by simp

lemma unreadable_reads:
  assumes "readBundle s = Inl e"
  shows "readTasks s = Inl e" "lists s = Inl e" "readLists s = Inl e" "readActionItems s = Inl e"
  using assms by (simp_all add: read_defs lists_def)

lemma edit_versioned_unreadable:
  "readTasks s = Inl e \<Longrightarrow> updateTask env tid input expected s = (Inl e, s)"
  "readTasks s = Inl e \<Longrightarrow> completeTask env tid expected s = (Inl e, s)"
  by (simp_all add: updateTask_def completeTask_def versioned_unreadable)

lemma command_unreadable:
  assumes "readBundle s = Inl e"
  shows "\<exists>e'. run_command env c s = (Inl e', s)"
proof -
  note r = unreadable_reads [OF assms]
  show ?thesis
    by (cases c) (auto simp: r createList_def updateList_def deleteList_def createTask_def prepare_def deleteForever_def
        edit_versioned_unreadable edit_unreadable reopenTask_def trashTask_def restoreTask_def recordExternalLink_def
        refreshExternalLink_def clearExternalLink_def as_unit_def getList_def map_result_def andThen_run require_run
        Let_def split: sum.split)
qed

lemma item_op_unreadable:
  assumes "readBundle s = Inl e"
  shows "run_item_op env c s = (Inl e, s)"
  by (cases c) (simp_all add: unreadable_reads [OF assms] transition_def stage_def recordPromotion_def dismiss_def
      restore_def selectProposal_def correctProposal_def reconcile_def suggestAmendment_def resolveAmendment_def)

text \<open>C22: A snapshot that cannot be read is never written over: every owner command, every review of an Action Item,
  every materialization and every promotion is refused and leaves the store exactly as it is.\<close>

theorem unreadable_store_never_overwritten:
  assumes "readBundle s = Inl e"
  shows "(\<exists>e'. run_command tenv c s = (Inl e', s)) \<and> run_item_op ienv op s = (Inl e, s)
    \<and> materialize ienv input s = (Inl e, s) \<and> promoteActionItem tenv ienv aid p s = (Inl e, s)"
  using command_unreadable [OF assms] item_op_unreadable [OF assms] unreadable_reads(4) [OF assms]
  by (simp add: materialize_def promoteActionItem_def getItem_def map_result_def)

theorem unreadable_store_never_overwritten_witness:
  "promoteActionItem sample_env sample_items_env ''ai_1'' no_input (sample_store\<lparr>ws_snapshot := SnapshotBadJson\<rparr>)
     = (Inl (StoreCorrupt SnapshotUnreadable), sample_store\<lparr>ws_snapshot := SnapshotBadJson\<rparr>)"
  using unreadable_store_never_overwritten [of "sample_store\<lparr>ws_snapshot := SnapshotBadJson\<rparr>"]
  by (simp add: readBundle_def)

text \<open>Reading a record is idempotent through the disk: whatever an older build stored, writing back what this build
  read from it and reading again gives the same Action Item.\<close>

theorem reading_items_is_stable: "normalizeActionItem (store_item (normalizeActionItem st)) = normalizeActionItem st"
  by (rule normalize_store_item) (rule normalize_has_revision)

text \<open>The generation of a snapshot is a number the reader accepts only up to 2^53 - 1: the write after that one is
  reported as a success and leaves a snapshot that no later read accepts.\<close>

theorem exhausted_generation_is_unreadable:
  assumes "readBundle s = Inr (Some b)" "bd_generation b = max_safe_integer"
  shows "fst (writeTasks ts s) = Inr () \<and> (\<exists>e. readBundle (snd (writeTasks ts s)) = Inl e)"
proof -
  let ?n = "b\<lparr>bd_tasks := task_entries ts, bd_format := BUNDLE_FORMAT, bd_generation := bd_generation b + 1\<rparr>"
  from bundle_doc_exhausted [of ?n] assms(2) obtain e where "bundle_doc (bundle_json ?n) = Inl e" by auto
  then show ?thesis
    using assms(1) by (simp add: writeTasks_def writeSnapshot_def nextBundle_def readGeneration_bundle
        readBundle_def [of "s\<lparr>ws_snapshot := x\<rparr>" for x])
qed

theorem exhausted_generation_is_unreadable_witness:
  "\<exists>e. readBundle (snd (writeTasks [] (store_at max_safe_integer [] []))) = Inl e"
  using exhausted_generation_is_unreadable [OF readBundle_store_at]
  by (simp add: bundle_of_def max_safe_integer_def)


text \<open>C6: The two forms of the store are one abstract store: for every command, review, extraction and promotion, the
  snapshot with its generations refines the three plain files it replaced.  Run on either form, the operation gives the
  same answer or refusal and the same three tables.\<close>

theorem snapshot_refines_plain_files:
  assumes "can_write s" "tables s = (Inr ts, Inr ls, Inr is)"
  shows "(fst (run_op tenv ienv op s), tables (snd (run_op tenv ienv op s))) = spec_op tenv ienv op ts ls is"
  using run_op_refines [OF assms] by simp

theorem snapshot_refines_plain_files_witness:
  "fst (run_op sample_env sample_items_env (PromotionOp ''ai_1'' no_input) sample_store) =
     fst (spec_op sample_env sample_items_env (PromotionOp ''ai_1'' no_input) [open_task, trashed_task] []
       [sample_item ''ai_1'', sample_item ''ai_2''])"
proof -
  have "readLists sample_store = Inr []"
    by (simp add: readLists_def readBundle_store_at bundle_of_def revised_def max_safe_integer_def)
  then have "tables sample_store = (Inr [open_task, trashed_task], Inr [], Inr [sample_item ''ai_1'', sample_item ''ai_2''])"
    by (simp add: tables_def)
  from snapshot_refines_plain_files [OF sample_reads(4) this] show ?thesis by (metis fst_conv)
qed

end
