(* ===== verification/LinkProperties.thy ===== *)
theory LinkProperties
  imports Samples
begin

section \<open>Properties of the external links\<close>

text \<open>
  What the one-way bridge to Google Tasks and Asana promises about the accepted work it represents: at most one
  record is ever created for a Task, the Task itself is never changed by the bridge, what needs the owner waits
  for the owner, and the text a failure shows is bounded.
\<close>

subsection \<open>A linked Task and its provider\<close>

definition sample_destination :: task_destination where
  "sample_destination = GoogleTasks ''list'' ''My tasks''"

definition agreed_record :: baseline where
  "agreed_record = \<lparr>bl_title = ''Send the brief'', bl_notes = [], bl_dueDate = Some ''2026-03-05'', bl_status = Open\<rparr>"

definition remote_record :: baseline where
  "remote_record = agreed_record\<lparr>bl_notes := ''edited outside''\<rparr>"

definition calm_connector :: remote_connector where
  "calm_connector = \<lparr>rc_resolveDestination = None, rc_create = (\<lambda>t d calls. Inr (''remote_1'', None)),
     rc_read = (\<lambda>d r calls. Inr (Some remote_record)),
     rc_updateStatus = (\<lambda>d r b calls. Inr ()), rc_updateContent = (\<lambda>d r c calls. Inr ()),
     rc_delete = (\<lambda>d r calls. Inr ())\<rparr>"

definition sample_link_env :: link_env where
  "sample_link_env = \<lparr>le_tasks = (\<lambda>_. sample_env), le_thrown = (\<lambda>_. \<lparr>th_value = Undefined, th_message = ''refused''\<rparr>),
     le_authorizationRevision = None, le_listRemoteLists = (\<lambda>_. Inr []), le_google = calm_connector, le_asana = None\<rparr>"

definition linked_open :: external_link where
  "linked_open = \<lparr>el_creationUncertain = False, el_state = Synchronized, el_destination = sample_destination,
     el_remoteId = Some ''remote_1'', el_url = None,
     el_baseline = Some agreed_record,
     el_external = None, el_failure = None, el_updatedAt = ''2026-03-01T08:00:00.000Z''\<rparr>"

definition world_of :: "task \<Rightarrow> link_world" where
  "world_of t = \<lparr>lw_store = store_at 4 [t] [], lw_calls = [], lw_ticks = 0, lw_revisions = (\<lambda>_. None),
     lw_settings = \<lparr>gs_enabled = True, gs_taskListId = ''list'', gs_taskListTitle = ''My tasks''\<rparr>\<rparr>"

lemma world_of_simps [simp]:
  "lw_calls (world_of t) = []" "lw_store (world_of t) = store_at 4 [t] []" "lw_ticks (world_of t) = 0"
  by (simp_all add: world_of_def)

lemma world_of_stored [simp]: "stored_task (store_at 4 [t] []) (task_id t) t"
  by (simp add: stored_task_def store_at_reads max_safe_integer_def)

lemma world_of_room [simp]: "room n (store_at 4 [t] []) \<longleftrightarrow> 4 + int n \<le> max_safe_integer"
  by (simp add: store_at_reads max_safe_integer_def)

text \<open>C4: At most one remote record is ever created for a Task that stays linked: from a Workspace whose provider has not been
  called, along any sequence of linking, pushing, synchronizing, resolving, recovering, retrying and editing, of this and of
  other Tasks, among every provider answer, at most one creation call is made for the Task whose answer leaves it
  possible that a record exists.  Two kinds of step are outside the sequence, because each gives the record up on
  purpose and a later one may then be created: unlinking and recreating, and retrying or recovering a creation while
  the Task is in Trash, which deletes its record.  Trashing and restoring the Task are in the sequence, and so are
  retries and recoveries at every moment at which the Task is not in Trash.\<close>

theorem at_most_one_creation:
  assumes "link_reachable env tid w0 w" "lw_calls w0 = []"
  shows "possible_creates env tid (lw_calls w) \<le> 1"
proof -
  have "creation_safe env tid w0" using assms(2) by (simp add: creation_safe_def uncreated_def)
  from link_reachable_safe [OF assms(1) this] show ?thesis
    by (auto simp: creation_safe_def uncreated_def created_once_def)
qed

theorem at_most_one_creation_witness:
  "possible_creates sample_link_env ''task_1''
     (lw_calls (snd (run_link_op sample_link_env (LinkOp ''task_1'')
       (snd (run_link_op sample_link_env (LinkOp ''task_1'') (world_of (open_task\<lparr>task_destination := sample_destination\<rparr>))))))) \<le> 1"
proof -
  let ?w = "world_of (open_task\<lparr>task_destination := sample_destination\<rparr>)"
  have "link_reachable sample_link_env ''task_1'' ?w (snd (run_link_op sample_link_env (LinkOp ''task_1'')
       (snd (run_link_op sample_link_env (LinkOp ''task_1'') ?w))))"
    by (rule link_reachable.step [OF link_reachable.step [OF link_reachable.start]]) simp_all
  from at_most_one_creation [OF this] show ?thesis by simp
qed

text \<open>C20: The bridge never changes the accepted work: linking, pushing, removing and recreating a link leave the title,
  notes, due date, priority, list, person, source, status and Trash state of every Task as they were, whatever the
  provider answers.\<close>

theorem bridge_keeps_accepted_work:
  assumes "stored_task (lw_store w) tid t"
    and "m \<in> {linkTask env k, pushStatus env k, pushContent env k, removeLink env k, deleteExternal env k, recreate env k}"
    and "stored_task (lw_store (snd (m w))) tid t'"
  shows "unlinked_task t' = unlinked_task t"
proof -
  have "holds_content tid (unlinked_task t) w"
    using assms(1) by (auto simp: holds_content_def dest: stored_task_fun)
  moreover have "keeps (holds_content tid (unlinked_task t)) m" using assms(2) local_first by auto
  ultimately have "holds_content tid (unlinked_task t) (snd (m w))" by (rule keepsD [rotated])
  with assms(3) show ?thesis by (simp add: holds_content_def)
qed

text \<open>A completed Task whose record the provider still shows as open.\<close>

definition completed_linked :: task where
  "completed_linked = open_task\<lparr>task_status := Completed, task_completedAt := Some ''2026-03-02'',
     task_externalLink := Some linked_open\<rparr>"

lemma completed_linked_simps [simp]:
  "task_status completed_linked = Completed" "task_externalLink completed_linked = Some linked_open"
  "task_id completed_linked = ''task_1''" "task_deletedAt completed_linked = None"
  "task_notes completed_linked = []" "task_title completed_linked = ''Send the brief''"
  "task_dueDate completed_linked = Some ''2026-03-05''"
  by (simp_all add: completed_linked_def open_task_def sample_task_def)

lemma linked_open_simps [simp]:
  "el_destination linked_open = sample_destination" "el_remoteId linked_open = Some ''remote_1''"
  "el_state linked_open = Synchronized" "el_failure linked_open = None"
  "el_baseline linked_open = Some agreed_record"
  by (simp_all add: linked_open_def)

lemma record_simps [simp]:
  "bl_status agreed_record = Open" "bl_status remote_record = Open" "\<not> sameContent remote_record agreed_record"
  by (simp_all add: agreed_record_def remote_record_def sameContent_def)

lemma sample_readable [simp]: "readable sample_link_env linked_open ''remote_1'' calm_connector"
  by (simp add: readable_def sample_destination_def connectorFor_def sample_link_env_def calm_connector_def)

lemma calm_simps [simp]:
  "rc_updateStatus calm_connector d r b calls = Inr ()" "rc_updateContent calm_connector d r c calls = Inr ()"
  "rc_read calm_connector d r calls = Inr (Some remote_record)"
  by (simp_all add: calm_connector_def)

lemma completed_stored [simp]: "stored_task (lw_store (world_of completed_linked)) ''task_1'' completed_linked"
  using world_of_stored [of completed_linked] by simp

lemma some_room [simp]: "room (Suc 0) (lw_store (world_of t))" "room 2 (lw_store (world_of t))"
  by (simp_all add: max_safe_integer_def)

theorem bridge_keeps_accepted_work_witness:
  "\<exists>t'. stored_task (lw_store (snd (pushStatus sample_link_env ''task_1'' (world_of completed_linked)))) ''task_1'' t'
     \<and> unlinked_task t' = unlinked_task completed_linked"
proof -
  obtain w' t' where p: "pushStatus sample_link_env ''task_1'' (world_of completed_linked) = (Inr t', w')"
      "stored_task (lw_store w') ''task_1'' t'"
    by (rule pushStatus_run [OF completed_stored completed_linked_simps(2) sample_readable linked_open_simps(5)
          _ some_room(1)]) auto
  have "unlinked_task t' = unlinked_task completed_linked"
    by (rule bridge_keeps_accepted_work [OF completed_stored, of "pushStatus sample_link_env ''task_1''" sample_link_env "''task_1''"])
      (use p in simp_all)
  with p show ?thesis by auto
qed

text \<open>A link that waits for the owner's decision is left to the owner: while it is conflicted, missing or changed
  outside, neither a push nor a retry nor a synchronization calls the provider or writes the store.\<close>

theorem pending_decision_left_to_owner:
  assumes "stored_task (lw_store w) k t" "task_externalLink t = Some l" "settles_by_owner (el_state l)"
    "task_deletedAt t = None"
  shows "lw_store (snd (pushStatus env k w)) = lw_store w \<and> lw_calls (snd (pushStatus env k w)) = lw_calls w
    \<and> lw_store (snd (pushContent env k w)) = lw_store w \<and> lw_calls (snd (pushContent env k w)) = lw_calls w
    \<and> lw_store (snd (retry env k w)) = lw_store w \<and> lw_calls (snd (retry env k w)) = lw_calls w
    \<and> lw_store (snd (synchronize env k w)) = lw_store w \<and> lw_calls (snd (synchronize env k w)) = lw_calls w"
  using settled_left_alone [OF assms] by simp

theorem pending_decision_left_to_owner_witness:
  "lw_calls (snd (retry sample_link_env ''task_1''
     (world_of (open_task\<lparr>task_externalLink := Some (linked_open\<lparr>el_state := Conflicted\<rparr>)\<rparr>)))) = []"
  using pending_decision_left_to_owner [of "world_of (open_task\<lparr>task_externalLink := Some (linked_open\<lparr>el_state := Conflicted\<rparr>)\<rparr>)"
      "task_id open_task" "open_task\<lparr>task_externalLink := Some (linked_open\<lparr>el_state := Conflicted\<rparr>)\<rparr>"]
    world_of_stored [of "open_task\<lparr>task_externalLink := Some (linked_open\<lparr>el_state := Conflicted\<rparr>)\<rparr>"]
  by (simp add: settles_by_owner_def)

text \<open>A change made outside is never applied to the accepted work by itself: when both sides moved the status, or the
  provider alone changed the content, a synchronization reads once, writes nothing to the provider, records what it
  saw beside the last agreed state and leaves the decision to the owner.\<close>

theorem outside_changes_wait_for_owner:
  assumes "stored_task (lw_store w) tid t" "task_externalLink t = Some l" "readable env l r k"
    "rc_read k (el_destination l) r (lw_calls w) = Inr (Some remote)" "el_baseline l = Some b" "room 1 (lw_store w)"
    and "(bl_status remote \<noteq> bl_status b \<and> task_status t \<noteq> bl_status b)
      \<or> (bl_status remote = bl_status b \<and> task_status t = bl_status b \<and> \<not> sameContent remote b)"
  shows "\<exists>t' l' w'. synchronize env tid w = (Inr t', w') \<and> unlinked_task t' = unlinked_task t
    \<and> task_externalLink t' = Some l' \<and> settles_by_owner (el_state l') \<and> el_external l' = Some remote
    \<and> el_baseline l' = Some b \<and> lw_calls w' = lw_calls w @ [ReadRecord (el_destination l) r]"
proof -
  let ?st = "if bl_status remote = bl_status b then ChangedExternally else Conflicted"
  let ?l = "l\<lparr>el_state := ?st, el_external := Some remote, el_failure := None\<rparr>"
  have "apply_reading env tid t l (Some remote) = refreshLink env tid ?l"
    using assms(5,7) read_decision_simps(2,5) by (auto simp: apply_reading_def)
  from inspect_refreshes [OF assms(1-4,6) this] obtain w' t' where i: "inspect env tid w = (Inr (False, t'), w')"
    "lw_calls w' = lw_calls w @ [ReadRecord (el_destination l) r]"
    "t' = linked env (asked [ReadRecord (el_destination l) r] w) t ?l" by blast
  have "synchronize env tid w = (Inr t', w')" using i(1) by (simp add: synchronize_def)
  moreover have "unlinked_task t' = unlinked_task t" by (simp add: i(3) linked_def unlinked_task_def)
  moreover obtain l' where "task_externalLink t' = Some l'" "el_state l' = ?st" "el_external l' = Some remote"
    "el_baseline l' = Some b" using assms(5) by (simp add: i(3) linked_def)
  moreover from this have "settles_by_owner (el_state l')" by (simp add: settles_by_owner_def)
  ultimately show ?thesis using i(2) by metis
qed

theorem outside_changes_wait_for_owner_witness:
  "\<exists>t' l' w'. synchronize sample_link_env ''task_1'' (world_of (completed_linked\<lparr>task_status := Open\<rparr>)) = (Inr t', w')
     \<and> task_externalLink t' = Some l' \<and> settles_by_owner (el_state l')"
proof -
  let ?t = "completed_linked\<lparr>task_status := Open\<rparr>"
  have "stored_task (lw_store (world_of ?t)) ''task_1'' ?t" using world_of_stored [of ?t] by simp
  moreover have "task_externalLink ?t = Some linked_open" "room 1 (lw_store (world_of ?t))"
    "(bl_status remote_record \<noteq> bl_status agreed_record \<and> task_status ?t \<noteq> bl_status agreed_record)
      \<or> (bl_status remote_record = bl_status agreed_record \<and> task_status ?t = bl_status agreed_record
        \<and> \<not> sameContent remote_record agreed_record)" by (simp_all add: max_safe_integer_def)
  ultimately show ?thesis
    using outside_changes_wait_for_owner [OF _ _ sample_readable calm_simps(3) linked_open_simps(5)] by blast
qed

text \<open>A retry of a link that has converged is idempotent: it reads the record once, finds the agreed state, sends
  nothing and leaves the store as it is.\<close>

theorem retry_is_idempotent:
  assumes "stored_task (lw_store w) tid t" "task_externalLink t = Some l" "readable env l r k"
    "task_deletedAt t = None" "el_state l = Synchronized" "el_failure l = None"
    "el_baseline l = Some b" "bl_status b = task_status t" "sameContent b (baselineFor t (task_status t))"
    "rc_read k (el_destination l) r (lw_calls w) = Inr (Some remote)"
    "bl_status remote = bl_status b" "sameContent remote b"
  shows "fst (retry env tid w) = Inr t \<and> lw_store (snd (retry env tid w)) = lw_store w
    \<and> lw_calls (snd (retry env tid w)) = lw_calls w @ [ReadRecord (el_destination l) r]"
  by (rule retry_converged [OF assms])

definition agreeing_connector :: remote_connector where
  "agreeing_connector = calm_connector\<lparr>rc_read := (\<lambda>d r calls. Inr (el_baseline linked_open))\<rparr>"

theorem retry_is_idempotent_witness:
  "fst (retry (sample_link_env\<lparr>le_google := agreeing_connector\<rparr>) ''task_1''
     (world_of (completed_linked\<lparr>task_status := Open\<rparr>))) = Inr (completed_linked\<lparr>task_status := Open\<rparr>)"
proof -
  let ?t = "completed_linked\<lparr>task_status := Open\<rparr>"
  let ?env = "sample_link_env\<lparr>le_google := agreeing_connector\<rparr>"
  have st: "stored_task (lw_store (world_of ?t)) ''task_1'' ?t" using world_of_stored [of ?t] by simp
  have rd: "readable ?env linked_open ''remote_1'' agreeing_connector"
    by (simp add: readable_def sample_destination_def connectorFor_def agreeing_connector_def calm_connector_def)
  show ?thesis
    by (rule conjunct1 [OF retry_is_idempotent [OF st _ rd _ _ _ linked_open_simps(5),
          where remote = agreed_record]])
      (simp_all add: agreeing_connector_def sameContent_def baselineFor_def agreed_record_def)
qed

text \<open>A retry after the owner changed both the status and the content overwrites an edit the provider made to the
  content meanwhile: the one reading stops at the moved status, so the content is pushed without being compared and
  no drift is recorded, although the record that was read differs from the agreed state.\<close>

theorem retry_overwrites_outside_edit:
  assumes "stored_task (lw_store w) tid t" "task_externalLink t = Some l" "readable env l r k"
    "task_deletedAt t = None" "el_baseline l = Some b"
    "rc_read k (el_destination l) r (lw_calls w) = Inr (Some remote)"
    "bl_status remote = bl_status b" "\<not> sameContent remote b" "task_status t \<noteq> bl_status b"
    "\<not> sameContent b (baselineFor t (task_status t))"
    "\<And>calls. rc_updateStatus k (el_destination l) r (task_status t = Completed) calls = Inr ()"
    "\<And>calls. rc_updateContent k (el_destination l) r (task_contentOf t) calls = Inr ()"
    "room 2 (lw_store w)"
  shows "\<exists>t' l' w'. retry env tid w = (Inr t', w')
    \<and> lw_calls w' = lw_calls w @ [ReadRecord (el_destination l) r,
         UpdateStatus (el_destination l) r (task_status t = Completed),
         UpdateContent (el_destination l) r (task_contentOf t)]
    \<and> task_externalLink t' = Some l' \<and> el_state l' = Synchronized \<and> el_external l' = None"
  using retry_overwrites [OF assms(1-7) assms(9-13)] by metis

theorem retry_overwrites_outside_edit_witness:
  "\<exists>t' w'. retry sample_link_env ''task_1'' (world_of (completed_linked\<lparr>task_title := ''Send it''\<rparr>)) = (Inr t', w')
     \<and> lw_calls w' = [ReadRecord sample_destination ''remote_1'', UpdateStatus sample_destination ''remote_1'' True,
          UpdateContent sample_destination ''remote_1'' (task_contentOf (completed_linked\<lparr>task_title := ''Send it''\<rparr>))]"
proof -
  let ?t = "completed_linked\<lparr>task_title := ''Send it''\<rparr>"
  have st: "stored_task (lw_store (world_of ?t)) ''task_1'' ?t" using world_of_stored [of ?t] by simp
  have ne: "\<not> sameContent agreed_record (baselineFor ?t (task_status ?t))"
    by (simp add: sameContent_def baselineFor_def agreed_record_def)
  have l: "task_externalLink ?t = Some linked_open" "task_deletedAt ?t = None" "bl_status remote_record = bl_status agreed_record"
    "task_status ?t \<noteq> bl_status agreed_record" by simp_all
  obtain t' w' where "retry sample_link_env ''task_1'' (world_of ?t) = (Inr t', w')"
    "lw_calls w' = lw_calls (world_of ?t) @ [ReadRecord (el_destination linked_open) ''remote_1'',
       UpdateStatus (el_destination linked_open) ''remote_1'' (task_status ?t = Completed),
       UpdateContent (el_destination linked_open) ''remote_1'' (task_contentOf ?t)]"
    using retry_overwrites_outside_edit [OF st l(1) sample_readable l(2) linked_open_simps(5) calm_simps(3) l(3)
        record_simps(3) l(4) ne calm_simps(1,2) some_room(2)] by blast
  then show ?thesis by simp
qed

text \<open>The text a failure shows is bounded: whatever the provider answered, the stored detail has at most 280
  characters.\<close>

theorem failure_detail_bounded: "length (sanitizeDetail m) \<le> 280"
  by (simp add: sanitizeDetail_def ellipsis_def Let_def)

text \<open>A failed creation counts as certainly not made only when the provider said so: by a rate limit, an invalid
  grant or a 400, 401, 403 or 429; every other failure leaves the creation uncertain, so it is not tried again
  without the owner.\<close>

theorem creation_certain_only_on_refusal:
  "uncertain_creation (lf_kind (classifyTaskLinkError e p)) \<longleftrightarrow>
     \<not> mentions_ci [''rateLimitExceeded'', ''userRateLimitExceeded'', ''quotaExceeded''] (th_message e)
     \<and> \<not> includes_text ''invalid_grant'' (th_message e)
     \<and> providerStatus (th_value e) \<notin> {Some 400, Some 401, Some 403, Some 429}"
  by (auto simp: classifyTaskLinkError_def uncertain_creation_def link_fault_def Let_def)

end
