(* ===== verification/Redirects.thy ===== *)
theory Redirects
  imports Workspace
begin

section \<open>Redirects of a reachable Workspace\<close>

text \<open>
  Beside having no cycle, the redirects of a reachable Workspace name records that are held: only a held record
  that redirects nowhere can be attached to, and no step takes a record away.  So following a redirect from a held
  record always lands.
\<close>

definition targets_held :: "action_item list \<Rightarrow> bool" where
  "targets_held is \<longleftrightarrow> (\<forall>i\<in>set is. \<forall>k. ai_reconciledInto i = Some k \<longrightarrow> k \<in> ai_id ` set is)"

definition store_targets_held :: "wstore \<Rightarrow> bool" where
  "store_targets_held s \<longleftrightarrow> (\<forall>is. readActionItems s = Inr is \<longrightarrow> targets_held is)"

text \<open>A Workspace in which no reconciliation has left a redirect.\<close>

definition unredirected :: "wstore \<Rightarrow> bool" where
  "unredirected s \<longleftrightarrow> store_wf s \<and> (\<exists>ts is. readTasks s = Inr ts \<and> readActionItems s = Inr is \<and> lineage_ok ts is
     \<and> distinct (map ai_id is) \<and> (\<forall>i\<in>set is. item_wf i \<and> ai_reconciledInto i = None))"

lemma unredirected_start:
  assumes "unredirected s"
  shows "workspace_ok s" "store_targets_held s"
proof -
  from assms obtain ts "is" where s: "store_wf s" "readTasks s = Inr ts" "readActionItems s = Inr is" "lineage_ok ts is"
    "distinct (map ai_id is)" "\<forall>i\<in>set is. item_wf i \<and> ai_reconciledInto i = None" by (auto simp: unredirected_def)
  have "redirects is = {}" using s(6) by (auto simp: redirects_def)
  then have "items_wf is" using s(5,6) by (simp add: items_wf_def acyclic_def)
  with s show "workspace_ok s" by (intro workspace_okI)
  show "store_targets_held s" using s(3,6) by (simp add: store_targets_held_def targets_held_def)
qed

subsection \<open>One record at a time\<close>

lemma held_replaced:
  assumes "targets_held is" "find_by ai_id aid is = Some cur" "ai_id n = aid"
    and "ai_reconciledInto n = ai_reconciledInto cur \<or> ai_reconciledInto n = None
     \<or> (\<exists>k held. ai_reconciledInto n = Some k \<and> k \<noteq> aid \<and> find_by ai_id k is = Some held \<and> ai_reconciledInto held = None)"
  shows "targets_held (replace_by ai_id aid n is)"
proof -
  have "map ai_id (replace_by ai_id aid n is) = map ai_id is" using assms(3) by (rule map_key_replace_by)
  then have ids: "ai_id ` set (replace_by ai_id aid n is) = ai_id ` set is" by (metis set_map)
  have "k \<in> ai_id ` set is" if "ai_reconciledInto n = Some k" for k
    using assms(1,2,4) that by (auto simp: targets_held_def dest!: find_by_SomeD)
  then show ?thesis
    using assms(1) unfolding targets_held_def ids by (auto dest!: replace_by_mem_cases)
qed

lemma held_changed:
  assumes "targets_held is" "find_by ai_id aid is = Some cur" "readActionItems s = Inr is"
    "change cur at (ai_version cur + 1) s = Inr (Some n)" "extending change" "safe_redirect aid change"
  shows "targets_held (replace_by ai_id aid (n\<lparr>ai_version := ai_version cur + 1\<rparr>) is)"
proof (rule held_replaced [OF assms(1,2)])
  show "ai_id (n\<lparr>ai_version := ai_version cur + 1\<rparr>) = aid"
    using extendingD [OF assms(5,4)] assms(2) by (auto simp: extends_item_def dest: find_by_SomeD)
qed (use assms(3,4,6) in \<open>unfold safe_redirect_def, fastforce\<close>)

lemma transition_held:
  assumes "can_write s" "items_store_wf s" "store_targets_held s" "extending change" "wf_item_change change" "safe_redirect aid change"
  shows "store_targets_held (snd (transition env aid command change p s))"
proof -
  from assms(2) obtain "is" where i: "readActionItems s = Inr is" "items_wf is" by (auto simp: items_store_wf_def)
  have "targets_held is" using assms(3) i(1) by (simp add: store_targets_held_def)
  from i(1) show ?thesis
  proof (cases rule: stage_cases [where env = env and aid = aid and command = command and change = change and p = p])
    case (staged cur n)
    note wf = items_wf_changed [OF i(2) staged(1) i(1) staged(4) assms(4-6)]
    note held = held_changed [OF \<open>targets_held is\<close> staged(1) i(1) staged(4) assms(4,6)]
    note w = writeActionItems_facts [OF assms(1) items_wf_revised [OF wf]]
      items_table.write_run [OF assms(1) items_wf_revised [OF wf]]
    show ?thesis using staged(5) w held by (simp add: transition_def store_targets_held_def)
  qed (use assms(3) in \<open>simp_all add: transition_def\<close>)
qed

lemma run_item_op_held:
  assumes "can_write s" "items_store_wf s" "store_targets_held s"
  shows "store_targets_held (snd (run_item_op env c s))"
proof (cases c)
  case (ResolveOp mid st tv command)
  obtain "is" where "readActionItems s = Inr is" using assms(2) by (auto simp: items_store_wf_def)
  with ResolveOp assms show ?thesis
    by (auto simp: resolveAmendment_def split: option.split
        intro!: transition_held extending_changes wf_resolve safe_redirects)
qed (use assms in \<open>auto simp: recordPromotion_def dismiss_def restore_def selectProposal_def correctProposal_def
    reconcile_def suggestAmendment_def
    intro!: transition_held extending_changes extending_reconcile wf_promotion wf_decide wf_select wf_correct
      wf_reconcile wf_suggest safe_redirects safe_redirect_reconcile\<close>)

subsection \<open>The Workspace's steps\<close>

lemma held_appended: "targets_held is \<Longrightarrow> \<forall>x\<in>set new. ai_reconciledInto x = None \<Longrightarrow> targets_held (is @ new)"
  unfolding targets_held_def by fastforce

lemma extraction_held:
  assumes "workspace_ok s" "store_targets_held s" "can_write s"
  shows "store_targets_held (snd (materialize ienv input s))"
  using assms(1)
proof (rule workspace_okE)
  fix "is" assume r: "readActionItems s = Inr is"
  from assms(3) r show ?thesis
  proof (cases rule: materialize_cases [where env = ienv and input = input])
    case (stored ms s')
    have "ai_reconciledInto x = None" if "x \<in> set (added_items ms)" for x
      using stored(1) that by (rule added_mem) (auto simp: newActionItem_wf)
    then have "targets_held (is @ added_items ms)"
      using assms(2) r by (intro held_appended) (simp_all add: store_targets_held_def)
    with stored(2,3) show ?thesis by (simp add: store_targets_held_def)
  qed (use assms(2) in simp)
qed

lemma held_promoted:
  assumes "targets_held is" "find_by ai_id aid is = Some item"
  shows "targets_held (replace_by ai_id aid (promoted ienv input item t) is)"
  using assms by (rule held_replaced) (use assms(2) in \<open>auto simp: promoted_def dest: find_by_SomeD\<close>)

lemma promotion_held:
  assumes "workspace_ok s" "store_targets_held s" "can_write s" "fresh_ids tenv s"
  shows "store_targets_held (snd (promoteActionItem tenv ienv aid input s))"
  using assms(1)
proof (rule workspace_okE)
  fix ts "is" assume r: "readTasks s = Inr ts" "readActionItems s = Inr is" "items_wf is"
  have held: "targets_held is" using assms(2) r(2) by (simp add: store_targets_held_def)
  from assms(3) r(2,1) assms(4) r(3) show ?thesis
    by (cases rule: promote_cases [where ienv = ienv and aid = aid and input = input])
      (use assms(2) held_promoted [OF held] in \<open>simp_all add: store_targets_held_def\<close>)
qed

lemma workspace_step_held:
  assumes "workspace_step s s'" "workspace_ok s" "store_targets_held s"
  shows "store_targets_held s'"
  using assms(1)
proof (cases rule: workspace_step.cases)
  case (owner tenv c)
  from assms(2) show ?thesis
  proof (rule workspace_okE)
    fix ts ls "is" assume r: "readTasks s = Inr ts" "lists s = Inr ls" "workspace_wf ts ls"
    from r(3) have "distinct (map task_id ts)" by (simp add: workspace_wf_def)
    from command_lineage [OF owner(2) r(1,2) this owner(4), of tenv] owner(1) assms(3) show ?thesis
      by (auto simp: store_targets_held_def)
  qed
next
  case (review c ienv)
  from assms(2) have "items_store_wf s" by (rule workspace_okE)
  with review assms(3) show ?thesis by (auto intro: run_item_op_held)
next
  case (interruption tenv ienv aid p r t)
  have "readActionItems s' = readActionItems s" unfolding interruption(1)
    using interruption(4) by (simp add: interrupted_def readActionItems_def readBundle_def)
  with assms(3) show ?thesis by (simp add: store_targets_held_def)
qed (use assms(2,3) in \<open>auto intro: extraction_held promotion_held\<close>)

lemma workspace_reachable_held:
  "workspace_reachable s0 s \<Longrightarrow> workspace_ok s0 \<Longrightarrow> store_targets_held s0 \<Longrightarrow> store_targets_held s"
  by (induction rule: workspace_reachable.induct) (auto intro: workspace_step_held dest: workspace_reachable_ok)

subsection \<open>Following\<close>

lemma follow_finds:
  "targets_held is \<Longrightarrow> find_by ai_id current is \<noteq> None \<Longrightarrow> follow_from is start visited current \<noteq> FollowedMissing"
proof (induction "is" start visited current rule: follow_from.induct)
  case (1 "is" start visited current)
  then obtain held where h: "find_by ai_id current is = Some held" by auto
  show ?case
  proof (cases "current \<in> set visited \<or> ai_reconciledInto held = None")
    case True
    with h show ?thesis by (auto simp: follow_from.simps)
  next
    case False
    then obtain k where k: "ai_reconciledInto held = Some k" by auto
    have "k \<in> ai_id ` set is" using 1(2) h k by (auto simp: targets_held_def dest: find_by_SomeD)
    then have "find_by ai_id k is \<noteq> None" by (auto simp: find_by_None_iff)
    with 1(1) [OF _ h k 1(2)] False have "follow_from is start (current # visited) k \<noteq> FollowedMissing" by simp
    with False h k show ?thesis by (subst follow_from.simps) simp
  qed
qed

text \<open>On held, acyclic redirects a reader who starts at a held record lands at one that redirects nowhere.\<close>

lemma follow_settles:
  assumes "acyclic (redirects is)" "targets_held is" "find_by ai_id aid is \<noteq> None"
  obtains k held where "followRedirect is aid = FollowedTo k (if k = aid then None else Some aid)"
    "find_by ai_id k is = Some held" "ai_reconciledInto held = None"
proof (cases "followRedirect is aid")
  case (FollowedTo k origin)
  with follow_lands [of "is" aid "[]" aid k origin] that show thesis by (auto simp: followRedirect_def)
qed (use follow_finds [OF assms(2,3), of aid "[]"] follow_not_cycle [OF assms(1), of "[]" aid aid]
  in \<open>simp_all add: followRedirect_def\<close>)

end
