(* ===== verification/ItemProperties.thy ===== *)
theory ItemProperties
  imports Samples Redirects
begin

section \<open>Properties of the Action Items\<close>

text \<open>
  Materialization, review and the references between obligations: what is allocated once stays allocated, what
  was decided stays in the history, and a reference that can be followed ends at a record.
\<close>

subsection \<open>Materialization\<close>

definition sample_extraction :: item_materialization where
  "sample_extraction = \<lparr>im_debriefRunId = ''run_2'', im_transcriptId = ''transcript_2'', im_meetingId = None,
     im_transcriptObservedRevision = None, im_transcriptChecksum = None, im_contextChecksum = None,
     im_actionItems = [\<lparr>xi_handoff = None, xi_responsibilityClaim = None, xi_title = ''Call Ann'', xi_owner = None,
       xi_ownerMentionId = None, xi_ownerProfileId = None, xi_dueDate = None\<rparr>],
     im_candidateAliases = [], im_firstExtraction = None, im_reviewOnly = False\<rparr>"

lemma sample_extraction_fresh [simp]:
  "fresh_items sample_items_env sample_extraction [sample_item ''ai_1'', sample_item ''ai_2'']"
  by (simp add: fresh_items_def sample_extraction_def sample_items_env_def allocateActionItemId_def lessThan_Suc)

lemma sample_collision_free: "collision_free (ie_sha sample_items_env) (checked_entries sample_items_env sample_extraction)"
  by (simp add: collision_free_def inj_on_def sample_extraction_def lessThan_Suc)

lemma sample_materialize:
  obtains xs s' where "materialize sample_items_env sample_extraction sample_store = (Inr xs, s')"
    "readActionItems s' = Inr ([sample_item ''ai_1'', sample_item ''ai_2''] @ xs)" "length xs = 1"
proof -
  have none: "materializationIndex [sample_item ''ai_1'', sample_item ''ai_2''] k = None" for k
    by (simp add: materializationIndex_def item_mappings_def sample_item_def revision_mapping_def
        List.map_filter_simps index_of_def)
  obtain x where r: "run_results sample_items_env sample_extraction [sample_item ''ai_1'', sample_item ''ai_2''] = Inr [Added x]"
    by (simp add: run_results_def materialize_entry_def none Let_def sample_extraction_def)
  from sample_reads(4,2) show thesis
  proof (cases rule: materialize_cases [where env = sample_items_env and input = sample_extraction])
    case (refused e)
    with r show ?thesis by simp
  next
    case (stored ms s')
    with r show ?thesis by (intro that [of "[x]" s']) simp_all
  qed
qed

text \<open>C18: Materialization is idempotent: when an extraction has been materialized into a store of well-formed records that
  can be written, under identities no record had, materializing the same extraction again, later and with other random
  identities, allocates nothing, writes nothing and answers the same records.  The provisos are that the truncated digests of
  its entries do not collide, that the digest is the same function, and that the owner's profile has the same identity
  the second time: it is read anew by every materialization and enters the payload of the entries.\<close>

theorem materialization_replays:
  assumes "can_write s" "readActionItems s = Inr is" "items_wf is" "fresh_items env input is"
    "collision_free (ie_sha env) (checked_entries env input)"
    "ie_sha env' = ie_sha env" "ie_ownerProfileId env' = ie_ownerProfileId env"
    "materialize env input s = (Inr xs, s')"
  shows "materialize env' input s' = (Inr xs, s')"
  by (rule materialize_replay [OF assms])

theorem materialization_replays_witness:
  "\<exists>xs s'. materialize sample_items_env sample_extraction sample_store = (Inr xs, s')
     \<and> materialize (sample_items_env\<lparr>ie_now := ''2027-01-01''\<rparr>) sample_extraction s' = (Inr xs, s')"
proof -
  obtain xs s' where m: "materialize sample_items_env sample_extraction sample_store = (Inr xs, s')"
    by (rule sample_materialize)
  from materialization_replays [OF sample_reads(4,2) sample_items_wf sample_extraction_fresh sample_collision_free _ _ m,
      of "sample_items_env\<lparr>ie_now := ''2027-01-01''\<rparr>"] m show ?thesis by simp
qed

text \<open>Materialization only appends: the records held before keep their place and their content, the Tasks and lists
  are untouched, every new record is pending and well formed, and a refusal leaves the store as it was.\<close>

theorem materialization_appends:
  assumes "can_write s" "readActionItems s = Inr is" "items_wf is" "fresh_items env input is"
  shows "\<exists>new. readActionItems (snd (materialize env input s)) = Inr (is @ new) \<and> items_wf (is @ new)
    \<and> list_all (\<lambda>i. ai_state i = Pending \<and> as_debriefRunId (ai_source i) = im_debriefRunId input) new
    \<and> (case fst (materialize env input s) of Inl e \<Rightarrow> snd (materialize env input s) = s
       | Inr xs \<Rightarrow> length xs = length (im_actionItems input) \<and> set new \<subseteq> set xs)
    \<and> readTasks (snd (materialize env input s)) = readTasks s \<and> readLists (snd (materialize env input s)) = readLists s"
  using assms(1,2)
proof (cases rule: materialize_cases [where env = env and input = input])
  case (refused e)
  with assms(2,3) show ?thesis by (intro exI [of _ "[]"]) simp
next
  case (stored ms s')
  have "ai_state x = Pending \<and> as_debriefRunId (ai_source x) = im_debriefRunId input" if "x \<in> set (added_items ms)" for x
    using stored(1) that by (rule added_mem) (auto simp: item_source_of_def)
  moreover have "set (added_items ms) \<subseteq> materialized_item ` set ms" by (force simp: set_added)
  ultimately show ?thesis
    using stored materialized_wf [OF assms(3) stored(1) assms(4)] run_results_nth(1) [OF stored(1)]
    by (intro exI [of _ "added_items ms"]) (simp add: list_all_iff)
qed

theorem materialization_appends_witness:
  "\<exists>new. readActionItems (snd (materialize sample_items_env sample_extraction sample_store))
     = Inr ([sample_item ''ai_1'', sample_item ''ai_2''] @ new)"
  using materialization_appends [OF sample_reads(4,2) sample_items_wf sample_extraction_fresh] by blast

text \<open>A checked output is identified by its content and its position among identical ones: within one extraction no
  two entries share an identity, provided the truncated digests do not collide.\<close>

theorem entry_identities_distinct:
  assumes "collision_free sha entries"
  shows "distinct (map (outputEntryId sha entries) [0..<length entries])"
  using outputEntryId_inj [OF assms] by (auto simp: distinct_map inj_on_def)

theorem entry_identities_distinct_witness:
  "distinct (map (outputEntryId (ie_sha sample_items_env) (checked_entries sample_items_env sample_extraction))
     [0..<length (checked_entries sample_items_env sample_extraction)])"
  by (rule entry_identities_distinct [OF sample_collision_free])

text \<open>The canonical text of an object does not depend on the order in which its members were written, so the
  checksum of a payload depends on its content alone.\<close>

theorem canonical_text_ignores_member_order:
  assumes "mset fs = mset gs" "distinct (map fst fs)"
  shows "canonicalJson (JObj fs) = canonicalJson (JObj gs)"
  by (rule canonical_fields_order [OF assms])

theorem canonical_text_ignores_member_order_witness:
  "canonicalJson (JObj [(''b'', JNum 1), (''a'', JNull)]) = canonicalJson (JObj [(''a'', JNull), (''b'', JNum 1)])"
  by (rule canonical_text_ignores_member_order) (simp_all add: add_mset_commute)

text \<open>A dependency is bound to another obligation only when that is certain: a bound target is another entry of the
  same extraction, its title is the one the dependency names, and no second entry has that title.\<close>

theorem dependency_bound_only_when_certain:
  assumes "dependency_target_of sha entries index d = OutputTarget e"
  shows "\<exists>c < length entries. c \<noteq> index \<and> e = outputEntryId sha entries c
    \<and> normalizeTitle (ep_title (oe_payload (entries ! c))) = normalizeTitle (hdp_actionTitle d)
    \<and> (\<forall>c' < length entries. normalizeTitle (ep_title (oe_payload (entries ! c'))) = normalizeTitle (hdp_actionTitle d)
        \<longrightarrow> c' = c)"
  using dependency_target_of_output [OF assms] by blast

definition sample_entry :: "string \<Rightarrow> output_entry" where
  "sample_entry title = \<lparr>oe_candidateAlias = None, oe_payload = \<lparr>ep_title = title, ep_owner = None, ep_ownerMentionId = None,
     ep_ownerProfileId = None, ep_dueDate = None, ep_notes = [], ep_responsiblePerson = None,
     ep_occurrence = \<lparr>io_locator = ''unlocated'', io_timestamp = None, io_quote = None\<rparr>, ep_handoff = None,
     ep_responsibilityClaim = None\<rparr>\<rparr>"

definition sample_dependency :: handoff_dependency where
  "sample_dependency = \<lparr>hdp_actionTitle = ''B'', hdp_condition = [], hdp_provenance = Supported, hdp_sources = [],
     hdp_references = ReferencesExtracted, hdp_target = None\<rparr>"

theorem dependency_bound_only_when_certain_witness:
  "\<exists>c < length [sample_entry ''a'', sample_entry ''b'']. c \<noteq> 0
    \<and> outputEntryId id [sample_entry ''a'', sample_entry ''b''] 1 = outputEntryId id [sample_entry ''a'', sample_entry ''b''] c"
proof -
  have n: "normalizeTitle ''B'' = ''b''" "normalizeTitle ''b'' = ''b''" "normalizeTitle ''a'' = ''a''" by code_simp+
  have "dependency_target_of id [sample_entry ''a'', sample_entry ''b''] 0 sample_dependency =
      OutputTarget (outputEntryId id [sample_entry ''a'', sample_entry ''b''] 1)"
    by (simp add: dependency_target_of_def sample_dependency_def sample_entry_def n Let_def upt_rec)
  from dependency_bound_only_when_certain [OF this] show ?thesis by blast
qed

subsection \<open>Review\<close>

lemma item_op_outcome:
  assumes "can_write s" "readActionItems s = Inr is"
  shows "\<exists>aid. item_outcome aid is s (run_item_op env c s)"
proof (cases c)
  case (ResolveOp mid st tv command)
  show ?thesis
  proof (cases "amendment_holder mid is")
    case None
    with ResolveOp assms(2) show ?thesis by (simp add: resolveAmendment_def item_outcome_def)
  next
    case (Some holder)
    then have "run_item_op env c s = transition env (ai_id holder) command (resolve_change mid st tv command) False s"
      using ResolveOp assms(2) by (simp add: resolveAmendment_def)
    with resolve_held.outcome [OF assms] show ?thesis by metis
  qed
qed (auto intro: record_promotion.outcome [OF assms] dismiss_item.outcome [OF assms] restore_item.outcome [OF assms]
    select_proposal.outcome [OF assms] correct_proposal.outcome [OF assms] suggest_amendment.outcome [OF assms]
    reconcile_item.outcome [OF assms])

text \<open>C23: A review command changes at most one Action Item and never rewrites its history: the answered record keeps its
  identity, source and evidence, its earlier proposals and decisions are a prefix of the later ones, its version grows
  by one with each decision, and every other record, the Tasks and the lists stay as they were; a refusal changes
  nothing.\<close>

theorem review_changes_one_record:
  assumes "can_write s" "readActionItems s = Inr is" "items_wf is"
  shows "\<exists>aid. case run_item_op env c s of
      (Inl e, s') \<Rightarrow> s' = s
    | (Inr i, s') \<Rightarrow> \<exists>cur. find_by ai_id aid is = Some cur \<and> ai_id i = aid \<and> ai_source i = ai_source cur
        \<and> ai_evidence i = ai_evidence cur
        \<and> prefix (ai_proposalRevisions cur) (ai_proposalRevisions i) \<and> prefix (ai_decisions cur) (ai_decisions i)
        \<and> ai_version i = ai_version cur + int (length (ai_decisions i) - length (ai_decisions cur))
        \<and> readActionItems s' = Inr (replace_by ai_id aid i is)
        \<and> readTasks s' = readTasks s \<and> readLists s' = readLists s"
proof -
  have "replace_by ai_id aid i is = is" if "find_by ai_id aid is = Some i" for aid i
    using that assms(3) by (simp add: replace_by_id items_wf_def)
  moreover from item_op_outcome [OF assms(1,2), of env c] obtain aid where
    "item_outcome aid is s (run_item_op env c s)" ..
  ultimately show ?thesis
    using assms(2) unfolding item_outcome_def
    by (intro exI [of _ aid]) (elim disjE exE conjE; force simp: extends_item_def dest: find_by_SomeD)
qed

theorem review_changes_one_record_witness:
  "\<exists>i s'. run_item_op sample_items_env (DismissOp ''ai_1'' no_command) sample_store = (Inr i, s')
     \<and> ai_id i = ''ai_1'' \<and> readTasks s' = Inr [open_task, trashed_task]"
proof -
  have "\<exists>n items. stage sample_items_env ''ai_1'' no_command (decide_change Dismissed DDismiss no_command) True sample_store
      = (Inr (n, Some items), sample_store) \<and> ai_id n = ''ai_1'' \<and> revised items"
    by (simp add: stage_def decide_change_def no_command_def Let_def)
  then obtain n items where st: "stage sample_items_env ''ai_1'' no_command (decide_change Dismissed DDismiss no_command) True
      sample_store = (Inr (n, Some items), sample_store)" "ai_id n = ''ai_1''" "revised items" by blast
  have d: "run_item_op sample_items_env (DismissOp ''ai_1'' no_command) sample_store =
      (Inr n, snd (writeActionItems items sample_store))"
    using st(1) items_table.write_run [OF sample_reads(4) st(3)] by (simp add: dismiss_def transition_def)
  from review_changes_one_record [OF sample_reads(4,2) sample_items_wf, of sample_items_env "DismissOp ''ai_1'' no_command"]
  show ?thesis unfolding d using st(2) by auto
qed

text \<open>C34: A redirect can always be followed: in every Workspace that the owner's commands, the reviews, the extractions, the
  promotions and their interruptions make of a well-formed one without redirects, a reader who follows an Action Item through the
  reconciliations lands, after no cycle and no missing record, at a record that redirects nowhere, and is told
  where the reader came from; only an Action Item that is not held is answered as missing.\<close>

theorem redirects_can_be_followed:
  assumes "unredirected s0" "workspace_reachable s0 s" "readActionItems s = Inr is"
  shows "case find_by ai_id aid is of None \<Rightarrow> followRedirect is aid = FollowedMissing
    | Some _ \<Rightarrow> \<exists>k held. followRedirect is aid = FollowedTo k (if k = aid then None else Some aid)
        \<and> find_by ai_id k is = Some held \<and> ai_reconciledInto held = None"
proof (cases "find_by ai_id aid is")
  case None
  then show ?thesis by (simp add: followRedirect_def follow_from.simps)
next
  case (Some i)
  note start = unredirected_start [OF assms(1)]
  have held: "targets_held is"
    using workspace_reachable_held [OF assms(2) start] assms(3) by (simp add: store_targets_held_def)
  have acyclic: "acyclic (redirects is)"
    using workspace_reachable_ok [OF assms(2) start(1)] assms(3)
    by (auto simp: workspace_ok_def items_store_wf_def items_wf_def)
  obtain k held where "followRedirect is aid = FollowedTo k (if k = aid then None else Some aid)"
    "find_by ai_id k is = Some held" "ai_reconciledInto held = None"
    by (rule follow_settles [OF acyclic held, of aid]) (use Some in simp_all)
  with Some show ?thesis by simp
qed

lemma sample_unredirected: "unredirected sample_store"
  by (auto simp: unredirected_def lineage_ok_def lineage_Cons)

text \<open>The first record was reconciled into the second.\<close>

theorem redirects_can_be_followed_witness:
  "\<exists>is i. readActionItems (snd (reconcile sample_items_env ''ai_1'' EvidenceOfHistorical (Some ''ai_2'') no_command sample_store)) = Inr is
     \<and> find_by ai_id ''ai_1'' is = Some i \<and> ai_reconciledInto i = Some ''ai_2''
     \<and> (\<exists>k held. followRedirect is ''ai_1'' = FollowedTo k (if k = ''ai_1'' then None else Some ''ai_1'')
       \<and> find_by ai_id k is = Some held \<and> ai_reconciledInto held = None)"
proof -
  let ?change = "reconcile_change sample_items_env ''ai_1'' EvidenceOfHistorical (Some ''ai_2'') no_command"
  let ?s = "snd (reconcile sample_items_env ''ai_1'' EvidenceOfHistorical (Some ''ai_2'') no_command sample_store)"
  have sample: "currentReconciliation (sample_item k) = None" for k
    by (simp add: currentReconciliation_def sample_item_def)
  have "attachable ''ai_1'' (Some ''ai_2'') sample_store = Inr ()"
    by (simp add: attachable_def getItem_def map_result_def)
  then have "\<exists>n items. stage sample_items_env ''ai_1'' no_command ?change False sample_store = (Inr (n, Some items), sample_store)
      \<and> revised items \<and> (\<exists>i. find_by ai_id ''ai_1'' items = Some i \<and> ai_reconciledInto i = Some ''ai_2'')"
    by (simp add: stage_def reconcile_change_def owner_reconciliation_def sample no_command_def Let_def)
  then obtain n items i where st: "stage sample_items_env ''ai_1'' no_command ?change False sample_store
      = (Inr (n, Some items), sample_store)" "revised items"
    "find_by ai_id ''ai_1'' items = Some i" "ai_reconciledInto i = Some ''ai_2''" by blast
  have read: "readActionItems ?s = Inr items"
    using st(1) items_table.write_run [OF sample_reads(4) st(2)] writeActionItems_facts [OF sample_reads(4) st(2)]
    by (simp add: reconcile_def transition_def)
  have "workspace_reachable sample_store ?s"
    using workspace_reachable.step [OF workspace_reachable.start
      workspace_step.review [OF sample_reads(4), of "ReconcileOp ''ai_1'' EvidenceOfHistorical (Some ''ai_2'') no_command"]]
    by simp
  from redirects_can_be_followed [OF sample_unredirected this read, of "''ai_1''"] st(3,4) read show ?thesis by simp
qed

text \<open>Keeping the previous content after a correction cannot be said directly: once a correction has arrived,
  selecting the revision that is already selected is answered as done but records nothing, so the promotion of the
  record stays refused.\<close>

theorem keeping_the_selected_revision_is_ignored:
  assumes "readActionItems s = Inr is" "find_by ai_id aid is = Some item"
    "find_by rv_revision (ai_selectedRevision item) (ai_proposalRevisions item) \<noteq> None"
    "ai_selectedRevision item \<le> ai_reviewedThrough item" "ai_reviewedThrough item < latestProposalRevision item"
  shows "selectProposal env aid (ai_selectedRevision item) no_command s = (Inr item, s) \<and> promotionRefusal item \<noteq> None"
  using assms
  by (auto simp: selectProposal_def transition_def stage_def select_change_def no_command_def promotionRefusal_def Let_def)

definition corrected_item :: action_item where
  "corrected_item = (sample_item ''ai_1'')\<lparr>ai_proposalRevisions := ai_proposalRevisions (sample_item ''ai_1'') @
     [\<lparr>rv_revision = 2, rv_content = \<lparr>pp_title = ''Book a larger room'', pp_notes = [], pp_dueDate = None,
       pp_responsiblePerson = Some Owner\<rparr>, rv_origin = OwnerCorrection 1, rv_extractionRevision = 1,
       rv_createdAt = ''2026-03-02T08:00:00.000Z''\<rparr>]\<rparr>"

theorem keeping_the_selected_revision_is_ignored_witness:
  "selectProposal sample_items_env ''ai_1'' 1 no_command (store_at 4 [] [corrected_item])
     = (Inr corrected_item, store_at 4 [] [corrected_item])"
proof -
  have c: "ai_selectedRevision corrected_item = 1" "ai_reviewedThrough corrected_item = 1"
    "latestProposalRevision corrected_item = 2" "ai_id corrected_item = ''ai_1''"
    "find_by rv_revision 1 (ai_proposalRevisions corrected_item) \<noteq> None" "ai_proposalRevisions corrected_item \<noteq> []"
    by (simp_all add: corrected_item_def sample_item_def latestProposalRevision_def)
  have "readActionItems (store_at 4 [] [corrected_item]) = Inr [corrected_item]"
    by (simp add: store_at_reads c max_safe_integer_def)
  from keeping_the_selected_revision_is_ignored [OF this, of "''ai_1''" corrected_item] c show ?thesis by simp
qed

text \<open>The locator of an occurrence never tells repeated quotations apart: whatever the evidence of an obligation, the
  ordinal it carries is that of the first evidence among its own repetitions, which is always 1.\<close>

theorem occurrence_ordinal_is_always_one:
  "io_locator (occurrenceOf x) = (case (case xi_handoff x of None \<Rightarrow> [] | Some h \<Rightarrow> handoff_evidence h) of
     [] \<Rightarrow> ''unlocated''
   | e # _ \<Rightarrow> or_else (hs_timestamp e) ''no-timestamp'' @ ''#1'')"
proof (cases "case xi_handoff x of None \<Rightarrow> [] | Some h \<Rightarrow> handoff_evidence h")
  case Nil
  then show ?thesis by (simp add: occurrenceOf_def)
next
  case (Cons e es)
  have "io_locator (occurrenceOf x) = or_else (hs_timestamp e) ''no-timestamp'' @ ''#'' @ digits (Suc (length
      (takeWhile (\<lambda>i. i \<noteq> 0) (filter (\<lambda>i. hs_quote ((e # es) ! i) = hs_quote e
        \<and> hs_timestamp ((e # es) ! i) = hs_timestamp e) [0..<length (e # es)]))))"
    unfolding occurrenceOf_def Cons list.case Let_def item_occurrence.select_convs by (rule refl)
  moreover have "takeWhile (\<lambda>i. i \<noteq> 0) (filter (\<lambda>i. hs_quote ((e # es) ! i) = hs_quote e
      \<and> hs_timestamp ((e # es) ! i) = hs_timestamp e) [0..<length (e # es)]) = []"
  proof -
    have "[0..<length (e # es)] = 0 # [1..<length (e # es)]" by (simp only: list.size upt_conv_Cons) simp
    then show ?thesis by (simp only: filter.simps nth_Cons_0 takeWhile.simps) simp
  qed
  moreover have "digits (Suc 0) = ''1''" by code_simp
  ultimately have "io_locator (occurrenceOf x) = or_else (hs_timestamp e) ''no-timestamp'' @ ''#1''" by simp
  then show ?thesis using Cons by simp
qed

end
