(* ===== verification/PromotionProperties.thy ===== *)
theory PromotionProperties
  imports Samples
begin

section \<open>Properties of promotion\<close>

text \<open>
  Promotion joins the two halves of the product, so its properties are about both stores at once: one Task per
  Action Item whatever is retried or interrupted, the content that was reviewed, and nothing written when refused.
\<close>

lemma workspace_promotion:
  assumes "workspace_ok s" "can_write s" "fresh_ids tenv s" "promoteActionItem tenv ienv aid input s = (Inr r, s')"
  obtains ts ts' "is'" where "readTasks s = Inr ts" "readTasks s' = Inr ts'" "readActionItems s' = Inr is'" "workspace_ok s'"
    "find_by ai_id aid is' = Some (pr_actionItem r)" "ai_state (pr_actionItem r) = Promoted"
    "ai_promotedTaskId (pr_actionItem r) = Some (task_id (pr_task r))"
    "find_by task_id (task_id (pr_task r)) ts' = Some (pr_task r)"
    "as_reviewOnly (ai_source (pr_actionItem r)) \<longrightarrow> acknowledged input"
    "matches (pi_expectedProposalRevision input) (ai_selectedRevision (pr_actionItem r))"
    "if pr_created r then ts' = ts @ [pr_task r] else ts' = ts"
    "\<And>v. pr_created r \<Longrightarrow> pi_expectedVersion input = Some v \<Longrightarrow> ai_version (pr_actionItem r) = v + 1"
proof -
  from promotion_step_ok [OF assms(1-3), of ienv aid input] assms(4) have ok: "workspace_ok s'" by simp
  have g: "as_reviewOnly (ai_source i) \<longrightarrow> acknowledged input" "matches (pi_expectedVersion input) (ai_version i)"
    "matches (pi_expectedProposalRevision input) (ai_selectedRevision i)" if "promotion_guards input i = Inr ()" for i
    using that by (auto simp: promotion_guards_def split: option.splits if_splits bool.splits)
  from assms(1) show thesis
  proof (rule workspace_okE)
    fix ts ls "is" assume w: "readTasks s = Inr ts" "readActionItems s = Inr is" "items_wf is" "workspace_wf ts ls"
    from w(4) have d: "distinct (map task_id ts)" by (simp add: workspace_wf_def)
    from assms(2) w(2,1) assms(3) w(3) show thesis
    proof (cases rule: promote_cases [where ienv = ienv and aid = aid and input = input])
      case (already item tid t)
      with assms(4) have r: "r = \<lparr>pr_task = t, pr_actionItem = item, pr_created = False\<rparr>" "s' = s" by simp_all
      have "task_id t = tid" using already(5) by (auto dest: find_by_SomeD)
      with already r w ok g [OF already(2)] show thesis by (intro that [of ts ts "is"]) simp_all
    next
      case (adopted item t s'')
      with assms(4) have r: "r = \<lparr>pr_task = t, pr_actionItem = promoted ienv input item t, pr_created = False\<rparr>" "s'' = s'"
        by simp_all
      have "ai_id item = aid" using adopted(1) by (auto dest: find_by_SomeD)
      then have f: "find_by ai_id aid (replace_by ai_id aid (promoted ienv input item t) is) = Some (promoted ienv input item t)"
        by (intro find_by_replace_same [OF _ adopted(1)]) simp
      have "t \<in> set (tasks_naming aid ts)" using adopted(4) by simp
      then have "find_by task_id (task_id t) ts = Some t" by (intro find_by_distinct [OF d]) (simp add: tasks_naming_def)
      with adopted r w ok f g [OF adopted(2)] show thesis
        by (intro that [of ts ts "replace_by ai_id aid (promoted ienv input item t) is"]) simp_all
    next
      case (created item t s'')
      with assms(4) have r: "r = \<lparr>pr_task = t, pr_actionItem = promoted ienv input item t, pr_created = True\<rparr>" "s'' = s'"
        by simp_all
      have "ai_id item = aid" using created(1) by (auto dest: find_by_SomeD)
      then have f: "find_by ai_id aid (replace_by ai_id aid (promoted ienv input item t) is) = Some (promoted ienv input item t)"
        by (intro find_by_replace_same [OF _ created(1)]) simp
      have "find_by task_id (task_id t) (ts @ [t]) = Some t"
        using created(7) by (simp add: find_by_append find_by_None_iff [THEN iffD2])
      with created r w ok f g [OF created(2)] show thesis
        by (intro that [of ts "ts @ [t]" "replace_by ai_id aid (promoted ienv input item t) is"]) simp_all
    qed (use assms(4) in simp)
  qed
qed

text \<open>C1: At most one Task ever descends from an Action Item: in every store the product reaches, by any interleaving of
  the owner's commands, reviews, extractions, promotions and interruptions of a promotion between its two files, no two
  Tasks name one Action Item, every Task that names one names a stored record, and a promoted record names exactly the
  Task that descends from it.\<close>

theorem one_task_per_action_item:
  assumes "workspace_reachable s0 s" "workspace_ok s0"
  shows "\<exists>ts is. readTasks s = Inr ts \<and> readActionItems s = Inr is \<and> store_wf s \<and> items_wf is
    \<and> length (tasks_naming aid ts) \<le> 1
    \<and> list_all (\<lambda>t. \<exists>i. find_by ai_id aid is = Some i
        \<and> (if ai_state i = Promoted then ai_promotedTaskId i = Some (task_id t) else ai_promotedTaskId i = None))
      (tasks_naming aid ts)"
  using workspace_reachable_ok [OF assms]
proof (rule workspace_okE)
  fix ts "is" assume w: "readTasks s = Inr ts" "readActionItems s = Inr is" "items_wf is" "lineage_ok ts is" "store_wf s"
  have one: "length (tasks_naming aid ts) \<le> 1"
    using w(4) distinct_fst_filter [of "lineage ts" aid] by (simp add: tasks_naming_lineage lineage_ok_def)
  have each: "\<exists>i. find_by ai_id aid is = Some i
      \<and> (if ai_state i = Promoted then ai_promotedTaskId i = Some (task_id t) else ai_promotedTaskId i = None)"
    if "t \<in> set (tasks_naming aid ts)" for t
  proof -
    from that obtain src where "t \<in> set ts" "task_source t = Some src" "ts_actionItemId src = aid"
      by (cases "task_source t") (simp_all add: tasks_naming_def)
    then have "(aid, task_id t) \<in> set (lineage ts)" unfolding lineage_mem by blast
    with w(4) obtain i where i: "find_by ai_id aid is = Some i" "ai_state i = Promoted \<longrightarrow> ai_promotedTaskId i = Some (task_id t)"
      by (auto simp: lineage_ok_def)
    from i(1) w(3) have "item_wf i" by (auto simp: items_wf_def dest: find_by_SomeD)
    with i show ?thesis by (auto simp: item_wf_def)
  qed
  then have "list_all (\<lambda>t. \<exists>i. find_by ai_id aid is = Some i
      \<and> (if ai_state i = Promoted then ai_promotedTaskId i = Some (task_id t) else ai_promotedTaskId i = None))
    (tasks_naming aid ts)" unfolding list_all_iff by blast
  with one w show ?thesis by blast
qed

text \<open>A promotion of the sample Workspace.\<close>

lemma sample_prepare:
  "\<exists>u. prepare sample_env (accepted_input no_input (actionItemProposal (sample_item k))) src s = (Inr u, s)"
  if "lists s = Inr [inbox_list]"
proof -
  have "trim ''Book the room'' = ''Book the room''" by (simp add: trim_def is_space_def)
  with that show ?thesis
    by (simp add: prepare_def accepted_input_def no_input_def sample_item_def actionItemProposal_def requireTitle_def
      getList_def map_result_def inbox_list_def requireNotes_def requireDueDate_def requirePriority_def default_to_def
      null_or_text_def requireResponsiblePerson_def normalizeDestination_def Let_def)
qed

text \<open>The same promotion, naming the version that was reviewed.\<close>

definition versioned_input :: promotion_input where
  "versioned_input = no_input\<lparr>pi_expectedVersion := Some 1\<rparr>"

lemma versioned_accepts [simp]: "accepted_input versioned_input p = accepted_input no_input p"
  by (simp add: accepted_input_def versioned_input_def)

lemma sample_guards [simp]: "promotion_guards no_input (sample_item k) = Inr ()"
    "promotion_guards versioned_input (sample_item k) = Inr ()"
  by (simp_all add: promotion_guards_def promotionRefusal_def no_input_def versioned_input_def sample_item_def sample_source_def
      currentReconciliation_def latestProposalRevision_def)

lemma promotes_sample:
  assumes "s \<in> {sample_store, sample_files}" "input \<in> {no_input, versioned_input}"
  obtains r s' where "promoteActionItem sample_env sample_items_env ''ai_1'' input s = (Inr r, s')" "pr_created r"
proof -
  have s: "can_write s" "readTasks s = Inr [open_task, trashed_task]" "fresh_ids sample_env s" "lists s = Inr [inbox_list]"
    "readActionItems s = Inr [sample_item ''ai_1'', sample_item ''ai_2'']" using assms(1) by auto
  have g: "promotion_guards input (sample_item ''ai_1'') = Inr ()" "accepted_input input q = accepted_input no_input q" for q
    using assms(2) by auto
  have f: "find_by ai_id ''ai_1'' [sample_item ''ai_1'', sample_item ''ai_2''] = Some (sample_item ''ai_1'')" by simp
  have none: "orphans_of ''ai_1'' [open_task, trashed_task] = []"
    by (simp add: orphans_of_empty tasks_naming_def)
  have run: "promoteActionItem sample_env sample_items_env ''ai_1'' input s =
      accept_new sample_env sample_items_env input (sample_item ''ai_1'') s"
    using promote_steps [OF s(5,2) f g(1), of sample_env sample_items_env] none by simp
  have p: "find_by ai_id (ai_id (sample_item ''ai_1'')) [sample_item ''ai_1'', sample_item ''ai_2''] = Some (sample_item ''ai_1'')"
    "ai_state (sample_item ''ai_1'') \<noteq> Promoted" by simp_all
  from s(1,5,2,3) p show thesis
  proof (cases rule: accept_new_run [where ienv = sample_items_env and input = input and item = "sample_item ''ai_1''"])
    case (accepted t s')
    with run show ?thesis by (intro that) auto
  next
    case (refused e)
    with sample_prepare [OF s(4), of "''ai_1''" "Some (accepted_source (sample_item ''ai_1''))"] g(2) show ?thesis by simp
  qed
qed

theorem one_task_per_action_item_witness:
  "\<exists>ts. readTasks (snd (promoteActionItem sample_env sample_items_env ''ai_1'' no_input sample_store)) = Inr ts
   \<and> length (tasks_naming ''ai_1'' ts) \<le> 1"
  using one_task_per_action_item [OF workspace_reachable.step [OF workspace_reachable.start
      workspace_step.promotion [OF sample_reads(4) sample_fresh(1)]] sample_workspace_ok(1)] by blast

text \<open>C2: Promotion happens once: after a promotion has answered, promoting the same Action Item again with the same input
  but no version of the record in it answers the same Task and the same record, says that nothing was created, and
  leaves the store as it is.\<close>

theorem promotion_happens_once:
  assumes "workspace_ok s" "can_write s" "fresh_ids tenv s" "promoteActionItem tenv ienv aid input s = (Inr r, s')"
  shows "promoteActionItem tenv' ienv' aid (input\<lparr>pi_expectedVersion := None\<rparr>) s' = (Inr (r\<lparr>pr_created := False\<rparr>), s')"
  using assms
proof (rule workspace_promotion)
  fix ts ts' is'
  assume w: "readTasks s' = Inr ts'" "readActionItems s' = Inr is'" "find_by ai_id aid is' = Some (pr_actionItem r)"
    "ai_state (pr_actionItem r) = Promoted" "ai_promotedTaskId (pr_actionItem r) = Some (task_id (pr_task r))"
    "find_by task_id (task_id (pr_task r)) ts' = Some (pr_task r)"
    "as_reviewOnly (ai_source (pr_actionItem r)) \<longrightarrow> acknowledged input"
    "matches (pi_expectedProposalRevision input) (ai_selectedRevision (pr_actionItem r))"
  have "promotion_guards (input\<lparr>pi_expectedVersion := None\<rparr>) (pr_actionItem r) = Inr ()"
    using w(4,7,8) by (simp add: promotion_guards_def split: option.split)
  from promote_already [OF w(2,1,3) this w(4,5)] w(6) show ?thesis by simp
qed

theorem promotion_happens_once_witness:
  "\<exists>r s'. promoteActionItem sample_env sample_items_env ''ai_1'' no_input sample_store = (Inr r, s')
     \<and> promoteActionItem sample_env sample_items_env ''ai_1'' no_input s' = (Inr (r\<lparr>pr_created := False\<rparr>), s')"
proof -
  obtain r s' where r: "promoteActionItem sample_env sample_items_env ''ai_1'' no_input sample_store = (Inr r, s')"
    by (rule promotes_sample [of sample_store no_input]) auto
  have "no_input\<lparr>pi_expectedVersion := None\<rparr> = no_input" by (simp add: no_input_def)
  with promotion_happens_once [OF sample_workspace_ok(1) sample_reads(4) sample_fresh(1) r, of sample_env sample_items_env] r
  show ?thesis by auto
qed

text \<open>A request that named the version it reviewed cannot be reissued: the same promotion sent again after it
  succeeded is refused as a version conflict, although the Task it asks for exists, because the version is compared
  before the recorded promotion is looked at.\<close>

theorem reissued_promotion_conflicts:
  assumes "workspace_ok s" "can_write s" "fresh_ids tenv s" "promoteActionItem tenv ienv aid input s = (Inr r, s')"
    "pr_created r" "pi_expectedVersion input = Some v"
  shows "promoteActionItem tenv' ienv' aid input s' = (Inl (TaskRefused ActionItemVersionConflict), s')"
  using assms(1-4)
proof (rule workspace_promotion)
  fix ts ts' is'
  assume w: "readActionItems s' = Inr is'" "find_by ai_id aid is' = Some (pr_actionItem r)"
    "ai_state (pr_actionItem r) = Promoted" "as_reviewOnly (ai_source (pr_actionItem r)) \<longrightarrow> acknowledged input"
    "\<And>v. pr_created r \<Longrightarrow> pi_expectedVersion input = Some v \<Longrightarrow> ai_version (pr_actionItem r) = v + 1"
  have "promotion_guards input (pr_actionItem r) = refuse ActionItemVersionConflict"
    using w(3,4) w(5) [OF assms(5,6)] assms(6) by (simp add: promotion_guards_def split: option.split)
  with w(1,2) show ?thesis by (simp add: promoteActionItem_def getItem_def map_result_def)
qed

theorem reissued_promotion_conflicts_witness:
  "\<exists>r s'. promoteActionItem sample_env sample_items_env ''ai_1'' versioned_input sample_store = (Inr r, s')
     \<and> promoteActionItem sample_env sample_items_env ''ai_1'' versioned_input s' = (Inl (TaskRefused ActionItemVersionConflict), s')"
proof -
  obtain r s' where r: "promoteActionItem sample_env sample_items_env ''ai_1'' versioned_input sample_store = (Inr r, s')" "pr_created r"
    by (rule promotes_sample [of sample_store versioned_input]) auto
  from reissued_promotion_conflicts [OF sample_workspace_ok(1) sample_reads(4) sample_fresh(1) r, of 1 sample_env sample_items_env]
    r show ?thesis by (auto simp: versioned_input_def)
qed

text \<open>C3: An interrupted promotion is recovered, not repeated: when a promotion stopped after the Tasks file and before the
  Action Items file, sending it again adopts the Task that was written, creates no second one and records the decision
  on the Action Item.\<close>

theorem interrupted_promotion_recovers:
  assumes "workspace_ok s" "can_write s" "fresh_ids tenv s" "readBundle s = Inr None"
    "promoteActionItem tenv ienv aid input s = (Inr r, s')" "pr_created r"
  shows "\<exists>r' s''. promoteActionItem tenv' ienv' aid input (interrupted s s') = (Inr r', s'')
    \<and> pr_task r' = pr_task r \<and> \<not> pr_created r' \<and> readTasks s'' = readTasks s'
    \<and> ai_state (pr_actionItem r') = Promoted \<and> ai_promotedTaskId (pr_actionItem r') = Some (task_id (pr_task r))
    \<and> (\<exists>is'. readActionItems s'' = Inr is' \<and> find_by ai_id aid is' = Some (pr_actionItem r'))"
  using assms(1)
proof (rule workspace_okE)
  fix ts ls "is" assume w: "readTasks s = Inr ts" "readActionItems s = Inr is" "items_wf is"
  from assms(2) w(2,1) assms(3) w(3) show ?thesis
  proof (cases rule: promote_cases [where ienv = ienv and aid = aid and input = input])
    case (created item t s1)
    with assms(5) have r: "r = \<lparr>pr_task = t, pr_actionItem = promoted ienv input item t, pr_created = True\<rparr>" "s1 = s'"
      by simp_all
    have "readBundle s' = Inr None" using created(13) assms(4) r(2) by (simp add: next_generation_def)
    note reads = interrupted_reads [OF assms(4) this]
    let ?i = "interrupted s s'"
    have i: "readTasks ?i = Inr (ts @ [t])" "readActionItems ?i = Inr is" "can_write ?i"
      using reads created(10) r(2) w(2) assms(4) by (simp_all add: can_write_def interrupted_def)
    have id: "ai_id item = aid" using created(1) by (auto dest: find_by_SomeD)
    have "tasks_naming aid (ts @ [t]) = [t]"
      using created(4,8) id by (simp add: tasks_naming_def accepted_source_def)
    then have "orphans_of aid (ts @ [t]) = [t]" by (rule orphans_of_single)
    then have run: "promoteActionItem tenv' ienv' aid input ?i = adopt_orphan ienv' input item t ?i"
      using promote_steps [OF i(2,1) created(1,2), of tenv' ienv'] created(3) by simp
    have f: "find_by ai_id (ai_id item) is = Some item" using created(1) id by simp
    from i(3,2) f created(3,8) show ?thesis
    proof (rule adopt_orphan_run [where ienv = ienv' and input = input])
      fix s2 assume a: "adopt_orphan ienv' input item t ?i =
          (Inr \<lparr>pr_task = t, pr_actionItem = promoted ienv' input item t, pr_created = False\<rparr>, s2)"
        "readActionItems s2 = Inr (replace_by ai_id (ai_id item) (promoted ienv' input item t) is)"
        "readTasks s2 = readTasks ?i"
      have "find_by ai_id aid (replace_by ai_id aid (promoted ienv' input item t) is) = Some (promoted ienv' input item t)"
        by (rule find_by_replace_same [OF _ created(1)]) (simp add: id)
      with a run r id reads(1) show ?thesis by simp
    qed
  qed (use assms(5,6) in auto)
qed

theorem interrupted_promotion_recovers_witness:
  "\<exists>r s' r' s''. promoteActionItem sample_env sample_items_env ''ai_1'' no_input sample_files = (Inr r, s')
     \<and> promoteActionItem sample_env sample_items_env ''ai_1'' no_input (interrupted sample_files s') = (Inr r', s'')
     \<and> pr_task r' = pr_task r"
proof -
  obtain r s' where r: "promoteActionItem sample_env sample_items_env ''ai_1'' no_input sample_files = (Inr r, s')" "pr_created r"
    by (rule promotes_sample [of sample_files no_input]) auto
  from interrupted_promotion_recovers [OF sample_workspace_ok(2) sample_file_reads(4) sample_fresh(2) readBundle_files_of r]
    r show ?thesis by blast
qed

text \<open>A promotion that is refused writes nothing, whichever guard refuses it.\<close>

lemma promotion_refusal_writes_nothing:
  assumes "workspace_ok s" "can_write s" "fresh_ids tenv s" "fst (promoteActionItem tenv ienv aid input s) = Inl e"
  shows "snd (promoteActionItem tenv ienv aid input s) = s"
  using assms(1)
proof (rule workspace_okE)
  fix ts "is" assume w: "readTasks s = Inr ts" "readActionItems s = Inr is" "items_wf is"
  from assms(2) w(2,1) assms(3) w(3) show ?thesis
    by (cases rule: promote_cases [where ienv = ienv and aid = aid and input = input]) (use assms(4) in auto)
qed

text \<open>The two judgements of whether an Action Item may become a Task agree: the server refuses a record that is not
  promoted yet exactly when the shared rule that the review surface draws says it is not promotable.\<close>

theorem refusal_agrees_with_review_surface:
  assumes "ai_state item \<noteq> Promoted"
  shows "promotionRefusal item = None \<longleftrightarrow> promotable item"
  using assms by (cases "ai_state item") (auto simp: promotionRefusal_def promotable_def selectionPending_def standing_disposition_def)

theorem refusal_agrees_with_review_surface_witness: "promotable (sample_item ''ai_1'')"
  using refusal_agrees_with_review_surface [of "sample_item ''ai_1''"]
  by (simp add: promotionRefusal_def sample_item_def currentReconciliation_def latestProposalRevision_def)

end
