(* ===== verification/PromotionAuthorization.thy ===== *)
theory PromotionAuthorization
  imports ActionItemTypes "HOL-Library.Sublist"
begin

section \<open>The authorization of automatic promotion\<close>

text \<open>
  \<^theory_text>\<open>apps/server/src/tasks/promotion-authorization.ts\<close>: the release restriction, the owner's
  enablement after it and the saved preference, and the facts derived from them.  The state is the
  \<^theory_text>\<open>tasks.promotion\<close> entry of the configuration; the clock and the random identity of a
  decision are arguments.
\<close>

record authorization_env =
  ae_now :: string
  ae_uuid :: string

datatype authorization_error = PromotionAlreadyReleased | PromotionRestricted

type_synonym 'a authorization_cmd = "(promotion_authorization, authorization_error, 'a) cmd"

definition authorizationAuthorizes :: "stored_authorization option \<Rightarrow> bool" where
  "authorizationAuthorizes facts = (case facts of None \<Rightarrow> False | Some f \<Rightarrow>
     sau_released f \<and> sau_enabledAt f \<noteq> None \<and> sau_preference f = ''auto-create-mine'')"

fun policy_text :: "action_item_policy \<Rightarrow> string" where
  "policy_text StageAll = ''stage-all''"
| "policy_text AutoCreateMine = ''auto-create-mine''"

definition last_decision :: "promotion_authorization \<Rightarrow> promotion_decision option" where
  "last_decision state = (if pa_decisions state = [] then None else Some (last (pa_decisions state)))"

definition promotion_facts :: "action_item_policy \<Rightarrow> promotion_authorization \<Rightarrow> stored_authorization" where
  "promotion_facts preference state =
     (let facts = (\<lambda>released enabledAt basis. \<lparr>sau_released = released, sau_enabledAt = enabledAt,
         sau_preference = policy_text preference, sau_basis = basis\<rparr>) in
      case pa_release state of
        Restricted basis _ \<Rightarrow> facts False None (''release-restriction:'' @ basis)
      | Released _ _ at _ _ \<Rightarrow>
          (case last_decision state of
             None \<Rightarrow> facts True None ''not-enabled-since-release''
           | Some d \<Rightarrow>
               if pd_kind d \<noteq> Enable then facts True None (''disabled-at:'' @ pd_at d)
               else if pd_at d < at then facts True None (''enablement-predates-release:'' @ pd_at d)
               else facts True (Some (pd_at d)) (''enabled-at:'' @ pd_at d)))"

definition authorization_status :: "action_item_policy \<Rightarrow> promotion_authorization \<Rightarrow> promotion_status" where
  "authorization_status preference state =
     (let facts = promotion_facts preference state; effective = authorizationAuthorizes (Some facts) in
      if \<not> sau_released facts then
        \<lparr>ps_effective = False, ps_state = PromotionUnavailable,
         ps_message = (if preference = AutoCreateMine
           then ''Your preference is saved, but automatic creation is unavailable in this release and is not active. If a later release makes it available, you must explicitly enable it again.''
           else ''Automatic creation is unavailable in this release. Stage all remains active.''),
         ps_nextAction = None\<rparr>
      else if effective then
        \<lparr>ps_effective = True, ps_state = PromotionActive,
         ps_message = ''Automatic creation is active for future eligible first extractions.'',
         ps_nextAction = Some Disable\<rparr>
      else if sau_enabledAt facts = None then
        \<lparr>ps_effective = False, ps_state = PromotionAvailable,
         ps_message = (if preference = AutoCreateMine
           then ''Automatic creation is available in this release, but it is not active. Enable it when you are ready.''
           else ''Automatic creation is available in this release, but Stage all keeps it inactive. Choose Automatically create my Tasks when you are ready.''),
         ps_nextAction = Some Enable\<rparr>
      else
        \<lparr>ps_effective = False, ps_state = PromotionAvailable,
         ps_message = ''Stage all keeps automatic creation inactive.'', ps_nextAction = Some Disable\<rparr>)"

definition recordRelease :: "authorization_env \<Rightarrow> string \<Rightarrow> string \<Rightarrow> promotion_authorization authorization_cmd" where
  "recordRelease env reference checksum = (\<lambda>state. case pa_release state of
     Released _ _ _ ref chk \<Rightarrow>
       if ref \<noteq> reference \<or> chk \<noteq> checksum then (Inl PromotionAlreadyReleased, state) else (Inr state, state)
   | Restricted _ since \<Rightarrow>
       (let next = state\<lparr>pa_release := Released (''release-evidence:'' @ reference) since (ae_now env) reference checksum\<rparr>
        in (Inr next, next)))"

definition decide_authorization :: "authorization_env \<Rightarrow> decision_kind \<Rightarrow> promotion_authorization \<Rightarrow> promotion_authorization" where
  "decide_authorization env kind state = state\<lparr>pa_decisions := pa_decisions state @
     [\<lparr>pd_id = ''promotion_'' @ ae_uuid env, pd_kind = kind, pd_at = ae_now env\<rparr>]\<rparr>"

definition last_enables :: "promotion_authorization \<Rightarrow> bool" where
  "last_enables state \<longleftrightarrow> map_option pd_kind (last_decision state) = Some Enable"

definition enable :: "authorization_env \<Rightarrow> promotion_authorization authorization_cmd" where
  "enable env = (\<lambda>state. case pa_release state of
     Restricted _ _ \<Rightarrow> (Inl PromotionRestricted, state)
   | Released _ _ _ _ _ \<Rightarrow>
       if last_enables state then (Inr state, state)
       else (let next = decide_authorization env Enable state in (Inr next, next)))"

definition disable :: "authorization_env \<Rightarrow> promotion_authorization authorization_cmd" where
  "disable env = (\<lambda>state.
     if \<not> last_enables state then (Inr state, state)
     else (let next = decide_authorization env Disable state in (Inr next, next)))"

subsection \<open>Which states authorize\<close>

lemma authorizes_iff:
  "authorizationAuthorizes (Some (promotion_facts preference state)) \<longleftrightarrow>
     preference = AutoCreateMine
     \<and> (\<exists>basis since at ref chk d. pa_release state = Released basis since at ref chk
          \<and> last_decision state = Some d \<and> pd_kind d = Enable \<and> at \<le> pd_at d)"
proof (cases "pa_release state")
  case (Released basis since at ref chk)
  then show ?thesis
    by (cases preference) (auto simp: authorizationAuthorizes_def promotion_facts_def Let_def not_less split: option.split)
qed (simp add: authorizationAuthorizes_def promotion_facts_def Let_def)

lemma last_decision_decide [simp]:
  "last_decision (decide_authorization env kind state) =
     Some \<lparr>pd_id = ''promotion_'' @ ae_uuid env, pd_kind = kind, pd_at = ae_now env\<rparr>"
  by (simp add: last_decision_def decide_authorization_def)

lemma release_decide [simp]: "pa_release (decide_authorization env kind state) = pa_release state"
  by (simp add: decide_authorization_def)

datatype authorization_op = ReleaseOp string string | EnableOp | DisableOp

fun run_authorization :: "authorization_env \<Rightarrow> authorization_op \<Rightarrow> promotion_authorization authorization_cmd" where
  "run_authorization env (ReleaseOp ref chk) = recordRelease env ref chk"
| "run_authorization env EnableOp = enable env"
| "run_authorization env DisableOp = disable env"

inductive authorization_reachable :: "promotion_authorization \<Rightarrow> promotion_authorization \<Rightarrow> bool" for s0 where
  start: "authorization_reachable s0 s0"
| step: "authorization_reachable s0 s \<Longrightarrow> authorization_reachable s0 (snd (run_authorization env c s))"

lemma authorization_extends:
  "prefix (pa_decisions s) (pa_decisions (snd (run_authorization env c s)))
   \<and> (\<forall>b si at ref chk. pa_release s = Released b si at ref chk \<longrightarrow> pa_release (snd (run_authorization env c s)) = pa_release s)"
  by (cases c) (auto simp: recordRelease_def enable_def disable_def decide_authorization_def Let_def
      split: promotion_release.split)

end
