(* ===== verification/PromotionEligibility.thy ===== *)
theory PromotionEligibility
  imports PromotionAuthorization CanonicalJson CalendarDate
begin

section \<open>Whether automation may answer for an Action Item\<close>

text \<open>
  \<^theory_text>\<open>apps/server/src/tasks/promotion-eligibility.ts\<close>: the gate, clause by clause in the
  order of the code.  A decline carries its stable code and the sentence a surface shows.
\<close>

record eligibility =
  eg_eligible :: bool
  eg_code :: string
  eg_reason :: string

definition ELIGIBLE :: eligibility where
  "ELIGIBLE = \<lparr>eg_eligible = True, eg_code = ''eligible'', eg_reason = []\<rparr>"

definition declined :: "string \<Rightarrow> string \<Rightarrow> eligibility" where
  "declined code reason = \<lparr>eg_eligible = False, eg_code = code, eg_reason = reason\<rparr>"

definition claimRefusal :: "action_item \<Rightarrow> responsibility_claim option \<Rightarrow> string option" where
  "claimRefusal item claim = (case claim of
     None \<Rightarrow> Some ''no supported responsibility claim was recorded for this proposal''
   | Some c \<Rightarrow>
       if \<not> responsibilityClaimSound c then Some ''the recorded responsibility claim is not structurally sound''
       else if cc_validatorVersion (rc_contract c) \<noteq> RESPONSIBILITY_CLAIM_VALIDATOR_VERSION then
         Some (''the responsibility claim was checked by validator ''
           @ json_int (cc_validatorVersion (rc_contract c)) @ '', which this build does not trust'')
       else if \<not> truthy_text (as_contextChecksum (ai_source item)) then
         Some ''this proposal does not record which frozen context it was checked under, so its claim cannot be verified''
       else if Some (cc_contextChecksum (rc_contract c)) \<noteq> as_contextChecksum (ai_source item) then
         Some ''the responsibility claim was checked under a different context than this proposal records''
       else (case find_by ob_proposalRevision (ai_selectedRevision item) (ai_observations item) of
          None \<Rightarrow> Some ''this proposal has no recorded source observation to check the claim against''
        | Some ob \<Rightarrow>
            if cc_transcriptId (rc_contract c) \<noteq> ob_transcriptId ob then
              Some ''the responsibility claim names a different Transcript than this proposal was extracted from''
            else if cc_checksum (rc_contract c) \<noteq> ob_transcriptChecksum ob then
              Some ''the responsibility claim was checked against a different source revision than this proposal records''
            else if cc_observedRevision (rc_contract c) \<noteq> ob_transcriptObservedRevision ob then
              Some ''the responsibility claim was checked against a different source revision than this proposal records''
            else if ob_transcriptChecksum ob = None then
              Some ''this proposal does not record which source revision it read, so its claim cannot be verified''
            else None))"

text \<open>The source label of an unnamed speaker: the word, blanks and digits, in any case.\<close>

definition anonymous_label :: "string \<Rightarrow> bool" where
  "anonymous_label s \<longleftrightarrow> toLowerCase (take 7 s) = ''speaker''
     \<and> (let rest = drop 7 s; number = dropWhile is_space rest in
        takeWhile is_space rest \<noteq> [] \<and> number \<noteq> [] \<and> list_all is_digit number)"

definition spokenBy :: "string option \<Rightarrow> string \<Rightarrow> bool" where
  "spokenBy speaker performer = (case speaker of None \<Rightarrow> True | Some s \<Rightarrow> s = performer \<or> anonymous_label s)"

fun replace_first :: "char \<Rightarrow> char \<Rightarrow> string \<Rightarrow> string" where
  "replace_first a b [] = []"
| "replace_first a b (c # cs) = (if c = a then b # cs else c # replace_first a b cs)"

definition relationshipRefusal :: "responsibility_claim \<Rightarrow> string option" where
  "relationshipRefusal claim =
     (if rc_performerBasis claim \<noteq> BasisExplicit then
        Some ''the performer's responsibility is not explicit in the source''
      else case rc_performerName claim of
        None \<Rightarrow> Some ''the source does not name a sole performer for this obligation''
      | Some performer \<Rightarrow>
          if rc_unresolvedReasons claim \<noteq> [] then
            Some (''the responsibility claim is unresolved: '' @ join_text ''; '' (rc_unresolvedReasons claim))
          else (case rc_relationship claim of
             SelfCommitment \<Rightarrow>
               if \<not> spokenBy (rc_speaker claim) performer
               then Some ''the commitment's speaker is not the performer the claim names'' else None
           | AcceptedRequest \<Rightarrow>
               if rc_assignment claim = None then Some ''an accepted request has no recorded request or assignment turn''
               else (case rc_acceptance claim of
                  None \<Rightarrow> Some ''the request was never unambiguously accepted for this obligation''
                | Some acceptance \<Rightarrow>
                    if \<not> spokenBy (oc_speaker acceptance) performer
                    then Some ''the acceptance is not the performer's own'' else None)
           | other \<Rightarrow> Some (''the source establishes a '' @ replace_first (CHR ''-'') (CHR '' '') (relationship_text other)
               @ '' relationship, which is not the performer's own commitment or acceptance'')))"

fun is_legacy :: "proposal_origin \<Rightarrow> bool" where
  "is_legacy (LegacyImport _) = True"
| "is_legacy _ = False"

fun claim_text :: "promotion_claim \<Rightarrow> string" where
  "claim_text FirstExtraction = ''first''"
| "claim_text ReviewOnlyClaim = ''review-only''"
| "claim_text UnknownClaim = ''unknown''"

definition basis_of :: "stored_authorization option \<Rightarrow> string" where
  "basis_of a = (case a of None \<Rightarrow> ''no authorization recorded'' | Some a \<Rightarrow> sau_basis a)"

definition enabled_at :: "stored_authorization option \<Rightarrow> string option option" where
  "enabled_at a = map_option sau_enabledAt a"

definition claim_gate :: "action_item \<Rightarrow> bool \<Rightarrow> eligibility" where
  "claim_gate item duplicate =
     (case claimRefusal item (ai_responsibilityClaim item) of
        Some problem \<Rightarrow> declined ''claim-unsupported''
          (''Automatic promotion needs a supported responsibility claim: '' @ problem @ ''.'')
      | None \<Rightarrow>
          (case ai_responsibilityClaim item of None \<Rightarrow> declined ''claim-unsupported'' []
           | Some claim \<Rightarrow>
               (case relationshipRefusal claim of
                  Some problem \<Rightarrow> declined ''claim-unsupported''
                    (''Automatic promotion declined this proposal: '' @ problem @ ''.'')
                | None \<Rightarrow>
                    if rc_laterUpdates claim \<noteq> [] then declined ''later-update''
                      (''A later turn changed this obligation (''
                        @ join_text '', '' (map (later_update_text \<circ> lu_kind) (rc_laterUpdates claim))
                        @ ''), so it waits for review.'')
                    else if duplicate then declined ''possible-duplicate''
                      ''An open Task already looks like this one, so automation declines instead of creating a duplicate.''
                    else ELIGIBLE)))"

definition reservation_gate :: "action_item \<Rightarrow> promotion_reservation \<Rightarrow> stored_authorization option \<Rightarrow> bool \<Rightarrow> eligibility" where
  "reservation_gate item reservation live duplicate =
     (if pr_claim reservation \<noteq> FirstExtraction then declined ''reservation-not-first''
        (''This extraction was reserved as '' @ claim_text (pr_claim reservation) @ '' ('' @ pr_basis reservation
          @ ''), so automation never opens it.'')
      else if \<not> authorizationAuthorizes (pr_authorization reservation) then declined ''reservation-unauthorized''
        (''Automatic promotion was not authorized when this extraction was reserved (''
          @ basis_of (pr_authorization reservation) @ '').'')
      else if \<not> authorizationAuthorizes live then declined ''authorization-withheld''
        (''Automatic promotion is not authorized now ('' @ basis_of live @ '').'')
      else if enabled_at live \<noteq> enabled_at (pr_authorization reservation) then declined ''authorization-changed''
        ''Automatic promotion was enabled again after this extraction was reserved; a new authorization applies to future extractions, not this one.''
      else if ai_extractionRevision item \<noteq> 1 then declined ''later-extraction''
        ''This proposal came from a regeneration, and regeneration always stages for review.''
      else if pp_responsiblePerson (actionItemProposal item) \<noteq> Some Owner then declined ''not-owner''
        ''This commitment is not confidently the confirmed owner's, so automation never writes it into their list.''
      else claim_gate item duplicate)"

definition promotionEligibility :: "action_item \<Rightarrow> stored_authorization option \<Rightarrow> bool \<Rightarrow> eligibility" where
  "promotionEligibility item live duplicate =
     (if ai_state item \<noteq> Pending then declined ''already-decided''
        ''This proposal already carries the owner's decision; automation does not revisit decisions.''
      else if ai_reconciledInto item \<noteq> None then declined ''not-promotable''
        ''That Action Item records evidence about earlier work. Attach it there instead of creating a Task.''
      else if map_option rn_disposition (currentReconciliation item) = Some Unresolved then declined ''not-promotable''
        ''That Action Item may repeat work this Workspace already holds. Resolve the relationship before creating a Task.''
      else if ai_reviewedThrough item < latestProposalRevision item then declined ''not-promotable''
        ''That proposal was corrected after it was reviewed. Select the revision to promote before creating a Task.''
      else if list_all (\<lambda>r. is_legacy (rv_origin r)) (ai_proposalRevisions item) then declined ''legacy-import''
        ''This proposal came from an older Workspace and has no checked extraction behind it; it waits for review.''
      else if as_reviewOnly (ai_source item) then declined ''review-only-publication''
        ''The Debrief this proposal came from was published incomplete, so its proposals stay review-only.''
      else case as_promotion (ai_source item) of
        None \<Rightarrow> declined ''reservation-missing''
          ''Nothing recorded whether this extraction could authorize automation, so it waits for review.''
      | Some reservation \<Rightarrow> reservation_gate item reservation live duplicate)"

subsection \<open>What an eligible record establishes\<close>

lemma declined_not_eligible [simp]: "eg_eligible (declined code reason) = False"
  by (simp add: declined_def)

lemma ELIGIBLE_eligible [simp]: "eg_eligible ELIGIBLE = True"
  by (simp add: ELIGIBLE_def)

lemma claimRefusal_None:
  "claimRefusal item claim = None \<longleftrightarrow>
     (\<exists>c ob. claim = Some c \<and> responsibilityClaimSound c
       \<and> cc_validatorVersion (rc_contract c) = RESPONSIBILITY_CLAIM_VALIDATOR_VERSION
       \<and> truthy_text (as_contextChecksum (ai_source item))
       \<and> as_contextChecksum (ai_source item) = Some (cc_contextChecksum (rc_contract c))
       \<and> find_by ob_proposalRevision (ai_selectedRevision item) (ai_observations item) = Some ob
       \<and> cc_transcriptId (rc_contract c) = ob_transcriptId ob \<and> cc_checksum (rc_contract c) = ob_transcriptChecksum ob
       \<and> cc_observedRevision (rc_contract c) = ob_transcriptObservedRevision ob \<and> ob_transcriptChecksum ob \<noteq> None)"
  unfolding claimRefusal_def by (auto split: option.split)

lemma relationshipRefusal_None:
  "relationshipRefusal claim = None \<longleftrightarrow>
     rc_performerBasis claim = BasisExplicit \<and> rc_unresolvedReasons claim = []
     \<and> (\<exists>performer. rc_performerName claim = Some performer
         \<and> (rc_relationship claim = SelfCommitment \<and> spokenBy (rc_speaker claim) performer
           \<or> rc_relationship claim = AcceptedRequest \<and> rc_assignment claim \<noteq> None
             \<and> (\<exists>a. rc_acceptance claim = Some a \<and> spokenBy (oc_speaker a) performer)))"
  unfolding relationshipRefusal_def by (auto split: option.split responsibility_relationship.split)

lemma claim_gate_eligible:
  "eg_eligible (claim_gate item duplicate) \<longleftrightarrow> \<not> duplicate
     \<and> (\<exists>c. ai_responsibilityClaim item = Some c \<and> claimRefusal item (Some c) = None
          \<and> relationshipRefusal c = None \<and> rc_laterUpdates c = [])"
  unfolding claim_gate_def by (cases "ai_responsibilityClaim item") (auto simp: claimRefusal_def [of _ None] split: option.split)

lemma promotionEligibility_eligible:
  "eg_eligible (promotionEligibility item live duplicate) \<longleftrightarrow>
     promotable item \<and> \<not> list_all (\<lambda>r. is_legacy (rv_origin r)) (ai_proposalRevisions item)
     \<and> \<not> as_reviewOnly (ai_source item)
     \<and> (\<exists>reservation. as_promotion (ai_source item) = Some reservation \<and> pr_claim reservation = FirstExtraction
          \<and> authorizationAuthorizes (pr_authorization reservation) \<and> authorizationAuthorizes live
          \<and> enabled_at live = enabled_at (pr_authorization reservation))
     \<and> ai_extractionRevision item = 1 \<and> pp_responsiblePerson (actionItemProposal item) = Some Owner
     \<and> eg_eligible (claim_gate item duplicate)"
  unfolding promotionEligibility_def reservation_gate_def promotable_def standing_disposition_def selectionPending_def
  by (auto split: option.split)

end
