(* ===== verification/AutoPromotion.thy ===== *)
theory AutoPromotion
  imports Promotion MaterializeFacts PromotionEligibility
begin

section \<open>Automatic promotion and the read models\<close>

text \<open>
  \<^theory_text>\<open>apps/server/src/tasks/auto-promotion.ts\<close>, \<^theory_text>\<open>overview.ts\<close> and
  \<^theory_text>\<open>briefing-projection.ts\<close>.  The delivery of a committed Task runs after the answer,
  so a promotion answers the identity of the Task it hands over, when a delivery is configured and
  the Task has an external destination.
\<close>

definition proposal_candidate :: "proposal \<Rightarrow> task_duplicate_candidate" where
  "proposal_candidate p = \<lparr>dc_title = JStr (pp_title p), dc_dueDate = null_or_text (pp_dueDate p),
     dc_responsiblePerson = Some (pp_responsiblePerson p)\<rparr>"

definition promoteIfEligible :: "tasks_env \<Rightarrow> items_env \<Rightarrow> bool \<Rightarrow> stored_authorization \<Rightarrow> action_item \<Rightarrow>
    (wstore, ws_error, action_item \<times> string option) cmd" where
  "promoteIfEligible tenv ienv deliver live item =
     andThen (findDuplicates (proposal_candidate (actionItemProposal item))) (\<lambda>duplicates.
     if \<not> eg_eligible (promotionEligibility item (Some live) (duplicates \<noteq> [])) then ret (item, None)
     else catching
       (andThen (promoteActionItem tenv ienv (ai_id item) no_input) (\<lambda>result.
          ret (pr_actionItem result,
            if deliver \<and> destination_provider (task_destination (pr_task result)) \<noteq> Local
            then Some (task_id (pr_task result)) else None)))
       (\<lambda>_. ret (item, None)))"

definition firstExtractionRunId :: "item_materialization \<Rightarrow> wstore \<Rightarrow> ws_error + string option" where
  "firstExtractionRunId input s = map_result
     (\<lambda>held. case held of [] \<Rightarrow> None | item # _ \<Rightarrow> Some (as_debriefRunId (ai_source item)))
     (listItems (any_item\<lparr>iq_transcriptId := Some (im_transcriptId input)\<rparr>) s)"

definition materializeUnderPolicy :: "(nat \<Rightarrow> tasks_env) \<Rightarrow> (nat \<Rightarrow> items_env) \<Rightarrow> items_env \<Rightarrow> bool \<Rightarrow>
    stored_authorization \<Rightarrow> item_materialization \<Rightarrow> (wstore, ws_error, (action_item \<times> string option) list) cmd" where
  "materializeUnderPolicy tenv ienv menv deliver live input =
     andThen (query (firstExtractionRunId input)) (\<lambda>first.
     andThen (materialize menv input) (\<lambda>materialized.
     if first \<noteq> None \<and> first \<noteq> Some (im_debriefRunId input)
     then ret (map (\<lambda>item. (item, None)) materialized)
     else forEach (\<lambda>(i, item). promoteIfEligible (tenv i) (ienv i) deliver live item)
       (zip [0..<length materialized] materialized)))"

subsection \<open>The compact rollup\<close>

definition TASK_COMPACT_LIMIT :: nat where
  "TASK_COMPACT_LIMIT = 8"

record overview_counts =
  oc_open :: nat
  oc_overdue :: nat
  oc_dueToday :: nat
  oc_pendingActionItems :: nat
  oc_failedLinks :: nat
  oc_conflictedLinks :: nat

record task_overview =
  ov_today :: string
  ov_counts :: overview_counts
  ov_tasks :: "task list"
  ov_actionItems :: "action_item list"

definition in_link_state :: "link_state \<Rightarrow> task \<Rightarrow> bool" where
  "in_link_state st t = (case task_externalLink t of None \<Rightarrow> False | Some l \<Rightarrow> el_state l = st)"

definition open_tasks :: "wstore \<Rightarrow> ws_error + task list" where
  "open_tasks s = map_result (js_sort compareTasks) (listTasks (any_task\<lparr>tq_status := Some Open\<rparr>) s)"

definition pending_items :: "wstore \<Rightarrow> ws_error + action_item list" where
  "pending_items s = listItems (any_item\<lparr>iq_state := Some Pending\<rparr>) s"

definition buildTaskOverview :: "tasks_env \<Rightarrow> (wstore, ws_error, task_overview) cmd" where
  "buildTaskOverview env =
     andThen (query open_tasks) (\<lambda>opened.
     andThen (query pending_items) (\<lambda>pending.
     andThen (query (listTasks any_task)) (\<lambda>linked.
       let today = env_today env; stateIs = (\<lambda>st. length (filter (in_link_state st) linked)) in
       ret \<lparr>ov_today = today,
         ov_counts = \<lparr>oc_open = length opened,
           oc_overdue = length (filter (\<lambda>t. taskGroupOf t today = Overdue) opened),
           oc_dueToday = length (filter (\<lambda>t. taskGroupOf t today = DueToday) opened),
           oc_pendingActionItems = length pending, oc_failedLinks = stateIs Failed,
           oc_conflictedLinks = stateIs Conflicted + stateIs ChangedExternally\<rparr>,
         ov_tasks = take TASK_COMPACT_LIMIT opened, ov_actionItems = take TASK_COMPACT_LIMIT pending\<rparr>)))"

record briefing_task =
  bt_taskId :: string
  bt_title :: string
  bt_dueDate :: "string option"
  bt_priority :: task_priority

record briefing_item =
  bi_actionItemId :: string
  bi_title :: string
  bi_dueDate :: "string option"
  bi_meetingId :: "string option"

record briefing_work =
  bw_overdue :: "briefing_task list"
  bw_dueToday :: "briefing_task list"
  bw_highPriority :: "briefing_task list"
  bw_pendingActionItems :: "briefing_item list"
  bw_totals :: "nat \<times> nat \<times> nat \<times> nat"

definition project_task :: "task \<Rightarrow> briefing_task" where
  "project_task t = \<lparr>bt_taskId = task_id t, bt_title = task_title t, bt_dueDate = task_dueDate t,
     bt_priority = task_priority t\<rparr>"

definition project_item :: "action_item \<Rightarrow> briefing_item" where
  "project_item i = \<lparr>bi_actionItemId = ai_id i, bi_title = pp_title (actionItemProposal i),
     bi_dueDate = pp_dueDate (actionItemProposal i), bi_meetingId = as_meetingId (ai_source i)\<rparr>"

definition buildDailyBriefingWork :: "tasks_env \<Rightarrow> (wstore, ws_error, briefing_work) cmd" where
  "buildDailyBriefingWork env =
     andThen (query open_tasks) (\<lambda>opened.
     andThen (query pending_items) (\<lambda>pending.
       let today = env_today env;
           overdue = filter (\<lambda>t. taskGroupOf t today = Overdue) opened;
           dueToday = filter (\<lambda>t. taskGroupOf t today = DueToday) opened;
           highPriority = filter (\<lambda>t. task_priority t = HighPriority \<and> t \<notin> set overdue \<and> t \<notin> set dueToday) opened;
           proposals = map project_item pending in
       ret \<lparr>bw_overdue = map project_task (take TASK_COMPACT_LIMIT overdue),
         bw_dueToday = map project_task (take TASK_COMPACT_LIMIT dueToday),
         bw_highPriority = map project_task (take TASK_COMPACT_LIMIT highPriority),
         bw_pendingActionItems = take TASK_COMPACT_LIMIT proposals,
         bw_totals = (length overdue, length dueToday, length highPriority, length proposals)\<rparr>))"

definition NO_BRIEFING_WORK :: briefing_work where
  "NO_BRIEFING_WORK = \<lparr>bw_overdue = [], bw_dueToday = [], bw_highPriority = [], bw_pendingActionItems = [],
     bw_totals = (0, 0, 0, 0)\<rparr>"

subsection \<open>What automation may write\<close>

lemma findDuplicates_reads: "snd (findDuplicates c s) = s"
  by (simp add: findDuplicates_def andThen_run Let_def split: sum.split prod.split)

lemma not_eligible_unauthorized:
  "\<not> authorizationAuthorizes (Some live) \<Longrightarrow> \<not> eg_eligible (promotionEligibility item (Some live) d)"
  by (auto simp: promotionEligibility_eligible)

text \<open>Without authorization nothing is written beyond the materialization.\<close>

lemma promoteIfEligible_withheld:
  assumes "\<And>d. \<not> eg_eligible (promotionEligibility item (Some live) d)"
  shows "snd (promoteIfEligible tenv ienv deliver live item s) = s"
    and "promoteIfEligible tenv ienv deliver live item s = (Inr r, s') \<Longrightarrow> r = (item, None)"
proof -
  let ?f = "findDuplicates (proposal_candidate (actionItemProposal item)) s"
  show "snd (promoteIfEligible tenv ienv deliver live item s) = s"
    using findDuplicates_reads [of "proposal_candidate (actionItemProposal item)" s] assms
    by (cases ?f; cases "fst ?f") (auto simp: promoteIfEligible_def)
  show "promoteIfEligible tenv ienv deliver live item s = (Inr r, s') \<Longrightarrow> r = (item, None)"
    using assms by (cases ?f; cases "fst ?f") (auto simp: promoteIfEligible_def)
qed

lemma forEach_keeps_store:
  assumes "\<And>x s. snd (f x s) = s"
  shows "snd (forEach f xs s) = s"
proof (induction xs)
  case (Cons x xs)
  have "f x s = (fst (f x s), s)" "forEach f xs s = (fst (forEach f xs s), s)"
    using assms [of x s] Cons.IH by (metis prod.collapse)+
  then show ?case by (cases "fst (f x s)"; cases "fst (forEach f xs s)") (simp_all add: andThen_run)
qed simp

lemma withheld_only_materializes:
  assumes "\<not> authorizationAuthorizes (Some live)"
  shows "snd (materializeUnderPolicy tenv ienv menv deliver live input s) = snd (materialize menv input s)
    \<or> snd (materializeUnderPolicy tenv ienv menv deliver live input s) = s"
proof (cases "firstExtractionRunId input s")
  case (Inr first)
  obtain r s' where m: "materialize menv input s = (r, s')" by fastforce
  have "snd (forEach (\<lambda>(i, item). promoteIfEligible (tenv i) (ienv i) deliver live item) xs s') = s'" for xs
    by (rule forEach_keeps_store) (auto simp: promoteIfEligible_withheld(1) [OF not_eligible_unauthorized [OF assms]])
  with Inr m show ?thesis by (cases r) (auto simp: materializeUnderPolicy_def)
qed (simp add: materializeUnderPolicy_def)

end
