(* ===== verification/AutoProperties.thy ===== *)
theory AutoProperties
  imports AutoPromotion PromotionProperties ItemProperties
begin

section \<open>Properties of automation and of the read models\<close>

text \<open>
  What the owner's policy lets automation do, what the record must hold before it acts, and what the compact
  surfaces may say about the store.
\<close>

subsection \<open>Automatic promotion\<close>

lemma forEach_withheld:
  assumes "\<And>i item s. snd (f (i, item) s) = s" "\<And>i item s r. fst (f (i, item) s) = Inr r \<Longrightarrow> r = (item, None)"
  shows "forEach f xs s = (Inr rs, s') \<Longrightarrow> s' = s \<and> rs = map (\<lambda>(i, item). (item, None)) xs"
proof (induction xs arbitrary: rs s')
  case (Cons x xs)
  obtain i item where x: "x = (i, item)" by (cases x)
  from Cons.prems obtain r s1 rest where "f x s = (Inr r, s1)" "forEach f xs s1 = (Inr rest, s')" "rs = r # rest"
    by (auto elim!: andThen_InrE)
  moreover from this have "s1 = s" "r = (item, None)" using assms(1) [of i item s] assms(2) [of i item s r] x by auto
  ultimately show ?case using Cons.IH [of rest s'] x by simp
qed simp

lemma withheld_runs:
  assumes "\<not> authorizationAuthorizes (Some live)"
  shows "snd (materializeUnderPolicy tenv ienv menv deliver live input s) = snd (materialize menv input s)"
    and "materializeUnderPolicy tenv ienv menv deliver live input s = (Inr rs, s') \<Longrightarrow>
      materialize menv input s = (Inr (map fst rs), s') \<and> list_all (\<lambda>r. snd r = None) rs"
proof -
  let ?f = "\<lambda>(i, item). promoteIfEligible (tenv i) (ienv i) deliver live item"
  note w = promoteIfEligible_withheld [OF not_eligible_unauthorized [OF assms]]
  have keep: "snd (?f p s) = s" for p s by (cases p) (simp add: w(1))
  have same: "fst (?f (i, item) s) = Inr r \<Longrightarrow> r = (item, None)" for i item s r
    using w(2) [where item = item and s = s and r = r] by (cases "?f (i, item) s") auto
  show "snd (materializeUnderPolicy tenv ienv menv deliver live input s) = snd (materialize menv input s)"
  proof (cases "firstExtractionRunId input s")
    case (Inl e)
    then have "readActionItems s = Inl e"
      by (simp add: firstExtractionRunId_def listItems_def map_result_def split: sum.splits)
    with Inl show ?thesis by (simp add: materializeUnderPolicy_def materialize_def)
  next
    case (Inr first)
    then show ?thesis using forEach_keeps_store [of ?f, OF keep]
      by (cases "materialize menv input s"; cases "fst (materialize menv input s)")
        (auto simp: materializeUnderPolicy_def)
  qed
  assume run: "materializeUnderPolicy tenv ienv menv deliver live input s = (Inr rs, s')"
  then obtain first xs s1 where m: "materialize menv input s = (Inr xs, s1)" and
    r: "(if first \<noteq> None \<and> first \<noteq> Some (im_debriefRunId input) then ret (map (\<lambda>item. (item, None)) xs)
         else forEach ?f (zip [0..<length xs] xs)) s1 = (Inr rs, s')"
    unfolding materializeUnderPolicy_def by (auto elim!: query_InrE andThen_InrE)
  show "materialize menv input s = (Inr (map fst rs), s') \<and> list_all (\<lambda>r. snd r = None) rs"
  proof (cases "first \<noteq> None \<and> first \<noteq> Some (im_debriefRunId input)")
    case True
    with r m show ?thesis by (auto simp: list_all_iff comp_def)
  next
    case False
    then have "forEach ?f (zip [0..<length xs] xs) s1 = (Inr rs, s')" using r by presburger
    with keep same have fw: "s' = s1 \<and> rs = map (\<lambda>(i, item). (item, None)) (zip [0..<length xs] xs)"
      by (intro forEach_withheld [where f = ?f]) auto
    have "map (\<lambda>(i, item). (item, None)) (zip [0..<length xs] xs) =
        map (\<lambda>item. (item, None)) (map snd (zip [0..<length xs] xs))" by (subst map_map) (rule map_cong, auto)
    with fw have "s' = s1" "rs = map (\<lambda>item. (item, None)) xs" by simp_all
    with m show ?thesis by (auto simp: list_all_iff comp_def)
  qed
qed

text \<open>Where automatic promotion is not authorized (the Stage all default, a restricted release, no enablement, or one
  that predates the release) an extraction leaves exactly what materializing it leaves: no Task, no decision and no
  delivery, and the answer is the materialized records.\<close>

theorem automation_withheld_without_authorization:
  assumes "\<not> authorizationAuthorizes (Some live)"
  shows "case materializeUnderPolicy tenv ienv menv deliver live input s of
      (Inl e, s') \<Rightarrow> s' = snd (materialize menv input s)
    | (Inr rs, s') \<Rightarrow> materialize menv input s = (Inr (map fst rs), s') \<and> list_all (\<lambda>r. snd r = None) rs"
proof -
  obtain r s' where run: "materializeUnderPolicy tenv ienv menv deliver live input s = (r, s')" by fastforce
  show ?thesis
  proof (cases r)
    case (Inl e)
    with run withheld_runs(1) [OF assms, of tenv ienv menv deliver input s] show ?thesis by simp
  next
    case (Inr rs)
    with run withheld_runs(2) [OF assms, of tenv ienv menv deliver input s rs s'] show ?thesis by simp
  qed
qed

definition staging_facts :: stored_authorization where
  "staging_facts = promotion_facts StageAll
     \<lparr>pa_release = Restricted ''code-tests'' None, pa_decisions = []\<rparr>"

lemma staging_withheld: "\<not> authorizationAuthorizes (Some staging_facts)"
  by (simp add: staging_facts_def authorizes_iff)

theorem automation_withheld_without_authorization_witness:
  "snd (materializeUnderPolicy (\<lambda>_. sample_env) (\<lambda>_. sample_items_env) sample_items_env True staging_facts sample_extraction
     sample_store) = snd (materialize sample_items_env sample_extraction sample_store)"
  using automation_withheld_without_authorization [OF staging_withheld,
      where tenv = "\<lambda>_. sample_env" and ienv = "\<lambda>_. sample_items_env" and menv = sample_items_env
        and deliver = True and input = sample_extraction and s = sample_store]
  by (auto split: prod.splits sum.splits)


text \<open>C19: Automation acts on a record only when everything it needs is written there: it changes the store, or answers
  another record than it was given, only for a pending, promotable Action Item of a first extraction that was reserved
  while automation was authorized, under the same enablement as now, proposed for the owner, with a responsibility claim
  that the source supports, and with no open Task that looks like it.\<close>

theorem automation_acts_only_on_supported_commitments:
  assumes "promoteIfEligible tenv ienv deliver live item s = (r, s')" "s' \<noteq> s \<or> r = Inr r' \<and> r' \<noteq> (item, None)"
  shows "ai_state item = Pending \<and> promotable item \<and> \<not> as_reviewOnly (ai_source item)
    \<and> (\<exists>reservation. as_promotion (ai_source item) = Some reservation \<and> pr_claim reservation = FirstExtraction
         \<and> authorizationAuthorizes (pr_authorization reservation) \<and> authorizationAuthorizes (Some live)
         \<and> enabled_at (Some live) = enabled_at (pr_authorization reservation))
    \<and> ai_extractionRevision item = 1 \<and> pp_responsiblePerson (actionItemProposal item) = Some Owner
    \<and> (\<exists>claim. ai_responsibilityClaim item = Some claim \<and> claimRefusal item (Some claim) = None
         \<and> relationshipRefusal claim = None \<and> rc_laterUpdates claim = [])
    \<and> findDuplicates (proposal_candidate (actionItemProposal item)) s = (Inr [], s)"
proof -
  let ?c = "proposal_candidate (actionItemProposal item)"
  obtain ds where d: "findDuplicates ?c s = (Inr ds, s)" and e: "eg_eligible (promotionEligibility item (Some live) (ds \<noteq> []))"
  proof (cases "fst (findDuplicates ?c s)")
    case (Inl e)
    then have "findDuplicates ?c s = (Inl e, s)" using findDuplicates_reads [of ?c s] by (metis prod.collapse)
    with assms show ?thesis by (auto simp: promoteIfEligible_def)
  next
    case (Inr ds)
    then have d: "findDuplicates ?c s = (Inr ds, s)" using findDuplicates_reads [of ?c s] by (metis prod.collapse)
    with assms have "eg_eligible (promotionEligibility item (Some live) (ds \<noteq> []))"
      by (auto simp: promoteIfEligible_def split: if_splits)
    with d show ?thesis by (rule that)
  qed
  from e have "ai_state item = Pending" by (auto simp: promotionEligibility_eligible promotable_def)
  with e d show ?thesis by (auto simp: promotionEligibility_eligible claim_gate_eligible)
qed

text \<open>A commitment of the owner whose record holds everything automation needs.\<close>

definition authorized_facts :: stored_authorization where
  "authorized_facts = \<lparr>sau_released = True, sau_enabledAt = Some ''2026-02-01'', sau_preference = ''auto-create-mine'',
     sau_basis = ''enabled-at:2026-02-01''\<rparr>"

definition sample_claim :: responsibility_claim where
  "sample_claim = \<lparr>rc_version = 1, rc_obligation = ''Book the room'', rc_speaker = Some ''Speaker 2'',
     rc_statement = \<lparr>oc_quote = ''I will book the room'', oc_speaker = Some ''Speaker 2'', oc_timestamp = None,
       oc_locator = ''t1''\<rparr>, rc_performerName = Some ''Ann'', rc_performerBasis = BasisExplicit,
     rc_relationship = SelfCommitment, rc_assignment = None, rc_acceptance = None, rc_laterUpdates = [],
     rc_unresolvedReasons = [], rc_contract = \<lparr>cc_contractVersion = 1, cc_validatorVersion = 1,
       cc_transcriptId = ''transcript_1'', cc_observedRevision = Some 1, cc_checksum = Some ''c1'',
       cc_contextChecksum = ''ctx'', cc_validatedAt = ''2026-03-01''\<rparr>\<rparr>"

definition sample_origin :: proposal_origin where
  "sample_origin = Extraction \<lparr>eo_debriefRunId = ''run_1'', eo_transcriptId = ''transcript_1'', eo_meetingId = None,
     eo_materializationKey = ''k'', eo_outputEntryId = ''e'', eo_payloadChecksum = ''p'', eo_candidateAlias = None\<rparr>"

definition owned_item :: action_item where
  "owned_item = (sample_item ''ai_1'')\<lparr>ai_responsibilityClaim := Some sample_claim,
     ai_source := sample_source\<lparr>as_contextChecksum := Some ''ctx'', as_promotion := Some
       \<lparr>pr_claim = FirstExtraction, pr_basis = ''first'', pr_operationId = None, pr_reservedAt = ''2026-03-01'',
        pr_authorization = Some authorized_facts\<rparr>\<rparr>,
     ai_proposalRevisions := map (\<lambda>r. r\<lparr>rv_origin := sample_origin\<rparr>) (ai_proposalRevisions (sample_item ''ai_1'')),
     ai_observations := [\<lparr>ob_id = ''o1'', ob_proposalRevision = 1, ob_transcriptId = ''transcript_1'',
       ob_transcriptObservedRevision = Some 1, ob_transcriptChecksum = Some ''c1'',
       ob_occurrence = \<lparr>io_locator = ''l'', io_timestamp = None, io_quote = None\<rparr>, ob_artifactId = None,
       ob_outputEntryId = None, ob_candidateAliases = [], ob_notedAt = ''2026-03-01''\<rparr>]\<rparr>"

abbreviation owned_store :: wstore where
  "owned_store \<equiv> store_at 4 [] [owned_item]"

lemma owned_item_simps [simp]:
  "ai_id owned_item = ''ai_1''" "ai_state owned_item = Pending" "ai_proposalRevisions owned_item \<noteq> []"
  "actionItemProposal owned_item = actionItemProposal (sample_item ''ai_1'')" "ai_promotedTaskId owned_item = None"
  by (simp_all add: owned_item_def sample_item_def actionItemProposal_def)

lemma owned_eligible: "eg_eligible (promotionEligibility owned_item (Some authorized_facts) False)"
proof -
  have "anonymous_label ''Speaker 2''" by code_simp
  then have "spokenBy (Some ''Speaker 2'') ''Ann''" by (simp add: spokenBy_def)
  moreover have "responsibilityClaimSound sample_claim"
    by (simp add: responsibilityClaimSound_def sample_claim_def occurrence_sound_def RESPONSIBILITY_CLAIM_VERSION_def)
  ultimately show ?thesis
    by (simp add: promotionEligibility_eligible claim_gate_eligible claimRefusal_None relationshipRefusal_None owned_item_def
        sample_item_def sample_source_def sample_origin_def authorized_facts_def authorizationAuthorizes_def enabled_at_def
        promotable_def selectionPending_def standing_disposition_def currentReconciliation_def latestProposalRevision_def
        actionItemProposal_def truthy_text_def RESPONSIBILITY_CLAIM_VALIDATOR_VERSION_def)
      (simp add: sample_claim_def)
qed

lemma sample_duplicates:
  "readTasks s = Inr ts \<Longrightarrow> findDuplicates (proposal_candidate (actionItemProposal (sample_item k))) s =
    (Inr (js_sort compareTasks (filter (is_duplicate (normalizedTitle ''Book the room'') None (Some Owner)) ts)), s)"
  by (simp add: findDuplicates_def proposal_candidate_def actionItemProposal_def sample_item_def requireTitle_def trim_def
      is_space_def requireDueDate_def null_or_text_def Let_def)

lemma owned_reads:
  "readTasks owned_store = Inr []" "readActionItems owned_store = Inr [owned_item]" "lists owned_store = Inr [inbox_list]"
  "can_write owned_store"
  by (simp_all add: store_at_reads revised_def max_safe_integer_def)

lemma owned_promotes:
  obtains p s' where "promoteActionItem sample_env sample_items_env ''ai_1'' no_input owned_store = (Inr p, s')"
    "s' \<noteq> owned_store"
proof -
  have g: "promotion_guards no_input owned_item = Inr ()"
    by (simp add: promotion_guards_def promotionRefusal_def no_input_def owned_item_def sample_item_def sample_source_def
        currentReconciliation_def latestProposalRevision_def)
  have f: "find_by ai_id ''ai_1'' [owned_item] = Some owned_item" "orphans_of ''ai_1'' [] = []"
    by (simp_all add: orphans_of_empty tasks_naming_def)
  have run: "promoteActionItem sample_env sample_items_env ''ai_1'' no_input owned_store =
      accept_new sample_env sample_items_env no_input owned_item owned_store"
    using promote_steps [OF owned_reads(2,1) f(1) g, of sample_env sample_items_env] f(2) by simp
  have fresh: "fresh_ids sample_env owned_store" by (simp add: fresh_ids_def owned_reads sample_new_ids inbox_list_def)
  have p: "find_by ai_id (ai_id owned_item) [owned_item] = Some owned_item" "ai_state owned_item \<noteq> Promoted" by simp_all
  from owned_reads(4,2,1) fresh p show thesis
  proof (cases rule: accept_new_run [where ienv = sample_items_env and input = no_input and item = owned_item])
    case (accepted t s')
    with run owned_reads(1) show ?thesis by (intro that) auto
  next
    case (refused e)
    with sample_prepare [OF owned_reads(3), of "''ai_1''" "Some (accepted_source owned_item)"] show ?thesis by simp
  qed
qed

theorem automation_acts_only_on_supported_commitments_witness:
  "\<exists>claim. ai_responsibilityClaim owned_item = Some claim \<and> relationshipRefusal claim = None"
proof -
  obtain p s' where p: "promoteActionItem sample_env sample_items_env ''ai_1'' no_input owned_store = (Inr p, s')"
    "s' \<noteq> owned_store" by (rule owned_promotes)
  have "promoteIfEligible sample_env sample_items_env False authorized_facts owned_item owned_store =
      (Inr (pr_actionItem p, None), s')"
    using p owned_eligible sample_duplicates [OF owned_reads(1), of "''ai_1''"]
    by (simp add: promoteIfEligible_def catching_def)
  from automation_acts_only_on_supported_commitments [OF this] p(2) show ?thesis by auto
qed

text \<open>Automation never turns a refused promotion into a failure and never half-writes: once the duplicate check has
  answered, it answers the promoted record when the promotion succeeded, and otherwise the record it was given over the
  unchanged store.\<close>

theorem refused_automation_leaves_the_record_to_review:
  assumes "workspace_ok s" "can_write s" "fresh_ids tenv s"
    "findDuplicates (proposal_candidate (actionItemProposal item)) s = (Inr ds, s)"
  shows "promoteIfEligible tenv ienv deliver live item s = (Inr (item, None), s)
    \<or> (\<exists>p s' handed. promoteActionItem tenv ienv (ai_id item) no_input s = (Inr p, s')
        \<and> promoteIfEligible tenv ienv deliver live item s = (Inr (pr_actionItem p, handed), s')
        \<and> (handed = None \<or> handed = Some (task_id (pr_task p))))"
proof (cases "eg_eligible (promotionEligibility item (Some live) (ds \<noteq> []))")
  case True
  obtain p s' where p: "promoteActionItem tenv ienv (ai_id item) no_input s = (p, s')" by fastforce
  show ?thesis
  proof (cases p)
    case (Inl e)
    with p have "s' = s" using promotion_refusal_writes_nothing [OF assms(1-3), of ienv "ai_id item" no_input e] by simp
    with Inl p True assms(4) show ?thesis by (simp add: promoteIfEligible_def catching_def)
  next
    case (Inr x)
    with p True assms(4) show ?thesis by (auto simp: promoteIfEligible_def catching_def)
  qed
qed (simp add: promoteIfEligible_def assms(4))

theorem refused_automation_leaves_the_record_to_review_witness:
  "fst (promoteIfEligible sample_env sample_items_env True staging_facts (sample_item ''ai_1'') sample_store) \<noteq>
     Inl (TaskRefused InvalidTitle)"
proof -
  have "\<exists>ds. findDuplicates (proposal_candidate (actionItemProposal (sample_item ''ai_1''))) sample_store = (Inr ds, sample_store)"
    by (simp add: sample_duplicates [OF sample_reads(1)])
  then obtain ds where
    "findDuplicates (proposal_candidate (actionItemProposal (sample_item ''ai_1''))) sample_store = (Inr ds, sample_store)" ..
  from refused_automation_leaves_the_record_to_review [OF sample_workspace_ok(1) sample_reads(4) sample_fresh(1) this,
      of sample_items_env True staging_facts] show ?thesis by auto
qed

text \<open>A title of blanks stops a whole extraction, even where nothing is automated: the records have been written, but
  the duplicate check, which is made before eligibility and outside the recovery, refuses the title, and the caller is
  answered with that failure.\<close>

theorem blank_title_fails_the_extraction:
  assumes "\<not> authorizationAuthorizes (Some live)" "materialize menv input s = (Inr xs, s')" "x \<in> set xs"
    "trim (pp_title (actionItemProposal x)) = []"
    "firstExtractionRunId input s = Inr first" "first = None \<or> first = Some (im_debriefRunId input)"
  shows "\<exists>e. materializeUnderPolicy tenv ienv menv deliver live input s = (Inl e, s')"
proof (cases "materializeUnderPolicy tenv ienv menv deliver live input s")
  case (Pair r s2)
  let ?f = "\<lambda>(i, item). promoteIfEligible (tenv i) (ienv i) deliver live item"
  have "s2 = s'" using withheld_runs(1) [OF assms(1), of tenv ienv menv deliver input s] assms(2) Pair by simp
  have refused: "forEach ?f ps t = (Inr rs, t') \<Longrightarrow> (i, x) \<notin> set ps" for ps t rs t' i
  proof (induction ps arbitrary: t rs t')
    case (Cons q ps)
    from Cons.prems obtain y t1 rest where q: "?f q t = (Inr y, t1)" "forEach ?f ps t1 = (Inr rest, t')"
      by (auto elim!: andThen_InrE)
    have "fst (?f (i, x) t) \<noteq> Inr y"
      using assms(4) by (simp add: promoteIfEligible_def findDuplicates_def proposal_candidate_def requireTitle_def)
    with q Cons.IH [OF q(2)] show ?case by auto
  qed simp
  have "(i, x) \<in> set (zip [0..<length xs] xs)" if "i < length xs" "xs ! i = x" for i using that by (auto simp: set_zip intro!: exI [of _ i])
  with assms(3) obtain i where "(i, x) \<in> set (zip [0..<length xs] xs)" by (metis in_set_conv_nth)
  with refused have never: "forEach ?f (zip [0..<length xs] xs) s' \<noteq> (Inr rs, s2)" for rs by blast
  have "materializeUnderPolicy tenv ienv menv deliver live input s = forEach ?f (zip [0..<length xs] xs) s'"
    using assms(2,5,6) by (auto simp: materializeUnderPolicy_def)
  then have "r \<noteq> Inr rs" for rs using Pair never [of rs] by metis
  with Pair \<open>s2 = s'\<close> show ?thesis by (cases r) auto
qed


definition blank_extraction :: item_materialization where
  "blank_extraction = sample_extraction\<lparr>im_actionItems :=
     map (\<lambda>x. x\<lparr>xi_title := '' ''\<rparr>) (im_actionItems sample_extraction)\<rparr>"

lemma blank_materialize:
  obtains x s' where "materialize sample_items_env blank_extraction sample_store = (Inr [x], s')"
    "pp_title (actionItemProposal x) = '' ''"
proof -
  let ?entries = "checked_entries sample_items_env blank_extraction"
  have none: "materializationIndex [sample_item ''ai_1'', sample_item ''ai_2''] k = None" for k
    by (simp add: materializationIndex_def item_mappings_def sample_item_def revision_mapping_def
        List.map_filter_simps index_of_def)
  have "?entries \<noteq> []" "ep_title (oe_payload (hd ?entries)) = '' ''"
    by (simp_all add: blank_extraction_def sample_extraction_def checked_entries_def checkedEntry_def Let_def)
  then obtain x where r: "run_results sample_items_env blank_extraction [sample_item ''ai_1'', sample_item ''ai_2''] = Inr [Added x]"
    "pp_title (actionItemProposal x) = '' ''"
    by (simp add: run_results_def materialize_entry_def none Let_def blank_extraction_def sample_extraction_def
        newActionItem_def actionItemProposal_def hd_conv_nth)
  from sample_reads(4,2) show thesis
  proof (cases rule: materialize_cases [where env = sample_items_env and input = blank_extraction])
    case (refused e)
    with r show ?thesis by simp
  next
    case (stored ms s')
    with r show ?thesis by (intro that [of x s']) simp_all
  qed
qed

theorem blank_title_fails_the_extraction_witness:
  "\<exists>e. fst (materializeUnderPolicy (\<lambda>_. sample_env) (\<lambda>_. sample_items_env) sample_items_env True staging_facts
     blank_extraction sample_store) = Inl e"
proof -
  obtain x s' where m: "materialize sample_items_env blank_extraction sample_store = (Inr [x], s')"
    and x: "pp_title (actionItemProposal x) = '' ''" by (rule blank_materialize)
  have "firstExtractionRunId blank_extraction sample_store = Inr None"
    by (simp add: firstExtractionRunId_def listItems_def map_result_def item_matches_def any_item_def blank_extraction_def
        sample_extraction_def sample_source_def)
  moreover have "trim (pp_title (actionItemProposal x)) = []" by (simp add: x trim_def is_space_def)
  ultimately show ?thesis
    using blank_title_fails_the_extraction [OF staging_withheld m, of x None "\<lambda>_. sample_env" "\<lambda>_. sample_items_env" True]
    by auto
qed

subsection \<open>The authorization\<close>

text \<open>Automation is authorized only by an explicit enablement that is the owner's last decision and was made no
  earlier than the recorded release, under the automatic policy, and the history that says so never shrinks: along
  any sequence of releases, enablements and disablements the earlier decisions stay a prefix and a recorded release
  is never replaced.\<close>

theorem authorization_rests_on_the_recorded_history:
  assumes "authorization_reachable s0 s"
  shows "prefix (pa_decisions s0) (pa_decisions s)
    \<and> (\<forall>b since at ref chk. pa_release s0 = Released b since at ref chk \<longrightarrow> pa_release s = pa_release s0)
    \<and> (authorizationAuthorizes (Some (promotion_facts preference s)) \<longleftrightarrow> preference = AutoCreateMine
        \<and> (\<exists>basis since at ref chk d. pa_release s = Released basis since at ref chk
             \<and> last_decision s = Some d \<and> pd_kind d = Enable \<and> at \<le> pd_at d))"
proof -
  from assms have "prefix (pa_decisions s0) (pa_decisions s)
    \<and> (\<forall>b since at ref chk. pa_release s0 = Released b since at ref chk \<longrightarrow> pa_release s = pa_release s0)"
  proof induction
    case (step s env c)
    with authorization_extends [of s env c] show ?case by (metis prefix_order.trans)
  qed simp
  then show ?thesis by (simp add: authorizes_iff)
qed

definition restricted_state :: promotion_authorization where
  "restricted_state = \<lparr>pa_release = Restricted ''code-tests'' None, pa_decisions = []\<rparr>"

theorem authorization_rests_on_the_recorded_history_witness:
  "\<exists>s. authorization_reachable restricted_state s \<and> authorizationAuthorizes (Some (promotion_facts AutoCreateMine s))"
proof -
  define env :: authorization_env where "env = \<lparr>ae_now = ''2026-02-01'', ae_uuid = ''1''\<rparr>"
  define s1 where "s1 = snd (run_authorization env (ReleaseOp ''audit'' ''c'') restricted_state)"
  define s2 where "s2 = snd (run_authorization env EnableOp s1)"
  have r: "authorization_reachable restricted_state s2"
    unfolding s2_def s1_def by (intro authorization_reachable.intros)
  have "pa_release s2 = Released ''release-evidence:audit'' None ''2026-02-01'' ''audit'' ''c''"
    "last_decision s2 = Some \<lparr>pd_id = ''promotion_1'', pd_kind = Enable, pd_at = ''2026-02-01''\<rparr>"
    by (simp_all add: s2_def s1_def env_def restricted_state_def recordRelease_def enable_def last_enables_def
        last_decision_def decide_authorization_def Let_def)
  then have "authorizationAuthorizes (Some (promotion_facts AutoCreateMine s2))"
    using authorization_rests_on_the_recorded_history [OF r, of AutoCreateMine] by simp
  with r show ?thesis by blast
qed

text \<open>An enablement recorded before the release cannot be renewed in one step: the surface offers enabling as the next
  action, enabling is answered as done and records nothing, and automation stays unauthorized; only disabling first and
  enabling then authorizes it.\<close>

theorem stale_enablement_is_not_renewed:
  assumes "pa_release s = Released basis since at ref chk" "last_decision s = Some d" "pd_kind d = Enable" "pd_at d < at"
    "at \<le> ae_now env"
  shows "ps_nextAction (authorization_status AutoCreateMine s) = Some Enable \<and> enable env s = (Inr s, s)
    \<and> \<not> authorizationAuthorizes (Some (promotion_facts AutoCreateMine s))
    \<and> authorizationAuthorizes (Some (promotion_facts AutoCreateMine (snd (andThen (disable env') (\<lambda>_. enable env) s))))"
proof -
  have stale: "\<not> authorizationAuthorizes (Some (promotion_facts AutoCreateMine s))"
    using assms(1,2,4) by (auto simp: authorizes_iff)
  have "promotion_facts AutoCreateMine s = \<lparr>sau_released = True, sau_enabledAt = None, sau_preference = ''auto-create-mine'',
      sau_basis = ''enablement-predates-release:'' @ pd_at d\<rparr>"
    using assms by (simp add: promotion_facts_def Let_def)
  then have "ps_nextAction (authorization_status AutoCreateMine s) = Some Enable"
    using stale by (simp add: authorization_status_def Let_def)
  moreover have "enable env s = (Inr s, s)" using assms by (simp add: enable_def last_enables_def)
  moreover have "disable env' s = (Inr (decide_authorization env' Disable s), decide_authorization env' Disable s)"
    using assms by (simp add: disable_def last_enables_def Let_def)
  then have "snd (andThen (disable env') (\<lambda>_. enable env) s) =
      decide_authorization env Enable (decide_authorization env' Disable s)"
    using assms(1) by (simp add: enable_def last_enables_def Let_def)
  then have "authorizationAuthorizes (Some (promotion_facts AutoCreateMine (snd (andThen (disable env') (\<lambda>_. enable env) s))))"
    using assms(1,5) by (simp add: authorizes_iff)
  ultimately show ?thesis using stale by blast
qed

theorem stale_enablement_is_not_renewed_witness:
  "enable \<lparr>ae_now = ''2026-03-01'', ae_uuid = ''2''\<rparr>
     \<lparr>pa_release = Released ''b'' None ''2026-02-01'' ''audit'' ''c'',
      pa_decisions = [\<lparr>pd_id = ''p'', pd_kind = Enable, pd_at = ''2026-01-01''\<rparr>]\<rparr>
   = (Inr \<lparr>pa_release = Released ''b'' None ''2026-02-01'' ''audit'' ''c'',
       pa_decisions = [\<lparr>pd_id = ''p'', pd_kind = Enable, pd_at = ''2026-01-01''\<rparr>]\<rparr>,
      \<lparr>pa_release = Released ''b'' None ''2026-02-01'' ''audit'' ''c'',
       pa_decisions = [\<lparr>pd_id = ''p'', pd_kind = Enable, pd_at = ''2026-01-01''\<rparr>]\<rparr>)"
  using stale_enablement_is_not_renewed [where s = "\<lparr>pa_release = Released ''b'' None ''2026-02-01'' ''audit'' ''c'',
      pa_decisions = [\<lparr>pd_id = ''p'', pd_kind = Enable, pd_at = ''2026-01-01''\<rparr>]\<rparr>"
      and env = "\<lparr>ae_now = ''2026-03-01'', ae_uuid = ''2''\<rparr>"]
  by (simp add: last_decision_def less_char_def)


subsection \<open>What the compact surfaces say\<close>

lemma read_models:
  assumes "readTasks s = Inr ts" "readActionItems s = Inr is"
  defines "opened \<equiv> js_sort compareTasks (filter (\<lambda>t. task_deletedAt t = None \<and> task_status t = Open) ts)"
  shows "open_tasks s = Inr opened" "pending_items s = Inr (filter (\<lambda>i. ai_state i = Pending) is)"
proof -
  have "query_matches (any_task\<lparr>tq_status := Some Open\<rparr>) = (\<lambda>t. task_deletedAt t = None \<and> task_status t = Open)"
    by (auto simp: fun_eq_iff query_matches_def any_task_def responsibleMatches_def search_term_def)
  then show "open_tasks s = Inr opened"
    using assms(1) by (simp add: open_tasks_def listTasks_def map_result_def opened_def task_order.js_sort_idem)
  have "item_matches (any_item\<lparr>iq_state := Some Pending\<rparr>) = (\<lambda>i. ai_state i = Pending)"
    by (auto simp: fun_eq_iff item_matches_def any_item_def)
  then show "pending_items s = Inr (filter (\<lambda>i. ai_state i = Pending) is)"
    using assms(2) by (simp add: pending_items_def listItems_def map_result_def)
qed

lemma count_sorted: "length (filter P (js_sort cmp (filter Q ts))) = length (filter (\<lambda>t. Q t \<and> P t) ts)"
  by (metis (no_types) filter_filter mset_filter mset_js_sort size_mset)

text \<open>The compact rollup counts what the store holds: every number is the number of stored records of its kind, the
  rows are the first of the ordered listing the number was taken from, nothing is written, and a failed link counts
  whether its Task is open or completed.\<close>

theorem overview_counts_the_store:
  assumes "readTasks s = Inr ts" "readActionItems s = Inr is"
  shows "\<exists>v. buildTaskOverview env s = (Inr v, s)
    \<and> oc_open (ov_counts v) = length (filter (\<lambda>t. task_deletedAt t = None \<and> task_status t = Open) ts)
    \<and> oc_overdue (ov_counts v) = length (filter (\<lambda>t. (task_deletedAt t = None \<and> task_status t = Open)
        \<and> taskGroupOf t (env_today env) = Overdue) ts)
    \<and> oc_dueToday (ov_counts v) = length (filter (\<lambda>t. (task_deletedAt t = None \<and> task_status t = Open)
        \<and> taskGroupOf t (env_today env) = DueToday) ts)
    \<and> oc_pendingActionItems (ov_counts v) = length (filter (\<lambda>i. ai_state i = Pending) is)
    \<and> oc_failedLinks (ov_counts v) = length (filter (\<lambda>t. task_deletedAt t = None \<and> in_link_state Failed t) ts)
    \<and> oc_conflictedLinks (ov_counts v) = length (filter (\<lambda>t. task_deletedAt t = None
        \<and> (in_link_state Conflicted t \<or> in_link_state ChangedExternally t)) ts)
    \<and> ov_tasks v = take 8 (js_sort compareTasks (filter (\<lambda>t. task_deletedAt t = None \<and> task_status t = Open) ts))
    \<and> ov_actionItems v = take 8 (filter (\<lambda>i. ai_state i = Pending) is)"
proof -
  let ?opened = "js_sort compareTasks (filter (\<lambda>t. task_deletedAt t = None \<and> task_status t = Open) ts)"
  let ?pending = "filter (\<lambda>i. ai_state i = Pending) is"
  note m = read_models [OF assms] listTasks_any(1) [OF assms(1)]
  have len: "length (js_sort compareTasks xs) = length xs" for xs by (metis mset_js_sort size_mset)
  have disj: "length (filter (\<lambda>t. P t \<and> in_link_state Conflicted t) xs) + length (filter (\<lambda>t. P t \<and> in_link_state ChangedExternally t) xs)
      = length (filter (\<lambda>t. P t \<and> (in_link_state Conflicted t \<or> in_link_state ChangedExternally t)) xs)" for P xs
    by (induction xs) (auto simp: in_link_state_def split: option.split)
  from m show ?thesis
    by (simp add: buildTaskOverview_def TASK_COMPACT_LIMIT_def Let_def count_sorted disj len)
qed

theorem overview_counts_the_store_witness:
  "\<exists>v. buildTaskOverview sample_env sample_store = (Inr v, sample_store) \<and> oc_open (ov_counts v) = 1
     \<and> oc_pendingActionItems (ov_counts v) = 2"
  using overview_counts_the_store [OF sample_reads(1,2), of sample_env] by auto

text \<open>A Briefing never shows one Task twice: the overdue, due-today and high-priority rows are of different Tasks, and
  each list is cut at eight rows beside the length of the list it was cut from.\<close>

theorem briefing_shows_each_task_once:
  assumes "readTasks s = Inr ts" "readActionItems s = Inr is" "distinct (map task_id ts)"
  shows "\<exists>w. buildDailyBriefingWork env s = (Inr w, s)
    \<and> distinct (map bt_taskId (bw_overdue w @ bw_dueToday w @ bw_highPriority w))
    \<and> (case bw_totals w of (overdue, dueToday, highPriority, pending) \<Rightarrow>
        length (bw_overdue w) = min 8 overdue \<and> length (bw_dueToday w) = min 8 dueToday
        \<and> length (bw_highPriority w) = min 8 highPriority \<and> length (bw_pendingActionItems w) = min 8 pending)"
proof -
  define opened where "opened = js_sort compareTasks (filter (\<lambda>t. task_deletedAt t = None \<and> task_status t = Open) ts)"
  define A where "A = filter (\<lambda>t. taskGroupOf t (env_today env) = Overdue) opened"
  define B where "B = filter (\<lambda>t. taskGroupOf t (env_today env) = DueToday) opened"
  define C where "C = filter (\<lambda>t. task_priority t = HighPriority \<and> t \<notin> set A \<and> t \<notin> set B) opened"
  have "mset (map task_id opened) = mset (map task_id (filter (\<lambda>t. task_deletedAt t = None \<and> task_status t = Open) ts))"
    by (simp add: opened_def)
  then have d: "distinct (map task_id opened)"
    using distinct_map_filter [OF assms(3)] by (metis mset_eq_imp_distinct_iff)
  have same: "x = y" if "x \<in> set opened" "y \<in> set opened" "task_id x = task_id y" for x y
    using d that by (auto simp: distinct_map inj_on_def)
  have apart: "task_id ` set (take n X) \<inter> task_id ` set (take k Y) = {}"
    if "set X \<subseteq> set opened" "set Y \<subseteq> set opened" "set X \<inter> set Y = {}" for n k X Y
    using that same set_take_subset [of n X] set_take_subset [of k Y] by blast
  have dt: "distinct (map task_id (take n (filter P opened)))" for n P
    using distinct_map_filter [OF d, of P] by (metis distinct_take take_map)
  have sub: "set A \<subseteq> set opened" "set B \<subseteq> set opened" "set C \<subseteq> set opened"
    and no: "set A \<inter> set B = {}" "set A \<inter> set C = {}" "set B \<inter> set C = {}"
    by (auto simp: A_def B_def C_def)
  have dis: "distinct (map task_id (take 8 A @ take 8 B @ take 8 C))"
    using dt [of 8 "\<lambda>t. taskGroupOf t (env_today env) = Overdue"] dt [of 8 "\<lambda>t. taskGroupOf t (env_today env) = DueToday"]
      dt [of 8 "\<lambda>t. task_priority t = HighPriority \<and> t \<notin> set A \<and> t \<notin> set B"]
      apart [OF sub(1,2) no(1), of 8 8] apart [OF sub(1,3) no(2), of 8 8] apart [OF sub(2,3) no(3), of 8 8]
    unfolding A_def [symmetric] B_def [symmetric] C_def [symmetric] by (auto simp: distinct_append)
  have proj: "bt_taskId \<circ> project_task = task_id" "bt_taskId ` project_task ` X = task_id ` X" for X
    by (simp_all add: project_task_def fun_eq_iff image_image)
  have "buildDailyBriefingWork env s = (Inr \<lparr>bw_overdue = map project_task (take 8 A),
      bw_dueToday = map project_task (take 8 B), bw_highPriority = map project_task (take 8 C),
      bw_pendingActionItems = take 8 (map project_item (filter (\<lambda>i. ai_state i = Pending) is)),
      bw_totals = (length A, length B, length C, length (filter (\<lambda>i. ai_state i = Pending) is))\<rparr>, s)"
    using read_models [OF assms(1,2), folded opened_def] unfolding A_def B_def C_def
    by (simp add: buildDailyBriefingWork_def TASK_COMPACT_LIMIT_def Let_def)
  with dis show ?thesis by (simp add: proj min.commute)
qed

theorem briefing_shows_each_task_once_witness:
  "\<exists>w. buildDailyBriefingWork sample_env sample_store = (Inr w, sample_store)
     \<and> distinct (map bt_taskId (bw_overdue w @ bw_dueToday w @ bw_highPriority w))"
  using briefing_shows_each_task_once [OF sample_reads(1,2), of sample_env] by auto

end
