(* ===== verification/ContentTypes.thy ===== *)
theory ContentTypes
  imports CanonicalJson
begin

section \<open>Content Projects: their data\<close>

text \<open>
  The types of \<^verbatim>\<open>packages/shared/src/content-engine.ts\<close> and the parts of \<^verbatim>\<open>source-items.ts\<close>,
  \<^verbatim>\<open>content-scout.ts\<close> and \<^verbatim>\<open>person-profile.ts\<close> they are made of.  A publication target is the name the catalog
  gives it, because a name that is not in the catalog is refused at run time.
\<close>

subsection \<open>The target catalog\<close>

record target_contract =
  tc_platform :: string
  tc_format :: string
  tc_outlineResult :: string
  tc_draftResult :: string

record catalog_entry =
  ct_target :: string
  ct_contractVersion :: int
  ct_contract :: target_contract

definition contract :: "string \<Rightarrow> string \<Rightarrow> string \<Rightarrow> string \<Rightarrow> string \<Rightarrow> catalog_entry" where
  "contract target platform format outlineResult draftResult = \<lparr>ct_target = target, ct_contractVersion = 1,
     ct_contract = \<lparr>tc_platform = platform, tc_format = format, tc_outlineResult = outlineResult,
       tc_draftResult = draftResult\<rparr>\<rparr>"

definition CONTENT_TARGET_CATALOG :: "catalog_entry list" where
  "CONTENT_TARGET_CATALOG =
     [contract ''linkedin-standard-post'' ''LinkedIn'' ''Standard Post'' ''hook/argument/evidence/CTA plan''
        ''finished post copy'',
      contract ''linkedin-carousel'' ''LinkedIn'' ''Carousel'' ''cover and slide-beat plan'' ''finished slide copy'',
      contract ''linkedin-long-article'' ''LinkedIn'' ''Long-form Article'' ''section/evidence plan''
        ''finished article copy'',
      contract ''website-blog-article'' ''Website'' ''Blog Article'' ''headline/section/SEO evidence plan''
        ''finished article copy'',
      contract ''email-newsletter'' ''Email'' ''Newsletter'' ''subject/opening/section/CTA plan''
        ''finished newsletter copy'',
      contract ''youtube-short'' ''YouTube'' ''Short'' ''hook/visual beats/payoff plan'' ''record-ready short script'',
      contract ''youtube-long-video'' ''YouTube'' ''Long-form Video'' ''cold open/chapter/visual plan''
        ''record-ready long script'',
      contract ''instagram-reel'' ''Instagram'' ''Reel'' ''pattern interrupt/visual beats/payoff plan''
        ''record-ready Reel script'',
      contract ''tiktok-video'' ''TikTok'' ''Video'' ''immediate hook/rapid proof/payoff plan''
        ''record-ready TikTok script'']"

definition CONTENT_PROJECT_TARGETS :: "string list" where
  "CONTENT_PROJECT_TARGETS = map ct_target CONTENT_TARGET_CATALOG"

subsection \<open>Public evidence\<close>

datatype source_classification =
    ItemsFound | LegitimateEmpty | NoNewMaterial | UnsupportedCapability | SourceNotFound | BlockedAccess
  | ResponseShapeChange | RateLimit | SourceTimeout | ParserFailure | InternalFailure

fun isSuccessfulSourceDiagnostic :: "source_classification \<Rightarrow> bool" where
  "isSuccessfulSourceDiagnostic ItemsFound = True"
| "isSuccessfulSourceDiagnostic LegitimateEmpty = True"
| "isSuccessfulSourceDiagnostic NoNewMaterial = True"
| "isSuccessfulSourceDiagnostic _ = False"

datatype source_field_state = FieldAvailable | FieldUnavailable | FieldUnsupported | FieldFailed

record source_comment =
  sc_author :: "string option"
  sc_publishedAt :: "string option"
  sc_url :: "string option"
  sc_text :: string
  sc_engagement :: "int option"

record source_completeness =
  sk_title :: source_field_state
  sk_body :: source_field_state
  sk_description :: source_field_state
  sk_transcript :: source_field_state
  sk_comments :: source_field_state
  sk_media :: source_field_state

record source_claim =
  sl_text :: string
  sl_supported :: bool
  sl_sourceUrls :: "string list"

record source_item =
  si_id :: string
  si_externalId :: string
  si_targetId :: string
  si_adapterId :: string
  si_canonicalUrl :: string
  si_author :: "string option"
  si_title :: "string option"
  si_body :: "string option"
  si_description :: "string option"
  si_publishedAt :: "string option"
  si_discoveredAt :: string
  si_media :: "(string \<times> string) list"
  si_transcript :: "string option"
  si_comments :: "source_comment list"
  si_evidence :: "(string \<times> string) list"
  si_completeness :: source_completeness
  si_engagement :: "(string \<times> int) list option"
  si_storyKey :: "string option"
  si_claims :: "source_claim list option"

record diagnostic =
  dg_classification :: source_classification
  dg_route :: string
  dg_status :: "int option"
  dg_contentType :: "string option"
  dg_parserStage :: string
  dg_responseHash :: string
  dg_adapterVersion :: string
  dg_startedAt :: string
  dg_finishedAt :: string
  dg_retries :: int
  dg_affectedCapabilities :: "string list"
  dg_causeChain :: "string list"
  dg_retryAfterMs :: "int option"

subsection \<open>What a Project is made from\<close>

datatype research_mode = NoExternalResearch | ExistingWorkspaceEvidence | FreshBoundedResearch

datatype subject_input = TopicInput string | PersonInput string

datatype content_subject = Topic string | PersonSubject string int

record source_opportunity =
  so_opportunityId :: string
  so_runId :: string
  so_title :: string
  so_angle :: string
  so_angleDescription :: string
  so_sourceUrls :: "string list"
  so_brandProfileRevisionId :: string
  so_recordedAt :: string

record project_create_input =
  nc_subject :: subject_input
  nc_authorProfileId :: "string option"
  nc_objective :: string
  nc_audience :: string
  nc_constraints :: "string list"
  nc_targets :: "string list"
  nc_researchMode :: "research_mode option"
  nc_seedMaterial :: "string list"
  nc_sourceOpportunity :: "source_opportunity option"

record intent_patch =
  ip_subject :: "subject_input option"
  ip_authorProfileId :: "string option"
  ip_objective :: "string option"
  ip_audience :: "string option"
  ip_constraints :: "string list option"
  ip_targets :: "string list option"
  ip_researchMode :: "research_mode option option"
  ip_seedMaterial :: "string list option"

record author_reference =
  ar_profileId :: string
  ar_profileRevision :: int

record brand_scan =
  bs_websiteUrl :: string
  bs_includedUrls :: "string list"
  bs_excludedUrls :: "string list"

record brand_revision =
  br_id :: string
  br_createdAt :: string
  br_markdown :: string
  br_sourceScan :: brand_scan
  br_note :: "string option"
  br_changedSections :: "string list"
  br_siteBaselineMarkdown :: "string option"

text \<open>A Person Profile as the Content Engine reads it, and a projection of one: who it is about, and the rest of its
  content as one value.\<close>

record person_revision =
  pn_id :: string
  pn_revision :: int
  pn_fullName :: "string option"
  pn_primaryEmail :: "string option"
  pn_emails :: "string list"
  pn_handles :: "(string \<times> string list) list"
  pn_profileUrls :: "string list"
  pn_employerHints :: "string list"
  pn_archivedAt :: "string option"

record person_projection =
  pj_purpose :: string
  pj_profileId :: string
  pj_profileRevision :: int
  pj_content :: jsval

subsection \<open>Research Requests\<close>

datatype identifier_class = IdentEmail | IdentFullName | IdentHandle | IdentProfileUrl | IdentEmployerHint

datatype identifier_purpose = PersonIdentification | TopicEvidence

record identifier_use =
  iu_identifierClass :: identifier_class
  iu_providerId :: string
  iu_usedAt :: string
  iu_purpose :: identifier_purpose

datatype bundle_completeness = BestEffort | AllProviders

record provider_bundle =
  pb_providerIds :: "string list"
  pb_completeness :: bundle_completeness

record research_limits =
  rl_maxQueriesPerProvider :: int
  rl_maxSourceItems :: int

record research_scope =
  rs_question :: string
  rs_terms :: "string list"
  rs_subject :: content_subject

record research_input =
  ri_question :: string
  ri_terms :: "string list"
  ri_bundle :: provider_bundle
  ri_limits :: research_limits

record provider_outcome =
  po_providerId :: string
  po_queries :: int
  po_itemsFound :: int
  po_diagnostic :: diagnostic

text \<open>What the providers produced, and the request it is kept in.\<close>

record research_result =
  rr_startedAt :: string
  rr_finishedAt :: string
  rr_complete :: bool
  rr_providerOutcomes :: "provider_outcome list"
  rr_identifierUses :: "identifier_use list"
  rr_sourceItems :: "source_item list"

record research_request =
  rq_id :: string
  rq_projectId :: string
  rq_projectRevision :: int
  rq_scope :: research_scope
  rq_bundle :: provider_bundle
  rq_limits :: research_limits
  rq_result :: research_result

subsection \<open>Evidence, Charters, Outlines and Drafts\<close>

record content_voice =
  vo_id :: string
  vo_profileId :: string
  vo_revision :: int
  vo_markdown :: string
  vo_approvedAt :: string

record evidence_review =
  er_attachedAt :: string
  er_sourceItems :: "source_item list"
  er_diagnostics :: "diagnostic list"

datatype projection_role = AuthorRole | SubjectRole

record evidence_freeze =
  ef_frozenAt :: string
  ef_sourceItems :: "source_item list"
  ef_diagnostics :: "diagnostic list"
  ef_brandVoice :: brand_revision
  ef_contentVoice :: content_voice
  ef_profileProjections :: "(projection_role \<times> person_projection) list"
  ef_userMaterial :: "string list"
  ef_noExternalResearchAcknowledged :: bool

record prompt_source_item =
  ps_id :: string
  ps_canonicalUrl :: string
  ps_author :: "string option"
  ps_title :: "string option"
  ps_body :: "string option"
  ps_description :: "string option"
  ps_publishedAt :: "string option"
  ps_claims :: "source_claim list option"
  ps_transcript :: "string option"

record prompt_evidence =
  pe_projectId :: string
  pe_projectRevision :: int
  pe_sourceItems :: "prompt_source_item list"
  pe_brandVoice :: brand_revision
  pe_contentVoice :: content_voice
  pe_profileProjections :: "(projection_role \<times> person_projection) list"
  pe_userMaterial :: "string list"

record evidence_attachment =
  ea_sourceItems :: "source_item list"
  ea_diagnostics :: "diagnostic list"

record evidence_selection =
  es_includedSourceItemIds :: "string list"
  es_noExternalResearchAcknowledged :: bool

datatype content_gate =
  CanonicalOwner | BrandVoice | AuthorAuthority | ContentVoice | ResearchModeGate | EvidenceReviewGate
  | NoResearchAcknowledgement | TargetGate

fun gate_name :: "content_gate \<Rightarrow> string" where
  "gate_name CanonicalOwner = ''canonical-owner''"
| "gate_name BrandVoice = ''brand-voice''"
| "gate_name AuthorAuthority = ''author-authority''"
| "gate_name ContentVoice = ''content-voice''"
| "gate_name ResearchModeGate = ''research-mode''"
| "gate_name EvidenceReviewGate = ''evidence-review''"
| "gate_name NoResearchAcknowledgement = ''no-research-acknowledgement''"
| "gate_name TargetGate = ''target''"

definition CONTENT_PROJECT_GATES :: "content_gate list" where
  "CONTENT_PROJECT_GATES = [CanonicalOwner, BrandVoice, AuthorAuthority, ContentVoice, ResearchModeGate,
     EvidenceReviewGate, NoResearchAcknowledgement, TargetGate]"

record readiness_report =
  rd_ready :: bool
  rd_missingGates :: "content_gate list"

record evidence_entry =
  ee_claim :: string
  ee_sourceItemIds :: "string list"

record charter_input =
  ch_thesis :: string
  ch_angle :: string
  ch_claims :: "string list"
  ch_evidenceMap :: "evidence_entry list"
  ch_ctaIntent :: "string option"

record outline_charter = charter_input +
  ch_id :: string
  ch_projectId :: string
  ch_projectRevision :: int
  ch_version :: int
  ch_proposedAt :: string
  ch_subject :: content_subject
  ch_author :: author_reference
  ch_audience :: string
  ch_objective :: string
  ch_constraints :: "string list"
  ch_brandVoiceRevisionId :: string
  ch_targets :: "string list"

record charter_approval =
  ca_outlineCharterId :: string
  ca_approvedAt :: string

record outline_beat =
  ob_position :: int
  ob_direction :: string
  ob_evidence :: evidence_entry
  ob_examples :: "string list"

record platform_outline =
  pl_id :: string
  pl_projectId :: string
  pl_projectRevision :: int
  pl_target :: string
  pl_outlineCharterId :: string
  pl_outlineCharterVersion :: int
  pl_version :: int
  pl_generatedAt :: string
  pl_instruction :: "string option"
  pl_title :: string
  pl_hookDirection :: string
  pl_thesis :: string
  pl_beats :: "outline_beat list"
  pl_ctaIntent :: "string option"
  pl_targetLength :: string
  pl_constraints :: "string list"
  pl_warnings :: "string list"
  pl_productionNotes :: "string list"

record outline_approval =
  oa_platformOutlineId :: string
  oa_target :: string
  oa_approvedAt :: string

definition CONTENT_ENGINE_UNSUPPORTED_CLAIM_POLICY :: string where
  "CONTENT_ENGINE_UNSUPPORTED_CLAIM_POLICY = ''mark-unsupported''"

record draft_claim =
  dc_text :: string
  dc_sourceItemIds :: "string list"
  dc_supported :: bool

record content_draft =
  df_id :: string
  df_projectId :: string
  df_projectRevision :: int
  df_target :: string
  df_platformOutlineId :: string
  df_outlineVersion :: int
  df_version :: int
  df_generatedAt :: string
  df_instruction :: "string option"
  df_copy :: string
  df_thesis :: string
  df_evidence :: "evidence_entry list"
  df_claims :: "draft_claim list"
  df_unsupportedClaimPolicy :: string
  df_productionNotes :: "string list"

datatype outline_failure_code = ProviderFailed | InvalidProviderResultCode

record outline_failure =
  of_target :: string
  of_code :: outline_failure_code
  of_message :: string

record outline_set_outcome =
  os_outlineCharterId :: string
  os_outlineCharterVersion :: int
  os_generated :: "platform_outline list"
  os_failures :: "outline_failure list"

record content_revision =
  cv_revision :: int
  cv_createdAt :: string
  cv_subject :: content_subject
  cv_author :: author_reference
  cv_objective :: string
  cv_audience :: string
  cv_constraints :: "string list"
  cv_targets :: "string list"
  cv_researchMode :: "research_mode option"
  cv_seedMaterial :: "string list"
  cv_sourceOpportunity :: "source_opportunity option"
  cv_researchRequest :: "research_request option"
  cv_evidenceReview :: "evidence_review option"
  cv_frozenEvidence :: "evidence_freeze option"
  cv_outlineCharters :: "outline_charter list"
  cv_outlineCharterApprovals :: "charter_approval list"
  cv_platformOutlines :: "platform_outline list"
  cv_platformOutlineApprovals :: "outline_approval list"
  cv_drafts :: "content_draft list"

record content_project =
  cp_id :: string
  cp_createdAt :: string
  cp_updatedAt :: string
  cp_revisions :: "content_revision list"

record project_summary =
  su_id :: string
  su_createdAt :: string
  su_updatedAt :: string
  su_revision :: int
  su_subject :: content_subject
  su_objective :: string
  su_audience :: string
  su_targets :: "string list"
  su_researchMode :: "research_mode option"
  su_sourceOpportunity :: "source_opportunity option"
  su_readiness :: readiness_report

record author_policy =
  ap_profileId :: string
  ap_authorizedAt :: string

subsection \<open>The downloads\<close>

definition markdownBullets :: "string list \<Rightarrow> string list" where
  "markdownBullets values = map (\<lambda>v. ''- '' @ v) values"

definition evidenceSourceLabel :: "string list \<Rightarrow> string" where
  "evidenceSourceLabel ids = (if ids \<noteq> [] then ''Source Items: '' @ join_text '', '' ids
     else ''thesis beat, no frozen source'')"

definition line_feed :: string where
  "line_feed = [char_of (10 :: nat)]"

definition trimEnd :: "string \<Rightarrow> string" where
  "trimEnd s = rev (dropWhile is_space (rev s))"

definition beat_lines :: "outline_beat \<Rightarrow> string list" where
  "beat_lines b = [''### '' @ json_int (ob_position b) @ ''. '' @ ob_direction b, [],
     ''- Evidence: '' @ ee_claim (ob_evidence b) @ '' ('' @ evidenceSourceLabel (ee_sourceItemIds (ob_evidence b)) @ '')'']
     @ (if ob_examples b \<noteq> [] then [''- Examples: '' @ join_text ''; '' (ob_examples b)] else []) @ [[]]"

definition platformOutlineMarkdown :: "platform_outline \<Rightarrow> string" where
  "platformOutlineMarkdown o' = trimEnd (join_text line_feed (
     [''# '' @ pl_title o', [],
      ''- Target: '' @ pl_target o' @ '' (version '' @ json_int (pl_version o') @ '')'',
      ''- Thesis: '' @ pl_thesis o',
      ''- Hook: '' @ pl_hookDirection o',
      ''- Target length: '' @ pl_targetLength o']
     @ (case pl_ctaIntent o' of None \<Rightarrow> [] | Some c \<Rightarrow> if c = [] then [] else [''- CTA intent: '' @ c])
     @ [[], ''## Beats'', []]
     @ concat (map beat_lines (pl_beats o'))
     @ (if pl_warnings o' \<noteq> [] then [''## Warnings'', []] @ markdownBullets (pl_warnings o') @ [[]] else [])
     @ (if pl_productionNotes o' \<noteq> []
        then [''## Production notes'', []] @ markdownBullets (pl_productionNotes o') @ [[]] else [])
     @ (if pl_constraints o' \<noteq> [] then [''## Constraints'', []] @ markdownBullets (pl_constraints o') else [])))
     @ line_feed"

text \<open>The dash between a claim and its support, as the three bytes of the downloaded file.\<close>

definition em_dash :: string where
  "em_dash = [char_of (226 :: nat), char_of (128 :: nat), char_of (148 :: nat)]"

definition contentEngineDraftMarkdown :: "content_draft \<Rightarrow> string" where
  "contentEngineDraftMarkdown d = trimEnd (join_text line_feed (
     [''# '' @ df_target d @ '' draft (version '' @ json_int (df_version d) @ '')'', [], df_copy d, [],
      ''Thesis: '' @ df_thesis d, [], ''## Claims'', []]
     @ map (\<lambda>c. ''- '' @ dc_text c @ '' '' @ em_dash @ '' '' @
         (if dc_supported c then ''Supported ('' @ evidenceSourceLabel (dc_sourceItemIds c) @ '')''
          else ''Unsupported ('' @ CONTENT_ENGINE_UNSUPPORTED_CLAIM_POLICY @ '')'')) (df_claims d)
     @ (if df_productionNotes d \<noteq> []
        then [[], ''## Production notes'', []] @ markdownBullets (df_productionNotes d) else [])))
     @ line_feed"

end
