(* ===== verification/SourceDiagnostics.thy ===== *)
theory SourceDiagnostics
  imports ContentTypes
begin

section \<open>Diagnostics that may be kept\<close>

text \<open>
  \<^verbatim>\<open>apps/server/src/source-adapters/diagnostics.ts\<close>: what a Source Adapter or a research provider reports about
  its own run is reduced to an allowlisted receipt before it is stored.  The WHATWG URL parser, SHA-256 and
  \<^verbatim>\<open>Date.parse\<close> are the platform's; they are the fields of \<open>diagnostic_env\<close>.
\<close>

record parsed_url =
  ur_protocol :: string
  ur_origin :: string
  ur_segments :: "string list"
  ur_queryKeys :: "string list"

record diagnostic_env =
  de_url :: "string \<Rightarrow> parsed_url option"
  de_sha256 :: "string \<Rightarrow> string"
  de_timestamp :: "string \<Rightarrow> string option"

definition SAFE_ROUTE_SEGMENTS :: "string list" where
  "SAFE_ROUTE_SEGMENTS = [''api'', ''channel'', ''channels'', ''feed'', ''feeds'', ''json'', ''playlist'',
     ''playlists'', ''posts'', ''rss'', ''search'', ''v1'', ''v2'', ''v3'', ''videos'', ''xml'']"

definition SAFE_QUERY_KEYS :: "string list" where
  "SAFE_QUERY_KEYS = [''channel'', ''feed'', ''format'', ''language'', ''limit'', ''order'', ''page'', ''q'',
     ''query'', ''search'', ''since'', ''sort'', ''topic'', ''type'', ''until'']"

definition SOURCE_PARSER_STAGES :: "string list" where
  "SOURCE_PARSER_STAGES = [''adapter_boundary'', ''conditional_request'', ''embedded_public_data'', ''fetch'',
     ''public_embedded_data'', ''readability'', ''reddit_html_parse'', ''reddit_json_parse'', ''rss'', ''rss_parse'',
     ''browser_render'', ''youtube'', ''youtube_data_api'', ''yt_dlp'', ''instaloader'', ''unknown_stage'']"

definition SOURCE_CAPABILITIES :: "string list" where
  "SOURCE_CAPABILITIES = [''body'', ''channel'', ''comments'', ''description'', ''items'', ''source_target'',
     ''title'', ''transcript'', ''youtube'', ''unknown_capability'']"

fun classification_name :: "source_classification \<Rightarrow> string" where
  "classification_name ItemsFound = ''items_found''"
| "classification_name LegitimateEmpty = ''legitimate_empty''"
| "classification_name NoNewMaterial = ''no_new_material''"
| "classification_name UnsupportedCapability = ''unsupported_capability''"
| "classification_name SourceNotFound = ''source_not_found''"
| "classification_name BlockedAccess = ''blocked_access''"
| "classification_name ResponseShapeChange = ''response_shape_change''"
| "classification_name RateLimit = ''rate_limit''"
| "classification_name SourceTimeout = ''timeout''"
| "classification_name ParserFailure = ''parser_failure''"
| "classification_name InternalFailure = ''internal_failure''"

subsection \<open>Pieces of a receipt\<close>

definition version_char :: "char \<Rightarrow> bool" where
  "version_char c \<longleftrightarrow> (CHR ''A'' \<le> c \<and> c \<le> CHR ''Z'') \<or> (CHR ''a'' \<le> c \<and> c \<le> CHR ''z'')
     \<or> (CHR ''0'' \<le> c \<and> c \<le> CHR ''9'') \<or> c \<in> set ''.@_-''"

definition safeAdapterVersion :: "string \<Rightarrow> string" where
  "safeAdapterVersion value =
     (let v = take 80 (map (\<lambda>c. if version_char c then c else CHR ''_'') value) in
      if v = [] then ''unknown'' else v)"

definition safeTimestamp :: "diagnostic_env \<Rightarrow> string \<Rightarrow> string" where
  "safeTimestamp de value = (case de_timestamp de value of None \<Rightarrow> ''invalid'' | Some t \<Rightarrow> t)"

definition media_char :: "char \<Rightarrow> bool" where
  "media_char c \<longleftrightarrow> (CHR ''a'' \<le> c \<and> c \<le> CHR ''z'') \<or> (CHR ''0'' \<le> c \<and> c \<le> CHR ''9'') \<or> c \<in> set ''!#$&^_.+-''"

definition sanitizeDiagnosticContentType :: "string option \<Rightarrow> string option" where
  "sanitizeDiagnosticContentType value = (case value of None \<Rightarrow> None | Some v \<Rightarrow>
     let media = toLowerCase (trim (takeWhile (\<lambda>c. c \<noteq> CHR '';'') v));
         kind = takeWhile (\<lambda>c. c \<noteq> CHR ''/'') media; sub = drop (Suc (length kind)) media in
     if length kind < length media \<and> kind \<noteq> [] \<and> sub \<noteq> [] \<and> list_all media_char kind \<and> list_all media_char sub
     then Some media else None)"

definition redacted_route :: "diagnostic_env \<Rightarrow> string \<Rightarrow> string" where
  "redacted_route de value = ''[redacted-route;sha256:'' @ de_sha256 de value @ '']''"

definition route_segment :: "diagnostic_env \<Rightarrow> string \<Rightarrow> string" where
  "route_segment de seg = (if seg = [] then [] else if toLowerCase seg \<in> set SAFE_ROUTE_SEGMENTS then toLowerCase seg
     else ''[segment;sha256:'' @ take 12 (de_sha256 de seg) @ '']'')"

definition route_key :: "string \<Rightarrow> string" where
  "route_key k = (if toLowerCase k \<in> set SAFE_QUERY_KEYS then toLowerCase k else ''redacted'')"

definition sanitizeDiagnosticRoute :: "diagnostic_env \<Rightarrow> string \<Rightarrow> string" where
  "sanitizeDiagnosticRoute de value = (case de_url de value of
     None \<Rightarrow> redacted_route de value
   | Some u \<Rightarrow>
       if ur_protocol u \<noteq> ''http:'' \<and> ur_protocol u \<noteq> ''https:'' then redacted_route de value
       else let path = join_text ''/'' (map (route_segment de) (ur_segments u));
                keys = map route_key (ur_queryKeys u) in
         ur_origin u @ (if path = [] then ''/'' else path)
         @ (if keys = [] then [] else ''?'' @ join_text ''&'' (map (\<lambda>k. k @ ''='') keys)))"

subsection \<open>Cause codes\<close>

definition word_char :: "char \<Rightarrow> bool" where
  "word_char c \<longleftrightarrow> (CHR ''a'' \<le> c \<and> c \<le> CHR ''z'') \<or> (CHR ''A'' \<le> c \<and> c \<le> CHR ''Z'')
     \<or> (CHR ''0'' \<le> c \<and> c \<le> CHR ''9'') \<or> c = CHR ''_''"

definition starts_word :: "string \<Rightarrow> nat \<Rightarrow> bool" where
  "starts_word s i \<longleftrightarrow> i = 0 \<or> \<not> word_char (s ! (i - 1))"

fun ends_word :: "string \<Rightarrow> bool" where
  "ends_word [] = True"
| "ends_word (c # _) = (\<not> word_char c)"

text \<open>The three shapes of pattern: a text anywhere, a whole word anywhere, and two texts on one line.  They are tried
  on the lowered text, the patterns ignoring case.\<close>

definition has_any :: "string list \<Rightarrow> string \<Rightarrow> bool" where
  "has_any ts s \<longleftrightarrow> list_ex (\<lambda>t. includes_text t s) ts"

definition has_word :: "string list \<Rightarrow> string \<Rightarrow> bool" where
  "has_word ws s \<longleftrightarrow> list_ex (\<lambda>w. list_ex (\<lambda>i. starts_word s i \<and> take (length w) (drop i s) = w
     \<and> ends_word (drop (i + length w) s)) [0..<length s]) ws"

definition line_end :: "char \<Rightarrow> bool" where
  "line_end c \<longleftrightarrow> c = char_of (10 :: nat) \<or> c = char_of (13 :: nat)"

definition has_span :: "string \<Rightarrow> string list \<Rightarrow> string \<Rightarrow> bool" where
  "has_span a bs s \<longleftrightarrow> list_ex (\<lambda>i. take (length a) (drop i s) = a
     \<and> has_any bs (takeWhile (\<lambda>c. \<not> line_end c) (drop (i + length a) s))) [0..<length s]"

definition has_http_status :: "string \<Rightarrow> bool" where
  "has_http_status s \<longleftrightarrow> list_ex (\<lambda>i. starts_word s i \<and> take 4 (drop i s) = ''http''
     \<and> (let r = drop (i + 4) s; d = dropWhile is_space r in
        d \<noteq> r \<and> length (take 3 d) = 3 \<and> list_all (\<lambda>c. CHR ''0'' \<le> c \<and> c \<le> CHR ''9'') (take 3 d) \<and> ends_word (drop 3 d)))
     [0..<length s]"

definition causeCode :: "string \<Rightarrow> source_classification \<Rightarrow> string \<Rightarrow> int option \<Rightarrow> string" where
  "causeCode cause classification stage status = (let t = toLowerCase cause in
     if has_any [''authorization'', ''bearer'', ''cookie'', ''password'', ''apikey'', ''api-key'', ''api_key'',
         ''api key'', ''token'', ''secret''] t then ''credential_material_redacted''
     else if has_any [''private response'', ''response body'', ''response excerpt'', ''account-specific excerpt''] t
       then ''private_response_redacted''
     else if has_word [''enotfound'', ''eai_again'', ''dns'', ''getaddrinfo''] t then ''dns_lookup_failed''
     else if has_word [''econnrefused'', ''connection refused''] t then ''connection_refused''
     else if has_word [''certificate'', ''ssl'', ''tls''] t then ''tls_verification_failed''
     else if has_word [''abort'', ''time out'', ''timed out'', ''timeout''] t then ''request_timed_out''
     else if status \<noteq> None \<and> has_http_status t then ''http_status_'' @ json_int (the status)
     else if has_any [''json-ld'', ''opengraph''] t \<or> has_span ''public '' ['' data'', '' evidence''] t
       then ''expected_public_evidence_missing''
     else if has_any [''uploads playlist'', ''platform resource''] t then ''expected_platform_resource_missing''
     else if has_any [''no meaningful''] t \<or> has_span ''nothing '' ['' extracted''] t
         \<or> has_span ''empty '' ['' extracted''] t then ''parsed_content_empty''
     else if has_word [''parse'', ''parser'', ''syntax'', ''schema'', ''shape'', ''json'', ''xml''] t
       then ''response_parse_failed''
     else classification_name classification @ ''_at_'' @ stage)"

definition indexed :: "'a list \<Rightarrow> (nat \<times> 'a) list" where
  "indexed xs = zip [0..<length xs] xs"

fun unique_from :: "'k list \<Rightarrow> ('a \<Rightarrow> 'k) \<Rightarrow> 'a list \<Rightarrow> 'a list" where
  "unique_from seen key [] = []"
| "unique_from seen key (x # xs) =
     (if key x \<in> set seen then unique_from seen key xs else x # unique_from (key x # seen) key xs)"

text \<open>The first of every group of elements with one key, in order: \<open>uniqueBy\<close>, and \<open>[...new Set(values)]\<close>.\<close>

definition uniqueBy :: "('a \<Rightarrow> 'k) \<Rightarrow> 'a list \<Rightarrow> 'a list" where
  "uniqueBy key xs = unique_from [] key xs"

definition sanitizeAdapterDiagnostic :: "diagnostic_env \<Rightarrow> diagnostic \<Rightarrow> string \<Rightarrow> diagnostic" where
  "sanitizeAdapterDiagnostic de d version = (let
     stage = (if dg_parserStage d \<in> set SOURCE_PARSER_STAGES then dg_parserStage d else ''unknown_stage'');
     status = (case dg_status d of None \<Rightarrow> None | Some n \<Rightarrow> if 100 \<le> n \<and> n \<le> 599 then Some n else None) in
     \<lparr>dg_classification = dg_classification d, dg_route = sanitizeDiagnosticRoute de (dg_route d), dg_status = status,
      dg_contentType = sanitizeDiagnosticContentType (dg_contentType d), dg_parserStage = stage,
      dg_responseHash = (if dg_responseHash d = [] then [] else de_sha256 de (dg_responseHash d)),
      dg_adapterVersion = safeAdapterVersion version,
      dg_startedAt = safeTimestamp de (dg_startedAt d), dg_finishedAt = safeTimestamp de (dg_finishedAt d),
      dg_retries = (if 0 \<le> dg_retries d then dg_retries d else 0),
      dg_affectedCapabilities = uniqueBy id (map (\<lambda>c. if c \<in> set SOURCE_CAPABILITIES then c else ''unknown_capability'')
        (dg_affectedCapabilities d)),
      dg_causeChain = map (\<lambda>(i, cause). causeCode cause (dg_classification d) stage status @ '' (cause ''
        @ digits (i + 1) @ '', sha256:'' @ de_sha256 de cause @ '')'') (indexed (dg_causeChain d)),
      dg_retryAfterMs = (case dg_retryAfterMs d of None \<Rightarrow> None | Some n \<Rightarrow> if 0 \<le> n then Some n else None)\<rparr>)"

lemma sanitize_classification [simp]:
  "dg_classification (sanitizeAdapterDiagnostic de d v) = dg_classification d"
  by (simp add: sanitizeAdapterDiagnostic_def Let_def)

subsection \<open>Unique keys\<close>

lemma unique_from_keys: "x \<in> set (unique_from seen key xs) \<Longrightarrow> key x \<notin> set seen"
  by (induction xs arbitrary: seen) (auto split: if_splits, fastforce)

lemma set_unique_from: "set (unique_from seen key xs) \<subseteq> set xs"
  by (induction xs arbitrary: seen) auto

lemma distinct_unique_from: "distinct (map key (unique_from seen key xs))"
  by (induction xs arbitrary: seen) (auto dest: unique_from_keys)

lemma keys_unique_from: "key ` set (unique_from seen key xs) = key ` set xs - set seen"
  by (induction xs arbitrary: seen) auto

lemma unique_from_id: "distinct (map key xs) \<Longrightarrow> key ` set xs \<inter> set seen = {} \<Longrightarrow> unique_from seen key xs = xs"
  by (induction xs arbitrary: seen) auto

lemma set_uniqueBy: "set (uniqueBy key xs) \<subseteq> set xs"
  by (simp add: uniqueBy_def set_unique_from)

lemma distinct_uniqueBy: "distinct (map key (uniqueBy key xs))"
  by (simp add: uniqueBy_def distinct_unique_from)

lemma keys_uniqueBy: "key ` set (uniqueBy key xs) = key ` set xs"
  by (simp add: uniqueBy_def keys_unique_from)

lemma uniqueBy_distinct: "distinct (map key xs) \<Longrightarrow> uniqueBy key xs = xs"
  by (simp add: uniqueBy_def unique_from_id)

lemma set_uniqueBy_id [simp]: "set (uniqueBy id xs) = set xs"
  using keys_uniqueBy [of id xs] by simp

lemma distinct_uniqueBy_id [simp]: "distinct (uniqueBy id xs)"
  using distinct_uniqueBy [of id xs] by simp

end
