(* ===== verification/BoundedLanes.thy ===== *)
theory BoundedLanes
  imports Main
begin

section \<open>Bounded lanes\<close>

text \<open>
  \<open>runBounded\<close> of \<^verbatim>\<open>content-projects/projects.ts\<close> and \<open>mapLimit\<close> of \<^verbatim>\<open>source-adapters/collection.ts\<close>: at
  most \<open>bound\<close> lanes share one counter; a lane that is ready claims the next index, calls the worker for it, and is
  ready again when that call has settled.  The calls settle in any order, so the program is a step relation.  The
  lemmas give what both callers rely on: every index is called once, in order, never more than \<open>bound\<close> at a time, and
  when the lanes are finished the results are those of the items in their order.
\<close>

datatype lane = Ready | Working nat | Finished

record 'r lane_pool =
  ln_next :: nat
  ln_lanes :: "lane list"
  ln_calls :: "nat list"
  ln_settled :: "nat \<Rightarrow> 'r option"

definition pool_start :: "nat \<Rightarrow> nat \<Rightarrow> 'r lane_pool" where
  "pool_start bound n = \<lparr>ln_next = 0, ln_lanes = replicate (min bound n) Ready, ln_calls = [], ln_settled = Map.empty\<rparr>"

inductive pool_step :: "nat \<Rightarrow> (nat \<Rightarrow> 'r) \<Rightarrow> 'r lane_pool \<Rightarrow> 'r lane_pool \<Rightarrow> bool" for n answer where
  Claim: "\<lbrakk>l < length (ln_lanes s); ln_lanes s ! l = Ready; ln_next s < n\<rbrakk> \<Longrightarrow>
    pool_step n answer s (s\<lparr>ln_next := Suc (ln_next s), ln_lanes := (ln_lanes s)[l := Working (ln_next s)],
      ln_calls := ln_calls s @ [ln_next s]\<rparr>)"
| Settle: "\<lbrakk>l < length (ln_lanes s); ln_lanes s ! l = Working i\<rbrakk> \<Longrightarrow>
    pool_step n answer s (s\<lparr>ln_lanes := (ln_lanes s)[l := Ready], ln_settled := (ln_settled s)(i \<mapsto> answer i)\<rparr>)"
| Retire: "\<lbrakk>l < length (ln_lanes s); ln_lanes s ! l = Ready; n \<le> ln_next s\<rbrakk> \<Longrightarrow>
    pool_step n answer s (s\<lparr>ln_lanes := (ln_lanes s)[l := Finished]\<rparr>)"

inductive_cases pool_stepE: "pool_step n answer s s'"

definition pool_over :: "'r lane_pool \<Rightarrow> bool" where
  "pool_over s \<longleftrightarrow> (\<forall>l \<in> set (ln_lanes s). l = Finished)"

definition in_flight :: "'r lane_pool \<Rightarrow> nat" where
  "in_flight s = length (filter (\<lambda>l. \<exists>i. l = Working i) (ln_lanes s))"

abbreviation pool_steps :: "nat \<Rightarrow> (nat \<Rightarrow> 'r) \<Rightarrow> 'r lane_pool \<Rightarrow> 'r lane_pool \<Rightarrow> bool" where
  "pool_steps n answer \<equiv> (pool_step n answer)\<^sup>*\<^sup>*"

text \<open>What the results array holds at the end: \<open>items.map((_, index) => settled.get(index))\<close>.\<close>

definition pool_results :: "nat \<Rightarrow> 'r lane_pool \<Rightarrow> 'r option list" where
  "pool_results n s = map (ln_settled s) [0..<n]"

subsection \<open>The invariant\<close>

text \<open>A claimed index is either being worked on by exactly one lane or settled with its own answer.\<close>

definition pool_ok :: "nat \<Rightarrow> nat \<Rightarrow> (nat \<Rightarrow> 'r) \<Rightarrow> 'r lane_pool \<Rightarrow> bool" where
  "pool_ok bound n answer s \<longleftrightarrow>
     length (ln_lanes s) = min bound n \<and> ln_next s \<le> n \<and> ln_calls s = [0..<ln_next s]
     \<and> (\<forall>i < ln_next s. Working i \<in> set (ln_lanes s) \<or> ln_settled s i = Some (answer i))
     \<and> (Finished \<in> set (ln_lanes s) \<longrightarrow> ln_next s = n)"

lemma pool_ok_start: "pool_ok bound n answer (pool_start bound n)"
  by (simp add: pool_ok_def pool_start_def)

lemma set_list_update_keeps: "x \<in> set xs \<Longrightarrow> xs ! l \<noteq> x \<Longrightarrow> l < length xs \<Longrightarrow> x \<in> set (xs[l := y])"
  by (metis in_set_conv_nth length_list_update nth_list_update_neq)

lemma pool_ok_step: "pool_step n answer s s' \<Longrightarrow> pool_ok bound n answer s \<Longrightarrow> pool_ok bound n answer s'"
proof (induction rule: pool_step.induct)
  case (Claim l s)
  have "Working i \<in> set ((ln_lanes s)[l := Working (ln_next s)]) \<or> ln_settled s i = Some (answer i)"
    if "i < Suc (ln_next s)" for i
  proof (cases "i = ln_next s")
    case True with Claim show ?thesis by (simp add: set_update_memI)
  next
    case False
    with that have "i < ln_next s" by simp
    with Claim have "Working i \<in> set (ln_lanes s) \<or> ln_settled s i = Some (answer i)"
      by (simp add: pool_ok_def)
    with Claim show ?thesis by (auto intro: set_list_update_keeps)
  qed
  moreover have "Finished \<notin> set ((ln_lanes s)[l := Working (ln_next s)])"
  proof -
    have "Finished \<notin> set (ln_lanes s)" using Claim by (auto simp: pool_ok_def)
    then show ?thesis using set_update_subset_insert [of "ln_lanes s" l "Working (ln_next s)"] by auto
  qed
  ultimately show ?case using Claim by (simp add: pool_ok_def)
next
  case (Settle l s i)
  have "Working j \<in> set ((ln_lanes s)[l := Ready]) \<or> ((ln_settled s)(i \<mapsto> answer i)) j = Some (answer j)"
    if "j < ln_next s" for j
  proof (cases "j = i")
    case False
    have "Working j \<in> set (ln_lanes s) \<or> ln_settled s j = Some (answer j)"
      using Settle that by (simp add: pool_ok_def)
    with False Settle show ?thesis by (auto intro: set_list_update_keeps)
  qed simp
  moreover have "Finished \<in> set ((ln_lanes s)[l := Ready]) \<Longrightarrow> Finished \<in> set (ln_lanes s)"
    using set_update_subset_insert [of "ln_lanes s" l Ready] by auto
  ultimately show ?case using Settle by (auto simp: pool_ok_def)
next
  case (Retire l s)
  have "Working j \<in> set ((ln_lanes s)[l := Finished])" if "Working j \<in> set (ln_lanes s)" for j
    using that Retire by (auto intro: set_list_update_keeps)
  with Retire show ?case by (fastforce simp: pool_ok_def)
qed

lemma pool_ok_reachable:
  "pool_steps n answer (pool_start bound n) s \<Longrightarrow> pool_ok bound n answer s"
  by (induction rule: rtranclp_induct) (auto intro: pool_ok_start pool_ok_step)

lemma in_flight_bound: "pool_ok bound n answer s \<Longrightarrow> in_flight s \<le> bound"
  unfolding in_flight_def pool_ok_def by (metis length_filter_le min.bounded_iff order_refl)

lemma pool_over_results:
  assumes "pool_ok bound n answer s" and "pool_over s" and "0 < bound"
  shows "ln_calls s = [0..<n]" "pool_results n s = map (\<lambda>i. Some (answer i)) [0..<n]"
proof -
  have next_n: "ln_next s = n"
  proof (cases "n = 0")
    case True with assms(1) show ?thesis by (simp add: pool_ok_def)
  next
    case False
    with assms have "ln_lanes s \<noteq> []" by (auto simp: pool_ok_def)
    with assms(2) have "Finished \<in> set (ln_lanes s)" unfolding pool_over_def by (metis last_in_set)
    with assms(1) show ?thesis by (simp add: pool_ok_def)
  qed
  with assms(1) show "ln_calls s = [0..<n]" by (simp add: pool_ok_def)
  have "Working i \<notin> set (ln_lanes s)" for i using assms(2) by (auto simp: pool_over_def)
  with assms(1) next_n show "pool_results n s = map (\<lambda>i. Some (answer i)) [0..<n]"
    by (auto simp: pool_ok_def pool_results_def)
qed

subsection \<open>The lanes finish\<close>

fun lane_weight :: "lane \<Rightarrow> nat" where
  "lane_weight Ready = 1"
| "lane_weight (Working i) = 2"
| "lane_weight Finished = 0"

definition pool_weight :: "nat \<Rightarrow> 'r lane_pool \<Rightarrow> nat" where
  "pool_weight n s = sum_list (map lane_weight (ln_lanes s)) + 2 * (n - ln_next s)"

lemma weight_update:
  "l < length xs \<Longrightarrow> sum_list (map lane_weight (xs[l := y])) + lane_weight (xs ! l)
     = sum_list (map lane_weight xs) + lane_weight y"
proof (induction xs arbitrary: l)
  case (Cons x xs) then show ?case by (cases l) force+
qed simp

lemma pool_step_weight: "pool_step n answer s s' \<Longrightarrow> pool_weight n s' < pool_weight n s"
proof (induction rule: pool_step.induct)
  case (Claim l s)
  with weight_update [of l "ln_lanes s" "Working (ln_next s)"] show ?case by (simp add: pool_weight_def)
next
  case (Settle l s i)
  with weight_update [of l "ln_lanes s" Ready] show ?case by (simp add: pool_weight_def)
next
  case (Retire l s)
  with weight_update [of l "ln_lanes s" Finished] show ?case by (simp add: pool_weight_def)
qed

lemma pool_progress: "\<not> pool_over s \<Longrightarrow> \<exists>s'. pool_step n answer s s'"
proof -
  assume "\<not> pool_over s"
  then obtain l where l: "l < length (ln_lanes s)" "ln_lanes s ! l \<noteq> Finished"
    unfolding pool_over_def by (metis in_set_conv_nth)
  show ?thesis
  proof (cases "ln_lanes s ! l")
    case Ready
    show ?thesis
    proof (cases "ln_next s < n")
      case True
      with l(1) Ready have "pool_step n answer s (s\<lparr>ln_next := Suc (ln_next s),
        ln_lanes := (ln_lanes s)[l := Working (ln_next s)], ln_calls := ln_calls s @ [ln_next s]\<rparr>)"
        by (rule pool_step.Claim)
      then show ?thesis ..
    next
      case False
      then have "n \<le> ln_next s" by simp
      with l(1) Ready have "pool_step n answer s (s\<lparr>ln_lanes := (ln_lanes s)[l := Finished]\<rparr>)"
        by (rule pool_step.Retire)
      then show ?thesis ..
    qed
  next
    case (Working i)
    with l(1) have "pool_step n answer s
      (s\<lparr>ln_lanes := (ln_lanes s)[l := Ready], ln_settled := (ln_settled s)(i \<mapsto> answer i)\<rparr>)"
      by (rule pool_step.Settle)
    then show ?thesis ..
  next
    case Finished with l(2) show ?thesis by simp
  qed
qed

lemma pool_reaches_end: "\<exists>s'. pool_steps n answer s s' \<and> pool_over s'"
proof (induction "pool_weight n s" arbitrary: s rule: less_induct)
  case less
  show ?case
  proof (cases "pool_over s")
    case False
    then obtain t where t: "pool_step n answer s t" using pool_progress by blast
    then obtain s' where "pool_steps n answer t s'" "pool_over s'" using less pool_step_weight by blast
    with t show ?thesis by (meson converse_rtranclp_into_rtranclp)
  qed blast
qed

text \<open>No run goes on forever: the weight falls with every step.\<close>

lemma pool_terminates: "wfp (\<lambda>s' s. pool_step n answer s s')"
  by (rule wfp_if_convertible_to_nat [of _ "pool_weight n"]) (rule pool_step_weight)

end
