(* ===== verification/ContentResearch.thy ===== *)
theory ContentResearch
  imports SourceDiagnostics BoundedLanes
begin

section \<open>One finite Research Request\<close>

text \<open>
  \<^verbatim>\<open>apps/server/src/content-projects/research.ts\<close>: the query plan, the run over the provider bundle, and the public
  search presented as a provider.  A provider is a function from the queries and the ceiling to a failure or an answer.
  The readings of the clock are named by their use (\<open>fr_clock\<close> numbers them), because the order in which providers that
  run at the same time read it is not fixed.
\<close>

record research_provider =
  rp_id :: string
  rp_version :: string
  rp_lookup :: "string list \<Rightarrow> int \<Rightarrow> string + (source_item list \<times> diagnostic)"

record attributed_query =
  aq_query :: string
  aq_identifierClass :: "identifier_class option"
  aq_purpose :: identifier_purpose

definition PUBLIC_WEB_RESEARCH_PROVIDER_ID :: string where
  "PUBLIC_WEB_RESEARCH_PROVIDER_ID = ''public-web''"

definition MAX_QUERIES_PER_IDENTIFIER_TYPE :: nat where
  "MAX_QUERIES_PER_IDENTIFIER_TYPE = 2"

definition COLLECTION_GLOBAL_CONCURRENCY :: nat where
  "COLLECTION_GLOBAL_CONCURRENCY = 4"

subsection \<open>The plan\<close>

definition quotation :: char where
  "quotation = char_of (34 :: nat)"

definition quoted :: "string \<Rightarrow> string" where
  "quoted value = [quotation] @ trim value @ [quotation]"

definition about_person :: "identifier_class \<Rightarrow> string \<Rightarrow> attributed_query" where
  "about_person k q = \<lparr>aq_query = q, aq_identifierClass = Some k, aq_purpose = PersonIdentification\<rparr>"

definition strip_at :: "string \<Rightarrow> string" where
  "strip_at h = (case h of c # cs \<Rightarrow> if c = CHR ''@'' then cs else h | [] \<Rightarrow> [])"

definition known_name :: "person_revision \<Rightarrow> string option" where
  "known_name p = (case pn_fullName p of None \<Rightarrow> None | Some n \<Rightarrow> if n = [] then None else Some n)"

definition personQueries :: "person_revision \<Rightarrow> string \<Rightarrow> attributed_query list" where
  "personQueries p question = (let
     emails = filter (\<lambda>e. trim e \<noteq> []) ((case pn_primaryEmail p of None \<Rightarrow> [] | Some e \<Rightarrow> [e]) @ pn_emails p);
     cap = take MAX_QUERIES_PER_IDENTIFIER_TYPE in
     map (\<lambda>e. about_person IdentEmail (quoted e)) (cap (uniqueBy id emails))
     @ (case known_name p of None \<Rightarrow> [] | Some n \<Rightarrow> [about_person IdentFullName (quoted n)])
     @ map (\<lambda>h. about_person IdentHandle (quoted (strip_at h))) (cap (concat (map snd (pn_handles p))))
     @ map (\<lambda>u. about_person IdentProfileUrl (quoted u)) (cap (pn_profileUrls p))
     @ map (\<lambda>e. about_person IdentEmployerHint
         (case known_name p of None \<Rightarrow> quoted e | Some n \<Rightarrow> quoted n @ '' '' @ quoted e)) (cap (pn_employerHints p))
     @ (case known_name p of None \<Rightarrow> [] | Some n \<Rightarrow> [\<lparr>aq_query = quoted n @ '' '' @ question,
         aq_identifierClass = Some IdentFullName, aq_purpose = TopicEvidence\<rparr>]))"

definition topic_query :: "string \<Rightarrow> attributed_query" where
  "topic_query q = \<lparr>aq_query = q, aq_identifierClass = None, aq_purpose = TopicEvidence\<rparr>"

definition plannedQueries :: "research_scope \<Rightarrow> person_revision option \<Rightarrow> research_limits \<Rightarrow> attributed_query list" where
  "plannedQueries scope subject limits = take (nat (rl_maxQueriesPerProvider limits)) (uniqueBy aq_query
     ([topic_query (rs_question scope)] @ map topic_query (rs_terms scope)
      @ (case subject of None \<Rightarrow> [] | Some p \<Rightarrow> personQueries p (rs_question scope))))"

definition identifierUses :: "attributed_query list \<Rightarrow> string \<Rightarrow> string \<Rightarrow> identifier_use list" where
  "identifierUses queries pid at = map (\<lambda>q. \<lparr>iu_identifierClass = the (aq_identifierClass q), iu_providerId = pid,
       iu_usedAt = at, iu_purpose = aq_purpose q\<rparr>)
     (uniqueBy (\<lambda>q. (aq_identifierClass q, aq_purpose q)) (filter (\<lambda>q. aq_identifierClass q \<noteq> None) queries))"

definition internalFailureDiagnostic :: "string \<Rightarrow> string \<Rightarrow> string \<Rightarrow> diagnostic" where
  "internalFailureDiagnostic started finished cause = \<lparr>dg_classification = InternalFailure, dg_route = ''/'',
     dg_status = None, dg_contentType = None, dg_parserStage = ''adapter_boundary'', dg_responseHash = [],
     dg_adapterVersion = ''unknown'', dg_startedAt = started, dg_finishedAt = finished, dg_retries = 0,
     dg_affectedCapabilities = [], dg_causeChain = [cause], dg_retryAfterMs = None\<rparr>"

subsection \<open>The run\<close>

text \<open>What one lane of the pool does with the provider at position \<open>i\<close>: its outcome and the items that count.\<close>

definition lookup_outcome ::
  "diagnostic_env \<Rightarrow> (nat \<Rightarrow> string) \<Rightarrow> attributed_query list \<Rightarrow> research_limits \<Rightarrow> nat \<times> research_provider
    \<Rightarrow> provider_outcome \<times> source_item list" where
  "lookup_outcome de clock queries limits = (\<lambda>(i, p).
     let (found, reported) = (case rp_lookup p (map aq_query queries) (rl_maxSourceItems limits) of
           Inl cause \<Rightarrow> ([], internalFailureDiagnostic (clock (2 * i + 2)) (clock (2 * i + 3)) cause)
         | Inr answer \<Rightarrow> answer);
       kept = sanitizeAdapterDiagnostic de reported (rp_version p);
       items = (if isSuccessfulSourceDiagnostic (dg_classification kept) then found else []) in
     (\<lparr>po_providerId = rp_id p, po_queries = int (length queries), po_itemsFound = int (length items),
       po_diagnostic = kept\<rparr>, items))"

definition runFiniteResearch ::
  "diagnostic_env \<Rightarrow> (nat \<Rightarrow> string) \<Rightarrow> research_provider list \<Rightarrow> provider_bundle \<Rightarrow> research_limits \<Rightarrow> research_scope
    \<Rightarrow> person_revision option \<Rightarrow> research_result" where
  "runFiniteResearch de clock providers bundle limits scope subject = (let
     queries = plannedQueries scope subject limits;
     collected = map (lookup_outcome de clock queries limits) (indexed providers);
     everyProviderSucceeded = list_all (\<lambda>(outcome, _).
       isSuccessfulSourceDiagnostic (dg_classification (po_diagnostic outcome))) collected in
     \<lparr>rr_startedAt = clock 0, rr_finishedAt = clock 1,
      rr_complete = (pb_completeness bundle \<noteq> AllProviders \<or> everyProviderSucceeded),
      rr_providerOutcomes = map fst collected,
      rr_identifierUses = concat (map (\<lambda>p. identifierUses queries (rp_id p) (clock 0)) providers),
      rr_sourceItems = take (nat (rl_maxSourceItems limits)) (uniqueBy si_id (concat (map snd collected)))\<rparr>)"

subsection \<open>Public search as a provider\<close>

record search_result =
  sr_title :: string
  sr_url :: string
  sr_snippet :: string

definition PUBLIC_SEARCH_ROUTE :: string where
  "PUBLIC_SEARCH_ROUTE = ''https://html.duckduckgo.com/html/''"

definition itemIdFor :: "diagnostic_env \<Rightarrow> string \<Rightarrow> string" where
  "itemIdFor de url = ''research_'' @ take 16 (de_sha256 de url)"

definition or_null :: "string \<Rightarrow> string option" where
  "or_null t = (if t = [] then None else Some t)"

definition held :: "string \<Rightarrow> source_field_state" where
  "held t = (if t = [] then FieldUnavailable else FieldAvailable)"

definition search_item :: "diagnostic_env \<Rightarrow> string \<Rightarrow> search_result \<Rightarrow> source_item" where
  "search_item de at r = \<lparr>si_id = itemIdFor de (sr_url r), si_externalId = sr_url r, si_targetId = [],
     si_adapterId = PUBLIC_WEB_RESEARCH_PROVIDER_ID, si_canonicalUrl = sr_url r, si_author = None,
     si_title = or_null (sr_title r), si_body = None, si_description = or_null (sr_snippet r), si_publishedAt = None,
     si_discoveredAt = at, si_media = [], si_transcript = None, si_comments = [], si_evidence = [(sr_url r, at)],
     si_completeness = \<lparr>sk_title = held (sr_title r), sk_body = FieldUnsupported, sk_description = held (sr_snippet r),
       sk_transcript = FieldUnsupported, sk_comments = FieldUnsupported, sk_media = FieldUnsupported\<rparr>,
     si_engagement = None, si_storyKey = None, si_claims = None\<rparr>"

text \<open>A search either answers or fails; a search that fails contributes nothing and is counted.\<close>

definition public_lookup ::
  "diagnostic_env \<Rightarrow> (string \<Rightarrow> search_result list option) \<Rightarrow> (nat \<Rightarrow> string) \<Rightarrow> string list \<Rightarrow> int
    \<Rightarrow> source_item list \<times> diagnostic" where
  "public_lookup de search clock queries maxItems = (let
     settled = map search queries;
     failures = length (filter (\<lambda>r. r = None) settled);
     results = take (nat maxItems) (uniqueBy sr_url (concat (map (\<lambda>r. case r of None \<Rightarrow> [] | Some rs \<Rightarrow> rs) settled)));
     items = map (search_item de (clock 1)) results in
     (items, \<lparr>dg_classification = (if failures = length settled \<and> settled \<noteq> [] then InternalFailure
          else if items \<noteq> [] then ItemsFound else LegitimateEmpty),
        dg_route = PUBLIC_SEARCH_ROUTE, dg_status = None, dg_contentType = None, dg_parserStage = ''fetch'',
        dg_responseHash = [], dg_adapterVersion = ''1'', dg_startedAt = clock 0, dg_finishedAt = clock 2,
        dg_retries = 0, dg_affectedCapabilities = [''items''],
        dg_causeChain = (if failures > 0 then [digits failures @ '' public queries failed''] else []),
        dg_retryAfterMs = None\<rparr>))"

definition createPublicSearchResearchProvider ::
  "diagnostic_env \<Rightarrow> (string \<Rightarrow> search_result list option) \<Rightarrow> (nat \<Rightarrow> string) \<Rightarrow> research_provider" where
  "createPublicSearchResearchProvider de search clock = \<lparr>rp_id = PUBLIC_WEB_RESEARCH_PROVIDER_ID, rp_version = ''1'',
     rp_lookup = (\<lambda>queries maxItems. Inr (public_lookup de search clock queries maxItems))\<rparr>"

subsection \<open>What a request is bounded by\<close>

lemma length_plannedQueries: "int (length (plannedQueries scope subject limits)) \<le> max 0 (rl_maxQueriesPerProvider limits)"
  by (simp add: plannedQueries_def)

lemma distinct_plannedQueries: "distinct (map aq_query (plannedQueries scope subject limits))"
  unfolding plannedQueries_def take_map [symmetric] by (intro distinct_take distinct_uniqueBy)

lemma take_uniqueBy_distinct: "distinct (map key (take n (uniqueBy key xs)))"
  unfolding take_map [symmetric] by (intro distinct_take distinct_uniqueBy)

lemma set_take_uniqueBy: "x \<in> set (take n (uniqueBy key xs)) \<Longrightarrow> x \<in> set xs"
  using set_uniqueBy [of key xs] in_set_takeD by fastforce

text \<open>The question the owner asked is always the first query.\<close>

lemma plannedQueries_question:
  assumes "1 \<le> rl_maxQueriesPerProvider limits"
  shows "\<exists>qs. plannedQueries scope subject limits = topic_query (rs_question scope) # qs"
  using assms by (cases "nat (rl_maxQueriesPerProvider limits)") (auto simp: plannedQueries_def uniqueBy_def)

lemma lookup_outcome_items:
  "lookup_outcome de clock queries limits (i, p) = (outcome, items) \<Longrightarrow>
     items \<noteq> [] \<Longrightarrow> (\<exists>d. rp_lookup p (map aq_query queries) (rl_maxSourceItems limits) = Inr (items, d)
       \<and> isSuccessfulSourceDiagnostic (dg_classification d))"
  by (auto simp: lookup_outcome_def Let_def split: sum.splits prod.splits if_splits)

lemma length_indexed [simp]: "length (indexed xs) = length xs"
  by (simp add: indexed_def)

lemma map_indexed_snd [simp]: "map snd (indexed xs) = xs"
  by (simp add: indexed_def)

lemma snd_indexed: "(i, x) \<in> set (indexed xs) \<Longrightarrow> x \<in> set xs"
  by (auto simp: indexed_def set_zip)

lemma outcome_provider: "map (\<lambda>q. po_providerId (fst (lookup_outcome de clock queries limits q))) ps = map (rp_id \<circ> snd) ps"
  by (auto simp: lookup_outcome_def Let_def split: prod.splits)

text \<open>Every provider of the bundle is asked once, in the order of the bundle.\<close>

lemma research_asks_each:
  "map po_providerId (rr_providerOutcomes (runFiniteResearch de clock ps bundle limits scope subject)) = map rp_id ps"
proof -
  have "map (rp_id \<circ> snd) (indexed ps) = map rp_id ps"
    by (metis map_indexed_snd map_map)
  then show ?thesis
    by (simp add: runFiniteResearch_def Let_def comp_def outcome_provider [unfolded comp_def])
qed

lemma research_item_origin:
  assumes "x \<in> set (rr_sourceItems (runFiniteResearch de clock ps bundle limits scope subject))"
  shows "\<exists>p \<in> set ps. \<exists>items d. rp_lookup p (map aq_query (plannedQueries scope subject limits)) (rl_maxSourceItems limits)
    = Inr (items, d) \<and> x \<in> set items \<and> isSuccessfulSourceDiagnostic (dg_classification d)"
proof -
  let ?qs = "plannedQueries scope subject limits"
  from assms have "x \<in> set (concat (map snd (map (lookup_outcome de clock ?qs limits) (indexed ps))))"
    unfolding runFiniteResearch_def Let_def by (auto dest: set_take_uniqueBy)
  then obtain i p where ip: "(i, p) \<in> set (indexed ps)"
    and x: "x \<in> set (snd (lookup_outcome de clock ?qs limits (i, p)))" by auto
  obtain outcome items where out: "lookup_outcome de clock ?qs limits (i, p) = (outcome, items)" by fastforce
  with x have "items \<noteq> []" by auto
  with lookup_outcome_items [OF out] ip x out show ?thesis by (auto dest: snd_indexed intro!: bexI)
qed

lemma research_items_bound:
  "distinct (map si_id (rr_sourceItems (runFiniteResearch de clock ps bundle limits scope subject)))"
  "int (length (rr_sourceItems (runFiniteResearch de clock ps bundle limits scope subject)))
     \<le> max 0 (rl_maxSourceItems limits)"
  unfolding runFiniteResearch_def Let_def by (simp_all add: take_uniqueBy_distinct)

end
