(* ===== verification/ContentProjects.thy ===== *)
theory ContentProjects
  imports ContentResearch JsSort
begin

section \<open>Content Projects: the commands\<close>

text \<open>
  \<^verbatim>\<open>apps/server/src/content-projects/projects.ts\<close>.  The state is the one file the class keeps: absent, not
  readable as JSON, or an object whose three members may or may not be arrays.  Every method reads the file, changes
  what it read, and writes it back as its last act, so a method that throws leaves the file alone.  The other
  Workspace resources (people, the owner's confirmation, the Brand Profile, the providers) and the clock are fields
  of the environment; a generation is one call of a function, and what happens to the file meanwhile is an argument.
\<close>

subsection \<open>The file\<close>

record content_state =
  cs_projects :: "content_project list"
  cs_authorPolicies :: "author_policy list"
  cs_contentVoices :: "content_voice list"

datatype content_file =
    ContentMissing
  | ContentUnreadable
  | ContentStored "content_project list option" "author_policy list option" "content_voice list option"

fun or_empty :: "'a list option \<Rightarrow> 'a list" where
  "or_empty None = []"
| "or_empty (Some xs) = xs"

fun readState :: "content_file \<Rightarrow> content_state" where
  "readState ContentMissing = \<lparr>cs_projects = [], cs_authorPolicies = [], cs_contentVoices = []\<rparr>"
| "readState ContentUnreadable = \<lparr>cs_projects = [], cs_authorPolicies = [], cs_contentVoices = []\<rparr>"
| "readState (ContentStored ps as vs) =
     \<lparr>cs_projects = or_empty ps, cs_authorPolicies = or_empty as, cs_contentVoices = or_empty vs\<rparr>"

definition stored_state :: "content_state \<Rightarrow> content_file" where
  "stored_state st = ContentStored (Some (cs_projects st)) (Some (cs_authorPolicies st)) (Some (cs_contentVoices st))"

lemma readState_stored [simp]: "readState (stored_state st) = st"
  by (simp add: stored_state_def)

subsection \<open>Refusals\<close>

datatype content_code =
    InvalidProjectInput | OwnerNotConfirmed | OpportunityAlreadyLinked | ProfileNotFound | AuthorForbidden
  | ProjectNotFound | EvidenceFreezeBlocked | InvalidEvidenceSelection | OutlineCharterBlocked
  | OutlineCharterNotFound | OutlineGenerationBlocked | OutlineNotFound | OutlineNotSupported
  | DraftGenerationBlocked | DraftNotSupported | InvalidProviderResult | InvalidResearchRequest
  | ResearchRequestBlocked

record content_refusal =
  cf_code :: content_code
  cf_message :: string
  cf_missingGates :: "content_gate list"

type_synonym 'a content_cmd = "(content_file, content_refusal, 'a) cmd"

definition refused :: "content_code \<Rightarrow> string \<Rightarrow> content_refusal" where
  "refused code message = \<lparr>cf_code = code, cf_message = message, cf_missingGates = []\<rparr>"

definition gated :: "content_code \<Rightarrow> string \<Rightarrow> content_gate list \<Rightarrow> content_refusal" where
  "gated code message gates = \<lparr>cf_code = code, cf_message = message, cf_missingGates = gates\<rparr>"

definition gate_list :: "content_gate list \<Rightarrow> string" where
  "gate_list gates = join_text '', '' (map gate_name gates)"

definition writeState :: "content_state \<Rightarrow> unit content_cmd" where
  "writeState st = (\<lambda>_. (Inr (), stored_state st))"

subsection \<open>The surroundings\<close>

record owner_reference =
  ow_profileId :: string
  ow_profileRevision :: int

record content_env =
  ce_now :: "nat \<Rightarrow> string"
  ce_hex :: "nat \<Rightarrow> string"
  ce_owner :: "owner_reference option"
  ce_brand :: "brand_revision option"
  ce_person :: "string \<Rightarrow> person_revision option"
  ce_personRevision :: "string \<Rightarrow> int \<Rightarrow> person_revision option"
  ce_projection :: "string \<Rightarrow> int \<Rightarrow> person_projection option"
  ce_researchProviders :: "research_provider list"
  ce_diagnostics :: diagnostic_env

definition stamp_of :: "string \<Rightarrow> string" where
  "stamp_of at = filter (\<lambda>c. c \<notin> set ''-:.TZ'') at"

text \<open>The identifier built from the clock's reading \<open>i\<close>.\<close>

definition new_identifier :: "content_env \<Rightarrow> string \<Rightarrow> nat \<Rightarrow> string" where
  "new_identifier env prefix i = prefix @ ''_'' @ stamp_of (ce_now env i) @ ''_'' @ ce_hex env i"

subsection \<open>Input\<close>

definition requiredText :: "string \<Rightarrow> string \<Rightarrow> content_refusal + string" where
  "requiredText value label = (let t = trim value in
     if t = [] then Inl (refused InvalidProjectInput (label @ '' is required.'')) else Inr t)"

definition providerText :: "string \<Rightarrow> string \<Rightarrow> content_refusal + string" where
  "providerText value label = (let t = trim value in
     if t = [] then Inl (refused InvalidProviderResult (label @ '' is required.'')) else Inr t)"

definition cleanList :: "string list \<Rightarrow> string list" where
  "cleanList values = filter (\<lambda>v. v \<noteq> []) (map trim values)"

definition validatedTargets :: "string list \<Rightarrow> content_refusal + string list" where
  "validatedTargets values =
     (if list_ex (\<lambda>t. t \<notin> set CONTENT_PROJECT_TARGETS) values
      then Inl (refused InvalidProjectInput ''The Project contains an unknown target.'')
      else Inr (uniqueBy id values))"

definition validatedBundle :: "provider_bundle \<Rightarrow> content_refusal + provider_bundle" where
  "validatedBundle bundle = (let ids = cleanList (pb_providerIds bundle) in
     if ids = [] then Inl (refused InvalidResearchRequest
       ''A Research Request needs at least one configured research provider.'')
     else if length (uniqueBy id ids) \<noteq> length ids then Inl (refused InvalidResearchRequest
       ''A research provider may appear only once in a Research Request bundle.'')
     else Inr \<lparr>pb_providerIds = ids, pb_completeness = pb_completeness bundle\<rparr>)"

definition validatedLimits :: "research_limits \<Rightarrow> content_refusal + research_limits" where
  "validatedLimits limits =
     (if rl_maxQueriesPerProvider limits < 1 then Inl (refused InvalidResearchRequest
        ''A Research Request needs a positive whole maxQueriesPerProvider limit.'')
      else if rl_maxSourceItems limits < 1 then Inl (refused InvalidResearchRequest
        ''A Research Request needs a positive whole maxSourceItems limit.'')
      else Inr limits)"

definition MAX_GENERATION_INSTRUCTION_LENGTH :: nat where
  "MAX_GENERATION_INSTRUCTION_LENGTH = 500"

definition validatedInstruction :: "string option \<Rightarrow> content_refusal + string option" where
  "validatedInstruction instruction = (case instruction of None \<Rightarrow> Inr None
     | Some i \<Rightarrow> (case requiredText i ''regeneration instruction'' of Inl e \<Rightarrow> Inl e
         | Inr t \<Rightarrow> if length t > MAX_GENERATION_INSTRUCTION_LENGTH then Inl (refused InvalidProjectInput
             (''A generation instruction is bounded to '' @ digits MAX_GENERATION_INSTRUCTION_LENGTH @ '' characters.''))
           else Inr (Some t)))"

definition DEFAULT_OUTLINE_SET_CONCURRENCY :: int where
  "DEFAULT_OUTLINE_SET_CONCURRENCY = 3"

definition validatedConcurrency :: "int option \<Rightarrow> content_refusal + int" where
  "validatedConcurrency bound = (case bound of None \<Rightarrow> Inr DEFAULT_OUTLINE_SET_CONCURRENCY
     | Some b \<Rightarrow> if b < 1 then Inl (refused InvalidProjectInput
         ''The Outline Set concurrency bound must be a positive whole number.'') else Inr b)"

subsection \<open>Revisions\<close>

definition requireProject :: "content_state \<Rightarrow> string \<Rightarrow> content_refusal + content_project" where
  "requireProject st pid = (case find_by cp_id pid (cs_projects st) of
     None \<Rightarrow> Inl (refused ProjectNotFound (''No Content Project exists with id '' @ pid @ ''.''))
   | Some p \<Rightarrow> Inr p)"

definition currentRevision :: "content_project \<Rightarrow> content_refusal + content_revision" where
  "currentRevision p = (if cp_revisions p = [] then Inl (refused ProjectNotFound ''The Content Project has no revision.'')
     else Inr (last (cp_revisions p)))"

text \<open>A revision as it is when it is created: the given intent and nothing after it.\<close>

record revision_seed =
  sd_revision :: int
  sd_createdAt :: string
  sd_subject :: content_subject
  sd_author :: author_reference
  sd_objective :: string
  sd_audience :: string
  sd_constraints :: "string list"
  sd_targets :: "string list"
  sd_researchMode :: "research_mode option"
  sd_seedMaterial :: "string list"
  sd_sourceOpportunity :: "source_opportunity option"
  sd_evidenceReview :: "evidence_review option"

definition buildRevision :: "revision_seed \<Rightarrow> content_refusal + content_revision" where
  "buildRevision seed = (case validatedTargets (sd_targets seed) of Inl e \<Rightarrow> Inl e | Inr targets \<Rightarrow>
     Inr \<lparr>cv_revision = sd_revision seed, cv_createdAt = sd_createdAt seed, cv_subject = sd_subject seed,
       cv_author = sd_author seed, cv_objective = sd_objective seed, cv_audience = sd_audience seed,
       cv_constraints = cleanList (sd_constraints seed), cv_targets = targets,
       cv_researchMode = sd_researchMode seed, cv_seedMaterial = cleanList (sd_seedMaterial seed),
       cv_sourceOpportunity = sd_sourceOpportunity seed, cv_researchRequest = None,
       cv_evidenceReview = sd_evidenceReview seed, cv_frozenEvidence = None, cv_outlineCharters = [],
       cv_outlineCharterApprovals = [], cv_platformOutlines = [], cv_platformOutlineApprovals = [], cv_drafts = []\<rparr>)"

definition nextRevision :: "content_revision \<Rightarrow> string \<Rightarrow> evidence_review option \<Rightarrow> content_refusal + content_revision" where
  "nextRevision previous at review = buildRevision
     \<lparr>sd_revision = cv_revision previous + 1, sd_createdAt = at, sd_subject = cv_subject previous,
      sd_author = cv_author previous, sd_objective = cv_objective previous, sd_audience = cv_audience previous,
      sd_constraints = cv_constraints previous, sd_targets = cv_targets previous,
      sd_researchMode = cv_researchMode previous, sd_seedMaterial = cv_seedMaterial previous,
      sd_sourceOpportunity = cv_sourceOpportunity previous, sd_evidenceReview = review\<rparr>"

text \<open>The change of one project of the file.  The first project with the identifier is the one that was read; the
  current revision is replaced in place or a new one is appended after it.\<close>

fun update_first :: "('a \<Rightarrow> bool) \<Rightarrow> 'a \<Rightarrow> 'a list \<Rightarrow> 'a list" where
  "update_first P y [] = []"
| "update_first P y (x # xs) = (if P x then y # xs else x # update_first P y xs)"

definition replace_last :: "'a \<Rightarrow> 'a list \<Rightarrow> 'a list" where
  "replace_last x xs = butlast xs @ [x]"

definition save_project :: "content_env \<Rightarrow> nat \<Rightarrow> content_state \<Rightarrow> content_project \<Rightarrow> unit content_cmd" where
  "save_project env i st p = writeState (st\<lparr>cs_projects :=
     update_first (\<lambda>q. cp_id q = cp_id p) (p\<lparr>cp_updatedAt := ce_now env i\<rparr>) (cs_projects st)\<rparr>)"

definition open_project :: "string \<Rightarrow> (content_state \<Rightarrow> content_project \<Rightarrow> content_revision \<Rightarrow> 'a content_cmd) \<Rightarrow> 'a content_cmd" where
  "open_project pid f =
     andThen (query (\<lambda>d. Inr (readState d))) (\<lambda>st.
     andThen (check (requireProject st pid)) (\<lambda>p.
     andThen (check (currentRevision p)) (\<lambda>r. f st p r)))"

subsection \<open>Authors and gates\<close>

definition requireSelectableProfile :: "content_env \<Rightarrow> string \<Rightarrow> content_refusal + person_revision" where
  "requireSelectableProfile env k = (case ce_person env k of
     None \<Rightarrow> Inl (refused ProfileNotFound (''No active Person Profile exists with id '' @ k @ ''.''))
   | Some p \<Rightarrow> if pn_archivedAt p \<noteq> None
       then Inl (refused ProfileNotFound (''No active Person Profile exists with id '' @ k @ ''.'')) else Inr p)"

definition has_policy :: "content_state \<Rightarrow> string \<Rightarrow> bool" where
  "has_policy st k \<longleftrightarrow> list_ex (\<lambda>a. ap_profileId a = k) (cs_authorPolicies st)"

definition owns :: "content_env \<Rightarrow> string \<Rightarrow> bool" where
  "owns env k \<longleftrightarrow> map_option ow_profileId (ce_owner env) = Some k"

definition isAuthorized :: "content_env \<Rightarrow> content_state \<Rightarrow> string \<Rightarrow> bool" where
  "isAuthorized env st k \<longleftrightarrow> owns env k \<or> has_policy st k"

definition hasApprovedAuthor :: "content_state \<Rightarrow> string \<Rightarrow> bool" where
  "hasApprovedAuthor st k \<longleftrightarrow> has_policy st k \<and> list_ex (\<lambda>v. vo_profileId v = k) (cs_contentVoices st)"

definition currentVoice :: "content_state \<Rightarrow> string \<Rightarrow> content_voice option" where
  "currentVoice st k = (let vs = filter (\<lambda>v. vo_profileId v = k) (cs_contentVoices st) in
     if vs = [] then None else Some (last vs))"

definition select_other :: "content_env \<Rightarrow> content_state \<Rightarrow> string \<Rightarrow> int option \<Rightarrow> content_refusal + author_reference" where
  "select_other env st k pinned = (case requireSelectableProfile env k of Inl e \<Rightarrow> Inl e | Inr profile \<Rightarrow>
     if \<not> hasApprovedAuthor st (pn_id profile) then Inl (refused AuthorForbidden
       ''Another Person Profile is selectable only after author authorization and Content Voice approval.'')
     else (case pinned of
        None \<Rightarrow> Inr \<lparr>ar_profileId = pn_id profile, ar_profileRevision = pn_revision profile\<rparr>
      | Some v \<Rightarrow> if ce_personRevision env (pn_id profile) v = None
          then Inl (refused ProfileNotFound ''The pinned author Person Profile revision is unavailable.'')
          else Inr \<lparr>ar_profileId = pn_id profile, ar_profileRevision = v\<rparr>))"

definition selectAuthor :: "content_env \<Rightarrow> content_state \<Rightarrow> string option \<Rightarrow> int option \<Rightarrow> content_refusal + author_reference" where
  "selectAuthor env st chosen pinned =
     (case (case chosen of Some k \<Rightarrow> Some k | None \<Rightarrow> map_option ow_profileId (ce_owner env)) of
        None \<Rightarrow> Inl (refused OwnerNotConfirmed ''Confirm the canonical owner Profile before using the default author.'')
      | Some k \<Rightarrow>
          if k = [] then Inl (refused OwnerNotConfirmed ''Confirm the canonical owner Profile before using the default author.'')
          else (case ce_owner env of
            Some ow \<Rightarrow> if ow_profileId ow = k then
                (case ce_personRevision env (ow_profileId ow) (ow_profileRevision ow) of
                   None \<Rightarrow> Inl (refused ProfileNotFound ''The onboarding-confirmed owner Profile revision is unavailable.'')
                 | Some _ \<Rightarrow> Inr \<lparr>ar_profileId = ow_profileId ow, ar_profileRevision = ow_profileRevision ow\<rparr>)
              else select_other env st k pinned
          | None \<Rightarrow> select_other env st k pinned))"

definition missingFreezeGates :: "content_env \<Rightarrow> content_state \<Rightarrow> content_revision \<Rightarrow> content_gate list" where
  "missingFreezeGates env st r =
     (if ce_brand env = None then [BrandVoice] else [])
     @ (if currentVoice st (ar_profileId (cv_author r)) = None then [ContentVoice] else [])
     @ (case cv_researchMode r of
          None \<Rightarrow> [ResearchModeGate]
        | Some m \<Rightarrow>
            if m \<noteq> NoExternalResearch
              \<and> (case cv_evidenceReview r of None \<Rightarrow> True | Some e \<Rightarrow> er_sourceItems e = [])
            then [EvidenceReviewGate] else [])"

definition missingGates :: "content_env \<Rightarrow> content_state \<Rightarrow> content_revision \<Rightarrow> content_gate list" where
  "missingGates env st r =
     (if ce_owner env = None then [CanonicalOwner] else [])
     @ (if cv_frozenEvidence r = None \<and> ce_brand env = None then [BrandVoice] else [])
     @ (if isAuthorized env st (ar_profileId (cv_author r)) then [] else [AuthorAuthority])
     @ (if cv_frozenEvidence r = None \<and> currentVoice st (ar_profileId (cv_author r)) = None then [ContentVoice] else [])
     @ (if cv_researchMode r = None then [ResearchModeGate] else [])
     @ (if cv_frozenEvidence r = None then [EvidenceReviewGate] else [])
     @ (if cv_researchMode r = Some NoExternalResearch
          \<and> (case cv_frozenEvidence r of None \<Rightarrow> True | Some f \<Rightarrow> \<not> ef_noExternalResearchAcknowledged f)
        then [NoResearchAcknowledgement] else [])
     @ (if cv_targets r = [] then [TargetGate] else [])"

definition readiness_of :: "content_env \<Rightarrow> content_state \<Rightarrow> content_revision \<Rightarrow> readiness_report" where
  "readiness_of env st r = \<lparr>rd_ready = (missingGates env st r = []), rd_missingGates = missingGates env st r\<rparr>"

definition resolveSubject :: "content_env \<Rightarrow> subject_input \<Rightarrow> content_refusal + content_subject" where
  "resolveSubject env input = (case input of
     TopicInput t \<Rightarrow> (case requiredText t ''Topic'' of Inl e \<Rightarrow> Inl e | Inr topic \<Rightarrow> Inr (Topic topic))
   | PersonInput k \<Rightarrow> (case requireSelectableProfile env k of Inl e \<Rightarrow> Inl e
       | Inr p \<Rightarrow> Inr (PersonSubject (pn_id p) (pn_revision p))))"

subsection \<open>Authors\<close>

definition authorizeAuthor :: "content_env \<Rightarrow> string \<Rightarrow> author_policy content_cmd" where
  "authorizeAuthor env k =
     andThen (check (requireSelectableProfile env k)) (\<lambda>_.
     andThen (query (\<lambda>d. Inr (readState d))) (\<lambda>st.
     case find_by ap_profileId k (cs_authorPolicies st) of
       Some existing \<Rightarrow> ret existing
     | None \<Rightarrow>
         let policy = \<lparr>ap_profileId = k, ap_authorizedAt = ce_now env 0\<rparr> in
         andThen (writeState (st\<lparr>cs_authorPolicies := cs_authorPolicies st @ [policy]\<rparr>)) (\<lambda>_. ret policy)))"

definition approveContentVoice :: "content_env \<Rightarrow> string \<Rightarrow> string \<Rightarrow> content_voice content_cmd" where
  "approveContentVoice env k markdown =
     andThen (check (requireSelectableProfile env k)) (\<lambda>_.
     andThen (check (requiredText markdown ''Content Voice'')) (\<lambda>txt.
     andThen (query (\<lambda>d. Inr (readState d))) (\<lambda>st.
     andThen (require (isAuthorized env st k) (refused AuthorForbidden
       ''Authorize this Person Profile before approving its Content Voice.'')) (\<lambda>_.
     let prior = filter (\<lambda>v. vo_profileId v = k) (cs_contentVoices st);
         voice = \<lparr>vo_id = new_identifier env ''voice'' 0, vo_profileId = k, vo_revision = int (length prior) + 1,
           vo_markdown = trimEnd txt @ line_feed, vo_approvedAt = ce_now env 1\<rparr> in
     andThen (writeState (st\<lparr>cs_contentVoices := cs_contentVoices st @ [voice]\<rparr>)) (\<lambda>_. ret voice)))))"

subsection \<open>Starting and revising a Project\<close>

definition projectByOpportunity :: "string \<Rightarrow> content_file \<Rightarrow> content_project option" where
  "projectByOpportunity oid d = find (\<lambda>p. case cp_revisions p of [] \<Rightarrow> False
     | r # _ \<Rightarrow> map_option so_opportunityId (cv_sourceOpportunity r) = Some oid) (cs_projects (readState d))"

definition initialRevision :: "content_env \<Rightarrow> project_create_input \<Rightarrow> author_reference \<Rightarrow> content_refusal + content_revision" where
  "initialRevision env input author =
     (case requiredText (nc_objective input) ''objective'' of Inl e \<Rightarrow> Inl e | Inr objective \<Rightarrow>
      case requiredText (nc_audience input) ''audience'' of Inl e \<Rightarrow> Inl e | Inr audience \<Rightarrow>
      case resolveSubject env (nc_subject input) of Inl e \<Rightarrow> Inl e | Inr subject \<Rightarrow>
      buildRevision \<lparr>sd_revision = 1, sd_createdAt = ce_now env 0, sd_subject = subject, sd_author = author,
        sd_objective = objective, sd_audience = audience, sd_constraints = cleanList (nc_constraints input),
        sd_targets = nc_targets input, sd_researchMode = nc_researchMode input,
        sd_seedMaterial = cleanList (nc_seedMaterial input),
        sd_sourceOpportunity = map_option (\<lambda>o'. o'\<lparr>so_recordedAt := ce_now env 1\<rparr>) (nc_sourceOpportunity input),
        sd_evidenceReview = None\<rparr>)"

definition createProject :: "content_env \<Rightarrow> project_create_input \<Rightarrow> content_project content_cmd" where
  "createProject env input =
     andThen (query (\<lambda>d. case nc_sourceOpportunity input of None \<Rightarrow> Inr ()
       | Some o' \<Rightarrow> (case projectByOpportunity (so_opportunityId o') d of None \<Rightarrow> Inr ()
           | Some linked \<Rightarrow> Inl (refused OpportunityAlreadyLinked (''Opportunity '' @ so_opportunityId o'
               @ '' already seeded Project '' @ cp_id linked @ ''; one Opportunity seeds exactly one Project.''))))) (\<lambda>_.
     andThen (query (\<lambda>d. selectAuthor env (readState d) (nc_authorProfileId input) None)) (\<lambda>author.
     andThen (check (initialRevision env input author)) (\<lambda>revision.
     andThen (query (\<lambda>d. Inr (readState d))) (\<lambda>st.
     let at = ce_now env 2;
         project = \<lparr>cp_id = new_identifier env ''project'' 3, cp_createdAt = at, cp_updatedAt = at,
           cp_revisions = [revision]\<rparr> in
     andThen (writeState (st\<lparr>cs_projects := cs_projects st @ [project]\<rparr>)) (\<lambda>_. ret project)))))"

definition or_kept :: "'a option \<Rightarrow> 'b \<Rightarrow> ('a \<Rightarrow> content_refusal + 'b) \<Rightarrow> content_refusal + 'b" where
  "or_kept v kept f = (case v of None \<Rightarrow> Inr kept | Some x \<Rightarrow> f x)"

definition revised_intent :: "content_env \<Rightarrow> content_state \<Rightarrow> content_revision \<Rightarrow> intent_patch \<Rightarrow> content_refusal + content_revision" where
  "revised_intent env st previous patch =
     (case or_kept (ip_subject patch) (cv_subject previous) (resolveSubject env) of Inl e \<Rightarrow> Inl e | Inr subject \<Rightarrow>
      case selectAuthor env st
          (Some (case ip_authorProfileId patch of None \<Rightarrow> ar_profileId (cv_author previous) | Some k \<Rightarrow> k))
          (if ip_authorProfileId patch = None then Some (ar_profileRevision (cv_author previous)) else None)
        of Inl e \<Rightarrow> Inl e | Inr author \<Rightarrow>
      case or_kept (ip_objective patch) (cv_objective previous) (\<lambda>t. requiredText t ''objective'')
        of Inl e \<Rightarrow> Inl e | Inr objective \<Rightarrow>
      case or_kept (ip_audience patch) (cv_audience previous) (\<lambda>t. requiredText t ''audience'')
        of Inl e \<Rightarrow> Inl e | Inr audience \<Rightarrow>
      buildRevision \<lparr>sd_revision = cv_revision previous + 1, sd_createdAt = ce_now env 0, sd_subject = subject,
        sd_author = author, sd_objective = objective, sd_audience = audience,
        sd_constraints = (case ip_constraints patch of None \<Rightarrow> cv_constraints previous | Some c \<Rightarrow> cleanList c),
        sd_targets = (case ip_targets patch of None \<Rightarrow> cv_targets previous | Some t \<Rightarrow> t),
        sd_researchMode = (case ip_researchMode patch of None \<Rightarrow> cv_researchMode previous | Some m \<Rightarrow> m),
        sd_seedMaterial = (case ip_seedMaterial patch of None \<Rightarrow> cv_seedMaterial previous | Some m \<Rightarrow> cleanList m),
        sd_sourceOpportunity = cv_sourceOpportunity previous, sd_evidenceReview = None\<rparr>)"

definition append_revision :: "content_project \<Rightarrow> content_revision \<Rightarrow> content_project" where
  "append_revision p r = p\<lparr>cp_revisions := cp_revisions p @ [r]\<rparr>"

definition change_revision :: "content_project \<Rightarrow> content_revision \<Rightarrow> content_project" where
  "change_revision p r = p\<lparr>cp_revisions := replace_last r (cp_revisions p)\<rparr>"

definition reviseIntent :: "content_env \<Rightarrow> string \<Rightarrow> intent_patch \<Rightarrow> content_revision content_cmd" where
  "reviseIntent env pid patch = open_project pid (\<lambda>st p previous.
     andThen (check (revised_intent env st previous patch)) (\<lambda>revision.
     andThen (save_project env 1 st (append_revision p revision)) (\<lambda>_. ret revision)))"

end
