(* ===== verification/ContentEvidence.thy ===== *)
theory ContentEvidence
  imports ContentProjects
begin

section \<open>Content Projects: evidence and Outline Charters\<close>

text \<open>
  The part of \<^verbatim>\<open>content-projects/projects.ts\<close> between a Project's intent and generation: listing, attaching and
  freezing evidence, the finite Research Request, the projection a prompt may see, and Outline Charters.  A Research
  Request yields while its providers work: it is a plan on the file as it is, and a landing on the file as it is then;
  what happened in between is the argument \<open>meanwhile\<close>, and \<open>later\<close> is the environment at the landing.
\<close>

subsection \<open>Reading\<close>

fun each_of :: "('a \<Rightarrow> 'e + 'b) \<Rightarrow> 'a list \<Rightarrow> 'e + 'b list" where
  "each_of f [] = Inr []"
| "each_of f (x # xs) = (case f x of Inl e \<Rightarrow> Inl e | Inr y \<Rightarrow>
     (case each_of f xs of Inl e \<Rightarrow> Inl e | Inr ys \<Rightarrow> Inr (y # ys)))"

definition project_summary_of :: "content_env \<Rightarrow> content_state \<Rightarrow> content_project \<Rightarrow> content_refusal + project_summary" where
  "project_summary_of env st p = (case currentRevision p of Inl e \<Rightarrow> Inl e | Inr r \<Rightarrow> Inr
     \<lparr>su_id = cp_id p, su_createdAt = cp_createdAt p, su_updatedAt = cp_updatedAt p, su_revision = cv_revision r,
      su_subject = cv_subject r, su_objective = cv_objective r, su_audience = cv_audience r, su_targets = cv_targets r,
      su_researchMode = cv_researchMode r, su_sourceOpportunity = cv_sourceOpportunity r,
      su_readiness = readiness_of env st r\<rparr>)"

definition listProjects :: "content_env \<Rightarrow> content_file \<Rightarrow> content_refusal + project_summary list" where
  "listProjects env d = (case each_of (project_summary_of env (readState d)) (cs_projects (readState d)) of
     Inl e \<Rightarrow> Inl e
   | Inr summaries \<Rightarrow> Inr (js_sort (\<lambda>a b. localeCompare (su_createdAt b) (su_createdAt a)) summaries))"

definition getProject :: "string \<Rightarrow> content_file \<Rightarrow> content_project option" where
  "getProject pid d = find_by cp_id pid (cs_projects (readState d))"

definition current_of :: "string \<Rightarrow> content_file \<Rightarrow> content_refusal + content_revision" where
  "current_of pid d = (case requireProject (readState d) pid of Inl e \<Rightarrow> Inl e | Inr p \<Rightarrow> currentRevision p)"

definition readiness :: "content_env \<Rightarrow> string \<Rightarrow> content_file \<Rightarrow> content_refusal + readiness_report" where
  "readiness env pid d = (case current_of pid d of Inl e \<Rightarrow> Inl e
     | Inr r \<Rightarrow> Inr (readiness_of env (readState d) r))"

definition prompt_item :: "source_item \<Rightarrow> prompt_source_item" where
  "prompt_item i = \<lparr>ps_id = si_id i, ps_canonicalUrl = si_canonicalUrl i, ps_author = si_author i,
     ps_title = si_title i, ps_body = si_body i, ps_description = si_description i, ps_publishedAt = si_publishedAt i,
     ps_claims = si_claims i, ps_transcript = si_transcript i\<rparr>"

definition prompt_of :: "string \<Rightarrow> int \<Rightarrow> evidence_freeze \<Rightarrow> prompt_evidence" where
  "prompt_of pid n f = \<lparr>pe_projectId = pid, pe_projectRevision = n, pe_sourceItems = map prompt_item (ef_sourceItems f),
     pe_brandVoice = ef_brandVoice f, pe_contentVoice = ef_contentVoice f,
     pe_profileProjections = ef_profileProjections f, pe_userMaterial = ef_userMaterial f\<rparr>"

definition promptEvidence :: "string \<Rightarrow> content_file \<Rightarrow> content_refusal + prompt_evidence option" where
  "promptEvidence pid d = (case current_of pid d of Inl e \<Rightarrow> Inl e
     | Inr r \<Rightarrow> Inr (map_option (prompt_of pid (cv_revision r)) (cv_frozenEvidence r)))"

subsection \<open>Attaching and freezing evidence\<close>

text \<open>A revision that work already rests on is left as it is, and a new one is started: the project as it is to be
  saved, without the change to its last revision.\<close>

definition started :: "content_revision \<Rightarrow> bool" where
  "started r \<longleftrightarrow> cv_frozenEvidence r \<noteq> None \<or> cv_outlineCharters r \<noteq> [] \<or> cv_outlineCharterApprovals r \<noteq> []"

definition onto_next :: "bool \<Rightarrow> string \<Rightarrow> evidence_review option \<Rightarrow> content_project \<Rightarrow> content_revision
    \<Rightarrow> content_refusal + (content_project \<times> content_revision)" where
  "onto_next needed at review p r = (if needed
     then (case nextRevision r at review of Inl e \<Rightarrow> Inl e | Inr r' \<Rightarrow> Inr (append_revision p r', r'))
     else Inr (p, r))"

definition attachEvidence :: "content_env \<Rightarrow> string \<Rightarrow> evidence_attachment \<Rightarrow> content_revision content_cmd" where
  "attachEvidence env pid attachment = open_project pid (\<lambda>st p current.
     andThen (check (onto_next (started current) (ce_now env 0) None p current)) (\<lambda>(p', r).
     andThen (require (distinct (map si_id (ea_sourceItems attachment))) (refused InvalidEvidenceSelection
       ''Attached Source Items must have unique ids.'')) (\<lambda>_.
     let r' = r\<lparr>cv_evidenceReview := Some \<lparr>er_attachedAt = ce_now env 1, er_sourceItems = ea_sourceItems attachment,
           er_diagnostics = ea_diagnostics attachment\<rparr>\<rparr> in
     andThen (save_project env 2 st (change_revision p' r')) (\<lambda>_. ret r'))))"

definition review_items :: "content_revision \<Rightarrow> source_item list" where
  "review_items r = (case cv_evidenceReview r of None \<Rightarrow> [] | Some e \<Rightarrow> er_sourceItems e)"

definition review_diagnostics :: "content_revision \<Rightarrow> diagnostic list" where
  "review_diagnostics r = (case cv_evidenceReview r of None \<Rightarrow> [] | Some e \<Rightarrow> er_diagnostics e)"

text \<open>\<open>new Map(items.map((item) => [item.id, item]))\<close>: of several items with one identifier, the last.\<close>

definition known_items :: "source_item list \<Rightarrow> string \<Rightarrow> source_item option" where
  "known_items items = map_of (rev (map (\<lambda>i. (si_id i, i)) items))"

definition public_projection :: "content_env \<Rightarrow> string \<Rightarrow> int \<Rightarrow> string \<Rightarrow> content_refusal + person_projection" where
  "public_projection env k v message = (case ce_projection env k v of
     None \<Rightarrow> Inl (refused ProfileNotFound message)
   | Some pj \<Rightarrow> if pj_purpose pj \<noteq> ''public-safe'' then Inl (refused ProfileNotFound message) else Inr pj)"

definition frozen_projections :: "content_env \<Rightarrow> content_revision \<Rightarrow> content_refusal + (projection_role \<times> person_projection) list" where
  "frozen_projections env r =
     (case public_projection env (ar_profileId (cv_author r)) (ar_profileRevision (cv_author r))
         ''The pinned author Profile is unavailable.'' of
        Inl e \<Rightarrow> Inl e
      | Inr author \<Rightarrow> (case cv_subject r of
          Topic _ \<Rightarrow> Inr [(AuthorRole, author)]
        | PersonSubject k v \<Rightarrow>
            (case public_projection env k v ''The pinned subject Person Profile is unavailable.'' of
               Inl e \<Rightarrow> Inl e
             | Inr subject \<Rightarrow> Inr [(AuthorRole, author), (SubjectRole, subject)])))"

definition freeze_checks :: "content_env \<Rightarrow> content_state \<Rightarrow> content_revision \<Rightarrow> evidence_selection \<Rightarrow> content_refusal + unit" where
  "freeze_checks env st r selection = (let
     missing = missingFreezeGates env st r;
     ids = uniqueBy id (es_includedSourceItemIds selection);
     noExternal = (cv_researchMode r = Some NoExternalResearch) in
     if missing \<noteq> [] then Inl (gated EvidenceFreezeBlocked
       (''Evidence cannot be frozen until these gates are present: '' @ gate_list missing @ ''.'') missing)
     else if noExternal \<and> \<not> es_noExternalResearchAcknowledged selection then Inl (gated EvidenceFreezeBlocked
       ''No external research requires an explicit acknowledgement.'' [NoResearchAcknowledgement])
     else if \<not> noExternal \<and> ids = [] then Inl (gated EvidenceFreezeBlocked
       ''External research requires at least one included reviewed Source Item; choose no external research and acknowledge it when no source is selected.''
       [EvidenceReviewGate])
     else if noExternal \<and> (ids \<noteq> [] \<or> review_items r \<noteq> [] \<or> review_diagnostics r \<noteq> [])
       then Inl (refused InvalidEvidenceSelection
         ''A no-external-research Project cannot include attached Source Items or diagnostics.'')
     else if list_ex (\<lambda>i. known_items (review_items r) i = None) ids then Inl (refused InvalidEvidenceSelection
       ''Every included Source Item must come from the attached evidence review.'')
     else Inr ())"

definition freezeEvidence :: "content_env \<Rightarrow> string \<Rightarrow> evidence_selection \<Rightarrow> evidence_freeze content_cmd" where
  "freezeEvidence env pid selection = open_project pid (\<lambda>st p current.
     andThen (check (onto_next (cv_frozenEvidence current \<noteq> None) (ce_now env 0) (cv_evidenceReview current) p current))
       (\<lambda>(p', r).
     andThen (check (freeze_checks env st r selection)) (\<lambda>_.
     andThen (check (frozen_projections env r)) (\<lambda>projections.
     let frozen = \<lparr>ef_frozenAt = ce_now env 1,
           ef_sourceItems = map (\<lambda>i. the (known_items (review_items r) i))
             (uniqueBy id (es_includedSourceItemIds selection)),
           ef_diagnostics = review_diagnostics r, ef_brandVoice = the (ce_brand env),
           ef_contentVoice = the (currentVoice st (ar_profileId (cv_author r))),
           ef_profileProjections = projections, ef_userMaterial = cv_seedMaterial r,
           ef_noExternalResearchAcknowledged = es_noExternalResearchAcknowledged selection\<rparr> in
     andThen (save_project env 2 st (change_revision p' (r\<lparr>cv_frozenEvidence := Some frozen\<rparr>))) (\<lambda>_. ret frozen)))))"

subsection \<open>Research Requests\<close>

definition requireResearchProvider :: "content_env \<Rightarrow> string \<Rightarrow> content_refusal + research_provider" where
  "requireResearchProvider env k = (case find_by rp_id k (ce_researchProviders env) of
     None \<Rightarrow> Inl (refused InvalidResearchRequest (''No research provider is configured with id '' @ k @ ''.''))
   | Some p \<Rightarrow> Inr p)"

definition research_open :: "content_revision \<Rightarrow> content_refusal + unit" where
  "research_open r = (if cv_researchMode r = Some FreshBoundedResearch then Inr () else Inl (gated ResearchRequestBlocked
     ''Only a fresh-bounded-research Project revision may start a Research Request.'' [ResearchModeGate]))"

record research_plan =
  rn_scope :: research_scope
  rn_bundle :: provider_bundle
  rn_limits :: research_limits
  rn_providers :: "research_provider list"
  rn_subjectProfile :: "person_revision option"

definition subject_profile :: "content_env \<Rightarrow> content_subject \<Rightarrow> content_refusal + person_revision option" where
  "subject_profile env subject = (case subject of Topic _ \<Rightarrow> Inr None
     | PersonSubject k v \<Rightarrow> (case ce_personRevision env k v of
         None \<Rightarrow> Inl (refused ProfileNotFound ''The pinned subject Person Profile revision is unavailable.'')
       | Some p \<Rightarrow> Inr (Some p)))"

definition plan_research :: "content_env \<Rightarrow> content_revision \<Rightarrow> research_input \<Rightarrow> content_refusal + research_plan" where
  "plan_research env r input =
     (case research_open r of Inl e \<Rightarrow> Inl e | Inr _ \<Rightarrow>
      case requiredText (ri_question input) ''Research question'' of Inl e \<Rightarrow> Inl e | Inr question \<Rightarrow>
      case validatedBundle (ri_bundle input) of Inl e \<Rightarrow> Inl e | Inr chosen \<Rightarrow>
      case validatedLimits (ri_limits input) of Inl e \<Rightarrow> Inl e | Inr limits \<Rightarrow>
      case each_of (requireResearchProvider env) (pb_providerIds chosen) of Inl e \<Rightarrow> Inl e | Inr providers \<Rightarrow>
      case subject_profile env (cv_subject r) of Inl e \<Rightarrow> Inl e | Inr profile \<Rightarrow>
      Inr \<lparr>rn_scope = \<lparr>rs_question = question, rs_terms = cleanList (ri_terms input), rs_subject = cv_subject r\<rparr>,
        rn_bundle = chosen, rn_limits = limits, rn_providers = providers, rn_subjectProfile = profile\<rparr>)"

definition run_plan :: "content_env \<Rightarrow> research_plan \<Rightarrow> research_result" where
  "run_plan env plan = runFiniteResearch (ce_diagnostics env) (\<lambda>k. ce_now env (k + 4)) (rn_providers plan)
     (rn_bundle plan) (rn_limits plan) (rn_scope plan) (rn_subjectProfile plan)"

definition research_started :: "content_revision \<Rightarrow> bool" where
  "research_started r \<longleftrightarrow> cv_researchRequest r \<noteq> None \<or> cv_frozenEvidence r \<noteq> None \<or> cv_evidenceReview r \<noteq> None
     \<or> cv_outlineCharters r \<noteq> [] \<or> cv_outlineCharterApprovals r \<noteq> []"

definition land_research :: "content_env \<Rightarrow> string \<Rightarrow> research_plan \<Rightarrow> research_result \<Rightarrow> research_request content_cmd" where
  "land_research env pid plan result = open_project pid (\<lambda>st p current.
     andThen (check (research_open current)) (\<lambda>_.
     andThen (check (onto_next (research_started current) (ce_now env 0) None p current)) (\<lambda>(p', r).
     let request = \<lparr>rq_id = new_identifier env ''research'' 1, rq_projectId = pid, rq_projectRevision = cv_revision r,
           rq_scope = rn_scope plan, rq_bundle = rn_bundle plan, rq_limits = rn_limits plan, rq_result = result\<rparr>;
         review = \<lparr>er_attachedAt = ce_now env 2,
           er_sourceItems = uniqueBy si_id (review_items current @ rr_sourceItems result),
           er_diagnostics = review_diagnostics current @ map po_diagnostic (rr_providerOutcomes result)\<rparr> in
     andThen (save_project env 3 st (change_revision p'
       (r\<lparr>cv_researchRequest := Some request, cv_evidenceReview := Some review\<rparr>))) (\<lambda>_. ret request))))"

definition elapse :: "(content_file \<Rightarrow> content_file) \<Rightarrow> (content_file, 'e, unit) cmd" where
  "elapse meanwhile = (\<lambda>d. (Inr (), meanwhile d))"

definition runResearchRequest ::
  "content_env \<Rightarrow> content_env \<Rightarrow> (content_file \<Rightarrow> content_file) \<Rightarrow> string \<Rightarrow> research_input \<Rightarrow> research_request content_cmd" where
  "runResearchRequest env later meanwhile pid input =
     andThen (open_project pid (\<lambda>st p r. check (plan_research env r input))) (\<lambda>plan.
     andThen (elapse meanwhile) (\<lambda>_. land_research later pid plan (run_plan env plan)))"

subsection \<open>Outline Charters\<close>

definition gates_open :: "content_env \<Rightarrow> content_state \<Rightarrow> content_revision \<Rightarrow> content_code \<Rightarrow> string \<Rightarrow> content_refusal + unit" where
  "gates_open env st r code message = (let missing = missingGates env st r in
     if missing = [] then Inr () else Inl (gated code (message @ gate_list missing @ ''.'') missing))"

definition frozen_ids :: "evidence_freeze \<Rightarrow> string set" where
  "frozen_ids f = set (map si_id (ef_sourceItems f))"

definition cited_ids :: "evidence_entry list \<Rightarrow> string list" where
  "cited_ids entries = concat (map ee_sourceItemIds entries)"

definition charter_of ::
  "content_env \<Rightarrow> string \<Rightarrow> content_revision \<Rightarrow> evidence_freeze \<Rightarrow> charter_input \<Rightarrow> content_refusal + outline_charter" where
  "charter_of env pid r frozen input =
     (if list_ex (\<lambda>i. i \<notin> frozen_ids frozen) (cited_ids (ch_evidenceMap input)) then Inl (refused InvalidEvidenceSelection
        ''The Outline Charter may cite only Source Items in the frozen evidence selection.'')
      else case requiredText (ch_thesis input) ''thesis'' of Inl e \<Rightarrow> Inl e | Inr thesis \<Rightarrow>
      case requiredText (ch_angle input) ''angle'' of Inl e \<Rightarrow> Inl e | Inr angle \<Rightarrow>
      case (case ch_ctaIntent input of None \<Rightarrow> Inr None
          | Some c \<Rightarrow> (case requiredText c ''CTA intent'' of Inl e \<Rightarrow> Inl e | Inr t \<Rightarrow> Inr (Some t))) of
        Inl e \<Rightarrow> Inl e
      | Inr cta \<Rightarrow> Inr \<lparr>ch_thesis = thesis, ch_angle = angle, ch_claims = cleanList (ch_claims input),
          ch_evidenceMap = ch_evidenceMap input, ch_ctaIntent = cta, ch_id = new_identifier env ''brief'' 0,
          ch_projectId = pid, ch_projectRevision = cv_revision r, ch_version = int (length (cv_outlineCharters r)) + 1,
          ch_proposedAt = ce_now env 1, ch_subject = cv_subject r, ch_author = cv_author r,
          ch_audience = cv_audience r, ch_objective = cv_objective r, ch_constraints = cv_constraints r,
          ch_brandVoiceRevisionId = br_id (ef_brandVoice frozen), ch_targets = cv_targets r\<rparr>)"

definition proposeOutlineCharter :: "content_env \<Rightarrow> string \<Rightarrow> charter_input \<Rightarrow> outline_charter content_cmd" where
  "proposeOutlineCharter env pid input = open_project pid (\<lambda>st p r.
     andThen (check (gates_open env st r OutlineCharterBlocked
       ''An Outline Charter cannot be proposed until these gates are present: '')) (\<lambda>_.
     andThen (check (charter_of env pid r (the (cv_frozenEvidence r)) input)) (\<lambda>brief.
     andThen (save_project env 2 st (change_revision p (r\<lparr>cv_outlineCharters := cv_outlineCharters r @ [brief]\<rparr>)))
       (\<lambda>_. ret brief))))"

definition approveOutlineCharter :: "content_env \<Rightarrow> string \<Rightarrow> string \<Rightarrow> charter_approval content_cmd" where
  "approveOutlineCharter env pid k = open_project pid (\<lambda>st p r.
     andThen (check (gates_open env st r OutlineCharterBlocked
       ''An Outline Charter cannot be approved until these gates are present: '')) (\<lambda>_.
     andThen (require (list_ex (\<lambda>b. ch_id b = k) (cv_outlineCharters r)) (refused OutlineCharterNotFound
       ''The Outline Charter does not belong to the current Project revision.'')) (\<lambda>_.
     case find_by ca_outlineCharterId k (cv_outlineCharterApprovals r) of
       Some existing \<Rightarrow> ret existing
     | None \<Rightarrow>
         let approval = \<lparr>ca_outlineCharterId = k, ca_approvedAt = ce_now env 0\<rparr> in
         andThen (save_project env 1 st (change_revision p
           (r\<lparr>cv_outlineCharterApprovals := cv_outlineCharterApprovals r @ [approval]\<rparr>))) (\<lambda>_. ret approval))))"

end
