(* ===== verification/ContentOutlines.thy ===== *)
theory ContentOutlines
  imports ContentEvidence
begin

section \<open>Content Projects: Platform Outlines and Drafts\<close>

text \<open>
  The generation half of \<^verbatim>\<open>content-projects/projects.ts\<close>.  A generation is planned on the file as it is, calls its
  provider, and lands on the file as it is then; \<open>meanwhile\<close> is what happened to the file during the call and \<open>later\<close>
  the environment at the landing.  A provider either throws an error of its own or a refusal, or answers.
\<close>

datatype generation_failure = Refusal content_refusal | ProviderError string

type_synonym 'a generation_cmd = "(content_file, generation_failure, 'a) cmd"

record beat_result =
  bt_direction :: string
  bt_evidence :: evidence_entry
  bt_examples :: "string list"

record outline_result =
  ot_title :: string
  ot_hookDirection :: string
  ot_targetLength :: string
  ot_beats :: "beat_result list"
  ot_warnings :: "string list"
  ot_productionNotes :: "string list"

record draft_result =
  dr_copy :: string
  dr_productionNotes :: "string list"
  dr_claims :: "(string \<times> string list) list"

record outline_request =
  oq_target :: string
  oq_brief :: outline_charter
  oq_evidence :: prompt_evidence
  oq_instruction :: "string option"

record draft_request =
  dq_target :: string
  dq_brief :: outline_charter
  dq_outline :: platform_outline
  dq_evidence :: prompt_evidence
  dq_instruction :: "string option"

definition as_failure :: "content_refusal + 'a \<Rightarrow> generation_failure + 'a" where
  "as_failure r = (case r of Inl e \<Rightarrow> Inl (Refusal e) | Inr x \<Rightarrow> Inr x)"

definition refusing :: "'a content_cmd \<Rightarrow> 'a generation_cmd" where
  "refusing m = (\<lambda>d. case m d of (r, d') \<Rightarrow> (as_failure r, d'))"

subsection \<open>What a generation starts from\<close>

text \<open>The last item that qualifies and is approved.\<close>

definition latestApproved :: "'a list \<Rightarrow> string list \<Rightarrow> ('a \<Rightarrow> bool) \<Rightarrow> ('a \<Rightarrow> string) \<Rightarrow> 'a option" where
  "latestApproved items approvedIds matching idOf = find (\<lambda>i. matching i \<and> idOf i \<in> set approvedIds) (rev items)"

definition latestApprovedOutlineCharter :: "content_revision \<Rightarrow> outline_charter option" where
  "latestApprovedOutlineCharter r = latestApproved (cv_outlineCharters r)
     (map ca_outlineCharterId (cv_outlineCharterApprovals r)) (\<lambda>_. True) ch_id"

definition latestApprovedPlatformOutline :: "content_revision \<Rightarrow> string \<Rightarrow> platform_outline option" where
  "latestApprovedPlatformOutline r target = latestApproved (cv_platformOutlines r)
     (map oa_platformOutlineId (cv_platformOutlineApprovals r)) (\<lambda>o'. pl_target o' = target) pl_id"

definition outlines_for :: "content_revision \<Rightarrow> string \<Rightarrow> platform_outline list" where
  "outlines_for r target = filter (\<lambda>o'. pl_target o' = target) (cv_platformOutlines r)"

definition drafts_for :: "content_revision \<Rightarrow> string \<Rightarrow> content_draft list" where
  "drafts_for r target = filter (\<lambda>d. df_target d = target) (cv_drafts r)"

definition frozenEvidenceRequired :: content_refusal where
  "frozenEvidenceRequired = gated OutlineGenerationBlocked ''Platform Outline generation needs frozen evidence.''
     [EvidenceReviewGate]"

definition plannedBrief :: "content_env \<Rightarrow> content_state \<Rightarrow> content_revision \<Rightarrow> content_refusal + outline_charter" where
  "plannedBrief env st r =
     (case gates_open env st r OutlineGenerationBlocked ''Platform Outline generation needs these gates first: '' of
        Inl e \<Rightarrow> Inl e
      | Inr _ \<Rightarrow> (case latestApprovedOutlineCharter r of
          None \<Rightarrow> Inl (refused OutlineGenerationBlocked
            ''Only an approved immutable Outline Charter can start Platform Outline generation.'')
        | Some brief \<Rightarrow> Inr brief))"

record outline_plan =
  op_brief :: outline_charter
  op_version :: int

definition plannedOutlineGeneration ::
  "content_env \<Rightarrow> content_state \<Rightarrow> content_revision \<Rightarrow> string \<Rightarrow> content_refusal + outline_plan" where
  "plannedOutlineGeneration env st r target =
     (case plannedBrief env st r of Inl e \<Rightarrow> Inl e | Inr brief \<Rightarrow>
      if target \<notin> set (cv_targets r) then Inl (refused OutlineNotSupported
        (''The Project revision does not select the '' @ target @ '' target.''))
      else Inr \<lparr>op_brief = brief, op_version = int (length (outlines_for r target)) + 1\<rparr>)"

record draft_plan =
  dp_brief :: outline_charter
  dp_outline :: platform_outline
  dp_version :: int

definition plannedDraftGeneration ::
  "content_env \<Rightarrow> content_state \<Rightarrow> content_revision \<Rightarrow> string \<Rightarrow> content_refusal + draft_plan" where
  "plannedDraftGeneration env st r target =
     (case gates_open env st r DraftGenerationBlocked ''Draft generation needs these gates first: '' of
        Inl e \<Rightarrow> Inl e
      | Inr _ \<Rightarrow> (case latestApprovedPlatformOutline r target of
          None \<Rightarrow> Inl (refused DraftGenerationBlocked
            ''Only an approved Platform Outline version can generate a Draft.'')
        | Some o' \<Rightarrow>
            if target \<notin> set (cv_targets r) then Inl (refused DraftNotSupported
              (''The Project revision does not select the '' @ target @ '' target.''))
            else (case find_by ch_id (pl_outlineCharterId o') (cv_outlineCharters r) of
                None \<Rightarrow> Inl (refused DraftGenerationBlocked
                  ''The approved Platform Outline no longer names its Outline Charter.'')
              | Some brief \<Rightarrow> Inr \<lparr>dp_brief = brief, dp_outline = o',
                  dp_version = int (length (drafts_for r target)) + 1\<rparr>)))"

subsection \<open>Building a version from an answer\<close>

definition outline_beat_of :: "string list \<Rightarrow> nat \<times> beat_result \<Rightarrow> content_refusal + outline_beat" where
  "outline_beat_of approved = (\<lambda>(i, b).
     if list_ex (\<lambda>k. k \<notin> set approved) (ee_sourceItemIds (bt_evidence b)) then Inl (refused InvalidProviderResult
       ''The Platform Outline may cite only Source Items in the approved Brief's evidence map.'')
     else case providerText (bt_direction b) ''Beat direction'' of Inl e \<Rightarrow> Inl e | Inr direction \<Rightarrow>
     case providerText (ee_claim (bt_evidence b)) ''Beat evidence claim'' of Inl e \<Rightarrow> Inl e | Inr claim \<Rightarrow>
     Inr \<lparr>ob_position = int i + 1, ob_direction = direction,
       ob_evidence = \<lparr>ee_claim = claim, ee_sourceItemIds = ee_sourceItemIds (bt_evidence b)\<rparr>,
       ob_examples = cleanList (bt_examples b)\<rparr>)"

definition buildOutline ::
  "content_env \<Rightarrow> nat \<Rightarrow> string \<Rightarrow> outline_charter \<Rightarrow> string \<Rightarrow> int \<Rightarrow> string option \<Rightarrow> outline_result
    \<Rightarrow> content_refusal + platform_outline" where
  "buildOutline env i pid brief target version instruction result =
     (if ot_beats result = [] then Inl (refused InvalidProviderResult ''A Platform Outline needs at least one beat.'')
      else case each_of (outline_beat_of (cited_ids (ch_evidenceMap brief))) (indexed (ot_beats result)) of
        Inl e \<Rightarrow> Inl e | Inr beats \<Rightarrow>
      case providerText (ot_title result) ''Outline title'' of Inl e \<Rightarrow> Inl e | Inr title \<Rightarrow>
      case providerText (ot_hookDirection result) ''Outline hook direction'' of Inl e \<Rightarrow> Inl e | Inr hook \<Rightarrow>
      case providerText (ot_targetLength result) ''Outline target length'' of Inl e \<Rightarrow> Inl e | Inr targetLength \<Rightarrow>
      Inr \<lparr>pl_id = new_identifier env ''outline'' i, pl_projectId = pid, pl_projectRevision = ch_projectRevision brief,
        pl_target = target, pl_outlineCharterId = ch_id brief, pl_outlineCharterVersion = ch_version brief,
        pl_version = version, pl_generatedAt = ce_now env i, pl_instruction = instruction, pl_title = title,
        pl_hookDirection = hook, pl_thesis = ch_thesis brief, pl_beats = beats, pl_ctaIntent = ch_ctaIntent brief,
        pl_targetLength = targetLength, pl_constraints = ch_constraints brief,
        pl_warnings = cleanList (ot_warnings result), pl_productionNotes = cleanList (ot_productionNotes result)\<rparr>)"

definition draft_claim_of :: "string list \<Rightarrow> string \<times> string list \<Rightarrow> content_refusal + draft_claim" where
  "draft_claim_of approved = (\<lambda>(t, ids). case providerText t ''Draft claim text'' of Inl e \<Rightarrow> Inl e
     | Inr text \<Rightarrow> Inr \<lparr>dc_text = text, dc_sourceItemIds = ids,
         dc_supported = (ids \<noteq> [] \<and> list_all (\<lambda>k. k \<in> set approved) ids)\<rparr>)"

definition buildDraft ::
  "content_env \<Rightarrow> nat \<Rightarrow> string \<Rightarrow> outline_charter \<Rightarrow> platform_outline \<Rightarrow> string \<Rightarrow> int \<Rightarrow> string option \<Rightarrow> draft_result
    \<Rightarrow> content_refusal + content_draft" where
  "buildDraft env i pid brief o' target version instruction result =
     (case providerText (dr_copy result) ''Draft copy'' of Inl e \<Rightarrow> Inl e | Inr copy \<Rightarrow>
      case each_of (draft_claim_of (cited_ids (ch_evidenceMap brief))) (dr_claims result) of
        Inl e \<Rightarrow> Inl e | Inr claims \<Rightarrow>
      Inr \<lparr>df_id = new_identifier env ''draft'' i, df_projectId = pid, df_projectRevision = pl_projectRevision o',
        df_target = target, df_platformOutlineId = pl_id o', df_outlineVersion = pl_version o', df_version = version,
        df_generatedAt = ce_now env i, df_instruction = instruction, df_copy = copy, df_thesis = ch_thesis brief,
        df_evidence = ch_evidenceMap brief, df_claims = claims,
        df_unsupportedClaimPolicy = CONTENT_ENGINE_UNSUPPORTED_CLAIM_POLICY,
        df_productionNotes = cleanList (dr_productionNotes result)\<rparr>)"

subsection \<open>One version\<close>

text \<open>The landing: the plan is made again on the file that was read after the call, and the answer is kept only when
  the new plan rests on the same approved input.\<close>

definition land_version ::
  "content_env \<Rightarrow> string \<Rightarrow> (content_state \<Rightarrow> content_revision \<Rightarrow> content_refusal + 'p)
    \<Rightarrow> ('p \<Rightarrow> content_refusal option) \<Rightarrow> ('p \<Rightarrow> content_refusal + 'r)
    \<Rightarrow> ('r \<Rightarrow> content_revision \<Rightarrow> content_revision) \<Rightarrow> 'r content_cmd" where
  "land_version env pid plan changed build commit = open_project pid (\<lambda>st p r.
     andThen (check (plan st r)) (\<lambda>landed.
     andThen (check (case changed landed of None \<Rightarrow> Inr () | Some e \<Rightarrow> Inl e)) (\<lambda>_.
     andThen (check (build landed)) (\<lambda>kept.
     andThen (save_project env 1 st (change_revision p (commit kept r))) (\<lambda>_. ret kept)))))"

definition planned_on :: "string \<Rightarrow> (content_state \<Rightarrow> content_revision \<Rightarrow> content_refusal + 'p) \<Rightarrow> 'p content_cmd" where
  "planned_on pid plan = open_project pid (\<lambda>st p r. check (plan st r))"

definition evidence_for :: "string \<Rightarrow> content_refusal \<Rightarrow> prompt_evidence content_cmd" where
  "evidence_for pid noEvidence = andThen (query (promptEvidence pid)) (\<lambda>found.
     case found of None \<Rightarrow> throw noEvidence | Some ev \<Rightarrow> ret ev)"

definition runVersionedGeneration ::
  "string \<Rightarrow> (content_state \<Rightarrow> content_revision \<Rightarrow> content_refusal + 'p) \<Rightarrow> content_refusal
    \<Rightarrow> ('p \<Rightarrow> prompt_evidence \<Rightarrow> generation_failure + 't) \<Rightarrow> (content_file \<Rightarrow> content_file)
    \<Rightarrow> ('p \<Rightarrow> 't \<Rightarrow> 'r content_cmd) \<Rightarrow> 'r generation_cmd" where
  "runVersionedGeneration pid plan noEvidence call meanwhile landing =
     andThen (refusing (planned_on pid plan)) (\<lambda>planned.
     andThen (refusing (evidence_for pid noEvidence)) (\<lambda>ev.
     andThen (elapse meanwhile) (\<lambda>_.
     andThen (check (call planned ev)) (\<lambda>result.
     refusing (landing planned result)))))"

definition outline_changed :: "outline_plan \<Rightarrow> outline_plan \<Rightarrow> content_refusal option" where
  "outline_changed planned landed = (if ch_id (op_brief landed) = ch_id (op_brief planned) then None
     else Some (refused OutlineGenerationBlocked
       ''The Project changed while the Outline was generated; approve the Brief on the current revision and generate again.''))"

definition land_outline ::
  "content_env \<Rightarrow> string \<Rightarrow> string \<Rightarrow> string option \<Rightarrow> outline_plan \<Rightarrow> outline_result \<Rightarrow> platform_outline content_cmd" where
  "land_outline env pid target instruction planned result =
     land_version env pid (\<lambda>st r. plannedOutlineGeneration env st r target) (outline_changed planned)
       (\<lambda>landed. buildOutline env 0 pid (op_brief landed) target (op_version landed) instruction result)
       (\<lambda>o' r. r\<lparr>cv_platformOutlines := cv_platformOutlines r @ [o']\<rparr>)"

definition generateOutline ::
  "content_env \<Rightarrow> content_env \<Rightarrow> (content_file \<Rightarrow> content_file) \<Rightarrow> (outline_request \<Rightarrow> generation_failure + outline_result)
    \<Rightarrow> string \<Rightarrow> string \<Rightarrow> string option \<Rightarrow> platform_outline generation_cmd" where
  "generateOutline env later meanwhile generator pid target given =
     andThen (refusing (check (validatedInstruction given))) (\<lambda>instruction.
     runVersionedGeneration pid (\<lambda>st r. plannedOutlineGeneration env st r target) frozenEvidenceRequired
       (\<lambda>planned ev. generator \<lparr>oq_target = target, oq_brief = op_brief planned, oq_evidence = ev,
          oq_instruction = instruction\<rparr>)
       meanwhile (land_outline later pid target instruction))"

definition draft_changed :: "draft_plan \<Rightarrow> draft_plan \<Rightarrow> content_refusal option" where
  "draft_changed planned landed = (if pl_id (dp_outline landed) = pl_id (dp_outline planned) then None
     else Some (refused DraftGenerationBlocked
       ''The Project changed while the Draft was generated; approve the Outline on the current revision and generate again.''))"

definition land_draft ::
  "content_env \<Rightarrow> string \<Rightarrow> string \<Rightarrow> string option \<Rightarrow> draft_plan \<Rightarrow> draft_result \<Rightarrow> content_draft content_cmd" where
  "land_draft env pid target instruction planned result =
     land_version env pid (\<lambda>st r. plannedDraftGeneration env st r target) (draft_changed planned)
       (\<lambda>landed. buildDraft env 0 pid (dp_brief landed) (dp_outline landed) target (dp_version landed) instruction result)
       (\<lambda>d r. r\<lparr>cv_drafts := cv_drafts r @ [d]\<rparr>)"

definition generateDraft ::
  "content_env \<Rightarrow> content_env \<Rightarrow> (content_file \<Rightarrow> content_file) \<Rightarrow> (draft_request \<Rightarrow> generation_failure + draft_result)
    \<Rightarrow> string \<Rightarrow> string \<Rightarrow> string option \<Rightarrow> content_draft generation_cmd" where
  "generateDraft env later meanwhile generator pid target given =
     andThen (refusing (check (validatedInstruction given))) (\<lambda>instruction.
     runVersionedGeneration pid (\<lambda>st r. plannedDraftGeneration env st r target)
       (gated DraftGenerationBlocked ''Draft generation needs frozen evidence.'' [EvidenceReviewGate])
       (\<lambda>planned ev. generator \<lparr>dq_target = target, dq_brief = dp_brief planned, dq_outline = dp_outline planned,
          dq_evidence = ev, dq_instruction = instruction\<rparr>)
       meanwhile (land_draft later pid target instruction))"

subsection \<open>The Outline Set\<close>

record set_plan =
  sp_brief :: outline_charter
  sp_pending :: "string list"

definition plannedOutlineSet :: "content_env \<Rightarrow> content_state \<Rightarrow> content_revision \<Rightarrow> content_refusal + set_plan" where
  "plannedOutlineSet env st r = (case plannedBrief env st r of Inl e \<Rightarrow> Inl e | Inr brief \<Rightarrow>
     Inr \<lparr>sp_brief = brief, sp_pending = filter (\<lambda>target. \<not> list_ex (\<lambda>o'. pl_target o' = target
       \<and> pl_outlineCharterId o' = ch_id brief) (cv_platformOutlines r)) (ch_targets brief)\<rparr>)"

definition outlineSetFailure :: "string \<Rightarrow> generation_failure \<Rightarrow> outline_failure" where
  "outlineSetFailure target failure = (case failure of
     Refusal e \<Rightarrow> \<lparr>of_target = target,
       of_code = (if cf_code e = InvalidProviderResult then InvalidProviderResultCode else ProviderFailed),
       of_message = cf_message e\<rparr>
   | ProviderError m \<Rightarrow> \<lparr>of_target = target, of_code = ProviderFailed, of_message = m\<rparr>)"

text \<open>The results land in the order of the targets, each numbered after those before it.  The \<open>i\<close>-th target reads
  the clock once.\<close>

fun land_each ::
  "content_env \<Rightarrow> nat \<Rightarrow> string \<Rightarrow> outline_charter \<Rightarrow> (string \<times> (generation_failure + outline_result)) list \<Rightarrow> content_revision
    \<Rightarrow> content_revision \<times> platform_outline list \<times> outline_failure list" where
  "land_each env i pid brief [] r = (r, [], [])"
| "land_each env i pid brief ((target, answer) # rest) r =
     (case (case answer of Inl e \<Rightarrow> Inl e | Inr result \<Rightarrow> as_failure (buildOutline env i pid brief target
          (int (length (outlines_for r target)) + 1) None result)) of
        Inl e \<Rightarrow> (case land_each env (Suc i) pid brief rest r of (r', made, failed) \<Rightarrow>
          (r', made, outlineSetFailure target e # failed))
      | Inr o' \<Rightarrow> (case land_each env (Suc i) pid brief rest (r\<lparr>cv_platformOutlines := cv_platformOutlines r @ [o']\<rparr>) of
          (r', made, failed) \<Rightarrow> (r', o' # made, failed)))"

definition land_outline_set ::
  "content_env \<Rightarrow> string \<Rightarrow> set_plan \<Rightarrow> (generation_failure + outline_result) list \<Rightarrow> outline_set_outcome content_cmd" where
  "land_outline_set env pid planned settled = open_project pid (\<lambda>st p r.
     case latestApprovedOutlineCharter r of
       None \<Rightarrow> throw (refused OutlineGenerationBlocked
         ''The Project changed while the Outline Set was generated; approve the Brief on the current revision and generate again.'')
     | Some brief \<Rightarrow>
         andThen (require (ch_id brief = ch_id (sp_brief planned)) (refused OutlineGenerationBlocked
           ''The Project changed while the Outline Set was generated; approve the Brief on the current revision and generate again.''))
           (\<lambda>_. case land_each env 0 pid brief (zip (sp_pending planned) settled) r of (r', made, failed) \<Rightarrow>
         let outcome = \<lparr>os_outlineCharterId = ch_id brief, os_outlineCharterVersion = ch_version brief,
               os_generated = made, os_failures = failed\<rparr> in
         if made = [] then ret outcome
         else andThen (save_project env (length settled) st (change_revision p r')) (\<lambda>_. ret outcome)))"

text \<open>The calls of the set go through the bounded lanes; whatever their order, the results are those of the targets in
  their order.\<close>

definition generateOutlineSet ::
  "content_env \<Rightarrow> content_env \<Rightarrow> (content_file \<Rightarrow> content_file) \<Rightarrow> (outline_request \<Rightarrow> generation_failure + outline_result)
    \<Rightarrow> string \<Rightarrow> int option \<Rightarrow> outline_set_outcome generation_cmd" where
  "generateOutlineSet env later meanwhile generator pid concurrency =
     andThen (refusing (check (validatedConcurrency concurrency))) (\<lambda>_.
     andThen (refusing (planned_on pid (plannedOutlineSet env))) (\<lambda>planned.
     andThen (refusing (evidence_for pid frozenEvidenceRequired)) (\<lambda>ev.
     andThen (elapse meanwhile) (\<lambda>_.
     refusing (land_outline_set later pid planned (map (\<lambda>target. generator \<lparr>oq_target = target,
       oq_brief = sp_brief planned, oq_evidence = ev, oq_instruction = None\<rparr>) (sp_pending planned)))))))"

subsection \<open>Approving an Outline\<close>

definition approveOutline :: "content_env \<Rightarrow> string \<Rightarrow> string \<Rightarrow> outline_approval content_cmd" where
  "approveOutline env pid target = open_project pid (\<lambda>st p r.
     case find (\<lambda>o'. pl_target o' = target) (rev (cv_platformOutlines r)) of
       None \<Rightarrow> throw (refused OutlineNotFound (''No Platform Outline for the '' @ target
         @ '' target exists on the current Project revision.''))
     | Some o' \<Rightarrow> (case find_by oa_platformOutlineId (pl_id o') (cv_platformOutlineApprovals r) of
         Some existing \<Rightarrow> ret existing
       | None \<Rightarrow>
           let approval = \<lparr>oa_platformOutlineId = pl_id o', oa_target = target, oa_approvedAt = ce_now env 0\<rparr> in
           andThen (save_project env 1 st (change_revision p
             (r\<lparr>cv_platformOutlineApprovals := cv_platformOutlineApprovals r @ [approval]\<rparr>))) (\<lambda>_. ret approval)))"

subsection \<open>Starting a Project from an Opportunity\<close>

record opportunity_start =
  st_runId :: string
  st_opportunityId :: string
  st_title :: string
  st_angle :: string
  st_angleDescription :: string
  st_urgency :: string
  st_sourceUrls :: "string list"
  st_brandProfileRevisionId :: string
  st_objective :: string
  st_audience :: string
  st_constraints :: "string list"
  st_targets :: "string list"
  st_researchMode :: "research_mode option"
  st_seedMaterial :: "string list"
  st_authorProfileId :: "string option"

definition opportunity_input :: "opportunity_start \<Rightarrow> project_create_input" where
  "opportunity_input s = \<lparr>nc_subject = TopicInput (st_title s),
     nc_authorProfileId = (case st_authorProfileId s of None \<Rightarrow> None | Some k \<Rightarrow> if k = [] then None else Some k),
     nc_objective = st_objective s, nc_audience = st_audience s, nc_constraints = st_constraints s,
     nc_targets = st_targets s, nc_researchMode = st_researchMode s,
     nc_seedMaterial = st_seedMaterial s
       @ [''Opportunity angle ('' @ st_angle s @ ''): '' @ st_angleDescription s, ''Urgency: '' @ st_urgency s]
       @ st_sourceUrls s,
     nc_sourceOpportunity = Some \<lparr>so_opportunityId = st_opportunityId s, so_runId = st_runId s,
       so_title = st_title s, so_angle = st_angle s, so_angleDescription = st_angleDescription s,
       so_sourceUrls = st_sourceUrls s, so_brandProfileRevisionId = st_brandProfileRevisionId s, so_recordedAt = []\<rparr>\<rparr>"

definition startProject :: "content_env \<Rightarrow> opportunity_start \<Rightarrow> (string \<times> bool) content_cmd" where
  "startProject env s = andThen (query (\<lambda>d. Inr (projectByOpportunity (st_opportunityId s) d))) (\<lambda>existing.
     case existing of Some p \<Rightarrow> ret (cp_id p, False)
     | None \<Rightarrow> andThen (createProject env (opportunity_input s)) (\<lambda>p. ret (cp_id p, True)))"

end
