(* ===== verification/ContentLaws.thy ===== *)
theory ContentLaws
  imports ContentOutlines "HOL-Library.Sublist"
begin

section \<open>What a Content Project may become\<close>

text \<open>
  The abstract specification of a Content Project: a revision is edited by adding to it, in the order evidence,
  freeze, charters, approvals, outlines, drafts; a project gains blank revisions after its last one; the file gains
  projects, author policies and voices.  \<open>project_law\<close> is the interface of a law of projects: what every step keeps, every
  history of the file keeps.  Two laws are proved of the steps: the chain of evidence is sound (\<open>project_ok\<close>), and
  history is only added to (\<open>grows\<close>).  That the commands take such steps is \<^verbatim>\<open>ContentRefines\<close>.
\<close>

subsection \<open>Blank revisions and edits\<close>

definition targets_ok :: "string list \<Rightarrow> bool" where
  "targets_ok ts \<longleftrightarrow> distinct ts \<and> set ts \<subseteq> set CONTENT_PROJECT_TARGETS"

definition blank_revision :: "content_revision \<Rightarrow> bool" where
  "blank_revision r \<longleftrightarrow> cv_researchRequest r = None \<and> cv_frozenEvidence r = None \<and> cv_outlineCharters r = []
     \<and> cv_outlineCharterApprovals r = [] \<and> cv_platformOutlines r = [] \<and> cv_platformOutlineApprovals r = []
     \<and> cv_drafts r = [] \<and> targets_ok (cv_targets r)"

definition charter_ids :: "outline_charter \<Rightarrow> string set" where
  "charter_ids c = set (cited_ids (ch_evidenceMap c))"

definition freeze_sound :: "content_revision \<Rightarrow> evidence_freeze \<Rightarrow> bool" where
  "freeze_sound r f \<longleftrightarrow> distinct (map si_id (ef_sourceItems f)) \<and> set (ef_sourceItems f) \<subseteq> set (review_items r)
     \<and> ef_userMaterial f = cv_seedMaterial r \<and> vo_profileId (ef_contentVoice f) = ar_profileId (cv_author r)
     \<and> (case cv_researchMode r of None \<Rightarrow> False
          | Some m \<Rightarrow> if m = NoExternalResearch
              then ef_sourceItems f = [] \<and> ef_diagnostics f = [] \<and> ef_noExternalResearchAcknowledged f
              else ef_sourceItems f \<noteq> [])"

definition charter_sound :: "content_revision \<Rightarrow> evidence_freeze \<Rightarrow> outline_charter \<Rightarrow> bool" where
  "charter_sound r f c \<longleftrightarrow> charter_ids c \<subseteq> frozen_ids f \<and> ch_projectRevision c = cv_revision r
     \<and> ch_targets c = cv_targets r \<and> ch_brandVoiceRevisionId c = br_id (ef_brandVoice f)"

definition outline_sound :: "outline_charter \<Rightarrow> platform_outline \<Rightarrow> bool" where
  "outline_sound c o' \<longleftrightarrow> pl_outlineCharterId o' = ch_id c \<and> pl_outlineCharterVersion o' = ch_version c
     \<and> pl_projectRevision o' = ch_projectRevision c \<and> pl_thesis o' = ch_thesis c \<and> pl_ctaIntent o' = ch_ctaIntent c
     \<and> pl_constraints o' = ch_constraints c \<and> pl_beats o' \<noteq> []
     \<and> map ob_position (pl_beats o') = map (\<lambda>i. int i + 1) [0..<length (pl_beats o')]
     \<and> (\<forall>b \<in> set (pl_beats o'). set (ee_sourceItemIds (ob_evidence b)) \<subseteq> charter_ids c)"

definition draft_sound :: "outline_charter \<Rightarrow> platform_outline \<Rightarrow> content_draft \<Rightarrow> bool" where
  "draft_sound c o' d \<longleftrightarrow> df_platformOutlineId d = pl_id o' \<and> df_outlineVersion d = pl_version o'
     \<and> df_target d = pl_target o' \<and> pl_outlineCharterId o' = ch_id c \<and> df_thesis d = ch_thesis c
     \<and> df_evidence d = ch_evidenceMap c
     \<and> (\<forall>k \<in> set (df_claims d). dc_supported k \<longleftrightarrow>
          dc_sourceItemIds k \<noteq> [] \<and> set (dc_sourceItemIds k) \<subseteq> charter_ids c)"

inductive edit :: "content_revision \<Rightarrow> content_revision \<Rightarrow> bool" where
  Review: "\<not> started r \<Longrightarrow> edit r (r\<lparr>cv_evidenceReview := Some e\<rparr>)"
| Research: "\<not> started r \<Longrightarrow> cv_researchRequest r = None \<Longrightarrow>
    edit r (r\<lparr>cv_researchRequest := Some q, cv_evidenceReview := Some e\<rparr>)"
| Freeze: "cv_frozenEvidence r = None \<Longrightarrow> freeze_sound r f \<Longrightarrow> edit r (r\<lparr>cv_frozenEvidence := Some f\<rparr>)"
| Propose: "\<lbrakk>cv_frozenEvidence r = Some f; charter_sound r f c; ch_version c = int (length (cv_outlineCharters r)) + 1\<rbrakk>
    \<Longrightarrow> edit r (r\<lparr>cv_outlineCharters := cv_outlineCharters r @ [c]\<rparr>)"
| ApproveCharter: "\<lbrakk>ca_outlineCharterId a \<in> ch_id ` set (cv_outlineCharters r);
      ca_outlineCharterId a \<notin> ca_outlineCharterId ` set (cv_outlineCharterApprovals r)\<rbrakk>
    \<Longrightarrow> edit r (r\<lparr>cv_outlineCharterApprovals := cv_outlineCharterApprovals r @ [a]\<rparr>)"
| AddOutline: "\<lbrakk>c \<in> set (cv_outlineCharters r);
      ch_id c \<in> ca_outlineCharterId ` set (cv_outlineCharterApprovals r); outline_sound c o';
      pl_version o' = int (length (outlines_for r (pl_target o'))) + 1\<rbrakk>
    \<Longrightarrow> edit r (r\<lparr>cv_platformOutlines := cv_platformOutlines r @ [o']\<rparr>)"
| ApproveOutline: "\<lbrakk>o' \<in> set (cv_platformOutlines r); oa_platformOutlineId a = pl_id o'; oa_target a = pl_target o';
      pl_id o' \<notin> oa_platformOutlineId ` set (cv_platformOutlineApprovals r)\<rbrakk>
    \<Longrightarrow> edit r (r\<lparr>cv_platformOutlineApprovals := cv_platformOutlineApprovals r @ [a]\<rparr>)"
| AddDraft: "\<lbrakk>c \<in> set (cv_outlineCharters r); o' \<in> set (cv_platformOutlines r);
      pl_id o' \<in> oa_platformOutlineId ` set (cv_platformOutlineApprovals r); draft_sound c o' d;
      df_version d = int (length (drafts_for r (df_target d))) + 1\<rbrakk>
    \<Longrightarrow> edit r (r\<lparr>cv_drafts := cv_drafts r @ [d]\<rparr>)"

inductive project_step :: "content_project \<Rightarrow> content_project \<Rightarrow> bool" where
  Edit: "\<lbrakk>cp_revisions p = rs @ [r]; edit r r'\<rbrakk> \<Longrightarrow> project_step p (p\<lparr>cp_revisions := rs @ [r']\<rparr>)"
| Next: "\<lbrakk>cp_revisions p = rs @ [r]; blank_revision r'; cv_revision r' = cv_revision r + 1;
      cv_sourceOpportunity r' = cv_sourceOpportunity r\<rbrakk>
    \<Longrightarrow> project_step p (p\<lparr>cp_revisions := rs @ [r, r']\<rparr>)"
| Touch: "project_step p (p\<lparr>cp_updatedAt := t\<rparr>)"

abbreviation project_steps :: "content_project \<Rightarrow> content_project \<Rightarrow> bool" where
  "project_steps \<equiv> project_step\<^sup>*\<^sup>*"

subsection \<open>The file\<close>

definition opportunity_of :: "content_project \<Rightarrow> string option" where
  "opportunity_of p = (case cp_revisions p of [] \<Rightarrow> None
     | r # _ \<Rightarrow> map_option so_opportunityId (cv_sourceOpportunity r))"

definition projects_of :: "content_file \<Rightarrow> content_project list" where
  "projects_of d = cs_projects (readState d)"

inductive content_step :: "content_file \<Rightarrow> content_file \<Rightarrow> bool" where
  Change: "\<lbrakk>find_by cp_id pid (projects_of d) = Some p; project_steps p q\<rbrakk> \<Longrightarrow>
    content_step d (stored_state ((readState d)\<lparr>cs_projects := update_first (\<lambda>x. cp_id x = pid) q (projects_of d)\<rparr>))"
| Create: "\<lbrakk>cp_revisions p = [r]; blank_revision r; cv_revision r = 1;
      \<And>k. opportunity_of p = Some k \<Longrightarrow> \<forall>x \<in> set (projects_of d). opportunity_of x \<noteq> Some k\<rbrakk> \<Longrightarrow>
    content_step d (stored_state ((readState d)\<lparr>cs_projects := projects_of d @ [p]\<rparr>))"
| Authorize: "content_step d (stored_state ((readState d)\<lparr>cs_authorPolicies := cs_authorPolicies (readState d) @ [a]\<rparr>))"
| Voice: "content_step d (stored_state ((readState d)\<lparr>cs_contentVoices := cs_contentVoices (readState d) @ [v]\<rparr>))"

abbreviation content_steps :: "content_file \<Rightarrow> content_file \<Rightarrow> bool" where
  "content_steps \<equiv> content_step\<^sup>*\<^sup>*"

inductive_cases content_stepE: "content_step d d'"
inductive_cases project_stepE: "project_step p q"
inductive_cases editE: "edit r r'"

lemma projects_of_stored [simp]: "projects_of (stored_state st) = cs_projects st"
  by (simp add: projects_of_def)

lemma project_step_id: "project_step p q \<Longrightarrow> cp_id q = cp_id p \<and> cp_createdAt q = cp_createdAt p"
  by (induction rule: project_step.induct) simp_all

lemma project_steps_id: "project_steps p q \<Longrightarrow> cp_id q = cp_id p \<and> cp_createdAt q = cp_createdAt p"
  by (induction rule: rtranclp_induct) (auto dest: project_step_id)

lemma find_by_update_same:
  "key y = k \<Longrightarrow> find_by key k xs = Some x \<Longrightarrow> find_by key k (update_first (\<lambda>x. key x = k) y xs) = Some y"
  by (induction xs) auto

lemma find_by_update_other:
  "key y = k \<Longrightarrow> j \<noteq> k \<Longrightarrow> find_by key j (update_first (\<lambda>x. key x = k) y xs) = find_by key j xs"
  by (induction xs) auto

subsection \<open>Laws of projects\<close>

locale project_law =
  fixes R :: "content_project \<Rightarrow> content_project \<Rightarrow> bool"
  assumes law_refl: "R p p"
    and law_trans: "R p q \<Longrightarrow> R q s \<Longrightarrow> R p s"
    and law_step: "project_step p q \<Longrightarrow> R p q"
begin

lemma law_steps: "project_steps p q \<Longrightarrow> R p q"
  by (induction rule: rtranclp_induct) (blast intro: law_refl law_trans law_step)+

lemma law_content_step:
  assumes "content_step d d'" and "find_by cp_id k (projects_of d) = Some p"
  shows "\<exists>q. find_by cp_id k (projects_of d') = Some q \<and> R p q"
  using assms
proof (induction rule: content_step.induct)
  case (Change pid d p0 q)
  from Change.hyps have q: "cp_id q = pid" "R p0 q"
    by (auto dest: find_by_SomeD project_steps_id law_steps)
  show ?case
  proof (cases "k = pid")
    case True
    with Change q have "p = p0" by simp
    with Change q True show ?thesis by (simp add: find_by_update_same)
  next
    case False
    with Change q law_refl show ?thesis by (simp add: find_by_update_other)
  qed
next
  case (Create p0 r d)
  then show ?case by (auto simp: find_by_append law_refl)
qed (use law_refl in \<open>simp_all add: projects_of_def\<close>)

lemma law_content_steps:
  assumes "content_steps d d'" and "find_by cp_id k (projects_of d) = Some p"
  shows "\<exists>q. find_by cp_id k (projects_of d') = Some q \<and> R p q"
  using assms
proof (induction rule: rtranclp_induct)
  case base then show ?case using law_refl by blast
next
  case (step d' d'')
  then obtain q where "find_by cp_id k (projects_of d') = Some q" "R p q" by blast
  with law_content_step [OF \<open>content_step d' d''\<close>] law_trans show ?case by blast
qed

end

end
