(* ===== verification/ContentHistory.thy ===== *)
theory ContentHistory
  imports ContentLaws
begin

section \<open>The chain of evidence and the history of a Content Project\<close>

text \<open>The two laws of projects: a project's chain of evidence stays sound, and its history is only added to.\<close>

subsection \<open>The chain of evidence\<close>

definition numbered :: "int list \<Rightarrow> bool" where
  "numbered xs \<longleftrightarrow> xs = map (\<lambda>i. int i + 1) [0..<length xs]"

lemma numbered_Nil [simp]: "numbered []"
  by (simp add: numbered_def)

lemma numbered_snoc: "numbered xs \<Longrightarrow> x = int (length xs) + 1 \<Longrightarrow> numbered (xs @ [x])"
  by (simp add: numbered_def)

definition approved_charters :: "content_revision \<Rightarrow> string set" where
  "approved_charters r = ca_outlineCharterId ` set (cv_outlineCharterApprovals r)"

definition approved_outlines :: "content_revision \<Rightarrow> string set" where
  "approved_outlines r = oa_platformOutlineId ` set (cv_platformOutlineApprovals r)"

text \<open>An outline was generated from an approved charter, an approval names an outline, a draft was generated from an
  approved outline and its charter.\<close>

definition outline_backed :: "content_revision \<Rightarrow> platform_outline \<Rightarrow> bool" where
  "outline_backed r o' \<longleftrightarrow> (\<exists>c \<in> set (cv_outlineCharters r). ch_id c \<in> approved_charters r \<and> outline_sound c o')"

definition approval_backed :: "content_revision \<Rightarrow> outline_approval \<Rightarrow> bool" where
  "approval_backed r a \<longleftrightarrow> (\<exists>o' \<in> set (cv_platformOutlines r). oa_platformOutlineId a = pl_id o' \<and> oa_target a = pl_target o')"

definition draft_backed :: "content_revision \<Rightarrow> content_draft \<Rightarrow> bool" where
  "draft_backed r d \<longleftrightarrow> (\<exists>c \<in> set (cv_outlineCharters r). \<exists>o' \<in> set (cv_platformOutlines r).
     pl_id o' \<in> approved_outlines r \<and> draft_sound c o' d)"

definition charters_ok :: "content_revision \<Rightarrow> bool" where
  "charters_ok r \<longleftrightarrow> (case cv_frozenEvidence r of None \<Rightarrow> cv_outlineCharters r = []
          | Some f \<Rightarrow> freeze_sound r f \<and> (\<forall>c \<in> set (cv_outlineCharters r). charter_sound r f c))
     \<and> numbered (map ch_version (cv_outlineCharters r))"

definition approvals_ok :: "content_revision \<Rightarrow> bool" where
  "approvals_ok r \<longleftrightarrow> distinct (map ca_outlineCharterId (cv_outlineCharterApprovals r))
     \<and> approved_charters r \<subseteq> ch_id ` set (cv_outlineCharters r)
     \<and> distinct (map oa_platformOutlineId (cv_platformOutlineApprovals r))
     \<and> (\<forall>a \<in> set (cv_platformOutlineApprovals r). approval_backed r a)"

definition generated_ok :: "content_revision \<Rightarrow> bool" where
  "generated_ok r \<longleftrightarrow> (\<forall>o' \<in> set (cv_platformOutlines r). outline_backed r o')
     \<and> (\<forall>d \<in> set (cv_drafts r). draft_backed r d)
     \<and> (\<forall>t. numbered (map pl_version (outlines_for r t))) \<and> (\<forall>t. numbered (map df_version (drafts_for r t)))"

definition revision_ok :: "content_revision \<Rightarrow> bool" where
  "revision_ok r \<longleftrightarrow> targets_ok (cv_targets r) \<and> charters_ok r \<and> approvals_ok r \<and> generated_ok r"

definition project_ok :: "content_project \<Rightarrow> bool" where
  "project_ok p \<longleftrightarrow> cp_revisions p \<noteq> [] \<and> numbered (map cv_revision (cp_revisions p))
     \<and> (\<forall>r \<in> set (cp_revisions p). revision_ok r)"

lemmas revision_ok_defs = revision_ok_def charters_ok_def approvals_ok_def generated_ok_def

lemma blank_revision_ok: "blank_revision r \<Longrightarrow> revision_ok r"
  by (simp add: blank_revision_def revision_ok_defs outlines_for_def drafts_for_def approved_charters_def)

text \<open>Soundness reads the intent and the review of a revision only.\<close>

lemma freeze_sound_updates [simp]:
  "freeze_sound (r\<lparr>cv_frozenEvidence := x0\<rparr>) f = freeze_sound r f"
  "freeze_sound (r\<lparr>cv_outlineCharters := x1\<rparr>) f = freeze_sound r f"
  "freeze_sound (r\<lparr>cv_outlineCharterApprovals := x2\<rparr>) f = freeze_sound r f"
  "freeze_sound (r\<lparr>cv_platformOutlines := x3\<rparr>) f = freeze_sound r f"
  "freeze_sound (r\<lparr>cv_platformOutlineApprovals := x4\<rparr>) f = freeze_sound r f"
  "freeze_sound (r\<lparr>cv_drafts := x5\<rparr>) f = freeze_sound r f"
  by (simp_all add: freeze_sound_def review_items_def)

lemma charter_sound_updates [simp]:
  "charter_sound (r\<lparr>cv_frozenEvidence := x0\<rparr>) f c = charter_sound r f c"
  "charter_sound (r\<lparr>cv_outlineCharters := x1\<rparr>) f c = charter_sound r f c"
  "charter_sound (r\<lparr>cv_outlineCharterApprovals := x2\<rparr>) f c = charter_sound r f c"
  "charter_sound (r\<lparr>cv_platformOutlines := x3\<rparr>) f c = charter_sound r f c"
  "charter_sound (r\<lparr>cv_platformOutlineApprovals := x4\<rparr>) f c = charter_sound r f c"
  "charter_sound (r\<lparr>cv_drafts := x5\<rparr>) f c = charter_sound r f c"
  by (simp_all add: charter_sound_def)

lemma edit_targets: "edit r r' \<Longrightarrow> cv_targets r' = cv_targets r"
  by (induction rule: edit.induct) simp_all

text \<open>What backs an outline, an approval or a draft is never taken away.\<close>

lemma edit_backs:
  assumes "edit r r'"
  shows "set (cv_outlineCharters r) \<subseteq> set (cv_outlineCharters r')" "approved_charters r \<subseteq> approved_charters r'"
    "set (cv_platformOutlines r) \<subseteq> set (cv_platformOutlines r')" "approved_outlines r \<subseteq> approved_outlines r'"
  using assms by (induction rule: edit.induct) (auto simp: approved_charters_def approved_outlines_def)

lemma edit_keeps_backed:
  assumes "edit r r'"
  shows "outline_backed r o' \<Longrightarrow> outline_backed r' o'" "approval_backed r a \<Longrightarrow> approval_backed r' a"
    "draft_backed r d \<Longrightarrow> draft_backed r' d"
  unfolding outline_backed_def approval_backed_def draft_backed_def using edit_backs [OF assms] by blast+

lemma edit_charters_ok: "edit r r' \<Longrightarrow> charters_ok r \<Longrightarrow> charters_ok r'"
proof (induction rule: edit.induct)
  case (Propose r f c)
  then have "numbered (map ch_version (cv_outlineCharters r) @ [ch_version c])"
    by (intro numbered_snoc) (simp_all add: charters_ok_def)
  with Propose show ?case by (auto simp: charters_ok_def)
qed (auto simp: charters_ok_def started_def split: option.splits)

lemma edit_approvals_ok:
  assumes "edit r r'" and "approvals_ok r"
  shows "approvals_ok r'"
proof -
  note kept = edit_keeps_backed(2) [OF assms(1)]
  have "approvals_ok r' \<longleftrightarrow> distinct (map ca_outlineCharterId (cv_outlineCharterApprovals r'))
     \<and> approved_charters r' \<subseteq> ch_id ` set (cv_outlineCharters r')
     \<and> distinct (map oa_platformOutlineId (cv_platformOutlineApprovals r'))
     \<and> (\<forall>a \<in> set (cv_platformOutlineApprovals r') - set (cv_platformOutlineApprovals r). approval_backed r' a)"
    using assms(2) kept unfolding approvals_ok_def by blast
  also have \<dots> using assms
    by (induction rule: edit.induct) (auto simp: approvals_ok_def approved_charters_def approval_backed_def)
  finally show ?thesis .
qed

lemma edit_versions:
  assumes "edit r r'" and "generated_ok r"
  shows "numbered (map pl_version (outlines_for r' t))" "numbered (map df_version (drafts_for r' t))"
  using assms by (induction rule: edit.induct)
    (auto simp: generated_ok_def outlines_for_def drafts_for_def intro: numbered_snoc)

lemma edit_generated_ok:
  assumes "edit r r'" and "generated_ok r"
  shows "generated_ok r'"
proof -
  note kept = edit_keeps_backed [OF assms(1)] and versions = edit_versions [OF assms]
  have "(\<forall>o' \<in> set (cv_platformOutlines r') - set (cv_platformOutlines r). outline_backed r' o')
    \<and> (\<forall>d \<in> set (cv_drafts r') - set (cv_drafts r). draft_backed r' d)"
    using assms by (induction rule: edit.induct)
      (auto simp: outline_backed_def draft_backed_def approved_charters_def approved_outlines_def)
  with assms(2) kept versions show ?thesis unfolding generated_ok_def by blast
qed

lemma edit_keeps_ok: "edit r r' \<Longrightarrow> revision_ok r \<Longrightarrow> revision_ok r'"
  using edit_charters_ok edit_approvals_ok edit_generated_ok edit_targets unfolding revision_ok_def by metis

lemma edit_revision: "edit r r' \<Longrightarrow> cv_revision r' = cv_revision r \<and> cv_sourceOpportunity r' = cv_sourceOpportunity r"
  by (induction rule: edit.induct) simp_all

lemma numbered_last: "numbered (xs @ [x]) \<Longrightarrow> x = int (length xs) + 1"
  by (simp add: numbered_def)

lemma project_step_keeps_ok: "project_step p q \<Longrightarrow> project_ok p \<Longrightarrow> project_ok q"
proof (induction rule: project_step.induct)
  case (Edit p rs r r')
  then show ?case by (auto simp: project_ok_def dest: edit_revision intro: edit_keeps_ok)
next
  case (Next p rs r r')
  from Next have n: "numbered (map cv_revision rs @ [cv_revision r])" by (simp add: project_ok_def)
  from numbered_snoc [OF this, of "cv_revision r'"] numbered_last [OF n] Next
  have "numbered ((map cv_revision rs @ [cv_revision r]) @ [cv_revision r'])" by simp
  with Next show ?case by (auto simp: project_ok_def intro: blank_revision_ok)
next
  case (Touch p t)
  then show ?case by (simp add: project_ok_def)
qed

subsection \<open>History is only added to\<close>

definition same_intent :: "content_revision \<Rightarrow> content_revision \<Rightarrow> bool" where
  "same_intent r r' \<longleftrightarrow> cv_revision r' = cv_revision r \<and> cv_createdAt r' = cv_createdAt r \<and> cv_subject r' = cv_subject r
     \<and> cv_author r' = cv_author r \<and> cv_objective r' = cv_objective r \<and> cv_audience r' = cv_audience r
     \<and> cv_constraints r' = cv_constraints r \<and> cv_targets r' = cv_targets r \<and> cv_researchMode r' = cv_researchMode r
     \<and> cv_seedMaterial r' = cv_seedMaterial r \<and> cv_sourceOpportunity r' = cv_sourceOpportunity r"

definition kept :: "'a option \<Rightarrow> 'a option \<Rightarrow> bool" where
  "kept a b \<longleftrightarrow> (a = None \<or> b = a)"

definition revision_grows :: "content_revision \<Rightarrow> content_revision \<Rightarrow> bool" where
  "revision_grows r r' \<longleftrightarrow> same_intent r r'
     \<and> kept (cv_researchRequest r) (cv_researchRequest r') \<and> kept (cv_frozenEvidence r) (cv_frozenEvidence r')
     \<and> (cv_frozenEvidence r = None \<or> cv_evidenceReview r' = cv_evidenceReview r)
     \<and> prefix (cv_outlineCharters r) (cv_outlineCharters r')
     \<and> prefix (cv_outlineCharterApprovals r) (cv_outlineCharterApprovals r')
     \<and> prefix (cv_platformOutlines r) (cv_platformOutlines r')
     \<and> prefix (cv_platformOutlineApprovals r) (cv_platformOutlineApprovals r')
     \<and> prefix (cv_drafts r) (cv_drafts r')"

lemma revision_grows_refl: "revision_grows r r"
  by (simp add: revision_grows_def same_intent_def kept_def)

lemma revision_grows_trans: "revision_grows a b \<Longrightarrow> revision_grows b c \<Longrightarrow> revision_grows a c"
  unfolding revision_grows_def same_intent_def kept_def by (metis prefix_order.order_trans)

lemma edit_grows: "edit r r' \<Longrightarrow> revision_grows r r'"
  by (induction rule: edit.induct) (simp_all add: revision_grows_def same_intent_def kept_def started_def)

definition grows :: "content_project \<Rightarrow> content_project \<Rightarrow> bool" where
  "grows p q \<longleftrightarrow> cp_id q = cp_id p \<and> cp_createdAt q = cp_createdAt p
     \<and> length (cp_revisions p) \<le> length (cp_revisions q)
     \<and> (\<forall>i < length (cp_revisions p). revision_grows (cp_revisions p ! i) (cp_revisions q ! i))
     \<and> (\<forall>i. Suc i < length (cp_revisions p) \<longrightarrow> cp_revisions q ! i = cp_revisions p ! i)"

lemma grows_refl: "grows p p"
  by (simp add: grows_def revision_grows_refl)

lemma grows_trans: "grows p q \<Longrightarrow> grows q s \<Longrightarrow> grows p s"
  unfolding grows_def by (smt (verit) less_le_trans order_trans revision_grows_trans)

lemma project_step_grows: "project_step p q \<Longrightarrow> grows p q"
proof (induction rule: project_step.induct)
  case (Edit p rs r r')
  then show ?case
    by (auto simp: grows_def nth_append less_Suc_eq revision_grows_refl edit_grows)
next
  case (Next p rs r r')
  then show ?case by (auto simp: grows_def nth_append less_Suc_eq revision_grows_refl)
next
  case (Touch p t)
  then show ?case by (simp add: grows_def revision_grows_refl)
qed

text \<open>The first revision is never removed, so neither is the Opportunity a project came from.\<close>

lemma project_step_opportunity: "project_step p q \<Longrightarrow> opportunity_of q = opportunity_of p"
proof (induction rule: project_step.induct)
  case (Edit p rs r r')
  then show ?case by (cases rs) (auto simp: opportunity_of_def dest: edit_revision)
next
  case (Next p rs r r') then show ?case by (cases rs) (simp_all add: opportunity_of_def)
qed (simp add: opportunity_of_def)

lemma project_steps_opportunity: "project_steps p q \<Longrightarrow> opportunity_of q = opportunity_of p"
  by (induction rule: rtranclp_induct) (auto dest: project_step_opportunity)

interpretation history: project_law grows
  by unfold_locales (auto intro: grows_refl grows_trans project_step_grows)

interpretation chain: project_law "\<lambda>p q. project_ok p \<longrightarrow> project_ok q"
  by unfold_locales (auto intro: project_step_keeps_ok)

subsection \<open>The file\<close>

definition opportunities :: "content_project list \<Rightarrow> string list" where
  "opportunities ps = List.map_filter opportunity_of ps"

definition content_ok :: "content_file \<Rightarrow> bool" where
  "content_ok d \<longleftrightarrow> (\<forall>p \<in> set (projects_of d). project_ok p) \<and> distinct (opportunities (projects_of d))"

lemma set_update_first: "set (update_first P y xs) \<subseteq> insert y (set xs)"
  by (induction xs) auto

lemma opportunities_update:
  "find_by key k xs = Some x \<Longrightarrow> opportunity_of y = opportunity_of x \<Longrightarrow>
    opportunities (update_first (\<lambda>x. key x = k) y xs) = opportunities xs"
  by (induction xs) (auto simp: opportunities_def List.map_filter_simps split: if_splits option.splits)

lemma opportunities_snoc: "opportunities (xs @ [x]) = opportunities xs @ (case opportunity_of x of None \<Rightarrow> [] | Some k \<Rightarrow> [k])"
  by (induction xs) (auto simp: opportunities_def List.map_filter_simps split: option.splits)

lemma set_opportunities: "k \<in> set (opportunities xs) \<longleftrightarrow> (\<exists>x \<in> set xs. opportunity_of x = Some k)"
  by (induction xs) (auto simp: opportunities_def List.map_filter_simps split: option.splits)

lemma content_step_keeps_ok: "content_step d d' \<Longrightarrow> content_ok d \<Longrightarrow> content_ok d'"
proof (induction rule: content_step.induct)
  case (Change pid d p q)
  then have "p \<in> set (projects_of d)" by (auto dest: find_by_SomeD)
  with Change have "project_ok q" using chain.law_steps by (auto simp: content_ok_def)
  with Change set_update_first [of "\<lambda>x. cp_id x = pid" q "projects_of d"] show ?case
    by (auto simp: content_ok_def opportunities_update [OF _ project_steps_opportunity])
next
  case (Create p r d)
  then have "project_ok p" by (simp add: project_ok_def numbered_def blank_revision_ok)
  with Create show ?case
    by (auto simp: content_ok_def opportunities_snoc set_opportunities split: option.splits)
qed (simp_all add: content_ok_def projects_of_def)

lemma content_steps_keep_ok: "content_steps d d' \<Longrightarrow> content_ok d \<Longrightarrow> content_ok d'"
  by (induction rule: rtranclp_induct) (auto intro: content_step_keeps_ok)

end
