(* ===== verification/ContentRefines.thy ===== *)
theory ContentRefines
  imports ContentHistory
begin

section \<open>The commands take the steps of the specification\<close>

text \<open>Every command of a Content Project leaves a file that \<open>content_step\<close> reaches, whatever it answers.\<close>

definition moves :: "(content_file, 'e, 'a) cmd \<Rightarrow> bool" where
  "moves m \<longleftrightarrow> (\<forall>d. content_steps d (snd (m d)))"

lemma movesD: "moves m \<Longrightarrow> content_steps d (snd (m d))"
  by (simp add: moves_def)

named_theorems moves_intros \<open>commands that take steps\<close>

lemma moves_still [moves_intros]:
  "moves (ret x)" "moves (throw e)" "moves (query q)" "moves (check c)" "moves (require b e)"
  by (simp_all add: moves_def require_def)

lemma moves_andThen [moves_intros]:
  assumes "moves m" and "\<And>x. moves (f x)"
  shows "moves (andThen m f)"
  unfolding moves_def
proof
  fix d
  obtain r d' where md: "m d = (r, d')" by (cases "m d")
  with assms(1) have "content_steps d d'" by (auto simp: moves_def dest: spec [of _ d])
  moreover have "content_steps d' (snd (f x d'))" for x using assms(2) by (auto simp: moves_def)
  ultimately show "content_steps d (snd (andThen m f d))"
    using md by (cases r) (auto intro: rtranclp_trans)
qed

lemma moves_refusing [moves_intros]: "moves m \<Longrightarrow> moves (refusing m)"
  by (simp add: moves_def refusing_def split: prod.splits) (metis snd_conv)

lemma moves_elapse [moves_intros]: "(\<And>d. content_steps d (meanwhile d)) \<Longrightarrow> moves (elapse meanwhile)"
  by (simp add: moves_def elapse_def)

lemma moves_option [moves_intros]:
  "moves m \<Longrightarrow> (\<And>x. moves (f x)) \<Longrightarrow> moves (case v of None \<Rightarrow> m | Some x \<Rightarrow> f x)"
  by (cases v) simp_all

subsection \<open>Saving a project\<close>

lemma requireProject_Inr: "requireProject st pid = Inr p \<Longrightarrow> find_by cp_id pid (cs_projects st) = Some p"
  by (auto simp: requireProject_def split: option.splits)

lemma currentRevision_Inr: "currentRevision p = Inr r \<Longrightarrow> \<exists>rs. cp_revisions p = rs @ [r]"
  unfolding currentRevision_def by (auto split: if_splits) (metis append_butlast_last_id)

text \<open>A command at one file: it reads, checks and branches without moving, and saves at the end.\<close>

definition moves_at :: "content_file \<Rightarrow> (content_file, 'e, 'a) cmd \<Rightarrow> bool" where
  "moves_at d m \<longleftrightarrow> content_steps d (snd (m d))"

lemma movesI: "(\<And>d. moves_at d m) \<Longrightarrow> moves m"
  by (simp add: moves_def moves_at_def)

lemma at_still: "moves_at d (ret x)" "moves_at d (throw e)"
  by (simp_all add: moves_at_def)

lemma at_check: "(\<And>x. c = Inr x \<Longrightarrow> moves_at d (f x)) \<Longrightarrow> moves_at d (andThen (check c) f)"
  by (cases c) (simp_all add: moves_at_def andThen_run)

lemma at_query: "(\<And>x. q d = Inr x \<Longrightarrow> moves_at d (f x)) \<Longrightarrow> moves_at d (andThen (query q) f)"
  by (cases "q d") (simp_all add: moves_at_def andThen_run)

lemma at_require: "(b \<Longrightarrow> moves_at d (f ())) \<Longrightarrow> moves_at d (andThen (require b e) f)"
  by (cases b) (simp_all add: moves_at_def andThen_run)

lemma at_option:
  "(v = None \<Longrightarrow> moves_at d m) \<Longrightarrow> (\<And>x. v = Some x \<Longrightarrow> moves_at d (f x)) \<Longrightarrow>
    moves_at d (case v of None \<Rightarrow> m | Some x \<Rightarrow> f x)"
  by (cases v) simp_all

lemma at_split: "(\<And>a b. x = (a, b) \<Longrightarrow> moves_at d (f a b)) \<Longrightarrow> moves_at d (case x of (a, b) \<Rightarrow> f a b)"
  by (cases x) simp

lemma open_at:
  assumes "\<And>p r rs. find_by cp_id pid (projects_of d) = Some p \<Longrightarrow> cp_revisions p = rs @ [r] \<Longrightarrow>
    moves_at d (f (readState d) p r)"
  shows "moves_at d (open_project pid f)"
  unfolding open_project_def
proof (intro at_query at_check, elim sum.inject(2) [THEN iffD1, elim_format])
  fix st p r assume "readState d = st" and p: "requireProject st pid = Inr p" and r: "currentRevision p = Inr r"
  with assms requireProject_Inr [OF p] currentRevision_Inr [OF r] show "moves_at d (f st p r)"
    by (auto simp: projects_of_def)
qed

lemma save_steps:
  assumes "find_by cp_id pid (projects_of d) = Some p" and "project_steps p q"
  shows "moves_at d (andThen (save_project env i (readState d) q) (\<lambda>_. ret x))"
proof -
  let ?q = "q\<lparr>cp_updatedAt := ce_now env i\<rparr>"
  have id: "cp_id q = pid" using assms by (auto dest: find_by_SomeD project_steps_id)
  have "project_steps p ?q" using assms(2) project_step.Touch by (rule rtranclp.rtrancl_into_rtrancl)
  from content_step.Change [OF assms(1) this] id show ?thesis
    by (simp add: moves_at_def save_project_def writeState_def andThen_run projects_of_def)
qed

lemma change_revision_last: "cp_revisions p = rs @ [r] \<Longrightarrow> change_revision p r' = p\<lparr>cp_revisions := rs @ [r']\<rparr>"
  by (simp add: change_revision_def replace_last_def)

lemma change_steps:
  assumes "cp_revisions p = rs @ [r]" and "edit r r'"
  shows "project_step p (change_revision p r')"
  using project_step.Edit [OF assms] assms(1) by (simp add: change_revision_last)

lemma change_edits:
  assumes "cp_revisions p = rs @ [r]" and "edit\<^sup>*\<^sup>* r r'"
  shows "project_steps p (change_revision p r')"
  using assms(2)
proof (induction rule: rtranclp_induct)
  case base
  from assms(1) have "change_revision p r = p" by (cases p) (simp add: change_revision_last)
  then show ?case by simp
next
  case (step y z)
  have "project_step (change_revision p y) (change_revision (change_revision p y) z)"
    using assms(1) step.hyps(2) by (intro change_steps [of _ rs y]) (simp_all add: change_revision_last)
  with step.IH assms(1) show ?case by (simp add: change_revision_last)
qed

subsection \<open>New revisions\<close>

lemma validatedTargets_Inr: "validatedTargets ts = Inr us \<Longrightarrow> targets_ok us"
  by (auto simp: validatedTargets_def targets_ok_def list_ex_iff split: if_splits)

lemma buildRevision_Inr:
  "buildRevision seed = Inr r \<Longrightarrow> blank_revision r \<and> cv_revision r = sd_revision seed
     \<and> cv_sourceOpportunity r = sd_sourceOpportunity seed \<and> cv_evidenceReview r = sd_evidenceReview seed
     \<and> cv_author r = sd_author seed \<and> cv_researchMode r = sd_researchMode seed \<and> cv_subject r = sd_subject seed"
  by (auto simp: buildRevision_def blank_revision_def split: sum.splits dest: validatedTargets_Inr)

lemma append_steps:
  assumes "cp_revisions p = rs @ [r]" and "blank_revision r'" and "cv_revision r' = cv_revision r + 1"
    and "cv_sourceOpportunity r' = cv_sourceOpportunity r"
  shows "project_step p (append_revision p r')"
  using project_step.Next [OF assms] assms(1) by (simp add: append_revision_def)

lemma nextRevision_Inr:
  "nextRevision r at review = Inr r' \<Longrightarrow> blank_revision r' \<and> cv_revision r' = cv_revision r + 1
     \<and> cv_sourceOpportunity r' = cv_sourceOpportunity r \<and> cv_evidenceReview r' = review
     \<and> cv_author r' = cv_author r \<and> cv_researchMode r' = cv_researchMode r \<and> cv_subject r' = cv_subject r"
  unfolding nextRevision_def by (drule buildRevision_Inr) simp

lemma onto_next_Inr:
  assumes "onto_next needed at review p r = Inr (p', r')" and "cp_revisions p = rs @ [r]"
  obtains rs' where "cp_revisions p' = rs' @ [r']" "project_steps p p'" "needed \<Longrightarrow> blank_revision r'" "\<not> needed \<Longrightarrow> r' = r"
proof (cases needed)
  case True
  with assms(1) have made: "nextRevision r at review = Inr r'" "p' = append_revision p r'"
    by (auto simp: onto_next_def split: sum.splits)
  with append_steps [OF assms(2)] nextRevision_Inr [OF made(1)] made(2) have "project_step p p'" by simp
  with True that [of "rs @ [r]"] made nextRevision_Inr [OF made(1)] assms(2) show ?thesis
    by (auto simp: append_revision_def)
next
  case False
  with assms(1) have "p' = p" "r' = r" by (simp_all add: onto_next_def)
  with assms(2) False show ?thesis by (intro that [of rs]) simp_all
qed

lemma onto_next_blank:
  "onto_next needed at review p r = Inr (p', r') \<Longrightarrow> if needed then blank_revision r' else r' = r"
  by (auto simp: onto_next_def dest: nextRevision_Inr split: if_splits sum.splits)

lemma onto_next_change:
  assumes "onto_next needed at review p r = Inr (p', r')" and "cp_revisions p = rs @ [r]" and "edit r' r''"
  shows "project_steps p (change_revision p' r'')"
  using onto_next_Inr [OF assms(1,2)] change_steps [OF _ assms(3)]
  by (metis rtranclp.rtrancl_into_rtrancl)

subsection \<open>Authors\<close>

lemma authorizeAuthor_moves: "moves (authorizeAuthor env k)"
  unfolding authorizeAuthor_def Let_def
  by (intro movesI at_check at_query at_option at_still)
    (auto simp: moves_at_def andThen_run writeState_def intro: content_step.Authorize)

lemma approveContentVoice_moves: "moves (approveContentVoice env k markdown)"
  unfolding approveContentVoice_def Let_def
  by (intro movesI at_check at_query at_require)
    (auto simp: moves_at_def andThen_run writeState_def intro: content_step.Voice)

subsection \<open>Creating and revising\<close>

lemma projectByOpportunity_None:
  "projectByOpportunity k d = None \<Longrightarrow> \<forall>x \<in> set (projects_of d). opportunity_of x \<noteq> Some k"
  by (auto simp: projectByOpportunity_def find_None_iff projects_of_def opportunity_of_def split: list.splits)

lemma initialRevision_Inr:
  "initialRevision env input author = Inr r \<Longrightarrow> blank_revision r \<and> cv_revision r = 1
    \<and> map_option so_opportunityId (cv_sourceOpportunity r) = map_option so_opportunityId (nc_sourceOpportunity input)"
  by (auto simp: initialRevision_def option.map_comp comp_def split: sum.splits dest!: buildRevision_Inr)

lemma createProject_moves: "moves (createProject env input)"
  unfolding createProject_def Let_def
proof (intro movesI at_check at_query)
  fix d u author revision st
  assume new: "(case nc_sourceOpportunity input of None \<Rightarrow> Inr ()
       | Some o' \<Rightarrow> (case projectByOpportunity (so_opportunityId o') d of None \<Rightarrow> Inr ()
           | Some linked \<Rightarrow> Inl (refused OpportunityAlreadyLinked (''Opportunity '' @ so_opportunityId o'
               @ '' already seeded Project '' @ cp_id linked @ ''; one Opportunity seeds exactly one Project.'')))) = Inr u"
    and made: "initialRevision env input author = Inr revision" and st: "Inr (readState d) = Inr st"
  let ?p = "\<lparr>cp_id = new_identifier env ''project'' 3, cp_createdAt = ce_now env 2, cp_updatedAt = ce_now env 2,
    cp_revisions = [revision]\<rparr>"
  have "\<forall>x \<in> set (projects_of d). opportunity_of x \<noteq> Some k" if "opportunity_of ?p = Some k" for k
  proof -
    from that initialRevision_Inr [OF made] obtain o' where "nc_sourceOpportunity input = Some o'" "so_opportunityId o' = k"
      by (auto simp: opportunity_of_def)
    with new have "projectByOpportunity k d = None" by (auto split: option.splits)
    then show ?thesis by (rule projectByOpportunity_None)
  qed
  with content_step.Create [of ?p revision d] initialRevision_Inr [OF made] st
  show "moves_at d (andThen (writeState (st\<lparr>cs_projects := cs_projects st @ [?p]\<rparr>)) (\<lambda>_. ret ?p))"
    by (auto simp: moves_at_def andThen_run writeState_def projects_of_def)
qed

lemma startProject_moves: "moves (startProject env s)"
  unfolding startProject_def by (intro moves_intros createProject_moves)

lemma revised_intent_Inr:
  "revised_intent env st r patch = Inr r' \<Longrightarrow> blank_revision r' \<and> cv_revision r' = cv_revision r + 1
    \<and> cv_sourceOpportunity r' = cv_sourceOpportunity r"
  by (auto simp: revised_intent_def split: sum.splits dest!: buildRevision_Inr)

lemma reviseIntent_moves: "moves (reviseIntent env pid patch)"
  unfolding reviseIntent_def
proof (intro movesI open_at at_check save_steps)
  fix d and p :: content_project and r rs r' assume "cp_revisions p = rs @ [r]" and r': "revised_intent env (readState d) r patch = Inr r'"
  with revised_intent_Inr [OF r'] show "project_steps p (append_revision p r')"
    by (auto intro: append_steps)
qed

subsection \<open>Evidence\<close>

lemma attachEvidence_moves: "moves (attachEvidence env pid attachment)"
  unfolding attachEvidence_def Let_def
proof (intro movesI open_at at_check at_split at_require save_steps)
  fix d and p :: content_project and r rs x p' r' e
  assume rs: "cp_revisions p = rs @ [r]"
    and "onto_next (started r) (ce_now env 0) None p r = Inr x" and "x = (p', r')"
  then have on: "onto_next (started r) (ce_now env 0) None p r = Inr (p', r')" by simp
  from onto_next_blank [OF this] have "\<not> started r'" by (auto simp: started_def blank_revision_def split: if_splits)
  then show "project_steps p (change_revision p' (r'\<lparr>cv_evidenceReview := Some \<lparr>er_attachedAt = ce_now env 1,
    er_sourceItems = ea_sourceItems attachment, er_diagnostics = ea_diagnostics attachment\<rparr>\<rparr>))"
    by (intro onto_next_change [OF on rs] edit.Review)
qed

lemma known_items_SomeD: "known_items items i = Some x \<Longrightarrow> x \<in> set items \<and> si_id x = i"
  unfolding known_items_def by (auto dest: map_of_SomeD)

lemma currentVoice_SomeD: "currentVoice st k = Some v \<Longrightarrow> vo_profileId v = k \<and> v \<in> set (cs_contentVoices st)"
  using last_in_set by (fastforce simp: currentVoice_def Let_def split: if_splits)

text \<open>What the checks of a freeze establish, for any freeze made of the selection.\<close>

lemma freeze_checks_sound:
  assumes ok: "freeze_checks env st r selection = Inr u"
    and items: "ef_sourceItems f = map (\<lambda>i. the (known_items (review_items r) i)) (uniqueBy id (es_includedSourceItemIds selection))"
    and rest: "ef_diagnostics f = review_diagnostics r" "ef_userMaterial f = cv_seedMaterial r"
      "ef_contentVoice f = the (currentVoice st (ar_profileId (cv_author r)))"
      "ef_noExternalResearchAcknowledged f = es_noExternalResearchAcknowledged selection"
  shows "freeze_sound r f"
proof -
  let ?ids = "uniqueBy id (es_includedSourceItemIds selection)"
  have gates: "missingFreezeGates env st r = []" using ok by (auto simp: freeze_checks_def Let_def split: if_splits)
  then obtain m v where m: "cv_researchMode r = Some m" and v: "currentVoice st (ar_profileId (cv_author r)) = Some v"
    by (auto simp: missingFreezeGates_def split: option.splits if_splits)
  have found: "\<exists>x. known_items (review_items r) i = Some x" if "i \<in> set ?ids" for i
    using ok that by (auto simp: freeze_checks_def Let_def list_ex_iff split: if_splits)
  have the_item: "the (known_items (review_items r) i) \<in> set (review_items r)" "si_id (the (known_items (review_items r) i)) = i"
    if "i \<in> set ?ids" for i
    using found [OF that] by (auto dest: known_items_SomeD)
  then have "map si_id (ef_sourceItems f) = ?ids" by (auto simp: items intro: map_idI)
  then have "distinct (map si_id (ef_sourceItems f))" by (metis distinct_uniqueBy_id)
  moreover have "set (ef_sourceItems f) \<subseteq> set (review_items r)" using the_item by (auto simp: items)
  moreover have "if m = NoExternalResearch then ef_sourceItems f = [] \<and> ef_diagnostics f = [] \<and> ef_noExternalResearchAcknowledged f
      else ef_sourceItems f \<noteq> []"
    using ok m by (auto simp: freeze_checks_def Let_def items rest split: if_splits)
  ultimately show ?thesis
    using rest m v currentVoice_SomeD [OF v] by (simp add: freeze_sound_def)
qed

lemma freezeEvidence_moves: "moves (freezeEvidence env pid selection)"
  unfolding freezeEvidence_def Let_def
proof (intro movesI open_at at_check at_split save_steps)
  fix d and p :: content_project and r rs x p' r' u projections
  assume rs: "cp_revisions p = rs @ [r]"
    and "onto_next (cv_frozenEvidence r \<noteq> None) (ce_now env 0) (cv_evidenceReview r) p r = Inr x" and "x = (p', r')"
    and checks: "freeze_checks env (readState d) r' selection = Inr u"
  then have on: "onto_next (cv_frozenEvidence r \<noteq> None) (ce_now env 0) (cv_evidenceReview r) p r = Inr (p', r')" by simp
  from onto_next_blank [OF this] have "cv_frozenEvidence r' = None" by (auto simp: blank_revision_def split: if_splits)
  then show "project_steps p (change_revision p' (r'\<lparr>cv_frozenEvidence := Some \<lparr>ef_frozenAt = ce_now env 1,
      ef_sourceItems = map (\<lambda>i. the (known_items (review_items r') i)) (uniqueBy id (es_includedSourceItemIds selection)),
      ef_diagnostics = review_diagnostics r', ef_brandVoice = the (ce_brand env),
      ef_contentVoice = the (currentVoice (readState d) (ar_profileId (cv_author r'))),
      ef_profileProjections = projections, ef_userMaterial = cv_seedMaterial r',
      ef_noExternalResearchAcknowledged = es_noExternalResearchAcknowledged selection\<rparr>\<rparr>))"
    by (intro onto_next_change [OF on rs] edit.Freeze freeze_checks_sound [OF checks]) simp_all
qed

lemma land_research_moves: "moves (land_research env pid plan result)"
  unfolding land_research_def Let_def
proof (intro movesI open_at at_check at_split save_steps)
  fix d and p :: content_project and r rs x p' r' and u :: unit
  assume rs: "cp_revisions p = rs @ [r]"
    and "onto_next (research_started r) (ce_now env 0) None p r = Inr x" and "x = (p', r')"
  then have on: "onto_next (research_started r) (ce_now env 0) None p r = Inr (p', r')" by simp
  from onto_next_blank [OF this] have "\<not> started r'" "cv_researchRequest r' = None"
    by (auto simp: started_def research_started_def blank_revision_def split: if_splits)
  then show "project_steps p (change_revision p' (r'\<lparr>cv_researchRequest := Some \<lparr>rq_id = new_identifier env ''research'' 1,
      rq_projectId = pid, rq_projectRevision = cv_revision r', rq_scope = rn_scope plan, rq_bundle = rn_bundle plan,
      rq_limits = rn_limits plan, rq_result = result\<rparr>,
      cv_evidenceReview := Some \<lparr>er_attachedAt = ce_now env 2,
        er_sourceItems = uniqueBy si_id (review_items r @ rr_sourceItems result),
        er_diagnostics = review_diagnostics r @ map po_diagnostic (rr_providerOutcomes result)\<rparr>\<rparr>))"
    by (intro onto_next_change [OF on rs] edit.Research)
qed

lemma open_check_moves: "moves (open_project pid (\<lambda>st p r. check (g st p r)))"
  by (intro movesI open_at) (simp add: moves_at_def)

lemma runResearchRequest_moves:
  assumes "\<And>d. content_steps d (meanwhile d)"
  shows "moves (runResearchRequest env later meanwhile pid input)"
  unfolding runResearchRequest_def
  by (intro moves_andThen open_check_moves moves_elapse land_research_moves assms)

subsection \<open>Charters\<close>

lemma gates_open_Inr: "gates_open env st r code message = Inr u \<Longrightarrow> missingGates env st r = []"
  by (auto simp: gates_open_def Let_def split: if_splits)

lemma gates_frozen: "missingGates env st r = [] \<Longrightarrow> \<exists>f. cv_frozenEvidence r = Some f"
  by (auto simp: missingGates_def split: if_splits)

lemma charter_of_Inr:
  "charter_of env pid r f input = Inr c \<Longrightarrow> charter_sound r f c \<and> ch_version c = int (length (cv_outlineCharters r)) + 1
    \<and> ch_id c = new_identifier env ''brief'' 0"
  by (auto simp: charter_of_def charter_sound_def charter_ids_def list_ex_iff split: if_splits sum.splits)

lemma proposeOutlineCharter_moves: "moves (proposeOutlineCharter env pid input)"
  unfolding proposeOutlineCharter_def
proof (intro movesI open_at at_check save_steps)
  fix d and p :: content_project and r rs u c
  assume rs: "cp_revisions p = rs @ [r]"
    and gates: "gates_open env (readState d) r OutlineCharterBlocked
       ''An Outline Charter cannot be proposed until these gates are present: '' = Inr u"
    and c: "charter_of env pid r (the (cv_frozenEvidence r)) input = Inr c"
  from gates_frozen [OF gates_open_Inr [OF gates]] obtain f where f: "cv_frozenEvidence r = Some f" ..
  with charter_of_Inr [OF c] have "edit r (r\<lparr>cv_outlineCharters := cv_outlineCharters r @ [c]\<rparr>)"
    by (intro edit.Propose [OF f]) simp_all
  from change_steps [OF rs this]
  show "project_steps p (change_revision p (r\<lparr>cv_outlineCharters := cv_outlineCharters r @ [c]\<rparr>))" ..
qed

lemma approveOutlineCharter_moves: "moves (approveOutlineCharter env pid k)"
  unfolding approveOutlineCharter_def Let_def
proof (intro movesI open_at at_check at_require at_option at_still save_steps)
  fix d and p :: content_project and r rs
  assume rs: "cp_revisions p = rs @ [r]" and k: "list_ex (\<lambda>b. ch_id b = k) (cv_outlineCharters r)"
    and new: "find_by ca_outlineCharterId k (cv_outlineCharterApprovals r) = None"
  let ?a = "\<lparr>ca_outlineCharterId = k, ca_approvedAt = ce_now env 0\<rparr>"
  from k new have "edit r (r\<lparr>cv_outlineCharterApprovals := cv_outlineCharterApprovals r @ [?a]\<rparr>)"
    by (intro edit.ApproveCharter) (auto simp: list_ex_iff find_by_None_iff)
  from change_steps [OF rs this]
  show "project_steps p (change_revision p (r\<lparr>cv_outlineCharterApprovals := cv_outlineCharterApprovals r @ [?a]\<rparr>))" ..
qed

subsection \<open>Outlines and Drafts\<close>

lemma each_of_Inr:
  "each_of f xs = Inr ys \<Longrightarrow> list_all2 (\<lambda>x y. f x = Inr y) xs ys"
  by (induction f xs arbitrary: ys rule: each_of.induct) (auto split: sum.splits)

lemma each_of_Inr_ex: "each_of f xs = Inr ys \<Longrightarrow> y \<in> set ys \<Longrightarrow> \<exists>x \<in> set xs. f x = Inr y"
proof (induction xs arbitrary: ys)
  case (Cons x xs)
  then obtain z zs where "f x = Inr z" "each_of f xs = Inr zs" "ys = z # zs" by (auto split: sum.splits)
  with Cons.IH [OF this(2)] Cons.prems(2) show ?case by auto
qed simp

lemma find_SomeD: "find P xs = Some x \<Longrightarrow> x \<in> set xs \<and> P x"
  by (induction xs) (auto split: if_splits)

lemma latestApproved_SomeD:
  "latestApproved items ids m idOf = Some x \<Longrightarrow> x \<in> set items \<and> m x \<and> idOf x \<in> set ids"
  unfolding latestApproved_def by (drule find_SomeD) simp

lemma latest_charter: "latestApprovedOutlineCharter r = Some c \<Longrightarrow>
    c \<in> set (cv_outlineCharters r) \<and> ch_id c \<in> approved_charters r"
  unfolding latestApprovedOutlineCharter_def approved_charters_def by (drule latestApproved_SomeD) simp

lemma latest_outline: "latestApprovedPlatformOutline r t = Some o' \<Longrightarrow>
    o' \<in> set (cv_platformOutlines r) \<and> pl_target o' = t \<and> pl_id o' \<in> approved_outlines r"
  unfolding latestApprovedPlatformOutline_def approved_outlines_def by (drule latestApproved_SomeD) simp

lemma outline_beat_Inr:
  "outline_beat_of approved (i, b) = Inr beat \<Longrightarrow> ob_position beat = int i + 1
    \<and> set (ee_sourceItemIds (ob_evidence beat)) \<subseteq> set approved"
  by (auto simp: outline_beat_of_def list_ex_iff split: if_splits sum.splits)

lemma outline_beats_Inr:
  assumes "each_of (outline_beat_of approved) (indexed bs) = Inr beats"
  shows "map ob_position beats = map (\<lambda>i. int i + 1) [0..<length beats]" "length beats = length bs"
    "\<And>b. b \<in> set beats \<Longrightarrow> set (ee_sourceItemIds (ob_evidence b)) \<subseteq> set approved"
proof -
  note all = each_of_Inr [OF assms]
  then show len: "length beats = length bs" by (simp add: list_all2_conv_all_nth)
  have "ob_position (beats ! i) = int i + 1" if "i < length beats" for i
  proof -
    from all that len have "outline_beat_of approved (indexed bs ! i) = Inr (beats ! i)"
      by (simp add: list_all2_conv_all_nth)
    with that len show ?thesis by (simp add: indexed_def outline_beat_Inr)
  qed
  then show "map ob_position beats = map (\<lambda>i. int i + 1) [0..<length beats]"
    by (intro nth_equalityI) simp_all
  show "set (ee_sourceItemIds (ob_evidence b)) \<subseteq> set approved" if "b \<in> set beats" for b
    using each_of_Inr_ex [OF assms that] by (auto dest: outline_beat_Inr)
qed

lemma buildOutline_Inr:
  assumes "buildOutline env i pid c target version instruction result = Inr o'"
  shows "outline_sound c o'" "pl_target o' = target" "pl_version o' = version" "pl_id o' = new_identifier env ''outline'' i"
proof -
  from assms obtain beats title hook len where
    beats: "each_of (outline_beat_of (cited_ids (ch_evidenceMap c))) (indexed (ot_beats result)) = Inr beats"
    and some: "ot_beats result \<noteq> []"
    and o': "o' = \<lparr>pl_id = new_identifier env ''outline'' i, pl_projectId = pid, pl_projectRevision = ch_projectRevision c,
        pl_target = target, pl_outlineCharterId = ch_id c, pl_outlineCharterVersion = ch_version c,
        pl_version = version, pl_generatedAt = ce_now env i, pl_instruction = instruction, pl_title = title,
        pl_hookDirection = hook, pl_thesis = ch_thesis c, pl_beats = beats, pl_ctaIntent = ch_ctaIntent c,
        pl_targetLength = len, pl_constraints = ch_constraints c,
        pl_warnings = cleanList (ot_warnings result), pl_productionNotes = cleanList (ot_productionNotes result)\<rparr>"
    by (auto simp: buildOutline_def split: if_splits sum.splits)
  with outline_beats_Inr [OF beats] show "outline_sound c o'"
    by (auto simp: outline_sound_def charter_ids_def)
  show "pl_target o' = target" "pl_version o' = version" "pl_id o' = new_identifier env ''outline'' i" by (simp_all add: o')
qed

lemma draft_claim_Inr:
  "draft_claim_of approved (t, ids) = Inr k \<Longrightarrow> dc_sourceItemIds k = ids
    \<and> (dc_supported k \<longleftrightarrow> ids \<noteq> [] \<and> set ids \<subseteq> set approved)"
  by (auto simp: draft_claim_of_def list_all_iff split: sum.splits)

lemma buildDraft_Inr:
  assumes "buildDraft env i pid c o' target version instruction result = Inr d"
    and "pl_target o' = target" and "pl_outlineCharterId o' = ch_id c"
  shows "draft_sound c o' d" "df_target d = target" "df_version d = version"
proof -
  from assms(1) obtain wording claims where
    claims: "each_of (draft_claim_of (cited_ids (ch_evidenceMap c))) (dr_claims result) = Inr claims"
    and d: "d = \<lparr>df_id = new_identifier env ''draft'' i, df_projectId = pid, df_projectRevision = pl_projectRevision o',
        df_target = target, df_platformOutlineId = pl_id o', df_outlineVersion = pl_version o', df_version = version,
        df_generatedAt = ce_now env i, df_instruction = instruction, df_copy = wording, df_thesis = ch_thesis c,
        df_evidence = ch_evidenceMap c, df_claims = claims,
        df_unsupportedClaimPolicy = CONTENT_ENGINE_UNSUPPORTED_CLAIM_POLICY,
        df_productionNotes = cleanList (dr_productionNotes result)\<rparr>"
    by (auto simp: buildDraft_def split: sum.splits)
  have "dc_supported k \<longleftrightarrow> dc_sourceItemIds k \<noteq> [] \<and> set (dc_sourceItemIds k) \<subseteq> charter_ids c" if "k \<in> set claims" for k
    using each_of_Inr_ex [OF claims that] by (auto simp: charter_ids_def dest: draft_claim_Inr)
  with assms(2,3) show "draft_sound c o' d" by (simp add: draft_sound_def d)
  show "df_target d = target" "df_version d = version" by (simp_all add: d)
qed

lemma plannedBrief_Inr: "plannedBrief env st r = Inr c \<Longrightarrow>
    missingGates env st r = [] \<and> latestApprovedOutlineCharter r = Some c"
  by (auto simp: plannedBrief_def dest: gates_open_Inr split: sum.splits option.splits)

lemma plannedOutlineGeneration_Inr:
  assumes "plannedOutlineGeneration env st r target = Inr plan"
  shows "missingGates env st r = []" "latestApprovedOutlineCharter r = Some (op_brief plan)"
    "target \<in> set (cv_targets r)" "op_version plan = int (length (outlines_for r target)) + 1"
  using assms by (auto simp: plannedOutlineGeneration_def dest: plannedBrief_Inr split: sum.splits if_splits)

lemma plannedDraftGeneration_Inr:
  assumes "plannedDraftGeneration env st r target = Inr plan"
  shows "missingGates env st r = []" "latestApprovedPlatformOutline r target = Some (dp_outline plan)"
    "target \<in> set (cv_targets r)" "dp_brief plan \<in> set (cv_outlineCharters r)"
    "pl_outlineCharterId (dp_outline plan) = ch_id (dp_brief plan)"
    "dp_version plan = int (length (drafts_for r target)) + 1"
  using assms by (auto simp: plannedDraftGeneration_def dest: gates_open_Inr find_by_SomeD
    split: sum.splits if_splits option.splits)

lemma outline_edit:
  assumes "latestApprovedOutlineCharter r = Some c"
    and "buildOutline env i pid c target (int (length (outlines_for r target)) + 1) instruction result = Inr o'"
  shows "edit r (r\<lparr>cv_platformOutlines := cv_platformOutlines r @ [o']\<rparr>)"
  using latest_charter [OF assms(1)] buildOutline_Inr [OF assms(2)]
  by (intro edit.AddOutline [of c]) (simp_all add: approved_charters_def)

lemma draft_edit:
  assumes plan: "plannedDraftGeneration env st r target = Inr plan"
    and built: "buildDraft env' i pid (dp_brief plan) (dp_outline plan) target (dp_version plan) instruction result = Inr d"
  shows "edit r (r\<lparr>cv_drafts := cv_drafts r @ [d]\<rparr>)"
proof -
  note facts = plannedDraftGeneration_Inr [OF plan]
  note o' = latest_outline [OF facts(2)]
  from buildDraft_Inr [OF built _ facts(5)] o' have "draft_sound (dp_brief plan) (dp_outline plan) d"
    "df_target d = target" "df_version d = dp_version plan" by simp_all
  with facts o' show ?thesis by (intro edit.AddDraft [of "dp_brief plan" _ "dp_outline plan"]) (simp_all add: approved_outlines_def)
qed

lemma land_version_moves:
  assumes "\<And>st r landed x. plan st r = Inr landed \<Longrightarrow> build landed = Inr x \<Longrightarrow> edit r (commit x r)"
  shows "moves (land_version env pid plan changed build commit)"
  unfolding land_version_def
proof (intro movesI open_at at_check save_steps)
  fix d and p :: content_project and r rs landed u x
  assume rs: "cp_revisions p = rs @ [r]" and "plan (readState d) r = Inr landed" and "build landed = Inr x"
  from change_steps [OF rs assms [OF this(2,3)]] show "project_steps p (change_revision p (commit x r))" ..
qed

lemma land_outline_moves: "moves (land_outline env pid target instruction planned result)"
  unfolding land_outline_def
proof (rule land_version_moves)
  fix st r landed o'
  assume plan: "plannedOutlineGeneration env st r target = Inr landed"
    and built: "buildOutline env 0 pid (op_brief landed) target (op_version landed) instruction result = Inr o'"
  from plannedOutlineGeneration_Inr [OF plan] built
  show "edit r (r\<lparr>cv_platformOutlines := cv_platformOutlines r @ [o']\<rparr>)" by (intro outline_edit) simp_all
qed

lemma land_draft_moves: "moves (land_draft env pid target instruction planned result)"
  unfolding land_draft_def by (intro land_version_moves draft_edit)

lemma runVersionedGeneration_moves:
  assumes "\<And>d. content_steps d (meanwhile d)" and "\<And>x t. moves (landing x t)"
  shows "moves (runVersionedGeneration pid plan noEvidence call meanwhile landing)"
  unfolding runVersionedGeneration_def planned_on_def evidence_for_def
  by (intro moves_andThen moves_refusing moves_elapse moves_still moves_option open_check_moves assms)

lemma generateOutline_moves:
  "(\<And>d. content_steps d (meanwhile d)) \<Longrightarrow> moves (generateOutline env later meanwhile generator pid target given)"
  unfolding generateOutline_def
  by (intro moves_andThen moves_refusing moves_still runVersionedGeneration_moves land_outline_moves)

lemma generateDraft_moves:
  "(\<And>d. content_steps d (meanwhile d)) \<Longrightarrow> moves (generateDraft env later meanwhile generator pid target given)"
  unfolding generateDraft_def
  by (intro moves_andThen moves_refusing moves_still runVersionedGeneration_moves land_draft_moves)

subsection \<open>The Outline Set\<close>

lemma land_each_edits:
  assumes "latestApprovedOutlineCharter r = Some c"
  shows "\<exists>made failed. land_each env i pid c xs r
      = (r\<lparr>cv_platformOutlines := cv_platformOutlines r @ made\<rparr>, made, failed)
    \<and> edit\<^sup>*\<^sup>* r (r\<lparr>cv_platformOutlines := cv_platformOutlines r @ made\<rparr>)"
  using assms
proof (induction env i pid c xs r rule: land_each.induct)
  case (1 env i pid c r)
  show ?case by (intro exI [of _ "[]"] conjI) simp_all
next
  case (2 env i pid c target answer rest r)
  let ?built = "case answer of Inl e \<Rightarrow> Inl e | Inr result \<Rightarrow> as_failure (buildOutline env i pid c target
    (int (length (outlines_for r target)) + 1) None result)"
  show ?case
  proof (cases ?built)
    case (Inl e)
    with 2 show ?thesis by fastforce
  next
    case (Inr o')
    let ?r = "r\<lparr>cv_platformOutlines := cv_platformOutlines r @ [o']\<rparr>"
    from Inr obtain result where "buildOutline env i pid c target (int (length (outlines_for r target)) + 1) None result = Inr o'"
      by (auto simp: as_failure_def split: sum.splits)
    with 2 have e: "edit r ?r" by (intro outline_edit)
    have "latestApprovedOutlineCharter ?r = Some c" using 2 by (simp add: latestApprovedOutlineCharter_def)
    from 2(2) [OF Inr this] obtain made failed where
      m: "land_each env (Suc i) pid c rest ?r = (?r\<lparr>cv_platformOutlines := cv_platformOutlines ?r @ made\<rparr>, made, failed)"
      "edit\<^sup>*\<^sup>* ?r (?r\<lparr>cv_platformOutlines := cv_platformOutlines ?r @ made\<rparr>)" by blast
    have "?r\<lparr>cv_platformOutlines := cv_platformOutlines ?r @ made\<rparr>
      = r\<lparr>cv_platformOutlines := cv_platformOutlines r @ (o' # made)\<rparr>" by simp
    with m(2) converse_rtranclp_into_rtranclp [of edit, OF e]
    have "edit\<^sup>*\<^sup>* r (r\<lparr>cv_platformOutlines := cv_platformOutlines r @ (o' # made)\<rparr>)" by simp
    then show ?thesis using m(1) Inr by (intro exI [of _ "o' # made"] exI [of _ failed] conjI) simp_all
  qed
qed

lemma land_outline_set_moves: "moves (land_outline_set env pid planned settled)"
  unfolding land_outline_set_def
proof (intro movesI open_at at_option at_still at_require)
  fix d and p :: content_project and r rs c
  assume p: "find_by cp_id pid (projects_of d) = Some p" and rs: "cp_revisions p = rs @ [r]"
    and c: "latestApprovedOutlineCharter r = Some c"
  from land_each_edits [OF c] obtain made failed where
    m: "land_each env 0 pid c (zip (sp_pending planned) settled) r
        = (r\<lparr>cv_platformOutlines := cv_platformOutlines r @ made\<rparr>, made, failed)"
      "edit\<^sup>*\<^sup>* r (r\<lparr>cv_platformOutlines := cv_platformOutlines r @ made\<rparr>)" by blast
  show "moves_at d (case land_each env 0 pid c (zip (sp_pending planned) settled) r of (r', made, failed) \<Rightarrow>
         let outcome = \<lparr>os_outlineCharterId = ch_id c, os_outlineCharterVersion = ch_version c,
               os_generated = made, os_failures = failed\<rparr> in
         if made = [] then ret outcome
         else andThen (save_project env (length settled) (readState d) (change_revision p r')) (\<lambda>_. ret outcome))"
    by (simp add: m(1) Let_def at_still save_steps [OF p change_edits [OF rs m(2)]])
qed

lemma generateOutlineSet_moves:
  "(\<And>d. content_steps d (meanwhile d)) \<Longrightarrow> moves (generateOutlineSet env later meanwhile generator pid concurrency)"
  unfolding generateOutlineSet_def planned_on_def evidence_for_def
  by (intro moves_andThen moves_refusing moves_elapse moves_still moves_option open_check_moves land_outline_set_moves)

lemma approveOutline_moves: "moves (approveOutline env pid target)"
  unfolding approveOutline_def Let_def
proof (intro movesI open_at at_option at_still save_steps)
  fix d and p :: content_project and r rs o'
  assume rs: "cp_revisions p = rs @ [r]" and found: "find (\<lambda>o'. pl_target o' = target) (rev (cv_platformOutlines r)) = Some o'"
    and new: "find_by oa_platformOutlineId (pl_id o') (cv_platformOutlineApprovals r) = None"
  let ?a = "\<lparr>oa_platformOutlineId = pl_id o', oa_target = target, oa_approvedAt = ce_now env 0\<rparr>"
  from found have "o' \<in> set (cv_platformOutlines r)" "pl_target o' = target"
    by (auto dest!: find_SomeD)
  with new have "edit r (r\<lparr>cv_platformOutlineApprovals := cv_platformOutlineApprovals r @ [?a]\<rparr>)"
    by (intro edit.ApproveOutline [of o']) (auto simp: find_by_None_iff)
  from change_steps [OF rs this]
  show "project_steps p (change_revision p (r\<lparr>cv_platformOutlineApprovals := cv_platformOutlineApprovals r @ [?a]\<rparr>))" ..
qed

end
