(* ===== verification/ContentActions.thy ===== *)
theory ContentActions
  imports ContentRefines
begin

section \<open>Histories of Content Projects\<close>

text \<open>
  Everything that happens to the file of Content Projects, one atomic write at a time.  A generation or a Research
  Request is here only its landing, with any plan and any answer, because its planning and its calls do not change the
  file; so every interleaving of the commands is a list of actions.  Then what the properties of the component share,
  and a Project that goes all the way to a Draft.
\<close>

datatype content_action =
    ActAuthorize string
  | ActApproveVoice string string
  | ActCreate project_create_input
  | ActStart opportunity_start
  | ActRevise string intent_patch
  | ActAttach string evidence_attachment
  | ActFreeze string evidence_selection
  | ActLandResearch string research_plan research_result
  | ActPropose string charter_input
  | ActApproveCharter string string
  | ActLandOutline string string "string option" outline_plan outline_result
  | ActLandOutlineSet string set_plan "(generation_failure + outline_result) list"
  | ActApproveOutline string string
  | ActLandDraft string string "string option" draft_plan draft_result

definition silent :: "('s, 'e, 'a) cmd \<Rightarrow> ('s, 'e, unit) cmd" where
  "silent m = andThen m (\<lambda>_. ret ())"

fun run_action :: "content_env \<Rightarrow> content_action \<Rightarrow> unit content_cmd" where
  "run_action env (ActAuthorize k) = silent (authorizeAuthor env k)"
| "run_action env (ActApproveVoice k t) = silent (approveContentVoice env k t)"
| "run_action env (ActCreate i) = silent (createProject env i)"
| "run_action env (ActStart s) = silent (startProject env s)"
| "run_action env (ActRevise pid patch) = silent (reviseIntent env pid patch)"
| "run_action env (ActAttach pid a) = silent (attachEvidence env pid a)"
| "run_action env (ActFreeze pid s) = silent (freezeEvidence env pid s)"
| "run_action env (ActLandResearch pid plan result) = silent (land_research env pid plan result)"
| "run_action env (ActPropose pid i) = silent (proposeOutlineCharter env pid i)"
| "run_action env (ActApproveCharter pid k) = silent (approveOutlineCharter env pid k)"
| "run_action env (ActLandOutline pid t ins plan result) = silent (land_outline env pid t ins plan result)"
| "run_action env (ActLandOutlineSet pid plan results) = silent (land_outline_set env pid plan results)"
| "run_action env (ActApproveOutline pid t) = silent (approveOutline env pid t)"
| "run_action env (ActLandDraft pid t ins plan result) = silent (land_draft env pid t ins plan result)"

definition act :: "content_env \<times> content_action \<Rightarrow> content_file \<Rightarrow> content_file" where
  "act = (\<lambda>(env, a) d. snd (run_action env a d))"

definition acts :: "(content_env \<times> content_action) list \<Rightarrow> content_file \<Rightarrow> content_file" where
  "acts = fold act"

lemma silent_moves: "moves m \<Longrightarrow> moves (silent m)"
  unfolding silent_def by (intro moves_andThen moves_still)

lemma run_action_moves: "moves (run_action env a)"
  by (cases a) (simp_all add: silent_moves authorizeAuthor_moves approveContentVoice_moves createProject_moves
    startProject_moves reviseIntent_moves attachEvidence_moves freezeEvidence_moves land_research_moves
    proposeOutlineCharter_moves approveOutlineCharter_moves land_outline_moves land_outline_set_moves
    approveOutline_moves land_draft_moves)

lemma act_steps: "content_steps d (act x d)"
  by (cases x) (simp add: act_def movesD [OF run_action_moves])

lemma acts_steps: "content_steps d (acts xs d)"
  by (induction xs arbitrary: d) (simp_all add: acts_def, metis act_steps rtranclp_trans)

lemma acts_ok: "content_ok d \<Longrightarrow> content_ok (acts xs d)"
  using content_steps_keep_ok [OF acts_steps] .

lemma content_ok_Missing [simp]: "content_ok ContentMissing"
  by (simp add: content_ok_def projects_of_def opportunities_def List.map_filter_simps)

lemma getProject_find: "getProject pid d = find_by cp_id pid (projects_of d)"
  by (simp add: getProject_def projects_of_def)

subsection \<open>A refused command\<close>

definition still_when_refused :: "(content_file, 'e, 'a) cmd \<Rightarrow> bool" where
  "still_when_refused m \<longleftrightarrow> (\<forall>d e d'. m d = (Inl e, d') \<longrightarrow> d' = d)"

definition reads :: "(content_file, 'e, 'a) cmd \<Rightarrow> bool" where
  "reads m \<longleftrightarrow> (\<forall>d. snd (m d) = d)"

definition answers :: "(content_file, 'e, 'a) cmd \<Rightarrow> bool" where
  "answers m \<longleftrightarrow> (\<forall>d. \<not> isl (fst (m d)))"

lemma reads_still: "reads (ret x)" "reads (throw e)" "reads (query q)" "reads (check c)" "reads (require b e)"
  by (simp_all add: reads_def require_def)

lemma still_reads: "reads m \<Longrightarrow> still_when_refused m"
  by (auto simp: reads_def still_when_refused_def) (metis snd_conv)

lemma still_answers: "answers m \<Longrightarrow> still_when_refused m"
  by (auto simp: answers_def still_when_refused_def) (metis fst_conv isl_def)

lemma still_andThen:
  assumes "reads m" and "\<And>x. still_when_refused (f x)"
  shows "still_when_refused (andThen m f)"
  unfolding still_when_refused_def
proof (intro allI impI)
  fix d e d' assume "andThen m f d = (Inl e, d')"
  then show "d' = d"
  proof (cases rule: andThen_InlE)
    case 1 with assms(1) show ?thesis unfolding reads_def by (metis snd_conv)
  next
    case (2 x d'')
    then have "d'' = d" using assms(1) unfolding reads_def by (metis snd_conv)
    with 2 assms(2) show ?thesis by (auto simp: still_when_refused_def)
  qed
qed

lemma still_ret_after: "still_when_refused m \<Longrightarrow> still_when_refused (andThen m (\<lambda>x. ret (g x)))"
  by (auto simp: still_when_refused_def elim!: andThen_InlE)

lemma still_silent: "still_when_refused m \<Longrightarrow> still_when_refused (silent m)"
  unfolding silent_def by (rule still_ret_after)

lemma still_save: "still_when_refused (andThen (save_project env i st p) (\<lambda>_. ret x))"
  by (intro still_answers) (simp add: answers_def save_project_def writeState_def andThen_run)

lemma still_write: "still_when_refused (andThen (writeState st) (\<lambda>_. ret x))"
  by (intro still_answers) (simp add: answers_def writeState_def andThen_run)

lemma still_option:
  "still_when_refused m \<Longrightarrow> (\<And>x. still_when_refused (f x)) \<Longrightarrow> still_when_refused (case v of None \<Rightarrow> m | Some x \<Rightarrow> f x)"
  by (cases v) simp_all

lemma still_split: "(\<And>a b. still_when_refused (f a b)) \<Longrightarrow> still_when_refused (case x of (a, b) \<Rightarrow> f a b)"
  by (cases x) simp

lemma still_if: "still_when_refused m \<Longrightarrow> still_when_refused n \<Longrightarrow> still_when_refused (if b then m else n)"
  by simp

lemma still_simple: "still_when_refused (ret x)" "still_when_refused (throw e)"
  by (simp_all add: still_when_refused_def)

lemma still_open: "(\<And>st p r. still_when_refused (f st p r)) \<Longrightarrow> still_when_refused (open_project pid f)"
  unfolding open_project_def by (intro still_andThen reads_still)

lemmas still_intros = still_open still_andThen reads_still still_save still_write still_option still_split still_if still_simple

lemma still_create: "still_when_refused (createProject env i)"
  unfolding createProject_def Let_def by (intro still_intros)

lemma still_start: "still_when_refused (startProject env s)"
  unfolding startProject_def
  by (rule still_andThen [OF reads_still(3)], intro still_option still_simple still_ret_after still_create)

lemma still_outline_set: "still_when_refused (land_outline_set env pid plan results)"
  unfolding land_outline_set_def Let_def by (intro still_intros)

lemma still_version: "still_when_refused (land_version env pid plan changed build commit)"
  unfolding land_version_def by (intro still_intros)

lemma still_landings: "still_when_refused (land_research env pid rplan result)"
  "still_when_refused (land_outline env pid t ins plan answer)" "still_when_refused (land_draft env pid t ins dplan draft)"
  unfolding land_research_def land_outline_def land_draft_def Let_def by (intro still_intros still_version)+

lemma still_evidence: "still_when_refused (attachEvidence env pid a)" "still_when_refused (freezeEvidence env pid s)"
  "still_when_refused (proposeOutlineCharter env pid i)" "still_when_refused (approveOutlineCharter env pid k)"
  "still_when_refused (approveOutline env pid t)" "still_when_refused (reviseIntent env pid patch)"
  unfolding attachEvidence_def freezeEvidence_def proposeOutlineCharter_def approveOutlineCharter_def
    approveOutline_def reviseIntent_def Let_def
  by (intro still_intros)+

lemma still_authors: "still_when_refused (authorizeAuthor env k)" "still_when_refused (approveContentVoice env k t)"
  unfolding authorizeAuthor_def approveContentVoice_def Let_def by (intro still_intros)+

lemma still_action: "still_when_refused (run_action env a)"
  by (cases a) (simp_all add: still_silent still_create still_start still_outline_set still_landings still_evidence still_authors)

end
