(* ===== verification/ContentFacts.thy ===== *)
theory ContentFacts
  imports ContentActions
begin

section \<open>What an answered generation did\<close>

subsection \<open>Opening and saving\<close>

lemma current_of_find:
  "find_by cp_id pid (projects_of d) = Some p \<Longrightarrow> cp_revisions p = rs @ [r] \<Longrightarrow> current_of pid d = Inr r"
  by (simp add: current_of_def requireProject_def currentRevision_def projects_of_def)

lemma open_InrE:
  assumes "open_project pid f d = (Inr x, d')"
  obtains p r rs where "find_by cp_id pid (projects_of d) = Some p" "cp_revisions p = rs @ [r]"
    "current_of pid d = Inr r" "f (readState d) p r d = (Inr x, d')"
proof -
  from assms obtain st p r where st: "readState d = st" and p: "requireProject st pid = Inr p"
    and r: "currentRevision p = Inr r" and f: "f st p r d = (Inr x, d')"
    unfolding open_project_def by (elim query_InrE check_InrE) (rule that, simp_all)
  from requireProject_Inr [OF p] currentRevision_Inr [OF r] st obtain rs
    where "find_by cp_id pid (projects_of d) = Some p" "cp_revisions p = rs @ [r]" by (auto simp: projects_of_def)
  with current_of_find [OF this] f st show thesis by (intro that) simp_all
qed

lemma open_run:
  "find_by cp_id pid (projects_of d) = Some p \<Longrightarrow> cp_revisions p = rs @ [r] \<Longrightarrow>
    open_project pid f d = f (readState d) p r d"
  by (simp add: open_project_def andThen_run requireProject_def currentRevision_def projects_of_def)

lemma planned_on_InrE:
  assumes "planned_on pid plan d = (Inr x, d')"
  obtains r where "d' = d" "current_of pid d = Inr r" "plan (readState d) r = Inr x"
  using assms unfolding planned_on_def by (elim open_InrE) (auto intro: that)

lemma refusing_Inr: "refusing m d = (Inr x, d') \<longleftrightarrow> m d = (Inr x, d')"
  by (auto simp: refusing_def as_failure_def split: prod.splits sum.splits)

lemma refusing_InrE:
  assumes "andThen (refusing m) f d = (Inr y, d')"
  obtains x d'' where "m d = (Inr x, d'')" "f x d'' = (Inr y, d')"
  using assms by (auto elim!: andThen_InrE simp: refusing_Inr)

lemma refusing_check_InrE:
  assumes "andThen (refusing (check c)) f d = (Inr y, d')"
  obtains x where "c = Inr x" "f x d = (Inr y, d')"
  using assms by (elim refusing_InrE) (simp add: that)

lemma elapse_InrE:
  assumes "andThen (elapse meanwhile) f d = (Inr y, d')"
  obtains "f () (meanwhile d) = (Inr y, d')"
  using assms by (auto simp: elapse_def andThen_run)

lemma evidence_for_InrE:
  assumes "evidence_for pid e d = (Inr ev, d')"
  obtains "d' = d" "promptEvidence pid d = Inr (Some ev)"
  using assms by (auto simp: evidence_for_def andThen_run split: sum.splits option.splits)

text \<open>The file after a project's last revision was replaced.\<close>

lemma save_change:
  assumes "find_by cp_id pid (projects_of d) = Some p" and "cp_revisions p = rs @ [r]"
    and "andThen (save_project env i (readState d) (change_revision p r')) (\<lambda>_. ret x) d = (Inr y, d')"
  obtains p' where "y = x" "find_by cp_id pid (projects_of d') = Some p'" "cp_revisions p' = rs @ [r']"
    "readState d' = (readState d)\<lparr>cs_projects := projects_of d'\<rparr>"
proof -
  let ?p = "(change_revision p r')\<lparr>cp_updatedAt := ce_now env i\<rparr>"
  have id: "cp_id p = pid" using assms(1) by (auto dest: find_by_SomeD)
  then have d': "d' = stored_state ((readState d)\<lparr>cs_projects := update_first (\<lambda>q. cp_id q = pid) ?p (projects_of d)\<rparr>)" "y = x"
    using assms(3) by (auto simp: save_project_def writeState_def andThen_run change_revision_def projects_of_def)
  have "find_by cp_id pid (projects_of d') = Some ?p"
    using assms(1) id by (simp add: d' find_by_update_same change_revision_def)
  moreover have "cp_revisions ?p = rs @ [r']" by (simp add: change_revision_last [OF assms(2)])
  ultimately show thesis using d' by (intro that [of ?p]) simp_all
qed

subsection \<open>One version\<close>

lemma land_version_InrE:
  assumes "land_version env pid plan changed build commit d = (Inr x, d')"
  obtains r landed where "current_of pid d = Inr r" "plan (readState d) r = Inr landed" "changed landed = None"
    "build landed = Inr x" "current_of pid d' = Inr (commit x r)"
  using assms unfolding land_version_def
proof (elim open_InrE run_elims)
  fix p r rs landed y u
  assume p: "find_by cp_id pid (projects_of d) = Some p" "cp_revisions p = rs @ [r]" and r: "current_of pid d = Inr r"
    and plan: "plan (readState d) r = Inr landed" and same: "(case changed landed of None \<Rightarrow> Inr () | Some e \<Rightarrow> Inl e) = Inr y"
    and built: "build landed = Inr u"
    and saved: "andThen (save_project env 1 (readState d) (change_revision p (commit u r))) (\<lambda>_. ret u) d = (Inr x, d')"
  from save_change [OF p saved] have "x = u" "current_of pid d' = Inr (commit u r)" by (auto dest: current_of_find)
  with r plan same built show thesis by (intro that) (simp_all split: option.splits)
qed

lemma runVersionedGeneration_InrE:
  assumes "runVersionedGeneration pid plan noEvidence call meanwhile landing d = (Inr x, d')"
  obtains r planned ev t where "current_of pid d = Inr r" "plan (readState d) r = Inr planned"
    "promptEvidence pid d = Inr (Some ev)" "call planned ev = Inr t" "landing planned t (meanwhile d) = (Inr x, d')"
  using assms unfolding runVersionedGeneration_def
  by (elim refusing_InrE planned_on_InrE evidence_for_InrE elapse_InrE check_InrE) (simp add: refusing_Inr)

subsection \<open>The Outline Set\<close>

lemma land_each_result:
  assumes "land_each env i pid c xs r = (r', made, failed)" and "distinct (map fst xs)"
  shows "map of_target failed = filter (\<lambda>t. t \<notin> pl_target ` set made) (map fst xs)
    \<and> (\<forall>o' \<in> set made. pl_outlineCharterId o' = ch_id c) \<and> pl_target ` set made \<subseteq> set (map fst xs)"
  using assms
proof (induction env i pid c xs r arbitrary: r' made failed rule: land_each.induct)
  case (2 env i pid c target answer rest r)
  let ?built = "case answer of Inl e \<Rightarrow> Inl e | Inr result \<Rightarrow> as_failure (buildOutline env i pid c target
    (int (length (outlines_for r target)) + 1) None result)"
  show ?case
  proof (cases ?built)
    case (Inl e)
    with "2.prems"(1) obtain failed' where l: "land_each env (Suc i) pid c rest r = (r', made, failed')"
      "failed = outlineSetFailure target e # failed'" by (auto split: prod.splits)
    have "of_target (outlineSetFailure target e) = target"
      by (cases e) (simp_all add: outlineSetFailure_def)
    with "2.IH"(1) [OF Inl l(1)] "2.prems"(2) l(2) show ?thesis by auto
  next
    case (Inr o')
    with "2.prems"(1) obtain made' where
      l: "land_each env (Suc i) pid c rest (r\<lparr>cv_platformOutlines := cv_platformOutlines r @ [o']\<rparr>) = (r', made', failed)"
      "made = o' # made'" by (auto split: prod.splits)
    from Inr obtain result where
      "buildOutline env i pid c target (int (length (outlines_for r target)) + 1) None result = Inr o'"
      by (auto simp: as_failure_def split: sum.splits)
    from buildOutline_Inr [OF this] have o': "pl_target o' = target" "pl_outlineCharterId o' = ch_id c"
      by (simp_all add: outline_sound_def)
    have "filter (\<lambda>t. t \<noteq> target \<and> t \<notin> pl_target ` set made') (map fst rest)
      = filter (\<lambda>t. t \<notin> pl_target ` set made') (map fst rest)"
      using "2.prems"(2) by (intro filter_cong) auto
    with "2.IH"(2) [OF Inr l(1)] "2.prems"(2) l(2) o' show ?thesis by auto
  qed
qed simp_all

text \<open>The gates read nothing that landing an outline changes.\<close>

lemma missingGates_outlines [simp]:
  "missingGates env st (r\<lparr>cv_platformOutlines := os\<rparr>) = missingGates env st r"
  by (simp add: missingGates_def)

lemma missingGates_projects [simp]: "missingGates env (st\<lparr>cs_projects := ps\<rparr>) r = missingGates env st r"
  by (simp add: missingGates_def isAuthorized_def has_policy_def currentVoice_def)

lemma latest_charter_outlines [simp]:
  "latestApprovedOutlineCharter (r\<lparr>cv_platformOutlines := os\<rparr>) = latestApprovedOutlineCharter r"
  by (simp add: latestApprovedOutlineCharter_def)

lemma plannedBrief_outlines [simp]:
  "plannedBrief env (st\<lparr>cs_projects := ps\<rparr>) (r\<lparr>cv_platformOutlines := os\<rparr>) = plannedBrief env st r"
  by (simp add: plannedBrief_def gates_open_def Let_def)

definition pending_for :: "outline_charter \<Rightarrow> platform_outline list \<Rightarrow> string list" where
  "pending_for c os = filter (\<lambda>target. \<not> list_ex (\<lambda>o'. pl_target o' = target \<and> pl_outlineCharterId o' = ch_id c) os)
     (ch_targets c)"

lemma plannedOutlineSet_pending: "plannedOutlineSet env st r = Inr plan \<longleftrightarrow>
    plannedBrief env st r = Inr (sp_brief plan) \<and> sp_pending plan = pending_for (sp_brief plan) (cv_platformOutlines r)"
  by (cases plan) (auto simp: plannedOutlineSet_def pending_for_def split: sum.splits)

lemma pending_after:
  assumes "\<forall>o' \<in> set made. pl_outlineCharterId o' = ch_id c"
  shows "pending_for c (os @ made) = filter (\<lambda>t. t \<notin> pl_target ` set made) (pending_for c os)"
  using assms by (auto simp: pending_for_def list_ex_iff intro!: filter_cong)

lemma charter_targets_distinct:
  assumes "revision_ok r" and "c \<in> set (cv_outlineCharters r)"
  shows "distinct (ch_targets c)"
proof -
  from assms obtain f where "charter_sound r f c" by (auto simp: revision_ok_defs split: option.splits)
  with assms(1) show ?thesis by (simp add: charter_sound_def revision_ok_def targets_ok_def)
qed

lemma current_of_ok:
  assumes "content_ok d" and "current_of pid d = Inr r"
  shows "revision_ok r"
proof -
  from assms(2) obtain p where p: "requireProject (readState d) pid = Inr p" "currentRevision p = Inr r"
    by (auto simp: current_of_def split: sum.splits)
  from requireProject_Inr [OF p(1)] have "p \<in> set (projects_of d)" by (auto simp: projects_of_def dest: find_by_SomeD)
  with assms(1) currentRevision_Inr [OF p(2)] show ?thesis by (auto simp: content_ok_def project_ok_def)
qed

text \<open>The plan that a set generation leaves: the same brief, and exactly the targets that failed.\<close>

lemma land_set_InrE:
  assumes ok: "content_ok d" and planned: "planned_on pid (plannedOutlineSet env) d = (Inr plan, d0)"
    and landed: "land_outline_set later pid plan settled d = (Inr outcome, d')"
    and len: "length settled = length (sp_pending plan)"
  shows "planned_on pid (plannedOutlineSet env) d'
    = (Inr (plan\<lparr>sp_pending := map of_target (os_failures outcome)\<rparr>), d')"
proof -
  from landed obtain p r rs where p: "find_by cp_id pid (projects_of d) = Some p" "cp_revisions p = rs @ [r]"
    and r: "current_of pid d = Inr r"
    and run: "(case latestApprovedOutlineCharter r of
       None \<Rightarrow> throw (refused OutlineGenerationBlocked
         ''The Project changed while the Outline Set was generated; approve the Brief on the current revision and generate again.'')
     | Some brief \<Rightarrow>
         andThen (require (ch_id brief = ch_id (sp_brief plan)) (refused OutlineGenerationBlocked
           ''The Project changed while the Outline Set was generated; approve the Brief on the current revision and generate again.''))
           (\<lambda>_. case land_each later 0 pid brief (zip (sp_pending plan) settled) r of (r', made, failed) \<Rightarrow>
         let outcome = \<lparr>os_outlineCharterId = ch_id brief, os_outlineCharterVersion = ch_version brief,
               os_generated = made, os_failures = failed\<rparr> in
         if made = [] then ret outcome
         else andThen (save_project later (length settled) (readState d) (change_revision p r')) (\<lambda>_. ret outcome))) d = (Inr outcome, d')"
    unfolding land_outline_set_def by (elim open_InrE)
  from planned r have plan: "plannedBrief env (readState d) r = Inr (sp_brief plan)"
    "sp_pending plan = pending_for (sp_brief plan) (cv_platformOutlines r)"
    by (auto elim!: planned_on_InrE simp: plannedOutlineSet_pending)
  then have c: "latestApprovedOutlineCharter r = Some (sp_brief plan)" by (auto dest: plannedBrief_Inr)
  let ?c = "sp_brief plan"
  obtain made failed where
    each: "land_each later 0 pid ?c (zip (sp_pending plan) settled) r
      = (r\<lparr>cv_platformOutlines := cv_platformOutlines r @ made\<rparr>, made, failed)"
    using land_each_edits [OF c] by blast
  have "distinct (sp_pending plan)"
    using charter_targets_distinct [OF current_of_ok [OF ok r]] latest_charter [OF c] by (simp add: plan(2) pending_for_def)
  with land_each_result [OF each] len
  have result: "map of_target failed = filter (\<lambda>t. t \<notin> pl_target ` set made) (sp_pending plan)"
    "\<forall>o' \<in> set made. pl_outlineCharterId o' = ch_id ?c" by simp_all
  let ?r = "r\<lparr>cv_platformOutlines := cv_platformOutlines r @ made\<rparr>"
  have next_plan: "plannedOutlineSet env ((readState d)\<lparr>cs_projects := ps\<rparr>) ?r
      = Inr (plan\<lparr>sp_pending := map of_target failed\<rparr>)" for ps
    by (simp add: plannedOutlineSet_pending plan pending_after [OF result(2)] result(1))
  show ?thesis
  proof (cases "made = []")
    case True
    with run c each have d': "d' = d" "os_failures outcome = failed" by (auto simp: Let_def andThen_run require_run split: if_splits)
    have "?r = r" using True by simp
    with next_plan [of "cs_projects (readState d)"] show ?thesis
      by (simp add: d' planned_on_def open_run [OF p])
  next
    case False
    have saved: "andThen (save_project later (length settled) (readState d) (change_revision p ?r))
        (\<lambda>_. ret \<lparr>os_outlineCharterId = ch_id ?c, os_outlineCharterVersion = ch_version ?c,
               os_generated = made, os_failures = failed\<rparr>) d = (Inr outcome, d')"
      using run by (simp only: c option.case each prod.case Let_def False if_False
        andThen_run [of "require b e" for b e] require_True refl sum.case)
    obtain p' where p': "find_by cp_id pid (projects_of d') = Some p'" "cp_revisions p' = rs @ [?r]"
      and st: "readState d' = (readState d)\<lparr>cs_projects := projects_of d'\<rparr>" and failures: "os_failures outcome = failed"
      using save_change [OF p saved] by (metis outline_set_outcome.select_convs(4))
    show ?thesis unfolding planned_on_def open_run [OF p'] check_run st next_plan failures ..
  qed
qed

subsection \<open>A file that cannot be read\<close>

text \<open>A command sees of the file only what \<open>readState\<close> makes of it, and writes the whole file or nothing.\<close>

definition blind :: "(content_file, 'e, 'a) cmd \<Rightarrow> bool" where
  "blind m \<longleftrightarrow> (\<forall>d d'. readState d = readState d' \<longrightarrow> fst (m d) = fst (m d')
     \<and> (snd (m d) = d \<and> snd (m d') = d' \<or> snd (m d) = snd (m d')))"

lemma blind_still: "blind (ret x)" "blind (throw e)" "blind (check c)" "blind (require b e)"
  by (simp_all add: blind_def require_def)

lemma blind_query: "(\<And>d d'. readState d = readState d' \<Longrightarrow> q d = q d') \<Longrightarrow> blind (query q)"
  unfolding blind_def query_run fst_conv snd_conv by blast

lemma blind_write: "blind (writeState st)" "blind (save_project env i st p)"
  by (simp_all add: blind_def writeState_def save_project_def)

lemma blind_andThen:
  assumes "reads m" and "blind m" and "\<And>x. blind (f x)"
  shows "blind (andThen m f)"
  unfolding blind_def
proof (intro allI impI)
  fix d d' assume same: "readState d = readState d'"
  with assms(2) have "fst (m d) = fst (m d')" unfolding blind_def by blast
  moreover have "snd (m d) = d" "snd (m d') = d'" using assms(1) by (simp_all add: reads_def)
  ultimately obtain r where m: "m d = (r, d)" "m d' = (r, d')" by (metis prod.collapse)
  show "fst (andThen m f d) = fst (andThen m f d') \<and> (snd (andThen m f d) = d \<and> snd (andThen m f d') = d'
     \<or> snd (andThen m f d) = snd (andThen m f d'))"
  proof (cases r)
    case (Inr x)
    from assms(3) [of x] same have "fst (f x d) = fst (f x d')
      \<and> (snd (f x d) = d \<and> snd (f x d') = d' \<or> snd (f x d) = snd (f x d'))" unfolding blind_def by blast
    then show ?thesis unfolding andThen_run m Inr prod.case sum.case .
  qed (simp add: andThen_run m)
qed

lemma blind_after:
  assumes "blind m"
  shows "blind (andThen m (\<lambda>x. ret (g x)))"
  unfolding blind_def
proof (intro allI impI)
  fix d d' assume same: "readState d = readState d'"
  obtain r s r' s' where m: "m d = (r, s)" "m d' = (r', s')" by fastforce
  with assms same have "r' = r" "s = d \<and> s' = d' \<or> s = s'" by (force simp: blind_def)+
  with m show "fst (andThen m (\<lambda>x. ret (g x)) d) = fst (andThen m (\<lambda>x. ret (g x)) d')
    \<and> (snd (andThen m (\<lambda>x. ret (g x)) d) = d \<and> snd (andThen m (\<lambda>x. ret (g x)) d') = d'
      \<or> snd (andThen m (\<lambda>x. ret (g x)) d) = snd (andThen m (\<lambda>x. ret (g x)) d'))"
    by (cases r) (simp_all add: andThen_run)
qed

lemma blind_option: "blind m \<Longrightarrow> (\<And>x. blind (f x)) \<Longrightarrow> blind (case v of None \<Rightarrow> m | Some x \<Rightarrow> f x)"
  by (cases v) simp_all

lemma blind_split: "(\<And>a b. blind (f a b)) \<Longrightarrow> blind (case x of (a, b) \<Rightarrow> f a b)"
  by (cases x) simp

lemma blind_if: "blind m \<Longrightarrow> blind n \<Longrightarrow> blind (if b then m else n)"
  by simp

lemma blind_query_then:
  "(\<And>d d'. readState d = readState d' \<Longrightarrow> q d = q d') \<Longrightarrow> (\<And>x. blind (f x)) \<Longrightarrow> blind (andThen (query q) f)"
  by (rule blind_andThen [OF reads_still(3) blind_query])

lemma blind_read: "(\<And>x. blind (f x)) \<Longrightarrow> blind (andThen (query (\<lambda>d. Inr (readState d))) f)"
  by (rule blind_query_then) simp_all

lemma blind_open: "(\<And>st p r. blind (f st p r)) \<Longrightarrow> blind (open_project pid f)"
  unfolding open_project_def by (intro blind_read blind_andThen reads_still blind_still)

lemmas blind_intros = blind_open blind_read blind_after [OF blind_write(1)] blind_after [OF blind_write(2)]
  blind_andThen reads_still blind_still blind_option blind_split blind_if

lemma blind_create: "blind (createProject env i)"
  unfolding createProject_def projectByOpportunity_def Let_def
  by (rule blind_query_then, simp cong: option.case_cong, rule blind_query_then, simp,
      intro blind_andThen [OF reads_still(4) blind_still(3)] blind_read blind_after blind_write)

lemma blind_start: "blind (startProject env s)"
  unfolding startProject_def projectByOpportunity_def
  by (rule blind_query_then, simp, intro blind_option blind_still blind_after blind_create)

lemma blind_landings: "blind (land_research env pid rplan result)" "blind (land_outline env pid t ins plan answer)"
  "blind (land_draft env pid t ins dplan draft)" "blind (land_outline_set env pid splan results)"
  unfolding land_research_def land_outline_def land_draft_def land_version_def land_outline_set_def Let_def
  by (intro blind_intros)+

lemma blind_evidence: "blind (attachEvidence env pid a)" "blind (freezeEvidence env pid s)"
  "blind (proposeOutlineCharter env pid i)" "blind (approveOutlineCharter env pid k)"
  "blind (approveOutline env pid t)" "blind (reviseIntent env pid patch)"
  "blind (authorizeAuthor env k)" "blind (approveContentVoice env k m)"
  unfolding attachEvidence_def freezeEvidence_def proposeOutlineCharter_def approveOutlineCharter_def
    approveOutline_def reviseIntent_def authorizeAuthor_def approveContentVoice_def Let_def
  by (intro blind_intros)+

lemma blind_action: "blind (run_action env a)"
  by (cases a) (simp_all add: silent_def blind_after blind_create blind_start blind_landings blind_evidence)

subsection \<open>Opportunities and Research Requests\<close>

lemma createProject_InrE:
  assumes "createProject env i d = (Inr p, d')"
  obtains r where "projects_of d' = projects_of d @ [p]" "cp_revisions p = [r]"
    "map_option so_opportunityId (cv_sourceOpportunity r) = map_option so_opportunityId (nc_sourceOpportunity i)"
proof -
  from assms obtain author r st where made: "initialRevision env i author = Inr r" and st: "Inr (readState d) = Inr st"
    and saved: "andThen (writeState (st\<lparr>cs_projects := cs_projects st @ [\<lparr>cp_id = new_identifier env ''project'' 3,
        cp_createdAt = ce_now env 2, cp_updatedAt = ce_now env 2, cp_revisions = [r]\<rparr>]\<rparr>))
      (\<lambda>_. ret \<lparr>cp_id = new_identifier env ''project'' 3, cp_createdAt = ce_now env 2, cp_updatedAt = ce_now env 2,
        cp_revisions = [r]\<rparr>) d = (Inr p, d')"
    unfolding createProject_def Let_def by (elim query_InrE check_InrE) (rule that, simp_all)
  from saved st have "p = \<lparr>cp_id = new_identifier env ''project'' 3, cp_createdAt = ce_now env 2, cp_updatedAt = ce_now env 2,
      cp_revisions = [r]\<rparr>" "projects_of d' = projects_of d @ [p]"
    by (auto simp: andThen_run writeState_def projects_of_def)
  with initialRevision_Inr [OF made] show thesis by (intro that [of r]) simp_all
qed

lemma projectByOpportunity_find:
  "projectByOpportunity k d = find (\<lambda>p. opportunity_of p = Some k) (projects_of d)"
  unfolding projectByOpportunity_def projects_of_def
  by (rule arg_cong [where f = "\<lambda>P. find P _"]) (auto simp: opportunity_of_def split: list.splits)

lemma find_snoc: "find P (xs @ [x]) = (case find P xs of None \<Rightarrow> if P x then Some x else None | Some y \<Rightarrow> Some y)"
  by (induction xs) auto

lemma started_project_found:
  assumes "startProject env s d = (Inr (k, c), d')"
  shows "\<exists>p. projectByOpportunity (st_opportunityId s) d' = Some p \<and> cp_id p = k"
proof (cases "projectByOpportunity (st_opportunityId s) d")
  case (Some p)
  with assms show ?thesis by (simp add: startProject_def andThen_run)
next
  case None
  with assms obtain p where made: "createProject env (opportunity_input s) d = (Inr p, d')" "k = cp_id p"
    by (auto simp: startProject_def andThen_run split: prod.splits sum.splits)
  obtain r where "projects_of d' = projects_of d @ [p]" "cp_revisions p = [r]"
    "map_option so_opportunityId (cv_sourceOpportunity r) = Some (st_opportunityId s)"
    by (rule createProject_InrE [OF made(1)]) (simp add: opportunity_input_def)
  with None made(2) show ?thesis by (simp add: projectByOpportunity_find find_snoc opportunity_of_def)
qed

lemma validatedLimits_Inr: "validatedLimits l = Inr l' \<Longrightarrow> l' = l \<and> 1 \<le> rl_maxQueriesPerProvider l \<and> 1 \<le> rl_maxSourceItems l"
  by (auto simp: validatedLimits_def split: if_splits)

lemma validatedBundle_Inr: "validatedBundle b = Inr b' \<Longrightarrow> pb_providerIds b' \<noteq> [] \<and> distinct (pb_providerIds b')"
proof -
  have "distinct xs" if "length (uniqueBy id xs) = length xs" for xs :: "string list"
    using that distinct_uniqueBy_id [of xs] set_uniqueBy_id [of xs] by (metis card_distinct distinct_card)
  then show "validatedBundle b = Inr b' \<Longrightarrow> ?thesis" by (auto simp: validatedBundle_def Let_def split: if_splits)
qed

lemma required_providers: "each_of (requireResearchProvider env) ids = Inr ps \<Longrightarrow> map rp_id ps = ids"
proof (induction ids arbitrary: ps)
  case (Cons k ids)
  then obtain p qs where "requireResearchProvider env k = Inr p" "each_of (requireResearchProvider env) ids = Inr qs" "ps = p # qs"
    by (auto split: sum.splits)
  with Cons.IH [OF this(2)] show ?case by (auto simp: requireResearchProvider_def dest: find_by_SomeD split: option.splits)
qed simp

lemma plan_research_Inr:
  assumes "plan_research env r input = Inr plan"
  shows "map rp_id (rn_providers plan) = pb_providerIds (rn_bundle plan)" "pb_providerIds (rn_bundle plan) \<noteq> []"
    "distinct (pb_providerIds (rn_bundle plan))" "1 \<le> rl_maxQueriesPerProvider (rn_limits plan)"
    "1 \<le> rl_maxSourceItems (rn_limits plan)" "rn_limits plan = ri_limits input"
  using assms by (auto simp: plan_research_def split: sum.splits dest: validatedLimits_Inr validatedBundle_Inr required_providers)

lemma research_queries:
  "x \<in> set (rr_providerOutcomes (runFiniteResearch de clock ps bundle limits scope subject)) \<Longrightarrow>
    po_queries x \<le> max 0 (rl_maxQueriesPerProvider limits)"
  using length_plannedQueries [of scope subject limits]
  by (auto simp: runFiniteResearch_def Let_def lookup_outcome_def split: prod.splits)

lemma land_research_Inr:
  "land_research env pid plan result d = (Inr q, d') \<Longrightarrow> rq_result q = result \<and> rq_limits q = rn_limits plan \<and> rq_bundle q = rn_bundle plan"
  unfolding land_research_def Let_def
  by (elim open_InrE check_InrE) (auto simp: andThen_run save_project_def writeState_def split: prod.splits)

lemma generateOutlineSet_InrE:
  assumes "generateOutlineSet env later meanwhile generator pid n d = (Inr outcome, d')"
  obtains plan settled where "planned_on pid (plannedOutlineSet env) d = (Inr plan, d)"
    "length settled = length (sp_pending plan)" "land_outline_set later pid plan settled (meanwhile d) = (Inr outcome, d')"
  using assms unfolding generateOutlineSet_def
proof (elim refusing_check_InrE refusing_InrE elapse_InrE)
  fix bound plan d1 ev d2
  assume plan: "planned_on pid (plannedOutlineSet env) d = (Inr plan, d1)" and ev: "evidence_for pid frozenEvidenceRequired d1 = (Inr ev, d2)"
    and land: "refusing (land_outline_set later pid plan (map (\<lambda>target. generator \<lparr>oq_target = target,
       oq_brief = sp_brief plan, oq_evidence = ev, oq_instruction = None\<rparr>) (sp_pending plan))) (meanwhile d2) = (Inr outcome, d')"
  from plan have d1: "d1 = d" by (elim planned_on_InrE)
  from ev have d2: "d2 = d1" by (elim evidence_for_InrE)
  from plan land show thesis unfolding d1 d2 refusing_Inr by (intro that) simp_all
qed

end
