(* ===== verification/ContentSamples.thy ===== *)
theory ContentSamples
  imports ContentFacts
begin

section \<open>A Content Project from its start to a Draft\<close>

text \<open>The surroundings and the actions the witnesses run: one owner, one Brand Voice, one Project for two targets.\<close>

definition ex_brand :: brand_revision where
  "ex_brand = \<lparr>br_id = ''brand_1'', br_createdAt = ''2026'', br_markdown = ''Plain.'',
     br_sourceScan = \<lparr>bs_websiteUrl = ''https://w'', bs_includedUrls = [], bs_excludedUrls = []\<rparr>,
     br_note = None, br_changedSections = [], br_siteBaselineMarkdown = None\<rparr>"

definition ex_person :: person_revision where
  "ex_person = \<lparr>pn_id = ''p1'', pn_revision = 1, pn_fullName = Some ''Ana'', pn_primaryEmail = None, pn_emails = [],
     pn_handles = [], pn_profileUrls = [], pn_employerHints = [], pn_archivedAt = None\<rparr>"

definition ex_projection :: person_projection where
  "ex_projection = \<lparr>pj_purpose = ''public-safe'', pj_profileId = ''p1'', pj_profileRevision = 1, pj_content = JNull\<rparr>"

definition ex_search :: "string \<Rightarrow> search_result list option" where
  "ex_search q = (if q = ''fails'' then None else Some [\<lparr>sr_title = ''T'', sr_url = ''https://s'', sr_snippet = ''S''\<rparr>])"

definition ex_diagnostics :: diagnostic_env where
  "ex_diagnostics = \<lparr>de_url = (\<lambda>_. None), de_sha256 = id, de_timestamp = Some\<rparr>"

definition ex_env :: "nat \<Rightarrow> content_env" where
  "ex_env n = \<lparr>ce_now = (\<lambda>_. ''2026''), ce_hex = (\<lambda>i. digits (10 * n + i)), ce_owner = Some \<lparr>ow_profileId = ''p1'', ow_profileRevision = 1\<rparr>,
     ce_brand = Some ex_brand, ce_person = (\<lambda>k. if k = ''p1'' then Some ex_person else None),
     ce_personRevision = (\<lambda>k v. if k = ''p1'' \<and> v = 1 then Some ex_person else None),
     ce_projection = (\<lambda>k v. if k = ''p1'' \<and> v = 1 then Some ex_projection else None),
     ce_researchProviders = [createPublicSearchResearchProvider ex_diagnostics ex_search (\<lambda>_. ''2026'')],
     ce_diagnostics = ex_diagnostics\<rparr>"

definition ex_source :: "string \<Rightarrow> source_item" where
  "ex_source k = \<lparr>si_id = k, si_externalId = k, si_targetId = [], si_adapterId = ''a'', si_canonicalUrl = ''https://x'',
     si_author = None, si_title = Some ''T'', si_body = Some ''B'', si_description = None, si_publishedAt = None,
     si_discoveredAt = ''2026'', si_media = [], si_transcript = None, si_comments = [], si_evidence = [],
     si_completeness = \<lparr>sk_title = FieldAvailable, sk_body = FieldAvailable, sk_description = FieldUnsupported,
       sk_transcript = FieldUnsupported, sk_comments = FieldUnsupported, sk_media = FieldUnsupported\<rparr>,
     si_engagement = None, si_storyKey = None, si_claims = None\<rparr>"

definition ex_start :: opportunity_start where
  "ex_start = \<lparr>st_runId = ''run'', st_opportunityId = ''opp'', st_title = ''Topic'', st_angle = ''how-to'',
     st_angleDescription = ''A'', st_urgency = ''low'', st_sourceUrls = [], st_brandProfileRevisionId = ''brand_1'',
     st_objective = ''Teach'', st_audience = ''Teams'', st_constraints = [],
     st_targets = [''linkedin-standard-post'', ''email-newsletter''], st_researchMode = Some ExistingWorkspaceEvidence,
     st_seedMaterial = [], st_authorProfileId = None\<rparr>"

definition ex_pid :: string where
  "ex_pid = ''project_2026_13''"

definition ex_attachment :: evidence_attachment where
  "ex_attachment = \<lparr>ea_sourceItems = [ex_source ''s1'', ex_source ''s2''], ea_diagnostics = []\<rparr>"

definition ex_selection :: evidence_selection where
  "ex_selection = \<lparr>es_includedSourceItemIds = [''s1''], es_noExternalResearchAcknowledged = False\<rparr>"

definition ex_charter :: charter_input where
  "ex_charter = \<lparr>ch_thesis = ''Thesis'', ch_angle = ''Angle'', ch_claims = [''C''],
     ch_evidenceMap = [\<lparr>ee_claim = ''C'', ee_sourceItemIds = [''s1'']\<rparr>], ch_ctaIntent = None\<rparr>"

definition ex_answer :: outline_result where
  "ex_answer = \<lparr>ot_title = ''Title'', ot_hookDirection = ''Hook'', ot_targetLength = ''Short'',
     ot_beats = [\<lparr>bt_direction = ''D'', bt_evidence = \<lparr>ee_claim = ''C'', ee_sourceItemIds = [''s1'']\<rparr>, bt_examples = []\<rparr>],
     ot_warnings = [], ot_productionNotes = []\<rparr>"

definition ex_draft :: draft_result where
  "ex_draft = \<lparr>dr_copy = ''Copy'', dr_productionNotes = [],
     dr_claims = [(''Backed'', [''s1'']), (''Not backed'', [''s2''])]\<rparr>"

definition ex_begun :: "(content_env \<times> content_action) list" where
  "ex_begun = [(ex_env 0, ActApproveVoice ''p1'' ''Voice''), (ex_env 1, ActStart ex_start)]"

definition ex_frozen :: "(content_env \<times> content_action) list" where
  "ex_frozen = ex_begun @ [(ex_env 2, ActAttach ex_pid ex_attachment), (ex_env 3, ActFreeze ex_pid ex_selection)]"

definition ex_approved :: "(content_env \<times> content_action) list" where
  "ex_approved = ex_frozen @ [(ex_env 4, ActPropose ex_pid ex_charter),
     (ex_env 5, ActApproveCharter ex_pid ''brief_2026_40'')]"

definition ex_generator :: "outline_request \<Rightarrow> generation_failure + outline_result" where
  "ex_generator q = Inr ex_answer"

definition ex_drafter :: "draft_request \<Rightarrow> generation_failure + draft_result" where
  "ex_drafter q = Inr ex_draft"

text \<open>The files on the way.\<close>

definition ex_file :: content_file where
  "ex_file = acts ex_approved ContentMissing"

text \<open>The landings compare identifiers only, so the plans name the charter and the outline by theirs.\<close>

definition ex_brief :: outline_charter where
  "ex_brief = \<lparr>ch_thesis = [], ch_angle = [], ch_claims = [], ch_evidenceMap = [], ch_ctaIntent = None,
     ch_id = ''brief_2026_40'', ch_projectId = ex_pid, ch_projectRevision = 1, ch_version = 1, ch_proposedAt = [],
     ch_subject = Topic [], ch_author = \<lparr>ar_profileId = ''p1'', ar_profileRevision = 1\<rparr>, ch_audience = [],
     ch_objective = [], ch_constraints = [], ch_brandVoiceRevisionId = [], ch_targets = []\<rparr>"

definition ex_set_plan :: set_plan where
  "ex_set_plan = \<lparr>sp_brief = ex_brief, sp_pending = [''linkedin-standard-post'', ''email-newsletter'']\<rparr>"

definition ex_outlined :: "(content_env \<times> content_action) list" where
  "ex_outlined = ex_approved @ [(ex_env 6, ActLandOutlineSet ex_pid ex_set_plan [Inr ex_answer, Inr ex_answer]),
     (ex_env 7, ActApproveOutline ex_pid ''email-newsletter'')]"

definition ex_outline :: platform_outline where
  "ex_outline = \<lparr>pl_id = ''outline_2026_61'', pl_projectId = [], pl_projectRevision = 1, pl_target = [],
     pl_outlineCharterId = [], pl_outlineCharterVersion = 1, pl_version = 1, pl_generatedAt = [], pl_instruction = None,
     pl_title = [], pl_hookDirection = [], pl_thesis = [], pl_beats = [], pl_ctaIntent = None, pl_targetLength = [],
     pl_constraints = [], pl_warnings = [], pl_productionNotes = []\<rparr>"

definition ex_draft_plan :: draft_plan where
  "ex_draft_plan = \<lparr>dp_brief = ex_brief, dp_outline = ex_outline, dp_version = 1\<rparr>"

definition ex_drafted :: "(content_env \<times> content_action) list" where
  "ex_drafted = ex_outlined @ [(ex_env 8, ActLandDraft ex_pid ''email-newsletter'' None ex_draft_plan ex_draft)]"

definition ex_drafted_file :: content_file where
  "ex_drafted_file = acts ex_drafted ContentMissing"

text \<open>The first claim of the first Draft of the first Project.\<close>

definition first_claim :: "content_file \<Rightarrow> (content_project \<times> content_revision \<times> content_draft \<times> draft_claim) option" where
  "first_claim d = (case projects_of d of [] \<Rightarrow> None | p # _ \<Rightarrow> (case cp_revisions p of [] \<Rightarrow> None | r # _ \<Rightarrow>
     (case cv_drafts r of [] \<Rightarrow> None | f # _ \<Rightarrow> (case df_claims f of [] \<Rightarrow> None | k # _ \<Rightarrow> Some (p, r, f, k)))))"

lemma first_claim_Some:
  "first_claim d = Some (p, r, f, k) \<Longrightarrow> p \<in> set (projects_of d) \<and> r \<in> set (cp_revisions p) \<and> f \<in> set (cv_drafts r)
    \<and> k \<in> set (df_claims f)"
  by (auto simp: first_claim_def split: list.splits)

lemma ex_drafted_supported:
  "map_option (\<lambda>(p, r, f, k). dc_supported k \<and> dc_sourceItemIds k = [''s1'']) (first_claim ex_drafted_file) = Some True"
  by code_simp

lemma ex_found: "getProject ex_pid ex_drafted_file \<noteq> None"
  by code_simp

definition ex_input :: research_input where
  "ex_input = \<lparr>ri_question = ''What?'', ri_terms = [''Why?''], ri_bundle = \<lparr>pb_providerIds = [''public-web''],
     pb_completeness = AllProviders\<rparr>, ri_limits = \<lparr>rl_maxQueriesPerProvider = 2, rl_maxSourceItems = 5\<rparr>\<rparr>"

definition ex_fresh :: "(content_env \<times> content_action) list" where
  "ex_fresh = [(ex_env 0, ActApproveVoice ''p1'' ''Voice''),
     (ex_env 1, ActStart (ex_start\<lparr>st_researchMode := Some FreshBoundedResearch\<rparr>))]"

end
