(* ===== verification/ContentProperties.thy ===== *)
theory ContentProperties
  imports ContentSamples
begin

section \<open>Properties of Content Projects\<close>

text \<open>What the commands of Content Projects promise, on every history of the file.\<close>


text \<open>C7: whatever is done, from an absent file on, the chain of evidence is sound in every revision of every Project,
  and no Opportunity has seeded two Projects.\<close>

theorem content_projects_stay_sound: "content_ok (acts xs ContentMissing)"
  by (rule acts_ok) simp

text \<open>C9: a Draft claim marked supported cites only Source Items of the frozen evidence of its own revision, which come
  from that revision's evidence review.\<close>

theorem supported_claims_rest_on_frozen_evidence:
  assumes p: "p \<in> set (projects_of (acts xs ContentMissing))" and r: "r \<in> set (cp_revisions p)"
    and d: "d \<in> set (cv_drafts r)" and k: "k \<in> set (df_claims d)" "dc_supported k" "i \<in> set (dc_sourceItemIds k)"
  shows "\<exists>f x. cv_frozenEvidence r = Some f \<and> x \<in> set (ef_sourceItems f) \<and> x \<in> set (review_items r) \<and> si_id x = i"
proof -
  have "content_ok (acts xs ContentMissing)" by (rule acts_ok) simp
  with p r have ok: "revision_ok r" by (auto simp: content_ok_def project_ok_def)
  with d obtain c o' where c: "c \<in> set (cv_outlineCharters r)" and "draft_sound c o' d"
    by (auto simp: revision_ok_def generated_ok_def draft_backed_def)
  with k have i: "i \<in> charter_ids c" by (auto simp: draft_sound_def)
  from ok c obtain f where f: "cv_frozenEvidence r = Some f" "freeze_sound r f" "charter_sound r f c"
    by (auto simp: revision_ok_def charters_ok_def split: option.splits)
  with i obtain x where "x \<in> set (ef_sourceItems f)" "si_id x = i" by (auto simp: charter_sound_def frozen_ids_def)
  with f show ?thesis by (auto simp: freeze_sound_def)
qed

theorem supported_claims_rest_on_frozen_evidence_witness:
  "\<exists>p r f x. first_claim ex_drafted_file = Some (p, r, f, x) \<and> dc_supported x
    \<and> (\<exists>e i. cv_frozenEvidence r = Some e \<and> i \<in> set (ef_sourceItems e) \<and> i \<in> set (review_items r) \<and> si_id i = ''s1'')"
proof -
  obtain p r f k where k: "first_claim ex_drafted_file = Some (p, r, f, k)" "dc_supported k" "dc_sourceItemIds k = [''s1'']"
    using ex_drafted_supported by auto
  with first_claim_Some [OF k(1)] show ?thesis
    using supported_claims_rest_on_frozen_evidence [of p ex_drafted r f k "''s1''"] by (auto simp: ex_drafted_file_def)
qed

text \<open>C8: history is only added to: whatever happens, a Project keeps its identity, its earlier revisions stay exactly as
  they were, and its current revision keeps its intent, its frozen evidence and everything proposed, approved and
  generated on it.\<close>

theorem project_history_is_append_only:
  assumes "getProject pid d = Some p"
  shows "\<exists>q. getProject pid (acts xs d) = Some q \<and> grows p q"
  using history.law_content_steps [OF acts_steps assms [unfolded getProject_find]] by (simp add: getProject_find)

theorem project_history_is_append_only_witness:
  "\<exists>p q. getProject ex_pid ex_drafted_file = Some p
    \<and> getProject ex_pid (acts [(ex_env 9, ActFreeze ex_pid ex_selection)] ex_drafted_file) = Some q \<and> grows p q"
  using ex_found project_history_is_append_only [of ex_pid ex_drafted_file] by blast

text \<open>an action that is refused leaves the file exactly as it was.\<close>

theorem refused_content_action_changes_nothing:
  assumes "fst (run_action env a d) = Inl e"
  shows "act (env, a) d = d"
proof -
  obtain d' where "run_action env a d = (Inl e, d')" using assms by (metis prod.collapse)
  with still_action show ?thesis by (auto simp: act_def still_when_refused_def)
qed

theorem refused_content_action_changes_nothing_witness:
  "act (ex_env 3, ActFreeze ex_pid ex_selection) (acts ex_begun ContentMissing) = acts ex_begun ContentMissing"
proof -
  have "isl (fst (run_action (ex_env 3) (ActFreeze ex_pid ex_selection) (acts ex_begun ContentMissing)))" by code_simp
  then obtain e where "fst (run_action (ex_env 3) (ActFreeze ex_pid ex_selection) (acts ex_begun ContentMissing)) = Inl e"
    by (auto simp: isl_def)
  then show ?thesis by (rule refused_content_action_changes_nothing)
qed

text \<open>selecting an Opportunity again, with whatever inputs, answers the same Project and writes nothing.\<close>

theorem opportunity_starts_one_project:
  assumes "startProject env s d = (Inr (k, c), d')" and "st_opportunityId t = st_opportunityId s"
  shows "startProject env' t d' = (Inr (k, False), d')"
  using started_project_found [OF assms(1)] assms(2) by (auto simp: startProject_def andThen_run)

theorem opportunity_starts_one_project_witness:
  "\<exists>k c d'. startProject (ex_env 1) ex_start (acts [(ex_env 0, ActApproveVoice ''p1'' ''Voice'')] ContentMissing) = (Inr (k, c), d')
    \<and> startProject (ex_env 2) (ex_start\<lparr>st_title := ''Other''\<rparr>) d' = (Inr (k, False), d')"
proof -
  let ?d = "acts [(ex_env 0, ActApproveVoice ''p1'' ''Voice'')] ContentMissing"
  have "\<not> isl (fst (startProject (ex_env 1) ex_start ?d))" by code_simp
  then obtain k c d' where "startProject (ex_env 1) ex_start ?d = (Inr (k, c), d')"
    by (metis isl_def prod.collapse sum.exhaust_sel)
  with opportunity_starts_one_project [OF this, of "ex_start\<lparr>st_title := ''Other''\<rparr>" "ex_env 2"] show ?thesis by auto
qed

text \<open>C37: a Platform Outline lands only when the approved Brief it was planned from is still the latest approved one, the
  gates hold and the target is selected at that moment; it is the next version for its target, cites only what that
  Brief's evidence map cites, and nothing else of the revision changes.\<close>

theorem outline_lands_on_the_planned_brief:
  assumes "generateOutline env later meanwhile generator pid target given d = (Inr o', d')"
  shows "\<exists>r0 r c0 c. current_of pid d = Inr r0 \<and> latestApprovedOutlineCharter r0 = Some c0
    \<and> missingGates env (readState d) r0 = [] \<and> current_of pid (meanwhile d) = Inr r
    \<and> latestApprovedOutlineCharter r = Some c \<and> ch_id c = ch_id c0
    \<and> missingGates later (readState (meanwhile d)) r = [] \<and> target \<in> set (cv_targets r)
    \<and> outline_sound c o' \<and> pl_target o' = target \<and> pl_version o' = int (length (outlines_for r target)) + 1
    \<and> current_of pid d' = Inr (r\<lparr>cv_platformOutlines := cv_platformOutlines r @ [o']\<rparr>)"
proof -
  from assms obtain r0 planned answer instruction where r0: "current_of pid d = Inr r0"
    and plan: "plannedOutlineGeneration env (readState d) r0 target = Inr planned"
    and land: "land_outline later pid target instruction planned answer (meanwhile d) = (Inr o', d')"
    unfolding generateOutline_def by (elim refusing_check_InrE runVersionedGeneration_InrE) (rule that)
  from land obtain r landed where r: "current_of pid (meanwhile d) = Inr r"
    and plan': "plannedOutlineGeneration later (readState (meanwhile d)) r target = Inr landed"
    and same: "outline_changed planned landed = None"
    and built: "buildOutline later 0 pid (op_brief landed) target (op_version landed) instruction answer = Inr o'"
    and d': "current_of pid d' = Inr (r\<lparr>cv_platformOutlines := cv_platformOutlines r @ [o']\<rparr>)"
    unfolding land_outline_def by (elim land_version_InrE)
  have "ch_id (op_brief landed) = ch_id (op_brief planned)" using same by (simp add: outline_changed_def split: if_splits)
  with plannedOutlineGeneration_Inr [OF plan] plannedOutlineGeneration_Inr [OF plan'] buildOutline_Inr [OF built] r0 r d'
  show ?thesis by (intro exI [of _ r0] exI [of _ r] exI [of _ "op_brief planned"] exI [of _ "op_brief landed"]) simp
qed

theorem outline_lands_on_the_planned_brief_witness:
  "\<exists>o' d' r. generateOutline (ex_env 6) (ex_env 6) id ex_generator ex_pid ''email-newsletter'' None ex_file = (Inr o', d')
    \<and> current_of ex_pid d' = Inr (r\<lparr>cv_platformOutlines := cv_platformOutlines r @ [o']\<rparr>) \<and> pl_version o' = 1 + int (length (outlines_for r ''email-newsletter''))"
proof -
  have "\<not> isl (fst (generateOutline (ex_env 6) (ex_env 6) id ex_generator ex_pid ''email-newsletter'' None ex_file))" by code_simp
  then obtain o' d' where
    run: "generateOutline (ex_env 6) (ex_env 6) id ex_generator ex_pid ''email-newsletter'' None ex_file = (Inr o', d')"
    by (metis isl_def prod.collapse sum.exhaust_sel)
  from outline_lands_on_the_planned_brief [OF run] run show ?thesis by (metis add.commute)
qed

text \<open>the missing-only retry.  When nothing else touches the Project, the next Outline Set is planned from the same
  Brief for exactly the targets that failed, in their order.\<close>

theorem outline_set_retry_is_missing_only:
  assumes "content_ok d" and "generateOutlineSet env later id generator pid n d = (Inr outcome, d')"
  shows "\<exists>plan. planned_on pid (plannedOutlineSet env) d = (Inr plan, d)
    \<and> planned_on pid (plannedOutlineSet env) d' = (Inr (plan\<lparr>sp_pending := map of_target (os_failures outcome)\<rparr>), d')"
  using assms(2)
proof (rule generateOutlineSet_InrE)
  fix plan settled
  assume plan: "planned_on pid (plannedOutlineSet env) d = (Inr plan, d)" and len: "length settled = length (sp_pending plan)"
    and land: "land_outline_set later pid plan settled (id d) = (Inr outcome, d')"
  from land_set_InrE [OF assms(1) plan land [unfolded id_apply] len] plan show ?thesis by blast
qed

definition ex_half_generator :: "outline_request \<Rightarrow> generation_failure + outline_result" where
  "ex_half_generator q = (if oq_target q = ''email-newsletter'' then Inl (ProviderError ''busy'') else Inr ex_answer)"

theorem outline_set_retry_is_missing_only_witness:
  "\<exists>plan d' outcome. generateOutlineSet (ex_env 6) (ex_env 6) id ex_half_generator ex_pid None ex_file = (Inr outcome, d')
    \<and> planned_on ex_pid (plannedOutlineSet (ex_env 6)) d' = (Inr (plan\<lparr>sp_pending := map of_target (os_failures outcome)\<rparr>), d')
    \<and> map of_target (os_failures outcome) = [''email-newsletter'']"
proof -
  have run: "map_sum id (\<lambda>o'. map of_target (os_failures o'))
    (fst (generateOutlineSet (ex_env 6) (ex_env 6) id ex_half_generator ex_pid None ex_file)) = Inr [''email-newsletter'']"
    by code_simp
  then obtain outcome d' where
    "generateOutlineSet (ex_env 6) (ex_env 6) id ex_half_generator ex_pid None ex_file = (Inr outcome, d')"
    "map of_target (os_failures outcome) = [''email-newsletter'']"
    by (cases "generateOutlineSet (ex_env 6) (ex_env 6) id ex_half_generator ex_pid None ex_file"; cases "fst (generateOutlineSet (ex_env 6) (ex_env 6) id ex_half_generator ex_pid None ex_file)") auto
  moreover have "content_ok ex_file" unfolding ex_file_def by (rule acts_ok) simp
  ultimately show ?thesis using outline_set_retry_is_missing_only by metis
qed

text \<open>the missing-only rule is decided before the providers are asked and not again when the set lands: a second
  set generated while the first one waits leaves two Platform Outlines of one Brief for the same target.\<close>

theorem overlapping_outline_sets_duplicate:
  "map_sum id (\<lambda>r. map (\<lambda>o'. (pl_outlineCharterId o', pl_version o')) (outlines_for r ''email-newsletter''))
    (current_of ex_pid (snd (generateOutlineSet (ex_env 6) (ex_env 7)
      (\<lambda>d. snd (generateOutlineSet (ex_env 6) (ex_env 6) id ex_generator ex_pid None d)) ex_generator ex_pid None ex_file)))
   = (Inr [(''brief_2026_40'', 1), (''brief_2026_40'', 2)])"
  by code_simp

text \<open>a Research Request is finite.  Every provider of the bundle is asked once, in order and with at most the
  allowed number of queries; at most the allowed number of Source Items comes back, no two alike, each from a provider
  of the bundle that reported success.\<close>

theorem research_request_is_bounded:
  assumes "runResearchRequest env later meanwhile pid input d = (Inr q, d')"
  shows "map po_providerId (rr_providerOutcomes (rq_result q)) = pb_providerIds (rq_bundle q)
    \<and> pb_providerIds (rq_bundle q) \<noteq> [] \<and> distinct (pb_providerIds (rq_bundle q))
    \<and> (\<forall>x \<in> set (rr_providerOutcomes (rq_result q)). po_queries x \<le> rl_maxQueriesPerProvider (ri_limits input))
    \<and> int (length (rr_sourceItems (rq_result q))) \<le> rl_maxSourceItems (ri_limits input)
    \<and> distinct (map si_id (rr_sourceItems (rq_result q)))
    \<and> (\<forall>x \<in> set (rr_sourceItems (rq_result q)). \<exists>(p :: research_provider) queries items report. rp_id p \<in> set (pb_providerIds (rq_bundle q))
         \<and> rp_lookup p queries (rl_maxSourceItems (ri_limits input)) = Inr (items, report) \<and> x \<in> set items
         \<and> isSuccessfulSourceDiagnostic (dg_classification report))"
proof -
  from assms obtain plan d1 r where plan: "plan_research env r input = Inr plan"
    and land: "land_research later pid plan (run_plan env plan) (meanwhile d) = (Inr q, d')"
    unfolding runResearchRequest_def
    by (elim andThen_InrE [of "open_project _ _"] open_InrE elapse_InrE) (auto intro: that)
  note facts = plan_research_Inr [OF plan] and kept = land_research_Inr [OF land]
  have ids: "rp_id p \<in> set (pb_providerIds (rn_bundle plan))" if "p \<in> set (rn_providers plan)" for p
    using facts(1) that by (metis image_eqI list.set_map)
  have same: "rq_result q = run_plan env plan" "rq_bundle q = rn_bundle plan" using kept by simp_all
  have origin: "\<exists>(p :: research_provider) queries items report. rp_id p \<in> set (pb_providerIds (rq_bundle q))
         \<and> rp_lookup p queries (rl_maxSourceItems (ri_limits input)) = Inr (items, report) \<and> x \<in> set items
         \<and> isSuccessfulSourceDiagnostic (dg_classification report)" if x: "x \<in> set (rr_sourceItems (rq_result q))" for x
  proof -
    from research_item_origin [OF x [unfolded same run_plan_def]] obtain p items report where "p \<in> set (rn_providers plan)"
      "rp_lookup p (map aq_query (plannedQueries (rn_scope plan) (rn_subjectProfile plan) (rn_limits plan)))
        (rl_maxSourceItems (rn_limits plan)) = Inr (items, report)" "x \<in> set items"
      "isSuccessfulSourceDiagnostic (dg_classification report)" by blast
    with ids same(2) facts(6) show ?thesis by metis
  qed
  have queries: "po_queries x \<le> rl_maxQueriesPerProvider (ri_limits input)" if "x \<in> set (rr_providerOutcomes (rq_result q))" for x
    using research_queries [OF that [unfolded same run_plan_def]] facts(4,6) by simp
  have found: "int (length (rr_sourceItems (rq_result q))) \<le> rl_maxSourceItems (ri_limits input)"
    "distinct (map si_id (rr_sourceItems (rq_result q)))"
    unfolding same run_plan_def facts(6) [symmetric]
    using research_items_bound(2) [of "ce_diagnostics env" "\<lambda>k. ce_now env (k + 4)" "rn_providers plan" "rn_bundle plan"
      "rn_limits plan" "rn_scope plan" "rn_subjectProfile plan"] facts(5) by (simp_all add: research_items_bound(1))
  have asked: "map po_providerId (rr_providerOutcomes (rq_result q)) = pb_providerIds (rq_bundle q)"
    unfolding same run_plan_def research_asks_each facts(1) ..
  from asked facts(2,3) queries found origin show ?thesis unfolding same(2) by blast
qed

theorem research_request_is_bounded_witness:
  "\<exists>q d'. runResearchRequest (ex_env 2) (ex_env 2) id ex_pid ex_input (acts ex_fresh ContentMissing) = (Inr q, d')
    \<and> length (rr_sourceItems (rq_result q)) \<le> 5"
proof -
  have "\<not> isl (fst (runResearchRequest (ex_env 2) (ex_env 2) id ex_pid ex_input (acts ex_fresh ContentMissing)))" by code_simp
  then obtain q d' where run: "runResearchRequest (ex_env 2) (ex_env 2) id ex_pid ex_input (acts ex_fresh ContentMissing) = (Inr q, d')"
    by (metis isl_def prod.collapse sum.exhaust_sel)
  from research_request_is_bounded [OF run] have "int (length (rr_sourceItems (rq_result q))) \<le> 5" by (simp add: ex_input_def)
  then have "length (rr_sourceItems (rq_result q)) \<le> 5" by linarith
  with run show ?thesis by blast
qed

text \<open>however the calls of a bounded run settle, never more than the bound are in flight, the items are called in
  order and each once, the run can always be finished, and when it is over every item has its own answer.\<close>

theorem bounded_run_answers_every_item:
  assumes "0 < bound" and "pool_steps n answer (pool_start bound n) s"
  shows "in_flight s \<le> bound \<and> ln_calls s = [0..<ln_next s] \<and> (\<exists>t. pool_steps n answer s t \<and> pool_over t)
    \<and> (pool_over s \<longrightarrow> ln_calls s = [0..<n] \<and> pool_results n s = map (\<lambda>i. Some (answer i)) [0..<n])"
proof -
  note ok = pool_ok_reachable [OF assms(2)]
  from ok have "ln_calls s = [0..<ln_next s]" by (simp add: pool_ok_def)
  with in_flight_bound [OF ok] pool_reaches_end [of n answer s] pool_over_results [OF ok _ assms(1)] show ?thesis by blast
qed

theorem bounded_run_answers_every_item_witness:
  "\<exists>t :: nat lane_pool. pool_steps 2 Suc (pool_start 1 2) t \<and> pool_over t"
  using bounded_run_answers_every_item [of 1 2 Suc "pool_start 1 2"] by auto

text \<open>a file that cannot be parsed is taken for an absent one: every action answers as it would without a file, and
  what it writes is what it would write without a file, so every Project in the damaged file is gone.\<close>

theorem unreadable_file_is_taken_for_absent:
  "fst (run_action env a ContentUnreadable) = fst (run_action env a ContentMissing)
   \<and> (act (env, a) ContentUnreadable = ContentUnreadable \<or> act (env, a) ContentUnreadable = act (env, a) ContentMissing)"
proof -
  have "readState ContentUnreadable = readState ContentMissing" by simp
  with blind_action [of env a] show ?thesis unfolding act_def blind_def by fastforce
qed

end
