(* ===== verification/JsRegex.thy ===== *)
theory JsRegex
  imports CalendarDate "HOL-Library.Sublist"
begin

section \<open>Regular expressions\<close>

text \<open>
  The regular expressions of the source are translated as they are written, as values of the type \<open>regex\<close>, and
  matched the way ECMAScript matches them: by backtracking, with the alternatives tried in order.  A matcher takes
  the position (the character before it, for the anchors, and the text after it), the groups captured so far, and
  what is left to match; the first way through is the match.  A repetition stops on an iteration that consumes nothing,
  so the length of the text bounds the number of iterations.
\<close>

type_synonym pos = "char option \<times> string"
type_synonym captures = "(nat \<times> string) list"

datatype regex =
    Empty
  | OneOf "char \<Rightarrow> bool"
  | Seq regex regex
  | Alt regex regex
  | Many bool regex
  | Group nat regex
  | Backref nat
  | Start bool
  | End bool

text \<open>A repetition: \<open>greedy\<close> tries another iteration first, otherwise leaving is tried first.\<close>

primrec repeating ::
  "nat \<Rightarrow> bool \<Rightarrow> (pos \<Rightarrow> captures \<Rightarrow> (pos \<Rightarrow> captures \<Rightarrow> 'a option) \<Rightarrow> 'a option)
    \<Rightarrow> pos \<Rightarrow> captures \<Rightarrow> (pos \<Rightarrow> captures \<Rightarrow> 'a option) \<Rightarrow> 'a option" where
  "repeating 0 greedy f at caps k = k at caps"
| "repeating (Suc n) greedy f at caps k =
     (if greedy
      then case f at caps (\<lambda>at' caps'.
             if length (snd at') < length (snd at) then repeating n greedy f at' caps' k else None)
           of Some found \<Rightarrow> Some found | None \<Rightarrow> k at caps
      else case k at caps of Some found \<Rightarrow> Some found
         | None \<Rightarrow> f at caps (\<lambda>at' caps'.
             if length (snd at') < length (snd at) then repeating n greedy f at' caps' k else None))"

definition line_terminator :: "char \<Rightarrow> bool" where
  "line_terminator c \<longleftrightarrow> of_char c \<in> {10, 13 :: nat}"

fun advance :: "nat \<Rightarrow> pos \<Rightarrow> pos" where
  "advance 0 at = at"
| "advance (Suc n) (p, []) = (p, [])"
| "advance (Suc n) (p, c # cs) = advance n (Some c, cs)"

definition captured :: "pos \<Rightarrow> pos \<Rightarrow> string" where
  "captured at at' = take (length (snd at) - length (snd at')) (snd at)"

primrec match_re ::
  "regex \<Rightarrow> pos \<Rightarrow> captures \<Rightarrow> (pos \<Rightarrow> captures \<Rightarrow> 'a option) \<Rightarrow> 'a option" where
  "match_re Empty at caps k = k at caps"
| "match_re (OneOf p) at caps k =
     (case snd at of [] \<Rightarrow> None | c # cs \<Rightarrow> if p c then k (Some c, cs) caps else None)"
| "match_re (Seq r s) at caps k = match_re r at caps (\<lambda>at' caps'. match_re s at' caps' k)"
| "match_re (Alt r s) at caps k =
     (case match_re r at caps k of Some found \<Rightarrow> Some found | None \<Rightarrow> match_re s at caps k)"
| "match_re (Many greedy r) at caps k = repeating (length (snd at)) greedy (match_re r) at caps k"
| "match_re (Group n r) at caps k =
     match_re r at caps (\<lambda>at' caps'. k at' ((n, captured at at') # filter (\<lambda>c. fst c \<noteq> n) caps'))"
| "match_re (Backref n) at caps k =
     (case map_of caps n of None \<Rightarrow> k at caps
      | Some t \<Rightarrow> if take (length t) (snd at) = t then k (advance (length t) at) caps else None)"
| "match_re (Start multiline) at caps k =
     (case fst at of None \<Rightarrow> k at caps
      | Some c \<Rightarrow> if multiline \<and> line_terminator c then k at caps else None)"
| "match_re (End multiline) at caps k =
     (case snd at of [] \<Rightarrow> k at caps
      | c # cs \<Rightarrow> if multiline \<and> line_terminator c then k at caps else None)"

subsection \<open>Notation of the patterns\<close>

fun seqs :: "regex list \<Rightarrow> regex" where
  "seqs [] = Empty"
| "seqs [r] = r"
| "seqs (r # rs) = Seq r (seqs rs)"

fun alts :: "regex list \<Rightarrow> regex" where
  "alts [] = Empty"
| "alts [r] = r"
| "alts (r # rs) = Alt r (alts rs)"

definition lit :: "string \<Rightarrow> regex" where
  "lit s = seqs (map (\<lambda>c. OneOf (\<lambda>x. x = c)) s)"

text \<open>A text under the flag \<open>i\<close>.\<close>

definition lit_i :: "string \<Rightarrow> regex" where
  "lit_i s = seqs (map (\<lambda>c. OneOf (\<lambda>x. lower_char x = lower_char c)) s)"

definition one_of :: "string \<Rightarrow> regex" where
  "one_of s = OneOf (\<lambda>x. x \<in> set s)"

definition none_of :: "string \<Rightarrow> regex" where
  "none_of s = OneOf (\<lambda>x. x \<notin> set s)"

definition any_char :: regex where
  "any_char = OneOf (\<lambda>x. \<not> line_terminator x)"

definition digit :: regex where
  "digit = OneOf is_digit"

definition blank :: regex where
  "blank = OneOf is_space"

definition is_letter :: "char \<Rightarrow> bool" where
  "is_letter c \<longleftrightarrow> (let n = of_char c :: nat in (65 \<le> n \<and> n \<le> 90) \<or> (97 \<le> n \<and> n \<le> 122))"

definition some :: "regex \<Rightarrow> regex" where
  "some r = Seq r (Many True r)"

definition opt :: "regex \<Rightarrow> regex" where
  "opt r = Alt r Empty"

primrec times :: "nat \<Rightarrow> regex \<Rightarrow> regex" where
  "times 0 r = Empty"
| "times (Suc n) r = Seq r (times n r)"

text \<open>Up to \<open>n\<close> iterations.\<close>

primrec up_to :: "nat \<Rightarrow> bool \<Rightarrow> regex \<Rightarrow> regex" where
  "up_to 0 greedy r = Empty"
| "up_to (Suc n) greedy r =
     (if greedy then Alt (Seq r (up_to n greedy r)) Empty else Alt Empty (Seq r (up_to n greedy r)))"

subsection \<open>The operations on strings\<close>

record re_match =
  rm_before :: string
  rm_text :: string
  rm_after :: string
  rm_groups :: captures

definition match_at :: "regex \<Rightarrow> pos \<Rightarrow> (pos \<times> captures) option" where
  "match_at r at = match_re r at [] (\<lambda>at' caps. Some (at', caps))"

text \<open>\<open>RegExp.prototype.exec\<close>: the leftmost match.\<close>

fun exec_from :: "regex \<Rightarrow> string \<Rightarrow> pos \<Rightarrow> re_match option" where
  "exec_from r passed (p, []) =
     (case match_at r (p, []) of None \<Rightarrow> None
      | Some (at', caps) \<Rightarrow> Some \<lparr>rm_before = passed, rm_text = captured (p, []) at', rm_after = snd at',
          rm_groups = caps\<rparr>)"
| "exec_from r passed (p, c # cs) =
     (case match_at r (p, c # cs) of None \<Rightarrow> exec_from r (passed @ [c]) (Some c, cs)
      | Some (at', caps) \<Rightarrow> Some \<lparr>rm_before = passed, rm_text = captured (p, c # cs) at', rm_after = snd at',
          rm_groups = caps\<rparr>)"

definition exec :: "regex \<Rightarrow> string \<Rightarrow> re_match option" where
  "exec r s = exec_from r [] (None, s)"

definition group :: "re_match \<Rightarrow> nat \<Rightarrow> string option" where
  "group m n = map_of (rm_groups m) n"

definition test :: "regex \<Rightarrow> string \<Rightarrow> bool" where
  "test r s \<longleftrightarrow> exec r s \<noteq> None"

text \<open>\<open>String.prototype.replace\<close> without the flag \<open>g\<close> and with it, by a constant text.\<close>

definition replace_first :: "regex \<Rightarrow> string \<Rightarrow> string \<Rightarrow> string" where
  "replace_first r t s = (case exec r s of None \<Rightarrow> s | Some m \<Rightarrow> rm_before m @ t @ rm_after m)"

text \<open>
  Every match, left to right, with the text between it and the one before; each consumes at least a character, as
  every pattern that the source uses with the flag \<open>g\<close> does, so the length of the text bounds their number.
\<close>

definition last_before :: "char option \<Rightarrow> string \<Rightarrow> char option" where
  "last_before p s = (if s = [] then p else Some (last s))"

fun exec_all_from :: "nat \<Rightarrow> regex \<Rightarrow> pos \<Rightarrow> re_match list" where
  "exec_all_from 0 r at = []"
| "exec_all_from (Suc n) r at =
     (case exec_from r [] at of None \<Rightarrow> []
      | Some m \<Rightarrow> if rm_text m = [] then []
          else m # exec_all_from n r (last_before (fst at) (rm_before m @ rm_text m), rm_after m))"

definition exec_all :: "regex \<Rightarrow> string \<Rightarrow> re_match list" where
  "exec_all r s = exec_all_from (length s) r (None, s)"

definition replace_all :: "regex \<Rightarrow> string \<Rightarrow> string \<Rightarrow> string" where
  "replace_all r t s = (case exec_all r s of [] \<Rightarrow> s
     | ms \<Rightarrow> concat (map (\<lambda>m. rm_before m @ t) ms) @ rm_after (last ms))"

end
