(* ===== verification/MeetingNames.thy ===== *)
theory MeetingNames
  imports JsRegex
begin

section \<open>What a transcript's file name says\<close>

text \<open>
  \<^verbatim>\<open>apps/server/src/text/meetingFileName.ts\<close> and \<^verbatim>\<open>meetingDate.ts\<close>: the title and the time a file name carries, and
  the key under which the copies and exports of one recording are the same recording.  The patterns are those of the
  files, one constructor per token.
\<close>

record file_name_meta =
  fm_title :: "string option"
  fm_timestamp :: "string option"
  fm_namesTime :: bool

subsection \<open>The patterns\<close>

definition date_re :: regex where
  "date_re = seqs [times 4 digit, lit ''-'', times 2 digit, lit ''-'', times 2 digit]"

definition EMBEDDED_TIMESTAMP :: regex where
  "EMBEDDED_TIMESTAMP = seqs [Group 1 date_re, lit ''T'', Group 2 (times 2 digit), one_of ''-:'',
     Group 3 (times 2 digit),
     opt (seqs [one_of ''-:'', times 2 digit, opt (Seq (lit ''.'') (some digit)), opt (lit ''Z'')])]"

text \<open>The hour and minute a leading or trailing date may carry, as groups \<open>n\<close> to \<open>n + 2\<close>.\<close>

definition clock_re :: "nat \<Rightarrow> regex" where
  "clock_re n = opt (seqs [one_of ''T '', Group n (times 2 digit), one_of ''-.'', Group (n + 1) (times 2 digit),
     opt (Seq (one_of ''-.'') (Group (n + 2) (times 2 digit)))])"

definition LEADING :: regex where
  "LEADING = seqs [Start False, Group 1 date_re, clock_re 2, Many True blank, Many True (one_of ''-_ ''),
     Group 5 (Many True any_char), End False]"

definition TRAILING :: regex where
  "TRAILING = seqs [Start False, Group 1 (Many False any_char), Many True (one_of ''-_ ''), opt (lit ''(''),
     Group 2 date_re, clock_re 3, opt (lit '')''), End False]"

definition ARTIFACT_TAIL :: regex where
  "ARTIFACT_TAIL = seqs [some (OneOf (\<lambda>c. is_space c \<or> c = CHR ''-'')),
     alts [Seq (lit_i ''transcript'') (opt (lit_i ''s'')), lit_i ''summary'', lit_i ''summaries'',
       Seq (lit_i ''note'') (opt (lit_i ''s'')), Seq (lit_i ''recording'') (opt (lit_i ''s'')),
       lit_i ''audio'', lit_i ''video'', lit_i ''minutes''], End False]"

definition COPY_PREFIX :: regex where
  "COPY_PREFIX = Seq (Start False) (some (seqs [lit_i ''copy'', some blank, lit_i ''of'', some blank]))"

definition EXTENSION :: regex where
  "EXTENSION = seqs [lit ''.'', some (OneOf (\<lambda>c. is_letter c \<or> is_digit c)), End False]"

definition FILE_TIMESTAMP :: regex where
  "FILE_TIMESTAMP = seqs [Group 1 date_re, lit ''T'', times 2 digit, one_of ''-:'']"

subsection \<open>Titles\<close>

text \<open>
  The loop that strips the artifact words from the end: every round that changes the name shortens it, so the length
  of the name is fuel enough.
\<close>

fun strip_artifacts :: "nat \<Rightarrow> string \<Rightarrow> string" where
  "strip_artifacts 0 name = name"
| "strip_artifacts (Suc n) name =
     (let stripped = trim (replace_first ARTIFACT_TAIL [] name) in
      if stripped = name \<or> stripped = [] then name else strip_artifacts n stripped)"

definition spaced_name :: "string \<Rightarrow> string" where
  "spaced_name raw = trim (collapse_spaces (replace_all (some (one_of ''-_'')) '' '' raw))"

definition titleOf :: "string \<Rightarrow> bool \<Rightarrow> string option" where
  "titleOf raw exporterNamed =
     (let spaced = spaced_name raw;
          uncopied = trim (replace_first COPY_PREFIX [] spaced);
          stripped = if exporterNamed then strip_artifacts (length uncopied) uncopied else uncopied;
          title = if stripped = [] then spaced else stripped
      in if list_ex is_letter title then Some title else None)"

definition statesTime :: "string option \<Rightarrow> string option \<Rightarrow> bool" where
  "statesTime hours minutes \<longleftrightarrow> hours \<noteq> None \<and> minutes \<noteq> None"

definition timestampOf :: "string \<Rightarrow> string option \<Rightarrow> string option \<Rightarrow> string" where
  "timestampOf date hours minutes = (case (hours, minutes) of
     (Some h, Some m) \<Rightarrow> date @ ''T'' @ h @ '':'' @ m @ '':00.000Z''
   | _ \<Rightarrow> date @ ''T00:00:00.000Z'')"

definition or_blank :: "string option \<Rightarrow> string" where
  "or_blank t = (case t of None \<Rightarrow> [] | Some s \<Rightarrow> s)"

definition named_meta :: "string \<Rightarrow> re_match \<Rightarrow> nat \<Rightarrow> file_name_meta" where
  "named_meta raw m n = \<lparr>fm_title = titleOf raw True,
     fm_timestamp = Some (timestampOf (or_blank (group m n)) (group m (n + 1)) (group m (n + 2))),
     fm_namesTime = statesTime (group m (n + 1)) (group m (n + 2))\<rparr>"

definition meetingFileNameMeta :: "string \<Rightarrow> file_name_meta" where
  "meetingFileNameMeta fileName = (let stem = replace_first EXTENSION [] fileName in
     case exec EMBEDDED_TIMESTAMP stem of
       Some m \<Rightarrow> named_meta (rm_before m @ '' '' @ rm_after m) m 1
     | None \<Rightarrow> (case exec LEADING stem of
         Some m \<Rightarrow> named_meta (or_blank (group m 5)) m 1
       | None \<Rightarrow> (case exec TRAILING stem of
           Some m \<Rightarrow> named_meta (or_blank (group m 1)) m 2
         | None \<Rightarrow> \<lparr>fm_title = titleOf stem False, fm_timestamp = None, fm_namesTime = False\<rparr>)))"

definition meetingDateFromFileName :: "string \<Rightarrow> string option" where
  "meetingDateFromFileName fileName = (case exec FILE_TIMESTAMP fileName of
     None \<Rightarrow> None | Some m \<Rightarrow> group m 1)"

subsection \<open>The key of a recording\<close>

definition is_plain :: "char \<Rightarrow> bool" where
  "is_plain c \<longleftrightarrow> (let n = of_char c :: nat in (97 \<le> n \<and> n \<le> 122) \<or> (48 \<le> n \<and> n \<le> 57))"

text \<open>\<open>value.toLowerCase().replace(/[^a-z0-9]+/g, " ").trim()\<close>\<close>

definition plain_words :: "string \<Rightarrow> string" where
  "plain_words value = trim (replace_all (some (OneOf (\<lambda>c. \<not> is_plain c))) '' '' (toLowerCase value))"

definition recordingKey :: "string \<Rightarrow> string option" where
  "recordingKey fileName = (let meta = meetingFileNameMeta fileName in
     case fm_title meta of None \<Rightarrow> None
     | Some title \<Rightarrow>
         (let base = replace_first COPY_PREFIX [] (spaced_name title);
              name = strip_artifacts (length base) base;
              normalized = plain_words name
          in if normalized = [] then None
             else Some (normalized @ ''|'' @ (case fm_timestamp meta of None \<Rightarrow> ''undated'' | Some t \<Rightarrow> t))))"

end
