(* ===== verification/TranscriptTypes.thy ===== *)
theory TranscriptTypes
  imports Materialization MeetingNames JsSort
begin

section \<open>Transcripts and Meetings: their data\<close>

text \<open>
  The Transcript Catalog's part of \<^verbatim>\<open>packages/shared/src/transcript.ts\<close>, all of \<^verbatim>\<open>meeting.ts\<close> that the store holds, and
  what the file system holds of them.  A JSON file is absent, damaged (not JSON) or holds a value; a directory is the
  list of its files, by the name each is stored under, a damaged one holding no value.

  A Transcript stored before associations were recorded has no property \<open>association\<close> at all, which the language
  distinguishes from a property that is null; the type \<open>association_field\<close> keeps the three cases apart.
\<close>

subsection \<open>Files and directories\<close>

datatype 'a json_file = NoFile | Damaged | Json 'a

fun read_file :: "'a json_file \<Rightarrow> 'a option" where
  "read_file (Json v) = Some v"
| "read_file _ = None"

type_synonym 'a directory = "(string \<times> 'a option) list"

definition dir_exists :: "string \<Rightarrow> 'a directory \<Rightarrow> bool" where
  "dir_exists k d \<longleftrightarrow> map_of d k \<noteq> None"

definition dir_read :: "string \<Rightarrow> 'a directory \<Rightarrow> 'a option" where
  "dir_read k d = (case map_of d k of None \<Rightarrow> None | Some v \<Rightarrow> v)"

fun dir_write :: "string \<Rightarrow> 'a \<Rightarrow> 'a directory \<Rightarrow> 'a directory" where
  "dir_write k v [] = [(k, Some v)]"
| "dir_write k v ((j, w) # d) = (if j = k then (k, Some v) # d else (j, w) # dir_write k v d)"

definition dir_remove :: "string \<Rightarrow> 'a directory \<Rightarrow> 'a directory" where
  "dir_remove k d = filter (\<lambda>f. fst f \<noteq> k) d"

fun dir_values :: "'a directory \<Rightarrow> 'a list" where
  "dir_values [] = []"
| "dir_values ((k, None) # d) = dir_values d"
| "dir_values ((k, Some v) # d) = v # dir_values d"

lemma map_of_dir_write: "map_of (dir_write j v d) = (map_of d)(j \<mapsto> Some v)"
  by (induction d) (auto simp: fun_eq_iff)

lemma dir_read_write [simp]:
  "dir_read k (dir_write j v d) = (if k = j then Some v else dir_read k d)"
  by (simp add: dir_read_def map_of_dir_write)

lemma dir_exists_write [simp]: "dir_exists k (dir_write j v d) \<longleftrightarrow> k = j \<or> dir_exists k d"
  by (simp add: dir_exists_def map_of_dir_write)

lemma dir_read_remove [simp]: "dir_read k (dir_remove j d) = (if k = j then None else dir_read k d)"
  by (induction d) (auto simp: dir_read_def dir_remove_def)

lemma dir_exists_remove [simp]: "dir_exists k (dir_remove j d) \<longleftrightarrow> k \<noteq> j \<and> dir_exists k d"
  by (induction d) (auto simp: dir_exists_def dir_remove_def)

lemma dir_read_exists: "dir_read k d = Some v \<Longrightarrow> dir_exists k d"
  by (auto simp: dir_read_def dir_exists_def split: option.splits)

lemma dir_names_write: "map fst (dir_write k v d) = (if dir_exists k d then map fst d else map fst d @ [k])"
  by (induction d) (auto simp: dir_exists_def)

lemma dir_exists_names: "dir_exists k d \<longleftrightarrow> k \<in> fst ` set d"
  by (induction d) (auto simp: dir_exists_def)

lemma distinct_dir_write: "distinct (map fst d) \<Longrightarrow> distinct (map fst (dir_write k v d))"
  unfolding dir_names_write by (simp add: dir_exists_names)

lemma distinct_dir_remove: "distinct (map fst d) \<Longrightarrow> distinct (map fst (dir_remove k d))"
  by (simp add: dir_remove_def distinct_map_filter)

lemma dir_values_iff:
  "distinct (map fst d) \<Longrightarrow> v \<in> set (dir_values d) \<longleftrightarrow> (\<exists>k. dir_read k d = Some v)"
proof (induction d)
  case (Cons f d)
  obtain k w where f: "f = (k, w)" by (cases f)
  have "dir_read k d = None" using Cons.prems f
    by (simp add: dir_read_def) (metis dir_exists_def dir_exists_names option.case_eq_if)
  moreover have "dir_read j (f # d) = (if j = k then w else dir_read j d)" for j
    by (simp add: f dir_read_def)
  ultimately have "(\<exists>j. dir_read j (f # d) = Some v) \<longleftrightarrow> w = Some v \<or> (\<exists>j. dir_read j d = Some v)"
    by (metis option.distinct(1))
  with Cons f show ?case by (cases w) auto
qed (simp add: dir_read_def)

subsection \<open>Transcripts\<close>

record roster_person =
  rp_displayName :: "string option"
  rp_email :: string

record occurrence =
  oc_occurrenceKey :: string
  oc_calendarEventId :: "string option"

record speaker_mapping =
  sm_speakerLabel :: string
  sm_calendarEmail :: "string option"
  sm_verifiedHandles :: "(string \<times> string list) list"
  sm_externalContactIds :: "(string \<times> string) list"

record source_revision =
  sr_externalFileId :: string
  sr_fileName :: string
  sr_sourceUrl :: "string option"
  sr_checksum :: string
  sr_observedRevision :: nat
  sr_modifiedAt :: "string option"

datatype association_signal =
    SawTrustedOccurrence | SawOwnerConfirmed | SawFileNameTitle | SawFileNameTime | SawRosterSpeaker
  | SawFileModifiedTime

datatype association_basis = TrustedOccurrence | OwnerConfirmed | TranscriptOwned | LegacyUnknown

record association =
  as_basis :: association_basis
  as_signals :: "association_signal list"
  as_candidateMeetingIds :: "string list"
  as_recordedAt :: string

datatype association_field = NeverRecorded | NullAssociation | Associated association

record time_anchor =
  ta_date :: string
  ta_timeZone :: string

record transcript_record =
  tr_id :: string
  tr_source :: source_revision
  tr_ingestedAt :: string
  tr_extractorVersion :: nat
  tr_normalizedText :: string
  tr_meetingDate :: "string option"
  tr_occurrence :: "occurrence option"
  tr_speakers :: "string list"
  tr_speakerMappings :: "speaker_mapping list"
  tr_roster :: "roster_person list"
  tr_meetingId :: "string option"
  tr_association :: association_field
  tr_timeAnchor :: "time_anchor option"

datatype ledger_state = Pending | Failed | Skipped | Processed

record ledger_entry =
  le_externalFileId :: string
  le_fileName :: string
  le_observedRevision :: nat
  le_checksum :: "string option"
  le_state :: ledger_state
  le_attempts :: nat
  le_transcriptId :: "string option"
  le_reason :: "string option"
  le_updatedAt :: string

record consent =
  co_folderId :: string
  co_folderName :: "string option"
  co_consentedAt :: string

record tombstone =
  tb_externalFileId :: string
  tb_checksum :: string
  tb_deletedAt :: string

datatype deletion_kind = Deletion | Repermission

record deletion_entry =
  dl_sequence :: nat
  dl_kind :: deletion_kind
  dl_externalFileId :: string
  dl_transcriptId :: "string option"
  dl_recordedAt :: string

record removed_counts =
  rc_transcriptRecords :: nat
  rc_identityMentions :: nat
  rc_organizationMentions :: nat
  rc_identityCandidates :: nat
  rc_identityDecisions :: nat
  rc_organizationMergeDecisions :: nat
  rc_transcriptRememberedMappings :: nat
  rc_extractionLedgerEntries :: nat
  rc_relevanceCandidates :: nat
  rc_relevanceDecisions :: nat
  rc_consumerRecords :: nat

record deletion_receipt =
  dr_receiptId :: string
  dr_transcriptId :: string
  dr_externalFileId :: string
  dr_deletedAt :: string
  dr_removed :: removed_counts
  dr_tombstone :: tombstone
  dr_remoteProviderOperations :: nat

record processing_pass =
  pp_processed :: nat
  pp_failed :: nat
  pp_skipped :: nat
  pp_unchanged :: nat

subsection \<open>Meetings\<close>

datatype response_status = Accepted | Tentative | NeedsAction | Declined

record participant =
  pt_email :: string
  pt_displayName :: "string option"
  pt_responseStatus :: response_status
  pt_organizer :: bool
  pt_self :: bool

datatype ineligibility = AllDayExcluded | MissingTime | Cancelled | OwnerDeclined | NoOtherAttendee

record meeting =
  mt_id :: string
  mt_occurrenceKey :: "string option"
  mt_calendarEventId :: "string option"
  mt_occurrenceId :: "string option"
  mt_title :: string
  mt_startAt :: string
  mt_endAt :: string
  mt_timeZone :: "string option"
  mt_dateOnly :: bool
  mt_participants :: "participant list"
  mt_cancelled :: bool
  mt_ineligibleReason :: "ineligibility option"
  mt_createdAt :: string
  mt_updatedAt :: string

end
