(* ===== verification/CatalogStore.thy ===== *)
theory CatalogStore
  imports TranscriptTypes
begin

section \<open>The Transcript Catalog's files\<close>

text \<open>
  \<^verbatim>\<open>apps/server/src/transcript-catalog/store.ts\<close>.  The state is the directory the class owns.  Every read parses the
  file and takes one that is absent or damaged for nothing; every write replaces the file.  The comparison of two
  keys or times by \<open>localeCompare\<close> depends on the collation of the runtime and is an argument.
\<close>

record catalog_state =
  kc_consent :: "consent json_file"
  kc_backfill :: "bool json_file"
  kc_ledger :: "ledger_entry list json_file"
  kc_transcripts :: "transcript_record directory"
  kc_tombstones :: "tombstone directory"
  kc_receipts :: "deletion_receipt directory"
  kc_deletions :: "deletion_entry list json_file"

definition empty_catalog :: catalog_state where
  "empty_catalog = \<lparr>kc_consent = NoFile, kc_backfill = NoFile, kc_ledger = NoFile, kc_transcripts = [],
     kc_tombstones = [], kc_receipts = [], kc_deletions = NoFile\<rparr>"

definition readConsent :: "catalog_state \<Rightarrow> consent option" where
  "readConsent c = read_file (kc_consent c)"

definition writeConsent :: "consent \<Rightarrow> catalog_state \<Rightarrow> catalog_state" where
  "writeConsent consent c = c\<lparr>kc_consent := Json consent\<rparr>"

definition readPaused :: "catalog_state \<Rightarrow> bool" where
  "readPaused c \<longleftrightarrow> read_file (kc_backfill c) = Some True"

definition writePaused :: "bool \<Rightarrow> catalog_state \<Rightarrow> catalog_state" where
  "writePaused paused c = c\<lparr>kc_backfill := Json paused\<rparr>"

subsection \<open>The processing ledger\<close>

definition readLedger :: "catalog_state \<Rightarrow> ledger_entry list" where
  "readLedger c = (case read_file (kc_ledger c) of None \<Rightarrow> [] | Some es \<Rightarrow> es)"

definition entry_key :: "ledger_entry \<Rightarrow> string" where
  "entry_key e = le_externalFileId e @ ''#'' @ digits (le_observedRevision e)"

definition by_key :: "(string \<Rightarrow> string \<Rightarrow> int) \<Rightarrow> ledger_entry \<Rightarrow> ledger_entry \<Rightarrow> int" where
  "by_key collate a b = collate (entry_key a) (entry_key b)"

definition saveLedgerEntry ::
  "(string \<Rightarrow> string \<Rightarrow> int) \<Rightarrow> ledger_entry \<Rightarrow> catalog_state \<Rightarrow> catalog_state" where
  "saveLedgerEntry collate e c = c\<lparr>kc_ledger := Json (js_sort (by_key collate)
     (filter (\<lambda>x. entry_key x \<noteq> entry_key e) (readLedger c) @ [e]))\<rparr>"

definition processedDuplicate :: "string \<Rightarrow> string \<Rightarrow> string \<Rightarrow> catalog_state \<Rightarrow> ledger_entry option" where
  "processedDuplicate checksum fileName exceptFileId c =
     find (\<lambda>e. le_state e = Processed \<and> le_transcriptId e \<noteq> None \<and> le_externalFileId e \<noteq> exceptFileId
        \<and> (le_checksum e = Some checksum
           \<or> (recordingKey fileName \<noteq> None \<and> recordingKey (le_fileName e) = recordingKey fileName)))
       (readLedger c)"

fun later_entry :: "ledger_entry \<Rightarrow> ledger_entry list \<Rightarrow> ledger_entry" where
  "later_entry latest [] = latest"
| "later_entry latest (e # es) =
     later_entry (if le_observedRevision e > le_observedRevision latest then e else latest) es"

definition latestEntry :: "string \<Rightarrow> catalog_state \<Rightarrow> ledger_entry option" where
  "latestEntry externalFileId c =
     (case filter (\<lambda>e. le_externalFileId e = externalFileId) (readLedger c) of
        [] \<Rightarrow> None | e # es \<Rightarrow> Some (later_entry e es))"

definition removeLedgerEntries :: "string \<Rightarrow> catalog_state \<Rightarrow> nat \<times> catalog_state" where
  "removeLedgerEntries externalFileId c =
     (let entries = readLedger c; kept = filter (\<lambda>e. le_externalFileId e \<noteq> externalFileId) entries in
      if length kept = length entries then (0, c)
      else (length entries - length kept, c\<lparr>kc_ledger := Json kept\<rparr>))"

subsection \<open>The Transcripts\<close>

definition readTranscript :: "string \<Rightarrow> catalog_state \<Rightarrow> transcript_record option" where
  "readTranscript tid c = dir_read tid (kc_transcripts c)"

definition listTranscripts :: "catalog_state \<Rightarrow> transcript_record list" where
  "listTranscripts c = dir_values (kc_transcripts c)"

text \<open>Write-once: a file that is there, even a damaged one, is never written again.\<close>

definition saveTranscript :: "transcript_record \<Rightarrow> catalog_state \<Rightarrow> catalog_state" where
  "saveTranscript r c =
     (if dir_exists (tr_id r) (kc_transcripts c) then c
      else c\<lparr>kc_transcripts := dir_write (tr_id r) r (kc_transcripts c)\<rparr>)"

definition updateTranscript :: "transcript_record \<Rightarrow> catalog_state \<Rightarrow> catalog_state" where
  "updateTranscript r c = c\<lparr>kc_transcripts := dir_write (tr_id r) r (kc_transcripts c)\<rparr>"

definition deleteTranscript :: "string \<Rightarrow> catalog_state \<Rightarrow> bool \<times> catalog_state" where
  "deleteTranscript tid c =
     (if dir_exists tid (kc_transcripts c) then (True, c\<lparr>kc_transcripts := dir_remove tid (kc_transcripts c)\<rparr>)
      else (False, c))"

definition recorded_at :: "transcript_record \<Rightarrow> string" where
  "recorded_at r = (case tr_meetingDate r of Some d \<Rightarrow> d | None \<Rightarrow> tr_ingestedAt r)"

fun oldest_of :: "string option \<Rightarrow> transcript_record list \<Rightarrow> string option" where
  "oldest_of oldest [] = oldest"
| "oldest_of oldest (r # rs) = oldest_of
     (case oldest of None \<Rightarrow> Some (recorded_at r)
      | Some t \<Rightarrow> if recorded_at r < t then Some (recorded_at r) else oldest) rs"

definition oldestRecordedDate :: "catalog_state \<Rightarrow> string option" where
  "oldestRecordedDate c = oldest_of None (listTranscripts c)"

subsection \<open>Deletion records\<close>

definition writeTombstone :: "tombstone \<Rightarrow> catalog_state \<Rightarrow> catalog_state" where
  "writeTombstone t c = c\<lparr>kc_tombstones := dir_write (tb_externalFileId t) t (kc_tombstones c)\<rparr>"

definition readTombstone :: "string \<Rightarrow> catalog_state \<Rightarrow> tombstone option" where
  "readTombstone externalFileId c = dir_read externalFileId (kc_tombstones c)"

definition listTombstones :: "(string \<Rightarrow> string \<Rightarrow> int) \<Rightarrow> catalog_state \<Rightarrow> tombstone list" where
  "listTombstones collate c =
     js_sort (\<lambda>a b. collate (tb_deletedAt a) (tb_deletedAt b)) (dir_values (kc_tombstones c))"

definition deleteTombstone :: "string \<Rightarrow> catalog_state \<Rightarrow> bool \<times> catalog_state" where
  "deleteTombstone externalFileId c =
     (if dir_exists externalFileId (kc_tombstones c)
      then (True, c\<lparr>kc_tombstones := dir_remove externalFileId (kc_tombstones c)\<rparr>) else (False, c))"

definition saveDeletionReceipt :: "deletion_receipt \<Rightarrow> catalog_state \<Rightarrow> catalog_state" where
  "saveDeletionReceipt r c = c\<lparr>kc_receipts := dir_write (dr_transcriptId r) r (kc_receipts c)\<rparr>"

definition getDeletionReceipt :: "string \<Rightarrow> catalog_state \<Rightarrow> deletion_receipt option" where
  "getDeletionReceipt transcriptId c = dir_read transcriptId (kc_receipts c)"

definition listDeletionLedger :: "catalog_state \<Rightarrow> deletion_entry list" where
  "listDeletionLedger c = (case read_file (kc_deletions c) of None \<Rightarrow> []
     | Some es \<Rightarrow> js_sort (\<lambda>a b. int (dl_sequence a) - int (dl_sequence b)) es)"

text \<open>A line appended to a file: one that was damaged stays damaged.\<close>

fun append_line :: "'a \<Rightarrow> 'a list json_file \<Rightarrow> 'a list json_file" where
  "append_line x NoFile = Json [x]"
| "append_line x Damaged = Damaged"
| "append_line x (Json xs) = Json (xs @ [x])"

definition nextSequence :: "catalog_state \<Rightarrow> nat" where
  "nextSequence c = (case listDeletionLedger c of [] \<Rightarrow> 1 | es \<Rightarrow> dl_sequence (last es) + 1)"

definition appendDeletionLedgerEntry ::
  "deletion_kind \<Rightarrow> string \<Rightarrow> string option \<Rightarrow> string \<Rightarrow> catalog_state \<Rightarrow> catalog_state" where
  "appendDeletionLedgerEntry kind externalFileId transcriptId recordedAt c =
     c\<lparr>kc_deletions := append_line \<lparr>dl_sequence = nextSequence c, dl_kind = kind,
        dl_externalFileId = externalFileId, dl_transcriptId = transcriptId, dl_recordedAt = recordedAt\<rparr>
        (kc_deletions c)\<rparr>"

subsection \<open>The keys of the ledger and the Transcripts\<close>

lemma entry_key_inj: "entry_key a = entry_key b \<longleftrightarrow>
    le_externalFileId a = le_externalFileId b \<and> le_observedRevision a = le_observedRevision b"
proof
  assume "entry_key a = entry_key b"
  then have "le_externalFileId a = le_externalFileId b \<and>
      digits (le_observedRevision a) = digits (le_observedRevision b)"
    by (intro split_last_mark [of _ "CHR ''#''"]) (simp_all add: entry_key_def digits_no_hash)
  then show "le_externalFileId a = le_externalFileId b \<and> le_observedRevision a = le_observedRevision b"
    by (simp add: digits_inj)
qed (simp add: entry_key_def)

lemma readLedger_save: "readLedger (saveLedgerEntry collate e c) =
    js_sort (by_key collate) (filter (\<lambda>x. entry_key x \<noteq> entry_key e) (readLedger c) @ [e])"
  by (simp add: readLedger_def saveLedgerEntry_def)

lemma set_readLedger_save: "set (readLedger (saveLedgerEntry collate e c)) =
    insert e {x \<in> set (readLedger c). entry_key x \<noteq> entry_key e}"
  by (auto simp: readLedger_save)

text \<open>Each source revision has one entry.\<close>

definition ledger_keyed :: "catalog_state \<Rightarrow> bool" where
  "ledger_keyed c \<longleftrightarrow> distinct (map entry_key (readLedger c))"

lemma distinct_map_js_sort: "distinct (map f (js_sort cmp xs)) \<longleftrightarrow> distinct (map f xs)"
proof -
  have "mset (map f (js_sort cmp xs)) = mset (map f xs)" by simp
  then show ?thesis by (rule mset_eq_imp_distinct_iff)
qed

lemma ledger_keyed_save: "ledger_keyed c \<Longrightarrow> ledger_keyed (saveLedgerEntry collate e c)"
  by (auto simp: ledger_keyed_def readLedger_save distinct_map_js_sort distinct_map_filter)

text \<open>The latest entry is one of the file's, and no other revision of the file is later.\<close>

lemma later_entry_mem: "later_entry e es \<in> insert e (set es)"
  by (induction e es rule: later_entry.induct) auto

lemma later_entry_max:
  "x \<in> insert e (set es) \<Longrightarrow> le_observedRevision x \<le> le_observedRevision (later_entry e es)"
proof (induction e es arbitrary: x rule: later_entry.induct)
  case (2 latest e es)
  let ?l = "if le_observedRevision e > le_observedRevision latest then e else latest"
  have l: "le_observedRevision ?l \<le> le_observedRevision (later_entry ?l es)" using "2.IH" by blast
  show ?case
  proof (cases "x \<in> set es")
    case True
    then have "le_observedRevision x \<le> le_observedRevision (later_entry ?l es)" using "2.IH" by blast
    then show ?thesis by simp
  next
    case False
    with "2.prems" have "le_observedRevision x \<le> le_observedRevision ?l" by auto
    with l show ?thesis by (metis le_trans later_entry.simps(2))
  qed
qed simp

lemma latestEntry_SomeD:
  assumes "latestEntry f c = Some e"
  shows "e \<in> set (readLedger c)" "le_externalFileId e = f"
    "\<forall>x\<in>set (readLedger c). le_externalFileId x = f \<longrightarrow> le_observedRevision x \<le> le_observedRevision e"
proof -
  obtain d ds where ds: "filter (\<lambda>e. le_externalFileId e = f) (readLedger c) = d # ds" "e = later_entry d ds"
    using assms by (auto simp: latestEntry_def split: list.splits)
  have mem: "x \<in> insert d (set ds) \<longleftrightarrow> x \<in> set (readLedger c) \<and> le_externalFileId x = f" for x
    using arg_cong [OF ds(1), of set] by auto
  show "e \<in> set (readLedger c)" "le_externalFileId e = f"
    using later_entry_mem [of d ds] mem ds(2) by auto
  show "\<forall>x\<in>set (readLedger c). le_externalFileId x = f \<longrightarrow> le_observedRevision x \<le> le_observedRevision e"
    using later_entry_max [of _ d ds] mem ds(2) by blast
qed

lemma latestEntry_None: "latestEntry f c = None \<longleftrightarrow> f \<notin> le_externalFileId ` set (readLedger c)"
proof -
  have "filter (\<lambda>e. le_externalFileId e = f) (readLedger c) = [] \<longleftrightarrow> f \<notin> le_externalFileId ` set (readLedger c)"
    by (auto simp: filter_empty_conv)
  then show ?thesis by (auto simp: latestEntry_def split: list.splits)
qed

lemma latestEntryI:
  assumes "ledger_keyed c" "e \<in> set (readLedger c)" "le_externalFileId e = f"
    "\<forall>x\<in>set (readLedger c). le_externalFileId x = f \<longrightarrow> le_observedRevision x \<le> le_observedRevision e"
  shows "latestEntry f c = Some e"
proof -
  obtain l where l: "latestEntry f c = Some l"
    using assms(2,3) latestEntry_None [of f c] by (cases "latestEntry f c") auto
  from latestEntry_SomeD [OF l] assms have "entry_key l = entry_key e"
    by (auto simp: entry_key_inj intro: order_antisym)
  with latestEntry_SomeD(1) [OF l] assms(1,2) have "l = e"
    by (auto simp: ledger_keyed_def distinct_map dest: inj_onD)
  with l show ?thesis by simp
qed

end
