(* ===== verification/TranscriptCatalog.thy ===== *)
theory TranscriptCatalog
  imports CatalogStore
begin

section \<open>The Transcript Catalog\<close>

text \<open>
  \<^verbatim>\<open>apps/server/src/transcript-catalog/catalog.ts\<close>: consent, the inventory, the pass over a source folder, and the
  association of a Transcript with its Meeting.  SHA-256, the conversion of bytes to text, the two consumers of a
  registered Transcript (which may throw, with a message) and the clock are the environment.

  A pass awaits: the turn of one file carries what the source answered and what other operations did to the files
  of the Catalog before the turn and while it waited for the fetch, the conversion and the mining.  Two passes never
  overlap, because a second caller awaits the one that runs.
\<close>

record catalog_env =
  kv_sha :: "string \<Rightarrow> string"
  kv_convert :: "string \<Rightarrow> string \<Rightarrow> string + string"
  kv_identity :: "transcript_record \<Rightarrow> string option"
  kv_debrief :: "transcript_record \<Rightarrow> string option"
  kv_collate :: "string \<Rightarrow> string \<Rightarrow> int"
  kv_now :: "nat \<Rightarrow> string"

record source_file =
  sf_externalFileId :: string
  sf_fileName :: string
  sf_sizeBytes :: "nat option"
  sf_modifiedAt :: "string option"
  sf_sourceUrl :: "string option"
  sf_conversionName :: "string option"

definition TRANSCRIPT_CATALOG_EXTRACTOR_VERSION :: nat where
  "TRANSCRIPT_CATALOG_EXTRACTOR_VERSION = 2"

definition DUPLICATE_REASON :: string where
  "DUPLICATE_REASON = ''duplicate of an already-catalogued transcript''"

subsection \<open>Speaker labels\<close>

definition SPEAKER_LABEL :: regex where
  "SPEAKER_LABEL = seqs [Start False, Many True blank,
     Group 1 (Seq (none_of [CHR '':'', CHR 0x0A]) (up_to 79 True (none_of [CHR '':'', CHR 0x0A]))),
     Many True blank, lit '':'', Many True blank, some any_char]"

definition clock_label :: regex where
  "clock_label = seqs [up_to 2 True (one_of ''*_''), opt (lit ''[''), Seq digit (up_to 1 True digit), lit '':'',
     times 2 digit, opt (Seq (lit '':'') (times 2 digit)),
     opt (seqs [opt blank, one_of ''APap'', one_of ''Mm'']), opt (lit '']''), up_to 2 True (one_of ''*_'')]"

definition MARKDOWN_SPEAKER_LABEL :: regex where
  "MARKDOWN_SPEAKER_LABEL = seqs [Start False, Many True blank, Group 1 (Alt (lit ''**'') (lit ''__'')),
     Group 2 (Seq (none_of [CHR ''*'', CHR ''_'', CHR 0x0A]) (up_to 79 False (none_of [CHR ''*'', CHR ''_'', CHR 0x0A]))),
     Backref 1, Many True blank, opt clock_label, Many True blank, lit '':'', some blank]"

definition upper_letter :: regex where
  "upper_letter = OneOf (\<lambda>c. 65 \<le> (of_char c :: nat) \<and> (of_char c :: nat) \<le> 90)"

definition lower_letter :: regex where
  "lower_letter = OneOf (\<lambda>c. 97 \<le> (of_char c :: nat) \<and> (of_char c :: nat) \<le> 122)"

definition PERSON_LIKE_LABEL :: regex where
  "PERSON_LIKE_LABEL = seqs [Start False, upper_letter, some lower_letter,
     opt (seqs [blank, upper_letter, some lower_letter]), End False]"

function split_lines :: "string \<Rightarrow> string list" where
  "split_lines s = (case dropWhile (\<lambda>c. c \<noteq> CHR 0x0A) s of
     [] \<Rightarrow> [s] | _ # cs \<Rightarrow> takeWhile (\<lambda>c. c \<noteq> CHR 0x0A) s # split_lines cs)"
  by pat_completeness auto
termination
proof (relation "measure length")
  fix s c and cs :: string
  assume "dropWhile (\<lambda>c. c \<noteq> CHR 0x0A) s = c # cs"
  then have "length (c # cs) \<le> length s" by (metis length_dropWhile_le)
  then show "(cs, s) \<in> measure length" by simp
qed simp

declare split_lines.simps [simp del]

definition label_of_line :: "string \<Rightarrow> string option" where
  "label_of_line line =
     (let markdown = exec MARKDOWN_SPEAKER_LABEL line;
          found = (case markdown of Some m \<Rightarrow> group m 2
            | None \<Rightarrow> (case exec SPEAKER_LABEL line of None \<Rightarrow> None | Some m \<Rightarrow> group m 1))
      in case found of None \<Rightarrow> None
         | Some raw \<Rightarrow> (let label = trim raw in
             if label \<noteq> [] \<and> ((length label < 40 \<and> CHR '' '' \<notin> set label) \<or> test PERSON_LIKE_LABEL label
                  \<or> test (Seq (Start False) (lit_i ''speaker'')) label)
             then Some label else None))"

fun add_once :: "string \<Rightarrow> string list \<Rightarrow> string list" where
  "add_once x xs = (if x \<in> set xs then xs else xs @ [x])"

definition collectSpeakerLabels :: "string \<Rightarrow> string list" where
  "collectSpeakerLabels t =
     foldl (\<lambda>labels line. case label_of_line line of None \<Rightarrow> labels | Some l \<Rightarrow> add_once l labels) [] (split_lines t)"

subsection \<open>Consent, inventory and status\<close>

definition grantConsent :: "catalog_env \<Rightarrow> string \<Rightarrow> string option \<Rightarrow> catalog_state \<Rightarrow> catalog_state" where
  "grantConsent env folderId folderName c = writeConsent \<lparr>co_folderId = folderId, co_folderName = folderName,
     co_consentedAt = (case readConsent c of None \<Rightarrow> kv_now env 0
       | Some existing \<Rightarrow> if co_folderId existing = folderId then co_consentedAt existing else kv_now env 0)\<rparr> c"

definition pauseBackfill :: "catalog_state \<Rightarrow> catalog_state" where
  "pauseBackfill c = writePaused True c"

text \<open>Whether resuming starts a pass, and the files it leaves.\<close>

definition resumeBackfill :: "catalog_state \<Rightarrow> bool \<times> catalog_state" where
  "resumeBackfill c = (readConsent c \<noteq> None, writePaused False c)"

record inventory_file =
  if_externalFileId :: string
  if_fileName :: string
  if_sizeBytes :: "nat option"
  if_modifiedAt :: "string option"
  if_meetingDate :: "string option"

record inventory =
  iv_fileCount :: nat
  iv_earliest :: "string option"
  iv_latest :: "string option"
  iv_totalBytes :: nat
  iv_files :: "inventory_file list"

definition inventory_file_of :: "source_file \<Rightarrow> inventory_file" where
  "inventory_file_of f = \<lparr>if_externalFileId = sf_externalFileId f, if_fileName = sf_fileName f,
     if_sizeBytes = sf_sizeBytes f, if_modifiedAt = sf_modifiedAt f,
     if_meetingDate = meetingDateFromFileName (sf_fileName f)\<rparr>"

definition dayOf :: "string option \<Rightarrow> string option" where
  "dayOf value = (case value of None \<Rightarrow> None | Some v \<Rightarrow> if v = [] then None else Some (take 10 v))"

definition day_of_file :: "inventory_file \<Rightarrow> string option" where
  "day_of_file f = (case dayOf (if_meetingDate f) of Some d \<Rightarrow> Some d | None \<Rightarrow> dayOf (if_modifiedAt f))"

definition by_code_units :: "string \<Rightarrow> string \<Rightarrow> int" where
  "by_code_units a b = (if a < b then -1 else if b < a then 1 else 0)"

definition inventoryOf :: "source_file list \<Rightarrow> inventory" where
  "inventoryOf listed =
     (let files = map inventory_file_of listed; days = js_sort by_code_units (List.map_filter day_of_file files) in
      \<lparr>iv_fileCount = length files, iv_earliest = (case days of [] \<Rightarrow> None | d # _ \<Rightarrow> Some d),
       iv_latest = (if days = [] then None else Some (last days)),
       iv_totalBytes = sum_list (map (\<lambda>f. case if_sizeBytes f of None \<Rightarrow> 0 | Some n \<Rightarrow> n) files),
       iv_files = files\<rparr>)"

datatype backfill_state = BackfillIdle | BackfillRunning | BackfillPaused

record catalog_status =
  cs_consent :: "consent option"
  cs_backfill :: backfill_state
  cs_pending :: nat
  cs_processed :: nat
  cs_failed :: nat
  cs_skipped :: nat
  cs_transcriptCount :: nat

definition count_state :: "ledger_state \<Rightarrow> catalog_state \<Rightarrow> nat" where
  "count_state st c = length (filter (\<lambda>e. le_state e = st) (readLedger c))"

definition catalogStatus :: "bool \<Rightarrow> catalog_state \<Rightarrow> catalog_status" where
  "catalogStatus running c = \<lparr>cs_consent = readConsent c,
     cs_backfill = (if readPaused c then BackfillPaused else if running then BackfillRunning else BackfillIdle),
     cs_pending = count_state Pending c, cs_processed = count_state Processed c,
     cs_failed = count_state Failed c, cs_skipped = count_state Skipped c,
     cs_transcriptCount = length (listTranscripts c)\<rparr>"

subsection \<open>Associations\<close>

type_synonym 'a catalog_cmd = "(catalog_state, string, 'a) cmd"

record matched_meeting =
  mm_id :: string
  mm_occurrenceKey :: "string option"
  mm_calendarEventId :: "string option"
  mm_timeAnchor :: "time_anchor option option"
  mm_roster :: "roster_person list"

text \<open>The two consumers of a Transcript, in order; the first that throws ends the operation.\<close>

definition consumers :: "catalog_env \<Rightarrow> transcript_record \<Rightarrow> string option" where
  "consumers env r = (case kv_identity env r of Some e \<Rightarrow> Some e | None \<Rightarrow> kv_debrief env r)"

definition consumed :: "catalog_env \<Rightarrow> transcript_record \<Rightarrow> transcript_record catalog_cmd" where
  "consumed env r = (case consumers env r of Some e \<Rightarrow> throw e | None \<Rightarrow> ret r)"

definition storing :: "transcript_record \<Rightarrow> unit catalog_cmd" where
  "storing r = (\<lambda>c. (Inr (), updateTranscript r c))"

definition transcript_at :: "string \<Rightarrow> transcript_record catalog_cmd" where
  "transcript_at tid = query (\<lambda>c. case readTranscript tid c of
     None \<Rightarrow> Inl (''Unknown transcript: '' @ tid) | Some r \<Rightarrow> Inr r)"

definition associateOccurrence ::
  "catalog_env \<Rightarrow> string \<Rightarrow> occurrence \<Rightarrow> speaker_mapping list \<Rightarrow> roster_person list
    \<Rightarrow> transcript_record catalog_cmd" where
  "associateOccurrence env tid oc mappings roster =
     andThen (transcript_at tid) (\<lambda>r.
       let updated = r\<lparr>tr_occurrence := Some oc, tr_speakerMappings := mappings, tr_roster := roster\<rparr> in
       andThen (storing updated) (\<lambda>_. consumed env updated))"

definition attached :: "matched_meeting \<Rightarrow> association \<Rightarrow> transcript_record \<Rightarrow> transcript_record" where
  "attached m a r = r\<lparr>tr_meetingId := Some (mm_id m),
     tr_occurrence := (case mm_occurrenceKey m of None \<Rightarrow> tr_occurrence r
       | Some k \<Rightarrow> Some \<lparr>oc_occurrenceKey = k, oc_calendarEventId = mm_calendarEventId m\<rparr>),
     tr_roster := (if mm_roster m \<noteq> [] then mm_roster m else tr_roster r),
     tr_association := Associated a,
     tr_timeAnchor := (case mm_timeAnchor m of None \<Rightarrow> tr_timeAnchor r | Some anchor \<Rightarrow> anchor)\<rparr>"

definition attachMeeting ::
  "catalog_env \<Rightarrow> string \<Rightarrow> matched_meeting \<Rightarrow> association \<Rightarrow> transcript_record catalog_cmd" where
  "attachMeeting env tid m a =
     andThen (transcript_at tid) (\<lambda>r.
       let updated = attached m a r in andThen (storing updated) (\<lambda>_. consumed env updated))"

end
