(* ===== verification/CatalogPass.thy ===== *)
theory CatalogPass
  imports TranscriptCatalog
begin

section \<open>A pass over the source folder\<close>

text \<open>
  \<^verbatim>\<open>TranscriptCatalog.processAvailable\<close> of \<^verbatim>\<open>catalog.ts\<close> and what it runs: the repair of stored Transcripts, the
  retirement of copies, and the turn of each listed file.
\<close>

subsection \<open>Repairs\<close>

definition rederived :: "transcript_record \<Rightarrow> transcript_record" where
  "rederived r = r\<lparr>tr_speakers := collectSpeakerLabels (tr_normalizedText r),
     tr_extractorVersion := TRANSCRIPT_CATALOG_EXTRACTOR_VERSION\<rparr>"

definition rederiveStaleRecords :: "catalog_state \<Rightarrow> catalog_state" where
  "rederiveStaleRecords c = foldl (\<lambda>c r.
     if tr_extractorVersion r = TRANSCRIPT_CATALOG_EXTRACTOR_VERSION then c else updateTranscript (rederived r) c)
     c (listTranscripts c)"

fun push_group :: "string \<Rightarrow> 'a \<Rightarrow> (string \<times> 'a list) list \<Rightarrow> (string \<times> 'a list) list" where
  "push_group k x [] = [(k, [x])]"
| "push_group k x ((j, xs) # gs) = (if j = k then (j, xs @ [x]) # gs else (j, xs) # push_group k x gs)"

definition recording_groups :: "transcript_record list \<Rightarrow> (string \<times> transcript_record list) list" where
  "recording_groups rs = foldl (\<lambda>gs r. case recordingKey (sr_fileName (tr_source r)) of
     None \<Rightarrow> gs | Some k \<Rightarrow> push_group k r gs) [] rs"

definition richer :: "(string \<Rightarrow> string \<Rightarrow> int) \<Rightarrow> transcript_record \<Rightarrow> transcript_record \<Rightarrow> int" where
  "richer collate a b =
     (let d = int (length (tr_normalizedText b)) - int (length (tr_normalizedText a)) in
      if d \<noteq> 0 then d else collate (tr_id a) (tr_id b))"

text \<open>The entry is written with the time it carries, and with the clock's only when it carries none.\<close>

definition recordEntry :: "catalog_env \<Rightarrow> ledger_entry \<Rightarrow> catalog_state \<Rightarrow> catalog_state" where
  "recordEntry env e c = saveLedgerEntry (kv_collate env)
     (if le_updatedAt e = [] then e\<lparr>le_updatedAt := kv_now env 2\<rparr> else e) c"

definition retire :: "catalog_env \<Rightarrow> transcript_record \<Rightarrow> transcript_record \<Rightarrow> catalog_state \<Rightarrow> catalog_state" where
  "retire env kept r c =
     (let c1 = snd (deleteTranscript (tr_id r) c) in
      case latestEntry (sr_externalFileId (tr_source r)) c1 of None \<Rightarrow> c1
      | Some e \<Rightarrow> recordEntry env (e\<lparr>le_state := Skipped, le_reason := Some DUPLICATE_REASON,
          le_transcriptId := Some (tr_id kept)\<rparr>) c1)"

fun retire_group :: "catalog_env \<Rightarrow> transcript_record list \<Rightarrow> catalog_state \<Rightarrow> catalog_state" where
  "retire_group env [] c = c"
| "retire_group env (kept # retired) c = foldl (\<lambda>c r. retire env kept r c) c retired"

definition retireDuplicateRecords :: "catalog_env \<Rightarrow> catalog_state \<Rightarrow> catalog_state" where
  "retireDuplicateRecords env c = foldl (\<lambda>c g.
     if length (snd g) < 2 then c else retire_group env (js_sort (richer (kv_collate env)) (snd g)) c)
     c (recording_groups (listTranscripts c))"

subsection \<open>The turn of one file\<close>

datatype fetched = FetchFailed string | FetchedNothing | Fetched string

record file_turn =
  ft_env :: catalog_env
  ft_file :: source_file
  ft_fetch :: fetched
  ft_before :: "catalog_state \<Rightarrow> catalog_state"
  ft_while_fetching :: "catalog_state \<Rightarrow> catalog_state"
  ft_while_converting :: "catalog_state \<Rightarrow> catalog_state"
  ft_while_mining :: "catalog_state \<Rightarrow> catalog_state"

datatype file_outcome = FileProcessed | FileFailed | FileSkipped | FileUnchanged

definition newEntry ::
  "catalog_env \<Rightarrow> source_file \<Rightarrow> string option \<Rightarrow> ledger_state \<Rightarrow> string option \<Rightarrow> nat \<Rightarrow> ledger_entry" where
  "newEntry env f checksum st reason revision = \<lparr>le_externalFileId = sf_externalFileId f,
     le_fileName = sf_fileName f, le_observedRevision = revision, le_checksum = checksum, le_state = st,
     le_attempts = 1, le_transcriptId = None, le_reason = reason, le_updatedAt = kv_now env 0\<rparr>"

definition transcriptId :: "string \<Rightarrow> nat \<Rightarrow> string" where
  "transcriptId externalFileId observedRevision = ''drive_'' @ externalFileId @ ''_r'' @ digits observedRevision"

definition conversionNameOf :: "source_file \<Rightarrow> string" where
  "conversionNameOf f = (case sf_conversionName f of Some n \<Rightarrow> n | None \<Rightarrow> sf_fileName f)"

text \<open>\<open>extname\<close>: from the last dot of a name that has something before it.\<close>

definition extension_of :: "string \<Rightarrow> string" where
  "extension_of name =
     (let after = rev (takeWhile (\<lambda>c. c \<noteq> CHR ''.'') (rev name));
          stem = rev (dropWhile (\<lambda>c. c \<noteq> CHR ''.'') (rev name))
      in if length stem \<le> 1 then [] else CHR ''.'' # after)"

definition isSupportedFileName :: "string \<Rightarrow> bool" where
  "isSupportedFileName fileName \<longleftrightarrow> toLowerCase (extension_of fileName)
     \<in> {''.txt'', ''.md'', ''.json'', ''.jsonc'', ''.pdf'', ''.docx''}"

definition transcript_of :: "file_turn \<Rightarrow> string \<Rightarrow> ledger_entry \<Rightarrow> string \<Rightarrow> transcript_record" where
  "transcript_of t checksum e normalizedText = (let f = ft_file t in
     \<lparr>tr_id = transcriptId (sf_externalFileId f) (le_observedRevision e),
      tr_source = \<lparr>sr_externalFileId = sf_externalFileId f, sr_fileName = sf_fileName f,
        sr_sourceUrl = sf_sourceUrl f, sr_checksum = checksum, sr_observedRevision = le_observedRevision e,
        sr_modifiedAt = sf_modifiedAt f\<rparr>,
      tr_ingestedAt = kv_now (ft_env t) 1, tr_extractorVersion = TRANSCRIPT_CATALOG_EXTRACTOR_VERSION,
      tr_normalizedText = normalizedText, tr_meetingDate = meetingDateFromFileName (sf_fileName f),
      tr_occurrence = None, tr_speakers = collectSpeakerLabels normalizedText, tr_speakerMappings = [],
      tr_roster = [], tr_meetingId = None, tr_association = NullAssociation, tr_timeAnchor = None\<rparr>)"

text \<open>Registration: the pending entry, the conversion, the record, its consumers, and how the entry ends.\<close>

definition registering :: "file_turn \<Rightarrow> string \<Rightarrow> string \<Rightarrow> ledger_entry \<Rightarrow> catalog_state \<Rightarrow> file_outcome \<times> catalog_state" where
  "registering t bytes checksum e c =
     (let env = ft_env t; c1 = ft_while_converting t (recordEntry env e c) in
      case kv_convert env (conversionNameOf (ft_file t)) bytes of
        Inl msg \<Rightarrow> (FileFailed, recordEntry env (e\<lparr>le_state := Failed, le_reason := Some msg\<rparr>) c1)
      | Inr normalizedText \<Rightarrow>
          (let r = transcript_of t checksum e normalizedText; c2 = ft_while_mining t (saveTranscript r c1) in
           case consumers env r of
             Some msg \<Rightarrow> (FileFailed, recordEntry env (e\<lparr>le_state := Failed, le_reason := Some msg\<rparr>) c2)
           | None \<Rightarrow> (FileProcessed,
               recordEntry env (e\<lparr>le_state := Processed, le_transcriptId := Some (tr_id r)\<rparr>) c2)))"

definition GONE_REASON :: string where
  "GONE_REASON = ''source file no longer exists''"

definition UNSUPPORTED_REASON :: string where
  "UNSUPPORTED_REASON = ''unsupported file type''"

definition skippable_again :: "source_file \<Rightarrow> ledger_entry \<Rightarrow> bool" where
  "skippable_again f l \<longleftrightarrow> le_state l = Skipped \<and> (le_reason l = Some GONE_REASON
     \<or> (le_reason l = Some UNSUPPORTED_REASON \<and> isSupportedFileName (conversionNameOf f)))"

definition settled_entry :: "source_file \<Rightarrow> string \<Rightarrow> ledger_entry \<Rightarrow> bool" where
  "settled_entry f checksum l \<longleftrightarrow> le_checksum l = Some checksum
     \<and> (le_state l = Processed \<or> (le_state l = Skipped \<and> \<not> skippable_again f l))"

definition same_revision :: "string \<Rightarrow> ledger_entry option \<Rightarrow> bool" where
  "same_revision checksum latest = (case latest of None \<Rightarrow> False
     | Some l \<Rightarrow> le_checksum l = None \<or> le_checksum l = Some checksum)"

definition revision_of :: "string \<Rightarrow> ledger_entry option \<Rightarrow> nat" where
  "revision_of checksum latest = (case latest of None \<Rightarrow> 1
     | Some l \<Rightarrow> if same_revision checksum latest then le_observedRevision l else le_observedRevision l + 1)"

definition attempts_of :: "string \<Rightarrow> ledger_entry option \<Rightarrow> nat" where
  "attempts_of checksum latest = (case latest of None \<Rightarrow> 1
     | Some l \<Rightarrow> if same_revision checksum latest then le_attempts l + 1 else 1)"

definition process_bytes ::
  "file_turn \<Rightarrow> string \<Rightarrow> ledger_entry option \<Rightarrow> catalog_state \<Rightarrow> file_outcome \<times> catalog_state" where
  "process_bytes t bytes latest c =
     (let env = ft_env t; f = ft_file t; checksum = kv_sha env bytes in
      case processedDuplicate checksum (sf_fileName f) (sf_externalFileId f) c of
        Some d \<Rightarrow> (FileSkipped,
          if (case latest of None \<Rightarrow> True | Some l \<Rightarrow> le_checksum l \<noteq> Some checksum \<or> le_state l \<noteq> Skipped)
          then recordEntry env ((newEntry env f (Some checksum) Skipped (Some DUPLICATE_REASON)
                 (case latest of None \<Rightarrow> 1 | Some l \<Rightarrow> le_observedRevision l))\<lparr>le_transcriptId := le_transcriptId d\<rparr>) c
          else c)
      | None \<Rightarrow>
          if (case latest of None \<Rightarrow> False | Some l \<Rightarrow> settled_entry f checksum l) then (FileUnchanged, c)
          else if \<not> same_revision checksum latest \<and> \<not> isSupportedFileName (conversionNameOf f)
          then (FileSkipped, recordEntry env (newEntry env f (Some checksum) Skipped (Some UNSUPPORTED_REASON)
                 (revision_of checksum latest)) c)
          else registering t bytes checksum ((newEntry env f (Some checksum) Pending None
                 (revision_of checksum latest))\<lparr>le_attempts := attempts_of checksum latest\<rparr>) c)"

definition processFile :: "file_turn \<Rightarrow> catalog_state \<Rightarrow> file_outcome \<times> catalog_state" where
  "processFile t c =
     (let env = ft_env t; f = ft_file t in
      if readTombstone (sf_externalFileId f) c \<noteq> None then (FileSkipped, c)
      else let latest = latestEntry (sf_externalFileId f) c; c1 = ft_while_fetching t c in
        case ft_fetch t of
          FetchFailed msg \<Rightarrow> (FileFailed, (case latest of
              None \<Rightarrow> recordEntry env (newEntry env f None Failed (Some msg) 1) c1
            | Some l \<Rightarrow> if le_checksum l = None
                then recordEntry env (l\<lparr>le_state := Failed, le_reason := Some msg, le_attempts := le_attempts l + 1\<rparr>) c1
                else c1))
        | FetchedNothing \<Rightarrow> (FileSkipped, (case latest of
              None \<Rightarrow> c1
            | Some l \<Rightarrow> if le_state l \<noteq> Processed
                then recordEntry env (l\<lparr>le_state := Skipped, le_reason := Some GONE_REASON\<rparr>) c1 else c1))
        | Fetched bytes \<Rightarrow> process_bytes t bytes latest c1)"

subsection \<open>The pass\<close>

definition empty_pass :: processing_pass where
  "empty_pass = \<lparr>pp_processed = 0, pp_failed = 0, pp_skipped = 0, pp_unchanged = 0\<rparr>"

fun counted :: "file_outcome \<Rightarrow> processing_pass \<Rightarrow> processing_pass" where
  "counted FileProcessed p = p\<lparr>pp_processed := pp_processed p + 1\<rparr>"
| "counted FileFailed p = p\<lparr>pp_failed := pp_failed p + 1\<rparr>"
| "counted FileSkipped p = p\<lparr>pp_skipped := pp_skipped p + 1\<rparr>"
| "counted FileUnchanged p = p\<lparr>pp_unchanged := pp_unchanged p + 1\<rparr>"

fun process_files :: "file_turn list \<Rightarrow> processing_pass \<Rightarrow> catalog_state \<Rightarrow> processing_pass \<times> catalog_state" where
  "process_files [] p c = (p, c)"
| "process_files (t # ts) p c =
     (let c1 = ft_before t c in
      if readPaused c1 then (p, c1)
      else let (outcome, c2) = processFile t c1 in process_files ts (counted outcome p) c2)"

text \<open>
  What a pass meets outside the Catalog: whether a consumer's backfill throws, what happens to the files meanwhile,
  and what the source lists.
\<close>

record pass_turn =
  pa_env :: catalog_env
  pa_backfill :: "string option"
  pa_while_backfilling :: "catalog_state \<Rightarrow> catalog_state"
  pa_listing :: "string + file_turn list"

definition runPass :: "pass_turn \<Rightarrow> processing_pass catalog_cmd" where
  "runPass pt c =
     (if readPaused c then (Inr empty_pass, c)
      else let c1 = pa_while_backfilling pt (retireDuplicateRecords (pa_env pt) (rederiveStaleRecords c)) in
        case pa_backfill pt of Some e \<Rightarrow> (Inl e, c1)
        | None \<Rightarrow> (case pa_listing pt of Inl e \<Rightarrow> (Inl e, c1)
            | Inr turns \<Rightarrow> (case process_files turns empty_pass c1 of (p, c2) \<Rightarrow> (Inr p, c2))))"

definition CONSENT_REQUIRED :: string where
  "CONSENT_REQUIRED = ''Transcript Catalog processing requires explicit folder consent''"

definition processAvailable :: "pass_turn \<Rightarrow> processing_pass catalog_cmd" where
  "processAvailable pt c = (if readConsent c = None then (Inl CONSENT_REQUIRED, c) else runPass pt c)"

end
