(* ===== verification/TranscriptDeletion.thy ===== *)
theory TranscriptDeletion
  imports CatalogPass
begin

section \<open>Deleting a Transcript\<close>

text \<open>
  \<^verbatim>\<open>apps/server/src/transcript-catalog/deletion.ts\<close>: the cascade that removes a Transcript, the tombstone that keeps
  its source from being read again, and the owner's re-permission.  What the identity and relevance stores and the
  registered consumers remove are numbers they answer; a consumer that throws in the middle of the cascade ends it
  there, so the cascade takes the step it reaches (\<open>None\<close> when all of it runs).
\<close>

datatype deletion_error = TranscriptNotFound string | ConfirmationRequired string

record consumer_answer =
  ca_consumer :: string
  ca_label :: string
  ca_inspect :: nat
  ca_purge :: "string + nat"

record deletion_env =
  dv_now :: string
  dv_identity :: "string + removed_counts"
  dv_relevance :: "string + (nat \<times> nat)"
  dv_registries :: "consumer_answer list"

definition TRANSCRIPT_DELETE_CONFIRMATION :: string where
  "TRANSCRIPT_DELETE_CONFIRMATION = ''DELETE TRANSCRIPT''"

datatype deletion_failure = Refused deletion_error | Interrupted string

type_synonym 'a deletion_cmd = "(catalog_state, deletion_failure, 'a) cmd"

definition requireRecord :: "string \<Rightarrow> transcript_record deletion_cmd" where
  "requireRecord tid = query (\<lambda>c. case readTranscript tid c of
     Some r \<Rightarrow> Inr r
   | None \<Rightarrow> Inl (Refused (TranscriptNotFound
       (if getDeletionReceipt tid c \<noteq> None
        then ''Transcript '' @ tid @ '' is already deleted; its tombstone stands.''
        else ''Unknown transcript: '' @ tid))))"

definition previewDeletion :: "deletion_env \<Rightarrow> string \<Rightarrow> (string \<times> string \<times> nat) list deletion_cmd" where
  "previewDeletion env tid = andThen (requireRecord tid) (\<lambda>_.
     ret (map (\<lambda>r. (ca_consumer r, ca_label r, ca_inspect r)) (dv_registries env)))"

definition tombstone_of :: "deletion_env \<Rightarrow> transcript_record \<Rightarrow> tombstone" where
  "tombstone_of env r = \<lparr>tb_externalFileId = sr_externalFileId (tr_source r),
     tb_checksum = sr_checksum (tr_source r), tb_deletedAt = dv_now env\<rparr>"

fun purge_all :: "consumer_answer list \<Rightarrow> nat \<Rightarrow> string + nat" where
  "purge_all [] n = Inr n"
| "purge_all (a # as) n = (case ca_purge a of Inl e \<Rightarrow> Inl e | Inr k \<Rightarrow> purge_all as (n + k))"

text \<open>What the other stores remove, or the failure that interrupts the cascade.\<close>

definition removed_elsewhere :: "deletion_env \<Rightarrow> string + removed_counts" where
  "removed_elsewhere env = (case dv_identity env of Inl e \<Rightarrow> Inl e
     | Inr counts \<Rightarrow> (case dv_relevance env of Inl e \<Rightarrow> Inl e
       | Inr (candidates, decisions) \<Rightarrow> (case purge_all (dv_registries env) 0 of Inl e \<Rightarrow> Inl e
         | Inr n \<Rightarrow> Inr (counts\<lparr>rc_relevanceCandidates := candidates, rc_relevanceDecisions := decisions,
             rc_consumerRecords := n\<rparr>))))"

definition effect :: "(catalog_state \<Rightarrow> catalog_state) \<Rightarrow> unit deletion_cmd" where
  "effect f = (\<lambda>c. (Inr (), f c))"

definition receipt_of :: "deletion_env \<Rightarrow> string \<Rightarrow> transcript_record \<Rightarrow> removed_counts \<Rightarrow> deletion_receipt" where
  "receipt_of env tid r removed = \<lparr>dr_receiptId = ''transcript-deletion-'' @ tid @ ''-'' @ dv_now env,
     dr_transcriptId = tid, dr_externalFileId = sr_externalFileId (tr_source r), dr_deletedAt = dv_now env,
     dr_removed = removed\<lparr>rc_transcriptRecords := 1\<rparr>, dr_tombstone = tombstone_of env r,
     dr_remoteProviderOperations = 0\<rparr>"

definition deleteTranscriptRecord :: "deletion_env \<Rightarrow> string \<Rightarrow> string \<Rightarrow> deletion_receipt deletion_cmd" where
  "deleteTranscriptRecord env tid confirmation =
     andThen (require (confirmation = TRANSCRIPT_DELETE_CONFIRMATION)
       (Refused (ConfirmationRequired (''Transcript deletion requires the exact confirmation ''
          @ TRANSCRIPT_DELETE_CONFIRMATION @ ''.'')))) (\<lambda>_.
     andThen (requireRecord tid) (\<lambda>r.
     andThen (effect (writeTombstone (tombstone_of env r))) (\<lambda>_.
     andThen (effect (appendDeletionLedgerEntry Deletion (sr_externalFileId (tr_source r)) (Some tid) (dv_now env))) (\<lambda>_.
     andThen (check (case removed_elsewhere env of Inl e \<Rightarrow> Inl (Interrupted e) | Inr n \<Rightarrow> Inr n)) (\<lambda>removed.
     andThen (effect (\<lambda>c. snd (deleteTranscript tid c))) (\<lambda>_.
     let receipt = receipt_of env tid r removed in
     andThen (effect (saveDeletionReceipt receipt)) (\<lambda>_. ret receipt)))))))"

definition restoreProcessingPermission ::
  "deletion_env \<Rightarrow> string \<Rightarrow> catalog_state \<Rightarrow> tombstone option \<times> catalog_state" where
  "restoreProcessingPermission env externalFileId c =
     (case readTombstone externalFileId c of None \<Rightarrow> (None, c)
      | Some t \<Rightarrow>
          (let c1 = snd (deleteTombstone externalFileId c); c2 = snd (removeLedgerEntries externalFileId c1) in
           (Some t, appendDeletionLedgerEntry Repermission externalFileId None (dv_now env) c2)))"

end
