(* ===== verification/CatalogLaws.thy ===== *)
theory CatalogLaws
  imports TranscriptDeletion
begin

section \<open>What the Catalog may write\<close>

text \<open>
  The specification of the Catalog: the single writes its operations are made of.  A record is registered only where
  none is, and a record that is there is rewritten only in what is derived or associated, never in its artifact.
  Every operation, with whatever other operations do while it waits, is a sequence of such writes, so whatever each
  write keeps holds in every state the Catalog reaches.
\<close>

definition artifact :: "transcript_record \<Rightarrow> string \<times> source_revision \<times> string \<times> string \<times> string option" where
  "artifact r = (tr_id r, tr_source r, tr_ingestedAt r, tr_normalizedText r, tr_meetingDate r)"

definition identified :: "transcript_record \<Rightarrow> bool" where
  "identified r \<longleftrightarrow> tr_id r = transcriptId (sr_externalFileId (tr_source r)) (sr_observedRevision (tr_source r))"

inductive catalog_write :: "catalog_state \<Rightarrow> catalog_state \<Rightarrow> bool" where
  write_consent: "catalog_write c (writeConsent x c)"
| write_paused: "catalog_write c (writePaused b c)"
| write_entry: "catalog_write c (saveLedgerEntry collate e c)"
| write_register: "\<not> dir_exists (tr_id r) (kc_transcripts c) \<Longrightarrow> identified r \<Longrightarrow>
    catalog_write c (updateTranscript r c)"
| write_revise: "readTranscript (tr_id r) c = Some old \<Longrightarrow> artifact r = artifact old \<Longrightarrow>
    catalog_write c (updateTranscript r c)"
| write_discard: "catalog_write c (snd (deleteTranscript tid c))"
| write_tombstone: "catalog_write c (writeTombstone t c)"
| write_permit: "catalog_write c (snd (deleteTombstone f c))"
| write_forget: "catalog_write c (snd (removeLedgerEntries f c))"
| write_receipt: "catalog_write c (saveDeletionReceipt x c)"
| write_log: "catalog_write c (appendDeletionLedgerEntry kind f tid at c)"

abbreviation catalog_writes :: "catalog_state \<Rightarrow> catalog_state \<Rightarrow> bool" where
  "catalog_writes \<equiv> catalog_write\<^sup>*\<^sup>*"

subsection \<open>Soundness of the files\<close>

definition transcripts_ok :: "catalog_state \<Rightarrow> bool" where
  "transcripts_ok c \<longleftrightarrow> distinct (map fst (kc_transcripts c))
     \<and> (\<forall>k r. readTranscript k c = Some r \<longrightarrow> tr_id r = k \<and> identified r)"

definition deletions_ok :: "catalog_state \<Rightarrow> bool" where
  "deletions_ok c \<longleftrightarrow> (\<forall>es. kc_deletions c = Json es \<longrightarrow> map dl_sequence es = [1..<length es + 1])"

definition tombstones_ok :: "catalog_state \<Rightarrow> bool" where
  "tombstones_ok c \<longleftrightarrow> (\<forall>f t. readTombstone f c = Some t \<longrightarrow> tb_externalFileId t = f)"

definition catalog_ok :: "catalog_state \<Rightarrow> bool" where
  "catalog_ok c \<longleftrightarrow> transcripts_ok c \<and> ledger_keyed c \<and> deletions_ok c \<and> tombstones_ok c"

lemmas store_defs = writeConsent_def writePaused_def saveLedgerEntry_def updateTranscript_def deleteTranscript_def
  writeTombstone_def deleteTombstone_def removeLedgerEntries_def saveDeletionReceipt_def appendDeletionLedgerEntry_def

text \<open>The ledger of deletions, numbered in the order of its lines.\<close>

interpretation sequence: comparator "\<lambda>a b. int (dl_sequence a) - int (dl_sequence b)"
  by unfold_locales (auto simp: sgn_if)

lemma sorted_sequences:
  assumes "map dl_sequence es = [1..<length es + 1]"
  shows "js_sort (\<lambda>a b. int (dl_sequence a) - int (dl_sequence b)) es = es"
proof (rule sequence.js_sort_sorted)
  have "sorted (map dl_sequence es)" by (simp add: assms del: upt_Suc)
  then show "sorted_wrt (\<lambda>a b. int (dl_sequence a) - int (dl_sequence b) \<le> 0) es"
    by (simp add: sorted_wrt_map)
qed

lemma nextSequence_ok:
  assumes "deletions_ok c" "kc_deletions c = Json es"
  shows "nextSequence c = length es + 1"
proof -
  have es: "map dl_sequence es = [1..<length es + 1]" using assms by (simp add: deletions_ok_def)
  then have l: "listDeletionLedger c = es" using assms(2) by (simp add: listDeletionLedger_def sorted_sequences)
  show ?thesis
  proof (cases "es = []")
    case False
    then have "dl_sequence (last es) = last (map dl_sequence es)" by (simp add: last_map)
    also have "\<dots> = length es" using False by (simp add: es last_upt del: upt_Suc)
    finally have "dl_sequence (last es) = length es" .
    moreover have "nextSequence c = dl_sequence (last es) + 1"
      using l False by (cases es) (simp_all add: nextSequence_def)
    ultimately show ?thesis by simp
  qed (use l in \<open>simp add: nextSequence_def\<close>)
qed

lemma deletions_ok_append:
  assumes "deletions_ok c"
  shows "deletions_ok (appendDeletionLedgerEntry kind f tid at c)"
proof (cases "kc_deletions c")
  case NoFile
  then have "nextSequence c = 1" by (simp add: nextSequence_def listDeletionLedger_def)
  with NoFile show ?thesis by (simp add: deletions_ok_def appendDeletionLedgerEntry_def)
next
  case (Json es)
  with assms nextSequence_ok [OF assms Json] show ?thesis
    by (simp add: deletions_ok_def appendDeletionLedgerEntry_def)
qed (simp add: deletions_ok_def appendDeletionLedgerEntry_def)

lemma readTranscript_update:
  "readTranscript k (updateTranscript r c) = (if k = tr_id r then Some r else readTranscript k c)"
  by (simp add: readTranscript_def updateTranscript_def)

lemma readTranscript_delete:
  "readTranscript k (snd (deleteTranscript tid c)) = (if k = tid then None else readTranscript k c)"
proof (cases "dir_exists tid (kc_transcripts c)")
  case True
  then show ?thesis by (simp add: readTranscript_def deleteTranscript_def)
next
  case False
  then have "dir_read tid (kc_transcripts c) = None" by (simp add: dir_read_def dir_exists_def)
  with False show ?thesis by (simp add: readTranscript_def deleteTranscript_def)
qed

lemma readTombstone_write:
  "readTombstone f (writeTombstone t c) = (if f = tb_externalFileId t then Some t else readTombstone f c)"
  by (simp add: readTombstone_def writeTombstone_def)

lemma readTombstone_delete: "readTombstone f (snd (deleteTombstone g c)) = Some t \<Longrightarrow> readTombstone f c = Some t"
  by (auto simp: readTombstone_def deleteTombstone_def split: if_splits)

lemma transcripts_ok_frame [simp]:
  "transcripts_ok (c\<lparr>kc_consent := x0\<rparr>) = transcripts_ok c"
  "transcripts_ok (c\<lparr>kc_backfill := x1\<rparr>) = transcripts_ok c"
  "transcripts_ok (c\<lparr>kc_ledger := x2\<rparr>) = transcripts_ok c"
  "transcripts_ok (c\<lparr>kc_tombstones := x3\<rparr>) = transcripts_ok c"
  "transcripts_ok (c\<lparr>kc_receipts := x4\<rparr>) = transcripts_ok c"
  "transcripts_ok (c\<lparr>kc_deletions := x5\<rparr>) = transcripts_ok c"
  by (simp_all add: transcripts_ok_def readTranscript_def)

lemma ledger_keyed_frame [simp]:
  "ledger_keyed (c\<lparr>kc_consent := x0\<rparr>) = ledger_keyed c"
  "ledger_keyed (c\<lparr>kc_backfill := x1\<rparr>) = ledger_keyed c"
  "ledger_keyed (c\<lparr>kc_transcripts := x2\<rparr>) = ledger_keyed c"
  "ledger_keyed (c\<lparr>kc_tombstones := x3\<rparr>) = ledger_keyed c"
  "ledger_keyed (c\<lparr>kc_receipts := x4\<rparr>) = ledger_keyed c"
  "ledger_keyed (c\<lparr>kc_deletions := x5\<rparr>) = ledger_keyed c"
  by (simp_all add: ledger_keyed_def readLedger_def)

lemma deletions_ok_frame [simp]:
  "deletions_ok (c\<lparr>kc_consent := x0\<rparr>) = deletions_ok c"
  "deletions_ok (c\<lparr>kc_backfill := x1\<rparr>) = deletions_ok c"
  "deletions_ok (c\<lparr>kc_ledger := x2\<rparr>) = deletions_ok c"
  "deletions_ok (c\<lparr>kc_transcripts := x3\<rparr>) = deletions_ok c"
  "deletions_ok (c\<lparr>kc_tombstones := x4\<rparr>) = deletions_ok c"
  "deletions_ok (c\<lparr>kc_receipts := x5\<rparr>) = deletions_ok c"
  by (simp_all add: deletions_ok_def)

lemma tombstones_ok_frame [simp]:
  "tombstones_ok (c\<lparr>kc_consent := x0\<rparr>) = tombstones_ok c"
  "tombstones_ok (c\<lparr>kc_backfill := x1\<rparr>) = tombstones_ok c"
  "tombstones_ok (c\<lparr>kc_ledger := x2\<rparr>) = tombstones_ok c"
  "tombstones_ok (c\<lparr>kc_transcripts := x3\<rparr>) = tombstones_ok c"
  "tombstones_ok (c\<lparr>kc_receipts := x4\<rparr>) = tombstones_ok c"
  "tombstones_ok (c\<lparr>kc_deletions := x5\<rparr>) = tombstones_ok c"
  by (simp_all add: tombstones_ok_def readTombstone_def)

lemma transcripts_ok_update: "transcripts_ok c \<Longrightarrow> identified r \<Longrightarrow> transcripts_ok (updateTranscript r c)"
  by (auto simp: transcripts_ok_def readTranscript_update)
    (simp add: updateTranscript_def distinct_dir_write)

lemma transcripts_ok_delete: "transcripts_ok c \<Longrightarrow> transcripts_ok (snd (deleteTranscript tid c))"
  by (auto simp: transcripts_ok_def readTranscript_delete split: if_splits)
    (simp add: deleteTranscript_def distinct_dir_remove)

lemma ledger_keyed_remove: "ledger_keyed c \<Longrightarrow> ledger_keyed (snd (removeLedgerEntries f c))"
  by (simp add: removeLedgerEntries_def ledger_keyed_def readLedger_def Let_def distinct_map_filter)

lemma identified_artifact: "artifact r = artifact old \<Longrightarrow> identified r = identified old"
  by (simp add: artifact_def identified_def)

theorem catalog_write_ok:
  "catalog_write c c' \<Longrightarrow> catalog_ok c \<Longrightarrow> catalog_ok c'"
proof (induction rule: catalog_write.induct)
  case (write_entry c collate e)
  have "ledger_keyed (saveLedgerEntry collate e c)"
    using write_entry by (simp add: catalog_ok_def ledger_keyed_save)
  with write_entry show ?case by (simp add: catalog_ok_def saveLedgerEntry_def)
next
  case (write_register r c)
  then have "transcripts_ok (updateTranscript r c)" by (simp add: catalog_ok_def transcripts_ok_update)
  with write_register show ?case by (simp add: catalog_ok_def updateTranscript_def)
next
  case (write_revise r c old)
  have "identified old" using write_revise.hyps(1) write_revise.prems unfolding catalog_ok_def transcripts_ok_def by blast
  then have "identified r" using identified_artifact [OF write_revise.hyps(2)] by simp
  then have "transcripts_ok (updateTranscript r c)"
    using write_revise.prems unfolding catalog_ok_def by (blast intro: transcripts_ok_update)
  with write_revise.prems show ?case by (simp add: catalog_ok_def updateTranscript_def)
next
  case (write_discard c tid)
  then have "transcripts_ok (snd (deleteTranscript tid c))" by (simp add: catalog_ok_def transcripts_ok_delete)
  with write_discard show ?case by (simp add: catalog_ok_def deleteTranscript_def)
next
  case (write_tombstone c t)
  then have "tombstones_ok (writeTombstone t c)" by (auto simp: catalog_ok_def tombstones_ok_def readTombstone_write)
  with write_tombstone show ?case by (simp add: catalog_ok_def writeTombstone_def)
next
  case (write_permit c f)
  then have "tombstones_ok (snd (deleteTombstone f c))"
    by (auto simp: catalog_ok_def tombstones_ok_def dest: readTombstone_delete)
  with write_permit show ?case by (simp add: catalog_ok_def deleteTombstone_def)
next
  case (write_forget c f)
  then have "ledger_keyed (snd (removeLedgerEntries f c))" by (simp add: catalog_ok_def ledger_keyed_remove)
  with write_forget show ?case by (simp add: catalog_ok_def removeLedgerEntries_def Let_def)
next
  case (write_log c kind f tid at)
  then have "deletions_ok (appendDeletionLedgerEntry kind f tid at c)" by (simp add: catalog_ok_def deletions_ok_append)
  with write_log show ?case by (simp add: catalog_ok_def appendDeletionLedgerEntry_def)
qed (simp_all add: catalog_ok_def store_defs)

lemma catalog_writes_ok: "catalog_writes c c' \<Longrightarrow> catalog_ok c \<Longrightarrow> catalog_ok c'"
  by (induction rule: rtranclp_induct) (auto intro: catalog_write_ok)

text \<open>A Transcript that is there before a write and after it keeps its artifact.\<close>

theorem catalog_write_artifact:
  assumes "catalog_write c c'" "readTranscript k c = Some r" "readTranscript k c' = Some r'"
  shows "artifact r' = artifact r"
  using assms
proof (induction rule: catalog_write.induct)
  case (write_register x c)
  then have "k \<noteq> tr_id x" using dir_read_exists [of k "kc_transcripts c" r] unfolding readTranscript_def by blast
  with write_register show ?case by (simp add: readTranscript_update)
next
  case (write_revise x c old)
  then show ?case by (auto simp: readTranscript_update split: if_splits)
next
  case (write_discard c tid)
  then show ?case by (auto simp: readTranscript_delete split: if_splits)
qed (auto simp: store_defs readTranscript_def Let_def split: if_splits)

end
