(* ===== verification/CatalogRefines.thy ===== *)
theory CatalogRefines
  imports CatalogLaws
begin

section \<open>The Catalog's operations follow the specification\<close>

text \<open>
  Each operation of the Catalog is a sequence of the writes of \<^theory_text>\<open>CatalogLaws\<close>, provided that what happens while it waits
  is one too.  So the soundness of the files is an invariant of the system, whatever fails and wherever.
\<close>

definition patient :: "(catalog_state \<Rightarrow> catalog_state) \<Rightarrow> bool" where
  "patient f \<longleftrightarrow> (\<forall>c. catalog_ok c \<longrightarrow> catalog_writes c (f c))"

definition turn_ok :: "file_turn \<Rightarrow> bool" where
  "turn_ok t \<longleftrightarrow> patient (ft_before t) \<and> patient (ft_while_fetching t) \<and> patient (ft_while_converting t)
     \<and> patient (ft_while_mining t)"

definition pass_ok :: "pass_turn \<Rightarrow> bool" where
  "pass_ok pt \<longleftrightarrow> patient (pa_while_backfilling pt)
     \<and> (case pa_listing pt of Inl _ \<Rightarrow> True | Inr ts \<Rightarrow> \<forall>t\<in>set ts. turn_ok t)"

lemma patientD: "patient f \<Longrightarrow> catalog_writes c c' \<Longrightarrow> catalog_ok c \<Longrightarrow> catalog_writes c (f c')"
  by (meson patient_def catalog_writes_ok rtranclp_trans)

lemma then_write: "catalog_writes c c' \<Longrightarrow> catalog_write c' c'' \<Longrightarrow> catalog_writes c c''"
  by (rule rtranclp.rtrancl_into_rtrancl)

lemma recordEntry_write: "catalog_write c (recordEntry env e c)"
  by (simp add: recordEntry_def write_entry)

lemma then_record: "catalog_writes c c' \<Longrightarrow> catalog_writes c (recordEntry env e c')"
  by (rule then_write [OF _ recordEntry_write])

lemma then_save: "catalog_writes c c' \<Longrightarrow> identified r \<Longrightarrow> catalog_writes c (saveTranscript r c')"
proof (cases "dir_exists (tr_id r) (kc_transcripts c')")
  case False
  assume "catalog_writes c c'" "identified r"
  with False have "catalog_writes c (updateTranscript r c')" by (blast intro: then_write write_register)
  with False show ?thesis by (simp add: saveTranscript_def updateTranscript_def)
qed (simp add: saveTranscript_def)

subsection \<open>Repairs\<close>

lemma listTranscripts_iff:
  "transcripts_ok c \<Longrightarrow> r \<in> set (listTranscripts c) \<longleftrightarrow> readTranscript (tr_id r) c = Some r"
  unfolding listTranscripts_def transcripts_ok_def readTranscript_def by (metis dir_values_iff)

lemma rederive_writes:
  assumes "\<forall>r\<in>set rs. \<exists>old. readTranscript (tr_id r) c = Some old \<and> artifact r = artifact old"
  shows "catalog_writes c (foldl (\<lambda>c r. if tr_extractorVersion r = TRANSCRIPT_CATALOG_EXTRACTOR_VERSION then c
     else updateTranscript (rederived r) c) c rs)"
  using assms
proof (induction rs arbitrary: c)
  case (Cons r rs)
  show ?case
  proof (cases "tr_extractorVersion r = TRANSCRIPT_CATALOG_EXTRACTOR_VERSION")
    case False
    have same: "tr_id (rederived r) = tr_id r" "artifact (rederived r) = artifact r"
      by (simp_all add: rederived_def artifact_def)
    obtain old where old: "readTranscript (tr_id r) c = Some old" "artifact r = artifact old" using Cons.prems by auto
    with same have w: "catalog_write c (updateTranscript (rederived r) c)" by (metis write_revise)
    have "\<exists>old. readTranscript (tr_id x) (updateTranscript (rederived r) c) = Some old \<and> artifact x = artifact old"
      if x: "x \<in> set rs" for x
    proof (cases "tr_id x = tr_id r")
      case True
      obtain o1 where "readTranscript (tr_id x) c = Some o1" "artifact x = artifact o1"
        using Cons.prems x by (meson list.set_intros(2))
      with True old same have "artifact x = artifact (rederived r)" by simp
      with True same show ?thesis by (simp add: readTranscript_update)
    next
      case False
      with same Cons.prems x show ?thesis by (simp add: readTranscript_update)
    qed
    with Cons.IH [of "updateTranscript (rederived r) c"] w False show ?thesis
      by (auto intro: converse_rtranclp_into_rtranclp)
  qed (use Cons in simp)
qed simp

lemma rederiveStaleRecords_writes: "catalog_ok c \<Longrightarrow> catalog_writes c (rederiveStaleRecords c)"
  unfolding rederiveStaleRecords_def
  by (rule rederive_writes) (auto simp: catalog_ok_def listTranscripts_iff)

lemma retire_writes: "catalog_writes c (retire env kept r c)"
proof -
  have "catalog_writes c (snd (deleteTranscript (tr_id r) c))" by (blast intro: write_discard)
  then show ?thesis by (auto simp: retire_def Let_def intro: then_record split: option.splits)
qed

lemma foldl_writes: "(\<And>c x. catalog_writes c (f c x)) \<Longrightarrow> catalog_writes c (foldl f c xs)"
  by (induction xs arbitrary: c) (auto intro: rtranclp_trans)

lemma retire_group_writes: "catalog_writes c (retire_group env rs c)"
  by (cases rs) (auto intro: foldl_writes retire_writes)

lemma retireDuplicateRecords_writes: "catalog_writes c (retireDuplicateRecords env c)"
  unfolding retireDuplicateRecords_def by (rule foldl_writes) (simp add: retire_group_writes)

subsection \<open>The pass\<close>

lemma transcript_of_identified: "identified (transcript_of t checksum e normalizedText)"
  by (simp add: identified_def transcript_of_def Let_def)

lemma registering_writes:
  assumes "catalog_ok c" "turn_ok t" "catalog_writes c c'"
  shows "catalog_writes c (snd (registering t bytes checksum e c'))"
proof -
  note patient = assms(2) [unfolded turn_ok_def]
  let ?c1 = "ft_while_converting t (recordEntry (ft_env t) e c')"
  have c1: "catalog_writes c ?c1" using patient assms(1,3) by (blast intro: patientD then_record)
  let ?r = "\<lambda>normalizedText. transcript_of t checksum e normalizedText"
  have c2: "catalog_writes c (ft_while_mining t (saveTranscript (?r x) ?c1))" for x
    using patient assms(1) c1 by (blast intro: patientD then_save transcript_of_identified)
  show ?thesis
    by (auto simp: registering_def Let_def intro: then_record c1 c2 split: sum.splits option.splits)
qed

lemma process_bytes_writes:
  assumes "catalog_ok c" "turn_ok t" "catalog_writes c c'"
  shows "catalog_writes c (snd (process_bytes t bytes latest c'))"
  using assms(3) registering_writes [OF assms]
  by (auto simp: process_bytes_def Let_def intro: then_record split: option.splits)

lemma processFile_writes:
  assumes "catalog_ok c" "turn_ok t"
  shows "catalog_writes c (snd (processFile t c))"
proof -
  have w: "catalog_writes c (ft_while_fetching t c)"
    using assms by (auto simp: turn_ok_def patient_def)
  then show ?thesis
    using process_bytes_writes [OF assms w]
    by (auto simp: processFile_def Let_def intro: then_record split: option.splits fetched.splits)
qed

lemma process_files_writes:
  "catalog_ok c \<Longrightarrow> \<forall>t\<in>set ts. turn_ok t \<Longrightarrow> catalog_writes c (snd (process_files ts p c))"
proof (induction ts arbitrary: p c)
  case (Cons t ts)
  let ?c1 = "ft_before t c"
  have c1: "catalog_writes c ?c1" using Cons.prems by (auto simp: turn_ok_def patient_def)
  have ok1: "catalog_ok ?c1" using c1 Cons.prems(1) by (rule catalog_writes_ok)
  obtain out c2 where c2: "processFile t ?c1 = (out, c2)" by (cases "processFile t ?c1")
  have w2: "catalog_writes ?c1 c2" using processFile_writes [OF ok1, of t] Cons.prems(2) c2 by simp
  have "catalog_writes c2 (snd (process_files ts (counted out p) c2))"
    using Cons.IH catalog_writes_ok [OF w2 ok1] Cons.prems(2) by simp
  with c1 w2 c2 show ?case by (auto simp: Let_def intro: rtranclp_trans)
qed simp

lemma runPass_writes:
  assumes "catalog_ok c" "pass_ok pt"
  shows "catalog_writes c (snd (runPass pt c))"
proof -
  let ?c1 = "pa_while_backfilling pt (retireDuplicateRecords (pa_env pt) (rederiveStaleRecords c))"
  have "catalog_writes c (retireDuplicateRecords (pa_env pt) (rederiveStaleRecords c))"
    using rederiveStaleRecords_writes [OF assms(1)] retireDuplicateRecords_writes by (rule rtranclp_trans)
  then have c1: "catalog_writes c ?c1" using assms by (auto simp: pass_ok_def intro: patientD)
  have "catalog_writes c (snd (process_files ts p ?c1))" if "pa_listing pt = Inr ts" for ts p
    using process_files_writes [OF catalog_writes_ok [OF c1 assms(1)], of ts p] assms(2) that c1
    by (auto simp: pass_ok_def intro: rtranclp_trans)
  with c1 show ?thesis
    by (auto simp: runPass_def Let_def split: option.splits sum.splits prod.splits) (metis snd_conv)+
qed

subsection \<open>Associations and deletions\<close>

lemma attached_same: "tr_id (attached m a r) = tr_id r" "artifact (attached m a r) = artifact r"
  by (simp_all add: attached_def artifact_def)

lemma consumed_state: "snd (consumed env r c) = c"
  by (simp add: consumed_def split: option.splits)

lemma attachMeeting_state:
  "snd (attachMeeting env tid m a c) = (case readTranscript tid c of None \<Rightarrow> c
     | Some r \<Rightarrow> updateTranscript (attached m a r) c)"
  by (simp add: attachMeeting_def transcript_at_def storing_def andThen_run Let_def consumed_state split: option.splits)

lemma associateOccurrence_state:
  "snd (associateOccurrence env tid oc mappings roster c) = (case readTranscript tid c of None \<Rightarrow> c
     | Some r \<Rightarrow> updateTranscript (r\<lparr>tr_occurrence := Some oc, tr_speakerMappings := mappings, tr_roster := roster\<rparr>) c)"
  by (simp add: associateOccurrence_def transcript_at_def storing_def andThen_run Let_def consumed_state split: option.splits)

lemma revise_writes:
  assumes "catalog_ok c" "readTranscript tid c = Some old" "artifact r = artifact old"
  shows "catalog_writes c (updateTranscript r c)"
proof -
  have "tr_id r = tr_id old" using assms(3) by (simp add: artifact_def)
  moreover have "tr_id old = tid" using assms(1,2) unfolding catalog_ok_def transcripts_ok_def by blast
  ultimately show ?thesis using assms(2,3) by (metis r_into_rtranclp write_revise)
qed

lemma attachMeeting_writes: "catalog_ok c \<Longrightarrow> catalog_writes c (snd (attachMeeting env tid m a c))"
  by (auto simp: attachMeeting_state attached_same intro: revise_writes split: option.splits)

lemma associateOccurrence_writes:
  "catalog_ok c \<Longrightarrow> catalog_writes c (snd (associateOccurrence env tid oc mappings roster c))"
  by (auto simp: associateOccurrence_state artifact_def intro: revise_writes split: option.splits)

lemma deletion_state:
  "snd (deleteTranscriptRecord env tid confirmation c) =
    (if confirmation \<noteq> TRANSCRIPT_DELETE_CONFIRMATION then c
     else case readTranscript tid c of None \<Rightarrow> c
       | Some r \<Rightarrow> (let c1 = appendDeletionLedgerEntry Deletion (sr_externalFileId (tr_source r)) (Some tid) (dv_now env)
             (writeTombstone (tombstone_of env r) c) in
           case removed_elsewhere env of Inl _ \<Rightarrow> c1
           | Inr n \<Rightarrow> saveDeletionReceipt (receipt_of env tid r n) (snd (deleteTranscript tid c1))))"
  by (simp add: deleteTranscriptRecord_def requireRecord_def effect_def andThen_run require_run Let_def
      split: option.splits sum.splits)

lemma deletion_writes: "catalog_writes c (snd (deleteTranscriptRecord env tid confirmation c))"
proof -
  have c1: "catalog_writes c (appendDeletionLedgerEntry k f x at (writeTombstone t c))" for k f x at t
    by (blast intro: then_write write_tombstone write_log)
  have "catalog_writes c (saveDeletionReceipt y (snd (deleteTranscript tid (appendDeletionLedgerEntry k f x at (writeTombstone t c)))))"
    for k f x at t y
    using c1 by (blast intro: then_write write_discard write_receipt)
  with c1 show ?thesis unfolding deletion_state by (simp add: Let_def split: option.splits sum.splits)
qed

lemma restore_writes: "catalog_writes c (snd (restoreProcessingPermission env f c))"
proof -
  have "catalog_writes c (appendDeletionLedgerEntry k f x at (snd (removeLedgerEntries f (snd (deleteTombstone f c)))))"
    for k x at
    by (blast intro: then_write write_permit write_forget write_log)
  then show ?thesis by (simp add: restoreProcessingPermission_def Let_def split: option.splits)
qed

subsection \<open>The reachable states\<close>

inductive catalog_step :: "catalog_state \<Rightarrow> catalog_state \<Rightarrow> bool" where
  step_grant: "catalog_step c (grantConsent env folderId folderName c)"
| step_pause: "catalog_step c (pauseBackfill c)"
| step_resume: "catalog_step c (snd (resumeBackfill c))"
| step_pass: "pass_ok pt \<Longrightarrow> catalog_step c (snd (processAvailable pt c))"
| step_associate: "catalog_step c (snd (associateOccurrence env tid oc mappings roster c))"
| step_attach: "catalog_step c (snd (attachMeeting env tid m a c))"
| step_delete: "catalog_step c (snd (deleteTranscriptRecord denv tid confirmation c))"
| step_restore: "catalog_step c (snd (restoreProcessingPermission denv f c))"

lemma catalog_step_writes: "catalog_step c c' \<Longrightarrow> catalog_ok c \<Longrightarrow> catalog_writes c c'"
proof (induction rule: catalog_step.induct)
  case (step_grant c env folderId folderName)
  show ?case unfolding grantConsent_def by (blast intro: write_consent)
next
  case (step_pause c)
  show ?case unfolding pauseBackfill_def by (blast intro: write_paused)
next
  case (step_resume c)
  show ?case unfolding resumeBackfill_def snd_conv by (blast intro: write_paused)
next
  case (step_pass pt c)
  then show ?case using runPass_writes by (simp add: processAvailable_def)
qed (blast intro: attachMeeting_writes associateOccurrence_writes deletion_writes restore_writes)+

lemma catalog_steps_ok: "catalog_step\<^sup>*\<^sup>* c c' \<Longrightarrow> catalog_ok c \<Longrightarrow> catalog_ok c'"
  by (induction rule: rtranclp_induct) (auto intro: catalog_writes_ok catalog_step_writes)

lemma empty_catalog_ok: "catalog_ok empty_catalog"
  by (simp add: catalog_ok_def transcripts_ok_def ledger_keyed_def deletions_ok_def tombstones_ok_def empty_catalog_def
      readTranscript_def readLedger_def readTombstone_def dir_read_def)

end
