(* ===== verification/CatalogFacts.thy ===== *)
theory CatalogFacts
  imports CatalogRefines
begin

section \<open>What a pass keeps\<close>

text \<open>
  A pass that nothing interferes with writes entries of the ledger, rewrites and retires Transcripts, and registers
  one only for a file without a tombstone.  The locale \<open>pass_law\<close> is the contract of a fact that such writes keep;
  the pass keeps it.  It is interpreted for the files a pass does not touch and for the Transcripts of a file whose
  tombstone stands.
\<close>

definition quiet :: "file_turn \<Rightarrow> bool" where
  "quiet t \<longleftrightarrow> (\<forall>c. ft_before t c = c \<and> ft_while_fetching t c = c \<and> ft_while_converting t c = c
     \<and> ft_while_mining t c = c)"

definition quiet_pass :: "pass_turn \<Rightarrow> bool" where
  "quiet_pass pt \<longleftrightarrow> (\<forall>c. pa_while_backfilling pt c = c)
     \<and> (case pa_listing pt of Inl _ \<Rightarrow> True | Inr ts \<Rightarrow> \<forall>t\<in>set ts. quiet t)"

lemma quiet_turn_ok: "quiet t \<Longrightarrow> turn_ok t"
  by (simp add: quiet_def turn_ok_def patient_def)

lemma quiet_pass_ok: "quiet_pass pt \<Longrightarrow> pass_ok pt"
  by (auto simp: quiet_pass_def pass_ok_def patient_def quiet_turn_ok split: sum.splits)

lemma quietD: "quiet t \<Longrightarrow> ft_before t c = c" "quiet t \<Longrightarrow> ft_while_fetching t c = c"
  "quiet t \<Longrightarrow> ft_while_converting t c = c" "quiet t \<Longrightarrow> ft_while_mining t c = c"
  by (simp_all add: quiet_def)

lemma readTombstone_record [simp]: "readTombstone f (recordEntry env e c) = readTombstone f c"
  by (simp add: readTombstone_def recordEntry_def saveLedgerEntry_def)

lemma readTranscript_record [simp]: "readTranscript k (recordEntry env e c) = readTranscript k c"
  by (simp add: readTranscript_def recordEntry_def saveLedgerEntry_def)

lemma source_of_transcript [simp]:
  "sr_externalFileId (tr_source (transcript_of t checksum e x)) = sf_externalFileId (ft_file t)"
  by (simp add: transcript_of_def Let_def)

fun named :: "string \<times> transcript_record option \<Rightarrow> bool" where
  "named (k, None) = True"
| "named (k, Some r) = (tr_id r = k)"

lemma dir_values_ids: "list_all named d \<Longrightarrow> tr_id ` set (dir_values d) \<subseteq> fst ` set d"
  by (induction d rule: dir_values.induct) auto

lemma distinct_dir_values: "list_all named d \<Longrightarrow> distinct (map fst d) \<Longrightarrow> distinct (map tr_id (dir_values d))"
proof (induction d rule: dir_values.induct)
  case (3 k v d)
  then have "tr_id ` set (dir_values d) \<subseteq> fst ` set d" by (simp add: dir_values_ids)
  with 3 show ?case by auto
qed auto

lemma transcripts_named: "transcripts_ok c \<Longrightarrow> list_all named (kc_transcripts c)"
  unfolding list_all_iff
proof
  fix e assume ok: "transcripts_ok c" and e: "e \<in> set (kc_transcripts c)"
  obtain k v where kv: "e = (k, v)" by (cases e)
  show "named e"
  proof (cases v)
    case (Some r)
    with ok e kv have "readTranscript k c = Some r"
      by (simp add: transcripts_ok_def readTranscript_def dir_read_def)
    with ok have "tr_id r = k" unfolding transcripts_ok_def by blast
    with kv Some show ?thesis by simp
  qed (simp add: kv)
qed

lemma distinct_transcripts: "transcripts_ok c \<Longrightarrow> distinct (map tr_id (listTranscripts c))"
  unfolding listTranscripts_def by (rule distinct_dir_values [OF transcripts_named]) (simp_all add: transcripts_ok_def)

locale pass_law =
  fixes I :: "catalog_state \<Rightarrow> bool"
  assumes keeps_entry: "I c \<Longrightarrow> I (saveLedgerEntry collate e c)"
    and keeps_revise: "I c \<Longrightarrow> readTranscript (tr_id r) c = Some old \<Longrightarrow> artifact r = artifact old \<Longrightarrow>
      I (updateTranscript r c)"
    and keeps_discard: "I c \<Longrightarrow> I (snd (deleteTranscript tid c))"
    and keeps_register: "I c \<Longrightarrow> readTombstone (sr_externalFileId (tr_source r)) c = None \<Longrightarrow>
      I (updateTranscript r c)"
begin

lemma keeps_record: "I c \<Longrightarrow> I (recordEntry env e c)"
  by (simp add: recordEntry_def keeps_entry)

lemma keeps_save:
  "I c \<Longrightarrow> readTombstone (sr_externalFileId (tr_source r)) c = None \<Longrightarrow> I (saveTranscript r c)"
  using keeps_register [of c r] by (simp add: saveTranscript_def updateTranscript_def)

lemma keeps_rederive_from:
  assumes "I c" "\<forall>r\<in>set rs. \<exists>old. readTranscript (tr_id r) c = Some old \<and> artifact r = artifact old"
    "distinct (map tr_id rs)"
  shows "I (foldl (\<lambda>c r. if tr_extractorVersion r = TRANSCRIPT_CATALOG_EXTRACTOR_VERSION then c
     else updateTranscript (rederived r) c) c rs)"
  using assms
proof (induction rs arbitrary: c)
  case (Cons r rs)
  show ?case
  proof (cases "tr_extractorVersion r = TRANSCRIPT_CATALOG_EXTRACTOR_VERSION")
    case False
    have same: "tr_id (rederived r) = tr_id r" "artifact (rederived r) = artifact r"
      by (simp_all add: rederived_def artifact_def)
    obtain old where old: "readTranscript (tr_id r) c = Some old" "artifact r = artifact old"
      using Cons.prems(2) by auto
    have "I (updateTranscript (rederived r) c)"
      by (rule keeps_revise [OF Cons.prems(1), of _ old]) (use same old in simp_all)
    moreover have "\<exists>old. readTranscript (tr_id x) (updateTranscript (rederived r) c) = Some old \<and> artifact x = artifact old"
      if x: "x \<in> set rs" for x
    proof -
      have "tr_id x \<noteq> tr_id r" using x Cons.prems(3) by (auto simp: image_iff)
      with same x Cons.prems(2) show ?thesis by (simp add: readTranscript_update)
    qed
    ultimately show ?thesis using Cons.IH [of "updateTranscript (rederived r) c"] Cons.prems(3) False by simp
  qed (use Cons in simp)
qed simp

lemma keeps_rederive:
  assumes "I c" "catalog_ok c"
  shows "I (rederiveStaleRecords c)"
  unfolding rederiveStaleRecords_def
proof (rule keeps_rederive_from [OF assms(1)])
  have ok: "transcripts_ok c" using assms(2) by (simp add: catalog_ok_def)
  then show "\<forall>r\<in>set (listTranscripts c). \<exists>old. readTranscript (tr_id r) c = Some old \<and> artifact r = artifact old"
    by (auto simp: listTranscripts_iff)
  show "distinct (map tr_id (listTranscripts c))"
    using ok by (rule distinct_transcripts)
qed

lemma keeps_retire: "I c \<Longrightarrow> I (retire env kept r c)"
  by (auto simp: retire_def Let_def intro: keeps_record keeps_discard split: option.splits)

lemma keeps_foldl: "(\<And>c x. I c \<Longrightarrow> I (f c x)) \<Longrightarrow> I c \<Longrightarrow> I (foldl f c xs)"
  by (induction xs arbitrary: c) auto

lemma keeps_retireDuplicates: "I c \<Longrightarrow> I (retireDuplicateRecords env c)"
  unfolding retireDuplicateRecords_def
proof (erule keeps_foldl [rotated])
  fix c and g :: "string \<times> transcript_record list"
  assume "I c"
  have "I (retire_group env rs c)" for rs
    by (cases rs) (auto intro!: keeps_foldl keeps_retire \<open>I c\<close>)
  with \<open>I c\<close> show "I (if length (snd g) < 2 then c
      else retire_group env (js_sort (richer (kv_collate env)) (snd g)) c)" by simp
qed

lemma keeps_registering:
  assumes "I c" "quiet t" "readTombstone (sf_externalFileId (ft_file t)) c = None"
  shows "I (snd (registering t bytes checksum e c))"
proof -
  have "I (recordEntry (ft_env t) e c)" by (rule keeps_record [OF assms(1)])
  moreover from this have "I (saveTranscript (transcript_of t checksum e x) (recordEntry (ft_env t) e c))" for x
    by (rule keeps_save) (use assms(3) in simp)
  ultimately show ?thesis
    by (auto simp: registering_def Let_def quietD [OF assms(2)] intro: keeps_record split: sum.splits option.splits)
qed

lemma keeps_processFile:
  assumes "I c" "quiet t"
  shows "I (snd (processFile t c))"
proof (cases "readTombstone (sf_externalFileId (ft_file t)) c")
  case None
  have "I (snd (process_bytes t bytes latest c))" for bytes latest
    using keeps_registering [OF assms None] assms(1)
    by (auto simp: process_bytes_def Let_def intro: keeps_record split: option.splits)
  with None assms(1) show ?thesis
    by (auto simp: processFile_def Let_def quietD [OF assms(2)] intro: keeps_record split: option.splits fetched.splits)
qed (use assms in \<open>simp add: processFile_def\<close>)

lemma keeps_process_files: "I c \<Longrightarrow> \<forall>t\<in>set ts. quiet t \<Longrightarrow> I (snd (process_files ts p c))"
proof (induction ts arbitrary: p c)
  case (Cons t ts)
  obtain out c2 where c2: "processFile t c = (out, c2)" by (cases "processFile t c")
  have "I c2" using keeps_processFile [OF Cons.prems(1), of t] Cons.prems(2) c2 by simp
  with Cons c2 show ?case by (simp add: Let_def quietD)
qed simp

lemma keeps_pass:
  assumes "I c" "catalog_ok c" "quiet_pass pt"
  shows "I (snd (processAvailable pt c))"
proof -
  let ?c1 = "retireDuplicateRecords (pa_env pt) (rederiveStaleRecords c)"
  have c1: "I ?c1" using keeps_rederive [OF assms(1,2)] by (rule keeps_retireDuplicates)
  have "I (snd (process_files ts empty_pass ?c1))" if "pa_listing pt = Inr ts" for ts
    using keeps_process_files [OF c1, of ts] assms(3) that by (simp add: quiet_pass_def)
  with c1 assms show ?thesis
    by (auto simp: processAvailable_def runPass_def quiet_pass_def Let_def split: option.splits sum.splits prod.splits
        dest: arg_cong [of _ _ snd])
qed

end

subsection \<open>What a pass leaves alone\<close>

definition untouched :: "catalog_state \<Rightarrow> catalog_state \<Rightarrow> bool" where
  "untouched c0 c \<longleftrightarrow> kc_consent c = kc_consent c0 \<and> kc_backfill c = kc_backfill c0
     \<and> kc_tombstones c = kc_tombstones c0 \<and> kc_receipts c = kc_receipts c0 \<and> kc_deletions c = kc_deletions c0"

interpretation untouched: pass_law "untouched c0" for c0
  by unfold_locales (simp_all add: untouched_def store_defs)

definition nothing_new_of :: "string \<Rightarrow> catalog_state \<Rightarrow> catalog_state \<Rightarrow> bool" where
  "nothing_new_of f c0 c \<longleftrightarrow> readTombstone f c = readTombstone f c0
     \<and> (\<forall>k r. readTranscript k c = Some r \<longrightarrow> sr_externalFileId (tr_source r) = f \<longrightarrow>
          (\<exists>old. readTranscript k c0 = Some old \<and> artifact r = artifact old))"

definition blocked :: "string \<Rightarrow> catalog_state \<Rightarrow> catalog_state \<Rightarrow> bool" where
  "blocked f c0 c \<longleftrightarrow> readTombstone f c0 \<noteq> None \<longrightarrow> nothing_new_of f c0 c"

lemma artifact_source: "artifact r = artifact old \<Longrightarrow> tr_source r = tr_source old"
  by (simp add: artifact_def)

interpretation blocked: pass_law "blocked f c0" for f c0
proof unfold_locales
  fix c collate e
  assume "blocked f c0 c"
  then show "blocked f c0 (saveLedgerEntry collate e c)"
    by (simp add: blocked_def nothing_new_of_def readTombstone_def readTranscript_def saveLedgerEntry_def)
next
  fix c and r old :: transcript_record
  assume b: "blocked f c0 c" and r: "readTranscript (tr_id r) c = Some old" "artifact r = artifact old"
  have "nothing_new_of f c0 (updateTranscript r c)" if n: "nothing_new_of f c0 c"
    unfolding nothing_new_of_def
  proof (intro conjI allI impI)
    show "readTombstone f (updateTranscript r c) = readTombstone f c0"
      using n by (simp add: nothing_new_of_def readTombstone_def updateTranscript_def)
    fix k x
    assume x: "readTranscript k (updateTranscript r c) = Some x" "sr_externalFileId (tr_source x) = f"
    show "\<exists>old. readTranscript k c0 = Some old \<and> artifact x = artifact old"
    proof (cases "k = tr_id r")
      case True
      with x have "x = r" by (simp add: readTranscript_update)
      with x r artifact_source [OF r(2)] True n show ?thesis unfolding nothing_new_of_def by metis
    next
      case False
      with x n show ?thesis unfolding nothing_new_of_def by (simp add: readTranscript_update)
    qed
  qed
  with b show "blocked f c0 (updateTranscript r c)" by (simp add: blocked_def)
next
  fix c tid
  assume "blocked f c0 c"
  then show "blocked f c0 (snd (deleteTranscript tid c))"
    by (simp add: blocked_def nothing_new_of_def readTranscript_delete)
      (simp add: readTombstone_def deleteTranscript_def)
next
  fix c and r :: transcript_record
  assume b: "blocked f c0 c" and t: "readTombstone (sr_externalFileId (tr_source r)) c = None"
  have "nothing_new_of f c0 (updateTranscript r c)" if n: "nothing_new_of f c0 c" "readTombstone f c0 \<noteq> None"
  proof -
    have "sr_externalFileId (tr_source r) \<noteq> f" using n t by (auto simp: nothing_new_of_def)
    moreover have "readTombstone f (updateTranscript r c) = readTombstone f c"
      by (simp add: readTombstone_def updateTranscript_def)
    ultimately show ?thesis using n(1) by (auto simp: nothing_new_of_def readTranscript_update)
  qed
  with b show "blocked f c0 (updateTranscript r c)" by (simp add: blocked_def)
qed

subsection \<open>Registration\<close>

definition stamped :: "catalog_env \<Rightarrow> ledger_entry \<Rightarrow> ledger_entry" where
  "stamped env e = (if le_updatedAt e = [] then e\<lparr>le_updatedAt := kv_now env 2\<rparr> else e)"

lemma recordEntry_stamped: "recordEntry env e c = saveLedgerEntry (kv_collate env) (stamped env e) c"
  by (simp add: recordEntry_def stamped_def)

lemma stamped_simps [simp]:
  "le_externalFileId (stamped env e) = le_externalFileId e" "le_fileName (stamped env e) = le_fileName e"
  "le_observedRevision (stamped env e) = le_observedRevision e" "le_checksum (stamped env e) = le_checksum e"
  "le_state (stamped env e) = le_state e" "le_attempts (stamped env e) = le_attempts e"
  "le_transcriptId (stamped env e) = le_transcriptId e" "le_reason (stamped env e) = le_reason e"
  "entry_key (stamped env e) = entry_key e"
  by (simp_all add: stamped_def entry_key_def)

lemma set_record: "set (readLedger (recordEntry env e c)) =
    insert (stamped env e) {x \<in> set (readLedger c). entry_key x \<noteq> entry_key e}"
  by (simp add: recordEntry_stamped set_readLedger_save)

lemma ledger_keyed_record: "ledger_keyed c \<Longrightarrow> ledger_keyed (recordEntry env e c)"
  by (simp add: recordEntry_stamped ledger_keyed_save)

lemma readLedger_save_transcript [simp]: "readLedger (saveTranscript r c) = readLedger c"
  by (simp add: saveTranscript_def readLedger_def)

lemma readTombstone_save_transcript [simp]: "readTombstone f (saveTranscript r c) = readTombstone f c"
  by (simp add: saveTranscript_def readTombstone_def)

lemma latestEntry_record:
  assumes "ledger_keyed c"
    "\<forall>x\<in>set (readLedger c). le_externalFileId x = le_externalFileId e \<longrightarrow> le_observedRevision x \<le> le_observedRevision e"
  shows "latestEntry (le_externalFileId e) (recordEntry env e c) = Some (stamped env e)"
  by (rule latestEntryI [OF ledger_keyed_record [OF assms(1)]]) (use assms(2) in \<open>auto simp: set_record\<close>)

text \<open>The entry a registration begins with and the one it ends with when nothing fails.\<close>

definition pending_entry :: "file_turn \<Rightarrow> string \<Rightarrow> ledger_entry option \<Rightarrow> ledger_entry" where
  "pending_entry t checksum latest = (newEntry (ft_env t) (ft_file t) (Some checksum) Pending None
     (revision_of checksum latest))\<lparr>le_attempts := attempts_of checksum latest\<rparr>"

definition processed_entry :: "file_turn \<Rightarrow> string \<Rightarrow> ledger_entry option \<Rightarrow> ledger_entry" where
  "processed_entry t checksum latest = (pending_entry t checksum latest)\<lparr>le_state := Processed,
     le_transcriptId := Some (transcriptId (sf_externalFileId (ft_file t)) (revision_of checksum latest))\<rparr>"

lemma pending_simps [simp]:
  "le_externalFileId (pending_entry t checksum latest) = sf_externalFileId (ft_file t)"
  "le_observedRevision (pending_entry t checksum latest) = revision_of checksum latest"
  "le_checksum (pending_entry t checksum latest) = Some checksum"
  by (simp_all add: pending_entry_def newEntry_def)

lemma processed_simps [simp]:
  "le_externalFileId (processed_entry t checksum latest) = sf_externalFileId (ft_file t)"
  "le_observedRevision (processed_entry t checksum latest) = revision_of checksum latest"
  "le_checksum (processed_entry t checksum latest) = Some checksum"
  "le_state (processed_entry t checksum latest) = Processed"
  "le_transcriptId (processed_entry t checksum latest)
     = Some (transcriptId (sf_externalFileId (ft_file t)) (revision_of checksum latest))"
  "entry_key (processed_entry t checksum latest) = entry_key (pending_entry t checksum latest)"
  by (simp_all add: processed_entry_def entry_key_def)

lemma tr_id_transcript_of [simp]:
  "tr_id (transcript_of t checksum e x) = transcriptId (sf_externalFileId (ft_file t)) (le_observedRevision e)"
  by (simp add: transcript_of_def Let_def)

text \<open>The files after a registration that succeeds.\<close>

definition registered :: "file_turn \<Rightarrow> string \<Rightarrow> ledger_entry option \<Rightarrow> string \<Rightarrow> catalog_state \<Rightarrow> catalog_state" where
  "registered t checksum latest x c = recordEntry (ft_env t) (processed_entry t checksum latest)
     (ft_while_mining t (saveTranscript (transcript_of t checksum (pending_entry t checksum latest) x)
       (ft_while_converting t (recordEntry (ft_env t) (pending_entry t checksum latest) c))))"

lemma registering_processed:
  "fst (registering t bytes checksum (pending_entry t checksum latest) c) = FileProcessed \<longleftrightarrow>
    (\<exists>x. kv_convert (ft_env t) (conversionNameOf (ft_file t)) bytes = Inr x
       \<and> consumers (ft_env t) (transcript_of t checksum (pending_entry t checksum latest) x) = None)"
  by (auto simp: registering_def Let_def split: sum.splits option.splits)

lemma registering_registered:
  assumes "kv_convert (ft_env t) (conversionNameOf (ft_file t)) bytes = Inr x"
    "consumers (ft_env t) (transcript_of t checksum (pending_entry t checksum latest) x) = None"
  shows "registering t bytes checksum (pending_entry t checksum latest) c
    = (FileProcessed, registered t checksum latest x c)"
  using assms by (simp add: registering_def registered_def Let_def processed_entry_def)

text \<open>A turn that registered: what was the case, and the files it leaves.\<close>

lemma process_bytes_processed:
  assumes "process_bytes t bytes latest c = (FileProcessed, c')"
  obtains x where "processedDuplicate (kv_sha (ft_env t) bytes) (sf_fileName (ft_file t)) (sf_externalFileId (ft_file t)) c = None"
    "kv_convert (ft_env t) (conversionNameOf (ft_file t)) bytes = Inr x"
    "c' = registered t (kv_sha (ft_env t) bytes) latest x c"
proof -
  let ?cs = "kv_sha (ft_env t) bytes"
  have dup: "processedDuplicate ?cs (sf_fileName (ft_file t)) (sf_externalFileId (ft_file t)) c = None"
    and r: "registering t bytes ?cs (pending_entry t ?cs latest) c = (FileProcessed, c')"
    using assms by (auto simp: process_bytes_def Let_def pending_entry_def split: option.splits if_splits)
  from r have "fst (registering t bytes ?cs (pending_entry t ?cs latest) c) = FileProcessed" by simp
  then obtain x where x: "kv_convert (ft_env t) (conversionNameOf (ft_file t)) bytes = Inr x"
      "consumers (ft_env t) (transcript_of t ?cs (pending_entry t ?cs latest) x) = None"
    unfolding registering_processed by blast
  with r registering_registered [OF x] have "c' = registered t ?cs latest x c" by simp
  with dup x(1) show thesis by (rule that)
qed

lemma process_bytes_registers:
  assumes "processedDuplicate (kv_sha (ft_env t) bytes) (sf_fileName (ft_file t)) (sf_externalFileId (ft_file t)) c = None"
    "case latest of None \<Rightarrow> True | Some l \<Rightarrow> le_checksum l \<noteq> Some (kv_sha (ft_env t) bytes)"
    "isSupportedFileName (conversionNameOf (ft_file t))"
    "kv_convert (ft_env t) (conversionNameOf (ft_file t)) bytes = Inr x"
    "\<And>r. consumers (ft_env t) r = None"
  shows "process_bytes t bytes latest c = (FileProcessed, registered t (kv_sha (ft_env t) bytes) latest x c)"
proof -
  have "\<not> (case latest of None \<Rightarrow> False | Some l \<Rightarrow> settled_entry (ft_file t) (kv_sha (ft_env t) bytes) l)"
    using assms(2) by (auto simp: settled_entry_def split: option.splits)
  with assms(1,3) registering_registered [OF assms(4,5)] show ?thesis
    by (simp add: process_bytes_def Let_def pending_entry_def)
qed

lemma registered_quiet:
  "quiet t \<Longrightarrow> registered t checksum latest x c = recordEntry (ft_env t) (processed_entry t checksum latest)
     (saveTranscript (transcript_of t checksum (pending_entry t checksum latest) x)
       (recordEntry (ft_env t) (pending_entry t checksum latest) c))"
  by (simp add: registered_def quietD)

lemma revisions_upto:
  "x \<in> set (readLedger c) \<Longrightarrow> le_externalFileId x = f \<Longrightarrow>
    le_observedRevision x \<le> revision_of checksum (latestEntry f c)"
  using latestEntry_SomeD(3) [of f c] by (cases "latestEntry f c") (auto simp: latestEntry_None revision_of_def)

lemma latestEntry_registered:
  assumes "ledger_keyed c" "quiet t"
  shows "latestEntry (sf_externalFileId (ft_file t))
      (registered t checksum (latestEntry (sf_externalFileId (ft_file t)) c) x c)
    = Some (stamped (ft_env t) (processed_entry t checksum (latestEntry (sf_externalFileId (ft_file t)) c)))"
proof -
  let ?l = "latestEntry (sf_externalFileId (ft_file t)) c"
  let ?c = "saveTranscript (transcript_of t checksum (pending_entry t checksum ?l) x)
    (recordEntry (ft_env t) (pending_entry t checksum ?l) c)"
  have "ledger_keyed ?c" using assms(1) ledger_keyed_record by (simp add: ledger_keyed_def)
  from latestEntry_record [OF this, of "processed_entry t checksum ?l" "ft_env t"] show ?thesis
    using revisions_upto [of _ c _ checksum] by (auto simp: registered_quiet [OF assms(2)] set_record)
qed

lemma others_after_registered:
  assumes "quiet t" "le_externalFileId y \<noteq> sf_externalFileId (ft_file t)"
  shows "y \<in> set (readLedger (registered t checksum latest x c)) \<longleftrightarrow> y \<in> set (readLedger c)"
proof -
  have "y \<noteq> stamped (ft_env t) (processed_entry t checksum latest)" "y \<noteq> stamped (ft_env t) (pending_entry t checksum latest)"
    "entry_key y \<noteq> entry_key (pending_entry t checksum latest)"
    using assms(2) by (auto simp: entry_key_inj)
  then show ?thesis by (auto simp: registered_quiet [OF assms(1)] set_record)
qed

lemma processedDuplicate_None:
  "processedDuplicate checksum name f c = None \<longleftrightarrow> (\<forall>e\<in>set (readLedger c). le_externalFileId e \<noteq> f \<longrightarrow>
     \<not> (le_state e = Processed \<and> le_transcriptId e \<noteq> None \<and> (le_checksum e = Some checksum
       \<or> (recordingKey name \<noteq> None \<and> recordingKey (le_fileName e) = recordingKey name))))"
  by (auto simp: processedDuplicate_def find_None_iff)

subsection \<open>The cascade of a deletion\<close>

definition deletion_begun :: "deletion_env \<Rightarrow> string \<Rightarrow> transcript_record \<Rightarrow> catalog_state \<Rightarrow> catalog_state" where
  "deletion_begun env tid r c = appendDeletionLedgerEntry Deletion (sr_externalFileId (tr_source r)) (Some tid) (dv_now env)
     (writeTombstone (tombstone_of env r) c)"

lemma deletion_run:
  "readTranscript tid c = Some r \<Longrightarrow> deleteTranscriptRecord env tid TRANSCRIPT_DELETE_CONFIRMATION c
    = (case removed_elsewhere env of Inl e \<Rightarrow> (Inl (Interrupted e), deletion_begun env tid r c)
       | Inr n \<Rightarrow> (Inr (receipt_of env tid r n), saveDeletionReceipt (receipt_of env tid r n)
           (snd (deleteTranscript tid (deletion_begun env tid r c)))))"
  by (simp add: deleteTranscriptRecord_def requireRecord_def effect_def andThen_run require_run Let_def deletion_begun_def
      split: sum.splits)

lemma deletion_unconfirmed:
  "confirmation \<noteq> TRANSCRIPT_DELETE_CONFIRMATION \<Longrightarrow> snd (deleteTranscriptRecord env tid confirmation c) = c"
  by (simp add: deletion_state)

lemma deletion_begun_reads:
  "readTombstone (sr_externalFileId (tr_source r)) (deletion_begun env tid r c) = Some (tombstone_of env r)"
  "readTranscript k (deletion_begun env tid r c) = readTranscript k c"
  by (simp_all add: deletion_begun_def appendDeletionLedgerEntry_def writeTombstone_def readTombstone_def readTranscript_def
      tombstone_of_def)

lemma deleted_reads:
  "readTombstone f (saveDeletionReceipt x (snd (deleteTranscript tid c))) = readTombstone f c"
  "readTranscript tid (saveDeletionReceipt x (snd (deleteTranscript tid c))) = None"
  "dr_transcriptId x = tid \<Longrightarrow> getDeletionReceipt tid (saveDeletionReceipt x (snd (deleteTranscript tid c))) = Some x"
proof -
  show "readTombstone f (saveDeletionReceipt x (snd (deleteTranscript tid c))) = readTombstone f c"
    by (simp add: saveDeletionReceipt_def deleteTranscript_def readTombstone_def)
  have "readTranscript tid (saveDeletionReceipt x d) = readTranscript tid d" for d
    by (simp add: saveDeletionReceipt_def readTranscript_def)
  then show "readTranscript tid (saveDeletionReceipt x (snd (deleteTranscript tid c))) = None"
    by (simp add: readTranscript_delete)
  show "dr_transcriptId x = tid \<Longrightarrow> getDeletionReceipt tid (saveDeletionReceipt x (snd (deleteTranscript tid c))) = Some x"
    by (simp add: getDeletionReceipt_def saveDeletionReceipt_def)
qed

lemma receipt_of_id [simp]: "dr_transcriptId (receipt_of env tid r n) = tid"
  by (simp add: receipt_of_def)

end
