(* ===== verification/RegexFacts.thy ===== *)
theory RegexFacts
  imports MeetingNames
begin

section \<open>What a match is\<close>

text \<open>
  The matcher against its meaning: \<open>reads\<close> is the declarative reading of a pattern, one rule per construct, and the
  matcher answers exactly when some reading of the pattern is acceptable to what follows it.  From this, the shape of what the
  patterns of a file name capture.
\<close>

inductive reads :: "regex \<Rightarrow> pos \<Rightarrow> captures \<Rightarrow> pos \<Rightarrow> captures \<Rightarrow> bool" where
  reads_empty: "reads Empty at caps at caps"
| reads_one: "p c \<Longrightarrow> reads (OneOf p) (q, c # cs) caps (Some c, cs) caps"
| reads_seq: "reads r at caps at1 caps1 \<Longrightarrow> reads s at1 caps1 at2 caps2 \<Longrightarrow> reads (Seq r s) at caps at2 caps2"
| reads_left: "reads r at caps at' caps' \<Longrightarrow> reads (Alt r s) at caps at' caps'"
| reads_right: "reads s at caps at' caps' \<Longrightarrow> reads (Alt r s) at caps at' caps'"
| reads_stop: "reads (Many g r) at caps at caps"
| reads_again: "reads r at caps at1 caps1 \<Longrightarrow> length (snd at1) < length (snd at) \<Longrightarrow>
    reads (Many g r) at1 caps1 at2 caps2 \<Longrightarrow> reads (Many g r) at caps at2 caps2"
| reads_group: "reads r at caps at' caps' \<Longrightarrow>
    reads (Group n r) at caps at' ((n, captured at at') # filter (\<lambda>c. fst c \<noteq> n) caps')"
| reads_unset: "map_of caps n = None \<Longrightarrow> reads (Backref n) at caps at caps"
| reads_backref: "map_of caps n = Some t \<Longrightarrow> take (length t) (snd at) = t \<Longrightarrow>
    reads (Backref n) at caps (advance (length t) at) caps"
| reads_start: "fst at = None \<or> (\<exists>c. fst at = Some c \<and> multiline \<and> line_terminator c) \<Longrightarrow>
    reads (Start multiline) at caps at caps"
| reads_end: "snd at = [] \<or> (\<exists>c cs. snd at = c # cs \<and> multiline \<and> line_terminator c) \<Longrightarrow>
    reads (End multiline) at caps at caps"

inductive_cases reads_emptyE: "reads Empty at caps at' caps'"
inductive_cases reads_oneE: "reads (OneOf p) at caps at' caps'"
inductive_cases reads_seqE: "reads (Seq r s) at caps at' caps'"
inductive_cases reads_altE: "reads (Alt r s) at caps at' caps'"
inductive_cases reads_manyE: "reads (Many g r) at caps at' caps'"
inductive_cases reads_groupE: "reads (Group n r) at caps at' caps'"
inductive_cases reads_startE: "reads (Start b) at caps at' caps'"
inductive_cases reads_endE: "reads (End b) at caps at' caps'"

lemma repeating_sound:
  assumes step: "\<And>at caps (k :: pos \<Rightarrow> captures \<Rightarrow> 'a option) x. match_re r at caps k = Some x \<Longrightarrow>
      \<exists>at' caps'. reads r at caps at' caps' \<and> k at' caps' = Some x"
  shows "repeating n g (match_re r) at caps (k :: pos \<Rightarrow> captures \<Rightarrow> 'a option) = Some x \<Longrightarrow>
      \<exists>at' caps'. reads (Many g r) at caps at' caps' \<and> k at' caps' = Some x"
proof (induction n arbitrary: at caps)
  case 0
  then have "k at caps = Some x" by simp
  then show ?case using reads_stop by blast
next
  case (Suc n)
  let ?k = "\<lambda>at' caps'. if length (snd at') < length (snd at) then repeating n g (match_re r) at' caps' k else None"
  have "match_re r at caps ?k = Some x \<or> k at caps = Some x"
    using Suc.prems by (auto split: if_splits option.splits)
  then show ?case
  proof
    assume "match_re r at caps ?k = Some x"
    from step [OF this] obtain at1 caps1 where "reads r at caps at1 caps1" "length (snd at1) < length (snd at)"
      "repeating n g (match_re r) at1 caps1 k = Some x" by (auto split: if_splits)
    with Suc.IH [of at1 caps1] show ?thesis by (blast intro: reads_again)
  qed (blast intro: reads_stop)
qed

lemma match_re_sound:
  "match_re r at caps k = Some x \<Longrightarrow> \<exists>at' caps'. reads r at caps at' caps' \<and> k at' caps' = Some x"
proof (induction r arbitrary: at caps k x)
  case (OneOf p)
  then show ?case by (cases at) (auto intro: reads_one split: list.splits if_splits)
next
  case (Seq r s)
  from Seq.prems Seq.IH(1) obtain at1 caps1 where "reads r at caps at1 caps1" "match_re s at1 caps1 k = Some x"
    by fastforce
  with Seq.IH(2) show ?case by (blast intro: reads_seq)
next
  case (Alt r s)
  from Alt.prems have "match_re r at caps k = Some x \<or> match_re s at caps k = Some x"
    by (auto split: option.splits)
  with Alt.IH show ?case by (blast intro: reads_left reads_right)
next
  case (Many g r)
  then have "repeating (length (snd at)) g (match_re r) at caps k = Some x" by simp
  then show ?case by (rule repeating_sound [rotated]) (rule Many.IH)
next
  case (Group n r)
  from Group.prems Group.IH show ?case by (fastforce intro: reads_group)
next
  case (Backref n)
  show ?case
  proof (cases "map_of caps n")
    case None
    with Backref have "k at caps = Some x" by simp
    with None show ?thesis by (blast intro: reads_unset)
  next
    case (Some t)
    with Backref have "take (length t) (snd at) = t" "k (advance (length t) at) caps = Some x"
      by (auto split: if_splits)
    with Some show ?thesis by (blast intro: reads_backref)
  qed
next
  case (Start m)
  then have "(fst at = None \<or> (\<exists>c. fst at = Some c \<and> m \<and> line_terminator c)) \<and> k at caps = Some x"
    by (auto split: option.splits if_splits)
  then show ?case by (blast intro: reads_start)
next
  case (End m)
  then have "(snd at = [] \<or> (\<exists>c cs. snd at = c # cs \<and> m \<and> line_terminator c)) \<and> k at caps = Some x"
    by (auto split: list.splits if_splits)
  then show ?case by (blast intro: reads_end)
next
  case Empty
  then have "k at caps = Some x" by simp
  then show ?case by (blast intro: reads_empty)
qed

lemma match_re_complete_strong:
  "reads r at caps at' caps' \<Longrightarrow>
    (\<forall>k :: pos \<Rightarrow> captures \<Rightarrow> 'a option. k at' caps' \<noteq> None \<longrightarrow> match_re r at caps k \<noteq> None) \<and>
    (\<forall>g s n. \<forall>k :: pos \<Rightarrow> captures \<Rightarrow> 'a option. r = Many g s \<longrightarrow> length (snd at) \<le> n \<longrightarrow> k at' caps' \<noteq> None \<longrightarrow>
       repeating n g (match_re s) at caps k \<noteq> None)"
proof (induction rule: reads.induct)
  case (reads_stop g r at caps)
  have "repeating n g (match_re r) at caps k \<noteq> None" if "k at caps \<noteq> None" for n and k :: "pos \<Rightarrow> captures \<Rightarrow> 'a option"
    using that by (cases n) (auto split: option.splits)
  then show ?case by auto
next
  case (reads_again r at caps at1 caps1 g at2 caps2)
  have "repeating n g (match_re r) at caps k \<noteq> None" if n: "length (snd at) \<le> n" and k: "k at2 caps2 \<noteq> None"
    for n and k :: "pos \<Rightarrow> captures \<Rightarrow> 'a option"
  proof (cases n)
    case 0
    with reads_again.hyps(2) n show ?thesis by simp
  next
    case (Suc j)
    then have "length (snd at1) \<le> j" using reads_again.hyps(2) n by simp
    with reads_again.IH(2) k have "repeating j g (match_re r) at1 caps1 k \<noteq> None" by blast
    with reads_again.hyps(2) reads_again.IH(1) have "match_re r at caps (\<lambda>at' caps'.
        if length (snd at') < length (snd at) then repeating j g (match_re r) at' caps' k else None) \<noteq> None"
      by (simp del: not_None_eq)
    with Suc show ?thesis by (auto split: option.splits)
  qed
  then show ?case by auto
next
  case (reads_right s at caps at' caps' r)
  then show ?case by (auto split: option.splits)
qed (auto split: option.splits list.splits simp del: not_None_eq)

text \<open>A text is matched exactly when some part of it reads as the pattern.\<close>

lemma match_at_iff: "match_at r at \<noteq> None \<longleftrightarrow> (\<exists>at' caps. reads r at [] at' caps)"
proof
  assume "match_at r at \<noteq> None"
  then obtain x where "match_re r at [] (\<lambda>at' caps. Some (at', caps)) = Some x" by (auto simp: match_at_def)
  from match_re_sound [OF this] show "\<exists>at' caps. reads r at [] at' caps" by blast
next
  assume "\<exists>at' caps. reads r at [] at' caps"
  then obtain at' caps where "reads r at [] at' caps" by blast
  from match_re_complete_strong [OF this, THEN conjunct1, THEN spec, of "\<lambda>at' caps. Some (at', caps)"]
  show "match_at r at \<noteq> None" by (simp add: match_at_def)
qed

lemma match_at_reads: "match_at r at = Some (at', caps) \<Longrightarrow> reads r at [] at' caps"
  using match_re_sound [of r at "[]" "\<lambda>at' caps. Some (at', caps)" "(at', caps)"] by (auto simp: match_at_def)

lemma exec_from_reads: "exec_from r passed at = Some m \<Longrightarrow> \<exists>at1 at2. reads r at1 [] at2 (rm_groups m)"
  by (induction r passed at rule: exec_from.induct) (auto split: option.splits dest!: match_at_reads, blast+)

lemma exec_reads: "exec r s = Some m \<Longrightarrow> \<exists>at1 at2. reads r at1 [] at2 (rm_groups m)"
  unfolding exec_def by (rule exec_from_reads)

subsection \<open>Captures\<close>

text \<open>The groups a pattern always captures.\<close>

fun captures_group :: "nat \<Rightarrow> regex \<Rightarrow> bool" where
  "captures_group n (Seq r s) \<longleftrightarrow> captures_group n r \<or> captures_group n s"
| "captures_group n (Alt r s) \<longleftrightarrow> captures_group n r \<and> captures_group n s"
| "captures_group n (Group k r) \<longleftrightarrow> k = n \<or> captures_group n r"
| "captures_group n _ \<longleftrightarrow> False"

lemma map_of_keep: "map_of (filter (\<lambda>c. fst c \<noteq> k) caps) n = (if n = k then None else map_of caps n)"
  by (induction caps) auto

lemma reads_captures:
  "reads r at caps at' caps' \<Longrightarrow> captures_group n r \<or> map_of caps n \<noteq> None \<Longrightarrow> map_of caps' n \<noteq> None"
  by (induction rule: reads.induct) (auto simp: map_of_keep)

text \<open>A property of what each group captures holds of every capture.\<close>

fun groups_ok :: "(nat \<Rightarrow> string \<Rightarrow> bool) \<Rightarrow> regex \<Rightarrow> bool" where
  "groups_ok P (Seq r s) \<longleftrightarrow> groups_ok P r \<and> groups_ok P s"
| "groups_ok P (Alt r s) \<longleftrightarrow> groups_ok P r \<and> groups_ok P s"
| "groups_ok P (Many g r) \<longleftrightarrow> groups_ok P r"
| "groups_ok P (Group n r) \<longleftrightarrow> groups_ok P r \<and>
     (\<forall>at caps at' caps'. reads r at caps at' caps' \<longrightarrow> P n (captured at at'))"
| "groups_ok P _ \<longleftrightarrow> True"

lemma reads_groups_ok:
  "reads r at caps at' caps' \<Longrightarrow> groups_ok P r \<Longrightarrow> \<forall>c\<in>set caps. P (fst c) (snd c) \<Longrightarrow>
    \<forall>c\<in>set caps'. P (fst c) (snd c)"
proof (induction rule: reads.induct)
  case (reads_group r at caps at' caps' n)
  from reads_group.prems(1) have r: "groups_ok P r" and
    n: "\<forall>at caps at' caps'. reads r at caps at' caps' \<longrightarrow> P n (captured at at')" by simp_all
  have "P n (captured at at')" using n reads_group.hyps by blast
  with reads_group.IH [OF r reads_group.prems(2)] show ?case by simp
qed auto

text \<open>The patterns that spell a text character by character.\<close>

fun spelled :: "regex \<Rightarrow> (char \<Rightarrow> bool) list option" where
  "spelled Empty = Some []"
| "spelled (OneOf p) = Some [p]"
| "spelled (Seq r s) = (case (spelled r, spelled s) of (Some ps, Some qs) \<Rightarrow> Some (ps @ qs) | _ \<Rightarrow> None)"
| "spelled _ = None"

lemma reads_spelled:
  "reads r at caps at' caps' \<Longrightarrow> spelled r = Some ps \<Longrightarrow>
    \<exists>s. snd at = s @ snd at' \<and> list_all2 (\<lambda>p c. p c) ps s"
proof (induction arbitrary: ps rule: reads.induct)
  case (reads_seq r at caps at1 caps1 s at2 caps2)
  then obtain qs rs where "spelled r = Some qs" "spelled s = Some rs" "ps = qs @ rs"
    by (auto split: option.splits)
  with reads_seq.IH obtain t u where "snd at = t @ snd at1" "list_all2 (\<lambda>p c. p c) qs t"
    "snd at1 = u @ snd at2" "list_all2 (\<lambda>p c. p c) rs u" by blast
  with \<open>ps = qs @ rs\<close> show ?case by (intro exI [of _ "t @ u"]) (simp add: list_all2_appendI)
next
  case (reads_one p c q cs caps)
  then show ?case by (intro exI [of _ "[c]"]) auto
qed auto

lemma captured_spelled:
  assumes "reads r at caps at' caps'" "spelled r = Some ps"
  shows "list_all2 (\<lambda>p c. p c) ps (captured at at')"
  using reads_spelled [OF assms] by (auto simp: captured_def)

subsection \<open>Dates and clocks in file names\<close>

definition two_digit_text :: "string \<Rightarrow> bool" where
  "two_digit_text s \<longleftrightarrow> length s = 2 \<and> list_all is_digit s"

lemma list_all2_Cons_iff: "list_all2 P (p # ps) s \<longleftrightarrow> (\<exists>c cs. s = c # cs \<and> P p c \<and> list_all2 P ps cs)"
  by (cases s) auto

lemma spelled_date: "spelled date_re = Some [is_digit, is_digit, is_digit, is_digit, (\<lambda>c. c = CHR ''-''),
    is_digit, is_digit, (\<lambda>c. c = CHR ''-''), is_digit, is_digit]"
  by (simp add: date_re_def digit_def lit_def eval_nat_numeral)

lemma reads_date:
  assumes "reads date_re at caps at' caps'"
  shows "date_fields (captured at at') \<noteq> None"
proof -
  from captured_spelled [OF assms spelled_date] obtain a b c d e f g h i j where
    "captured at at' = [a, b, c, d, e, f, g, h, i, j]"
    "is_digit a" "is_digit b" "is_digit c" "is_digit d" "e = CHR ''-''" "is_digit f" "is_digit g" "h = CHR ''-''"
    "is_digit i" "is_digit j"
    by (auto simp: list_all2_Cons_iff)
  then show ?thesis by (simp add: date_fields_def eval_nat_numeral)
qed

lemma reads_two_digits: "reads (times 2 digit) at caps at' caps' \<Longrightarrow> two_digit_text (captured at at')"
proof -
  assume r: "reads (times 2 digit) at caps at' caps'"
  have "spelled (times 2 digit) = Some [is_digit, is_digit]" by (simp add: digit_def eval_nat_numeral)
  from captured_spelled [OF r this] show ?thesis by (auto simp: list_all2_Cons_iff two_digit_text_def)
qed

definition stamp_groups :: "nat \<Rightarrow> nat \<Rightarrow> string \<Rightarrow> bool" where
  "stamp_groups n k t \<longleftrightarrow> (k = n \<longrightarrow> date_fields t \<noteq> None) \<and> (k \<in> {n + 1, n + 2} \<longrightarrow> two_digit_text t)"

text \<open>The shape of a timestamp recovered from a file name.\<close>

definition utc_stamp :: "string \<Rightarrow> bool" where
  "utc_stamp t \<longleftrightarrow> (\<exists>d h m. date_fields d \<noteq> None \<and> two_digit_text h \<and> two_digit_text m
     \<and> t = d @ ''T'' @ h @ '':'' @ m @ '':00.000Z'')"

lemma named_meta_stamp:
  assumes m: "exec r s = Some m" and g: "groups_ok (stamp_groups n) r" "captures_group n r"
  shows "\<exists>t. fm_timestamp (named_meta raw m n) = Some t \<and> utc_stamp t"
proof -
  obtain at1 at2 where r: "reads r at1 [] at2 (rm_groups m)" using exec_reads [OF m] by blast
  have ok: "\<forall>c\<in>set (rm_groups m). stamp_groups n (fst c) (snd c)"
    using reads_groups_ok [OF r g(1)] by simp
  have d: "\<exists>d. group m n = Some d" using reads_captures [OF r, of n] g(2) by (auto simp: group_def)
  have P: "group m k = Some t \<Longrightarrow> stamp_groups n k t" for k t
    using ok by (metis group_def map_of_SomeD fst_conv snd_conv)
  obtain d where d: "group m n = Some d" "date_fields d \<noteq> None" using d P by (auto simp: stamp_groups_def)
  have two: "two_digit_text ''00''" by (simp add: two_digit_text_def is_digit_def)
  have "utc_stamp (timestampOf d (group m (n + 1)) (group m (n + 2)))"
  proof (cases "group m (n + 1) = None \<or> group m (n + 2) = None")
    case True
    then have "timestampOf d (group m (n + 1)) (group m (n + 2)) = d @ ''T'' @ ''00'' @ '':'' @ ''00'' @ '':00.000Z''"
      by (auto simp: timestampOf_def split: option.splits)
    with d two show ?thesis unfolding utc_stamp_def by blast
  next
    case False
    then obtain h k where h: "group m (n + 1) = Some h" "group m (n + 2) = Some k" by auto
    with P have "two_digit_text h" "two_digit_text k" by (auto simp: stamp_groups_def)
    with d h show ?thesis unfolding utc_stamp_def timestampOf_def by auto
  qed
  with d show ?thesis by (simp add: named_meta_def or_blank_def)
qed

lemma digit_groups [simp]: "groups_ok P digit" "\<not> captures_group n digit"
  by (simp_all add: digit_def)

lemma group_digits_ok [simp]: "groups_ok P (times k digit)" "\<not> captures_group n (times k digit)"
  by (induction k) simp_all

lemma group_date_ok [simp]: "groups_ok P date_re" "\<not> captures_group n date_re"
  by (simp_all add: date_re_def lit_def)

lemma stamp_date: "reads date_re at caps at' caps' \<Longrightarrow> stamp_groups n n (captured at at')"
  by (auto simp: stamp_groups_def dest: reads_date)

lemma stamp_digits: "reads (times 2 digit) at caps at' caps' \<Longrightarrow> k \<noteq> n \<Longrightarrow> stamp_groups n k (captured at at')"
  by (auto simp: stamp_groups_def dest: reads_two_digits)

lemma stamp_other: "k \<notin> {n, n + 1, n + 2} \<Longrightarrow> stamp_groups n k t"
  by (auto simp: stamp_groups_def)

lemmas pattern_defs = lit_def one_of_def some_def opt_def blank_def any_char_def

lemma embedded_ok: "groups_ok (stamp_groups 1) EMBEDDED_TIMESTAMP" "captures_group 1 EMBEDDED_TIMESTAMP"
  by (auto simp: EMBEDDED_TIMESTAMP_def pattern_defs intro: stamp_date [where n = 1, simplified] stamp_digits)

lemma leading_ok: "groups_ok (stamp_groups 1) LEADING" "captures_group 1 LEADING"
  by (auto simp: LEADING_def clock_re_def pattern_defs intro: stamp_date [where n = 1, simplified] stamp_digits stamp_other)

lemma trailing_ok: "groups_ok (stamp_groups 2) TRAILING" "captures_group 2 TRAILING"
  by (auto simp: TRAILING_def clock_re_def pattern_defs intro: stamp_date stamp_digits stamp_other)

lemma file_name_stamp: "fm_timestamp (meetingFileNameMeta f) = Some t \<Longrightarrow> utc_stamp t"
proof -
  let ?s = "replace_first EXTENSION [] f"
  assume t: "fm_timestamp (meetingFileNameMeta f) = Some t"
  have "fm_timestamp (named_meta raw m n) = Some t \<Longrightarrow> exec r ?s = Some m \<Longrightarrow>
      groups_ok (stamp_groups n) r \<Longrightarrow> captures_group n r \<Longrightarrow> utc_stamp t" for raw m n r
    using named_meta_stamp [of r ?s m n raw] by auto
  note stamped = this [OF _ _ embedded_ok] this [OF _ _ leading_ok] this [OF _ _ trailing_ok]
  show ?thesis
  proof (cases "exec EMBEDDED_TIMESTAMP ?s")
    case (Some m)
    with t stamped(1) show ?thesis by (simp add: meetingFileNameMeta_def Let_def)
  next
    case e: None
    show ?thesis
    proof (cases "exec LEADING ?s")
      case (Some m)
      with e t stamped(2) show ?thesis by (simp add: meetingFileNameMeta_def Let_def)
    next
      case l: None
      with e t stamped(3) show ?thesis
        by (cases "exec TRAILING ?s") (simp_all add: meetingFileNameMeta_def Let_def)
    qed
  qed
qed

lemma file_name_date: "meetingDateFromFileName f = Some d \<Longrightarrow> date_fields d \<noteq> None"
proof -
  assume "meetingDateFromFileName f = Some d"
  then obtain m where m: "exec FILE_TIMESTAMP f = Some m" "group m 1 = Some d"
    by (auto simp: meetingDateFromFileName_def split: option.splits)
  from exec_reads [OF m(1)] obtain at1 at2 where r: "reads FILE_TIMESTAMP at1 [] at2 (rm_groups m)" by blast
  have "groups_ok (stamp_groups 1) FILE_TIMESTAMP"
    by (auto simp: FILE_TIMESTAMP_def pattern_defs intro: stamp_date [where n = 1, simplified])
  from reads_groups_ok [OF r this] m(2) have "stamp_groups 1 1 d"
    by (metis group_def map_of_SomeD fst_conv snd_conv empty_iff list.set(1))
  then show ?thesis by (simp add: stamp_groups_def)
qed

end
