(* ===== verification/CatalogProperties.thy ===== *)
theory CatalogProperties
  imports CatalogFacts RegexFacts
begin

section \<open>Properties of the Transcript Catalog\<close>

text \<open>
  What the Catalog promises about its files: their soundness, the write-once artifact, registration that happens
  once, and deletion that stays.  Two theorems describe what the code does where its comments promise more.
\<close>

subsection \<open>A sample Catalog\<close>

definition sample_catalog_env :: catalog_env where
  "sample_catalog_env = \<lparr>kv_sha = (\<lambda>b. b), kv_convert = (\<lambda>_ b. Inr b), kv_identity = (\<lambda>_. None),
     kv_debrief = (\<lambda>_. None), kv_collate = by_code_units, kv_now = (\<lambda>_. ''t'')\<rparr>"

definition sample_file :: source_file where
  "sample_file = \<lparr>sf_externalFileId = ''f'', sf_fileName = ''a.md'', sf_sizeBytes = None, sf_modifiedAt = None,
     sf_sourceUrl = None, sf_conversionName = None\<rparr>"

definition sample_turn :: "string \<Rightarrow> (catalog_state \<Rightarrow> catalog_state) \<Rightarrow> file_turn" where
  "sample_turn bytes meanwhile = \<lparr>ft_env = sample_catalog_env, ft_file = sample_file, ft_fetch = Fetched bytes,
     ft_before = (\<lambda>c. c), ft_while_fetching = meanwhile, ft_while_converting = (\<lambda>c. c), ft_while_mining = (\<lambda>c. c)\<rparr>"

definition sample_pass :: "file_turn list \<Rightarrow> pass_turn" where
  "sample_pass ts = \<lparr>pa_env = sample_catalog_env, pa_backfill = None, pa_while_backfilling = (\<lambda>c. c),
     pa_listing = Inr ts\<rparr>"

definition sample_deletion :: deletion_env where
  "sample_deletion = \<lparr>dv_now = ''d'', dv_identity = Inr \<lparr>rc_transcriptRecords = 0, rc_identityMentions = 0,
     rc_organizationMentions = 0, rc_identityCandidates = 0, rc_identityDecisions = 0,
     rc_organizationMergeDecisions = 0, rc_transcriptRememberedMappings = 0, rc_extractionLedgerEntries = 0,
     rc_relevanceCandidates = 0, rc_relevanceDecisions = 0, rc_consumerRecords = 0\<rparr>,
     dv_relevance = Inr (0, 0), dv_registries = []\<rparr>"

text \<open>The Catalog after the file was read once with the text \<open>x\<close>.\<close>

definition first_revision :: catalog_state where
  "first_revision = snd (processFile (sample_turn ''x'' (\<lambda>c. c)) empty_catalog)"

lemma sample_quiet: "quiet (sample_turn b (\<lambda>c. c))" "\<forall>t\<in>set ts. quiet t \<Longrightarrow> quiet_pass (sample_pass ts)"
  by (simp_all add: quiet_def quiet_pass_def sample_turn_def sample_pass_def)

definition first_transcript :: transcript_record where
  "first_transcript = transcript_of (sample_turn ''x'' (\<lambda>c. c)) ''x''
     (newEntry sample_catalog_env sample_file (Some ''x'') Pending None 1) ''x''"

definition first_entry :: ledger_entry where
  "first_entry = (newEntry sample_catalog_env sample_file (Some ''x'') Processed None 1)
     \<lparr>le_transcriptId := Some ''drive_f_r1''\<rparr>"

lemma supported_sample: "isSupportedFileName ''a.md''"
  by code_simp

lemma digits_1: "digits (Suc 0) = ''1''" and digits_2: "digits 2 = ''2''"
  by code_simp+

lemma first_revision_eq: "first_revision = empty_catalog\<lparr>kc_ledger := Json [first_entry],
    kc_transcripts := [(''drive_f_r1'', Some first_transcript)]\<rparr>"
  by (simp add: first_revision_def processFile_def process_bytes_def registering_def sample_turn_def sample_file_def
      sample_catalog_env_def empty_catalog_def readTombstone_def dir_read_def latestEntry_def readLedger_def
      processedDuplicate_def same_revision_def supported_sample conversionNameOf_def consumers_def recordEntry_def
      saveLedgerEntry_def newEntry_def saveTranscript_def dir_exists_def transcriptId_def revision_of_def attempts_of_def
      first_entry_def first_transcript_def transcript_of_def digits_1 entry_key_def Let_def)

lemma catalog_sample_duplicates: "processedDuplicate checksum name ''f'' (c\<lparr>kc_ledger := Json [e]\<rparr>) = None"
  if "le_externalFileId e = ''f''"
  using that by (simp add: processedDuplicate_def readLedger_def)

subsection \<open>Soundness and the artifact\<close>

text \<open>C14: Whatever the Catalog does, with other operations in between and with failures anywhere, every source revision
  has one entry of the ledger, every Transcript is stored under the identity its source revision gives it, every
  tombstone under its file, and the ledger of deletions is numbered without a gap.\<close>

theorem catalog_files_stay_sound:
  assumes "catalog_step\<^sup>*\<^sup>* empty_catalog c"
  shows "catalog_ok c"
  using assms empty_catalog_ok by (rule catalog_steps_ok)

theorem catalog_files_stay_sound_witness:
  "catalog_ok (snd (processAvailable (sample_pass [sample_turn ''x'' (\<lambda>c. c)])
     (grantConsent sample_catalog_env ''folder'' None empty_catalog)))"
proof (rule catalog_files_stay_sound)
  have "catalog_step empty_catalog (grantConsent sample_catalog_env ''folder'' None empty_catalog)"
    by (rule step_grant)
  moreover have "catalog_step (grantConsent sample_catalog_env ''folder'' None empty_catalog)
      (snd (processAvailable (sample_pass [sample_turn ''x'' (\<lambda>c. c)])
        (grantConsent sample_catalog_env ''folder'' None empty_catalog)))"
    by (rule step_pass) (simp add: quiet_pass_ok sample_quiet)
  ultimately show "catalog_step\<^sup>*\<^sup>* empty_catalog (snd (processAvailable (sample_pass [sample_turn ''x'' (\<lambda>c. c)])
      (grantConsent sample_catalog_env ''folder'' None empty_catalog)))" by simp
qed




lemma first_revision_step: "catalog_ok first_revision"
proof -
  have "catalog_writes empty_catalog first_revision"
    unfolding first_revision_def by (rule processFile_writes [OF empty_catalog_ok quiet_turn_ok [OF sample_quiet(1)]])
  then show ?thesis using empty_catalog_ok by (rule catalog_writes_ok)
qed




subsection \<open>Registration happens once\<close>

text \<open>C15: Registration happens once: when the turn of a file has registered the revision it read, another turn of the same
  file with the same bytes, whatever the clock and the consumers do now, finds it unchanged and writes nothing.\<close>

theorem registration_happens_once:
  assumes first: "processFile t c = (FileProcessed, c')" "quiet t" "ft_fetch t = Fetched bytes" and c: "ledger_keyed c"
    and again: "quiet t'" "ft_file t' = ft_file t" "ft_fetch t' = Fetched bytes"
      "kv_sha (ft_env t') bytes = kv_sha (ft_env t) bytes"
  shows "processFile t' c' = (FileUnchanged, c')"
proof -
  let ?f = "sf_externalFileId (ft_file t)" and ?cs = "kv_sha (ft_env t) bytes"
  have open_file: "readTombstone ?f c = None"
    using first(1) by (auto simp: processFile_def Let_def split: if_splits)
  then have "process_bytes t bytes (latestEntry ?f c) c = (FileProcessed, c')"
    using first by (simp add: processFile_def Let_def quietD)
  then obtain x where dup: "processedDuplicate ?cs (sf_fileName (ft_file t)) ?f c = None"
    and c': "c' = registered t ?cs (latestEntry ?f c) x c"
    by (rule process_bytes_processed)
  have latest: "latestEntry ?f c' = Some (stamped (ft_env t) (processed_entry t ?cs (latestEntry ?f c)))"
    unfolding c' by (rule latestEntry_registered [OF c first(2)])
  have "processedDuplicate ?cs (sf_fileName (ft_file t)) ?f c' = None"
    using dup others_after_registered [OF first(2)] unfolding c' processedDuplicate_None by blast
  moreover have "readTombstone ?f c' = None"
    using open_file by (simp add: c' registered_quiet [OF first(2)])
  ultimately show ?thesis
    using again latest by (simp add: processFile_def process_bytes_def Let_def quietD settled_entry_def)
qed

lemma first_turn: "processFile (sample_turn ''x'' (\<lambda>c. c)) empty_catalog = (FileProcessed, first_revision)"
proof -
  have "fst (processFile (sample_turn ''x'' (\<lambda>c. c)) empty_catalog) = FileProcessed"
    by (simp add: processFile_def process_bytes_def registering_def sample_turn_def sample_file_def
      sample_catalog_env_def empty_catalog_def readTombstone_def dir_read_def latestEntry_def readLedger_def
      processedDuplicate_def same_revision_def supported_sample conversionNameOf_def consumers_def Let_def)
  then show ?thesis by (simp add: first_revision_def prod_eq_iff)
qed

theorem registration_happens_once_witness:
  "processFile (sample_turn ''x'' (\<lambda>c. c)) first_revision = (FileUnchanged, first_revision)"
  by (rule registration_happens_once [OF first_turn])
    (simp_all add: sample_quiet ledger_keyed_def readLedger_def empty_catalog_def, simp_all add: sample_turn_def)

text \<open>C31: A changed file is a new revision: when the turn of a file finds no tombstone, a latest entry with a checksum, and
  fetches bytes with another checksum, they are registered under the next revision of the file, with their own text, and
  no other Transcript is touched.  The turn is one that registers: the bytes are not those of a processed entry of
  another file (duplicates are recorded and not registered), the name is a supported one, the conversion succeeds, no
  consumer of the catalog's notices fails, and the next revision's identity is not taken once the file has been fetched.
  During the fetch anything may happen to the catalog, during the conversion and the mining nothing does.  The
  tombstone is read before the fetch and not again: a deletion of the file's Transcript that commits during the fetch
  leaves its tombstone beside the newly registered text.\<close>

theorem changed_file_is_a_new_revision:
  assumes "readTombstone f c = None" "sf_externalFileId (ft_file t) = f"
    and "latestEntry f c = Some l" "le_checksum l = Some k" "k \<noteq> kv_sha (ft_env t) bytes"
    and "ft_fetch t = Fetched bytes" "ft_while_fetching t c = c1"
      "\<And>x. ft_while_converting t x = x" "\<And>x. ft_while_mining t x = x"
    and "processedDuplicate (kv_sha (ft_env t) bytes) (sf_fileName (ft_file t)) f c1 = None"
      "isSupportedFileName (conversionNameOf (ft_file t))"
      "kv_convert (ft_env t) (conversionNameOf (ft_file t)) bytes = Inr x" "\<And>r. consumers (ft_env t) r = None"
    and new: "\<not> dir_exists (transcriptId f (le_observedRevision l + 1)) (kc_transcripts c1)"
  shows "(fst (processFile t c) = FileProcessed)
    \<and> (\<exists>r. readTranscript (transcriptId f (le_observedRevision l + 1)) (snd (processFile t c)) = Some r
      \<and> tr_normalizedText r = x \<and> sr_checksum (tr_source r) = kv_sha (ft_env t) bytes)
    \<and> (j \<noteq> transcriptId f (le_observedRevision l + 1) \<longrightarrow>
      readTranscript j (snd (processFile t c)) = readTranscript j c1)
    \<and> (readTombstone f (snd (processFile t c)) = readTombstone f c1)"
proof (intro conjI)
  let ?cs = "kv_sha (ft_env t) bytes"
  let ?r = "transcript_of t ?cs (pending_entry t ?cs (Some l)) x"
  let ?c' = "registered t ?cs (Some l) x c1"
  have rev: "revision_of ?cs (Some l) = le_observedRevision l + 1"
    using assms(4,5) by (simp add: revision_of_def same_revision_def)
  have "process_bytes t bytes (Some l) c1 = (FileProcessed, ?c')"
    by (rule process_bytes_registers) (use assms in simp_all)
  with assms have turn: "processFile t c = (FileProcessed, ?c')" by (simp add: processFile_def Let_def)
  then show "fst (processFile t c) = FileProcessed" by simp
  have c': "?c' = recordEntry (ft_env t) (processed_entry t ?cs (Some l))
      (saveTranscript ?r (recordEntry (ft_env t) (pending_entry t ?cs (Some l)) c1))"
    using assms by (simp add: registered_def)
  have id: "tr_id ?r = transcriptId f (le_observedRevision l + 1)" using assms(2) rev by simp
  have save: "saveTranscript ?r d = updateTranscript ?r d" if "kc_transcripts d = kc_transcripts c1" for d
    using new that id by (simp add: saveTranscript_def updateTranscript_def)
  have same: "kc_transcripts (recordEntry e i d) = kc_transcripts d" for e i d
    by (simp add: recordEntry_def saveLedgerEntry_def)
  have "readTranscript (transcriptId f (le_observedRevision l + 1)) ?c' = Some ?r"
    by (simp add: c' save same readTranscript_update id del: tr_id_transcript_of)
  moreover have "tr_normalizedText ?r = x" "sr_checksum (tr_source ?r) = ?cs" by (simp_all add: transcript_of_def Let_def)
  ultimately show "\<exists>r. readTranscript (transcriptId f (le_observedRevision l + 1)) (snd (processFile t c)) = Some r
      \<and> tr_normalizedText r = x \<and> sr_checksum (tr_source r) = ?cs" using turn by simp
  show "j \<noteq> transcriptId f (le_observedRevision l + 1) \<longrightarrow>
      readTranscript j (snd (processFile t c)) = readTranscript j c1"
    unfolding turn snd_conv by (simp add: c' save same readTranscript_update id del: tr_id_transcript_of)
  show "readTombstone f (snd (processFile t c)) = readTombstone f c1" unfolding turn snd_conv by (simp add: c')
qed

definition delete_first :: "catalog_state \<Rightarrow> catalog_state" where
  "delete_first c = snd (deleteTranscriptRecord sample_deletion ''drive_f_r1'' TRANSCRIPT_DELETE_CONFIRMATION c)"

lemma first_revision_reads:
  "readTombstone ''f'' first_revision = None" "latestEntry ''f'' first_revision = Some first_entry"
  "readTranscript ''drive_f_r1'' first_revision = Some first_transcript"
  by (simp_all add: first_revision_eq readTombstone_def dir_read_def empty_catalog_def latestEntry_def readLedger_def
      first_entry_def newEntry_def sample_file_def readTranscript_def)

lemma first_transcript_source: "sr_externalFileId (tr_source first_transcript) = ''f''"
  by (simp add: first_transcript_def sample_turn_def sample_file_def)

lemma delete_first_reads:
  "kc_ledger (delete_first first_revision) = Json [first_entry]" "kc_transcripts (delete_first first_revision) = []"
  "readTombstone ''f'' (delete_first first_revision) \<noteq> None"
  by (simp_all add: delete_first_def deletion_state first_revision_reads Let_def sample_deletion_def removed_elsewhere_def
      store_defs readTombstone_def tombstone_of_def first_transcript_source)
    (simp_all add: first_revision_eq empty_catalog_def dir_exists_def dir_remove_def)

theorem changed_file_is_a_new_revision_witness:
  "\<exists>c'. processFile (sample_turn ''y'' delete_first) first_revision = (FileProcessed, c')
     \<and> readTombstone ''f'' c' \<noteq> None \<and> readTranscript ''drive_f_r2'' c' \<noteq> None"
proof -
  have id: "transcriptId ''f'' (le_observedRevision first_entry + 1) = ''drive_f_r2''"
    by (simp add: first_entry_def newEntry_def transcriptId_def digits_2 [unfolded numeral_2_eq_2])
  let ?t = "sample_turn ''y'' delete_first"
  have "processedDuplicate ''y'' ''a.md'' ''f'' (delete_first first_revision) = None"
    by (simp add: processedDuplicate_def readLedger_def delete_first_reads first_entry_def newEntry_def sample_file_def)
  then have given: "sf_externalFileId (ft_file ?t) = ''f''" "le_checksum first_entry = Some ''x''"
    "''x'' \<noteq> kv_sha (ft_env ?t) ''y''" "ft_fetch ?t = Fetched ''y''"
    "ft_while_fetching ?t first_revision = delete_first first_revision"
    "\<And>x. ft_while_converting ?t x = x" "\<And>x. ft_while_mining ?t x = x"
    "processedDuplicate (kv_sha (ft_env ?t) ''y'') (sf_fileName (ft_file ?t)) ''f'' (delete_first first_revision) = None"
    "isSupportedFileName (conversionNameOf (ft_file ?t))"
    "kv_convert (ft_env ?t) (conversionNameOf (ft_file ?t)) ''y'' = Inr ''y''" "\<And>r. consumers (ft_env ?t) r = None"
    "\<not> dir_exists (transcriptId ''f'' (le_observedRevision first_entry + 1)) (kc_transcripts (delete_first first_revision))"
    using supported_sample
    by (simp_all add: sample_turn_def sample_file_def sample_catalog_env_def first_entry_def newEntry_def
        conversionNameOf_def consumers_def dir_exists_def delete_first_reads)
  note turn = changed_file_is_a_new_revision [OF first_revision_reads(1) given(1) first_revision_reads(2) given(2-12)]
  obtain c' where c': "processFile ?t first_revision = (FileProcessed, c')"
    using turn [THEN conjunct1] by (metis prod.collapse)
  with turn [THEN conjunct2, THEN conjunct1] turn [THEN conjunct2, THEN conjunct2, THEN conjunct2] id delete_first_reads(3) show ?thesis by auto
qed

subsection \<open>Deletion\<close>

text \<open>C16: A deleted source stays out: while the tombstone of a file stands, a pass that nothing else interferes with leaves
  the tombstone, registers no Transcript of that file and changes the artifact of none.\<close>

theorem tombstone_keeps_the_source_out:
  assumes "catalog_ok c" "quiet_pass pt" "readTombstone f c = Some t"
  shows "(readTombstone f (snd (processAvailable pt c)) = Some t)
    \<and> (readTranscript k (snd (processAvailable pt c)) = Some r \<longrightarrow> sr_externalFileId (tr_source r) = f \<longrightarrow>
      (\<exists>old. readTranscript k c = Some old \<and> artifact r = artifact old))"
proof (intro conjI)
  have "blocked f c c" by (auto simp: blocked_def nothing_new_of_def)
  from blocked.keeps_pass [OF this assms(1,2)] assms(3)
  have "nothing_new_of f c (snd (processAvailable pt c))" by (simp add: blocked_def)
  with assms(3) show "readTombstone f (snd (processAvailable pt c)) = Some t"
    and "readTranscript k (snd (processAvailable pt c)) = Some r \<longrightarrow> sr_externalFileId (tr_source r) = f \<longrightarrow>
      (\<exists>old. readTranscript k c = Some old \<and> artifact r = artifact old)"
    by (auto simp: nothing_new_of_def)
qed

lemma delete_first_ok: "catalog_ok (delete_first first_revision)"
  unfolding delete_first_def by (rule catalog_writes_ok [OF deletion_writes first_revision_step])

theorem tombstone_keeps_the_source_out_witness:
  "\<exists>t. readTombstone ''f'' (snd (processAvailable (sample_pass [sample_turn ''y'' (\<lambda>c. c)]) (delete_first first_revision))) = Some t"
proof -
  obtain t where t: "readTombstone ''f'' (delete_first first_revision) = Some t" using delete_first_reads(3) by auto
  from tombstone_keeps_the_source_out [OF delete_first_ok sample_quiet(2) t, THEN conjunct1, of "[sample_turn ''y'' (\<lambda>c. c)]"]
  show ?thesis by (simp add: sample_quiet)
qed

text \<open>C29: Deletion is tombstone-first: once it is confirmed for a Transcript that is there, the tombstone of its source stands
  wherever the cascade is interrupted.  When it answers, the Transcript is gone and the receipt it answers is the one
  kept, with one record removed and no operation at a provider; when it is interrupted, the Transcript is still there,
  and sending the deletion again once the other stores answer completes it.  When it is refused, nothing is written.\<close>

theorem deletion_is_tombstone_first:
  fixes env env' :: deletion_env
  assumes "readTranscript tid c = Some r" "deleteTranscriptRecord env tid TRANSCRIPT_DELETE_CONFIRMATION c = (answer, c')"
  shows "(readTombstone (sr_externalFileId (tr_source r)) c' = Some (tombstone_of env r))
    \<and> (answer = Inr receipt \<longrightarrow> readTranscript tid c' = None \<and> getDeletionReceipt tid c' = Some receipt
      \<and> rc_transcriptRecords (dr_removed receipt) = 1 \<and> dr_remoteProviderOperations receipt = 0)
    \<and> (answer = Inl e \<longrightarrow> readTranscript tid c' = Some r \<and> (\<forall>removed. removed_elsewhere env' = Inr removed \<longrightarrow>
      fst (deleteTranscriptRecord env' tid TRANSCRIPT_DELETE_CONFIRMATION c') = Inr (receipt_of env' tid r removed)))
    \<and> (deleteTranscriptRecord env tid confirmation c = (Inl (Refused refusal), c'') \<longrightarrow> c'' = c)"
proof (intro conjI)
  have answer: "(answer, c') = (case removed_elsewhere env of Inl e \<Rightarrow> (Inl (Interrupted e), deletion_begun env tid r c)
     | Inr n \<Rightarrow> (Inr (receipt_of env tid r n), saveDeletionReceipt (receipt_of env tid r n)
         (snd (deleteTranscript tid (deletion_begun env tid r c)))))"
    using assms by (simp add: deletion_run)
  show "readTombstone (sr_externalFileId (tr_source r)) c' = Some (tombstone_of env r)"
    using answer by (auto simp: deletion_begun_reads deleted_reads split: sum.splits)
  show "answer = Inr receipt \<longrightarrow> readTranscript tid c' = None \<and> getDeletionReceipt tid c' = Some receipt
      \<and> rc_transcriptRecords (dr_removed receipt) = 1 \<and> dr_remoteProviderOperations receipt = 0"
    using answer by (auto simp: deleted_reads receipt_of_def split: sum.splits)
  show "answer = Inl e \<longrightarrow> readTranscript tid c' = Some r \<and> (\<forall>removed. removed_elsewhere env' = Inr removed \<longrightarrow>
      fst (deleteTranscriptRecord env' tid TRANSCRIPT_DELETE_CONFIRMATION c') = Inr (receipt_of env' tid r removed))"
    using answer assms(1) by (auto simp: deletion_begun_reads deletion_run split: sum.splits)
  show "deleteTranscriptRecord env tid confirmation c = (Inl (Refused refusal), c'') \<longrightarrow> c'' = c"
    by (cases "confirmation = TRANSCRIPT_DELETE_CONFIRMATION")
      (auto simp: deletion_run [OF assms(1)] dest: deletion_unconfirmed [of _ env tid c] split: sum.splits)
qed

theorem deletion_is_tombstone_first_witness:
  "readTombstone ''f'' (delete_first first_revision) = Some (tombstone_of sample_deletion first_transcript)"
  using deletion_is_tombstone_first [OF first_revision_reads(3), THEN conjunct1, of sample_deletion] first_transcript_source
  by (metis delete_first_def prod.collapse)

subsection \<open>What the code does instead of what it says\<close>

text \<open>Re-permission after a later revision was deleted loses the new text: a file without entries of the ledger is read
  as revision one, and when the Transcript of revision one is still there, it is kept with its old text while the
  ledger records the new checksum as processed into it, so that no later pass reads the file again.\<close>

theorem restored_file_keeps_the_old_text:
  assumes "readTombstone f c = None" "sf_externalFileId (ft_file t) = f" "latestEntry f c = None"
    and "readTranscript (transcriptId f 1) c = Some r" "sr_checksum (tr_source r) \<noteq> kv_sha (ft_env t) bytes"
    and "quiet t" "ft_fetch t = Fetched bytes" "ledger_keyed c"
    and "processedDuplicate (kv_sha (ft_env t) bytes) (sf_fileName (ft_file t)) f c = None"
      "isSupportedFileName (conversionNameOf (ft_file t))"
      "kv_convert (ft_env t) (conversionNameOf (ft_file t)) bytes = Inr x" "\<And>r. consumers (ft_env t) r = None"
  shows "fst (processFile t c) = FileProcessed"
    and "readTranscript (transcriptId f 1) (snd (processFile t c)) = Some r"
    and "\<exists>e. latestEntry f (snd (processFile t c)) = Some e \<and> le_state e = Processed
      \<and> le_checksum e = Some (kv_sha (ft_env t) bytes) \<and> le_transcriptId e = Some (transcriptId f 1)"
proof -
  let ?cs = "kv_sha (ft_env t) bytes"
  have "process_bytes t bytes None c = (FileProcessed, registered t ?cs None x c)"
    by (rule process_bytes_registers) (use assms in simp_all)
  with assms have turn: "processFile t c = (FileProcessed, registered t ?cs None x c)"
    by (simp add: processFile_def Let_def quietD)
  then show "fst (processFile t c) = FileProcessed" by simp
  have rev: "revision_of ?cs None = 1" by (simp add: revision_of_def)
  have "dir_exists (transcriptId f 1) (kc_transcripts c)"
    using assms(4) by (auto simp: readTranscript_def intro: dir_read_exists)
  then have "saveTranscript (transcript_of t ?cs (pending_entry t ?cs None) x) d = d" if "kc_transcripts d = kc_transcripts c" for d
    using that assms(2) rev by (simp add: saveTranscript_def)
  moreover have "kc_transcripts (recordEntry e i d) = kc_transcripts d" for e i d
    by (simp add: recordEntry_def saveLedgerEntry_def)
  ultimately show "readTranscript (transcriptId f 1) (snd (processFile t c)) = Some r"
    using assms(4) by (simp add: turn registered_quiet [OF assms(6)])
  have "latestEntry f (registered t ?cs (latestEntry f c) x c)
      = Some (stamped (ft_env t) (processed_entry t ?cs (latestEntry f c)))"
    using latestEntry_registered [OF assms(8,6)] assms(2) by simp
  then show "\<exists>e. latestEntry f (snd (processFile t c)) = Some e \<and> le_state e = Processed
      \<and> le_checksum e = Some ?cs \<and> le_transcriptId e = Some (transcriptId f 1)"
    using assms(2,3) rev by (simp add: turn)
qed

text \<open>A Catalog with two revisions of the file, the second of which is deleted and its source restored.\<close>

definition second_transcript :: transcript_record where
  "second_transcript = transcript_of (sample_turn ''y'' (\<lambda>c. c)) ''y''
     (newEntry sample_catalog_env sample_file (Some ''y'') Pending None 2) ''y''"

definition two_revisions :: catalog_state where
  "two_revisions = first_revision\<lparr>kc_transcripts := [(''drive_f_r1'', Some first_transcript), (''drive_f_r2'', Some second_transcript)]\<rparr>"

definition restored_catalog :: catalog_state where
  "restored_catalog = snd (restoreProcessingPermission sample_deletion ''f''
     (snd (deleteTranscriptRecord sample_deletion ''drive_f_r2'' TRANSCRIPT_DELETE_CONFIRMATION two_revisions)))"

lemma second_transcript_source: "sr_externalFileId (tr_source second_transcript) = ''f''"
  by (simp add: second_transcript_def sample_turn_def sample_file_def)

lemma restored_reads:
  "readTombstone ''f'' restored_catalog = None" "readLedger restored_catalog = []"
  "readTranscript ''drive_f_r1'' restored_catalog = Some first_transcript"
  by (simp_all add: restored_catalog_def deletion_state two_revisions_def first_revision_eq readTranscript_def dir_read_def
      removed_elsewhere_def sample_deletion_def tombstone_of_def second_transcript_source restoreProcessingPermission_def
      readTombstone_def store_defs empty_catalog_def dir_exists_def dir_remove_def readLedger_def first_entry_def
      newEntry_def sample_file_def Let_def)

theorem restored_file_keeps_the_old_text_witness:
  "\<exists>e. latestEntry ''f'' (snd (processFile (sample_turn ''y'' (\<lambda>c. c)) restored_catalog)) = Some e
     \<and> le_checksum e = Some ''y'' \<and> le_transcriptId e = Some ''drive_f_r1''
     \<and> readTranscript ''drive_f_r1'' (snd (processFile (sample_turn ''y'' (\<lambda>c. c)) restored_catalog)) = Some first_transcript"
proof -
  let ?t = "sample_turn ''y'' (\<lambda>c. c)"
  have id: "transcriptId ''f'' 1 = ''drive_f_r1''" by (simp add: transcriptId_def digits_1)
  have stored: "readTranscript (transcriptId ''f'' 1) restored_catalog = Some first_transcript"
    using restored_reads(3) by (simp only: id)
  have given: "sf_externalFileId (ft_file ?t) = ''f''" "latestEntry ''f'' restored_catalog = None"
    "sr_checksum (tr_source first_transcript) \<noteq> kv_sha (ft_env ?t) ''y''" "quiet ?t" "ft_fetch ?t = Fetched ''y''"
    "ledger_keyed restored_catalog"
    "processedDuplicate (kv_sha (ft_env ?t) ''y'') (sf_fileName (ft_file ?t)) ''f'' restored_catalog = None"
    "isSupportedFileName (conversionNameOf (ft_file ?t))"
    "kv_convert (ft_env ?t) (conversionNameOf (ft_file ?t)) ''y'' = Inr ''y''" "\<And>r. consumers (ft_env ?t) r = None"
    using supported_sample
    by (simp_all add: sample_turn_def sample_file_def sample_catalog_env_def conversionNameOf_def consumers_def quiet_def
        latestEntry_def restored_reads id ledger_keyed_def processedDuplicate_def first_transcript_def transcript_of_def Let_def)
  from restored_file_keeps_the_old_text(2,3) [OF restored_reads(1) given(1,2) stored given(3-10)] show ?thesis
    unfolding id by (auto simp: sample_turn_def sample_catalog_env_def)
qed

text \<open>The retirement of copies takes two revisions of one file for copies of each other: where the earlier text is the
  longer one, the Transcript of the new revision is removed, and the latest entry of the file is marked as a
  duplicate of its own earlier revision.\<close>

theorem newer_revision_is_retired:
  assumes c: "kc_transcripts c = [(tr_id r1, Some r1), (tr_id r2, Some r2)]" and ids: "tr_id r1 \<noteq> tr_id r2"
    and names: "recordingKey (sr_fileName (tr_source r1)) = Some k" "recordingKey (sr_fileName (tr_source r2)) = Some k"
    and texts: "length (tr_normalizedText r2) < length (tr_normalizedText r1)"
    and ledger: "ledger_keyed c" "latestEntry (sr_externalFileId (tr_source r2)) c = Some e"
  shows "readTranscript (tr_id r2) (retireDuplicateRecords env c) = None"
    and "readTranscript (tr_id r1) (retireDuplicateRecords env c) = Some r1"
    and "\<exists>e'. latestEntry (sr_externalFileId (tr_source r2)) (retireDuplicateRecords env c) = Some e'
      \<and> le_observedRevision e' = le_observedRevision e \<and> le_state e' = Skipped \<and> le_reason e' = Some DUPLICATE_REASON
      \<and> le_transcriptId e' = Some (tr_id r1)"
proof -
  let ?c1 = "snd (deleteTranscript (tr_id r2) c)"
  let ?e = "e\<lparr>le_state := Skipped, le_reason := Some DUPLICATE_REASON, le_transcriptId := Some (tr_id r1)\<rparr>"
  have "listTranscripts c = [r1, r2]" by (simp add: listTranscripts_def c)
  moreover have "js_sort (richer (kv_collate env)) [r1, r2] = [r1, r2]" using texts by (simp add: richer_def Let_def)
  moreover have "latestEntry (sr_externalFileId (tr_source r2)) ?c1 = Some e"
    using ledger(2) by (simp add: latestEntry_def readLedger_def deleteTranscript_def)
  ultimately have run: "retireDuplicateRecords env c = recordEntry env ?e ?c1"
    using names by (simp add: retireDuplicateRecords_def recording_groups_def retire_def Let_def)
  show "readTranscript (tr_id r2) (retireDuplicateRecords env c) = None"
    by (simp add: run readTranscript_delete)
  show "readTranscript (tr_id r1) (retireDuplicateRecords env c) = Some r1"
    using ids by (simp add: run readTranscript_delete) (simp add: readTranscript_def c dir_read_def)
  have same: "readLedger ?c1 = readLedger c" by (simp add: readLedger_def deleteTranscript_def)
  have "ledger_keyed ?c1" using ledger(1) by (simp add: ledger_keyed_def same)
  from latestEntry_record [OF this, of ?e env] latestEntry_SomeD [OF ledger(2)]
  show "\<exists>e'. latestEntry (sr_externalFileId (tr_source r2)) (retireDuplicateRecords env c) = Some e'
      \<and> le_observedRevision e' = le_observedRevision e \<and> le_state e' = Skipped \<and> le_reason e' = Some DUPLICATE_REASON
      \<and> le_transcriptId e' = Some (tr_id r1)"
    by (simp add: run same)
qed

definition revised_catalog :: catalog_state where
  "revised_catalog = first_revision\<lparr>kc_transcripts :=
     [(''drive_f_r1'', Some (first_transcript\<lparr>tr_normalizedText := ''xx''\<rparr>)), (''drive_f_r2'', Some second_transcript)]\<rparr>"

lemma sample_recording: "recordingKey ''a.md'' = Some ''a|undated''"
  by code_simp

theorem newer_revision_is_retired_witness:
  "readTranscript ''drive_f_r2'' (retireDuplicateRecords sample_catalog_env revised_catalog) = None"
proof -
  have r: "tr_id (first_transcript\<lparr>tr_normalizedText := ''xx''\<rparr>) = ''drive_f_r1''" "tr_id second_transcript = ''drive_f_r2''"
    "sr_fileName (tr_source first_transcript) = ''a.md''"
    "sr_fileName (tr_source second_transcript) = ''a.md''" "tr_normalizedText second_transcript = ''y''"
    by (simp_all add: first_transcript_def second_transcript_def transcript_of_def sample_turn_def sample_file_def
        newEntry_def transcriptId_def digits_1 digits_2 Let_def)
  have l: "ledger_keyed revised_catalog" "latestEntry ''f'' revised_catalog = Some first_entry"
    by (simp_all add: ledger_keyed_def readLedger_def revised_catalog_def first_revision_eq latestEntry_def
        first_entry_def newEntry_def sample_file_def)
  have t: "kc_transcripts revised_catalog = [(tr_id (first_transcript\<lparr>tr_normalizedText := ''xx''\<rparr>),
      Some (first_transcript\<lparr>tr_normalizedText := ''xx''\<rparr>)), (tr_id second_transcript, Some second_transcript)]"
    by (simp add: r revised_catalog_def)
  show ?thesis
    using newer_revision_is_retired(1) [OF t _ _ _ _ l(1), of "''a|undated''" first_entry sample_catalog_env] l(2)
    by (simp add: r sample_recording second_transcript_source)
qed

subsection \<open>What a file name says\<close>

text \<open>C40: The facts recovered from a file name have their type: a date is four, two and two digits with dashes between, and a
  timestamp is such a date with an hour and a minute of two digits each, in UTC.\<close>

theorem file_name_facts_are_well_formed:
  shows "(meetingDateFromFileName fileName = Some d \<longrightarrow> date_fields d \<noteq> None)
    \<and> (fm_timestamp (meetingFileNameMeta fileName) = Some t \<longrightarrow>
      (\<exists>date h m. t = date @ ''T'' @ h @ '':'' @ m @ '':00.000Z'' \<and> date_fields date \<noteq> None
        \<and> length h = 2 \<and> list_all is_digit h \<and> length m = 2 \<and> list_all is_digit m))"
  using file_name_date file_name_stamp unfolding utc_stamp_def two_digit_text_def by blast+

theorem file_name_facts_are_well_formed_witness:
  "date_fields ''2026-06-18'' \<noteq> None"
  by (rule file_name_facts_are_well_formed [of "''2026-06-18T13-''", THEN conjunct1, THEN mp]) code_simp

end
