(* ===== verification/MeetingStore.thy ===== *)
theory MeetingStore
  imports TranscriptTypes ContentProjects
begin

section \<open>The Workspace's Meetings\<close>

text \<open>
  \<^verbatim>\<open>apps/server/src/meetings/store.ts\<close>.  The state is the two files of the class: the list of Meetings, in which an
  entry that is not a Meeting (\<open>None\<close>) is dropped by the next read and so by the next write, and the mark that the
  history of the Calendar was read.  \<open>Date.parse\<close> is an argument: the milliseconds of an instant, or nothing.
\<close>

record history_mark =
  hm_collectedAt :: string
  hm_from :: string

record meetings_state =
  ms_meetings :: "meeting option list json_file"
  ms_history :: "history_mark json_file"

record calendar_input =
  ci_occurrenceKey :: string
  ci_calendarEventId :: string
  ci_occurrenceId :: string
  ci_title :: string
  ci_startAt :: string
  ci_endAt :: string
  ci_timeZone :: "string option"
  ci_participants :: "participant list"
  ci_cancelled :: bool
  ci_ineligibleReason :: "ineligibility option"

record transcript_input =
  ti_transcriptId :: string
  ti_title :: string
  ti_speakers :: "string list"
  ti_modifiedAt :: "string option"
  ti_meetingDate :: "string option"
  ti_nameTimestamp :: "string option"

definition readMeetings :: "meetings_state \<Rightarrow> meeting list" where
  "readMeetings m = (case read_file (ms_meetings m) of None \<Rightarrow> [] | Some es \<Rightarrow> List.map_filter id es)"

definition writeMeetings :: "meeting list \<Rightarrow> meetings_state \<Rightarrow> meetings_state" where
  "writeMeetings ms m = m\<lparr>ms_meetings := Json (map Some ms)\<rparr>"

text \<open>Chronological order; a start that is not a date sorts last.\<close>

definition compareByStart :: "(string \<Rightarrow> int option) \<Rightarrow> meeting \<Rightarrow> meeting \<Rightarrow> int" where
  "compareByStart parse a b = (case (parse (mt_startAt a), parse (mt_startAt b)) of
     (None, None) \<Rightarrow> 0 | (None, Some _) \<Rightarrow> 1 | (Some _, None) \<Rightarrow> -1 | (Some l, Some r) \<Rightarrow> l - r)"

definition listMeetings :: "(string \<Rightarrow> int option) \<Rightarrow> meetings_state \<Rightarrow> meeting list" where
  "listMeetings parse m = js_sort (compareByStart parse) (readMeetings m)"

definition indexMeetings :: "(string \<Rightarrow> int option) \<Rightarrow> meetings_state \<Rightarrow> meeting list \<times> string option" where
  "indexMeetings parse m = (let ms = listMeetings parse m in
     (ms, case ms of [] \<Rightarrow> None | first # _ \<Rightarrow> Some (mt_startAt first)))"

definition getMeeting :: "string \<Rightarrow> meetings_state \<Rightarrow> meeting option" where
  "getMeeting mid m = find_by mt_id mid (readMeetings m)"

definition findByOccurrenceKey :: "string \<Rightarrow> meetings_state \<Rightarrow> meeting option" where
  "findByOccurrenceKey key m = find_by mt_occurrenceKey (Some key) (readMeetings m)"

definition historyMark :: "meetings_state \<Rightarrow> history_mark option" where
  "historyMark m = read_file (ms_history m)"

definition writeHistoryMark :: "history_mark \<Rightarrow> meetings_state \<Rightarrow> meetings_state" where
  "writeHistoryMark mark m = m\<lparr>ms_history := Json mark\<rparr>"

definition newMeetingId :: "string \<Rightarrow> string \<Rightarrow> string" where
  "newMeetingId at hex = ''meeting_'' @ stamp_of at @ ''_'' @ hex"

definition calendar_meeting :: "(nat \<Rightarrow> string) \<Rightarrow> string \<Rightarrow> calendar_input \<Rightarrow> meeting option \<Rightarrow> meeting" where
  "calendar_meeting at hex input existing = \<lparr>
     mt_id = (case existing of Some e \<Rightarrow> mt_id e | None \<Rightarrow> newMeetingId (at 1) hex),
     mt_occurrenceKey = Some (ci_occurrenceKey input), mt_calendarEventId = Some (ci_calendarEventId input),
     mt_occurrenceId = Some (ci_occurrenceId input), mt_title = ci_title input, mt_startAt = ci_startAt input,
     mt_endAt = ci_endAt input, mt_timeZone = ci_timeZone input, mt_dateOnly = False,
     mt_participants = ci_participants input, mt_cancelled = ci_cancelled input,
     mt_ineligibleReason = ci_ineligibleReason input,
     mt_createdAt = (case existing of Some e \<Rightarrow> mt_createdAt e | None \<Rightarrow> at 0), mt_updatedAt = at 0\<rparr>"

definition upsertFromCalendar ::
  "(nat \<Rightarrow> string) \<Rightarrow> string \<Rightarrow> calendar_input \<Rightarrow> meetings_state \<Rightarrow> meeting \<times> meetings_state" where
  "upsertFromCalendar at hex input m =
     (let meetings = readMeetings m;
          existing = find_by mt_occurrenceKey (Some (ci_occurrenceKey input)) meetings;
          meeting = calendar_meeting at hex input existing
      in (meeting, writeMeetings (if existing \<noteq> None then replace_by mt_id (mt_id meeting) meeting meetings
            else meetings @ [meeting]) m))"

definition transcriptMeetingId :: "string \<Rightarrow> string" where
  "transcriptMeetingId transcriptId = ''meeting_transcript_'' @ transcriptId"

definition speaker_participant :: "string \<Rightarrow> participant" where
  "speaker_participant displayName = \<lparr>pt_email = [], pt_displayName = Some displayName,
     pt_responseStatus = NeedsAction, pt_organizer = False, pt_self = False\<rparr>"

fun participants_from :: "string list \<Rightarrow> string list \<Rightarrow> participant list" where
  "participants_from seen [] = []"
| "participants_from seen (s # ss) = (let displayName = trim s; key = toLowerCase displayName in
     if displayName = [] \<or> key \<in> set seen then participants_from seen ss
     else speaker_participant displayName # participants_from (key # seen) ss)"

definition participantsFromSpeakers :: "string list \<Rightarrow> participant list" where
  "participantsFromSpeakers speakers = participants_from [] speakers"

definition DATE_ONLY :: regex where
  "DATE_ONLY = seqs [Start False, date_re, End False]"

definition middayUtc :: "string option \<Rightarrow> string option" where
  "middayUtc date = (case date of None \<Rightarrow> None
     | Some d \<Rightarrow> if d = [] then None
         else if test DATE_ONLY d then Some (d @ ''T12:00:00.000Z'') else Some d)"

definition first_of :: "'a option \<Rightarrow> 'a \<Rightarrow> 'a" where
  "first_of v d = (case v of Some x \<Rightarrow> x | None \<Rightarrow> d)"

definition nonempty :: "string option \<Rightarrow> bool" where
  "nonempty v \<longleftrightarrow> (case v of None \<Rightarrow> False | Some s \<Rightarrow> s \<noteq> [])"

definition transcript_meeting :: "string \<Rightarrow> transcript_input \<Rightarrow> meeting" where
  "transcript_meeting at input =
     (let startAt = first_of (ti_nameTimestamp input)
            (first_of (middayUtc (ti_meetingDate input)) (first_of (ti_modifiedAt input) at));
          participants = participantsFromSpeakers (ti_speakers input)
      in \<lparr>mt_id = transcriptMeetingId (ti_transcriptId input), mt_occurrenceKey = None, mt_calendarEventId = None,
          mt_occurrenceId = None, mt_title = ti_title input, mt_startAt = startAt, mt_endAt = startAt,
          mt_timeZone = None,
          mt_dateOnly = (\<not> nonempty (ti_nameTimestamp input)
            \<and> \<not> (case ti_meetingDate input of None \<Rightarrow> False | Some d \<Rightarrow> includes_text ''T'' d)),
          mt_participants = participants, mt_cancelled = False,
          mt_ineligibleReason = (if length participants \<ge> 2 then None else Some NoOtherAttendee),
          mt_createdAt = at, mt_updatedAt = at\<rparr>)"

definition createFromTranscript :: "string \<Rightarrow> transcript_input \<Rightarrow> meetings_state \<Rightarrow> meeting \<times> meetings_state" where
  "createFromTranscript at input m =
     (case getMeeting (transcriptMeetingId (ti_transcriptId input)) m of
        Some existing \<Rightarrow> (existing, m)
      | None \<Rightarrow> (let meeting = transcript_meeting at input in
          (meeting, writeMeetings (readMeetings m @ [meeting]) m)))"

definition removeMeeting :: "string \<Rightarrow> meetings_state \<Rightarrow> bool \<times> meetings_state" where
  "removeMeeting mid m = (let meetings = readMeetings m; rest = filter (\<lambda>x. mt_id x \<noteq> mid) meetings in
     if length rest = length meetings then (False, m) else (True, writeMeetings rest m))"

subsection \<open>One Meeting per identity and per occurrence\<close>

lemma readMeetings_write [simp]: "readMeetings (writeMeetings ms m) = ms"
  by (simp add: readMeetings_def writeMeetings_def map_filter_def comp_def)

definition meetings_ok :: "meetings_state \<Rightarrow> bool" where
  "meetings_ok m \<longleftrightarrow> distinct (map mt_id (readMeetings m)) \<and> [] \<notin> mt_id ` set (readMeetings m)
     \<and> distinct (List.map_filter mt_occurrenceKey (readMeetings m))"

lemma set_map_filter: "set (List.map_filter f xs) = {y. \<exists>x\<in>set xs. f x = Some y}"
  by (force simp: List.map_filter_def)

text \<open>Two Meetings of a sound store that share an occurrence are the same.\<close>

lemma distinct_map_filterD:
  "distinct (List.map_filter f xs) \<Longrightarrow> x \<in> set xs \<Longrightarrow> y \<in> set xs \<Longrightarrow> f x = Some k \<Longrightarrow> f y = Some k \<Longrightarrow> x = y"
  by (induction xs) (auto simp: List.map_filter_simps set_map_filter split: option.splits)

lemma map_filter_replace_by:
  assumes "f n = f x" "distinct (map key xs)" "x \<in> set xs" "key n = key x"
  shows "List.map_filter f (replace_by key (key x) n xs) = List.map_filter f xs"
  using assms(2,3)
proof (induction xs)
  case (Cons y ys)
  have rest: "replace_by key (key x) n ys = ys" if "key x \<notin> key ` set ys"
    using that by (induction ys) auto
  show ?case
  proof (cases "y = x")
    case True
    with Cons.prems rest show ?thesis by (simp add: List.map_filter_simps assms(1))
  next
    case False
    with Cons have "key y \<noteq> key x" by (auto simp: rev_image_eqI)
    with Cons False show ?thesis by (auto simp: List.map_filter_simps split: option.splits)
  qed
qed simp

lemma meeting_id_not_empty [simp]: "newMeetingId at hex \<noteq> []" "transcriptMeetingId tid \<noteq> []"
  "[] \<noteq> newMeetingId at hex" "[] \<noteq> transcriptMeetingId tid"
  by (simp_all add: newMeetingId_def transcriptMeetingId_def)

lemma upsertFromCalendar_ok:
  assumes "meetings_ok m" and "mt_id (fst (upsertFromCalendar at hex input m)) \<in> mt_id ` set (readMeetings m) \<Longrightarrow>
      findByOccurrenceKey (ci_occurrenceKey input) m \<noteq> None"
  shows "meetings_ok (snd (upsertFromCalendar at hex input m))"
proof (cases "find_by mt_occurrenceKey (Some (ci_occurrenceKey input)) (readMeetings m)")
  case None
  let ?n = "calendar_meeting at hex input None"
  have "mt_id ?n \<notin> mt_id ` set (readMeetings m)"
    using assms(2) None by (auto simp: upsertFromCalendar_def findByOccurrenceKey_def Let_def)
  moreover have "ci_occurrenceKey input \<notin> set (List.map_filter mt_occurrenceKey (readMeetings m))"
    using None by (auto simp: find_by_None_iff set_map_filter image_iff)
  ultimately show ?thesis
    using assms(1) None
    by (simp add: upsertFromCalendar_def Let_def meetings_ok_def map_filter_def calendar_meeting_def image_iff)
next
  case (Some e)
  let ?n = "calendar_meeting at hex input (Some e)"
  have e: "e \<in> set (readMeetings m)" "mt_occurrenceKey e = Some (ci_occurrenceKey input)"
    using find_by_SomeD [OF Some] by auto
  have n: "mt_id ?n = mt_id e" "mt_occurrenceKey ?n = mt_occurrenceKey e"
    using e by (simp_all add: calendar_meeting_def)
  have "List.map_filter mt_occurrenceKey (replace_by mt_id (mt_id e) ?n (readMeetings m))
      = List.map_filter mt_occurrenceKey (readMeetings m)"
    using assms(1) n e by (intro map_filter_replace_by) (simp_all add: meetings_ok_def)
  moreover have "mt_id ` set (replace_by mt_id (mt_id e) ?n (readMeetings m)) = mt_id ` set (readMeetings m)"
    using map_key_replace_by [of mt_id ?n "mt_id e" "readMeetings m"] n(1) by (metis list.set_map)
  ultimately show ?thesis
    using assms(1) Some n by (simp add: upsertFromCalendar_def Let_def meetings_ok_def map_key_replace_by)
qed

lemma createFromTranscript_ok:
  "meetings_ok m \<Longrightarrow> meetings_ok (snd (createFromTranscript at input m))"
  by (auto simp: createFromTranscript_def meetings_ok_def Let_def getMeeting_def find_by_None_iff
      transcript_meeting_def map_filter_def split: option.splits)

lemma distinct_map_filter_filter: "distinct (List.map_filter f xs) \<Longrightarrow> distinct (List.map_filter f (filter p xs))"
  by (induction xs) (auto simp: List.map_filter_simps set_map_filter split: option.splits)

lemma removeMeeting_ok: "meetings_ok m \<Longrightarrow> meetings_ok (snd (removeMeeting mid m))"
  by (auto simp: removeMeeting_def meetings_ok_def Let_def distinct_map_filter distinct_map_filter_filter)

end
