(* ===== verification/MeetingMatching.thy ===== *)
theory MeetingMatching
  imports MeetingStore TranscriptCatalog
begin

section \<open>Which Meeting a Transcript belongs to\<close>

text \<open>
  \<^verbatim>\<open>apps/server/src/meetings/matching.ts\<close>, \<^verbatim>\<open>association.ts\<close>, \<^verbatim>\<open>timeAnchor.ts\<close> (the anchor) and \<^verbatim>\<open>title.ts\<close>: the
  signals that line a Transcript up with a Meeting, the decision they lead to, the Meetings a person is offered, and
  the name of a Meeting that only a Transcript attests.  \<open>Date.parse\<close>, the civil date of an instant in a zone and the
  collation are the environment, and the model that cleans a title is its answer.
\<close>

record meeting_env =
  me_parse :: "string \<Rightarrow> int option"
  me_civil :: "int \<Rightarrow> string \<Rightarrow> string option"
  me_collate :: "string \<Rightarrow> string \<Rightarrow> int"

definition MEETING_MATCH_TOLERANCE_MS :: int where
  "MEETING_MATCH_TOLERANCE_MS = 24 * 60 * 60 * 1000"

definition MEETING_NAME_TIME_TOLERANCE_MS :: int where
  "MEETING_NAME_TIME_TOLERANCE_MS = 2 * 60 * 60 * 1000"

definition NEAR_MATCH_WINDOW_MS :: int where
  "NEAR_MATCH_WINDOW_MS = 7 * 24 * 60 * 60 * 1000"

subsection \<open>Signals\<close>

definition rosterOf :: "meeting \<Rightarrow> roster_person list" where
  "rosterOf m = (if mt_occurrenceKey m = None then []
     else map (\<lambda>p. \<lparr>rp_displayName = pt_displayName p, rp_email = pt_email p\<rparr>)
       (filter (\<lambda>p. pt_email p \<noteq> []) (mt_participants m)))"

definition titleSignalsMatch :: "string \<Rightarrow> string \<Rightarrow> bool" where
  "titleSignalsMatch transcriptTitle meetingTitle =
     (let left = plain_words transcriptTitle; right = plain_words meetingTitle in
      left \<noteq> [] \<and> right \<noteq> []
      \<and> (left = right \<or> (min (length left) (length right) \<ge> 4 \<and> (includes_text right left \<or> includes_text left right))))"

definition speakersMatch :: "transcript_record \<Rightarrow> meeting \<Rightarrow> bool" where
  "speakersMatch r m =
     (let names = filter (\<lambda>n. n \<noteq> []) (map (\<lambda>p. trim (toLowerCase (or_blank (pt_displayName p)))) (mt_participants m))
      in list_ex (\<lambda>s. trim (toLowerCase s) \<in> set names) (tr_speakers r))"

definition withinTolerance :: "meeting_env \<Rightarrow> string \<Rightarrow> string \<Rightarrow> int \<Rightarrow> bool" where
  "withinTolerance env at startAt toleranceMs = (case (me_parse env at, me_parse env startAt) of
     (Some a, Some b) \<Rightarrow> \<bar>a - b\<bar> \<le> toleranceMs | _ \<Rightarrow> False)"

definition name_time_tolerance :: "file_name_meta \<Rightarrow> int" where
  "name_time_tolerance meta = (if fm_namesTime meta then MEETING_NAME_TIME_TOLERANCE_MS else MEETING_MATCH_TOLERANCE_MS)"

definition title_signal :: "file_name_meta \<Rightarrow> meeting \<Rightarrow> bool" where
  "title_signal meta m = (case fm_title meta of None \<Rightarrow> False | Some t \<Rightarrow> titleSignalsMatch t (mt_title m))"

definition time_signal :: "meeting_env \<Rightarrow> file_name_meta \<Rightarrow> meeting \<Rightarrow> bool" where
  "time_signal env meta m = (case fm_timestamp meta of None \<Rightarrow> False
     | Some t \<Rightarrow> withinTolerance env t (mt_startAt m) (name_time_tolerance meta))"

definition modified_signal :: "meeting_env \<Rightarrow> transcript_record \<Rightarrow> meeting \<Rightarrow> bool" where
  "modified_signal env r m = (case sr_modifiedAt (tr_source r) of None \<Rightarrow> False
     | Some t \<Rightarrow> withinTolerance env t (mt_startAt m) MEETING_MATCH_TOLERANCE_MS)"

definition signalsFor :: "meeting_env \<Rightarrow> transcript_record \<Rightarrow> meeting \<Rightarrow> file_name_meta \<Rightarrow> association_signal list" where
  "signalsFor env r m meta =
     (if title_signal meta m then [SawFileNameTitle] else [])
     @ (if time_signal env meta m then [SawFileNameTime] else [])
     @ (if speakersMatch r m then [SawRosterSpeaker] else [])
     @ (if modified_signal env r m then [SawFileModifiedTime] else [])"

subsection \<open>The match by evidence\<close>

definition file_meta :: "transcript_record \<Rightarrow> file_name_meta" where
  "file_meta r = meetingFileNameMeta (sr_fileName (tr_source r))"

definition qualifies :: "meeting_env \<Rightarrow> transcript_record \<Rightarrow> meeting \<Rightarrow> bool" where
  "qualifies env r m =
     (let meta = file_meta r in
      mt_occurrenceKey m \<noteq> None
      \<and> (if fm_timestamp meta \<noteq> None
         then if fm_title meta \<noteq> None \<and> fm_namesTime meta then time_signal env meta m \<and> title_signal meta m
              else time_signal env meta m \<and> (title_signal meta m \<or> speakersMatch r m \<or> modified_signal env r m)
         else title_signal meta m \<and> (speakersMatch r m \<or> modified_signal env r m)))"

definition findMatchingMeeting :: "meeting_env \<Rightarrow> transcript_record \<Rightarrow> meeting list \<Rightarrow> matched_meeting option" where
  "findMatchingMeeting env r meetings =
     (let meta = file_meta r in
      if fm_title meta = None \<and> fm_timestamp meta = None then None
      else case filter (qualifies env r) meetings of
        [m] \<Rightarrow> Some \<lparr>mm_id = mt_id m, mm_occurrenceKey = mt_occurrenceKey m,
          mm_calendarEventId = mt_calendarEventId m, mm_timeAnchor = None, mm_roster = rosterOf m\<rparr>
      | _ \<Rightarrow> None)"

definition transcriptWhen :: "transcript_record \<Rightarrow> string option" where
  "transcriptWhen r = (case fm_timestamp (file_meta r) of Some t \<Rightarrow> Some t
     | None \<Rightarrow> (case tr_meetingDate r of Some d \<Rightarrow> Some d | None \<Rightarrow> sr_modifiedAt (tr_source r)))"

definition out_of_window :: "meeting_env \<Rightarrow> transcript_record \<Rightarrow> meeting \<Rightarrow> bool" where
  "out_of_window env r m = (case transcriptWhen r of None \<Rightarrow> False
     | Some t \<Rightarrow> \<not> withinTolerance env t (mt_startAt m) NEAR_MATCH_WINDOW_MS)"

definition nearMatchScore :: "meeting_env \<Rightarrow> transcript_record \<Rightarrow> meeting \<Rightarrow> nat" where
  "nearMatchScore env r m =
     (if out_of_window env r m then 0
      else (if title_signal (file_meta r) m then 3 else 0) + (if speakersMatch r m then 2 else 0)
        + (if modified_signal env r m then 1 else 0))"

definition nearer :: "meeting_env \<Rightarrow> meeting \<times> nat \<Rightarrow> meeting \<times> nat \<Rightarrow> int" where
  "nearer env a b = (let d = int (snd b) - int (snd a) in
     if d \<noteq> 0 then d else me_collate env (mt_startAt (fst a)) (mt_startAt (fst b)))"

definition findNearMatches :: "meeting_env \<Rightarrow> transcript_record \<Rightarrow> meeting list \<Rightarrow> meeting list" where
  "findNearMatches env r meetings =
     map fst (take 5 (js_sort (nearer env)
       (filter (\<lambda>c. snd c > 0)
         (map (\<lambda>m. (m, nearMatchScore env r m))
           (filter (\<lambda>m. mt_occurrenceKey m \<noteq> None) (filter (\<lambda>m. Some (mt_id m) \<noteq> tr_meetingId r) meetings))))))"

subsection \<open>The day of a Meeting\<close>

definition meetingTimeAnchor :: "meeting_env \<Rightarrow> meeting \<Rightarrow> time_anchor option" where
  "meetingTimeAnchor env m =
     (if mt_occurrenceKey m = None then None
      else case mt_timeZone m of None \<Rightarrow> None
        | Some timeZone \<Rightarrow> if timeZone = [] then None
            else (case me_parse env (mt_startAt m) of None \<Rightarrow> None
              | Some startedAt \<Rightarrow> (case me_civil env startedAt timeZone of None \<Rightarrow> None
                  | Some date \<Rightarrow> Some \<lparr>ta_date = date, ta_timeZone = timeZone\<rparr>)))"

subsection \<open>The decision\<close>

datatype association_decision =
    Attach matched_meeting association
  | Review association
  | Settled association

text \<open>Reading the basis of an association that was never recorded throws a \<open>TypeError\<close>.\<close>

datatype join_error =
    MeetingNotFound | MergeSourceHasOccurrence | TargetOccurrenceKeyRequired | TargetMeetingNotFound
  | UnknownTranscript | TypeError | AttachFailed string

definition candidate_signals ::
  "meeting_env \<Rightarrow> transcript_record \<Rightarrow> meeting list \<Rightarrow> string list \<times> association_signal list" where
  "candidate_signals env r meetings = foldl (\<lambda>(ids, signals) m.
     if mt_occurrenceKey m = None then (ids, signals)
     else let observed = signalsFor env r m (file_meta r) in
       if observed = [] then (ids, signals)
       else (ids @ [mt_id m], foldl (\<lambda>ss s. if s \<in> set ss then ss else ss @ [s]) signals observed)) ([], []) meetings"

definition on_calendar :: "transcript_record \<Rightarrow> meeting list \<Rightarrow> bool" where
  "on_calendar r meetings \<longleftrightarrow> (case tr_meetingId r of None \<Rightarrow> False
     | Some mid \<Rightarrow> (case find_by mt_id mid meetings of None \<Rightarrow> False | Some m \<Rightarrow> mt_occurrenceKey m \<noteq> None))"

definition legacy_association :: "transcript_record \<Rightarrow> association" where
  "legacy_association r = \<lparr>as_basis = LegacyUnknown, as_signals = [], as_candidateMeetingIds = [],
     as_recordedAt = tr_ingestedAt r\<rparr>"

definition trusted_meeting :: "transcript_record \<Rightarrow> meeting list \<Rightarrow> meeting option" where
  "trusted_meeting r meetings = (case tr_occurrence r of None \<Rightarrow> None
     | Some oc \<Rightarrow> find_by mt_occurrenceKey (Some (oc_occurrenceKey oc)) meetings)"

definition matched_calendar :: "meeting_env \<Rightarrow> meeting \<Rightarrow> matched_meeting" where
  "matched_calendar env m = \<lparr>mm_id = mt_id m, mm_occurrenceKey = mt_occurrenceKey m,
     mm_calendarEventId = mt_calendarEventId m, mm_timeAnchor = Some (meetingTimeAnchor env m), mm_roster = rosterOf m\<rparr>"

definition fresh_decision ::
  "meeting_env \<Rightarrow> transcript_record \<Rightarrow> meeting list \<Rightarrow> string \<Rightarrow> association_decision" where
  "fresh_decision env r meetings now =
     (case candidate_signals env r meetings of (ids, signals) \<Rightarrow>
      case trusted_meeting r meetings of
        Some m \<Rightarrow> Attach (matched_calendar env m)
          \<lparr>as_basis = TrustedOccurrence, as_signals = SawTrustedOccurrence # signals, as_candidateMeetingIds = ids,
           as_recordedAt = now\<rparr>
      | None \<Rightarrow> Review \<lparr>as_basis = TranscriptOwned, as_signals = signals, as_candidateMeetingIds = ids,
           as_recordedAt = now\<rparr>)"

definition decideAssociation ::
  "meeting_env \<Rightarrow> transcript_record \<Rightarrow> meeting list \<Rightarrow> string \<Rightarrow> join_error + association_decision" where
  "decideAssociation env r meetings now =
     (if on_calendar r meetings
      then case tr_association r of
          NeverRecorded \<Rightarrow> Inl TypeError
        | NullAssociation \<Rightarrow> Inr (Settled (legacy_association r))
        | Associated placed \<Rightarrow> if as_basis placed \<noteq> TranscriptOwned then Inr (Settled placed)
            else Inr (fresh_decision env r meetings now)
      else Inr (fresh_decision env r meetings now))"

subsection \<open>Titles\<close>

definition MARKDOWN_H1 :: regex where
  "MARKDOWN_H1 = seqs [Start True, Many True blank, lit ''#'', some blank,
     Group 1 (Seq any_char (Many False any_char)), Many True blank, End True]"

definition NON_TITLE_HEADING :: regex where
  "NON_TITLE_HEADING = seqs [Start False, alts [lit_i ''transcript'', lit_i ''summary'', lit_i ''notes'',
     lit_i ''meeting notes'', lit_i ''recording''], End False]"

definition HEADING_SCAN_CHARS :: nat where "HEADING_SCAN_CHARS = 400"

definition MAX_TITLE_LENGTH :: nat where "MAX_TITLE_LENGTH = 120"

definition ARTIFACT_WORD_TAIL :: regex where
  "ARTIFACT_WORD_TAIL = seqs [OneOf (\<lambda>c. is_space c \<or> c = CHR ''_'' \<or> c = CHR ''-''),
     alts [Seq (lit_i ''transcript'') (opt (lit_i ''s'')), lit_i ''summary'', lit_i ''summaries'',
       Seq (lit_i ''note'') (opt (lit_i ''s'')), Seq (lit_i ''recording'') (opt (lit_i ''s'')),
       lit_i ''audio'', lit_i ''video'', lit_i ''minutes''], End False]"

definition FILE_TAIL :: regex where
  "FILE_TAIL = seqs [lit ''.'', alts [lit_i ''md'', lit_i ''json'', lit_i ''txt'', Seq (lit_i ''doc'') (opt (lit_i ''x'')),
     lit_i ''vtt'', lit_i ''srt''], End False]"

definition dash_or_blank :: regex where
  "dash_or_blank = OneOf (\<lambda>c. c = CHR ''-'' \<or> is_space c)"

definition SEPARATOR_NOISE :: regex where
  "SEPARATOR_NOISE = alts [some (one_of ''_''), seqs [blank, some blank], Seq (Start False) dash_or_blank,
     Seq dash_or_blank (End False)]"

definition headingTitleOf :: "transcript_record \<Rightarrow> string option" where
  "headingTitleOf r =
     (let title = (case exec MARKDOWN_H1 (take HEADING_SCAN_CHARS (tr_normalizedText r)) of
            None \<Rightarrow> [] | Some m \<Rightarrow> trim (or_blank (group m 1)))
      in if title = [] \<or> length title > MAX_TITLE_LENGTH then None
         else if test NON_TITLE_HEADING title then None
         else if list_ex is_letter title then Some title else None)"

definition deterministicTitleOf :: "transcript_record \<Rightarrow> string option" where
  "deterministicTitleOf r = (case headingTitleOf r of Some t \<Rightarrow> Some t | None \<Rightarrow> fm_title (file_meta r))"

definition needsCleaning :: "string option \<Rightarrow> bool" where
  "needsCleaning title = (case title of None \<Rightarrow> True
     | Some t \<Rightarrow> (let trimmed = trim t in
         trimmed = [] \<or> length trimmed > MAX_TITLE_LENGTH \<or> test FILE_TAIL trimmed
         \<or> test (times 5 digit) trimmed \<or> test SEPARATOR_NOISE trimmed \<or> test ARTIFACT_WORD_TAIL trimmed
         \<or> test NON_TITLE_HEADING trimmed))"

datatype title_answer = NoTitleModel | TitleModelFailed | TitleAnswer "string option"

definition resolveMeetingTitle :: "title_answer \<Rightarrow> transcript_record \<Rightarrow> string" where
  "resolveMeetingTitle answer r =
     (let deterministic = deterministicTitleOf r;
          fallback = (case deterministic of Some t \<Rightarrow> t | None \<Rightarrow> sr_fileName (tr_source r))
      in if \<not> needsCleaning deterministic then fallback
         else case answer of NoTitleModel \<Rightarrow> fallback | TitleModelFailed \<Rightarrow> fallback
           | TitleAnswer parsed \<Rightarrow> (let cleaned = (case parsed of None \<Rightarrow> [] | Some t \<Rightarrow> trim t) in
               if cleaned = [] \<or> length cleaned > MAX_TITLE_LENGTH then fallback else cleaned))"

end
