(* ===== verification/MeetingJoin.thy ===== *)
theory MeetingJoin
  imports MeetingMatching
begin

section \<open>Joining the Transcripts to the Meetings\<close>

text \<open>
  \<^verbatim>\<open>apps/server/src/meetings/join.ts\<close> over the Meetings and the Transcript Catalog, composed as \<^verbatim>\<open>composition/shell.ts\<close>
  composes them: the Transcripts are those the Catalog's store lists, and attaching one is the Catalog's
  \<open>attachMeeting\<close>.  Every method reads the Meetings and the Transcripts anew, but for the list of Meetings that one
  standing pass decides from, which it reads once and extends by the Meetings it creates.
\<close>

record join_state =
  jn_meetings :: meetings_state
  jn_catalog :: catalog_state

record join_env =
  jv_catalog :: catalog_env
  jv_meeting :: meeting_env
  jv_title :: "transcript_record \<Rightarrow> title_answer"
  jv_now :: "string \<Rightarrow> string"

type_synonym 'a join_cmd = "(join_state, join_error, 'a) cmd"

definition the_meeting :: "string \<Rightarrow> join_state \<Rightarrow> meeting option" where
  "the_meeting mid s = getMeeting mid (jn_meetings s)"

definition the_transcripts :: "join_state \<Rightarrow> transcript_record list" where
  "the_transcripts s = listTranscripts (jn_catalog s)"

definition attach :: "join_env \<Rightarrow> string \<Rightarrow> matched_meeting \<Rightarrow> association \<Rightarrow> unit join_cmd" where
  "attach env tid m a = (\<lambda>s. case attachMeeting (jv_catalog env) tid m a (jn_catalog s) of
     (Inl e, c) \<Rightarrow> (Inl (AttachFailed e), s\<lparr>jn_catalog := c\<rparr>)
   | (Inr _, c) \<Rightarrow> (Inr (), s\<lparr>jn_catalog := c\<rparr>))"

definition attachRecord :: "join_env \<Rightarrow> transcript_record \<Rightarrow> matched_meeting \<Rightarrow> association \<Rightarrow> bool join_cmd" where
  "attachRecord env r m a =
     (if tr_meetingId r = Some (mm_id m) then ret False
      else andThen (attach env (tr_id r) m a) (\<lambda>_. ret True))"

definition on_meetings :: "(meetings_state \<Rightarrow> 'a \<times> meetings_state) \<Rightarrow> 'a join_cmd" where
  "on_meetings f = (\<lambda>s. case f (jn_meetings s) of (x, m) \<Rightarrow> (Inr x, s\<lparr>jn_meetings := m\<rparr>))"

text \<open>A Transcript without an association is given the legacy one.\<close>

definition kept_association :: "transcript_record \<Rightarrow> association" where
  "kept_association r = (case tr_association r of Associated a \<Rightarrow> a | _ \<Rightarrow> legacy_association r)"

definition carryRosterAcross :: "join_env \<Rightarrow> transcript_record \<Rightarrow> meeting \<Rightarrow> unit join_cmd" where
  "carryRosterAcross env r placed =
     (if tr_roster r \<noteq> [] \<or> rosterOf placed = [] then ret ()
      else attach env (tr_id r) (matched_calendar (jv_meeting env) placed) (kept_association r))"

definition transcriptsForMeeting :: "string \<Rightarrow> join_state \<Rightarrow> transcript_record list" where
  "transcriptsForMeeting mid s = filter (\<lambda>r. tr_meetingId r = Some mid) (the_transcripts s)"

definition forgetEmptyShell :: "string \<Rightarrow> unit join_cmd" where
  "forgetEmptyShell mid = (\<lambda>s. case the_meeting mid s of
     None \<Rightarrow> (Inr (), s)
   | Some shell \<Rightarrow> if mt_occurrenceKey shell \<noteq> None \<or> transcriptsForMeeting mid s \<noteq> [] then (Inr (), s)
       else (Inr (), s\<lparr>jn_meetings := snd (removeMeeting mid (jn_meetings s))\<rparr>))"

text \<open>A Meeting just created is handed over without a time anchor, so the Transcript keeps its own.\<close>

definition matched_shell :: "meeting \<Rightarrow> matched_meeting" where
  "matched_shell m = \<lparr>mm_id = mt_id m, mm_occurrenceKey = mt_occurrenceKey m,
     mm_calendarEventId = mt_calendarEventId m, mm_timeAnchor = None, mm_roster = rosterOf m\<rparr>"

definition recordCandidates :: "join_env \<Rightarrow> transcript_record \<Rightarrow> meeting \<Rightarrow> association \<Rightarrow> unit join_cmd" where
  "recordCandidates env r placed a =
     (case tr_association r of
        NeverRecorded \<Rightarrow> throw TypeError
      | NullAssociation \<Rightarrow> attach env (tr_id r) (matched_calendar (jv_meeting env) placed) a
      | Associated now \<Rightarrow>
          if as_basis now = as_basis a
             \<and> join_text '','' (as_candidateMeetingIds now) = join_text '','' (as_candidateMeetingIds a)
             \<and> as_signals now = as_signals a
          then ret () else attach env (tr_id r) (matched_calendar (jv_meeting env) placed) a)"

definition created_input :: "join_env \<Rightarrow> transcript_record \<Rightarrow> transcript_input" where
  "created_input env r = \<lparr>ti_transcriptId = tr_id r, ti_title = resolveMeetingTitle (jv_title env r) r,
     ti_speakers = tr_speakers r, ti_modifiedAt = sr_modifiedAt (tr_source r), ti_meetingDate = tr_meetingDate r,
     ti_nameTimestamp = fm_timestamp (file_meta r)\<rparr>"

text \<open>
  The standing pass on one Transcript, with the Meetings it decides from: whether it linked it, and the Meetings the
  next one is decided from.
\<close>

definition place ::
  "join_env \<Rightarrow> meeting list \<Rightarrow> transcript_record \<Rightarrow> (bool \<times> meeting list) join_cmd" where
  "place env meetings r s =
     (let placed = (case tr_meetingId r of None \<Rightarrow> None | Some mid \<Rightarrow> if mid = [] then None else the_meeting mid s) in
      case placed of
        Some m \<Rightarrow>
          if mt_occurrenceKey m \<noteq> None
          then andThen (carryRosterAcross env r m) (\<lambda>_. ret (False, meetings)) s
          else (case decideAssociation (jv_meeting env) r meetings (jv_now env (tr_id r)) of
              Inl e \<Rightarrow> throw e s
            | Inr (Attach mm a) \<Rightarrow> andThen (attachRecord env r mm a) (\<lambda>_.
                andThen (forgetEmptyShell (mt_id m)) (\<lambda>_. ret (True, meetings))) s
            | Inr (Settled _) \<Rightarrow> ret (False, meetings) s
            | Inr (Review a) \<Rightarrow> andThen (recordCandidates env r m a) (\<lambda>_. ret (False, meetings)) s)
      | None \<Rightarrow> (case decideAssociation (jv_meeting env) r meetings (jv_now env (tr_id r)) of
              Inl e \<Rightarrow> throw e s
            | Inr (Attach mm a) \<Rightarrow> andThen (attachRecord env r mm a) (\<lambda>_. ret (True, meetings)) s
            | Inr (Settled _) \<Rightarrow> ret (False, meetings) s
            | Inr (Review a) \<Rightarrow>
                andThen (on_meetings (createFromTranscript (jv_now env (tr_id r)) (created_input env r))) (\<lambda>created.
                andThen (attachRecord env r (matched_shell created) a) (\<lambda>_. ret (True, meetings @ [created]))) s))"

fun place_all :: "join_env \<Rightarrow> meeting list \<Rightarrow> transcript_record list \<Rightarrow> nat join_cmd" where
  "place_all env meetings [] = ret 0"
| "place_all env meetings (r # rs) = andThen (place env meetings r) (\<lambda>(linked, meetings').
     andThen (place_all env meetings' rs) (\<lambda>n. ret ((if linked then 1 else 0) + n)))"

definition associateTranscripts :: "join_env \<Rightarrow> nat join_cmd" where
  "associateTranscripts env s =
     place_all env (listMeetings (me_parse (jv_meeting env)) (jn_meetings s)) (the_transcripts s) s"

subsection \<open>What a person does\<close>

definition attachTranscript :: "join_env \<Rightarrow> string \<Rightarrow> matched_meeting \<Rightarrow> bool join_cmd" where
  "attachTranscript env tid m s = (case find_by tr_id tid (the_transcripts s) of
     None \<Rightarrow> throw UnknownTranscript s
   | Some r \<Rightarrow> attachRecord env r m \<lparr>as_basis = OwnerConfirmed, as_signals = [SawOwnerConfirmed],
       as_candidateMeetingIds = [], as_recordedAt = jv_now env tid\<rparr> s)"

definition nearMatchesFor :: "join_env \<Rightarrow> string \<Rightarrow> join_state \<Rightarrow> join_error + meeting list" where
  "nearMatchesFor env mid s = (case the_meeting mid s of None \<Rightarrow> Inl MeetingNotFound
     | Some m \<Rightarrow> (case find (\<lambda>r. tr_meetingId r = Some mid) (the_transcripts s) of None \<Rightarrow> Inr []
         | Some r \<Rightarrow> Inr (findNearMatches (jv_meeting env) r
             (filter (\<lambda>x. mt_id x \<noteq> mt_id m) (listMeetings (me_parse (jv_meeting env)) (jn_meetings s))))))"

definition mergeTranscriptShell :: "join_env \<Rightarrow> string \<Rightarrow> string \<Rightarrow> meeting join_cmd" where
  "mergeTranscriptShell env sourceMeetingId targetOccurrenceKey s =
     (case the_meeting sourceMeetingId s of
        None \<Rightarrow> throw MeetingNotFound s
      | Some source \<Rightarrow>
          if mt_occurrenceKey source \<noteq> None then throw MergeSourceHasOccurrence s
          else if targetOccurrenceKey = [] then throw TargetOccurrenceKeyRequired s
          else case findByOccurrenceKey targetOccurrenceKey (jn_meetings s) of
              None \<Rightarrow> throw TargetMeetingNotFound s
            | Some target \<Rightarrow>
                andThen (forEach (\<lambda>r. attachTranscript env (tr_id r) (matched_calendar (jv_meeting env) target))
                  (transcriptsForMeeting (mt_id source) s)) (\<lambda>_.
                andThen (on_meetings (removeMeeting (mt_id source))) (\<lambda>_.
                query (\<lambda>s'. Inr (case the_meeting (mt_id target) s' of Some m \<Rightarrow> m | None \<Rightarrow> target)))) s)"

end
