(* ===== verification/MeetingFacts.thy ===== *)
theory MeetingFacts
  imports MeetingJoin CatalogFacts
begin

section \<open>The standing pass, one Transcript at a time\<close>

text \<open>
  What placing one Transcript does to the Meetings and to the Catalog, and when it does nothing: a Transcript is
  \<open>settled\<close> when it sits on a Calendar Meeting and holds its roster, or on a Meeting of its own with the candidates that
  the Calendar offers now.  Placing one that nothing interferes with settles it and unsettles no other.
\<close>

subsection \<open>The Calendar's part of the Meetings\<close>

definition calendars :: "meeting list \<Rightarrow> meeting list" where
  "calendars ms = filter (\<lambda>m. mt_occurrenceKey m \<noteq> None) ms"

interpretation by_start: comparator "compareByStart parse" for parse
  by unfold_locales (auto simp: compareByStart_def sgn_if split: option.splits)

lemma calendars_list: "calendars (listMeetings parse m) = js_sort (compareByStart parse) (calendars (readMeetings m))"
  by (simp add: calendars_def listMeetings_def by_start.filter_js_sort)

lemma find_by_filter: "(\<And>x. key x = k \<Longrightarrow> p x) \<Longrightarrow> find_by key k (filter p xs) = find_by key k xs"
  by (induction xs) auto

lemma trusted_calendars: "trusted_meeting r meetings = trusted_meeting r (calendars meetings)"
proof -
  have "find_by mt_occurrenceKey (Some k) (calendars meetings) = find_by mt_occurrenceKey (Some k) meetings" for k
    unfolding calendars_def by (rule find_by_filter) simp
  then show ?thesis by (simp add: trusted_meeting_def split: option.splits)
qed

lemma foldl_skip: "(\<And>a x. x \<in> set xs \<Longrightarrow> \<not> p x \<Longrightarrow> f a x = a) \<Longrightarrow> foldl f a (filter p xs) = foldl f a xs"
  by (induction xs arbitrary: a) auto

lemma candidates_calendars: "candidate_signals env r (calendars meetings) = candidate_signals env r meetings"
  unfolding candidate_signals_def calendars_def by (rule foldl_skip) (auto split: prod.splits)

lemma fresh_decision_calendars:
  assumes "calendars ms = calendars ms'"
  shows "fresh_decision env r ms now = fresh_decision env r ms' now"
proof -
  have "trusted_meeting r ms = trusted_meeting r ms'"
    using trusted_calendars [of r ms] trusted_calendars [of r ms'] assms by metis
  moreover have "candidate_signals env r ms = candidate_signals env r ms'"
    using candidates_calendars [of env r ms] candidates_calendars [of env r ms'] assms by metis
  ultimately show ?thesis by (simp add: fresh_decision_def)
qed

lemma trusted_SomeD:
  "trusted_meeting r meetings = Some m \<Longrightarrow> m \<in> set (calendars meetings) \<and>
    (\<exists>oc. tr_occurrence r = Some oc \<and> mt_occurrenceKey m = Some (oc_occurrenceKey oc))"
  using find_by_SomeD [of mt_occurrenceKey _ meetings m]
  by (fastforce simp: trusted_meeting_def calendars_def split: option.splits)

text \<open>What the candidates are read from, which an association does not change.\<close>

lemma candidates_attached:
  "candidate_signals env (attached mm a r) meetings = candidate_signals env r meetings"
proof -
  have signals: "signalsFor env (attached mm a r) m meta = signalsFor env r m meta" for m meta
    by (simp add: signalsFor_def speakersMatch_def modified_signal_def attached_def)
  have name: "file_meta (attached mm a r) = file_meta r" by (simp add: file_meta_def attached_def)
  show ?thesis unfolding candidate_signals_def signals name ..
qed

lemma trusted_attached:
  "mm_occurrenceKey mm = None \<Longrightarrow> trusted_meeting (attached mm a r) meetings = trusted_meeting r meetings"
  by (simp add: trusted_meeting_def attached_def)

subsection \<open>Settled Transcripts\<close>

definition review_of :: "meeting_env \<Rightarrow> transcript_record \<Rightarrow> meeting list \<Rightarrow> association \<Rightarrow> bool" where
  "review_of env r meetings a \<longleftrightarrow> as_basis a = TranscriptOwned
     \<and> as_candidateMeetingIds a = fst (candidate_signals env r meetings)
     \<and> as_signals a = snd (candidate_signals env r meetings)"

definition settled_on :: "meeting_env \<Rightarrow> meeting list \<Rightarrow> transcript_record \<Rightarrow> meeting \<Rightarrow> bool" where
  "settled_on env meetings r m \<longleftrightarrow>
     (if mt_occurrenceKey m \<noteq> None then tr_roster r \<noteq> [] \<or> rosterOf m = []
      else trusted_meeting r meetings = None \<and>
        (\<exists>a. tr_association r = Associated a \<and> as_basis a = TranscriptOwned
           \<and> join_text '','' (as_candidateMeetingIds a) = join_text '','' (fst (candidate_signals env r meetings))
           \<and> as_signals a = snd (candidate_signals env r meetings)))"

definition settled :: "meeting_env \<Rightarrow> meetings_state \<Rightarrow> transcript_record \<Rightarrow> bool" where
  "settled env m r \<longleftrightarrow> (\<exists>x. getMeeting (mt_id x) m = Some x \<and> tr_meetingId r = Some (mt_id x)
     \<and> settled_on env (calendars (listMeetings (me_parse env) m)) r x)"

text \<open>The identity of a Transcript's own Meeting is no Calendar Meeting's.\<close>

definition shells_apart :: "meetings_state \<Rightarrow> bool" where
  "shells_apart m \<longleftrightarrow> (\<forall>x\<in>set (readMeetings m). mt_occurrenceKey x \<noteq> None \<longrightarrow> (\<forall>t. mt_id x \<noteq> transcriptMeetingId t))"

text \<open>What holds of the Meetings and the Transcripts when a pass begins and after each Transcript of it.\<close>

definition pass_ready :: "meeting_env \<Rightarrow> meeting list \<Rightarrow> join_state \<Rightarrow> bool" where
  "pass_ready env meetings s \<longleftrightarrow> meetings_ok (jn_meetings s) \<and> shells_apart (jn_meetings s) \<and> transcripts_ok (jn_catalog s)
     \<and> calendars meetings = calendars (listMeetings (me_parse env) (jn_meetings s))
     \<and> (\<forall>k r. readTranscript k (jn_catalog s) = Some r \<longrightarrow>
          (\<forall>mid. tr_meetingId r = Some mid \<longrightarrow> the_meeting mid s \<noteq> None) \<and> tr_association r \<noteq> NeverRecorded)"

lemma getMeeting_mem: "meetings_ok m \<Longrightarrow> x \<in> set (readMeetings m) \<Longrightarrow> getMeeting (mt_id x) m = Some x"
  unfolding getMeeting_def meetings_ok_def by (blast intro: find_by_distinct)

lemma getMeeting_SomeD: "getMeeting mid m = Some x \<Longrightarrow> x \<in> set (readMeetings m) \<and> mt_id x = mid"
  unfolding getMeeting_def by (rule find_by_SomeD)

lemma calendars_mem: "x \<in> set (calendars (listMeetings parse m)) \<longleftrightarrow> x \<in> set (readMeetings m) \<and> mt_occurrenceKey x \<noteq> None"
  by (auto simp: calendars_def listMeetings_def)

lemma not_on_calendar:
  assumes "pass_ready env meetings s"
    and "\<And>mid x. tr_meetingId r = Some mid \<Longrightarrow> the_meeting mid s = Some x \<Longrightarrow> mt_occurrenceKey x = None"
  shows "\<not> on_calendar r meetings"
proof
  assume "on_calendar r meetings"
  then obtain mid x where mid: "tr_meetingId r = Some mid" and x: "find_by mt_id mid meetings = Some x" "mt_occurrenceKey x \<noteq> None"
    by (auto simp: on_calendar_def split: option.splits)
  from find_by_SomeD [OF x(1)] x(2) have "x \<in> set (calendars meetings)" "mt_id x = mid" by (auto simp: calendars_def)
  then have "x \<in> set (readMeetings (jn_meetings s))" using assms(1) by (auto simp: pass_ready_def calendars_mem)
  with assms(1) \<open>mt_id x = mid\<close> have "the_meeting mid s = Some x"
    using getMeeting_mem by (auto simp: pass_ready_def the_meeting_def)
  from assms(2) [OF mid this] x(2) show False by simp
qed

lemma decide_fresh:
  "\<not> on_calendar r meetings \<Longrightarrow> decideAssociation env r meetings now = Inr (fresh_decision env r meetings now)"
  by (simp add: decideAssociation_def)

lemma fresh_decision_cases:
  obtains m a where "trusted_meeting r meetings = Some m"
      "fresh_decision env r meetings now = Attach (matched_calendar env m) a"
  | a where "trusted_meeting r meetings = None" "fresh_decision env r meetings now = Review a"
      "review_of env r meetings a"
  by (cases "trusted_meeting r meetings"; cases "candidate_signals env r meetings")
    (auto simp: fresh_decision_def review_of_def)

text \<open>A settled Transcript is left as it is.\<close>

lemma place_settled:
  assumes ready: "pass_ready (jv_meeting env) meetings s" and r: "settled (jv_meeting env) (jn_meetings s) r"
  shows "place env meetings r s = (Inr (False, meetings), s)"
proof -
  from r obtain x where x: "getMeeting (mt_id x) (jn_meetings s) = Some x" "tr_meetingId r = Some (mt_id x)"
    "settled_on (jv_meeting env) (calendars (listMeetings (me_parse (jv_meeting env)) (jn_meetings s))) r x"
    by (auto simp: settled_def)
  have ne: "mt_id x \<noteq> []" using getMeeting_SomeD [OF x(1)] ready by (auto simp: pass_ready_def meetings_ok_def image_iff)
  have held: "the_meeting (mt_id x) s = Some x" using x(1) by (simp add: the_meeting_def)
  show ?thesis
  proof (cases "mt_occurrenceKey x = None")
    case False
    with x(3) have "tr_roster r \<noteq> [] \<or> rosterOf x = []" by (simp add: settled_on_def)
    then have "carryRosterAcross env r x = ret ()" by (simp add: carryRosterAcross_def)
    with False ne held x(2) show ?thesis by (simp add: place_def)
  next
    case True
    have "\<not> on_calendar r meetings"
      by (rule not_on_calendar [OF ready]) (use x(2) held True in auto)
    moreover have c: "calendars meetings = calendars (listMeetings (me_parse (jv_meeting env)) (jn_meetings s))"
      using ready by (simp add: pass_ready_def)
    moreover obtain a where a: "trusted_meeting r meetings = None" "tr_association r = Associated a"
      "as_basis a = TranscriptOwned"
      "join_text '','' (as_candidateMeetingIds a) = join_text '','' (fst (candidate_signals (jv_meeting env) r meetings))"
      "as_signals a = snd (candidate_signals (jv_meeting env) r meetings)"
      using x(3) True c trusted_calendars [of r meetings] candidates_calendars [of "jv_meeting env" r meetings]
      by (auto simp: settled_on_def)
    moreover obtain b where "fresh_decision (jv_meeting env) r meetings (jv_now env (tr_id r)) = Review b"
      "review_of (jv_meeting env) r meetings b"
      using a(1) by (rule_tac fresh_decision_cases [of r meetings "jv_meeting env" "jv_now env (tr_id r)"]) auto
    ultimately show ?thesis
      using True ne held x(2) by (simp add: place_def decide_fresh recordCandidates_def review_of_def)
  qed
qed

subsection \<open>Placing settles\<close>

lemma dir_write_same: "dir_read k d = Some v \<Longrightarrow> dir_write k v d = d"
  by (induction d) (auto simp: dir_read_def split: if_splits)

lemma updateTranscript_same: "readTranscript (tr_id r) c = Some r \<Longrightarrow> updateTranscript r c = c"
  by (simp add: updateTranscript_def readTranscript_def dir_write_same)

text \<open>
  The common part of every placement: one Transcript is rewritten, the Meetings change by Meetings of Transcripts only,
  and no other Transcript loses its Meeting.
\<close>

lemma settle_by:
  assumes ready: "pass_ready env meetings s" and r: "readTranscript (tr_id r) (jn_catalog s) = Some r"
    and r': "artifact r' = artifact r" "tr_association r' \<noteq> NeverRecorded" "settled env m r'"
    and m: "meetings_ok m" "calendars (listMeetings (me_parse env) m) = calendars (listMeetings (me_parse env) (jn_meetings s))"
      "calendars meetings' = calendars meetings"
    and meets: "\<forall>k x mid. readTranscript k (jn_catalog s) = Some x \<longrightarrow> k \<noteq> tr_id r \<longrightarrow> tr_meetingId x = Some mid \<longrightarrow>
      getMeeting mid m = getMeeting mid (jn_meetings s)"
  shows "pass_ready env meetings' (s\<lparr>jn_meetings := m, jn_catalog := updateTranscript r' (jn_catalog s)\<rparr>)"
    and "readTranscript k (jn_catalog s) = Some x \<Longrightarrow> k \<noteq> tr_id r \<Longrightarrow> settled env (jn_meetings s) x \<Longrightarrow> settled env m x"
proof -
  note others = meets [rule_format]
  let ?s = "s\<lparr>jn_meetings := m, jn_catalog := updateTranscript r' (jn_catalog s)\<rparr>"
  have ok: "transcripts_ok (jn_catalog s)" using ready by (simp add: pass_ready_def)
  then have "identified r" using r unfolding transcripts_ok_def by blast
  then have ok': "transcripts_ok (updateTranscript r' (jn_catalog s))"
    using identified_artifact [OF r'(1)] ok by (blast intro: transcripts_ok_update)
  have id: "tr_id r' = tr_id r" using r'(1) by (simp add: artifact_def)
  have "(\<forall>mid. tr_meetingId x = Some mid \<longrightarrow> the_meeting mid ?s \<noteq> None) \<and> tr_association x \<noteq> NeverRecorded"
    if x: "readTranscript k (updateTranscript r' (jn_catalog s)) = Some x" for k x
  proof (cases "k = tr_id r")
    case True
    with x id have "x = r'" by (simp add: readTranscript_update)
    with r'(2,3) show ?thesis by (auto simp: settled_def the_meeting_def)
  next
    case False
    with x id have "readTranscript k (jn_catalog s) = Some x" by (simp add: readTranscript_update)
    with others [OF this False] ready show ?thesis by (auto simp: pass_ready_def the_meeting_def)
  qed
  moreover have "shells_apart m" unfolding shells_apart_def
  proof (intro ballI impI)
    fix x assume "x \<in> set (readMeetings m)" "mt_occurrenceKey x \<noteq> None"
    then have "x \<in> set (calendars (listMeetings (me_parse env) (jn_meetings s)))"
      using m(2) calendars_mem [of x "me_parse env" m] by simp
    then have "x \<in> set (readMeetings (jn_meetings s))" "mt_occurrenceKey x \<noteq> None" by (auto simp: calendars_mem)
    with ready show "\<forall>t. mt_id x \<noteq> transcriptMeetingId t" unfolding pass_ready_def shells_apart_def by blast
  qed
  ultimately show "pass_ready env meetings' ?s" using ready ok' m by (simp add: pass_ready_def)
  assume x: "readTranscript k (jn_catalog s) = Some x" "k \<noteq> tr_id r" and "settled env (jn_meetings s) x"
  then obtain y where y: "getMeeting (mt_id y) (jn_meetings s) = Some y" "tr_meetingId x = Some (mt_id y)"
    "settled_on env (calendars (listMeetings (me_parse env) (jn_meetings s))) x y"
    unfolding settled_def by blast
  with others [OF x y(2)] m(2) have "getMeeting (mt_id y) m = Some y"
    "settled_on env (calendars (listMeetings (me_parse env) m)) x y" by simp_all
  with y(2) show "settled env m x" unfolding settled_def by blast
qed

lemma attach_run:
  assumes "readTranscript tid (jn_catalog s) = Some r" "\<And>x. consumers (jv_catalog env) x = None"
  shows "attach env tid mm a s = (Inr (), s\<lparr>jn_catalog := updateTranscript (attached mm a r) (jn_catalog s)\<rparr>)"
  using assms by (simp add: attach_def attachMeeting_def transcript_at_def storing_def consumed_def andThen_run Let_def)

lemma createFromTranscript_cases:
  obtains x where "getMeeting (transcriptMeetingId (ti_transcriptId input)) m = Some x" "createFromTranscript at input m = (x, m)"
  | "getMeeting (transcriptMeetingId (ti_transcriptId input)) m = None"
    "createFromTranscript at input m = (transcript_meeting at input, writeMeetings (readMeetings m @ [transcript_meeting at input]) m)"
  by (cases "getMeeting (transcriptMeetingId (ti_transcriptId input)) m") (auto simp: createFromTranscript_def Let_def)

lemma shell_simps [simp]:
  "mt_id (transcript_meeting at input) = transcriptMeetingId (ti_transcriptId input)"
  "mt_occurrenceKey (transcript_meeting at input) = None"
  by (simp_all add: transcript_meeting_def Let_def)

lemma calendars_append_shell:
  "mt_occurrenceKey x = None \<Longrightarrow> calendars (listMeetings parse (writeMeetings (readMeetings m @ [x]) m)) = calendars (listMeetings parse m)"
  unfolding calendars_list by (simp add: calendars_def)

lemma calendars_removed:
  assumes "meetings_ok m" "getMeeting mid m = Some x" "mt_occurrenceKey x = None"
  shows "calendars (readMeetings (snd (removeMeeting mid m))) = calendars (readMeetings m)"
proof -
  have other: "mt_id y \<noteq> mid" if y: "y \<in> set (readMeetings m)" "mt_occurrenceKey y \<noteq> None" for y
    using getMeeting_mem [OF assms(1) y(1)] assms(2,3) y(2) by auto
  have "calendars (filter (\<lambda>y. mt_id y \<noteq> mid) (readMeetings m)) = calendars (readMeetings m)"
    unfolding calendars_def filter_filter by (rule filter_cong) (auto dest: other)
  then show ?thesis by (simp add: removeMeeting_def Let_def)
qed

lemma calendars_remove_shell:
  "meetings_ok m \<Longrightarrow> getMeeting mid m = Some x \<Longrightarrow> mt_occurrenceKey x = None \<Longrightarrow>
    calendars (listMeetings parse (snd (removeMeeting mid m))) = calendars (listMeetings parse m)"
  unfolding calendars_list by (simp only: calendars_removed)

lemma getMeeting_append: "getMeeting mid (writeMeetings (readMeetings m @ [x]) m)
    = (case getMeeting mid m of None \<Rightarrow> if mt_id x = mid then Some x else None | Some y \<Rightarrow> Some y)"
  by (simp add: getMeeting_def find_by_append split: option.splits)

lemma length_filter_all: "length (filter p xs) = length xs \<Longrightarrow> x \<in> set xs \<Longrightarrow> p x"
proof (induction xs)
  case (Cons y ys)
  have "length (filter p ys) \<le> length ys" by simp
  with Cons show ?case by (auto split: if_splits simp del: length_filter_le)
qed simp

lemma getMeeting_remove: "getMeeting mid (snd (removeMeeting other m)) = (if mid = other then None else getMeeting mid m)"
proof (cases "length (filter (\<lambda>x. mt_id x \<noteq> other) (readMeetings m)) = length (readMeetings m)")
  case True
  then have "find_by mt_id other (readMeetings m) = None" using length_filter_all [OF True] by (auto simp: find_by_None_iff)
  with True show ?thesis by (simp add: removeMeeting_def Let_def getMeeting_def)
next
  case False
  then show ?thesis by (simp add: removeMeeting_def Let_def getMeeting_def find_filter_other find_filter_same)
qed

definition placed_well ::
  "meeting_env \<Rightarrow> join_state \<Rightarrow> transcript_record \<Rightarrow> meeting list \<Rightarrow> join_state \<Rightarrow> transcript_record \<Rightarrow> bool" where
  "placed_well env s r meetings' s' r' \<longleftrightarrow> pass_ready env meetings' s'
     \<and> jn_catalog s' = updateTranscript r' (jn_catalog s) \<and> artifact r' = artifact r
     \<and> settled env (jn_meetings s') r'
     \<and> calendars (listMeetings (me_parse env) (jn_meetings s')) = calendars (listMeetings (me_parse env) (jn_meetings s))
     \<and> (\<forall>k x. readTranscript k (jn_catalog s) = Some x \<longrightarrow> k \<noteq> tr_id r \<longrightarrow> settled env (jn_meetings s) x \<longrightarrow>
          settled env (jn_meetings s') x)"

lemma placed_by:
  assumes "pass_ready env meetings s" "readTranscript (tr_id r) (jn_catalog s) = Some r"
    and "artifact r' = artifact r" "tr_association r' \<noteq> NeverRecorded" "settled env m r'"
    and "meetings_ok m" "calendars (listMeetings (me_parse env) m) = calendars (listMeetings (me_parse env) (jn_meetings s))"
      "calendars meetings' = calendars meetings"
    and "\<forall>k x mid. readTranscript k (jn_catalog s) = Some x \<longrightarrow> k \<noteq> tr_id r \<longrightarrow> tr_meetingId x = Some mid \<longrightarrow>
      getMeeting mid m = getMeeting mid (jn_meetings s)"
  shows "placed_well env s r meetings' (s\<lparr>jn_meetings := m, jn_catalog := updateTranscript r' (jn_catalog s)\<rparr>) r'"
  using settle_by [OF assms] assms(3,5,7) unfolding placed_well_def by simp

text \<open>A placement that leaves the Meetings, and one that leaves everything.\<close>

lemma placed_there:
  assumes "pass_ready env meetings s" "readTranscript (tr_id r) (jn_catalog s) = Some r"
    and "artifact r' = artifact r" "tr_association r' \<noteq> NeverRecorded" "settled env (jn_meetings s) r'"
  shows "placed_well env s r meetings (s\<lparr>jn_catalog := updateTranscript r' (jn_catalog s)\<rparr>) r'"
  using placed_by [OF assms, of meetings] assms(1) by (simp add: pass_ready_def)

lemma placed_unchanged:
  assumes "pass_ready env meetings s" "readTranscript (tr_id r) (jn_catalog s) = Some r" "settled env (jn_meetings s) r"
  shows "placed_well env s r meetings s r"
  using assms by (simp add: placed_well_def updateTranscript_same)

lemma attached_simps [simp]:
  "tr_meetingId (attached mm a r) = Some (mm_id mm)" "tr_association (attached mm a r) = Associated a"
  "tr_roster (attached mm a r) = (if mm_roster mm \<noteq> [] then mm_roster mm else tr_roster r)"
  by (simp_all add: attached_def)

lemma matched_simps [simp]:
  "mm_id (matched_calendar env m) = mt_id m" "mm_roster (matched_calendar env m) = rosterOf m"
  "mm_occurrenceKey (matched_calendar env m) = mt_occurrenceKey m"
  "mm_id (matched_shell m) = mt_id m" "mm_roster (matched_shell m) = rosterOf m"
  "mm_occurrenceKey (matched_shell m) = mt_occurrenceKey m"
  by (simp_all add: matched_calendar_def matched_shell_def)

lemma settled_calendar:
  "getMeeting (mt_id m) ms = Some m \<Longrightarrow> mt_occurrenceKey m \<noteq> None \<Longrightarrow> mm_id mm = mt_id m \<Longrightarrow> mm_roster mm = rosterOf m \<Longrightarrow>
    settled env ms (attached mm a r)"
  unfolding settled_def by (intro exI [of _ m]) (auto simp: settled_on_def)

lemma settled_shell:
  assumes "getMeeting (mt_id m) ms = Some m" "mt_occurrenceKey m = None"
    and "trusted_meeting r (calendars (listMeetings (me_parse env) ms)) = None"
    and "review_of env r (calendars (listMeetings (me_parse env) ms)) a" and mm: "mm_id mm = mt_id m" "mm_occurrenceKey mm = None"
  shows "settled env ms (attached mm a r)"
  unfolding settled_def
proof (intro exI [of _ m] conjI)
  have "settled_on env (calendars (listMeetings (me_parse env) ms)) (attached mm a r) m
      \<longleftrightarrow> (trusted_meeting r (calendars (listMeetings (me_parse env) ms)) = None \<and> as_basis a = TranscriptOwned
        \<and> join_text '','' (as_candidateMeetingIds a) = join_text '','' (fst (candidate_signals env r (calendars (listMeetings (me_parse env) ms))))
        \<and> as_signals a = snd (candidate_signals env r (calendars (listMeetings (me_parse env) ms))))"
    using assms(2) mm by (simp add: settled_on_def trusted_attached candidates_attached)
  with assms(3,4) show "settled_on env (calendars (listMeetings (me_parse env) ms)) (attached mm a r) m"
    by (simp add: review_of_def)
qed (use assms in simp_all)

lemma review_calendars:
  "calendars ms = calendars ms' \<Longrightarrow> review_of env r ms a \<Longrightarrow> review_of env r (calendars ms') a"
  unfolding review_of_def using candidates_calendars [of env r ms] candidates_calendars [of env r ms'] by simp

lemma trusted_calendars_eq:
  "calendars ms = calendars ms' \<Longrightarrow> trusted_meeting r ms = None \<Longrightarrow> trusted_meeting r (calendars ms') = None"
  using trusted_calendars [of r ms] by simp

subsection \<open>The cases of a placement\<close>

lemma place_on_calendar:
  assumes ready: "pass_ready (jv_meeting env) meetings s" and r: "readTranscript (tr_id r) (jn_catalog s) = Some r"
    and quiet: "\<And>x. consumers (jv_catalog env) x = None"
    and m: "tr_meetingId r = Some (mt_id m)" "the_meeting (mt_id m) s = Some m" "mt_occurrenceKey m \<noteq> None"
  obtains s' r' where "place env meetings r s = (Inr (False, meetings), s')"
    "placed_well (jv_meeting env) s r meetings s' r'" "tr_meetingId r' = tr_meetingId r"
proof (cases "tr_roster r \<noteq> [] \<or> rosterOf m = []")
  case True
  have set_r: "settled (jv_meeting env) (jn_meetings s) r"
    unfolding settled_def using m True by (intro exI [of _ m]) (auto simp: settled_on_def the_meeting_def)
  show thesis
    by (rule that [OF place_settled [OF ready set_r] placed_unchanged [OF ready r set_r]]) simp
next
  case False
  let ?r = "attached (matched_calendar (jv_meeting env) m) (kept_association r) r"
  have "mt_id m \<noteq> []" using m(2) ready getMeeting_SomeD [of "mt_id m" "jn_meetings s" m]
    by (auto simp: the_meeting_def pass_ready_def meetings_ok_def image_iff)
  then have run: "place env meetings r s = (Inr (False, meetings), s\<lparr>jn_catalog := updateTranscript ?r (jn_catalog s)\<rparr>)"
    using m False by (simp add: place_def carryRosterAcross_def attach_run [OF r quiet] andThen_run)
  have "settled (jv_meeting env) (jn_meetings s) ?r"
    using m by (intro settled_calendar [of m]) (simp_all add: the_meeting_def)
  have "placed_well (jv_meeting env) s r meetings (s\<lparr>jn_catalog := updateTranscript ?r (jn_catalog s)\<rparr>) ?r"
    by (rule placed_there [OF ready r _ _ \<open>settled (jv_meeting env) (jn_meetings s) ?r\<close>]) (simp_all add: attached_same)
  with run show thesis by (rule that) (simp add: m(1))
qed

lemma ready_readTranscript:
  assumes "pass_ready env meetings s" "readTranscript k (jn_catalog s) = Some r"
  shows "tr_id r = k" "tr_association r \<noteq> NeverRecorded"
    "tr_meetingId r = Some mid \<Longrightarrow> \<exists>m. the_meeting mid s = Some m \<and> mt_id m = mid \<and> mid \<noteq> []"
proof -
  show "tr_id r = k" "tr_association r \<noteq> NeverRecorded"
    using assms unfolding pass_ready_def transcripts_ok_def by blast+
  assume "tr_meetingId r = Some mid"
  then obtain m where m: "the_meeting mid s = Some m" using assms unfolding pass_ready_def by blast
  then have x: "m \<in> set (readMeetings (jn_meetings s))" "mt_id m = mid"
    using getMeeting_SomeD [of mid "jn_meetings s" m] unfolding the_meeting_def by simp_all
  have "[] \<notin> mt_id ` set (readMeetings (jn_meetings s))" using assms(1) by (simp add: pass_ready_def meetings_ok_def)
  with x have "mid \<noteq> []" by force
  with m x(2) show "\<exists>m. the_meeting mid s = Some m \<and> mt_id m = mid \<and> mid \<noteq> []" by blast
qed

lemma ready_calendars: "pass_ready env meetings s \<Longrightarrow> calendars meetings = calendars (listMeetings (me_parse env) (jn_meetings s))"
  by (simp add: pass_ready_def)

lemma trusted_there:
  assumes "pass_ready env meetings s" "trusted_meeting r meetings = Some x"
  shows "getMeeting (mt_id x) (jn_meetings s) = Some x" "mt_occurrenceKey x \<noteq> None"
proof -
  have "x \<in> set (calendars (listMeetings (me_parse env) (jn_meetings s)))"
    using trusted_SomeD [OF assms(2)] ready_calendars [OF assms(1)] by simp
  then have x: "x \<in> set (readMeetings (jn_meetings s))" "mt_occurrenceKey x \<noteq> None" by (auto simp: calendars_mem)
  show "mt_occurrenceKey x \<noteq> None" by (rule x(2))
  show "getMeeting (mt_id x) (jn_meetings s) = Some x"
    using assms(1) x(1) unfolding pass_ready_def by (blast intro: getMeeting_mem)
qed

lemma forget_cases:
  assumes "the_meeting mid s = Some m" "mt_occurrenceKey m = None"
  obtains "transcriptsForMeeting mid s \<noteq> []" "forgetEmptyShell mid s = (Inr (), s)"
  | "transcriptsForMeeting mid s = []" "forgetEmptyShell mid s = (Inr (), s\<lparr>jn_meetings := snd (removeMeeting mid (jn_meetings s))\<rparr>)"
  using assms by (cases "transcriptsForMeeting mid s = []") (auto simp: forgetEmptyShell_def)

lemma listed: "transcripts_ok c \<Longrightarrow> readTranscript k c = Some r \<Longrightarrow> r \<in> set (listTranscripts c)"
  using listTranscripts_iff unfolding transcripts_ok_def by blast

lemma place_shell_trusted:
  assumes ready: "pass_ready (jv_meeting env) meetings s" and r: "readTranscript (tr_id r) (jn_catalog s) = Some r"
    and quiet: "\<And>x. consumers (jv_catalog env) x = None"
    and m: "tr_meetingId r = Some (mt_id m)" "the_meeting (mt_id m) s = Some m" "mt_occurrenceKey m = None"
    and x: "trusted_meeting r meetings = Some x"
  obtains s' r' where "place env meetings r s = (Inr (True, meetings), s')"
    "placed_well (jv_meeting env) s r meetings s' r'" "tr_meetingId r' = Some (mt_id x)"
proof -
  let ?E = "jv_meeting env"
  note there = trusted_there [OF ready x]
  have ne: "mt_id m \<noteq> []" using ready_readTranscript(3) [OF ready r m(1)] by blast
  have other: "mt_id x \<noteq> mt_id m" using there m(2,3) by (metis option.inject the_meeting_def)
  have off: "\<not> on_calendar r meetings" by (rule not_on_calendar [OF ready]) (use m in auto)
  obtain a where a: "fresh_decision ?E r meetings (jv_now env (tr_id r)) = Attach (matched_calendar ?E x) a"
    using x by (rule_tac fresh_decision_cases [of r meetings ?E "jv_now env (tr_id r)"]) auto
  let ?r = "attached (matched_calendar ?E x) a r"
  let ?s1 = "s\<lparr>jn_catalog := updateTranscript ?r (jn_catalog s)\<rparr>"
  have run: "place env meetings r s = andThen (forgetEmptyShell (mt_id m)) (\<lambda>_. ret (True, meetings)) ?s1"
    using m ne other off a by (simp add: place_def decide_fresh attachRecord_def attach_run [OF r quiet] andThen_run)
  have shell: "the_meeting (mt_id m) ?s1 = Some m" using m by (simp add: the_meeting_def)
  have "artifact ?r = artifact r" "tr_association ?r \<noteq> NeverRecorded" by (simp_all add: attached_same)
  note base = this
  have ok: "meetings_ok (jn_meetings s)" "transcripts_ok (jn_catalog s)" using ready by (simp_all add: pass_ready_def)
  show thesis
    using shell m(3)
  proof (cases rule: forget_cases)
    case 1
    have st: "settled ?E (jn_meetings s) ?r" by (rule settled_calendar [OF there]) simp_all
    have "place env meetings r s = (Inr (True, meetings), ?s1)" using run 1 by (simp add: andThen_run)
    then show thesis by (rule that [OF _ placed_there [OF ready r base st]]) simp
  next
    case 2
    let ?m = "snd (removeMeeting (mt_id m) (jn_meetings s))"
    have "getMeeting (mt_id x) ?m = Some x" using there other by (simp add: getMeeting_remove)
    then have st: "settled ?E ?m ?r" by (rule settled_calendar [OF _ there(2)]) simp_all
    have others: "\<forall>k y mid. readTranscript k (jn_catalog s) = Some y \<longrightarrow> k \<noteq> tr_id r \<longrightarrow> tr_meetingId y = Some mid \<longrightarrow>
      getMeeting mid ?m = getMeeting mid (jn_meetings s)"
    proof (intro allI impI)
      fix k y mid
      assume y: "readTranscript k (jn_catalog s) = Some y" "k \<noteq> tr_id r" "tr_meetingId y = Some mid"
      have "identified r" using ok(2) r unfolding transcripts_ok_def by blast
      then have "transcripts_ok (updateTranscript ?r (jn_catalog s))"
        using ok(2) identified_artifact [OF base(1)] by (blast intro: transcripts_ok_update)
      moreover have "readTranscript k (updateTranscript ?r (jn_catalog s)) = Some y"
        using y by (simp add: readTranscript_update attached_same)
      ultimately have "y \<in> set (the_transcripts ?s1)" by (simp add: the_transcripts_def listed)
      with 2(1) y(3) have "mid \<noteq> mt_id m" by (auto simp: transcriptsForMeeting_def filter_empty_conv)
      then show "getMeeting mid ?m = getMeeting mid (jn_meetings s)" by (simp add: getMeeting_remove)
    qed
    have "calendars (listMeetings (me_parse ?E) ?m) = calendars (listMeetings (me_parse ?E) (jn_meetings s))"
      by (rule calendars_remove_shell [OF ok(1) _ m(3)]) (use m(2) in \<open>simp add: the_meeting_def\<close>)
    note well = placed_by [OF ready r base st removeMeeting_ok [OF ok(1)] this refl others]
    have "place env meetings r s = (Inr (True, meetings), s\<lparr>jn_meetings := ?m, jn_catalog := updateTranscript ?r (jn_catalog s)\<rparr>)"
      using run 2 by (simp add: andThen_run)
    then show thesis by (rule that [OF _ well]) simp
  qed
qed

lemma place_shell_review:
  assumes ready: "pass_ready (jv_meeting env) meetings s" and r: "readTranscript (tr_id r) (jn_catalog s) = Some r"
    and quiet: "\<And>x. consumers (jv_catalog env) x = None"
    and m: "tr_meetingId r = Some (mt_id m)" "the_meeting (mt_id m) s = Some m" "mt_occurrenceKey m = None"
    and none: "trusted_meeting r meetings = None"
  obtains s' r' where "place env meetings r s = (Inr (False, meetings), s')"
    "placed_well (jv_meeting env) s r meetings s' r'" "tr_meetingId r' = tr_meetingId r"
proof -
  note conclude = that
  let ?E = "jv_meeting env"
  have there: "getMeeting (mt_id m) (jn_meetings s) = Some m" using m(2) by (simp add: the_meeting_def)
  have ne: "mt_id m \<noteq> []" using ready_readTranscript(3) [OF ready r m(1)] by auto
  have off: "\<not> on_calendar r meetings" by (rule not_on_calendar [OF ready]) (use m in auto)
  obtain a where a: "fresh_decision ?E r meetings (jv_now env (tr_id r)) = Review a" "review_of ?E r meetings a"
    using none by (rule_tac fresh_decision_cases [of r meetings ?E "jv_now env (tr_id r)"]) auto
  note cal = ready_calendars [OF ready]
  note none' = trusted_calendars_eq [OF cal none] and rev' = review_calendars [OF cal a(2)]
  have run: "place env meetings r s = andThen (recordCandidates env r m a) (\<lambda>_. ret (False, meetings)) s"
    using m ne off a by (simp add: place_def decide_fresh)
  let ?r = "attached (matched_calendar ?E m) a r"
  have st: "settled ?E (jn_meetings s) ?r" by (rule settled_shell [OF there m(3) none' rev']) (simp_all add: m(3))
  have attached: thesis if rc: "recordCandidates env r m a = attach env (tr_id r) (matched_calendar ?E m) a"
  proof -
    have "place env meetings r s = (Inr (False, meetings), s\<lparr>jn_catalog := updateTranscript ?r (jn_catalog s)\<rparr>)"
      using run rc by (simp add: attach_run [OF r quiet] andThen_run)
    then show thesis
      by (rule conclude [OF _ placed_there [OF ready r _ _ st]]) (simp_all add: attached_same m(1))
  qed
  show thesis
  proof (cases "tr_association r")
    case NeverRecorded
    with ready_readTranscript(2) [OF ready r] show thesis by simp
  next
    case NullAssociation
    then show thesis by (intro attached) (simp add: recordCandidates_def)
  next
    case (Associated now)
    show thesis
    proof (cases "as_basis now = as_basis a \<and> join_text '','' (as_candidateMeetingIds now)
        = join_text '','' (as_candidateMeetingIds a) \<and> as_signals now = as_signals a")
      case True
      have "settled_on ?E (calendars (listMeetings (me_parse ?E) (jn_meetings s))) r m"
        using m(3) none' rev' True Associated by (auto simp: settled_on_def review_of_def)
      with there m(1) have st: "settled ?E (jn_meetings s) r" unfolding settled_def by blast
      have "place env meetings r s = (Inr (False, meetings), s)"
        using run True Associated by (simp add: recordCandidates_def)
      then show thesis by (rule that [OF _ placed_unchanged [OF ready r st]]) simp
    next
      case False
      show thesis
        by (rule attached) (unfold recordCandidates_def Associated association_field.case if_not_P [OF False], rule refl)
    qed
  qed
qed

lemma place_new_trusted:
  assumes ready: "pass_ready (jv_meeting env) meetings s" and r: "readTranscript (tr_id r) (jn_catalog s) = Some r"
    and quiet: "\<And>x. consumers (jv_catalog env) x = None" and m: "tr_meetingId r = None"
    and x: "trusted_meeting r meetings = Some x"
  obtains s' r' where "place env meetings r s = (Inr (True, meetings), s')"
    "placed_well (jv_meeting env) s r meetings s' r'" "tr_meetingId r' = Some (mt_id x)"
proof -
  let ?E = "jv_meeting env"
  note there = trusted_there [OF ready x]
  obtain a where a: "fresh_decision ?E r meetings (jv_now env (tr_id r)) = Attach (matched_calendar ?E x) a"
    using x by (rule_tac fresh_decision_cases [of r meetings ?E "jv_now env (tr_id r)"]) auto
  let ?r = "attached (matched_calendar ?E x) a r"
  have off: "\<not> on_calendar r meetings" using m by (simp add: on_calendar_def)
  have st: "settled ?E (jn_meetings s) ?r" by (rule settled_calendar [OF there]) simp_all
  have "place env meetings r s = (Inr (True, meetings), s\<lparr>jn_catalog := updateTranscript ?r (jn_catalog s)\<rparr>)"
    using m off a by (simp add: place_def decide_fresh attachRecord_def attach_run [OF r quiet] andThen_run)
  then show thesis by (rule that [OF _ placed_there [OF ready r _ _ st]]) (simp_all add: attached_same)
qed

lemma place_new_review:
  assumes ready: "pass_ready (jv_meeting env) meetings s" and r: "readTranscript (tr_id r) (jn_catalog s) = Some r"
    and quiet: "\<And>x. consumers (jv_catalog env) x = None" and m: "tr_meetingId r = None"
    and none: "trusted_meeting r meetings = None"
  obtains s' r' ms' where "place env meetings r s = (Inr (True, ms'), s')"
    "placed_well (jv_meeting env) s r ms' s' r'" "tr_meetingId r' = Some (transcriptMeetingId (tr_id r))"
proof -
  note conclude = that
  let ?E = "jv_meeting env" and ?M = "jn_meetings s"
  have off: "\<not> on_calendar r meetings" using m by (simp add: on_calendar_def)
  obtain a where a: "fresh_decision ?E r meetings (jv_now env (tr_id r)) = Review a" "review_of ?E r meetings a"
    using none by (rule_tac fresh_decision_cases [of r meetings ?E "jv_now env (tr_id r)"]) auto
  note cal = ready_calendars [OF ready]
  have ok: "meetings_ok ?M" using ready by (simp add: pass_ready_def)
  have input: "ti_transcriptId (created_input env r) = tr_id r" by (simp add: created_input_def)
  have run: "place env meetings r s = (Inr (True, meetings @ [x]),
      s\<lparr>jn_meetings := M, jn_catalog := updateTranscript (attached (matched_shell x) a r) (jn_catalog s)\<rparr>)"
    if c: "createFromTranscript (jv_now env (tr_id r)) (created_input env r) ?M = (x, M)" for x M
  proof -
    have "readTranscript (tr_id r) (jn_catalog (s\<lparr>jn_meetings := M\<rparr>)) = Some r" using r by simp
    note att = attach_run [OF this quiet]
    show ?thesis
      using m off a c by (simp add: place_def decide_fresh on_meetings_def attachRecord_def att andThen_run)
  qed
  have well: thesis
    if c: "createFromTranscript (jv_now env (tr_id r)) (created_input env r) ?M = (x, M)"
      and x: "getMeeting (mt_id x) M = Some x" "mt_occurrenceKey x = None" "mt_id x = transcriptMeetingId (tr_id r)"
      and M: "calendars (listMeetings (me_parse ?E) M) = calendars (listMeetings (me_parse ?E) ?M)"
        "\<And>mid y. getMeeting mid ?M = Some y \<Longrightarrow> getMeeting mid M = Some y" for x M
  proof -
    let ?r = "attached (matched_shell x) a r"
    have "meetings_ok M" using createFromTranscript_ok [OF ok] c by (metis snd_conv)
    moreover have "settled ?E M ?r"
      by (rule settled_shell [OF x(1,2)])
        (use M(1) cal trusted_calendars_eq [OF _ none] review_calendars [OF _ a(2)] x(2) in simp_all)
    moreover have "\<forall>k y mid. readTranscript k (jn_catalog s) = Some y \<longrightarrow> k \<noteq> tr_id r \<longrightarrow> tr_meetingId y = Some mid \<longrightarrow>
        getMeeting mid M = getMeeting mid ?M"
    proof (intro allI impI)
      fix k y mid
      assume "readTranscript k (jn_catalog s) = Some y" "tr_meetingId y = Some mid"
      from ready_readTranscript(3) [OF ready this] obtain z where "getMeeting mid ?M = Some z"
        by (auto simp: the_meeting_def)
      with M(2) show "getMeeting mid M = getMeeting mid ?M" by simp
    qed
    moreover have "calendars (meetings @ [x]) = calendars meetings" using x(2) by (simp add: calendars_def)
    ultimately have "placed_well ?E s r (meetings @ [x])
        (s\<lparr>jn_meetings := M, jn_catalog := updateTranscript ?r (jn_catalog s)\<rparr>) ?r"
      using M(1) by (intro placed_by [OF ready r]) (simp_all add: attached_same)
    from conclude [OF run [OF c] this] show thesis by (simp add: x(3))
  qed
  show thesis
  proof (cases rule: createFromTranscript_cases [of "created_input env r" ?M "jv_now env (tr_id r)"])
    case (1 x)
    have x: "x \<in> set (readMeetings ?M)" "mt_id x = transcriptMeetingId (tr_id r)"
      using getMeeting_SomeD [OF 1(1)] input by simp_all
    then have "mt_occurrenceKey x = None" using ready unfolding pass_ready_def shells_apart_def by blast
    with 1 x show thesis by (intro well [OF 1(2)]) (simp_all add: input)
  next
    case 2
    let ?x = "transcript_meeting (jv_now env (tr_id r)) (created_input env r)"
    show thesis
      by (rule well [OF 2(2)]) (use 2(1) in \<open>simp_all add: input getMeeting_append calendars_append_shell\<close>)
  qed
qed

end
