(* ===== verification/MeetingPasses.thy ===== *)
theory MeetingPasses
  imports MeetingFacts
begin

section \<open>The standing pass as a whole\<close>

text \<open>
  From one Transcript to all of them: where a pass may move a Transcript, whatever fails on the way; and, when nothing
  fails, that it settles every Transcript, so that another pass has nothing to do.
\<close>

subsection \<open>Where a Transcript may be moved\<close>

definition moved :: "meeting set \<Rightarrow> transcript_record \<Rightarrow> transcript_record \<Rightarrow> bool" where
  "moved base r r' \<longleftrightarrow> tr_meetingId r' = tr_meetingId r
     \<or> tr_meetingId r' = Some (transcriptMeetingId (tr_id r))
     \<or> (\<exists>oc x. tr_occurrence r = Some oc \<and> x \<in> base \<and> mt_occurrenceKey x = Some (oc_occurrenceKey oc)
          \<and> tr_meetingId r' = Some (mt_id x))"

definition attach_effect :: "meeting set \<Rightarrow> transcript_record \<Rightarrow> join_state \<Rightarrow> join_state \<Rightarrow> bool" where
  "attach_effect base r s s' \<longleftrightarrow> jn_catalog s' = jn_catalog s
     \<or> (\<exists>r'. jn_catalog s' = updateTranscript r' (jn_catalog s) \<and> artifact r' = artifact r \<and> moved base r r')"

lemma attach_effect:
  assumes "readTranscript (tr_id r) (jn_catalog s) = Some r" "moved base r (attached mm a r)"
  shows "attach_effect base r s (snd (attach env (tr_id r) mm a s))"
    and "jn_meetings (snd (attach env (tr_id r) mm a s)) = jn_meetings s"
proof -
  have "jn_catalog (snd (attach env (tr_id r) mm a s)) = snd (attachMeeting (jv_catalog env) (tr_id r) mm a (jn_catalog s))"
    by (simp add: attach_def split: prod.splits sum.splits)
  then show "attach_effect base r s (snd (attach env (tr_id r) mm a s))"
    using assms by (auto simp: attach_effect_def attachMeeting_state attached_same)
  show "jn_meetings (snd (attach env (tr_id r) mm a s)) = jn_meetings s"
    by (simp add: attach_def split: prod.splits sum.splits)
qed

lemma snd_after: "snd (andThen m (\<lambda>x. ret (f x)) s) = snd (m s)"
  by (simp add: andThen_run split: prod.splits sum.splits)

lemma attachRecord_effect:
  assumes "readTranscript (tr_id r) (jn_catalog s) = Some r" "moved base r (attached mm a r)"
  shows "attach_effect base r s (snd (attachRecord env r mm a s))"
    and "jn_meetings (snd (attachRecord env r mm a s)) = jn_meetings s"
  using attach_effect [OF assms, of env] by (simp_all add: attachRecord_def snd_after attach_effect_def)

lemma forget_catalog: "jn_catalog (snd (forgetEmptyShell mid s)) = jn_catalog s"
  by (simp add: forgetEmptyShell_def split: option.splits)

lemma forget_meetings: "set (readMeetings (jn_meetings (snd (forgetEmptyShell mid s)))) \<subseteq> set (readMeetings (jn_meetings s))"
  by (auto simp: forgetEmptyShell_def removeMeeting_def Let_def split: option.splits)

lemma created_calendar:
  "createFromTranscript at input m = (x, m') \<Longrightarrow> mt_id x = transcriptMeetingId (ti_transcriptId input) \<and>
    (mt_occurrenceKey x \<noteq> None \<longrightarrow> x \<in> set (readMeetings m)) \<and>
    (\<forall>y\<in>set (readMeetings m'). mt_occurrenceKey y \<noteq> None \<longrightarrow> y \<in> set (readMeetings m))"
proof (cases rule: createFromTranscript_cases [of input m at])
  case (1 y)
  assume "createFromTranscript at input m = (x, m')"
  with 1(2) have "x = y" "m' = m" by simp_all
  with getMeeting_SomeD [OF 1(1)] show ?thesis by simp
next
  case 2
  assume "createFromTranscript at input m = (x, m')"
  with 2(2) have "x = transcript_meeting at input" "m' = writeMeetings (readMeetings m @ [x]) m" by simp_all
  then show ?thesis by auto
qed

text \<open>The Calendar Meetings a pass decides from and those of the store are Meetings of the store at its start.\<close>

definition calendars_from :: "meeting set \<Rightarrow> meeting list \<Rightarrow> meetings_state \<Rightarrow> bool" where
  "calendars_from base meetings m \<longleftrightarrow>
     (\<forall>x\<in>set meetings \<union> set (readMeetings m). mt_occurrenceKey x \<noteq> None \<longrightarrow> x \<in> base)"

lemma moved_trusted:
  assumes "trusted_meeting r meetings = Some x" "calendars_from base meetings m"
  shows "moved base r (attached (matched_calendar env x) a r)"
proof -
  obtain oc where "x \<in> set meetings" "tr_occurrence r = Some oc" "mt_occurrenceKey x = Some (oc_occurrenceKey oc)"
    using trusted_SomeD [OF assms(1)] by (auto simp: calendars_def)
  moreover from this assms(2) have "x \<in> base" by (auto simp: calendars_from_def)
  ultimately show ?thesis by (auto simp: moved_def)
qed

lemma moved_shell: "mm_id mm = transcriptMeetingId (tr_id r) \<Longrightarrow> moved base r (attached mm a r)"
  by (simp add: moved_def)

lemma moved_there: "tr_meetingId r = Some (mm_id mm) \<Longrightarrow> moved base r (attached mm a r)"
  by (simp add: moved_def)

definition place_safe ::
  "meeting set \<Rightarrow> transcript_record \<Rightarrow> join_state \<Rightarrow> (join_error + bool \<times> meeting list) \<times> join_state \<Rightarrow> bool" where
  "place_safe base r s out \<longleftrightarrow> attach_effect base r s (snd out)
     \<and> (\<forall>l ms. fst out = Inr (l, ms) \<longrightarrow> calendars_from base ms (jn_meetings (snd out)))"

lemma calendars_from_less:
  "calendars_from base meetings m \<Longrightarrow> set (readMeetings m') \<subseteq> set (readMeetings m) \<Longrightarrow> calendars_from base meetings m'"
  by (auto simp: calendars_from_def)

lemma andThen_ret_result: "fst (andThen m (\<lambda>_. ret x) s) = Inr y \<Longrightarrow> y = x"
  by (auto simp: andThen_run split: prod.splits sum.splits)

lemma place_safe_then_ret:
  assumes "calendars_from base meetings (jn_meetings s)" "attach_effect base r s (snd (m s))"
    and "set (readMeetings (jn_meetings (snd (m s)))) \<subseteq> set (readMeetings (jn_meetings s))"
  shows "place_safe base r s (andThen m (\<lambda>_. ret (l, meetings)) s)"
  unfolding place_safe_def snd_after
  using assms calendars_from_less by (auto dest: andThen_ret_result)

lemma attach_effect_catalog:
  "attach_effect base r s s1 \<Longrightarrow> jn_catalog s2 = jn_catalog s1 \<Longrightarrow> attach_effect base r s s2"
  by (simp add: attach_effect_def)

lemma snd_andThen_keeps:
  assumes "P (snd (m s))" "\<And>x s'. m s = (Inr x, s') \<Longrightarrow> P (snd (f x s'))"
  shows "P (snd (andThen m f s))"
  using assms by (auto simp: andThen_run split: prod.splits sum.splits)

lemma place_is_safe:
  assumes base: "calendars_from base meetings (jn_meetings s)" and r: "readTranscript (tr_id r) (jn_catalog s) = Some r"
  shows "place_safe base r s (place env meetings r s)"
proof -
  let ?E = "jv_meeting env"
  let ?d = "decideAssociation ?E r meetings (jv_now env (tr_id r))"
  have still: "place_safe base r s (Inl e, s)" "place_safe base r s (Inr (l, meetings), s)" for e l
    using base by (simp_all add: place_safe_def attach_effect_def)
  have trusted: "\<exists>x. trusted_meeting r meetings = Some x \<and> mm = matched_calendar ?E x" if "?d = Inr (Attach mm a)" for mm a
    using that by (auto simp: decideAssociation_def fresh_decision_def split: if_splits association_field.splits option.splits prod.splits)
  show ?thesis
  proof (cases "case tr_meetingId r of None \<Rightarrow> None | Some mid \<Rightarrow> if mid = [] then None else the_meeting mid s")
    case None
    show ?thesis
    proof (cases ?d)
      case (Inl e)
      with None show ?thesis by (simp add: place_def still)
    next
      case (Inr d)
      show ?thesis
      proof (cases d)
        case (Attach mm a)
        with Inr trusted obtain x where "trusted_meeting r meetings = Some x" "mm = matched_calendar ?E x" by blast
        with base have "moved base r (attached mm a r)" by (simp add: moved_trusted)
        from attachRecord_effect [OF r this, of env] None Inr Attach base show ?thesis
          by (simp add: place_def place_safe_then_ret)
      next
        case (Settled a)
        with None Inr show ?thesis by (simp add: place_def still)
      next
        case (Review a)
        obtain x m' where c: "createFromTranscript (jv_now env (tr_id r)) (created_input env r) (jn_meetings s) = (x, m')"
          by (cases "createFromTranscript (jv_now env (tr_id r)) (created_input env r) (jn_meetings s)")
        let ?s = "s\<lparr>jn_meetings := m'\<rparr>"
        have x: "mt_id x = transcriptMeetingId (tr_id r)" and base': "calendars_from base (meetings @ [x]) m'"
          using created_calendar [OF c] base by (auto simp: calendars_from_def created_input_def)
        have there: "readTranscript (tr_id r) (jn_catalog ?s) = Some r" using r by simp
        have "moved base r (attached (matched_shell x) a r)" by (rule moved_shell) (simp add: x)
        from attachRecord_effect [OF there this, of env]
        have "attach_effect base r ?s (snd (attachRecord env r (matched_shell x) a ?s))"
          "jn_meetings (snd (attachRecord env r (matched_shell x) a ?s)) = m'" by simp_all
        then have "place_safe base r ?s (andThen (attachRecord env r (matched_shell x) a) (\<lambda>_. ret (True, meetings @ [x])) ?s)"
          using base' by (intro place_safe_then_ret) simp_all
        moreover have "place env meetings r s = andThen (attachRecord env r (matched_shell x) a) (\<lambda>_. ret (True, meetings @ [x])) ?s"
          using None Inr Review c by (simp add: place_def on_meetings_def andThen_run)
        ultimately show ?thesis by (simp add: place_safe_def attach_effect_def)
      qed
    qed
  next
    case (Some m)
    then have id: "tr_meetingId r = Some (mt_id m)"
      by (auto simp: the_meeting_def split: option.splits if_splits dest: getMeeting_SomeD)
    have there: "moved base r (attached (matched_calendar ?E m) a r)" for a
      using id by (simp add: moved_there)
    show ?thesis
    proof (cases "mt_occurrenceKey m = None")
      case False
      have "attach_effect base r s (snd (carryRosterAcross env r m s))"
        "jn_meetings (snd (carryRosterAcross env r m s)) = jn_meetings s"
        using attach_effect [OF r there, of env] by (simp_all add: carryRosterAcross_def attach_effect_def)
      with Some False base show ?thesis by (simp add: place_def place_safe_then_ret)
    next
      case shell: True
      show ?thesis
      proof (cases ?d)
        case (Inl e)
        with Some shell show ?thesis by (simp add: place_def still)
      next
        case (Inr d)
        show ?thesis
        proof (cases d)
          case (Attach mm a)
          with Inr trusted obtain x where "trusted_meeting r meetings = Some x" "mm = matched_calendar ?E x" by blast
          with base have "moved base r (attached mm a r)" by (simp add: moved_trusted)
          note eff = attachRecord_effect [OF r this, of env]
          let ?m = "andThen (attachRecord env r mm a) (\<lambda>_. forgetEmptyShell (mt_id m))"
          have "attach_effect base r s (snd (?m s))"
            by (rule snd_andThen_keeps) (use eff(1) in \<open>auto intro: attach_effect_catalog simp: forget_catalog\<close>)
          moreover have "set (readMeetings (jn_meetings (snd (?m s)))) \<subseteq> set (readMeetings (jn_meetings s))"
            by (rule snd_andThen_keeps) (use eff(2) in \<open>auto dest: subsetD [OF forget_meetings]\<close>)
          moreover have "place env meetings r s = andThen ?m (\<lambda>_. ret (True, meetings)) s"
            using Some shell Inr Attach by (simp add: place_def andThen_run split: prod.splits sum.splits)
          ultimately show ?thesis using base by (simp add: place_safe_then_ret)
        next
          case (Settled a)
          with Some shell Inr show ?thesis by (simp add: place_def still)
        next
          case (Review a)
          have "attach_effect base r s (snd (recordCandidates env r m a s))"
            "jn_meetings (snd (recordCandidates env r m a s)) = jn_meetings s"
            using attach_effect [OF r there, of env]
            by (simp_all add: recordCandidates_def attach_effect_def split: association_field.splits)
          with Some shell Inr Review base show ?thesis by (simp add: place_def place_safe_then_ret)
        qed
      qed
    qed
  qed
qed

lemma artifact_id: "artifact r' = artifact r \<Longrightarrow> tr_id r' = tr_id r"
  by (simp add: artifact_def)

text \<open>What a pass may do to the Transcripts \<open>rs\<close>, when it began with the Meetings \<open>base\<close>.\<close>

definition pass_effect :: "meeting set \<Rightarrow> transcript_record list \<Rightarrow> catalog_state \<Rightarrow> catalog_state \<Rightarrow> bool" where
  "pass_effect base rs c c' \<longleftrightarrow> (\<forall>k. k \<notin> tr_id ` set rs \<longrightarrow> readTranscript k c' = readTranscript k c)
     \<and> (\<forall>r\<in>set rs. \<exists>r'. readTranscript (tr_id r) c' = Some r' \<and> artifact r' = artifact r \<and> moved base r r')"

lemma moved_same: "moved base r r"
  by (simp add: moved_def)

lemma attach_effect_read:
  assumes "attach_effect base r s s'" "readTranscript (tr_id r) (jn_catalog s) = Some r"
  shows "k \<noteq> tr_id r \<Longrightarrow> readTranscript k (jn_catalog s') = readTranscript k (jn_catalog s)"
    and "\<exists>r'. readTranscript (tr_id r) (jn_catalog s') = Some r' \<and> artifact r' = artifact r \<and> moved base r r'"
  using assms by (auto simp: attach_effect_def readTranscript_update moved_same dest: artifact_id)

lemma place_all_step:
  "place_all env meetings (r # rs) s = (case place env meetings r s of
     (Inl e, s') \<Rightarrow> (Inl e, s')
   | (Inr (l, ms), s') \<Rightarrow> andThen (place_all env ms rs) (\<lambda>n. ret ((if l then 1 else 0) + n)) s')"
  by (auto simp: andThen_run split: prod.splits sum.splits)

lemma place_all_effect:
  assumes "calendars_from base meetings (jn_meetings s)" "distinct (map tr_id rs)"
    and "\<forall>r\<in>set rs. readTranscript (tr_id r) (jn_catalog s) = Some r"
  shows "pass_effect base rs (jn_catalog s) (jn_catalog (snd (place_all env meetings rs s)))"
  using assms
proof (induction rs arbitrary: meetings s)
  case Nil
  then show ?case by (simp add: pass_effect_def)
next
  case (Cons r rs)
  have r: "readTranscript (tr_id r) (jn_catalog s) = Some r" using Cons.prems(3) by simp
  obtain res s1 where p: "place env meetings r s = (res, s1)" by (cases "place env meetings r s")
  have "place_safe base r s (res, s1)" using place_is_safe [OF Cons.prems(1) r, of env] p by simp
  then have eff: "attach_effect base r s s1" and base: "\<And>l ms. res = Inr (l, ms) \<Longrightarrow> calendars_from base ms (jn_meetings s1)"
    by (simp_all add: place_safe_def)
  note read = attach_effect_read [OF eff r]
  have still: "readTranscript (tr_id x) (jn_catalog s1) = Some x" if "x \<in> set rs" for x
  proof -
    have "tr_id r \<notin> tr_id ` set rs" using Cons.prems(2) by simp
    with that have "tr_id x \<noteq> tr_id r" by (metis imageI)
    then have "readTranscript (tr_id x) (jn_catalog s1) = readTranscript (tr_id x) (jn_catalog s)" by (rule read(1))
    also have "\<dots> = Some x" by (rule bspec [OF Cons.prems(3)]) (rule list.set_intros(2) [OF that])
    finally show ?thesis .
  qed
  show ?case
  proof (cases res)
    case (Inl e)
    then have "snd (place_all env meetings (r # rs) s) = s1" using p by (simp only: place_all_step) simp
    moreover have "pass_effect base (r # rs) (jn_catalog s) (jn_catalog s1)"
      unfolding pass_effect_def
    proof (intro conjI ballI allI impI)
      show "readTranscript k (jn_catalog s1) = readTranscript k (jn_catalog s)" if "k \<notin> tr_id ` set (r # rs)" for k
        by (rule read(1)) (use that in simp)
      show "\<exists>r'. readTranscript (tr_id x) (jn_catalog s1) = Some r' \<and> artifact r' = artifact x \<and> moved base x r'"
        if "x \<in> set (r # rs)" for x
        using that read(2) still moved_same by (cases "x = r") auto
    qed
    ultimately show ?thesis by simp
  next
    case (Inr y)
    then obtain l ms where y: "res = Inr (l, ms)" by (cases y) simp
    then have "snd (place_all env meetings (r # rs) s) = snd (place_all env ms rs s1)"
      using p by (simp only: place_all_step prod.case sum.case snd_after)
    moreover have rest: "pass_effect base rs (jn_catalog s1) (jn_catalog (snd (place_all env ms rs s1)))"
      using Cons.IH [OF base [OF y]] Cons.prems(2) still by simp
    moreover have "pass_effect base (r # rs) (jn_catalog s) (jn_catalog (snd (place_all env ms rs s1)))"
      unfolding pass_effect_def
    proof (intro conjI ballI allI impI)
      show "readTranscript k (jn_catalog (snd (place_all env ms rs s1))) = readTranscript k (jn_catalog s)"
        if "k \<notin> tr_id ` set (r # rs)" for k
        using rest read(1) [of k] that by (simp add: pass_effect_def)
      show "\<exists>r'. readTranscript (tr_id x) (jn_catalog (snd (place_all env ms rs s1))) = Some r'
          \<and> artifact r' = artifact x \<and> moved base x r'" if "x \<in> set (r # rs)" for x
        using rest read(2) Cons.prems(2) that by (cases "x = r") (auto simp: pass_effect_def)
    qed
    ultimately show ?thesis by simp
  qed
qed

lemma associateTranscripts_effect:
  assumes "transcripts_ok (jn_catalog s)"
  shows "pass_effect (set (readMeetings (jn_meetings s))) (the_transcripts s) (jn_catalog s)
    (jn_catalog (snd (associateTranscripts env s)))"
  unfolding associateTranscripts_def
proof (rule place_all_effect)
  show "calendars_from (set (readMeetings (jn_meetings s))) (listMeetings (me_parse (jv_meeting env)) (jn_meetings s)) (jn_meetings s)"
    by (auto simp: calendars_from_def listMeetings_def)
  show "distinct (map tr_id (the_transcripts s))" unfolding the_transcripts_def by (rule distinct_transcripts [OF assms])
  show "\<forall>r\<in>set (the_transcripts s). readTranscript (tr_id r) (jn_catalog s) = Some r"
    unfolding the_transcripts_def using listTranscripts_iff [OF assms] by blast
qed

subsection \<open>A pass that nothing interferes with settles every Transcript\<close>

lemma place_settles:
  assumes ready: "pass_ready (jv_meeting env) meetings s" and r: "readTranscript (tr_id r) (jn_catalog s) = Some r"
    and quiet: "\<And>x. consumers (jv_catalog env) x = None"
  obtains l ms s' r' where "place env meetings r s = (Inr (l, ms), s')" "placed_well (jv_meeting env) s r ms s' r'"
proof (cases "tr_meetingId r")
  case None
  show thesis
  proof (cases "trusted_meeting r meetings")
    case none: None
    show thesis by (rule place_new_review [OF ready r quiet None none]) (rule that)
  next
    case (Some x)
    show thesis by (rule place_new_trusted [OF ready r quiet None Some]) (rule that)
  qed
next
  case (Some mid)
  from ready_readTranscript(3) [OF ready r Some] obtain m where m: "the_meeting mid s = Some m" "mt_id m = mid" by blast
  have id: "tr_meetingId r = Some (mt_id m)" "the_meeting (mt_id m) s = Some m" using Some m by simp_all
  show thesis
  proof (cases "mt_occurrenceKey m = None")
    case False
    show thesis by (rule place_on_calendar [OF ready r quiet id False]) (rule that)
  next
    case shell: True
    show thesis
    proof (cases "trusted_meeting r meetings")
      case none: None
      show thesis by (rule place_shell_review [OF ready r quiet id shell none]) (rule that)
    next
      case (Some x)
      show thesis by (rule place_shell_trusted [OF ready r quiet id shell Some]) (rule that)
    qed
  qed
qed

definition settles :: "meeting_env \<Rightarrow> transcript_record list \<Rightarrow> join_state \<Rightarrow> join_state \<Rightarrow> bool" where
  "settles env rs s s' \<longleftrightarrow>
     (\<forall>k. k \<notin> tr_id ` set rs \<longrightarrow> readTranscript k (jn_catalog s') = readTranscript k (jn_catalog s)
        \<and> (\<forall>x. readTranscript k (jn_catalog s) = Some x \<longrightarrow> settled env (jn_meetings s) x \<longrightarrow> settled env (jn_meetings s') x))
     \<and> (\<forall>k\<in>tr_id ` set rs. \<exists>x. readTranscript k (jn_catalog s') = Some x \<and> settled env (jn_meetings s') x)
     \<and> calendars (listMeetings (me_parse env) (jn_meetings s')) = calendars (listMeetings (me_parse env) (jn_meetings s))"

lemma placed_wellD:
  assumes "placed_well env s r ms s' r'"
  shows "tr_id r' = tr_id r" "jn_catalog s' = updateTranscript r' (jn_catalog s)"
proof -
  from assms have "artifact r' = artifact r" unfolding placed_well_def by blast
  then show "tr_id r' = tr_id r" by (rule artifact_id)
  from assms show "jn_catalog s' = updateTranscript r' (jn_catalog s)" unfolding placed_well_def by blast
qed

lemma settles_self: "settles env [] s s"
  by (simp add: settles_def)

lemma settles_cons:
  assumes well: "placed_well env s r ms s1 r'" and rest: "settles env rs s1 s2" and new: "tr_id r \<notin> tr_id ` set rs"
  shows "settles env (r # rs) s s2"
  unfolding settles_def
proof (intro conjI ballI allI impI)
  have c: "readTranscript k (jn_catalog s1) = (if k = tr_id r then Some r' else readTranscript k (jn_catalog s))" for k
    by (simp only: placed_wellD [OF well] readTranscript_update)
  note one = rest [unfolded settles_def]
  fix k
  { assume k: "k \<notin> tr_id ` set (r # rs)"
    then show "readTranscript k (jn_catalog s2) = readTranscript k (jn_catalog s)" using one c [of k] by simp
    fix x assume x: "readTranscript k (jn_catalog s) = Some x" "settled env (jn_meetings s) x"
    have "settled env (jn_meetings s1) x" using well x k by (simp add: placed_well_def)
    moreover have "readTranscript k (jn_catalog s1) = Some x" using c [of k] x(1) k by simp
    moreover have "k \<notin> tr_id ` set rs" using k by simp
    ultimately show "settled env (jn_meetings s2) x" using one by blast }
  assume k: "k \<in> tr_id ` set (r # rs)"
  show "\<exists>x. readTranscript k (jn_catalog s2) = Some x \<and> settled env (jn_meetings s2) x"
  proof (cases "k = tr_id r")
    case True
    have "settled env (jn_meetings s1) r'" using well by (simp add: placed_well_def)
    with one c [of k] True new show ?thesis by simp
  next
    case False
    with k have "k \<in> tr_id ` set rs" by simp
    with one show ?thesis by blast
  qed
next
  show "calendars (listMeetings (me_parse env) (jn_meetings s2)) = calendars (listMeetings (me_parse env) (jn_meetings s))"
    using well rest by (simp add: placed_well_def settles_def)
qed

lemma place_all_settles:
  assumes "pass_ready (jv_meeting env) meetings s" "distinct (map tr_id rs)"
    and "\<forall>r\<in>set rs. readTranscript (tr_id r) (jn_catalog s) = Some r" and quiet: "\<And>x. consumers (jv_catalog env) x = None"
  shows "\<exists>n ms s'. place_all env meetings rs s = (Inr n, s') \<and> pass_ready (jv_meeting env) ms s'
    \<and> settles (jv_meeting env) rs s s'"
  using assms(1-3)
proof (induction rs arbitrary: meetings s)
  case Nil
  then show ?case by (intro exI [of _ 0] exI [of _ meetings] exI [of _ s]) (simp add: settles_self)
next
  case (Cons r rs)
  have "readTranscript (tr_id r) (jn_catalog s) = Some r" using Cons.prems(3) by simp
  from place_settles [OF Cons.prems(1) this quiet] obtain l ms s1 r' where p: "place env meetings r s = (Inr (l, ms), s1)"
    and well: "placed_well (jv_meeting env) s r ms s1 r'" by blast
  have new: "tr_id r \<notin> tr_id ` set rs" using Cons.prems(2) by simp
  have still: "\<forall>x\<in>set rs. readTranscript (tr_id x) (jn_catalog s1) = Some x"
  proof
    fix x assume x: "x \<in> set rs"
    then have "tr_id x \<noteq> tr_id r" using new by (metis imageI)
    then have "readTranscript (tr_id x) (jn_catalog s1) = readTranscript (tr_id x) (jn_catalog s)"
      by (simp only: placed_wellD [OF well] readTranscript_update if_False)
    also have "\<dots> = Some x" by (rule bspec [OF Cons.prems(3)]) (rule list.set_intros(2) [OF x])
    finally show "readTranscript (tr_id x) (jn_catalog s1) = Some x" .
  qed
  have "pass_ready (jv_meeting env) ms s1" "distinct (map tr_id rs)"
    using well Cons.prems(2) by (simp_all add: placed_well_def)
  from Cons.IH [OF this still] obtain n ms' s2 where rest: "place_all env ms rs s1 = (Inr n, s2)"
    "pass_ready (jv_meeting env) ms' s2" "settles (jv_meeting env) rs s1 s2" by blast
  have "place_all env meetings (r # rs) s = (Inr ((if l then 1 else 0) + n), s2)"
    using p rest(1) by (simp only: place_all_step prod.case sum.case andThen_run ret_run)
  with rest(2) settles_cons [OF well rest(3) new] show ?case by blast
qed

text \<open>When every Transcript is settled, a pass does nothing.\<close>

lemma place_all_settled:
  assumes "pass_ready (jv_meeting env) meetings s" "\<forall>r\<in>set rs. settled (jv_meeting env) (jn_meetings s) r"
  shows "place_all env meetings rs s = (Inr 0, s)"
  using assms(2)
proof (induction rs)
  case (Cons r rs)
  then show ?case using place_settled [OF assms(1), of r] by (simp add: andThen_run)
qed simp

text \<open>A state that a pass may begin in.\<close>

definition joinable :: "join_env \<Rightarrow> join_state \<Rightarrow> bool" where
  "joinable env s \<longleftrightarrow> pass_ready (jv_meeting env) (listMeetings (me_parse (jv_meeting env)) (jn_meetings s)) s"

lemma joinable_ready: "pass_ready (jv_meeting env) ms s \<Longrightarrow> joinable env s"
  by (simp add: joinable_def pass_ready_def)

lemma associateTranscripts_settles:
  assumes ready: "joinable env s" and quiet: "\<And>x. consumers (jv_catalog env) x = None"
  obtains n s' where "associateTranscripts env s = (Inr n, s')" "joinable env s'"
    "settles (jv_meeting env) (the_transcripts s) s s'"
    "\<forall>r\<in>set (the_transcripts s'). settled (jv_meeting env) (jn_meetings s') r"
proof -
  note conclude = that
  have ok: "transcripts_ok (jn_catalog s)" using ready by (simp add: joinable_def pass_ready_def)
  have all: "\<forall>r\<in>set (the_transcripts s). readTranscript (tr_id r) (jn_catalog s) = Some r"
    unfolding the_transcripts_def using listTranscripts_iff [OF ok] by blast
  have "distinct (map tr_id (the_transcripts s))" unfolding the_transcripts_def by (rule distinct_transcripts [OF ok])
  from place_all_settles [OF ready [unfolded joinable_def] this all quiet] obtain n ms s' where
    s': "associateTranscripts env s = (Inr n, s')" "pass_ready (jv_meeting env) ms s'"
      "settles (jv_meeting env) (the_transcripts s) s s'"
    unfolding associateTranscripts_def by blast
  have "settled (jv_meeting env) (jn_meetings s') r" if r: "r \<in> set (the_transcripts s')" for r
  proof -
    have ok': "transcripts_ok (jn_catalog s')" using s'(2) by (simp add: pass_ready_def)
    with r have r': "readTranscript (tr_id r) (jn_catalog s') = Some r"
      unfolding the_transcripts_def using listTranscripts_iff by blast
    have "tr_id r \<in> tr_id ` set (the_transcripts s)"
    proof (rule ccontr)
      assume out: "tr_id r \<notin> tr_id ` set (the_transcripts s)"
      with s'(3) r' have "readTranscript (tr_id r) (jn_catalog s) = Some r" by (simp add: settles_def)
      from listed [OF ok this] out show False by (simp add: the_transcripts_def)
    qed
    then obtain x where "readTranscript (tr_id r) (jn_catalog s') = Some x" "settled (jv_meeting env) (jn_meetings s') x"
      using s'(3) unfolding settles_def by blast
    with r' show ?thesis by (simp only: option.inject)
  qed
  then show thesis by (intro conclude [OF s'(1) joinable_ready [OF s'(2)] s'(3)] ballI)
qed

end
