(* ===== verification/MeetingSteps.thy ===== *)
theory MeetingSteps
  imports MeetingPasses
begin

section \<open>What every operation of the join keeps\<close>

text \<open>
  The operations of the join change the two stores in three ways only: a Transcript is attached, a Meeting is made for
  a Transcript, and a Meeting without an occurrence is removed.  What these three keep every operation keeps
  (\<open>join_invariant\<close>); it is used for the soundness of both stores and for the Calendar Meetings, which stay as they are.
\<close>

locale join_invariant =
  fixes env :: join_env and P :: "join_state \<Rightarrow> bool"
  assumes keeps_attach: "keeps P (attach env tid mm a)"
    and keeps_create: "keeps P (on_meetings (createFromTranscript at input))"
    and keeps_remove: "P s \<Longrightarrow> the_meeting mid s = Some x \<Longrightarrow> mt_occurrenceKey x = None \<Longrightarrow>
      P (s\<lparr>jn_meetings := snd (removeMeeting mid (jn_meetings s))\<rparr>)"
begin

lemma attachRecord_keeps: "keeps P (attachRecord env r mm a)"
  unfolding attachRecord_def by (intro keeps_intros keeps_attach)

lemma carryRosterAcross_keeps: "keeps P (carryRosterAcross env r m)"
  unfolding carryRosterAcross_def by (intro keeps_intros keeps_attach)

lemma forgetEmptyShell_keeps: "keeps P (forgetEmptyShell mid)"
  using keeps_remove by (auto simp: keeps_def forgetEmptyShell_def split: option.splits)

lemma recordCandidates_keeps: "keeps P (recordCandidates env r m a)"
  unfolding recordCandidates_def by (cases "tr_association r") (auto intro!: keeps_intros keeps_attach)

lemmas stages = keeps_ret keeps_throw keeps_andThen attachRecord_keeps carryRosterAcross_keeps forgetEmptyShell_keeps
  recordCandidates_keeps keeps_create

lemma place_keeps: "keeps P (place env meetings r)"
  unfolding keeps_def
proof (intro allI impI)
  fix s assume "P s"
  have run: "P (snd (m s))" if "keeps P m" for m :: "(bool \<times> meeting list) join_cmd" by (rule keepsD [OF that \<open>P s\<close>])
  show "P (snd (place env meetings r s))"
    unfolding place_def Let_def
    by (auto split: option.splits sum.splits association_decision.splits if_splits intro!: run stages simp: \<open>P s\<close>)
qed

lemma place_all_keeps: "keeps P (place_all env meetings rs)"
  by (induction rs arbitrary: meetings) (auto intro!: stages place_keeps)

lemma associateTranscripts_keeps: "keeps P (associateTranscripts env)"
  using place_all_keeps by (simp add: keeps_def associateTranscripts_def)

lemma attachTranscript_keeps: "keeps P (attachTranscript env tid mm)"
  unfolding keeps_def
proof (intro allI impI)
  fix s assume "P s"
  have run: "P (snd (m s))" if "keeps P m" for m :: "bool join_cmd" by (rule keepsD [OF that \<open>P s\<close>])
  show "P (snd (attachTranscript env tid mm s))"
    unfolding attachTranscript_def by (auto split: option.splits intro!: run stages simp: \<open>P s\<close>)
qed

end

lemma attach_meetings: "jn_meetings (snd (attach env tid mm a s)) = jn_meetings s"
  by (simp add: attach_def split: prod.splits sum.splits)

lemma attach_catalog:
  "jn_catalog (snd (attach env tid mm a s)) = snd (attachMeeting (jv_catalog env) tid mm a (jn_catalog s))"
  by (simp add: attach_def split: prod.splits sum.splits)

text \<open>Attaching leaves the Meetings.\<close>

lemma attachTranscript_meetings: "keeps (\<lambda>s. jn_meetings s = M) (attachTranscript env tid mm)"
  by (auto simp: keeps_def attachTranscript_def attachRecord_def snd_after attach_meetings split: option.splits)

text \<open>A merge attaches, and removes a Meeting without an occurrence last.\<close>

lemma merge_run:
  assumes "the_meeting src s = Some source" "mt_occurrenceKey source = None" "key \<noteq> []"
    "findByOccurrenceKey key (jn_meetings s) = Some target"
    "forEach (\<lambda>r. attachTranscript env (tr_id r) (matched_calendar (jv_meeting env) target)) (transcriptsForMeeting src s) s = (res, s1)"
  shows "mergeTranscriptShell env src key s = (case res of Inl e \<Rightarrow> (Inl e, s1)
    | Inr _ \<Rightarrow> let s2 = s1\<lparr>jn_meetings := snd (removeMeeting src (jn_meetings s))\<rparr> in
        (Inr (case the_meeting (mt_id target) s2 of Some m \<Rightarrow> m | None \<Rightarrow> target), s2))"
    and "jn_meetings s1 = jn_meetings s"
proof -
  have src: "mt_id source = src" using getMeeting_SomeD assms(1) by (auto simp: the_meeting_def)
  have "keeps (\<lambda>x. jn_meetings x = jn_meetings s)
      (forEach (\<lambda>r. attachTranscript env (tr_id r) (matched_calendar (jv_meeting env) target)) (transcriptsForMeeting src s))"
    by (intro keeps_forEach attachTranscript_meetings)
  from keepsD [OF this, of s] assms(5) show m: "jn_meetings s1 = jn_meetings s" by simp
  show "mergeTranscriptShell env src key s = (case res of Inl e \<Rightarrow> (Inl e, s1)
    | Inr _ \<Rightarrow> let s2 = s1\<lparr>jn_meetings := snd (removeMeeting src (jn_meetings s))\<rparr> in
        (Inr (case the_meeting (mt_id target) s2 of Some m \<Rightarrow> m | None \<Rightarrow> target), s2))"
    using assms m src by (cases res) (simp_all add: mergeTranscriptShell_def andThen_run on_meetings_def split_def Let_def)
qed

lemma merge_refused:
  "the_meeting src s = None \<or> (\<exists>x. the_meeting src s = Some x \<and> mt_occurrenceKey x \<noteq> None) \<or> key = []
     \<or> findByOccurrenceKey key (jn_meetings s) = None \<Longrightarrow> \<exists>e. mergeTranscriptShell env src key s = (Inl e, s)"
  by (auto simp: mergeTranscriptShell_def split: option.splits)

lemma merge_cases:
  obtains e where "mergeTranscriptShell env src key s = (Inl e, s)"
  | source target res s1 where "the_meeting src s = Some source" "mt_occurrenceKey source = None"
    "findByOccurrenceKey key (jn_meetings s) = Some target"
    "forEach (\<lambda>r. attachTranscript env (tr_id r) (matched_calendar (jv_meeting env) target)) (transcriptsForMeeting src s) s = (res, s1)"
    "jn_meetings s1 = jn_meetings s"
    "mergeTranscriptShell env src key s = (case res of Inl e \<Rightarrow> (Inl e, s1)
      | Inr _ \<Rightarrow> let s2 = s1\<lparr>jn_meetings := snd (removeMeeting src (jn_meetings s))\<rparr> in
        (Inr (case the_meeting (mt_id target) s2 of Some m \<Rightarrow> m | None \<Rightarrow> target), s2))"
proof (cases "the_meeting src s = None \<or> (\<exists>x. the_meeting src s = Some x \<and> mt_occurrenceKey x \<noteq> None) \<or> key = []
     \<or> findByOccurrenceKey key (jn_meetings s) = None")
  case True
  then show thesis using merge_refused that(1) by blast
next
  case False
  then obtain source target where st: "the_meeting src s = Some source" "mt_occurrenceKey source = None" "key \<noteq> []"
    "findByOccurrenceKey key (jn_meetings s) = Some target" by auto
  obtain res s1 where run: "forEach (\<lambda>r. attachTranscript env (tr_id r) (matched_calendar (jv_meeting env) target))
    (transcriptsForMeeting src s) s = (res, s1)"
    by (cases "forEach (\<lambda>r. attachTranscript env (tr_id r) (matched_calendar (jv_meeting env) target)) (transcriptsForMeeting src s) s")
  show thesis by (rule that(2) [OF st(1,2,4) run merge_run(2,1) [OF st run]])
qed

context join_invariant
begin

lemma mergeTranscriptShell_keeps: "keeps P (mergeTranscriptShell env src key)"
  unfolding keeps_def
proof (intro allI impI)
  fix s assume s: "P s"
  show "P (snd (mergeTranscriptShell env src key s))"
  proof (cases rule: merge_cases [of env src key s])
    case (1 e)
    with s show ?thesis by simp
  next
    case (2 source target res s1)
    have "keeps P (forEach (\<lambda>r. attachTranscript env (tr_id r) (matched_calendar (jv_meeting env) target))
        (transcriptsForMeeting src s))"
      by (intro keeps_forEach attachTranscript_keeps)
    from keepsD [OF this s] 2(4) have s1: "P s1" by simp
    have "the_meeting src s1 = Some source" using 2(1,5) by (simp add: the_meeting_def)
    from keeps_remove [OF s1 this 2(2)] 2(5,6) s1 show ?thesis by (cases res) (simp_all add: Let_def)
  qed
qed

end

subsection \<open>Both stores stay sound\<close>

definition join_ok :: "join_state \<Rightarrow> bool" where
  "join_ok s \<longleftrightarrow> meetings_ok (jn_meetings s) \<and> catalog_ok (jn_catalog s)"

lemma attachMeeting_ok: "catalog_ok c \<Longrightarrow> catalog_ok (snd (attachMeeting env tid mm a c))"
  by (rule catalog_steps_ok [OF r_into_rtranclp [where r = catalog_step]]) (rule step_attach)

interpretation sound: join_invariant env join_ok for env
proof unfold_locales
  show "keeps join_ok (attach env tid mm a)" for tid mm a
    by (simp add: keeps_def join_ok_def attach_meetings attach_catalog attachMeeting_ok)
  show "keeps join_ok (on_meetings (createFromTranscript at input))" for at input
    using createFromTranscript_ok by (auto simp: keeps_def join_ok_def on_meetings_def split_def)
  show "join_ok (s\<lparr>jn_meetings := snd (removeMeeting mid (jn_meetings s))\<rparr>)" if "join_ok s" for s mid
    using that removeMeeting_ok by (simp add: join_ok_def)
qed

text \<open>
  The steps of the two stores together: the Calendar's Meetings as they are read, the operations of the join, and
  those of the Catalog.  A new Calendar Meeting has an identity that no Meeting has yet.
\<close>

inductive join_step :: "join_state \<Rightarrow> join_state \<Rightarrow> bool" where
  step_calendar: "(mt_id (fst (upsertFromCalendar at hex input (jn_meetings s))) \<in> mt_id ` set (readMeetings (jn_meetings s)) \<Longrightarrow>
      findByOccurrenceKey (ci_occurrenceKey input) (jn_meetings s) \<noteq> None) \<Longrightarrow>
    join_step s (s\<lparr>jn_meetings := snd (upsertFromCalendar at hex input (jn_meetings s))\<rparr>)"
| step_history: "join_step s (s\<lparr>jn_meetings := writeHistoryMark mark (jn_meetings s)\<rparr>)"
| step_join: "join_step s (snd (associateTranscripts env s))"
| step_confirm: "join_step s (snd (attachTranscript env tid mm s))"
| step_merge: "join_step s (snd (mergeTranscriptShell env src key s))"
| step_catalog: "catalog_step (jn_catalog s) c \<Longrightarrow> join_step s (s\<lparr>jn_catalog := c\<rparr>)"

lemma join_step_ok: "join_step s s' \<Longrightarrow> join_ok s \<Longrightarrow> join_ok s'"
proof (induction rule: join_step.induct)
  case (step_calendar at hex input s)
  then show ?case using upsertFromCalendar_ok by (simp add: join_ok_def)
next
  case (step_history s mark)
  then show ?case by (simp add: join_ok_def writeHistoryMark_def meetings_ok_def readMeetings_def)
next
  case (step_catalog s c)
  have "catalog_ok c" if "catalog_ok (jn_catalog s)"
    by (rule catalog_steps_ok [OF r_into_rtranclp [where r = catalog_step, OF step_catalog.hyps] that])
  with step_catalog show ?case by (simp add: join_ok_def)
qed (blast intro: keepsD sound.associateTranscripts_keeps sound.attachTranscript_keeps sound.mergeTranscriptShell_keeps)+

lemma join_steps_ok: "join_step\<^sup>*\<^sup>* s s' \<Longrightarrow> join_ok s \<Longrightarrow> join_ok s'"
  by (induction rule: rtranclp_induct) (auto intro: join_step_ok)

definition empty_join :: join_state where
  "empty_join = \<lparr>jn_meetings = \<lparr>ms_meetings = NoFile, ms_history = NoFile\<rparr>, jn_catalog = empty_catalog\<rparr>"

lemma empty_join_ok: "join_ok empty_join"
  by (simp add: join_ok_def empty_join_def meetings_ok_def readMeetings_def empty_catalog_ok)

subsection \<open>The Calendar Meetings stay\<close>

definition calendar_is :: "meeting list \<Rightarrow> join_state \<Rightarrow> bool" where
  "calendar_is ms s \<longleftrightarrow> meetings_ok (jn_meetings s) \<and> calendars (readMeetings (jn_meetings s)) = ms"

interpretation calendar: join_invariant env "calendar_is ms" for env ms
proof unfold_locales
  show "keeps (calendar_is ms) (attach env tid mm a)" for tid mm a
    by (simp add: keeps_def calendar_is_def attach_meetings)
  show "keeps (calendar_is ms) (on_meetings (createFromTranscript at input))" for at input
    unfolding keeps_def
  proof (intro allI impI)
    fix s :: join_state assume s: "calendar_is ms s"
    have "meetings_ok (snd (createFromTranscript at input (jn_meetings s)))"
      using s createFromTranscript_ok by (simp add: calendar_is_def)
    moreover have "calendars (readMeetings (snd (createFromTranscript at input (jn_meetings s)))) = ms"
      using s by (cases rule: createFromTranscript_cases [of input "jn_meetings s" at])
        (simp_all add: calendar_is_def, simp add: calendars_def)
    ultimately show "calendar_is ms (snd (on_meetings (createFromTranscript at input) s))"
      by (simp add: calendar_is_def on_meetings_def split_def)
  qed
  show "calendar_is ms (s\<lparr>jn_meetings := snd (removeMeeting mid (jn_meetings s))\<rparr>)"
    if s: "calendar_is ms s" and x: "the_meeting mid s = Some x" "mt_occurrenceKey x = None" for s mid x
  proof -
    have ok: "meetings_ok (jn_meetings s)" using s by (simp add: calendar_is_def)
    have "calendars (readMeetings (snd (removeMeeting mid (jn_meetings s)))) = calendars (readMeetings (jn_meetings s))"
      using calendars_removed [OF ok _ x(2)] x(1) by (simp add: the_meeting_def)
    with s removeMeeting_ok [OF ok] show ?thesis by (simp add: calendar_is_def)
  qed
qed

subsection \<open>What a merge carries across\<close>

lemma find_transcript: "transcripts_ok c \<Longrightarrow> find_by tr_id k (listTranscripts c) = readTranscript k c"
proof (cases "readTranscript k c")
  case None
  assume ok: "transcripts_ok c"
  have "find_by tr_id k (listTranscripts c) = None"
    using listTranscripts_iff [OF ok] None by (auto simp: find_by_None_iff)
  with None show ?thesis by simp
next
  case (Some r)
  assume ok: "transcripts_ok c"
  have id: "tr_id r = k" using ok Some unfolding transcripts_ok_def by blast
  have "find_by tr_id (tr_id r) (listTranscripts c) = Some r"
    by (rule find_by_distinct [OF distinct_transcripts [OF ok] listed [OF ok Some]])
  with Some id show ?thesis by simp
qed

lemma attachTranscript_run:
  assumes "transcripts_ok (jn_catalog s)" "attachTranscript env tid mm s = (Inr b, s')"
  obtains r r' where "readTranscript tid (jn_catalog s) = Some r" "artifact r' = artifact r" "tr_meetingId r' = Some (mm_id mm)"
    "s' = s\<lparr>jn_catalog := updateTranscript r' (jn_catalog s)\<rparr>"
proof -
  obtain r where r: "readTranscript tid (jn_catalog s) = Some r"
    using assms find_transcript [OF assms(1)] by (auto simp: attachTranscript_def the_transcripts_def split: option.splits)
  have id: "tr_id r = tid" using assms(1) r unfolding transcripts_ok_def by blast
  let ?a = "\<lparr>as_basis = OwnerConfirmed, as_signals = [SawOwnerConfirmed], as_candidateMeetingIds = [],
    as_recordedAt = jv_now env tid\<rparr>"
  have run: "attachRecord env r mm ?a s = (Inr b, s')"
    using assms(2) r find_transcript [OF assms(1)] by (simp add: attachTranscript_def the_transcripts_def)
  show thesis
  proof (cases "tr_meetingId r = Some (mm_id mm)")
    case True
    with run have "s' = s" by (simp add: attachRecord_def)
    moreover have "updateTranscript r (jn_catalog s) = jn_catalog s" using updateTranscript_same [of r] r id by simp
    ultimately show thesis using that [OF r refl True] by simp
  next
    case False
    with run obtain u where u: "attach env (tr_id r) mm ?a s = (Inr u, s')"
      by (auto simp: attachRecord_def elim!: andThen_InrE)
    have "s' = s\<lparr>jn_catalog := jn_catalog s'\<rparr>"
      using u by (auto simp: attach_def split: prod.splits sum.splits)
    moreover have "jn_catalog s' = updateTranscript (attached mm ?a r) (jn_catalog s)"
      using attach_catalog [of env "tr_id r" mm ?a s] u r id by (simp add: attachMeeting_state)
    ultimately have s': "s' = s\<lparr>jn_catalog := updateTranscript (attached mm ?a r) (jn_catalog s)\<rparr>" by simp
    show thesis by (rule that [OF r attached_same(2) _ s']) simp
  qed
qed

definition carried :: "string \<Rightarrow> string set \<Rightarrow> catalog_state \<Rightarrow> catalog_state \<Rightarrow> bool" where
  "carried target ks c c' \<longleftrightarrow> (\<forall>k. case readTranscript k c of
     None \<Rightarrow> readTranscript k c' = None
   | Some r \<Rightarrow> if k \<in> ks then \<exists>r'. readTranscript k c' = Some r' \<and> artifact r' = artifact r \<and> tr_meetingId r' = Some target
       else readTranscript k c' = Some r)"

lemma carry_all:
  assumes "transcripts_ok (jn_catalog s)" "forEach (\<lambda>r. attachTranscript env (tr_id r) mm) rs s = (Inr ys, s')"
  shows "carried (mm_id mm) (tr_id ` set rs) (jn_catalog s) (jn_catalog s')"
  using assms
proof (induction rs arbitrary: s ys)
  case Nil
  then show ?case by (simp add: carried_def split: option.splits)
next
  case (Cons x rs)
  from Cons.prems(2) obtain b s1 zs where one: "attachTranscript env (tr_id x) mm s = (Inr b, s1)"
    and rest: "forEach (\<lambda>r. attachTranscript env (tr_id r) mm) rs s1 = (Inr zs, s')"
    by (auto elim!: andThen_InrE)
  from Cons.prems(1) one obtain r r' where r: "readTranscript (tr_id x) (jn_catalog s) = Some r" "artifact r' = artifact r"
    "tr_meetingId r' = Some (mm_id mm)" "s1 = s\<lparr>jn_catalog := updateTranscript r' (jn_catalog s)\<rparr>"
    by (rule attachTranscript_run)
  have id: "tr_id r' = tr_id x" using artifact_id [OF r(2)] r(1) Cons.prems(1) unfolding transcripts_ok_def by metis
  have "identified r" using Cons.prems(1) r(1) unfolding transcripts_ok_def by blast
  then have ok: "transcripts_ok (jn_catalog s1)"
    using r(4) identified_artifact [OF r(2)] transcripts_ok_update [OF Cons.prems(1), of r'] by simp
  note IH = Cons.IH [OF ok rest, unfolded carried_def]
  have c1: "readTranscript k (jn_catalog s1) = (if k = tr_id x then Some r' else readTranscript k (jn_catalog s))" for k
    by (simp only: r(4) id readTranscript_update join_state.simps join_state.update_convs join_state.surjective)
       (simp add: id readTranscript_update)
  show ?case unfolding carried_def
  proof
    fix k
    show "case readTranscript k (jn_catalog s) of None \<Rightarrow> readTranscript k (jn_catalog s') = None
      | Some r \<Rightarrow> if k \<in> tr_id ` set (x # rs)
          then \<exists>r'. readTranscript k (jn_catalog s') = Some r' \<and> artifact r' = artifact r \<and> tr_meetingId r' = Some (mm_id mm)
          else readTranscript k (jn_catalog s') = Some r"
    proof (cases "k = tr_id x")
      case True
      with c1 [of k] have now: "readTranscript k (jn_catalog s1) = Some r'" by simp
      have "\<exists>r''. readTranscript k (jn_catalog s') = Some r'' \<and> artifact r'' = artifact r' \<and> tr_meetingId r'' = Some (mm_id mm)"
        using spec [OF IH, of k] now r(3) by (cases "k \<in> tr_id ` set rs") simp_all
      with True r(1,2) show ?thesis by simp
    next
      case False
      with c1 [of k] have now: "readTranscript k (jn_catalog s1) = readTranscript k (jn_catalog s)" by simp
      have "k \<in> tr_id ` set (x # rs) \<longleftrightarrow> k \<in> tr_id ` set rs" using False by simp
      with spec [OF IH, of k] now show ?thesis by (simp only:)
    qed
  qed
qed

end
