(* ===== verification/MeetingProperties.thy ===== *)
theory MeetingProperties
  imports MeetingSteps CatalogProperties
begin

section \<open>Properties of the Meetings and their Transcripts\<close>

text \<open>
  What places a Transcript on a Meeting, what a standing pass and a merge leave behind, and what they never touch.  One
  theorem describes what the code does with a record its types exclude.
\<close>

subsection \<open>A sample Workspace\<close>

definition sample_meeting_env :: meeting_env where
  "sample_meeting_env = \<lparr>me_parse = (\<lambda>_. None), me_civil = (\<lambda>_ _. None), me_collate = by_code_units\<rparr>"

definition sample_join_env :: join_env where
  "sample_join_env = \<lparr>jv_catalog = sample_catalog_env, jv_meeting = sample_meeting_env, jv_title = (\<lambda>_. NoTitleModel),
     jv_now = (\<lambda>_. ''t'')\<rparr>"

definition sample_calendar :: calendar_input where
  "sample_calendar = \<lparr>ci_occurrenceKey = ''o'', ci_calendarEventId = ''e'', ci_occurrenceId = ''i'', ci_title = ''a'',
     ci_startAt = ''t'', ci_endAt = ''t'', ci_timeZone = None, ci_participants = [], ci_cancelled = False,
     ci_ineligibleReason = None\<rparr>"

definition calendar_m :: meeting where
  "calendar_m = calendar_meeting (\<lambda>_. ''t'') ''h'' sample_calendar None"

definition shell_m :: meeting where
  "shell_m = transcript_meeting ''t'' (created_input sample_join_env first_transcript)"

text \<open>The Workspace with a Calendar Meeting and a Transcript that is not placed, and with one on its own Meeting.\<close>

definition unplaced :: join_state where
  "unplaced = \<lparr>jn_meetings = \<lparr>ms_meetings = Json [Some calendar_m], ms_history = NoFile\<rparr>, jn_catalog = first_revision\<rparr>"

definition placed_transcript :: "association_field \<Rightarrow> transcript_record" where
  "placed_transcript a = first_transcript\<lparr>tr_meetingId := Some (mt_id shell_m), tr_association := a\<rparr>"

definition on_shell :: "association_field \<Rightarrow> join_state" where
  "on_shell a = \<lparr>jn_meetings = \<lparr>ms_meetings = Json [Some calendar_m, Some shell_m], ms_history = NoFile\<rparr>,
     jn_catalog = first_revision\<lparr>kc_transcripts := [(''drive_f_r1'', Some (placed_transcript a))]\<rparr>\<rparr>"

lemma sample_meetings [simp]: "readMeetings (jn_meetings unplaced) = [calendar_m]"
  "readMeetings (jn_meetings (on_shell a)) = [calendar_m, shell_m]"
  by (simp_all add: unplaced_def on_shell_def readMeetings_def map_filter_def)

lemma first_transcript_simps [simp]:
  "tr_id first_transcript = ''drive_f_r1''" "tr_meetingId first_transcript = None" "tr_occurrence first_transcript = None"
  "tr_association first_transcript = NullAssociation" "tr_roster first_transcript = []"
  by (simp_all add: first_transcript_def transcript_of_def newEntry_def sample_turn_def sample_file_def transcriptId_def digits_1 Let_def)

lemma sample_meeting_ids [simp]: "mt_id calendar_m = newMeetingId ''t'' ''h''" "mt_occurrenceKey calendar_m = Some ''o''"
  "mt_id shell_m = transcriptMeetingId ''drive_f_r1''" "mt_occurrenceKey shell_m = None"
  by (simp_all add: calendar_m_def calendar_meeting_def sample_calendar_def shell_m_def created_input_def)

lemma sample_apart [simp]: "newMeetingId ''t'' ''h'' \<noteq> transcriptMeetingId k" "transcriptMeetingId k \<noteq> newMeetingId ''t'' ''h''"
  by (simp_all add: newMeetingId_def transcriptMeetingId_def stamp_of_def)

lemma unplaced_catalog [simp]: "jn_catalog unplaced = first_revision"
  by (simp add: unplaced_def)

lemma unplaced_transcript: "readTranscript k first_revision = (if k = ''drive_f_r1'' then Some first_transcript else None)"
  by (simp add: first_revision_eq readTranscript_def dir_read_def)

lemma unplaced_ok: "join_ok unplaced"
  using first_revision_step by (simp add: join_ok_def meetings_ok_def map_filter_def newMeetingId_def)

lemma unplaced_joinable: "joinable sample_join_env unplaced"
  using unplaced_ok
  by (simp add: joinable_def pass_ready_def join_ok_def catalog_ok_def shells_apart_def unplaced_transcript)

lemma sample_consumers: "consumers (jv_catalog sample_join_env) x = None"
  by (simp add: sample_join_env_def sample_catalog_env_def consumers_def)

subsection \<open>Soundness\<close>

text \<open>C33: Whatever is done to the Workspace's Meetings and Transcripts, one after the other, the Calendar's reads, the
  standing pass, a person's confirmations and merges, and the operations of the Catalog, every Meeting has an identity
  of its own, no two Meetings share a Calendar occurrence, and the files of the Catalog stay sound.\<close>

theorem one_meeting_per_occurrence:
  assumes "join_step\<^sup>*\<^sup>* empty_join s"
  shows "(distinct (map mt_id (readMeetings (jn_meetings s))))
    \<and> (distinct (List.map_filter mt_occurrenceKey (readMeetings (jn_meetings s))))
    \<and> (catalog_ok (jn_catalog s))"
  using join_steps_ok [OF assms empty_join_ok] by (simp_all add: join_ok_def meetings_ok_def)

theorem one_meeting_per_occurrence_witness:
  "distinct (map mt_id (readMeetings (jn_meetings (snd (associateTranscripts sample_join_env
     (empty_join\<lparr>jn_meetings := snd (upsertFromCalendar (\<lambda>_. ''t'') ''h'' sample_calendar (jn_meetings empty_join))\<rparr>))))))"
proof (rule one_meeting_per_occurrence [THEN conjunct1])
  have "join_step empty_join
      (empty_join\<lparr>jn_meetings := snd (upsertFromCalendar (\<lambda>_. ''t'') ''h'' sample_calendar (jn_meetings empty_join))\<rparr>)"
    by (rule step_calendar) (simp add: empty_join_def readMeetings_def)
  then show "join_step\<^sup>*\<^sup>* empty_join (snd (associateTranscripts sample_join_env
      (empty_join\<lparr>jn_meetings := snd (upsertFromCalendar (\<lambda>_. ''t'') ''h'' sample_calendar (jn_meetings empty_join))\<rparr>)))"
    by (rule converse_rtranclp_into_rtranclp) (rule r_into_rtranclp, rule step_join)
qed

text \<open>Neither the standing pass, nor a person's confirmation, nor a merge creates, removes or changes a Meeting of the
  Calendar, whether it succeeds or fails on the way.\<close>

theorem the_join_leaves_the_calendar:
  assumes "meetings_ok (jn_meetings s)"
    and "s' = snd (associateTranscripts env s) \<or> s' = snd (attachTranscript env tid mm s)
      \<or> s' = snd (mergeTranscriptShell env src key s)"
  shows "filter (\<lambda>m. mt_occurrenceKey m \<noteq> None) (readMeetings (jn_meetings s'))
    = filter (\<lambda>m. mt_occurrenceKey m \<noteq> None) (readMeetings (jn_meetings s))"
proof -
  have "calendar_is (calendars (readMeetings (jn_meetings s))) s" using assms(1) by (simp add: calendar_is_def)
  note run = keepsD [OF calendar.associateTranscripts_keeps this] keepsD [OF calendar.attachTranscript_keeps this]
    keepsD [OF calendar.mergeTranscriptShell_keeps this]
  have "calendar_is (calendars (readMeetings (jn_meetings s))) s'" using assms(2) run by auto
  then show ?thesis by (simp add: calendar_is_def calendars_def)
qed

theorem the_join_leaves_the_calendar_witness:
  "filter (\<lambda>m. mt_occurrenceKey m \<noteq> None) (readMeetings (jn_meetings (snd (associateTranscripts sample_join_env unplaced))))
     = [calendar_m]"
  using the_join_leaves_the_calendar [of unplaced "snd (associateTranscripts sample_join_env unplaced)" sample_join_env]
    unplaced_ok by (simp add: join_ok_def)

subsection \<open>The standing pass\<close>

text \<open>C13: Only the source's own occurrence places a Transcript on a Calendar Meeting by itself: after a standing pass, even
  one that failed on the way, every Transcript has the Meeting it had, or the Meeting of its own, or the Meeting, there
  before the pass, of the occurrence the source supplied.  No file name, title, time or speaker moves it, and its text is
  untouched.\<close>

theorem only_a_trusted_occurrence_places_on_the_calendar:
  assumes "transcripts_ok (jn_catalog s)" "readTranscript k (jn_catalog s) = Some r"
  shows "\<exists>r'. readTranscript k (jn_catalog (snd (associateTranscripts env s))) = Some r' \<and> artifact r' = artifact r
    \<and> (tr_meetingId r' = tr_meetingId r \<or> tr_meetingId r' = Some (transcriptMeetingId k)
       \<or> (\<exists>oc m. tr_occurrence r = Some oc \<and> m \<in> set (readMeetings (jn_meetings s))
            \<and> mt_occurrenceKey m = Some (oc_occurrenceKey oc) \<and> tr_meetingId r' = Some (mt_id m)))"
proof -
  have "r \<in> set (the_transcripts s)" unfolding the_transcripts_def by (rule listed [OF assms])
  moreover have "tr_id r = k" using assms unfolding transcripts_ok_def by blast
  ultimately show ?thesis
    using associateTranscripts_effect [OF assms(1), of env] unfolding pass_effect_def moved_def by blast
qed

theorem only_a_trusted_occurrence_places_on_the_calendar_witness:
  "\<exists>r'. readTranscript ''drive_f_r1'' (jn_catalog (snd (associateTranscripts sample_join_env unplaced))) = Some r'
     \<and> tr_meetingId r' \<in> {None, Some (transcriptMeetingId ''drive_f_r1'')}"
  using only_a_trusted_occurrence_places_on_the_calendar [of unplaced "''drive_f_r1''" first_transcript sample_join_env]
    unplaced_ok by (auto simp: join_ok_def catalog_ok_def unplaced_transcript)

text \<open>C32: A standing pass over a Workspace it can settle finishes, and places every Transcript: each one has a Meeting, and
  the Meeting exists.  The pass can settle a Workspace (the predicate joinable) when its Meetings have identities of their own, none of
  them empty, no two of them are of one occurrence, no Calendar Meeting has the identity of a Transcript's own Meeting, the Transcripts are well formed and filed
  under their own identity, every Meeting that a Transcript names exists, and every Transcript has the field that records
  its association: on a record written before that field existed the pass throws instead
  (legacy_transcript_stops_the_pass, below).  No consumer of the catalog's notices fails.\<close>

theorem standing_pass_places_every_transcript:
  assumes "joinable env s" "\<And>x. consumers (jv_catalog env) x = None"
  shows "\<exists>n s'. associateTranscripts env s = (Inr n, s')
    \<and> (\<forall>r\<in>set (the_transcripts s'). \<exists>m. tr_meetingId r = Some (mt_id m) \<and> the_meeting (mt_id m) s' = Some m)"
proof -
  obtain n s' where s': "associateTranscripts env s = (Inr n, s')"
    "joinable env s'" "settles (jv_meeting env) (the_transcripts s) s s'" "\<forall>r\<in>set (the_transcripts s'). settled (jv_meeting env) (jn_meetings s') r"
    by (rule associateTranscripts_settles [OF assms]) (rule that)
  then show ?thesis unfolding settled_def the_meeting_def by blast
qed

theorem standing_pass_places_every_transcript_witness:
  "\<exists>n s'. associateTranscripts sample_join_env unplaced = (Inr n, s')
    \<and> (\<forall>r\<in>set (the_transcripts s'). \<exists>m. tr_meetingId r = Some (mt_id m) \<and> the_meeting (mt_id m) s' = Some m)"
  by (rule standing_pass_places_every_transcript [OF unplaced_joinable sample_consumers])

text \<open>C17: The pass is idempotent: run again at any later time, whatever titles are proposed then, over the Workspace it left,
  it links nothing and writes nothing, so that neither the time of a recorded decision nor any other field changes.  The
  first pass begins in a Workspace it can settle (joinable, as in C32: well-formed Meetings and Transcripts, no Transcript
  whose Meeting is missing or whose association field was never written) and no consumer of the catalog's notices fails
  in it; of the second pass only the platform's reading of dates, time zones and alphabetical order
  (jv_meeting) is the same.\<close>

theorem standing_pass_is_idempotent:
  assumes "joinable env s" "\<And>x. consumers (jv_catalog env) x = None" "jv_meeting env' = jv_meeting env"
  shows "\<exists>n s'. associateTranscripts env s = (Inr n, s') \<and> associateTranscripts env' s' = (Inr 0, s')"
proof -
  obtain n s' where s': "associateTranscripts env s = (Inr n, s')" "joinable env s'"
    "settles (jv_meeting env) (the_transcripts s) s s'"
    "\<forall>r\<in>set (the_transcripts s'). settled (jv_meeting env) (jn_meetings s') r"
    by (rule associateTranscripts_settles [OF assms(1,2)]) (rule that)
  from s'(2) have "joinable env' s'" by (simp add: joinable_def assms(3))
  then have "associateTranscripts env' s' = (Inr 0, s')"
    unfolding associateTranscripts_def joinable_def by (rule place_all_settled) (use s'(4) assms(3) in simp)
  with s'(1) show ?thesis by blast
qed

theorem standing_pass_is_idempotent_witness:
  "\<exists>n s'. associateTranscripts sample_join_env unplaced = (Inr n, s')
    \<and> associateTranscripts (sample_join_env\<lparr>jv_now := (\<lambda>_. ''2027-01-01T08:00:00.000Z'')\<rparr>) s' = (Inr 0, s')"
  by (rule standing_pass_is_idempotent [OF unplaced_joinable sample_consumers]) simp

subsection \<open>Merging\<close>

lemma on_shell_transcripts: "readTranscript k (jn_catalog (on_shell a)) = (if k = ''drive_f_r1'' then Some (placed_transcript a) else None)"
  by (simp add: on_shell_def readTranscript_def dir_read_def)

lemma placed_transcript_simps [simp]:
  "tr_id (placed_transcript a) = ''drive_f_r1''" "tr_meetingId (placed_transcript a) = Some (transcriptMeetingId ''drive_f_r1'')"
  "tr_occurrence (placed_transcript a) = None" "tr_association (placed_transcript a) = a" "tr_roster (placed_transcript a) = []"
  by (simp_all add: placed_transcript_def)

lemma on_shell_ok: "join_ok (on_shell a)"
proof -
  have ok: "transcripts_ok first_revision" using first_revision_step by (simp add: catalog_ok_def)
  have "identified first_transcript"
    using ok unplaced_transcript [of "''drive_f_r1''"] unfolding transcripts_ok_def by auto
  then have "identified (placed_transcript a)" by (simp add: identified_def placed_transcript_def)
  then have "catalog_ok (jn_catalog (on_shell a))"
    using first_revision_step on_shell_transcripts [of _ a]
    by (simp add: catalog_ok_def transcripts_ok_def on_shell_def ledger_keyed_def deletions_ok_def tombstones_ok_def
        readLedger_def readTombstone_def)
  moreover have "meetings_ok (jn_meetings (on_shell a))" by (simp add: meetings_ok_def map_filter_def)
  ultimately show ?thesis by (simp add: join_ok_def)
qed

text \<open>C24: A merge that answers has carried every Transcript of the Transcript-owned Meeting to the Calendar Meeting of the
  occurrence, has moved no other, has forgotten the Meeting it emptied and no other, and answers with the Calendar
  Meeting.\<close>

theorem merge_carries_every_transcript:
  assumes "join_ok s" "mergeTranscriptShell env src key s = (Inr target, s')"
  shows "(findByOccurrenceKey key (jn_meetings s) = Some target)
    \<and> (the_meeting mid s' = (if mid = src then None else the_meeting mid s))
    \<and> (\<forall>k r. readTranscript k (jn_catalog s) = Some r \<longrightarrow> (\<exists>r'. readTranscript k (jn_catalog s') = Some r' \<and>
      artifact r' = artifact r \<and> tr_meetingId r' = (if tr_meetingId r = Some src then Some (mt_id target) else tr_meetingId r)))"
proof (intro conjI)
  have ok: "meetings_ok (jn_meetings s)" "transcripts_ok (jn_catalog s)" using assms(1) by (simp_all add: join_ok_def catalog_ok_def)
  have "findByOccurrenceKey key (jn_meetings s) = Some target
    \<and> (\<forall>mid. the_meeting mid s' = (if mid = src then None else the_meeting mid s))
    \<and> carried (mt_id target) (tr_id ` set (transcriptsForMeeting src s)) (jn_catalog s) (jn_catalog s')"
  proof (cases rule: merge_cases [of env src key s])
    case (1 e)
    with assms(2) show ?thesis by simp
  next
    case (2 source t res s1)
    let ?s2 = "s1\<lparr>jn_meetings := snd (removeMeeting src (jn_meetings s))\<rparr>"
    obtain ys where res: "res = Inr ys" using 2(6) assms(2) by (cases res) simp_all
    have out: "target = (case the_meeting (mt_id t) ?s2 of Some m \<Rightarrow> m | None \<Rightarrow> t)" "s' = ?s2"
      using 2(6) res assms(2) by (simp_all add: Let_def)
    have t: "t \<in> set (readMeetings (jn_meetings s))" "mt_occurrenceKey t = Some key"
      using 2(3) find_by_SomeD [of mt_occurrenceKey "Some key" _ t] by (simp_all add: findByOccurrenceKey_def)
    have there: "the_meeting (mt_id t) s = Some t" using getMeeting_mem [OF ok(1) t(1)] by (simp add: the_meeting_def)
    have "mt_id t \<noteq> src" using there 2(1,2) t(2) by auto
    with there out have "target = t" by (simp add: the_meeting_def getMeeting_remove)
    moreover have "carried (mt_id t) (tr_id ` set (transcriptsForMeeting src s)) (jn_catalog s) (jn_catalog s1)"
      using carry_all [OF ok(2) 2(4) [unfolded res]] by simp
    ultimately show ?thesis using 2(3) out(2) by (simp add: the_meeting_def getMeeting_remove)
  qed
  note all = this
  from all show "findByOccurrenceKey key (jn_meetings s) = Some target"
    and "the_meeting mid s' = (if mid = src then None else the_meeting mid s)" by blast+
  show "\<forall>k r. readTranscript k (jn_catalog s) = Some r \<longrightarrow> (\<exists>r'. readTranscript k (jn_catalog s') = Some r' \<and>
      artifact r' = artifact r \<and> tr_meetingId r' = (if tr_meetingId r = Some src then Some (mt_id target) else tr_meetingId r))"
  proof (intro allI impI)
    fix k r assume r: "readTranscript k (jn_catalog s) = Some r"
    have id: "tr_id r = k" using ok(2) r unfolding transcripts_ok_def by blast
    have on: "k \<in> tr_id ` set (transcriptsForMeeting src s) \<longleftrightarrow> tr_meetingId r = Some src"
    proof
      assume "k \<in> tr_id ` set (transcriptsForMeeting src s)"
      then obtain x where x: "x \<in> set (listTranscripts (jn_catalog s))" "tr_meetingId x = Some src" "tr_id x = k"
        by (auto simp: transcriptsForMeeting_def the_transcripts_def)
      with listTranscripts_iff [OF ok(2)] r have "x = r" by (metis option.inject)
      with x(2) show "tr_meetingId r = Some src" by blast
    next
      assume "tr_meetingId r = Some src"
      with listed [OF ok(2) r] have "r \<in> set (transcriptsForMeeting src s)"
        by (simp add: transcriptsForMeeting_def the_transcripts_def)
      with id show "k \<in> tr_id ` set (transcriptsForMeeting src s)" by blast
    qed
    have "case readTranscript k (jn_catalog s) of None \<Rightarrow> readTranscript k (jn_catalog s') = None
      | Some r \<Rightarrow> if k \<in> tr_id ` set (transcriptsForMeeting src s)
          then \<exists>r'. readTranscript k (jn_catalog s') = Some r' \<and> artifact r' = artifact r \<and> tr_meetingId r' = Some (mt_id target)
          else readTranscript k (jn_catalog s') = Some r"
      using all unfolding carried_def by blast
    with r on show "\<exists>r'. readTranscript k (jn_catalog s') = Some r' \<and> artifact r' = artifact r \<and>
        tr_meetingId r' = (if tr_meetingId r = Some src then Some (mt_id target) else tr_meetingId r)"
      by (cases "tr_meetingId r = Some src") simp_all
  qed
qed

lemma on_shell_list: "the_transcripts (on_shell a) = [placed_transcript a]"
  by (simp add: the_transcripts_def on_shell_def listTranscripts_def)

lemma sample_merge: "fst (mergeTranscriptShell sample_join_env (transcriptMeetingId ''drive_f_r1'') ''o'' (on_shell a)) = Inr calendar_m"
proof -
  let ?f = "forEach (\<lambda>r. attachTranscript sample_join_env (tr_id r) (matched_calendar (jv_meeting sample_join_env) calendar_m))
    (transcriptsForMeeting (transcriptMeetingId ''drive_f_r1'') (on_shell a)) (on_shell a)"
  have r: "readTranscript ''drive_f_r1'' (jn_catalog (on_shell a)) = Some (placed_transcript a)" by (simp add: on_shell_transcripts)
  obtain ys s1 where run: "?f = (Inr ys, s1)"
    by (simp add: transcriptsForMeeting_def on_shell_list attachTranscript_def attachRecord_def andThen_run
        attach_run [OF r sample_consumers])
  have src: "the_meeting (transcriptMeetingId ''drive_f_r1'') (on_shell a) = Some shell_m"
    by (simp add: the_meeting_def getMeeting_def)
  have key: "findByOccurrenceKey ''o'' (jn_meetings (on_shell a)) = Some calendar_m" by (simp add: findByOccurrenceKey_def)
  have "getMeeting (mt_id calendar_m) (jn_meetings (on_shell a)) = Some calendar_m" by (simp add: getMeeting_def)
  then show ?thesis
    using merge_run(1) [OF src _ _ key run] by (simp add: the_meeting_def getMeeting_remove Let_def)
qed

theorem merge_carries_every_transcript_witness:
  "the_meeting (transcriptMeetingId ''drive_f_r1'')
     (snd (mergeTranscriptShell sample_join_env (transcriptMeetingId ''drive_f_r1'') ''o'' (on_shell NullAssociation))) = None"
proof -
  let ?out = "mergeTranscriptShell sample_join_env (transcriptMeetingId ''drive_f_r1'') ''o'' (on_shell NullAssociation)"
  have "?out = (Inr calendar_m, snd ?out)" by (rule prod_eqI) (simp_all add: sample_merge)
  from merge_carries_every_transcript [OF on_shell_ok this, THEN conjunct2, THEN conjunct1] show ?thesis by simp
qed

text \<open>A merge that is refused, or in which carrying a Transcript fails, forgets no Meeting: the Meetings are as they were.\<close>

theorem a_failed_merge_forgets_nothing:
  assumes "fst (mergeTranscriptShell env src key s) = Inl e"
  shows "jn_meetings (snd (mergeTranscriptShell env src key s)) = jn_meetings s"
proof (cases rule: merge_cases [of env src key s])
  case (2 source target res s1)
  with assms show ?thesis by (cases res) (simp_all add: Let_def)
qed simp

theorem a_failed_merge_forgets_nothing_witness:
  "jn_meetings (snd (mergeTranscriptShell sample_join_env (transcriptMeetingId ''drive_f_r1'') [] (on_shell NullAssociation)))
    = jn_meetings (on_shell NullAssociation)"
proof (rule a_failed_merge_forgets_nothing)
  show "fst (mergeTranscriptShell sample_join_env (transcriptMeetingId ''drive_f_r1'') [] (on_shell NullAssociation))
    = Inl TargetOccurrenceKeyRequired"
    by (simp add: mergeTranscriptShell_def the_meeting_def getMeeting_def)
qed

subsection \<open>What a person is offered\<close>

lemma take_best:
  assumes "sorted_wrt (\<lambda>a b. p a b) xs" "a \<in> set (take n xs)" "b \<in> set xs" "b \<notin> set (take n xs)"
  shows "p a b"
proof -
  have "b \<in> set (drop n xs)" using assms(3,4) by (metis append_take_drop_id Un_iff set_append)
  moreover have "sorted_wrt p (take n xs @ drop n xs)" using assms(1) by simp
  ultimately show ?thesis using assms(2) unfolding sorted_wrt_append by blast
qed

lemma nearer_comparator:
  assumes "comparator (me_collate env)"
  shows "comparator (nearer env)"
proof
  note anti = comparator.cmp_antisym [OF assms] and trans = comparator.cmp_trans [OF assms]
  show "sgn (nearer env y x) = - sgn (nearer env x y)" for x y
    using anti [of "mt_startAt (fst y)" "mt_startAt (fst x)"]
    by (cases "snd x = snd y") (simp_all add: nearer_def Let_def, simp add: sgn_if)
  show "nearer env x z \<le> 0" if "nearer env x y \<le> 0" "nearer env y z \<le> 0" for x y z
    using that trans [of "mt_startAt (fst x)" "mt_startAt (fst y)" "mt_startAt (fst z)"]
    by (simp add: nearer_def Let_def split: if_splits)
qed

text \<open>C39: The Meetings a person is offered for a Transcript are at most five, each one a Meeting of the Calendar, other than
  the one the Transcript is on, with some evidence for it; and none that is left out has more.\<close>

theorem near_matches_are_the_best:
  assumes "comparator (me_collate env)" "m \<in> set (findNearMatches env r meetings)"
  shows "(length (findNearMatches env r meetings) \<le> 5)
    \<and> (m \<in> set meetings)
    \<and> (mt_occurrenceKey m \<noteq> None)
    \<and> (Some (mt_id m) \<noteq> tr_meetingId r)
    \<and> (nearMatchScore env r m > 0)
    \<and> (\<forall>x\<in>set meetings. mt_occurrenceKey x \<noteq> None \<longrightarrow> Some (mt_id x) \<noteq> tr_meetingId r \<longrightarrow>
      x \<notin> set (findNearMatches env r meetings) \<longrightarrow> nearMatchScore env r x \<le> nearMatchScore env r m)"
proof (intro conjI)
  let ?scored = "filter (\<lambda>c. snd c > 0) (map (\<lambda>m. (m, nearMatchScore env r m))
    (filter (\<lambda>m. mt_occurrenceKey m \<noteq> None) (filter (\<lambda>m. Some (mt_id m) \<noteq> tr_meetingId r) meetings)))"
  let ?sorted = "js_sort (nearer env) ?scored"
  have eq: "findNearMatches env r meetings = map fst (take 5 ?sorted)" by (simp add: findNearMatches_def)
  have in_scored: "c \<in> set ?scored \<longleftrightarrow> fst c \<in> set meetings \<and> mt_occurrenceKey (fst c) \<noteq> None
    \<and> Some (mt_id (fst c)) \<noteq> tr_meetingId r \<and> snd c = nearMatchScore env r (fst c) \<and> snd c > 0" for c
    by (cases c) auto
  show "length (findNearMatches env r meetings) \<le> 5" unfolding eq by simp
  from assms(2) obtain c where c: "c \<in> set (take 5 ?sorted)" "fst c = m" unfolding eq by auto
  have "c \<in> set ?scored" using in_set_takeD [OF c(1)] by (simp only: set_js_sort)
  note m = this [unfolded in_scored]
  show "m \<in> set meetings" "mt_occurrenceKey m \<noteq> None" "Some (mt_id m) \<noteq> tr_meetingId r" "nearMatchScore env r m > 0"
    using m c(2) by simp_all
  show "\<forall>x\<in>set meetings. mt_occurrenceKey x \<noteq> None \<longrightarrow> Some (mt_id x) \<noteq> tr_meetingId r \<longrightarrow>
      x \<notin> set (findNearMatches env r meetings) \<longrightarrow> nearMatchScore env r x \<le> nearMatchScore env r m"
  proof (intro ballI impI)
    fix x assume x: "x \<in> set meetings" "mt_occurrenceKey x \<noteq> None" "Some (mt_id x) \<noteq> tr_meetingId r"
      "x \<notin> set (findNearMatches env r meetings)"
    show "nearMatchScore env r x \<le> nearMatchScore env r m"
    proof (cases "nearMatchScore env r x > 0")
      case True
      let ?x = "(x, nearMatchScore env r x)"
      have "?x \<in> set ?sorted" unfolding set_js_sort in_scored using x True by simp
      moreover have "?x \<notin> set (take 5 ?sorted)" using x(4) unfolding eq by force
      ultimately have "nearer env c ?x \<le> 0"
        using take_best [OF comparator.sorted_js_sort [OF nearer_comparator [OF assms(1)]] c(1)] by blast
      then show ?thesis using m c(2) by (auto simp: nearer_def Let_def split: if_splits)
    qed simp
  qed
qed

definition sample_candidate :: meeting where
  "sample_candidate = calendar_m\<lparr>mt_participants := [speaker_participant ''b'']\<rparr>"

definition speaking :: transcript_record where
  "speaking = first_transcript\<lparr>tr_speakers := [''b''], tr_source := (tr_source first_transcript)\<lparr>sr_fileName := []\<rparr>\<rparr>"

lemma sample_near: "findNearMatches (sample_meeting_env\<lparr>me_collate := \<lambda>_ _. 0\<rparr>) speaking [sample_candidate] = [sample_candidate]"
proof -
  have "speakersMatch speaking sample_candidate"
    by (simp add: speakersMatch_def speaking_def sample_candidate_def speaker_participant_def or_blank_def) code_simp
  moreover have "transcriptWhen speaking = None"
    unfolding speaking_def first_transcript_def by code_simp
  ultimately show ?thesis
    by (simp add: findNearMatches_def nearMatchScore_def out_of_window_def speaking_def sample_candidate_def)
qed

theorem near_matches_are_the_best_witness:
  "nearMatchScore (sample_meeting_env\<lparr>me_collate := \<lambda>_ _. 0\<rparr>) speaking sample_candidate > 0"
proof (rule near_matches_are_the_best [THEN conjunct2, THEN conjunct2, THEN conjunct2, THEN conjunct2, THEN conjunct1])
  show "comparator (me_collate (sample_meeting_env\<lparr>me_collate := \<lambda>_ _. 0\<rparr>))" by unfold_locales simp_all
  show "sample_candidate \<in> set (findNearMatches (sample_meeting_env\<lparr>me_collate := \<lambda>_ _. 0\<rparr>) speaking [sample_candidate])"
    by (simp add: sample_near)
qed

subsection \<open>Where a promise is not kept\<close>

text \<open>A Transcript placed on its own Meeting before associations were recorded, whose record therefore has no such field,
  does not read as placed for unknown reasons: the standing pass throws at it, whatever comes after it is not placed, and
  the next pass throws at it again.\<close>

theorem legacy_transcript_stops_the_pass:
  assumes "meetings_ok (jn_meetings s)" "the_transcripts s = r # rs" "tr_association r = NeverRecorded"
    and "tr_meetingId r = Some (mt_id m)" "the_meeting (mt_id m) s = Some m" "mt_occurrenceKey m = None"
    and "tr_occurrence r = None"
  shows "associateTranscripts env s = (Inl TypeError, s)"
proof -
  let ?E = "jv_meeting env"
  let ?ms = "listMeetings (me_parse ?E) (jn_meetings s)"
  have m: "m \<in> set (readMeetings (jn_meetings s))"
    using getMeeting_SomeD assms(5) unfolding the_meeting_def by blast
  have ne: "mt_id m \<noteq> []" using assms(1) m unfolding meetings_ok_def by (metis imageI)
  have off: "\<not> on_calendar r ?ms"
  proof
    assume "on_calendar r ?ms"
    then obtain x where x: "find_by mt_id (mt_id m) ?ms = Some x" "mt_occurrenceKey x \<noteq> None"
      using assms(4) by (auto simp: on_calendar_def split: option.splits)
    from find_by_SomeD [OF x(1)] have "x \<in> set (readMeetings (jn_meetings s))" "mt_id x = mt_id m"
      by (simp_all add: listMeetings_def)
    with getMeeting_mem [OF assms(1), of x] assms(5) have "x = m" by (simp add: the_meeting_def)
    with x(2) assms(6) show False by simp
  qed
  have none: "trusted_meeting r ?ms = None" using assms(7) by (simp add: trusted_meeting_def)
  obtain a where "fresh_decision ?E r ?ms (jv_now env (tr_id r)) = Review a"
    using none by (rule_tac fresh_decision_cases [of r ?ms ?E "jv_now env (tr_id r)"]) auto
  then have "place env ?ms r s = (Inl TypeError, s)"
    using assms(3-6) ne off by (simp add: place_def decide_fresh recordCandidates_def)
  then show ?thesis unfolding associateTranscripts_def assms(2) place_all_step by simp
qed

theorem legacy_transcript_stops_the_pass_witness:
  "associateTranscripts sample_join_env (on_shell NeverRecorded) = (Inl TypeError, on_shell NeverRecorded)"
proof (rule legacy_transcript_stops_the_pass)
  show "meetings_ok (jn_meetings (on_shell NeverRecorded))" using on_shell_ok by (simp add: join_ok_def)
  show "the_transcripts (on_shell NeverRecorded) = placed_transcript NeverRecorded # []" by (rule on_shell_list)
  show "the_meeting (mt_id shell_m) (on_shell NeverRecorded) = Some shell_m" by (simp add: the_meeting_def getMeeting_def)
qed simp_all

end
