(* ===== verification/RunStore.thy ===== *)
theory RunStore
  imports JsRegex
begin

section \<open>The Run store\<close>

text \<open>
  \<^verbatim>\<open>apps/server/src/runs.ts\<close>, with the Run identities of \<^verbatim>\<open>paths.ts\<close> and the data types of the Runs in
  \<^verbatim>\<open>packages/shared/src/schemas.ts\<close>.  A Run is a directory: a record \<open>meta.json\<close>, a timeline \<open>events.jsonl\<close> that is only
  ever appended to, and the files of its Module.

  The record is committed by a rename, so a process that dies leaves the old record or the new one.  The timeline is appended
  to in place, so it is modelled to the line: the complete lines, and what follows the last line feed.  A line written
  whole parses as the event it was written from; a line cut short does not parse, and neither does one that two writes have
  run together, since the text of an event closes its braces only with its last character.
\<close>

subsection \<open>Data\<close>

datatype run_status = RunPending | RunRunning | RunBlocked | RunDone | RunSkipped | RunFailed

datatype wait_timeout = NoTimeout | TimeoutAt string

record run_wait =
  rw_requestedAt :: string
  rw_stage :: string
  rw_reason :: string
  rw_timeout :: wait_timeout

record run_meta =
  rm_id :: string
  rm_createdAt :: string
  rm_module :: string
  rm_moduleVersion :: int
  rm_intake :: string
  rm_fileName :: "string option"
  rm_sourceUrl :: "string option"
  rm_externalId :: "string option"
  rm_status :: run_status
  rm_wait :: "run_wait option"
  rm_attempts :: int
  rm_failedStage :: "string option"
  rm_skipReason :: "string option"
  rm_failureHint :: "string option"
  rm_summary :: "string option"
  rm_connectionState :: "string option"

type_synonym js_object = "(string \<times> jsval) list"

record failure_flags =
  ff_connectionState :: "string option"
  ff_eventDetail :: js_object

record run_event =
  re_at :: string
  re_type :: string
  re_detail :: "js_object option"

record run_summary =
  su_id :: string
  su_createdAt :: string
  su_module :: string
  su_intake :: string
  su_fileName :: "string option"
  su_sourceUrl :: "string option"
  su_status :: run_status
  su_wait :: "run_wait option"
  su_skipReason :: "string option"
  su_summary :: "string option"
  su_connectionState :: "string option"
  su_failure :: "(string option \<times> string option) option"

datatype run_outcome = OutcomeDone "string option" js_object | OutcomeSkipped "string option"

record new_run =
  nr_module :: string
  nr_moduleVersion :: int
  nr_intake :: string
  nr_fileName :: "string option"
  nr_sourceUrl :: "string option"
  nr_externalId :: "string option"

definition SHELL_EVENT_TYPES :: "string list" where
  "SHELL_EVENT_TYPES = [''created'', ''stage_started'', ''stage_failed'', ''run_done'', ''run_failed'', ''run_reopened'',
     ''run_blocked'', ''run_resumed'', ''run_recovered'', ''retry_refused'', ''classify_skipped'']"

fun status_text :: "run_status \<Rightarrow> string" where
  "status_text RunPending = ''pending''"
| "status_text RunRunning = ''running''"
| "status_text RunBlocked = ''blocked''"
| "status_text RunDone = ''done''"
| "status_text RunSkipped = ''skipped''"
| "status_text RunFailed = ''failed''"

subsection \<open>Identities\<close>

definition newRunId :: "string \<Rightarrow> string \<Rightarrow> string" where
  "newRunId instant hex = ''run_'' @ filter (\<lambda>c. c \<noteq> CHR ''-'') (take 10 instant) @ ''-''
     @ filter (\<lambda>c. c \<noteq> CHR '':'') (take 8 (drop 11 instant)) @ ''_'' @ hex"

definition hex_char :: "char \<Rightarrow> bool" where
  "hex_char c \<longleftrightarrow> is_digit c \<or> 97 \<le> (of_char c :: nat) \<and> (of_char c :: nat) \<le> 102"

definition RUN_ID_PATTERN :: regex where
  "RUN_ID_PATTERN = seqs [Start False, lit ''run_'', times 8 digit, lit ''-'', times 6 digit, lit ''_'',
     times 8 (OneOf hex_char), End False]"

definition isRunId :: "string \<Rightarrow> bool" where
  "isRunId s \<longleftrightarrow> test RUN_ID_PATTERN s"

subsection \<open>The timeline\<close>

datatype log_line = EventLine run_event | BrokenLine

datatype log_tail = NoTail | TornTail | EventTail run_event

record event_log =
  el_lines :: "log_line list"
  el_tail :: log_tail

definition empty_log :: event_log where
  "empty_log = \<lparr>el_lines = [], el_tail = NoTail\<rparr>"

text \<open>An append starts wherever the last one stopped.\<close>

definition append_event_line :: "run_event \<Rightarrow> event_log \<Rightarrow> event_log" where
  "append_event_line e l = (case el_tail l of
      NoTail \<Rightarrow> l\<lparr>el_lines := el_lines l @ [EventLine e]\<rparr>
    | _ \<Rightarrow> \<lparr>el_lines = el_lines l @ [BrokenLine], el_tail = NoTail\<rparr>)"

text \<open>What a process that dies while it appends may leave: nothing of the line, a part of it, all but its line feed, or all.\<close>

definition torn_appends :: "run_event \<Rightarrow> event_log \<Rightarrow> event_log list" where
  "torn_appends e l = [l, l\<lparr>el_tail := TornTail\<rparr>,
     l\<lparr>el_tail := (case el_tail l of NoTail \<Rightarrow> EventTail e | _ \<Rightarrow> TornTail)\<rparr>, append_event_line e l]"

text \<open>The events of the complete lines, or the number of the first that is damaged.\<close>

fun read_lines :: "nat \<Rightarrow> log_line list \<Rightarrow> nat + run_event list" where
  "read_lines n [] = Inr []"
| "read_lines n (BrokenLine # ls) = Inl n"
| "read_lines n (EventLine e # ls) = (case read_lines (n + 1) ls of Inl k \<Rightarrow> Inl k | Inr es \<Rightarrow> Inr (e # es))"

definition read_log :: "event_log \<Rightarrow> nat + run_event list" where
  "read_log l = (case read_lines 1 (el_lines l) of Inl n \<Rightarrow> Inl n
     | Inr es \<Rightarrow> Inr (es @ (case el_tail l of EventTail e \<Rightarrow> [e] | _ \<Rightarrow> [])))"

subsection \<open>The Runs\<close>

datatype meta_file = MetaMissing | MetaDamaged | MetaStored run_meta

record run_dir =
  rd_meta :: meta_file
  rd_events :: event_log
  rd_files :: "(string \<times> string) list"

text \<open>\<open>rs_ticks\<close> counts the readings of the clock, so that each event has its own.\<close>

record run_store =
  rs_dirs :: "(string \<times> run_dir) list"
  rs_ticks :: nat

definition empty_store :: run_store where
  "empty_store = \<lparr>rs_dirs = [], rs_ticks = 0\<rparr>"

record run_env =
  rv_now :: "nat \<Rightarrow> string"
  rv_hex :: "nat \<Rightarrow> string"

datatype run_error =
    RunMissing string
  | RunDamaged string
  | TimelineDamaged string nat
  | InvalidArtifactName string
  | RunDirExists string

type_synonym 'a run_cmd = "(run_store, run_error, 'a) cmd"

definition run_dir_of :: "string \<Rightarrow> run_store \<Rightarrow> run_dir option" where
  "run_dir_of rid s = map_of (rs_dirs s) rid"

definition alter_dir :: "string \<Rightarrow> (run_dir \<Rightarrow> run_dir) \<Rightarrow> run_store \<Rightarrow> run_store" where
  "alter_dir rid f s = s\<lparr>rs_dirs := map (\<lambda>(k, d). (k, if k = rid then f d else d)) (rs_dirs s)\<rparr>"

definition readMeta :: "string \<Rightarrow> run_store \<Rightarrow> run_error + run_meta" where
  "readMeta rid s = (case run_dir_of rid s of None \<Rightarrow> Inl (RunMissing rid)
     | Some d \<Rightarrow> (case rd_meta d of MetaMissing \<Rightarrow> Inl (RunMissing rid) | MetaDamaged \<Rightarrow> Inl (RunDamaged rid)
         | MetaStored m \<Rightarrow> Inr m))"

definition writeMeta :: "string \<Rightarrow> run_meta \<Rightarrow> unit run_cmd" where
  "writeMeta rid m s = (Inr (), alter_dir rid (\<lambda>d. d\<lparr>rd_meta := MetaStored m\<rparr>) s)"

definition readEvents :: "string \<Rightarrow> run_store \<Rightarrow> run_error + run_event list" where
  "readEvents rid s = (case run_dir_of rid s of None \<Rightarrow> Inr []
     | Some d \<Rightarrow> (case read_log (rd_events d) of Inl n \<Rightarrow> Inl (TimelineDamaged rid n) | Inr es \<Rightarrow> Inr es))"

definition event_now :: "run_env \<Rightarrow> string \<Rightarrow> js_object option \<Rightarrow> run_store \<Rightarrow> run_event" where
  "event_now env type detail s = \<lparr>re_at = rv_now env (rs_ticks s), re_type = type, re_detail = detail\<rparr>"

definition tick :: "run_store \<Rightarrow> run_store" where
  "tick s = s\<lparr>rs_ticks := rs_ticks s + 1\<rparr>"

definition appendEvent :: "run_env \<Rightarrow> string \<Rightarrow> string \<Rightarrow> js_object option \<Rightarrow> unit run_cmd" where
  "appendEvent env rid type detail s = (case run_dir_of rid s of None \<Rightarrow> (Inl (RunMissing rid), tick s)
     | Some _ \<Rightarrow> (Inr (), tick (alter_dir rid
         (\<lambda>d. d\<lparr>rd_events := append_event_line (event_now env type detail s) (rd_events d)\<rparr>) s)))"

subsection \<open>Transitions\<close>

text \<open>\<open>put k v o\<close> is a property in an object literal: a later one of the same name takes the value of an earlier.\<close>

fun put_field :: "string \<Rightarrow> jsval \<Rightarrow> js_object \<Rightarrow> js_object" where
  "put_field k v [] = [(k, v)]"
| "put_field k v ((j, w) # fs) = (if j = k then (k, v) # fs else (j, w) # put_field k v fs)"

definition spread_onto :: "js_object \<Rightarrow> js_object \<Rightarrow> js_object" where
  "spread_onto fs ys = foldl (\<lambda>acc (k, v). put_field k v acc) fs ys"

definition text_or_null :: "string option \<Rightarrow> jsval" where
  "text_or_null t = (case t of None \<Rightarrow> JNull | Some s \<Rightarrow> JStr s)"

definition transition_run ::
  "run_env \<Rightarrow> string \<Rightarrow> (run_meta \<Rightarrow> run_meta) \<Rightarrow> (string \<times> js_object) list \<Rightarrow> run_meta run_cmd" where
  "transition_run env rid change events =
     andThen (query (readMeta rid)) (\<lambda>m.
     andThen (writeMeta rid (change m)) (\<lambda>_.
     andThen (forEach (\<lambda>(t, d). appendEvent env rid t (Some d)) events) (\<lambda>_. ret (change m))))"

definition started_stage :: "run_env \<Rightarrow> string \<Rightarrow> string \<Rightarrow> run_meta run_cmd" where
  "started_stage env rid stage = transition_run env rid (\<lambda>m. m\<lparr>rm_status := RunRunning\<rparr>)
     [(''stage_started'', [(''stage'', JStr stage)])]"

definition failed_change :: "string \<Rightarrow> string \<Rightarrow> failure_flags \<Rightarrow> run_meta \<Rightarrow> run_meta" where
  "failed_change stage hint flags m = m\<lparr>rm_status := RunFailed, rm_wait := None, rm_failedStage := Some stage,
     rm_failureHint := Some hint, rm_connectionState := ff_connectionState flags\<rparr>"

definition failed :: "run_env \<Rightarrow> string \<Rightarrow> string \<Rightarrow> string \<Rightarrow> string \<Rightarrow> failure_flags \<Rightarrow> run_meta run_cmd" where
  "failed env rid stage reason hint flags = transition_run env rid (failed_change stage hint flags)
     [(''stage_failed'', spread_onto (ff_eventDetail flags) [(''stage'', JStr stage), (''error'', JStr reason)]),
      (''run_failed'', spread_onto (ff_eventDetail flags) [(''stage'', JStr stage), (''reason'', JStr reason)])]"

fun timeout_value :: "wait_timeout \<Rightarrow> jsval" where
  "timeout_value NoTimeout = JObj [(''kind'', JStr ''none'')]"
| "timeout_value (TimeoutAt t) = JObj [(''kind'', JStr ''at''), (''at'', JStr t)]"

definition blocked_on :: "run_env \<Rightarrow> string \<Rightarrow> run_wait \<Rightarrow> run_meta run_cmd" where
  "blocked_on env rid w = transition_run env rid (\<lambda>m. m\<lparr>rm_status := RunBlocked, rm_wait := Some w\<rparr>)
     [(''run_blocked'', [(''stage'', JStr (rw_stage w)), (''reason'', JStr (rw_reason w)),
        (''timeout'', timeout_value (rw_timeout w))])]"

definition back_to_pending :: "run_meta \<Rightarrow> run_meta" where
  "back_to_pending m = m\<lparr>rm_status := RunPending, rm_wait := None, rm_failedStage := None, rm_failureHint := None\<rparr>"

definition resumed :: "run_env \<Rightarrow> string \<Rightarrow> string \<Rightarrow> string \<Rightarrow> string \<Rightarrow> run_meta run_cmd" where
  "resumed env rid fromStage requestedBy reason = transition_run env rid back_to_pending
     [(''run_resumed'', [(''fromStage'', JStr fromStage), (''requestedBy'', JStr requestedBy), (''reason'', JStr reason)])]"

definition recovered :: "run_env \<Rightarrow> string \<Rightarrow> string \<Rightarrow> string \<Rightarrow> run_meta run_cmd" where
  "recovered env rid fromStage reason = andThen (query (readMeta rid)) (\<lambda>previous.
     transition_run env rid back_to_pending
       [(''run_recovered'', [(''fromStage'', JStr fromStage), (''previousStatus'', JStr (status_text (rm_status previous))),
          (''reason'', JStr reason)])])"

fun finished :: "run_env \<Rightarrow> string \<Rightarrow> run_outcome \<Rightarrow> run_meta run_cmd" where
  "finished env rid (OutcomeSkipped reason) = transition_run env rid
     (\<lambda>m. m\<lparr>rm_status := RunSkipped, rm_wait := None, rm_skipReason := reason\<rparr>)
     [(''classify_skipped'', [(''skipReason'', text_or_null reason)]), (''run_done'', [(''status'', JStr ''skipped'')])]"
| "finished env rid (OutcomeDone summary detail) = transition_run env rid
     (\<lambda>m. m\<lparr>rm_status := RunDone, rm_wait := None, rm_failedStage := None, rm_summary := summary\<rparr>)
     [(''run_done'', spread_onto [(''status'', JStr ''done'')] detail)]"

definition attemptStarted :: "run_env \<Rightarrow> string \<Rightarrow> int run_cmd" where
  "attemptStarted env rid = andThen (transition_run env rid (\<lambda>m. m\<lparr>rm_attempts := rm_attempts m + 1\<rparr>) [])
     (\<lambda>m. ret (rm_attempts m))"

definition resetAttempts :: "run_env \<Rightarrow> string \<Rightarrow> run_meta run_cmd" where
  "resetAttempts env rid = transition_run env rid (\<lambda>m. m\<lparr>rm_attempts := 0\<rparr>) []"

definition reopen :: "run_env \<Rightarrow> string \<Rightarrow> string \<Rightarrow> string \<Rightarrow> run_meta run_cmd" where
  "reopen env rid fromStage reason = transition_run env rid
     (\<lambda>m. (back_to_pending m)\<lparr>rm_skipReason := None, rm_connectionState := None\<rparr>)
     [(''run_reopened'', [(''fromStage'', JStr fromStage), (''reason'', JStr reason)])]"

subsection \<open>The files of a Module\<close>

definition ARTIFACT_PATTERN :: regex where
  "ARTIFACT_PATTERN = seqs [Start False, OneOf (\<lambda>c. is_letter c \<or> is_digit c),
     Many True (OneOf (\<lambda>c. is_letter c \<or> is_digit c \<or> c \<in> {CHR ''.'', CHR ''_'', CHR ''-''})), End False]"

definition validateArtifactName :: "string \<Rightarrow> run_error + unit" where
  "validateArtifactName name =
     (if \<not> test ARTIFACT_PATTERN name \<or> name = ''meta.json'' \<or> name = ''events.jsonl''
      then Inl (InvalidArtifactName name) else Inr ())"

definition readArtifact :: "string \<Rightarrow> string \<Rightarrow> run_store \<Rightarrow> run_error + string option" where
  "readArtifact rid name s = (case validateArtifactName name of Inl e \<Rightarrow> Inl e
     | Inr _ \<Rightarrow> Inr (case run_dir_of rid s of None \<Rightarrow> None | Some d \<Rightarrow> map_of (rd_files d) name))"

definition writeArtifact :: "string \<Rightarrow> string \<Rightarrow> string \<Rightarrow> unit run_cmd" where
  "writeArtifact rid name content = andThen (check (validateArtifactName name)) (\<lambda>_. \<lambda>s.
     (Inr (), case run_dir_of rid s of
        None \<Rightarrow> s\<lparr>rs_dirs := rs_dirs s @ [(rid, \<lparr>rd_meta = MetaMissing, rd_events = empty_log, rd_files = [(name, content)]\<rparr>)]\<rparr>
      | Some _ \<Rightarrow> alter_dir rid (\<lambda>d. d\<lparr>rd_files := (name, content) # filter (\<lambda>f. fst f \<noteq> name) (rd_files d)\<rparr>) s))"

definition deleteArtifact :: "string \<Rightarrow> string \<Rightarrow> unit run_cmd" where
  "deleteArtifact rid name = andThen (check (validateArtifactName name)) (\<lambda>_. \<lambda>s.
     (Inr (), alter_dir rid (\<lambda>d. d\<lparr>rd_files := filter (\<lambda>f. fst f \<noteq> name) (rd_files d)\<rparr>) s))"

definition ends_with :: "string \<Rightarrow> string \<Rightarrow> bool" where
  "ends_with t s \<longleftrightarrow> drop (length s - length t) s = t"

definition artifactNames :: "string \<Rightarrow> run_store \<Rightarrow> string list" where
  "artifactNames rid s = (case run_dir_of rid s of None \<Rightarrow> []
     | Some d \<Rightarrow> sort (filter (\<lambda>n. n \<noteq> ''meta.json'' \<and> n \<noteq> ''events.jsonl'' \<and> \<not> ends_with ''.tmp'' n) (map fst (rd_files d))))"

subsection \<open>All the Runs\<close>

definition meta_of :: "string \<Rightarrow> string \<Rightarrow> new_run \<Rightarrow> run_meta" where
  "meta_of rid at n = \<lparr>rm_id = rid, rm_createdAt = at, rm_module = nr_module n, rm_moduleVersion = nr_moduleVersion n,
     rm_intake = nr_intake n, rm_fileName = nr_fileName n, rm_sourceUrl = nr_sourceUrl n, rm_externalId = nr_externalId n,
     rm_status = RunPending, rm_wait = None, rm_attempts = 0, rm_failedStage = None, rm_skipReason = None,
     rm_failureHint = None, rm_summary = None, rm_connectionState = None\<rparr>"

definition create :: "run_env \<Rightarrow> new_run \<Rightarrow> string run_cmd" where
  "create env n s =
     (let rid = newRunId (rv_now env (rs_ticks s)) (rv_hex env (rs_ticks s)); s1 = tick s in
      if run_dir_of rid s \<noteq> None then (Inl (RunDirExists rid), s1)
      else let m = meta_of rid (rv_now env (rs_ticks s1)) n;
          s2 = tick s1\<lparr>rs_dirs := rs_dirs s1 @ [(rid, \<lparr>rd_meta = MetaStored m, rd_events = empty_log, rd_files = []\<rparr>)]\<rparr>
        in andThen (appendEvent env rid ''created'' (Some ((''intake'', JStr (nr_intake n))
             # (case nr_fileName n of None \<Rightarrow> [] | Some f \<Rightarrow> [(''fileName'', JStr f)])))) (\<lambda>_. ret rid) s2)"

definition run_exists :: "string \<Rightarrow> run_store \<Rightarrow> bool" where
  "run_exists rid s \<longleftrightarrow> isRunId rid \<and> run_dir_of rid s \<noteq> None"

definition toSummary :: "run_meta \<Rightarrow> run_summary" where
  "toSummary m = \<lparr>su_id = rm_id m, su_createdAt = rm_createdAt m, su_module = rm_module m, su_intake = rm_intake m,
     su_fileName = rm_fileName m, su_sourceUrl = rm_sourceUrl m, su_status = rm_status m, su_wait = rm_wait m,
     su_skipReason = rm_skipReason m, su_summary = rm_summary m, su_connectionState = rm_connectionState m,
     su_failure = (if rm_status m = RunFailed then Some (rm_failedStage m, rm_failureHint m) else None)\<rparr>"

record run_query =
  rq_module :: "string option"
  rq_limit :: "nat option"
  rq_cursor :: "string option"

definition page_full :: "nat option \<Rightarrow> 'a list \<Rightarrow> bool" where
  "page_full limit runs = (case limit of None \<Rightarrow> False | Some n \<Rightarrow> length runs \<ge> n)"

text \<open>The loop over the names, with the Runs found so far and the number of names examined.\<close>

fun page_loop ::
  "run_store \<Rightarrow> run_query \<Rightarrow> string list \<Rightarrow> run_summary list \<Rightarrow> nat \<Rightarrow> run_summary list \<times> nat" where
  "page_loop s q [] runs examined = (runs, examined)"
| "page_loop s q (e # es) runs examined =
     (if page_full (rq_limit q) runs then (runs, examined)
      else case readMeta e s of
          Inl _ \<Rightarrow> page_loop s q es runs (examined + 1)
        | Inr m \<Rightarrow> if rq_module q \<noteq> None \<and> rq_module q \<noteq> Some (rm_module m) then page_loop s q es runs (examined + 1)
            else page_loop s q es (runs @ [toSummary m]) (examined + 1))"

definition listed_names :: "run_store \<Rightarrow> string option \<Rightarrow> string list" where
  "listed_names s cursor = rev (sort (filter (\<lambda>e. isRunId e \<and> (case cursor of None \<Rightarrow> True | Some c \<Rightarrow> e < c))
     (map fst (rs_dirs s))))"

definition list_runs :: "run_query \<Rightarrow> run_store \<Rightarrow> run_summary list \<times> string option" where
  "list_runs q s =
     (let ordered = listed_names s (rq_cursor q); (runs, examined) = page_loop s q ordered [] 0;
          rest = page_full (rq_limit q) runs \<and> examined < length ordered
      in (runs, if rest \<and> runs \<noteq> [] then Some (su_id (last runs)) else None))"

record run_detail =
  dt_summary :: run_summary
  dt_attempts :: int
  dt_files :: "string list"
  dt_meta :: run_meta
  dt_result :: "string option"
  dt_events :: "run_event list"

text \<open>\<open>dt_result\<close> is the text of \<open>result.json\<close>, which the store parses for the page alone and reads nothing into.\<close>

definition run_detail_of :: "string \<Rightarrow> run_store \<Rightarrow> run_error + run_detail option" where
  "run_detail_of rid s =
     (if \<not> run_exists rid s then Inr None
      else case readMeta rid s of Inl e \<Rightarrow> Inl e
        | Inr m \<Rightarrow> (case readEvents rid s of Inl e \<Rightarrow> Inl e
            | Inr es \<Rightarrow> Inr (Some \<lparr>dt_summary = toSummary m, dt_attempts = rm_attempts m, dt_files = artifactNames rid s,
                dt_meta = m, dt_result = (case run_dir_of rid s of None \<Rightarrow> None | Some d \<Rightarrow> map_of (rd_files d) ''result.json''),
                dt_events = es\<rparr>)))"

end
