(* ===== verification/Runner.thy ===== *)
theory Runner
  imports RunStore
begin

section \<open>The Run engine\<close>

text \<open>
  \<^verbatim>\<open>apps/server/src/engine/runner.ts\<close> with the Module contract of \<^verbatim>\<open>engine/module.ts\<close>.  A Runner creates the Runs of one
  Module, works on them one at a time in the order they were enqueued, and hands the Module a context through which every durable
  effect passes.

  The plans of a Module are arguments: the source states their types only, and each Module has its own.  A Module's work
  itself is not one function here but any sequence of calls of its context, since the commands of the API are answered while
  the work awaits something.  Date and time: \<open>ue_parse\<close> is \<open>Date.parse\<close>, without a value where that is not a number, and
  \<open>ue_now\<close> the clock the Runner was given.
\<close>

record 'i retry_plan =
  yp_fromStage :: string
  yp_reason :: string
  yp_input :: 'i
  yp_resetAttempts :: bool
  yp_discard :: "string list"

record 'i resume_plan =
  sp_fromStage :: string
  sp_reason :: string
  sp_input :: 'i

record recovery_state =
  cs_meta :: run_meta
  cs_events :: "run_event list"
  cs_files :: "string list"

record 'i shell_module =
  sm_id :: string
  sm_version :: int
  sm_failureHint :: "string \<Rightarrow> string \<Rightarrow> string"
  sm_planRetry :: "run_meta \<Rightarrow> 'i retry_plan option"
  sm_planResume :: "run_meta \<Rightarrow> 'i resume_plan option"
  sm_planRecovery :: "recovery_state \<Rightarrow> 'i resume_plan option"

record 'i runner_env =
  ue_runs :: run_env
  ue_module :: "'i shell_module"
  ue_parse :: "string \<Rightarrow> int option"
  ue_now :: int
  ue_now_text :: string

text \<open>The work in progress, with the Stages that are open; the outermost first.\<close>

record 'i running_job =
  jb_run :: string
  jb_input :: 'i
  jb_stack :: "string list"

record 'i runner =
  un_runs :: run_store
  un_active :: "string set"
  un_queue :: "(string \<times> 'i) list"
  un_job :: "'i running_job option"
  un_waiting :: "string option"

datatype retry_condition = StatusNotFailed | FailedStageMissing | ModuleDeclined

datatype runner_error =
    StoreError run_error
  | RunNotFound string
  | RunNotRetryable string retry_condition
  | RunNotResumable string
  | SetupRequired string
  | OutsideStage string
  | BlockedHere

type_synonym ('i, 'a) runner_cmd = "('i runner, runner_error, 'a) cmd"

definition on_runs :: "'a run_cmd \<Rightarrow> ('i, 'a) runner_cmd" where
  "on_runs m r = (case m (un_runs r) of
     (Inl e, s) \<Rightarrow> (Inl (StoreError e), r\<lparr>un_runs := s\<rparr>) | (Inr x, s) \<Rightarrow> (Inr x, r\<lparr>un_runs := s\<rparr>))"

definition the_meta :: "string \<Rightarrow> ('i, run_meta) runner_cmd" where
  "the_meta rid = on_runs (query (readMeta rid))"

definition assertReady :: "('i, unit) runner_cmd" where
  "assertReady r = (case un_waiting r of None \<Rightarrow> (Inr (), r) | Some reason \<Rightarrow> (Inl (SetupRequired reason), r))"

definition requireRun :: "string \<Rightarrow> ('i, unit) runner_cmd" where
  "requireRun rid r = (if run_exists rid (un_runs r) then (Inr (), r) else (Inl (RunNotFound rid), r))"

text \<open>A Run that is being worked on, or waits for it, is not enqueued again.\<close>

definition enqueue :: "string \<Rightarrow> 'i \<Rightarrow> ('i, bool) runner_cmd" where
  "enqueue rid input r = (if rid \<in> un_active r then (Inr False, r)
     else (Inr True, r\<lparr>un_active := insert rid (un_active r), un_queue := un_queue r @ [(rid, input)]\<rparr>))"

subsection \<open>Commands\<close>

record run_record =
  rr_intake :: string
  rr_fileName :: "string option"
  rr_sourceUrl :: "string option"
  rr_externalId :: "string option"

definition startRun :: "'i runner_env \<Rightarrow> run_record \<Rightarrow> 'i \<Rightarrow> ('i, string) runner_cmd" where
  "startRun env rec input =
     andThen assertReady (\<lambda>_.
     andThen (on_runs (create (ue_runs env) \<lparr>nr_module = sm_id (ue_module env), nr_moduleVersion = sm_version (ue_module env),
        nr_intake = rr_intake rec, nr_fileName = rr_fileName rec, nr_sourceUrl = rr_sourceUrl rec,
        nr_externalId = rr_externalId rec\<rparr>)) (\<lambda>rid.
     andThen (enqueue rid input) (\<lambda>_. ret rid)))"

text \<open>A Stage that is null or the empty text counts as none.\<close>

definition no_stage :: "run_meta \<Rightarrow> bool" where
  "no_stage m \<longleftrightarrow> rm_failedStage m = None \<or> rm_failedStage m = Some []"

definition canRetryRun :: "'i runner_env \<Rightarrow> string \<Rightarrow> ('i, bool) runner_cmd" where
  "canRetryRun env rid r =
     (if \<not> run_exists rid (un_runs r) then (Inr False, r)
      else andThen (the_meta rid) (\<lambda>m. ret (rm_status m = RunFailed \<and> \<not> no_stage m
        \<and> sm_planRetry (ue_module env) m \<noteq> None)) r)"

fun condition_text :: "retry_condition \<Rightarrow> string" where
  "condition_text StatusNotFailed = ''status_not_failed''"
| "condition_text FailedStageMissing = ''failed_stage_missing''"
| "condition_text ModuleDeclined = ''module_declined''"

definition refusal_detail :: "retry_condition \<Rightarrow> run_meta \<Rightarrow> js_object" where
  "refusal_detail c m = [(''condition'', JStr (condition_text c)), (''status'', JStr (status_text (rm_status m)))]
     @ (if c = ModuleDeclined then [(''failedStage'', text_or_null (rm_failedStage m))] else [])
     @ [(''module'', JStr (rm_module m))]"

definition refuse_retry :: "'i runner_env \<Rightarrow> string \<Rightarrow> retry_condition \<Rightarrow> run_meta \<Rightarrow> ('i, 'a) runner_cmd" where
  "refuse_retry env rid c m =
     andThen (on_runs (appendEvent (ue_runs env) rid ''retry_refused'' (Some (refusal_detail c m)))) (\<lambda>_.
       throw (RunNotRetryable rid c))"

definition carry_out_retry :: "'i runner_env \<Rightarrow> string \<Rightarrow> 'i retry_plan \<Rightarrow> ('i, run_meta) runner_cmd" where
  "carry_out_retry env rid p =
     andThen (if yp_resetAttempts p then andThen (on_runs (resetAttempts (ue_runs env) rid)) (\<lambda>_. ret ()) else ret ()) (\<lambda>_.
     andThen (forEach (\<lambda>name. on_runs (deleteArtifact rid name)) (yp_discard p)) (\<lambda>_.
     andThen (on_runs (reopen (ue_runs env) rid (yp_fromStage p) (yp_reason p))) (\<lambda>m.
     andThen (enqueue rid (yp_input p)) (\<lambda>_. ret m))))"

definition retryRun :: "'i runner_env \<Rightarrow> string \<Rightarrow> ('i, run_meta) runner_cmd" where
  "retryRun env rid =
     andThen assertReady (\<lambda>_.
     andThen (requireRun rid) (\<lambda>_.
     andThen (the_meta rid) (\<lambda>m.
       if rm_status m \<noteq> RunFailed then refuse_retry env rid StatusNotFailed m
       else if no_stage m then refuse_retry env rid FailedStageMissing m
       else case sm_planRetry (ue_module env) m of
           None \<Rightarrow> refuse_retry env rid ModuleDeclined m
         | Some p \<Rightarrow> carry_out_retry env rid p)))"

definition reenterRun :: "'i runner_env \<Rightarrow> string \<Rightarrow> string \<Rightarrow> string \<Rightarrow> 'i \<Rightarrow> ('i, run_meta) runner_cmd" where
  "reenterRun env rid fromStage reason input =
     andThen (requireRun rid) (\<lambda>_.
     andThen (the_meta rid) (\<lambda>m.
     andThen (require (rm_status m = RunDone \<or> rm_status m = RunSkipped) (RunNotResumable rid)) (\<lambda>_.
     andThen (on_runs (reopen (ue_runs env) rid fromStage reason)) (\<lambda>m'.
     andThen (enqueue rid input) (\<lambda>_. ret m')))))"

definition resumeRun :: "'i runner_env \<Rightarrow> string \<Rightarrow> ('i, run_meta) runner_cmd" where
  "resumeRun env rid =
     andThen assertReady (\<lambda>_.
     andThen (requireRun rid) (\<lambda>_.
     andThen (the_meta rid) (\<lambda>m.
     andThen (require (rm_status m = RunBlocked \<and> rm_wait m \<noteq> None) (RunNotResumable rid)) (\<lambda>_.
       case sm_planResume (ue_module env) m of
         None \<Rightarrow> throw (RunNotResumable rid)
       | Some p \<Rightarrow> andThen (on_runs (resumed (ue_runs env) rid (sp_fromStage p) ''module'' (sp_reason p))) (\<lambda>m'.
           andThen (enqueue rid (sp_input p)) (\<lambda>_. ret m'))))))"

subsection \<open>Recovery\<close>

text \<open>The time a wait ends at; a time that is not one has always passed.\<close>

definition still_waiting :: "'i runner_env \<Rightarrow> string \<Rightarrow> bool" where
  "still_waiting env at = (case ue_parse env at of None \<Rightarrow> False | Some t \<Rightarrow> t > ue_now env)"

definition clock_wait :: "run_meta \<Rightarrow> string option" where
  "clock_wait m = (if rm_status m \<noteq> RunBlocked then None
     else case rm_wait m of None \<Rightarrow> None | Some w \<Rightarrow> (case rw_timeout w of NoTimeout \<Rightarrow> None | TimeoutAt at \<Rightarrow> Some at))"

text \<open>Work whose in-memory queue has vanished; a timeline that cannot be read leaves the Run where it stands.\<close>

definition recover_orphan :: "'i runner_env \<Rightarrow> string \<Rightarrow> run_meta \<Rightarrow> ('i, bool) runner_cmd" where
  "recover_orphan env rid m =
     (if rm_status m \<noteq> RunPending \<and> rm_status m \<noteq> RunRunning then ret False
      else andThen (query (\<lambda>r. Inr (run_detail_of (rm_id m) (un_runs r)))) (\<lambda>found. case found of
          Inl _ \<Rightarrow> ret False
        | Inr d \<Rightarrow> (case sm_planRecovery (ue_module env) \<lparr>cs_meta = m, cs_events = (case d of None \<Rightarrow> [] | Some x \<Rightarrow> dt_events x),
              cs_files = (case d of None \<Rightarrow> [] | Some x \<Rightarrow> dt_files x)\<rparr> of
            None \<Rightarrow> ret False
          | Some p \<Rightarrow> andThen (on_runs (recovered (ue_runs env) rid (sp_fromStage p) (sp_reason p))) (\<lambda>_.
              enqueue rid (sp_input p)))))"

definition recover_wait :: "'i runner_env \<Rightarrow> string \<Rightarrow> run_meta \<Rightarrow> string \<Rightarrow> ('i, bool) runner_cmd" where
  "recover_wait env rid m at =
     (if still_waiting env at then ret False
      else case sm_planResume (ue_module env) m of
          None \<Rightarrow> ret False
        | Some p \<Rightarrow> andThen (on_runs (resumed (ue_runs env) rid (sp_fromStage p) ''clock'' (sp_reason p))) (\<lambda>_.
            enqueue rid (sp_input p)))"

definition recover_run :: "'i runner_env \<Rightarrow> string \<Rightarrow> ('i, bool) runner_cmd" where
  "recover_run env rid r =
     (if rid \<in> un_active r \<or> \<not> run_exists rid (un_runs r) then (Inr False, r)
      else andThen (the_meta rid) (\<lambda>m. case clock_wait m of
          Some at \<Rightarrow> recover_wait env rid m at
        | None \<Rightarrow> recover_orphan env rid m) r)"

definition own_runs :: "'i runner_env \<Rightarrow> run_store \<Rightarrow> string list" where
  "own_runs env s = map su_id (fst (list_runs \<lparr>rq_module = Some (sm_id (ue_module env)), rq_limit = None, rq_cursor = None\<rparr> s))"

definition recoverRuns :: "'i runner_env \<Rightarrow> ('i, nat) runner_cmd" where
  "recoverRuns env r = (if un_waiting r \<noteq> None then (Inr 0, r)
     else andThen (forEach (recover_run env) (own_runs env (un_runs r)))
       (\<lambda>counted. ret (length (filter (\<lambda>c. c) counted))) r)"

subsection \<open>The work\<close>

text \<open>The next Run of the queue is taken up once the one before has settled; while the set-up is incomplete it is let go.\<close>

definition settle :: "string \<Rightarrow> 'i runner \<Rightarrow> 'i runner" where
  "settle rid r = r\<lparr>un_job := None, un_active := un_active r - {rid}\<rparr>"

definition take_up :: "'i runner \<Rightarrow> 'i runner" where
  "take_up r = (case (un_job r, un_queue r) of
     (None, (rid, input) # q) \<Rightarrow>
       if un_waiting r \<noteq> None then settle rid (r\<lparr>un_queue := q\<rparr>)
       else r\<lparr>un_queue := q, un_job := Some \<lparr>jb_run = rid, jb_input = input, jb_stack = []\<rparr>\<rparr>
   | _ \<Rightarrow> r)"

definition with_stack :: "(string list \<Rightarrow> string list) \<Rightarrow> 'i runner \<Rightarrow> 'i runner" where
  "with_stack f r = r\<lparr>un_job := map_option (\<lambda>j. j\<lparr>jb_stack := f (jb_stack j)\<rparr>) (un_job r)\<rparr>"

definition inStage :: "'i running_job \<Rightarrow> string \<Rightarrow> ('i, unit) runner_cmd" where
  "inStage j what = require (jb_stack j \<noteq> []) (OutsideStage what)"

text \<open>Entering a Stage; the name stays on the stack even when the start cannot be recorded.\<close>

definition enter_stage :: "'i runner_env \<Rightarrow> 'i running_job \<Rightarrow> string \<Rightarrow> ('i, run_meta) runner_cmd" where
  "enter_stage env j name r = on_runs (started_stage (ue_runs env) (jb_run j) name) (with_stack (\<lambda>st. st @ [name]) r)"

definition leave_stage :: "'i runner \<Rightarrow> 'i runner" where
  "leave_stage r = with_stack butlast r"

text \<open>What a Stage threw: a \<open>StageFailure\<close> has its own hint and flags, anything else the Module's hint and what a model reported.\<close>

record stage_error =
  se_message :: string
  se_hint :: "string option"
  se_flags :: "failure_flags option"
  se_diagnostics :: js_object

definition failure_flags_of :: "stage_error \<Rightarrow> failure_flags" where
  "failure_flags_of e = (case se_flags e of
     None \<Rightarrow> \<lparr>ff_connectionState = None, ff_eventDetail = se_diagnostics e\<rparr>
   | Some flags \<Rightarrow> flags\<lparr>ff_eventDetail := spread_onto (ff_eventDetail flags) (se_diagnostics e)\<rparr>)"

definition fail_stage :: "'i runner_env \<Rightarrow> 'i running_job \<Rightarrow> string \<Rightarrow> stage_error \<Rightarrow> 'i runner \<Rightarrow> 'i runner" where
  "fail_stage env j name e r = leave_stage (snd (on_runs (failed (ue_runs env) (jb_run j) name (se_message e)
     (case se_hint e of Some h \<Rightarrow> h | None \<Rightarrow> sm_failureHint (ue_module env) name (se_message e)) (failure_flags_of e)) r))"

definition ctx_event :: "'i runner_env \<Rightarrow> 'i running_job \<Rightarrow> string \<Rightarrow> js_object option \<Rightarrow> ('i, unit) runner_cmd" where
  "ctx_event env j type detail = andThen (inStage j (''event '' @ type)) (\<lambda>_.
     on_runs (appendEvent (ue_runs env) (jb_run j) type detail))"

definition ctx_attempt :: "'i runner_env \<Rightarrow> 'i running_job \<Rightarrow> ('i, int) runner_cmd" where
  "ctx_attempt env j = andThen (inStage j ''attempt'') (\<lambda>_. on_runs (attemptStarted (ue_runs env) (jb_run j)))"

definition ctx_wait :: "'i runner_env \<Rightarrow> 'i running_job \<Rightarrow> string \<Rightarrow> wait_timeout \<Rightarrow> ('i, unit) runner_cmd" where
  "ctx_wait env j reason timeout = andThen (inStage j ''wait'') (\<lambda>_.
     andThen (on_runs (blocked_on (ue_runs env) (jb_run j) \<lparr>rw_requestedAt = ue_now_text env, rw_stage = last (jb_stack j),
       rw_reason = reason, rw_timeout = timeout\<rparr>)) (\<lambda>_. throw BlockedHere))"

definition ctx_writeFile :: "'i runner_env \<Rightarrow> 'i running_job \<Rightarrow> string \<Rightarrow> string \<Rightarrow> ('i, unit) runner_cmd" where
  "ctx_writeFile env j name content = andThen (inStage j (''write '' @ name)) (\<lambda>_.
     on_runs (writeArtifact (jb_run j) name content))"

text \<open>The work returns how the Run ended, or throws; either way the Run is no longer active.\<close>

definition work_returns :: "'i runner_env \<Rightarrow> 'i running_job \<Rightarrow> run_outcome \<Rightarrow> 'i runner \<Rightarrow> 'i runner" where
  "work_returns env j outcome r = settle (jb_run j) (snd (on_runs (finished (ue_runs env) (jb_run j) outcome) r))"

definition work_throws :: "'i running_job \<Rightarrow> 'i runner \<Rightarrow> 'i runner" where
  "work_throws j r = settle (jb_run j) r"

text \<open>Whether the engine reports, once the work has thrown, that the Run stopped outside a Stage.\<close>

definition reports_stop :: "string \<Rightarrow> 'i runner \<Rightarrow> bool" where
  "reports_stop rid r = (case readMeta rid (un_runs r) of Inl _ \<Rightarrow> False
     | Inr m \<Rightarrow> rm_status m \<notin> {RunDone, RunSkipped, RunFailed})"

end
