(* ===== verification/RunFacts.thy ===== *)
theory RunFacts
  imports RunStore
begin

section \<open>What the Run store keeps\<close>

text \<open>
  The status of a Run as its timeline tells it, the transitions as one rewriting each, the contract that every transition
  of the store fulfils (the locale \<open>honest_transition\<close>: the record keeps its identity, and the events say what the change did), and what is
  left when the process dies in the middle of one.
\<close>

subsection \<open>Directories\<close>

lemma run_dir_of_alter [simp]:
  "run_dir_of k (alter_dir rid f s) = (if k = rid then map_option f (run_dir_of k s) else run_dir_of k s)"
proof -
  have "map_of (map (\<lambda>(k, d). (k, if k = rid then f d else d)) ds) k =
      (if k = rid then map_option f (map_of ds k) else map_of ds k)" for ds
    by (induction ds) auto
  then show ?thesis by (simp add: run_dir_of_def alter_dir_def)
qed

lemma run_dir_of_tick [simp]: "run_dir_of k (tick s) = run_dir_of k s" "run_dir_of k (s\<lparr>rs_ticks := n\<rparr>) = run_dir_of k s"
  by (simp_all add: run_dir_of_def tick_def)

lemma names_alter [simp]: "map fst (rs_dirs (alter_dir rid f s)) = map fst (rs_dirs s)"
  by (simp add: alter_dir_def comp_def case_prod_beta)

lemma ticks_alter [simp]: "rs_ticks (alter_dir rid f s) = rs_ticks s"
  by (simp add: alter_dir_def)

lemma dirs_tick [simp]: "rs_dirs (tick s) = rs_dirs s" "rs_ticks (tick s) = rs_ticks s + 1"
  by (simp_all add: tick_def)

lemma alter_alter: "alter_dir rid f (alter_dir rid g s) = alter_dir rid (\<lambda>d. f (g d)) s"
  by (simp add: alter_dir_def case_prod_beta)

lemma alter_tick: "alter_dir rid f (tick s) = tick (alter_dir rid f s)"
  by (simp add: alter_dir_def tick_def)

lemma alter_ticks: "alter_dir rid f (s\<lparr>rs_ticks := n\<rparr>) = (alter_dir rid f s)\<lparr>rs_ticks := n\<rparr>"
  by (simp add: alter_dir_def)

lemma alter_same: "(\<And>d. f d = d) \<Longrightarrow> alter_dir rid f s = s"
proof -
  assume "\<And>d. f d = d"
  then have "(\<lambda>(k, d). (k, if k = rid then f d else d)) = (\<lambda>p. p)" by (auto simp: fun_eq_iff)
  then show ?thesis by (simp add: alter_dir_def)
qed

subsection \<open>The status a timeline tells\<close>

text \<open>
  The last event of the Shell that says where the Run stands.  The ending of a Run names its status; the two statuses are
  the only ones a Run ends with in this way.
\<close>

definition told_by :: "run_status option \<Rightarrow> run_event \<Rightarrow> run_status option" where
  "told_by told e = (let type = re_type e in
     if type \<in> {''created'', ''run_resumed'', ''run_recovered'', ''run_reopened''} then Some RunPending
     else if type = ''stage_started'' then Some RunRunning
     else if type = ''run_blocked'' then Some RunBlocked
     else if type = ''run_failed'' then Some RunFailed
     else if type = ''run_done'' then Some (case re_detail e of None \<Rightarrow> RunDone
       | Some fs \<Rightarrow> if map_of fs ''status'' = Some (JStr ''skipped'') then RunSkipped else RunDone)
     else told)"

definition told_status :: "run_event list \<Rightarrow> run_status option" where
  "told_status es = foldl told_by None es"

lemma told_status_append: "told_status (es @ es') = foldl told_by (told_status es) es'"
  by (simp add: told_status_def)

lemma told_by_module_event: "type \<notin> set SHELL_EVENT_TYPES \<Longrightarrow> re_type e = type \<Longrightarrow> told_by told e = told"
  by (simp add: told_by_def SHELL_EVENT_TYPES_def Let_def)

fun event_stamps :: "run_env \<Rightarrow> nat \<Rightarrow> (string \<times> js_object) list \<Rightarrow> run_event list" where
  "event_stamps env n [] = []"
| "event_stamps env n ((t, d) # es) = \<lparr>re_at = rv_now env n, re_type = t, re_detail = Some d\<rparr> # event_stamps env (n + 1) es"

lemma length_event_stamps [simp]: "length (event_stamps env n es) = length es"
  by (induction env n es rule: event_stamps.induct) simp_all

text \<open>A timeline without damage.\<close>

definition whole_log :: "run_event list \<Rightarrow> event_log" where
  "whole_log es = \<lparr>el_lines = map EventLine es, el_tail = NoTail\<rparr>"

lemma whole_log_inject [simp]: "whole_log es = whole_log es' \<longleftrightarrow> es = es'"
  by (auto simp: whole_log_def dest: map_injective [OF _ injI])

lemma append_whole [simp]: "append_event_line e (whole_log es) = whole_log (es @ [e])"
  by (simp add: append_event_line_def whole_log_def)

lemma fold_append_whole [simp]: "fold append_event_line es' (whole_log es) = whole_log (es @ es')"
  by (induction es' arbitrary: es) simp_all

lemma read_whole_lines [simp]: "read_lines n (map EventLine es) = Inr es"
  by (induction es arbitrary: n) simp_all

lemma read_whole [simp]: "read_log (whole_log es) = Inr es"
  by (simp add: read_log_def whole_log_def)

lemma read_lines_whole: "read_lines n ls = Inr es \<Longrightarrow> ls = map EventLine es"
proof (induction ls arbitrary: n es)
  case (Cons l ls)
  then show ?case by (cases l) (auto split: sum.splits)
qed simp

lemma read_log_whole: "read_log l = Inr es \<Longrightarrow> el_tail l = NoTail \<Longrightarrow> l = whole_log es"
  by (cases l) (auto simp: read_log_def whole_log_def dest: read_lines_whole split: sum.splits)

lemma read_broken: "BrokenLine \<in> set ls \<Longrightarrow> \<exists>k. read_lines n ls = Inl k"
proof (induction ls arbitrary: n)
  case (Cons l ls)
  show ?case
  proof (cases l)
    case (EventLine e)
    with Cons.prems have "BrokenLine \<in> set ls" by simp
    from Cons.IH [OF this, of "n + 1"] obtain k where "read_lines (n + 1) ls = Inl k" by blast
    then show ?thesis by (simp add: EventLine)
  qed simp
qed simp

subsection \<open>Transitions as one write\<close>

definition after_transition :: "run_env \<Rightarrow> string \<Rightarrow> run_meta \<Rightarrow> (string \<times> js_object) list \<Rightarrow> run_store \<Rightarrow> run_store" where
  "after_transition env rid m events s = (alter_dir rid (\<lambda>d. d\<lparr>rd_meta := MetaStored m,
     rd_events := fold append_event_line (event_stamps env (rs_ticks s) events) (rd_events d)\<rparr>) s)
     \<lparr>rs_ticks := rs_ticks s + length events\<rparr>"

lemma readMeta_dir: "readMeta rid s = Inr m \<longleftrightarrow> (\<exists>d. run_dir_of rid s = Some d \<and> rd_meta d = MetaStored m)"
  by (auto simp: readMeta_def split: option.splits meta_file.splits)

lemma appendEvent_run: "run_dir_of rid s = Some d \<Longrightarrow> appendEvent env rid t x s = (Inr (), tick (alter_dir rid
    (\<lambda>d. d\<lparr>rd_events := append_event_line (event_now env t x s) (rd_events d)\<rparr>) s))"
  by (simp add: appendEvent_def)

lemma append_all_run:
  assumes "run_dir_of rid s \<noteq> None"
  shows "\<exists>us. forEach (\<lambda>(t, d). appendEvent env rid t (Some d)) events s = (Inr us,
    (alter_dir rid (\<lambda>d. d\<lparr>rd_events := fold append_event_line (event_stamps env (rs_ticks s) events) (rd_events d)\<rparr>) s)
      \<lparr>rs_ticks := rs_ticks s + length events\<rparr>)"
  using assms
proof (induction events arbitrary: s)
  case Nil
  then show ?case by (simp add: alter_same)
next
  case (Cons e events)
  obtain t x where e: "e = (t, x)" by force
  let ?s = "tick (alter_dir rid (\<lambda>d. d\<lparr>rd_events := append_event_line (event_now env t (Some x) s) (rd_events d)\<rparr>) s)"
  have first: "appendEvent env rid t (Some x) s = (Inr (), ?s)" using Cons.prems appendEvent_run by blast
  have "run_dir_of rid ?s \<noteq> None" using Cons.prems by simp
  from Cons.IH [OF this] first show ?case
    by (auto simp: e andThen_def event_now_def tick_def alter_ticks alter_alter)
qed

lemma transition_moves:
  "readMeta rid s = Inr m \<Longrightarrow> transition_run env rid change events s = (Inr (change m), after_transition env rid (change m) events s)"
proof -
  assume m: "readMeta rid s = Inr m"
  let ?s = "alter_dir rid (\<lambda>d. d\<lparr>rd_meta := MetaStored (change m)\<rparr>) s"
  have "run_dir_of rid ?s \<noteq> None" using m by (auto simp: readMeta_dir)
  from append_all_run [OF this, of env events] m show ?thesis
    by (auto simp: transition_run_def andThen_def writeMeta_def alter_alter after_transition_def)
qed

lemma transition_refused: "readMeta rid s = Inl e \<Longrightarrow> transition_run env rid change events s = (Inl e, s)"
  by (simp add: transition_run_def)

subsection \<open>The invariant\<close>

definition tells :: "string \<Rightarrow> run_dir \<Rightarrow> bool" where
  "tells rid d \<longleftrightarrow> (\<exists>m es. rd_meta d = MetaStored m \<and> rd_events d = whole_log es \<and> rm_id m = rid
     \<and> told_status es = Some (rm_status m))"

definition store_ok :: "run_store \<Rightarrow> bool" where
  "store_ok s \<longleftrightarrow> distinct (map fst (rs_dirs s)) \<and> (\<forall>(k, d) \<in> set (rs_dirs s). isRunId k \<and> tells k d)"

lemma store_ok_dir: "store_ok s \<Longrightarrow> run_dir_of k s = Some d \<Longrightarrow> isRunId k \<and> tells k d"
  unfolding store_ok_def run_dir_of_def by (auto dest: map_of_SomeD)

lemma store_okI:
  assumes "distinct (map fst (rs_dirs s))" "\<And>k d. run_dir_of k s = Some d \<Longrightarrow> isRunId k \<and> tells k d"
  shows "store_ok s"
  using assms unfolding store_ok_def run_dir_of_def by auto

lemma store_ok_tick [simp]: "store_ok (tick s) = store_ok s" "store_ok (s\<lparr>rs_ticks := n\<rparr>) = store_ok s"
  by (simp_all add: store_ok_def tick_def)

lemma store_ok_alter:
  assumes "store_ok s" "\<And>d. run_dir_of rid s = Some d \<Longrightarrow> tells rid d \<Longrightarrow> tells rid (f d)"
  shows "store_ok (alter_dir rid f s)"
proof (rule store_okI)
  show "distinct (map fst (rs_dirs (alter_dir rid f s)))" using assms(1) by (simp add: store_ok_def)
  show "isRunId k \<and> tells k d" if "run_dir_of k (alter_dir rid f s) = Some d" for k d
    using that assms(2) store_ok_dir [OF assms(1), of k] by (auto split: if_splits)
qed

subsection \<open>The contract of a transition\<close>

locale honest_transition =
  fixes env :: run_env and change :: "run_meta \<Rightarrow> run_meta" and events :: "(string \<times> js_object) list"
  assumes keeps_identity: "rm_id (change m) = rm_id m"
    and events_tell: "foldl told_by (Some (rm_status m)) (event_stamps env n events) = Some (rm_status (change m))"
begin

lemma keeps_store_ok: "store_ok s \<Longrightarrow> store_ok (snd (transition_run env rid change events s))"
proof (cases "readMeta rid s")
  case (Inr m)
  assume ok: "store_ok s"
  have "store_ok (alter_dir rid (\<lambda>d. d\<lparr>rd_meta := MetaStored (change m),
      rd_events := fold append_event_line (event_stamps env (rs_ticks s) events) (rd_events d)\<rparr>) s)" (is "store_ok (alter_dir rid ?f s)")
  proof (rule store_ok_alter [OF ok])
    fix d assume d: "run_dir_of rid s = Some d" "tells rid d"
    from Inr d(1) have "rd_meta d = MetaStored m" by (auto simp: readMeta_dir)
    with d(2) obtain es where es: "rd_events d = whole_log es" "rm_id m = rid" "told_status es = Some (rm_status m)"
      by (auto simp: tells_def)
    have "told_status (es @ event_stamps env (rs_ticks s) events) = Some (rm_status (change m))"
      by (simp add: told_status_append es(3) events_tell)
    then show "tells rid (?f d)" by (simp add: tells_def es keeps_identity)
  qed
  then show ?thesis by (simp add: transition_moves [OF Inr] after_transition_def)
qed (simp add: transition_refused)

end

interpretation start: honest_transition env "\<lambda>m. m\<lparr>rm_status := RunRunning\<rparr>" "[(''stage_started'', [(''stage'', JStr stage)])]"
  for env stage
  by unfold_locales (simp_all add: told_by_def)

interpretation failing: honest_transition env "failed_change stage hint flags"
  "[(''stage_failed'', before_it), (''run_failed'', it)]" for env stage hint flags before_it it
  by unfold_locales (simp_all add: told_by_def failed_change_def)

interpretation blocking: honest_transition env "\<lambda>m. m\<lparr>rm_status := RunBlocked, rm_wait := Some w\<rparr>" "[(''run_blocked'', fs)]"
  for env w fs
  by unfold_locales (simp_all add: told_by_def)

interpretation resuming: honest_transition env back_to_pending "[(''run_resumed'', fs)]" for env fs
  by unfold_locales (simp_all add: told_by_def back_to_pending_def)

interpretation recovering: honest_transition env back_to_pending "[(''run_recovered'', fs)]" for env fs
  by unfold_locales (simp_all add: told_by_def back_to_pending_def)

interpretation reopening: honest_transition env
  "\<lambda>m. (back_to_pending m)\<lparr>rm_skipReason := None, rm_connectionState := None\<rparr>" "[(''run_reopened'', fs)]" for env fs
  by unfold_locales (simp_all add: told_by_def back_to_pending_def)

interpretation skipping: honest_transition env "\<lambda>m. m\<lparr>rm_status := RunSkipped, rm_wait := None, rm_skipReason := reason\<rparr>"
  "[(''classify_skipped'', fs), (''run_done'', [(''status'', JStr ''skipped'')])]" for env reason fs
  by unfold_locales (simp_all add: told_by_def)

interpretation counting: honest_transition env "\<lambda>m. m\<lparr>rm_attempts := f m\<rparr>" "[]" for env f
  by unfold_locales simp_all

lemma map_of_put_field [simp]: "map_of (put_field k v fs) j = (if j = k then Some v else map_of fs j)"
  by (induction fs) auto

lemma map_of_spread: "k \<notin> fst ` set ys \<Longrightarrow> map_of (spread_onto fs ys) k = map_of fs k"
  unfolding spread_onto_def
proof (induction ys arbitrary: fs)
  case (Cons y ys)
  then show ?case by (cases y) simp
qed simp

text \<open>Ending a Run says so, provided that the Module's own facts about it do not name a status.\<close>

lemma ending: "''status'' \<notin> fst ` set fs \<Longrightarrow> honest_transition env
    (\<lambda>m. m\<lparr>rm_status := RunDone, rm_wait := None, rm_failedStage := None, rm_summary := summary\<rparr>)
    [(''run_done'', spread_onto [(''status'', JStr ''done'')] fs)]"
  by unfold_locales (simp_all add: told_by_def map_of_spread)

end
