(* ===== verification/RunSteps.thy ===== *)
theory RunSteps
  imports RunFacts
begin

section \<open>The operations on Runs, and what a crash leaves\<close>

text \<open>
  Every operation of the store as a value, so that what the server does to its Runs is a sequence of them; the invariant over
  every such sequence; the stores that a process dying within a transition leaves; and what becomes of a line cut short.
\<close>

subsection \<open>A new identity is one\<close>

text \<open>An instant of \<open>toISOString\<close> within the four digit years.\<close>

definition clock_text :: "string \<Rightarrow> bool" where
  "clock_text t \<longleftrightarrow> length t = 24 \<and> list_all (\<lambda>i. is_digit (t ! i)) [0, 1, 2, 3, 5, 6, 8, 9, 11, 12, 14, 15, 17, 18]
     \<and> t ! 4 = CHR ''-'' \<and> t ! 7 = CHR ''-'' \<and> t ! 13 = CHR '':'' \<and> t ! 16 = CHR '':''"

definition env_ok :: "run_env \<Rightarrow> bool" where
  "env_ok env \<longleftrightarrow> (\<forall>n. clock_text (rv_now env n) \<and> length (rv_hex env n) = 8 \<and> list_all hex_char (rv_hex env n))"

lemma match_times: "length xs = n \<Longrightarrow> list_all p xs \<Longrightarrow>
    match_re (times n (OneOf p)) (q, xs @ ys) caps k = k (last_before q xs, ys) caps"
proof (induction xs arbitrary: n q)
  case (Cons x xs)
  then obtain m where "n = Suc m" "length xs = m" by (cases n) auto
  with Cons.prems Cons.IH [of m "Some x"] show ?case by (simp add: last_before_def)
qed (simp add: last_before_def)

lemmas match_times_end = match_times [where ys = "[]", unfolded append_Nil2]

lemma run_id_shape:
  assumes "length date = 8" "list_all is_digit date" "length time = 6" "list_all is_digit time"
    "length hex = 8" "list_all hex_char hex"
  shows "isRunId (''run_'' @ date @ ''-'' @ time @ ''_'' @ hex)"
proof -
  have "match_at RUN_ID_PATTERN (None, ''run_'' @ date @ ''-'' @ time @ ''_'' @ hex) \<noteq> None"
    using assms
    by (simp add: match_at_def RUN_ID_PATTERN_def lit_def digit_def match_times match_times_end del: times.simps)
  then show ?thesis by (auto simp: isRunId_def test_def exec_def split: option.splits)
qed

lemma slice_map: "m + n \<le> length t \<Longrightarrow> take n (drop m t) = map ((!) t) [m ..< m + n]"
  by (rule nth_equalityI) auto

lemma clock_parts:
  assumes "clock_text t"
  shows "length (filter (\<lambda>c. c \<noteq> CHR ''-'') (take 10 t)) = 8" "list_all is_digit (filter (\<lambda>c. c \<noteq> CHR ''-'') (take 10 t))"
    "length (filter (\<lambda>c. c \<noteq> CHR '':'') (take 8 (drop 11 t))) = 6"
    "list_all is_digit (filter (\<lambda>c. c \<noteq> CHR '':'') (take 8 (drop 11 t)))"
proof -
  have no: "is_digit c \<Longrightarrow> c \<noteq> CHR ''-'' \<and> c \<noteq> CHR '':''" for c by (auto simp: is_digit_def)
  have parts: "take 10 t = map ((!) t) [0 ..< 10]" "take 8 (drop 11 t) = map ((!) t) [11 ..< 19]"
    using assms slice_map [of 0 10 t] slice_map [of 11 8 t] by (simp_all add: clock_text_def del: upt_conv_Cons_Cons)
  have upt: "[0 ..< 10] = [0, 1, 2, 3, 4, 5, 6, 7, 8, 9 :: nat]" "[11 ..< 19] = [11, 12, 13, 14, 15, 16, 17, 18 :: nat]"
    by (simp_all add: upt_rec)
  show "length (filter (\<lambda>c. c \<noteq> CHR ''-'') (take 10 t)) = 8" "list_all is_digit (filter (\<lambda>c. c \<noteq> CHR ''-'') (take 10 t))"
    "length (filter (\<lambda>c. c \<noteq> CHR '':'') (take 8 (drop 11 t))) = 6"
    "list_all is_digit (filter (\<lambda>c. c \<noteq> CHR '':'') (take 8 (drop 11 t)))"
    using assms unfolding parts upt clock_text_def by (simp_all add: no)
qed

lemma newRunId_is_one: "env_ok env \<Longrightarrow> isRunId (newRunId (rv_now env n) (rv_hex env n))"
  unfolding newRunId_def by (rule run_id_shape) (simp_all add: env_ok_def clock_parts)

subsection \<open>Operations\<close>

datatype run_operation =
    CreateRun new_run
  | StartStage string string
  | FailStage string string string string failure_flags
  | BlockRun string run_wait
  | ResumeRun string string string string
  | RecoverRun string string string
  | FinishRun string run_outcome
  | CountAttempt string
  | ResetAttempts string
  | ReopenRun string string string
  | ModuleEvent string string "js_object option"
  | WriteFile string string string
  | DeleteFile string string

primrec apply_op :: "run_env \<Rightarrow> run_operation \<Rightarrow> run_store \<Rightarrow> run_store" where
  "apply_op env (CreateRun n) s = snd (create env n s)"
| "apply_op env (StartStage rid stage) s = snd (started_stage env rid stage s)"
| "apply_op env (FailStage rid stage reason hint flags) s = snd (failed env rid stage reason hint flags s)"
| "apply_op env (BlockRun rid w) s = snd (blocked_on env rid w s)"
| "apply_op env (ResumeRun rid stage who reason) s = snd (resumed env rid stage who reason s)"
| "apply_op env (RecoverRun rid stage reason) s = snd (recovered env rid stage reason s)"
| "apply_op env (FinishRun rid outcome) s = snd (finished env rid outcome s)"
| "apply_op env (CountAttempt rid) s = snd (attemptStarted env rid s)"
| "apply_op env (ResetAttempts rid) s = snd (resetAttempts env rid s)"
| "apply_op env (ReopenRun rid stage reason) s = snd (reopen env rid stage reason s)"
| "apply_op env (ModuleEvent rid type detail) s = snd (appendEvent env rid type detail s)"
| "apply_op env (WriteFile rid name content) s = snd (writeArtifact rid name content s)"
| "apply_op env (DeleteFile rid name) s = snd (deleteArtifact rid name s)"

text \<open>
  What the source relies on: the events a Module names are none of the Shell's, except the refusal of a retry, which the Shell
  itself appends in this way; the facts a Module adds to an ending do not name a status; a file is written to a Run that is there.
\<close>

fun module_ok :: "run_operation \<Rightarrow> run_store \<Rightarrow> bool" where
  "module_ok (ModuleEvent rid type detail) s \<longleftrightarrow> type \<notin> set SHELL_EVENT_TYPES \<or> type = ''retry_refused''"
| "module_ok (FinishRun rid (OutcomeDone summary fs)) s \<longleftrightarrow> ''status'' \<notin> fst ` set fs"
| "module_ok (WriteFile rid name content) s \<longleftrightarrow> run_dir_of rid s \<noteq> None"
| "module_ok _ s \<longleftrightarrow> True"

inductive run_step :: "run_env \<Rightarrow> run_store \<Rightarrow> run_store \<Rightarrow> bool" for env where
  run_stepI: "module_ok op s \<Longrightarrow> run_step env s (apply_op env op s)"

inductive_cases run_stepE: "run_step env s s'"

subsection \<open>The invariant over every operation\<close>

lemma store_ok_append:
  assumes "store_ok s" "type \<notin> set SHELL_EVENT_TYPES \<or> type = ''retry_refused''"
  shows "store_ok (snd (appendEvent env rid type detail s))"
proof (cases "run_dir_of rid s")
  case (Some d)
  have neutral: "told_by told (event_now env type detail s) = told" for told
    using assms(2) by (auto simp: told_by_def event_now_def SHELL_EVENT_TYPES_def Let_def)
  have "tells rid (d\<lparr>rd_events := append_event_line (event_now env type detail s) (rd_events d)\<rparr>)" if "tells rid d" for d
    using that by (auto simp: tells_def told_status_append neutral)
  then have "store_ok (alter_dir rid (\<lambda>d. d\<lparr>rd_events := append_event_line (event_now env type detail s) (rd_events d)\<rparr>) s)"
    by (intro store_ok_alter [OF assms(1)])
  then show ?thesis by (simp add: appendEvent_run [OF Some])
qed (simp add: appendEvent_def assms(1))

lemma store_ok_create:
  assumes "store_ok s" "env_ok env"
  shows "store_ok (snd (create env n s))"
proof (cases "run_dir_of (newRunId (rv_now env (rs_ticks s)) (rv_hex env (rs_ticks s))) s")
  case None
  let ?rid = "newRunId (rv_now env (rs_ticks s)) (rv_hex env (rs_ticks s))"
  let ?m = "meta_of ?rid (rv_now env (rs_ticks s + 1)) n"
  let ?s = "tick (tick s)\<lparr>rs_dirs := rs_dirs s @ [(?rid, \<lparr>rd_meta = MetaStored ?m, rd_events = empty_log, rd_files = []\<rparr>)]\<rparr>"
  have dirs: "run_dir_of k ?s = (case run_dir_of k s of Some d \<Rightarrow> Some d
      | None \<Rightarrow> if k = ?rid then Some \<lparr>rd_meta = MetaStored ?m, rd_events = empty_log, rd_files = []\<rparr> else None)" for k
    by (auto simp: run_dir_of_def map_add_def split: option.splits)
  have log: "append_event_line e empty_log = whole_log [e]" for e
    by (simp add: append_event_line_def empty_log_def whole_log_def)
  obtain d where d: "snd (create env n s) = tick (alter_dir ?rid
      (\<lambda>r. r\<lparr>rd_events := append_event_line (event_now env ''created'' d ?s) (rd_events r)\<rparr>) ?s)"
    using None dirs [of ?rid] by (auto simp: create_def Let_def andThen_def appendEvent_def)
  have "store_ok (alter_dir ?rid
      (\<lambda>r. r\<lparr>rd_events := append_event_line (event_now env ''created'' d ?s) (rd_events r)\<rparr>) ?s)" (is "store_ok ?s'")
  proof (rule store_okI)
    have "?rid \<notin> fst ` set (rs_dirs s)" using None by (simp add: run_dir_of_def map_of_eq_None_iff)
    then show "distinct (map fst (rs_dirs ?s'))" using assms(1) by (simp add: store_ok_def)
    fix k r assume r: "run_dir_of k ?s' = Some r"
    show "isRunId k \<and> tells k r"
    proof (cases "k = ?rid")
      case True
      with r None dirs [of k] newRunId_is_one [OF assms(2)] show ?thesis
        by (auto simp: tells_def log event_now_def told_status_def told_by_def meta_of_def)
    next
      case False
      with r dirs [of k] store_ok_dir [OF assms(1), of k] show ?thesis by (auto split: option.splits)
    qed
  qed
  then show ?thesis by (simp add: d)
qed (simp add: create_def Let_def assms(1))

lemma tells_files [simp]: "tells rid (d\<lparr>rd_files := fs\<rparr>) = tells rid d"
  by (simp add: tells_def)

lemma store_ok_files:
  assumes "store_ok s"
  shows "run_dir_of rid s \<noteq> None \<Longrightarrow> store_ok (snd (writeArtifact rid name content s))"
    and "store_ok (snd (deleteArtifact rid name s))"
  using assms by (auto simp: writeArtifact_def deleteArtifact_def andThen_def intro!: store_ok_alter split: sum.splits)

lemma store_ok_finish: "store_ok s \<Longrightarrow> module_ok (FinishRun rid outcome) s \<Longrightarrow> store_ok (snd (finished env rid outcome s))"
  by (cases outcome) (simp_all add: skipping.keeps_store_ok honest_transition.keeps_store_ok [OF ending])

lemma snd_then_ret: "snd (andThen m (\<lambda>x. ret (f x)) s) = snd (m s)"
  by (auto simp: andThen_def split: prod.splits sum.splits)

lemma snd_query_then: "snd (andThen (query q) f s) = (case q s of Inl _ \<Rightarrow> s | Inr x \<Rightarrow> snd (f x s))"
  by (auto simp: andThen_def split: sum.splits)

lemma apply_op_ok: "env_ok env \<Longrightarrow> store_ok s \<Longrightarrow> module_ok op s \<Longrightarrow> store_ok (apply_op env op s)"
  by (cases op) (auto simp: store_ok_create store_ok_append store_ok_files store_ok_finish started_stage_def failed_def
      blocked_on_def resumed_def recovered_def attemptStarted_def resetAttempts_def reopen_def snd_then_ret snd_query_then
      start.keeps_store_ok failing.keeps_store_ok blocking.keeps_store_ok resuming.keeps_store_ok recovering.keeps_store_ok
      reopening.keeps_store_ok counting.keeps_store_ok split: sum.splits)

lemma run_steps_ok: "(run_step env)\<^sup>*\<^sup>* s s' \<Longrightarrow> env_ok env \<Longrightarrow> store_ok s \<Longrightarrow> store_ok s'"
  by (induction rule: rtranclp_induct) (auto elim!: run_stepE intro: apply_op_ok)

lemma empty_store_ok: "store_ok empty_store"
  by (simp add: store_ok_def empty_store_def)

subsection \<open>Crashes\<close>

text \<open>The stores a process leaves that dies while it appends the events, or anywhere within a transition.\<close>

fun append_crashes :: "run_env \<Rightarrow> string \<Rightarrow> (string \<times> js_object) list \<Rightarrow> run_store \<Rightarrow> run_store list" where
  "append_crashes env rid [] s = [s]"
| "append_crashes env rid ((t, x) # es) s =
     (case run_dir_of rid s of None \<Rightarrow> [s]
      | Some d \<Rightarrow> map (\<lambda>l. alter_dir rid (\<lambda>d. d\<lparr>rd_events := l\<rparr>) s) (torn_appends (event_now env t (Some x) s) (rd_events d))
          @ append_crashes env rid es (snd (appendEvent env rid t (Some x) s)))"

definition transition_crashes ::
  "run_env \<Rightarrow> string \<Rightarrow> (run_meta \<Rightarrow> run_meta) \<Rightarrow> (string \<times> js_object) list \<Rightarrow> run_store \<Rightarrow> run_store list" where
  "transition_crashes env rid change events s = (case readMeta rid s of Inl _ \<Rightarrow> [s]
     | Inr m \<Rightarrow> s # append_crashes env rid events (snd (writeMeta rid (change m) s)))"

lemma read_torn: "l \<in> set (torn_appends e (whole_log es)) \<Longrightarrow> read_log l = Inr es \<or> read_log l = Inr (es @ [e])"
proof -
  have tail: "read_log (whole_log es\<lparr>el_tail := t\<rparr>) = Inr (es @ (case t of EventTail e \<Rightarrow> [e] | _ \<Rightarrow> []))" for t
    by (simp add: read_log_def whole_log_def)
  show "l \<in> set (torn_appends e (whole_log es)) \<Longrightarrow> read_log l = Inr es \<or> read_log l = Inr (es @ [e])"
    by (auto simp: torn_appends_def tail split: log_tail.splits)
qed

lemma append_crash_reads:
  assumes "run_dir_of rid s = Some d" "rd_events d = whole_log es" "s' \<in> set (append_crashes env rid events s)"
  shows "readMeta rid s' = readMeta rid s
    \<and> (\<exists>k. readEvents rid s' = Inr (es @ take k (event_stamps env (rs_ticks s) events)))"
  using assms
proof (induction events arbitrary: s d es)
  case Nil
  then show ?case by (simp add: readEvents_def)
next
  case (Cons e events)
  obtain t x where e: "e = (t, x)" by force
  let ?e = "event_now env t (Some x) s"
  let ?s = "tick (alter_dir rid (\<lambda>d. d\<lparr>rd_events := append_event_line ?e (rd_events d)\<rparr>) s)"
  from Cons.prems(3) consider
      l where "l \<in> set (torn_appends ?e (rd_events d))" "s' = alter_dir rid (\<lambda>d. d\<lparr>rd_events := l\<rparr>) s"
    | "s' \<in> set (append_crashes env rid events ?s)"
    by (auto simp: e Cons.prems(1) appendEvent_run [OF Cons.prems(1)])
  then show ?case
  proof cases
    case 1
    from read_torn 1(1) Cons.prems(2) have "read_log l = Inr (es @ take 0 [?e]) \<or> read_log l = Inr (es @ take 1 [?e])" by auto
    then have "\<exists>k. read_log l = Inr (es @ take k (?e # event_stamps env (rs_ticks s + 1) events))" by (metis One_nat_def take_0 take_Suc_Cons)
    with 1(2) Cons.prems(1) show ?thesis by (auto simp: e readMeta_def readEvents_def event_now_def split: sum.splits)
  next
    case 2
    have s: "run_dir_of rid ?s = Some (d\<lparr>rd_events := whole_log (es @ [?e])\<rparr>)" using Cons.prems by simp
    from Cons.IH [OF s _ 2] obtain k where
      "readMeta rid s' = readMeta rid ?s" "readEvents rid s' = Inr (es @ take (Suc k) (?e # event_stamps env (rs_ticks s + 1) events))"
      by auto
    with Cons.prems(1) show ?thesis by (auto simp: e readMeta_def event_now_def intro: exI [of _ "Suc k"])
  qed
qed

subsection \<open>After a torn line\<close>

definition damaged_timeline :: "string \<Rightarrow> run_store \<Rightarrow> bool" where
  "damaged_timeline rid s \<longleftrightarrow> (\<exists>d. run_dir_of rid s = Some d \<and> BrokenLine \<in> set (el_lines (rd_events d)))"

lemma damaged_refused: "damaged_timeline rid s \<Longrightarrow> \<exists>n. readEvents rid s = Inl (TimelineDamaged rid n)"
  using read_broken [of _ 1] by (force simp: damaged_timeline_def readEvents_def read_log_def split: sum.splits)

lemma append_keeps_damage: "BrokenLine \<in> set (el_lines l) \<Longrightarrow> BrokenLine \<in> set (el_lines (append_event_line e l))"
  by (auto simp: append_event_line_def split: log_tail.splits)

lemma fold_keeps_damage: "BrokenLine \<in> set (el_lines l) \<Longrightarrow> BrokenLine \<in> set (el_lines (fold append_event_line es l))"
  by (induction es arbitrary: l) (simp_all add: append_keeps_damage)

lemma damaged_tick [simp]: "damaged_timeline rid (tick s) = damaged_timeline rid s"
  "damaged_timeline rid (s\<lparr>rs_ticks := n\<rparr>) = damaged_timeline rid s"
  by (simp_all add: damaged_timeline_def)

lemma damaged_alter:
  assumes "damaged_timeline rid s"
    "\<And>d. BrokenLine \<in> set (el_lines (rd_events d)) \<Longrightarrow> BrokenLine \<in> set (el_lines (rd_events (f d)))"
  shows "damaged_timeline rid (alter_dir k f s)"
  using assms by (auto simp: damaged_timeline_def)

lemma damaged_transition: "damaged_timeline rid s \<Longrightarrow> damaged_timeline rid (snd (transition_run env k change events s))"
  by (cases "readMeta k s") (simp_all add: transition_refused transition_moves after_transition_def damaged_alter fold_keeps_damage)

lemma damaged_append: "damaged_timeline rid s \<Longrightarrow> damaged_timeline rid (snd (appendEvent env k t x s))"
  by (cases "run_dir_of k s") (simp_all add: appendEvent_def damaged_alter append_keeps_damage)

lemma damaged_new_dir: "damaged_timeline rid s \<Longrightarrow> damaged_timeline rid (s\<lparr>rs_dirs := rs_dirs s @ ds\<rparr>)"
  by (auto simp: damaged_timeline_def run_dir_of_def map_add_def)

lemma damaged_create: "damaged_timeline rid s \<Longrightarrow> damaged_timeline rid (snd (create env n s))"
  using damaged_append [OF damaged_new_dir [of rid "tick (tick s)"]]
  by (simp add: create_def Let_def snd_then_ret)

lemma damaged_files:
  assumes "damaged_timeline rid s"
  shows "damaged_timeline rid (snd (writeArtifact k name content s))" "damaged_timeline rid (snd (deleteArtifact k name s))"
  using assms by (auto simp: writeArtifact_def deleteArtifact_def andThen_def damaged_new_dir intro!: damaged_alter
      split: sum.splits option.splits)

lemma damaged_finish: "damaged_timeline rid s \<Longrightarrow> damaged_timeline rid (snd (finished env k outcome s))"
  by (cases outcome) (simp_all add: damaged_transition)

lemma apply_op_damaged: "damaged_timeline rid s \<Longrightarrow> damaged_timeline rid (apply_op env op s)"
  by (cases op) (auto simp: damaged_create damaged_append damaged_files damaged_finish damaged_transition started_stage_def
      failed_def blocked_on_def resumed_def recovered_def attemptStarted_def resetAttempts_def reopen_def snd_then_ret
      snd_query_then split: sum.splits)

lemma run_steps_damaged: "(run_step env)\<^sup>*\<^sup>* s s' \<Longrightarrow> damaged_timeline rid s \<Longrightarrow> damaged_timeline rid s'"
  by (induction rule: rtranclp_induct) (auto elim!: run_stepE intro: apply_op_damaged)

lemma append_after_tear:
  assumes "run_dir_of rid s = Some d" "el_tail (rd_events d) \<noteq> NoTail"
  shows "damaged_timeline rid (snd (appendEvent env rid t x s))"
  using assms by (auto simp: appendEvent_def damaged_timeline_def append_event_line_def split: log_tail.splits)

end
