(* ===== verification/RunnerSteps.thy ===== *)
theory RunnerSteps
  imports Runner RunSteps
begin

section \<open>The Run engine at work\<close>

text \<open>
  What a Runner does, as a step relation: the commands of the API, the recovery sweep, the queue, each call of the context by the
  work in progress, the writes of others to the Runs, and the death of the process.  Then the invariant of the queue, and
  recovery as one rewriting of the Runs it finds.
\<close>

subsection \<open>Steps\<close>

inductive runner_step :: "'i runner_env \<Rightarrow> 'i runner \<Rightarrow> 'i runner \<Rightarrow> bool" for env where
  run_started: "runner_step env r (snd (startRun env rec input r))"
| run_retried: "runner_step env r (snd (retryRun env rid r))"
| run_reentered: "runner_step env r (snd (reenterRun env rid stage reason input r))"
| run_resumed: "runner_step env r (snd (resumeRun env rid r))"
| runs_recovered: "runner_step env r (snd (recoverRuns env r))"
| setup_changed: "runner_step env r (r\<lparr>un_waiting := w\<rparr>)"
| run_taken_up: "runner_step env r (take_up r)"
| stage_entered: "un_job r = Some j \<Longrightarrow> runner_step env r (snd (enter_stage env j name r))"
| stage_left: "un_job r = Some j \<Longrightarrow> runner_step env r (leave_stage r)"
| stage_failed: "un_job r = Some j \<Longrightarrow> runner_step env r (fail_stage env j name e r)"
| event_noted: "un_job r = Some j \<Longrightarrow> runner_step env r (snd (ctx_event env j type detail r))"
| attempt_counted: "un_job r = Some j \<Longrightarrow> runner_step env r (snd (ctx_attempt env j r))"
| wait_asked: "un_job r = Some j \<Longrightarrow> runner_step env r (snd (ctx_wait env j reason timeout r))"
| file_written: "un_job r = Some j \<Longrightarrow> runner_step env r (snd (ctx_writeFile env j name content r))"
| work_returned: "un_job r = Some j \<Longrightarrow> runner_step env r (work_returns env j outcome r)"
| work_thrown: "un_job r = Some j \<Longrightarrow> runner_step env r (work_throws j r)"
| runs_written: "run_step (ue_runs env) (un_runs r) s \<Longrightarrow> runner_step env r (r\<lparr>un_runs := s\<rparr>)"
| process_died: "s \<in> set (transition_crashes (ue_runs env) rid change events (un_runs r)) \<Longrightarrow>
    runner_step env r (r\<lparr>un_runs := s, un_active := {}, un_queue := [], un_job := None\<rparr>)"

text \<open>Between two steps the clock moves on.\<close>

definition runner_moves :: "'i runner_env \<Rightarrow> 'i runner \<Rightarrow> 'i runner \<Rightarrow> bool" where
  "runner_moves env r r' \<longleftrightarrow> (\<exists>now text. runner_step (env\<lparr>ue_now := now, ue_now_text := text\<rparr>) r r')"

definition idle_runner :: "run_store \<Rightarrow> 'i runner" where
  "idle_runner s = \<lparr>un_runs = s, un_active = {}, un_queue = [], un_job = None, un_waiting = None\<rparr>"

subsection \<open>The queue\<close>

definition working :: "'i runner \<Rightarrow> string list" where
  "working r = (case un_job r of None \<Rightarrow> [] | Some j \<Rightarrow> [jb_run j]) @ map fst (un_queue r)"

definition queue_ok :: "'i runner \<Rightarrow> bool" where
  "queue_ok r \<longleftrightarrow> distinct (working r) \<and> set (working r) = un_active r"

lemma queue_ok_runs [simp]: "queue_ok (r\<lparr>un_runs := s\<rparr>) = queue_ok r"
  by (simp add: queue_ok_def working_def)

lemma keeps_on_runs [keeps_intros]: "keeps queue_ok (on_runs m)"
  by (auto simp: keeps_def on_runs_def split: prod.splits sum.splits)

lemma keeps_the_meta [keeps_intros]: "keeps queue_ok (the_meta rid)"
  by (simp add: the_meta_def keeps_on_runs)

lemma keeps_assertReady [keeps_intros]: "keeps queue_ok assertReady"
  by (simp add: keeps_def assertReady_def split: option.splits)

lemma keeps_requireRun [keeps_intros]: "keeps queue_ok (requireRun rid)"
  by (simp add: keeps_def requireRun_def)

lemma keeps_enqueue [keeps_intros]: "keeps queue_ok (enqueue rid input)"
  by (auto simp: keeps_def enqueue_def queue_ok_def working_def split: option.splits)

lemma keeps_recover_run [keeps_intros]: "keeps queue_ok (recover_run env rid)"
proof -
  have "keeps queue_ok (andThen (the_meta rid) (\<lambda>m. case clock_wait m of
      Some at \<Rightarrow> recover_wait env rid m at | None \<Rightarrow> recover_orphan env rid m))"
    unfolding recover_wait_def recover_orphan_def by (intro keeps_intros)
  then show ?thesis by (simp add: keeps_def recover_run_def)
qed

lemma keeps_commands:
  "keeps queue_ok (startRun env rec input)" "keeps queue_ok (retryRun env rid)"
  "keeps queue_ok (reenterRun env rid stage reason input)" "keeps queue_ok (resumeRun env rid)"
  unfolding startRun_def retryRun_def refuse_retry_def carry_out_retry_def reenterRun_def resumeRun_def
  by (intro keeps_intros)+

lemma keeps_context:
  "keeps queue_ok (ctx_event env j type detail)" "keeps queue_ok (ctx_attempt env j)"
  "keeps queue_ok (ctx_wait env j reason timeout)" "keeps queue_ok (ctx_writeFile env j name content)"
  unfolding ctx_event_def ctx_attempt_def ctx_wait_def ctx_writeFile_def inStage_def
  by (intro keeps_intros)+

lemma keeps_recoverRuns: "keeps queue_ok (recoverRuns env)"
proof -
  have "keeps queue_ok (andThen (forEach (recover_run env) xs) (\<lambda>counted. ret (length (filter (\<lambda>c. c) counted))))" for xs
    by (intro keeps_intros)
  then show ?thesis by (simp add: keeps_def recoverRuns_def)
qed

lemma queue_ok_stack [simp]: "queue_ok (with_stack f r) = queue_ok r"
  by (cases "un_job r") (simp_all add: queue_ok_def working_def with_stack_def)

lemma without_first: "distinct (x # xs) \<Longrightarrow> set (x # xs) = A \<Longrightarrow> distinct xs \<and> set xs = A - {x}"
  by auto

lemma queue_ok_settle: "queue_ok r \<Longrightarrow> un_job r = Some j \<Longrightarrow> queue_ok (settle (jb_run j) r)"
  using without_first [of "jb_run j" "map fst (un_queue r)" "un_active r"]
  by (simp add: settle_def queue_ok_def working_def)

lemma queue_ok_take_up: "queue_ok r \<Longrightarrow> queue_ok (take_up r)"
proof (cases "un_job r")
  case None
  assume ok: "queue_ok r"
  show ?thesis
  proof (cases "un_queue r")
    case (Cons x q)
    obtain rid input where x: "x = (rid, input)" by force
    show ?thesis using ok None Cons x without_first [of rid "map fst q" "un_active r"]
      by (simp add: take_up_def settle_def queue_ok_def working_def)
  qed (use ok None in \<open>simp add: take_up_def\<close>)
qed (simp add: take_up_def)

lemma on_runs_job [simp]: "un_job (snd (on_runs m r)) = un_job r"
  by (simp add: on_runs_def split: prod.splits sum.splits)

lemma on_runs_queue_ok [simp]: "queue_ok (snd (on_runs m r)) = queue_ok r"
  by (simp add: on_runs_def split: prod.splits sum.splits)

lemma queue_ok_step: "runner_step env r r' \<Longrightarrow> queue_ok r \<Longrightarrow> queue_ok r'"
proof (induction rule: runner_step.induct)
  case (process_died s rid change events r)
  show ?case by (simp add: queue_ok_def working_def)
qed (auto simp: keepsD [OF keeps_commands(1)] keepsD [OF keeps_commands(2)] keepsD [OF keeps_commands(3)]
    keepsD [OF keeps_commands(4)] keepsD [OF keeps_context(1)] keepsD [OF keeps_context(2)] keepsD [OF keeps_context(3)]
    keepsD [OF keeps_context(4)] keepsD [OF keeps_recoverRuns] queue_ok_take_up queue_ok_settle enter_stage_def leave_stage_def
    fail_stage_def work_returns_def work_throws_def, simp add: queue_ok_def working_def)

lemma queue_ok_moves: "(runner_moves env)\<^sup>*\<^sup>* r r' \<Longrightarrow> queue_ok r \<Longrightarrow> queue_ok r'"
  by (induction rule: rtranclp_induct) (auto simp: runner_moves_def intro: queue_ok_step)

lemma idle_queue_ok: "queue_ok (idle_runner s)"
  by (simp add: idle_runner_def queue_ok_def working_def)

end
