(* ===== verification/RunListing.thy ===== *)
theory RunListing
  imports RunFacts
begin

section \<open>Listing the Runs\<close>

text \<open>
  A page of the Runs as a segment of the names in descending order, and the pages that follow one another by their cursors as one
  list.  The one thing this rests on is that a readable record carries the name of its directory.
\<close>

definition names_ok :: "run_store \<Rightarrow> bool" where
  "names_ok s \<longleftrightarrow> distinct (map fst (rs_dirs s)) \<and> (\<forall>k m. readMeta k s = Inr m \<longrightarrow> isRunId k \<and> rm_id m = k)"

lemma store_ok_names: "store_ok s \<Longrightarrow> names_ok s"
  unfolding names_ok_def
proof (intro conjI allI impI)
  assume ok: "store_ok s"
  then show "distinct (map fst (rs_dirs s))" by (simp add: store_ok_def)
  fix k m assume "readMeta k s = Inr m"
  then obtain d where "run_dir_of k s = Some d" "rd_meta d = MetaStored m" by (auto simp: readMeta_dir)
  with store_ok_dir [OF ok this(1)] show "isRunId k" "rm_id m = k" by (auto simp: tells_def)
qed

text \<open>What the list shows of a name, when it shows it.\<close>

definition shown :: "run_store \<Rightarrow> run_query \<Rightarrow> string \<Rightarrow> run_summary option" where
  "shown s q e = (case readMeta e s of Inl _ \<Rightarrow> None
     | Inr m \<Rightarrow> if rq_module q \<noteq> None \<and> rq_module q \<noteq> Some (rm_module m) then None else Some (toSummary m))"

lemma shown_names: "names_ok s \<Longrightarrow> shown s q e = Some x \<Longrightarrow> su_id x = e"
  by (auto simp: shown_def names_ok_def toSummary_def split: sum.splits if_splits)

lemma page_loop_shown: "page_loop s q (e # es) runs n = (if page_full (rq_limit q) runs then (runs, n)
    else page_loop s q es (case shown s q e of None \<Rightarrow> runs | Some x \<Rightarrow> runs @ [x]) (n + 1))"
  by (simp add: shown_def split: sum.splits)

lemma page_loop_split: "\<exists>xs ys. es = xs @ ys \<and> page_loop s q es runs n = (runs @ List.map_filter (shown s q) xs, n + length xs)
    \<and> (ys = [] \<or> page_full (rq_limit q) (runs @ List.map_filter (shown s q) xs))
    \<and> (xs = [] \<or> \<not> page_full (rq_limit q) (runs @ List.map_filter (shown s q) xs) \<or> shown s q (last xs) \<noteq> None)"
proof (induction es arbitrary: runs n)
  case (Cons e es)
  show ?case
  proof (cases "page_full (rq_limit q) runs")
    case True
    then show ?thesis by (intro exI [of _ "[]"] exI [of _ "e # es"]) simp
  next
    case False
    let ?runs = "case shown s q e of None \<Rightarrow> runs | Some x \<Rightarrow> runs @ [x]"
    from Cons.IH [of ?runs "n + 1"] obtain xs ys where split: "es = xs @ ys"
      "page_loop s q es ?runs (n + 1) = (?runs @ List.map_filter (shown s q) xs, n + 1 + length xs)"
      "ys = [] \<or> page_full (rq_limit q) (?runs @ List.map_filter (shown s q) xs)"
      "xs = [] \<or> \<not> page_full (rq_limit q) (?runs @ List.map_filter (shown s q) xs) \<or> shown s q (last xs) \<noteq> None"
      by blast
    have app: "?runs @ List.map_filter (shown s q) xs = runs @ List.map_filter (shown s q) (e # xs)"
      by (simp split: option.splits)
    from split False show ?thesis unfolding page_loop_shown app
      by (intro exI [of _ "e # xs"] exI [of _ ys]) (auto simp: List.map_filter_def split: option.splits if_splits)
  qed
qed simp

lemma whole_list: "rq_limit q = None \<Longrightarrow> fst (list_runs q s) = List.map_filter (shown s q) (listed_names s (rq_cursor q))"
proof -
  assume limit: "rq_limit q = None"
  obtain xs ys where "listed_names s (rq_cursor q) = xs @ ys"
    "page_loop s q (listed_names s (rq_cursor q)) [] 0 = (List.map_filter (shown s q) xs, length xs)" "ys = []"
    using page_loop_split [of "listed_names s (rq_cursor q)" s q "[]" 0] limit by (auto simp: page_full_def)
  then show ?thesis by (simp add: list_runs_def Let_def)
qed

subsection \<open>Pages\<close>

text \<open>The pages one after the other, each from the cursor of the one before.\<close>

fun pages :: "nat \<Rightarrow> run_query \<Rightarrow> run_store \<Rightarrow> run_summary list" where
  "pages 0 q s = []"
| "pages (Suc n) q s = (case list_runs q s of (runs, cursor) \<Rightarrow> (case cursor of None \<Rightarrow> runs
     | Some c \<Rightarrow> runs @ pages n (q\<lparr>rq_cursor := Some c\<rparr>) s))"

lemma descending_names: "names_ok s \<Longrightarrow> sorted_wrt (>) (listed_names s cursor)"
  by (simp add: listed_names_def sorted_wrt_rev names_ok_def strict_sorted_iff)

lemma set_listed_names: "set (listed_names s cursor) =
    {e \<in> fst ` set (rs_dirs s). isRunId e \<and> (case cursor of None \<Rightarrow> True | Some c \<Rightarrow> e < c)}"
  by (auto simp: listed_names_def)

lemma length_listed: "length (listed_names s cursor) \<le> length (rs_dirs s)"
  using length_filter_le [of _ "map fst (rs_dirs s)"] by (simp add: listed_names_def)

lemma names_below:
  assumes "names_ok s" "listed_names s cursor = xs @ ys" "xs \<noteq> []"
  shows "listed_names s (Some (last xs)) = ys"
proof -
  have order: "sorted_wrt (>) (xs @ ys)" using descending_names [OF assms(1), of cursor] assms(2) by simp
  have mem: "last xs \<in> set (listed_names s cursor)" using assms(2,3) by simp
  have "listed_names s (Some (last xs)) = filter (\<lambda>e. e < last xs) (listed_names s cursor)"
  proof -
    have below: "e < last xs \<Longrightarrow> (case cursor of None \<Rightarrow> True | Some c \<Rightarrow> e < c)" for e
      using mem by (auto simp: set_listed_names split: option.splits)
    have "filter (\<lambda>e. isRunId e \<and> e < last xs) names =
        filter (\<lambda>e. e < last xs) (filter (\<lambda>e. isRunId e \<and> (case cursor of None \<Rightarrow> True | Some c \<Rightarrow> e < c)) names)" for names
      using below by (induction names) auto
    then show ?thesis unfolding listed_names_def by (simp only: option.case rev_filter [symmetric] filter_sort)
  qed
  also have "\<dots> = ys"
  proof -
    have "xs = butlast xs @ [last xs]" using assms(3) by simp
    with order have "\<forall>x\<in>set (butlast xs). x > last xs" "\<forall>y\<in>set ys. y < last xs"
      by (metis (no_types, lifting) in_set_conv_decomp sorted_wrt_append list.set_intros(1))
        (use order assms(3) in \<open>auto simp: sorted_wrt_append\<close>)
    then have "filter (\<lambda>e. e < last xs) (butlast xs) = []" "filter (\<lambda>e. e < last xs) ys = ys"
      by (auto simp: filter_empty_conv filter_id_conv)
    moreover have "filter (\<lambda>e. e < last xs) xs = filter (\<lambda>e. e < last xs) (butlast xs @ [last xs])"
      using assms(3) by simp
    ultimately show ?thesis by (simp add: assms(2))
  qed
  finally show ?thesis .
qed

lemma shown_cursor [simp]: "shown s (q\<lparr>rq_cursor := c\<rparr>) = shown s q" "shown s (q\<lparr>rq_limit := l\<rparr>) = shown s q"
  by (simp_all add: shown_def fun_eq_iff split: sum.split)

lemma pages_list:
  assumes "names_ok s" "rq_limit q = Some k" "0 < k" "length (listed_names s (rq_cursor q)) < n"
  shows "pages n q s = List.map_filter (shown s q) (listed_names s (rq_cursor q))"
  using assms(2,4)
proof (induction n arbitrary: q)
  case (Suc n)
  obtain xs ys where split: "listed_names s (rq_cursor q) = xs @ ys"
    "page_loop s q (listed_names s (rq_cursor q)) [] 0 = (List.map_filter (shown s q) xs, length xs)"
    "ys = [] \<or> page_full (rq_limit q) (List.map_filter (shown s q) xs)"
    "xs = [] \<or> \<not> page_full (rq_limit q) (List.map_filter (shown s q) xs) \<or> shown s q (last xs) \<noteq> None"
    using page_loop_split [of "listed_names s (rq_cursor q)" s q "[]" 0] unfolding append_Nil add_0 by blast
  show ?case
  proof (cases "ys = []")
    case True
    with split show ?thesis by (simp add: list_runs_def Let_def)
  next
    case False
    with split(3) Suc.prems(1) assms(3) have some: "List.map_filter (shown s q) xs \<noteq> []"
      by (auto simp: page_full_def)
    then have xs: "xs \<noteq> []" by auto
    with split(3,4) False obtain x where x: "shown s q (last xs) = Some x" by blast
    have "List.map_filter (shown s q) xs = List.map_filter (shown s q) (butlast xs @ [last xs])" using xs by simp
    then have "last (List.map_filter (shown s q) xs) = x" using x by (simp add: map_filter_def)
    with shown_names [OF assms(1) x] have "su_id (last (List.map_filter (shown s q) xs)) = last xs" by simp
    with split False some have run: "list_runs q s = (List.map_filter (shown s q) xs, Some (last xs))"
      by (simp add: list_runs_def Let_def)
    have below: "listed_names s (Some (last xs)) = ys" by (rule names_below [OF assms(1) split(1) xs])
    have "length ys < n" using Suc.prems(2) split(1) xs by (cases xs) simp_all
    with Suc.IH [of "q\<lparr>rq_cursor := Some (last xs)\<rparr>"] Suc.prems(1) below
    have "pages n (q\<lparr>rq_cursor := Some (last xs)\<rparr>) s = List.map_filter (shown s q) ys" by simp
    with run split(1) show ?thesis by (simp add: map_filter_def)
  qed
qed simp

lemma shown_sorted:
  assumes "names_ok s" "sorted_wrt (>) xs"
  shows "sorted_wrt (>) (map su_id (List.map_filter (shown s q) xs))"
  using assms(2)
proof (induction xs)
  case (Cons x xs)
  have "su_id y < x" if "y \<in> set (List.map_filter (shown s q) xs)" for y
    using that Cons.prems shown_names [OF assms(1), of q] by (fastforce simp: map_filter_def)
  with Cons shown_names [OF assms(1), of q x] show ?case by (auto simp: map_filter_def split: option.splits)
qed (simp add: map_filter_def)

lemma set_shown: "names_ok s \<Longrightarrow> set (List.map_filter (shown s q) (listed_names s None)) =
    {toSummary m | m e. readMeta e s = Inr m \<and> (rq_module q = None \<or> rq_module q = Some (rm_module m))}"
proof -
  assume ok: "names_ok s"
  have listed: "e \<in> set (listed_names s None)" if m: "readMeta e s = Inr m" for e m
  proof -
    have "isRunId e" using ok m by (simp add: names_ok_def)
    moreover from m obtain d where "map_of (rs_dirs s) e = Some d" by (auto simp: readMeta_dir run_dir_of_def)
    then have "(e, d) \<in> set (rs_dirs s)" by (rule map_of_SomeD)
    ultimately show ?thesis by (force simp: set_listed_names)
  qed
  have "x \<in> set (List.map_filter (shown s q) (listed_names s None)) \<longleftrightarrow> (\<exists>e. shown s q e = Some x)" for x
  proof -
    have "e \<in> set (listed_names s None)" if "shown s q e = Some x" for e
      using that listed by (auto simp: shown_def split: sum.splits)
    then show ?thesis by (force simp: map_filter_def)
  qed
  moreover have "shown s q e = Some x \<longleftrightarrow>
      (\<exists>m. readMeta e s = Inr m \<and> x = toSummary m \<and> (rq_module q = None \<or> rq_module q = Some (rm_module m)))" for e x
    by (auto simp: shown_def split: sum.splits)
  ultimately show ?thesis by (intro set_eqI) auto
qed

end
