(* ===== verification/RunRecovery.thy ===== *)
theory RunRecovery
  imports RunnerSteps RunListing
begin

section \<open>Recovery\<close>

text \<open>
  What the sweep does after a restart, stated of the Runs it finds: the plan of each by its record and its timeline alone, and the
  whole sweep as one rewriting, which returns exactly the Runs with a plan to the queue.
\<close>

definition orphan_state :: "string \<Rightarrow> run_meta \<Rightarrow> run_store \<Rightarrow> recovery_state option" where
  "orphan_state rid m s = (case readEvents rid s of Inl _ \<Rightarrow> None
     | Inr es \<Rightarrow> Some \<lparr>cs_meta = m, cs_events = es, cs_files = artifactNames rid s\<rparr>)"

definition recovery_plan :: "'i runner_env \<Rightarrow> run_store \<Rightarrow> string \<Rightarrow> 'i resume_plan option" where
  "recovery_plan env s rid = (case readMeta rid s of Inl _ \<Rightarrow> None
     | Inr m \<Rightarrow> (case clock_wait m of
          Some at \<Rightarrow> if still_waiting env at then None else sm_planResume (ue_module env) m
        | None \<Rightarrow> if rm_status m \<noteq> RunPending \<and> rm_status m \<noteq> RunRunning then None
            else (case orphan_state rid m s of None \<Rightarrow> None | Some st \<Rightarrow> sm_planRecovery (ue_module env) st)))"

lemma recovery_plan_local: "run_dir_of rid s = run_dir_of rid s' \<Longrightarrow> recovery_plan env s rid = recovery_plan env s' rid"
proof -
  assume same: "run_dir_of rid s = run_dir_of rid s'"
  have reads: "readMeta rid s = readMeta rid s'" "readEvents rid s = readEvents rid s'"
      "artifactNames rid s = artifactNames rid s'"
    by (simp_all add: same readMeta_def readEvents_def artifactNames_def)
  show ?thesis unfolding recovery_plan_def orphan_state_def reads by (rule refl)
qed

lemma detail_of_readable: "run_exists rid s \<Longrightarrow> readMeta rid s = Inr m \<Longrightarrow> run_detail_of rid s =
    (case readEvents rid s of Inl e \<Rightarrow> Inl e | Inr es \<Rightarrow> Inr (Some \<lparr>dt_summary = toSummary m, dt_attempts = rm_attempts m,
       dt_files = artifactNames rid s, dt_meta = m,
       dt_result = (case run_dir_of rid s of None \<Rightarrow> None | Some d \<Rightarrow> map_of (rd_files d) ''result.json''), dt_events = es\<rparr>))"
  by (simp add: run_detail_of_def)

text \<open>The Run that one plan leaves: pending again, and behind the others in the queue.\<close>

definition requeued :: "run_env \<Rightarrow> string \<Rightarrow> run_meta \<Rightarrow> 'i \<Rightarrow> 'i runner \<Rightarrow> 'i runner \<Rightarrow> bool" where
  "requeued env rid m input r r' \<longleftrightarrow> (\<exists>events. r' = r\<lparr>un_runs := after_transition env rid (back_to_pending m) events (un_runs r),
     un_active := insert rid (un_active r), un_queue := un_queue r @ [(rid, input)]\<rparr>)"

lemma on_runs_Inr: "m (un_runs r) = (Inr x, s) \<Longrightarrow> on_runs m r = (Inr x, r\<lparr>un_runs := s\<rparr>)"
  by (simp add: on_runs_def)

lemma requeue_run:
  assumes "m (un_runs r) = (Inr x, after_transition env rid (back_to_pending meta) events (un_runs r))" "rid \<notin> un_active r"
  shows "\<exists>r'. andThen (on_runs m) (\<lambda>_. enqueue rid input) r = (Inr True, r') \<and> requeued env rid meta input r r'"
  using assms by (auto simp: on_runs_Inr enqueue_def requeued_def)

lemma recover_run_plan:
  assumes "rid \<notin> un_active r" "isRunId rid" "readMeta rid (un_runs r) = Inr m" "rm_id m = rid"
  shows "case recovery_plan env (un_runs r) rid of
      None \<Rightarrow> recover_run env rid r = (Inr False, r)
    | Some p \<Rightarrow> \<exists>r'. recover_run env rid r = (Inr True, r') \<and> requeued (ue_runs env) rid m (sp_input p) r r'"
proof -
  have there: "run_exists rid (un_runs r)" using assms(2,3) by (auto simp: run_exists_def readMeta_dir)
  have meta: "the_meta rid r = (Inr m, r)" by (simp add: the_meta_def on_runs_def assms(3))
  have resume: "resumed (ue_runs env) rid stage who reason (un_runs r) =
      (Inr (back_to_pending m), after_transition (ue_runs env) rid (back_to_pending m)
        [(''run_resumed'', [(''fromStage'', JStr stage), (''requestedBy'', JStr who), (''reason'', JStr reason)])] (un_runs r))"
    for stage who reason by (simp add: resumed_def transition_moves [OF assms(3)])
  have recover: "recovered (ue_runs env) rid stage reason (un_runs r) =
      (Inr (back_to_pending m), after_transition (ue_runs env) rid (back_to_pending m)
        [(''run_recovered'', [(''fromStage'', JStr stage), (''previousStatus'', JStr (status_text (rm_status m))),
          (''reason'', JStr reason)])] (un_runs r))"
    for stage reason by (simp add: recovered_def assms(3) transition_moves [OF assms(3)])
  have again: "\<exists>r'. andThen (on_runs (resumed (ue_runs env) rid stage who reason)) (\<lambda>_. enqueue rid input) r = (Inr True, r')
      \<and> requeued (ue_runs env) rid m input r r'" for stage who reason input
    by (rule requeue_run [where m = "resumed (ue_runs env) rid stage who reason", OF resume assms(1)])
  have anew: "\<exists>r'. andThen (on_runs (recovered (ue_runs env) rid stage reason)) (\<lambda>_. enqueue rid input) r = (Inr True, r')
      \<and> requeued (ue_runs env) rid m input r r'" for stage reason input
    by (rule requeue_run [where m = "recovered (ue_runs env) rid stage reason", OF recover assms(1)])
  show ?thesis
  proof (cases "clock_wait m")
    case (Some at)
    then show ?thesis using there meta assms(1,3) again
      by (simp add: recover_run_def recover_wait_def recovery_plan_def split: option.split)
  next
    case None
    then show ?thesis using there meta assms anew
      by (simp add: recover_run_def recover_orphan_def recovery_plan_def orphan_state_def detail_of_readable
          split: option.split sum.split)
  qed
qed

subsection \<open>The sweep\<close>

definition plans_of :: "'i runner_env \<Rightarrow> run_store \<Rightarrow> string list \<Rightarrow> (string \<times> 'i) list" where
  "plans_of env s rids = List.map_filter (\<lambda>rid. case recovery_plan env s rid of None \<Rightarrow> None
     | Some p \<Rightarrow> Some (rid, sp_input p)) rids"

lemma planned_iff: "(rid, i) \<in> set (plans_of env s rids) \<longleftrightarrow>
    rid \<in> set rids \<and> (\<exists>p. recovery_plan env s rid = Some p \<and> i = sp_input p)"
proof -
  have "(rid, i) \<in> set (plans_of env s rids) \<longleftrightarrow> (\<exists>k\<in>set rids. (case recovery_plan env s k of None \<Rightarrow> None
      | Some p \<Rightarrow> Some (k, sp_input p)) = Some (rid, i))" by (force simp: plans_of_def map_filter_def)
  then show ?thesis by (auto split: option.splits)
qed

lemma distinct_plans: "distinct rids \<Longrightarrow> distinct (map fst (plans_of env s rids))"
proof (induction rids)
  case (Cons rid rids)
  have "rid \<notin> fst ` set (plans_of env s rids)" using Cons.prems planned_iff [of rid _ env s rids] by auto
  with Cons show ?case by (auto simp: plans_of_def map_filter_def split: option.splits)
qed (simp add: plans_of_def map_filter_def)

definition swept :: "'i runner_env \<Rightarrow> string list \<Rightarrow> run_store \<Rightarrow> run_store \<Rightarrow> bool" where
  "swept env rids s s' \<longleftrightarrow> (\<forall>rid. if rid \<in> set rids \<and> recovery_plan env s rid \<noteq> None
     then \<exists>m. readMeta rid s = Inr m \<and> readMeta rid s' = Inr (back_to_pending m)
     else run_dir_of rid s' = run_dir_of rid s)"

lemma readMeta_after [simp]: "readMeta k (after_transition env rid m events s) =
    (if k = rid \<and> run_dir_of k s \<noteq> None then Inr m else readMeta k s)"
  by (auto simp: readMeta_def after_transition_def)

lemma run_dir_after: "k \<noteq> rid \<Longrightarrow> run_dir_of k (after_transition env rid m events s) = run_dir_of k s"
  by (simp add: after_transition_def)

lemma readMeta_local: "run_dir_of k s = run_dir_of k s' \<Longrightarrow> readMeta k s = readMeta k s'"
  by (simp add: readMeta_def)

definition sweepable :: "string list \<Rightarrow> 'i runner \<Rightarrow> bool" where
  "sweepable rids r \<longleftrightarrow> (\<forall>rid\<in>set rids. rid \<notin> un_active r \<and> isRunId rid \<and> (\<exists>m. readMeta rid (un_runs r) = Inr m \<and> rm_id m = rid))"

lemma sweep:
  assumes "distinct rids" "sweepable rids r"
  shows "\<exists>cs r'. forEach (recover_run env) rids r = (Inr cs, r')
    \<and> un_queue r' = un_queue r @ plans_of env (un_runs r) rids
    \<and> length (filter (\<lambda>c. c) cs) = length (plans_of env (un_runs r) rids)
    \<and> swept env rids (un_runs r) (un_runs r') \<and> un_job r' = un_job r"
  using assms
proof (induction rids arbitrary: r)
  case Nil
  then show ?case by (simp add: plans_of_def swept_def map_filter_def)
next
  case (Cons rid rids)
  from Cons.prems(2) obtain m where head: "rid \<notin> un_active r" "isRunId rid" "readMeta rid (un_runs r) = Inr m" "rm_id m = rid"
    by (auto simp: sweepable_def)
  note step = recover_run_plan [OF head, of env]
  show ?case
  proof (cases "recovery_plan env (un_runs r) rid")
    case None
    with step have "recover_run env rid r = (Inr False, r)" by simp
    with None Cons.IH [of r] Cons.prems show ?thesis
      by (auto simp: sweepable_def plans_of_def swept_def map_filter_def)
  next
    case (Some p)
    with step obtain r1 where r1: "recover_run env rid r = (Inr True, r1)" "requeued (ue_runs env) rid m (sp_input p) r r1" by auto
    then have same: "run_dir_of k (un_runs r1) = run_dir_of k (un_runs r)" if "k \<noteq> rid" for k
      using that by (auto simp: requeued_def run_dir_after)
    have head1: "readMeta rid (un_runs r1) = Inr (back_to_pending m)"
      using r1(2) head(3) unfolding requeued_def readMeta_dir [of rid "un_runs r"] by auto
    have plan: "recovery_plan env (un_runs r1) k = recovery_plan env (un_runs r) k" if "k \<in> set rids" for k
    proof (rule recovery_plan_local, rule same)
      show "k \<noteq> rid" using that Cons.prems(1) by auto
    qed
    have "sweepable rids r1"
      unfolding sweepable_def
    proof
      fix k assume k: "k \<in> set rids"
      then have "k \<noteq> rid" using Cons.prems(1) by auto
      with Cons.prems(2) k r1(2) readMeta_local [OF same, of k] show "k \<notin> un_active r1 \<and> isRunId k \<and>
          (\<exists>m. readMeta k (un_runs r1) = Inr m \<and> rm_id m = k)"
        by (auto simp: sweepable_def requeued_def)
    qed
    with Cons.IH [of r1] Cons.prems(1) obtain cs r' where rest: "forEach (recover_run env) rids r1 = (Inr cs, r')"
      "un_queue r' = un_queue r1 @ plans_of env (un_runs r1) rids"
      "length (filter (\<lambda>c. c) cs) = length (plans_of env (un_runs r1) rids)"
      "swept env rids (un_runs r1) (un_runs r')" "un_job r' = un_job r1" by auto
    have plans: "plans_of env (un_runs r) (rid # rids) = (rid, sp_input p) # plans_of env (un_runs r1) rids"
      using plan Some by (simp add: plans_of_def map_filter_def cong: filter_cong map_cong)
    have "swept env (rid # rids) (un_runs r) (un_runs r')"
      unfolding swept_def
    proof
      fix k
      show "if k \<in> set (rid # rids) \<and> recovery_plan env (un_runs r) k \<noteq> None
        then \<exists>m. readMeta k (un_runs r) = Inr m \<and> readMeta k (un_runs r') = Inr (back_to_pending m)
        else run_dir_of k (un_runs r') = run_dir_of k (un_runs r)"
      proof (cases "k = rid")
        case True
        with Cons.prems(1) rest(4) have "run_dir_of k (un_runs r') = run_dir_of k (un_runs r1)" by (auto simp: swept_def)
        then have "readMeta k (un_runs r') = readMeta k (un_runs r1)" by (rule readMeta_local)
        with True head(3) head1 Some show ?thesis by simp
      next
        case False
        have "if k \<in> set rids \<and> recovery_plan env (un_runs r1) k \<noteq> None
          then \<exists>m. readMeta k (un_runs r1) = Inr m \<and> readMeta k (un_runs r') = Inr (back_to_pending m)
          else run_dir_of k (un_runs r') = run_dir_of k (un_runs r1)"
          using rest(4) unfolding swept_def by (rule spec)
        moreover have "recovery_plan env (un_runs r1) k = recovery_plan env (un_runs r) k"
          by (rule recovery_plan_local, rule same [OF False])
        ultimately show ?thesis using False by (simp only: readMeta_local [OF same [OF False]] same [OF False] set_simps insert_iff simp_thms)
      qed
    qed
    with rest r1 plans show ?thesis by (auto simp: requeued_def)
  qed
qed

end
