(* ===== verification/RunProperties.thy ===== *)
theory RunProperties
  imports RunRecovery
begin

section \<open>Properties of the Run engine\<close>

text \<open>
  The properties of the Run store and of the Runner: the timeline tells the status, a crash leaves a Run that can be
  read, what a line cut short does to the events after it, the pages of the list, the queue, retries and recovery.
\<close>

subsection \<open>Samples\<close>

definition sample_run_env :: run_env where
  "sample_run_env = \<lparr>rv_now = (\<lambda>_. ''2026-06-18T13:00:00.000Z''), rv_hex = (\<lambda>_. ''0123abcd'')\<rparr>"

abbreviation sample_rid :: string where
  "sample_rid \<equiv> ''run_20260618-130000_0123abcd''"

definition sample_new :: new_run where
  "sample_new = \<lparr>nr_module = ''m'', nr_moduleVersion = 1, nr_intake = ''manual'', nr_fileName = None, nr_sourceUrl = None,
     nr_externalId = None\<rparr>"

lemma sample_clock: "env_ok sample_run_env"
  unfolding env_ok_def sample_run_env_def by simp code_simp

lemma sample_identity: "newRunId (rv_now sample_run_env n) (rv_hex sample_run_env n) = sample_rid"
  by (simp add: newRunId_def sample_run_env_def)

definition created_store :: run_store where
  "created_store = snd (create sample_run_env sample_new empty_store)"

lemma created_step: "run_step sample_run_env empty_store created_store"
  using run_stepI [of "CreateRun sample_new" empty_store sample_run_env] by (simp add: created_store_def)

lemma created_steps: "(run_step sample_run_env)\<^sup>*\<^sup>* empty_store created_store"
  by (rule r_into_rtranclp, rule created_step)

lemma created_ok: "store_ok created_store"
  by (rule run_steps_ok [OF created_steps sample_clock empty_store_ok])

abbreviation sample_meta :: run_meta where
  "sample_meta \<equiv> meta_of sample_rid ''2026-06-18T13:00:00.000Z'' sample_new"

abbreviation created_event :: run_event where
  "created_event \<equiv> \<lparr>re_at = ''2026-06-18T13:00:00.000Z'', re_type = ''created'', re_detail = Some [(''intake'', JStr ''manual'')]\<rparr>"

lemma created_dir: "run_dir_of sample_rid created_store = Some \<lparr>rd_meta = MetaStored sample_meta,
    rd_events = whole_log [created_event],
    rd_files = []\<rparr>"
proof -
  have "append_event_line e empty_log = whole_log [e]" for e
    by (simp add: append_event_line_def empty_log_def whole_log_def)
  then show ?thesis unfolding created_store_def create_def Let_def sample_identity
    by (simp add: empty_store_def run_dir_of_def andThen_def appendEvent_def alter_dir_def tick_def event_now_def
        sample_run_env_def sample_new_def)
qed

lemma sample_exists: "run_exists sample_rid created_store"
  using store_ok_dir [OF created_ok created_dir] by (simp add: run_exists_def created_dir)

lemma created_meta: "readMeta sample_rid created_store = Inr sample_meta"
  by (simp add: readMeta_def created_dir)

lemma created_events: "readEvents sample_rid created_store =
    Inr [created_event]"
  by (simp add: readEvents_def created_dir)

subsection \<open>Status and timeline\<close>

text \<open>C10: After any sequence of the operations of the Run store, from a store without Runs, every Run whose record can be read
  has a timeline that can be read, and the timeline's last word on the status is the status of the record.  Each operation
  runs to its end (a process that dies inside one is the subject of C25 and C26), the Modules behave (none of their events
  bears a name the Shell gives its own, and the facts they end a Run with name no status), and the clock and the random
  part of a new identity are well formed.\<close>

theorem timeline_agrees_with_status:
  assumes "env_ok env" "(run_step env)\<^sup>*\<^sup>* empty_store s" "readMeta rid s = Inr m"
  shows "rm_id m = rid \<and> isRunId rid \<and> (\<exists>es. readEvents rid s = Inr es \<and> told_status es = Some (rm_status m))"
proof -
  have ok: "store_ok s" by (rule run_steps_ok [OF assms(2,1) empty_store_ok])
  from assms(3) obtain d where d: "run_dir_of rid s = Some d" "rd_meta d = MetaStored m" by (auto simp: readMeta_dir)
  with store_ok_dir [OF ok d(1)] show ?thesis by (auto simp: tells_def readEvents_def)
qed

theorem timeline_agrees_with_status_witness:
  "\<exists>es. readEvents sample_rid created_store = Inr es \<and> told_status es = Some RunPending"
  using timeline_agrees_with_status [OF sample_clock created_steps created_meta]
  by (auto simp: meta_of_def)

subsection \<open>Crashes\<close>

text \<open>C25: A process that dies anywhere within a transition of a Run whose record can be read and whose timeline is whole (it can be
  read, and its last line is ended by a line feed) leaves the Run as it was, or changed with a timeline that says the first
  of the events of the change; in either case both files can be read.  A Run whose timeline a crash had cut short before
  is not such a Run: what becomes of it is the subject of C26.  Nothing is asked of the other Runs.\<close>

theorem a_crash_leaves_the_run_readable:
  assumes "run_dir_of rid s = Some d" "el_tail (rd_events d) = NoTail"
    and "readMeta rid s = Inr m" "readEvents rid s = Inr es"
    and "s' \<in> set (transition_crashes env rid change events s)"
  shows "(readMeta rid s' = Inr m \<and> readEvents rid s' = Inr es)
    \<or> (readMeta rid s' = Inr (change m) \<and> (\<exists>k. readEvents rid s' = Inr (es @ take k (event_stamps env (rs_ticks s) events))))"
proof -
  note d = assms(1)
  have log: "rd_events d = whole_log es"
    using assms(1,2,4) read_log_whole by (simp add: readEvents_def split: sum.splits)
  let ?s = "snd (writeMeta rid (change m) s)"
  from assms(5,3) consider "s' = s" | "s' \<in> set (append_crashes env rid events ?s)" by (auto simp: transition_crashes_def)
  then show ?thesis
  proof cases
    case 2
    have "run_dir_of rid ?s = Some (d\<lparr>rd_meta := MetaStored (change m)\<rparr>)" by (simp add: writeMeta_def d)
    from append_crash_reads [OF this _ 2, of es] log d show ?thesis by (simp add: writeMeta_def readMeta_def)
  qed (use assms(3,4) in simp)
qed

definition stage_of_sample :: "(string \<times> js_object) list" where
  "stage_of_sample = [(''stage_started'', [(''stage'', JStr ''a'')])]"

text \<open>The Run whose start was recorded in its record and cut short in its timeline.\<close>

definition torn_store :: run_store where
  "torn_store = alter_dir sample_rid (\<lambda>d. d\<lparr>rd_events := whole_log [created_event]\<lparr>el_tail := TornTail\<rparr>\<rparr>)
     (snd (writeMeta sample_rid (sample_meta\<lparr>rm_status := RunRunning\<rparr>) created_store))"

lemma torn_crash: "torn_store \<in> set (transition_crashes sample_run_env sample_rid (\<lambda>m. m\<lparr>rm_status := RunRunning\<rparr>)
    stage_of_sample created_store)"
  unfolding torn_store_def transition_crashes_def created_meta stage_of_sample_def
  by (simp add: writeMeta_def created_dir torn_appends_def)

theorem a_crash_leaves_the_run_readable_witness:
  "(\<exists>e. readEvents sample_rid torn_store = Inr e) \<and> (\<exists>m. readMeta sample_rid torn_store = Inr m)"
  using a_crash_leaves_the_run_readable [OF created_dir _ created_meta created_events torn_crash] by (auto simp: whole_log_def)

text \<open>C26: A line cut short is not the end of it: the event appended after it runs into it, the line they make is damaged, and
  is not the last; from then on the timeline of the Run is refused, whatever is done.\<close>

theorem an_event_after_a_torn_line_spoils_the_timeline:
  assumes "run_dir_of rid s = Some d" "el_tail (rd_events d) = TornTail"
    and "(run_step env)\<^sup>*\<^sup>* (snd (appendEvent env rid type detail s)) s'"
  shows "\<exists>n. readEvents rid s' = Inl (TimelineDamaged rid n)"
  by (rule damaged_refused, rule run_steps_damaged [OF assms(3)], rule append_after_tear [OF assms(1)]) (simp add: assms(2))

theorem an_event_after_a_torn_line_spoils_the_timeline_witness:
  "\<exists>n. readEvents sample_rid (snd (appendEvent sample_run_env sample_rid ''noted'' None torn_store)) = Inl (TimelineDamaged sample_rid n)"
proof -
  obtain d where "run_dir_of sample_rid torn_store = Some d" "el_tail (rd_events d) = TornTail"
    by (simp add: torn_store_def writeMeta_def created_dir)
  then show ?thesis by (rule an_event_after_a_torn_line_spoils_the_timeline) (rule rtranclp.rtrancl_refl)
qed

subsection \<open>The list\<close>

text \<open>C28: The pages of the list, each from the cursor of the one before, are the whole list: every Run that can be read, once, the
  newest first.\<close>

theorem pages_cover_every_run:
  assumes "names_ok s" "rq_limit q = Some k" "0 < k" "rq_cursor q = None"
  shows "pages (Suc (length (rs_dirs s))) q s = fst (list_runs (q\<lparr>rq_limit := None\<rparr>) s)
    \<and> sorted_wrt (>) (map su_id (pages (Suc (length (rs_dirs s))) q s))
    \<and> set (pages (Suc (length (rs_dirs s))) q s)
      = {toSummary m | m e. readMeta e s = Inr m \<and> (rq_module q = None \<or> rq_module q = Some (rm_module m))}"
proof -
  have "length (listed_names s (rq_cursor q)) < Suc (length (rs_dirs s))" using length_listed [of s "rq_cursor q"] by simp
  note all = pages_list [OF assms(1,2,3) this]
  have "fst (list_runs (q\<lparr>rq_limit := None\<rparr>) s) = List.map_filter (shown s q) (listed_names s (rq_cursor q))"
    using whole_list [of "q\<lparr>rq_limit := None\<rparr>" s] by simp
  with all assms(4) shown_sorted [OF assms(1) descending_names [OF assms(1)], of q] set_shown [OF assms(1), of q]
  show ?thesis by simp
qed

theorem pages_cover_every_run_witness:
  "map su_id (pages 2 \<lparr>rq_module = None, rq_limit = Some 1, rq_cursor = None\<rparr> created_store) = [sample_rid]"
proof -
  let ?q = "\<lparr>rq_module = None, rq_limit = Some 1, rq_cursor = None\<rparr>"
  have dirs: "map fst (rs_dirs created_store) = [sample_rid]"
    unfolding created_store_def create_def Let_def sample_identity
    by (simp add: empty_store_def run_dir_of_def andThen_def appendEvent_def alter_dir_def tick_def)
  have len: "length (rs_dirs created_store) = 1" using arg_cong [OF dirs, of length] by simp
  note all = pages_cover_every_run [OF store_ok_names [OF created_ok], of ?q 1]
  have "listed_names created_store None = [sample_rid]"
    using store_ok_dir [OF created_ok created_dir] by (simp add: listed_names_def dirs)
  then have "fst (list_runs (?q\<lparr>rq_limit := None\<rparr>) created_store) = [toSummary sample_meta]"
    using whole_list [of "?q\<lparr>rq_limit := None\<rparr>" created_store]
    by (simp add: map_filter_def shown_def created_meta)
  with all len show ?thesis by (simp add: toSummary_def meta_of_def numeral_2_eq_2)
qed

subsection \<open>The queue\<close>

text \<open>C11: Whatever the API, the clock, the Module and crashes do, a Run is worked on once at a time: it is either in progress or in
  the queue, once, and exactly those Runs are active.\<close>

theorem no_run_is_worked_on_twice:
  assumes "(runner_moves env)\<^sup>*\<^sup>* (idle_runner s) r"
  shows "distinct (working r) \<and> set (working r) = un_active r"
  using queue_ok_moves [OF assms idle_queue_ok] by (simp add: queue_ok_def)

definition sample_module :: "unit shell_module" where
  "sample_module = \<lparr>sm_id = ''m'', sm_version = 1, sm_failureHint = (\<lambda>_ _. ''try again''),
     sm_planRetry = (\<lambda>m. Some \<lparr>yp_fromStage = ''a'', yp_reason = ''again'', yp_input = (), yp_resetAttempts = False, yp_discard = []\<rparr>),
     sm_planResume = (\<lambda>_. None),
     sm_planRecovery = (\<lambda>_. Some \<lparr>sp_fromStage = ''a'', sp_reason = ''restart'', sp_input = ()\<rparr>)\<rparr>"

definition sample_runner_env :: "unit runner_env" where
  "sample_runner_env = \<lparr>ue_runs = sample_run_env, ue_module = sample_module, ue_parse = (\<lambda>_. None), ue_now = 0,
     ue_now_text = ''2026-06-18T13:00:00.000Z''\<rparr>"

definition other_runner_env :: "unit runner_env" where
  "other_runner_env = sample_runner_env\<lparr>ue_module := sample_module\<lparr>sm_id := ''n''\<rparr>\<rparr>"

lemma runner_step_moves: "runner_step env r r' \<Longrightarrow> runner_moves env r r'"
proof -
  assume step: "runner_step env r r'"
  have "env\<lparr>ue_now := ue_now env, ue_now_text := ue_now_text env\<rparr> = env" by simp
  with step show ?thesis unfolding runner_moves_def by metis
qed

lemma started_moves: "(runner_moves env)\<^sup>*\<^sup>* r (snd (startRun env rec input r))"
  by (rule r_into_rtranclp, rule runner_step_moves, rule run_started)

theorem no_run_is_worked_on_twice_witness:
  "distinct (working (snd (startRun sample_runner_env \<lparr>rr_intake = ''manual'', rr_fileName = None, rr_sourceUrl = None,
     rr_externalId = None\<rparr> () (idle_runner empty_store))))"
  by (rule no_run_is_worked_on_twice [OF started_moves, THEN conjunct1])

subsection \<open>Retries\<close>

lemma the_meta_run: "the_meta rid r = (case readMeta rid (un_runs r) of Inl e \<Rightarrow> (Inl (StoreError e), r) | Inr m \<Rightarrow> (Inr m, r))"
  by (simp add: the_meta_def on_runs_def split: sum.split)

lemma on_runs_error: "on_runs m r = (Inl e, r') \<Longrightarrow> \<exists>x. e = StoreError x"
  by (auto simp: on_runs_def split: prod.splits sum.splits)

lemma forEach_error:
  assumes "\<And>x s e s'. f x s = (Inl e, s') \<Longrightarrow> P e"
  shows "forEach f xs s = (Inl e, s') \<Longrightarrow> P e"
  by (induction xs arbitrary: s) (auto elim!: andThen_InlE dest: assms)

lemma discard_error: "forEach (\<lambda>name. on_runs (deleteArtifact rid name)) xs r = (Inl e, r') \<Longrightarrow> \<exists>x. e = StoreError x"
  by (rule forEach_error [where P = "\<lambda>e. \<exists>x. e = StoreError x"]) (auto dest: on_runs_error)

lemma carried_out_error:
  assumes "carry_out_retry env rid p r = (Inl e, r')"
  shows "\<exists>x. e = StoreError x"
  using assms unfolding carry_out_retry_def
  by (auto elim!: andThen_InlE simp: enqueue_def split: if_splits dest: on_runs_error discard_error)

lemma readMeta_append [simp]: "readMeta k (snd (appendEvent env rid t x s)) = readMeta k s"
  by (auto simp: appendEvent_def readMeta_def split: option.splits)

lemma refuse_retry_run: "readMeta rid (un_runs r) = Inr m \<Longrightarrow> refuse_retry env rid c m' r = (Inl (RunNotRetryable rid c),
    r\<lparr>un_runs := snd (appendEvent (ue_runs env) rid ''retry_refused'' (Some (refusal_detail c m')) (un_runs r))\<rparr>)"
  by (auto simp: refuse_retry_def andThen_def on_runs_def readMeta_dir appendEvent_def)

lemma retry_run: "retryRun env rid r = (case un_waiting r of Some reason \<Rightarrow> (Inl (SetupRequired reason), r)
   | None \<Rightarrow> if \<not> run_exists rid (un_runs r) then (Inl (RunNotFound rid), r)
     else case readMeta rid (un_runs r) of Inl e \<Rightarrow> (Inl (StoreError e), r)
       | Inr m \<Rightarrow> if rm_status m \<noteq> RunFailed then refuse_retry env rid StatusNotFailed m r
           else if no_stage m then refuse_retry env rid FailedStageMissing m r
           else (case sm_planRetry (ue_module env) m of None \<Rightarrow> refuse_retry env rid ModuleDeclined m r
             | Some p \<Rightarrow> carry_out_retry env rid p r))"
  by (simp add: retryRun_def andThen_def assertReady_def requireRun_def the_meta_run split: option.split sum.split)

text \<open>A retry that is refused leaves every Run as it was, but for the event that says so on the timeline of the Run.\<close>

theorem refused_retry_changes_only_the_timeline:
  assumes "retryRun env rid r = (Inl (RunNotRetryable rid' c), r')"
  shows "\<exists>m. readMeta rid (un_runs r) = Inr m \<and> r' = r\<lparr>un_runs := snd (appendEvent (ue_runs env) rid ''retry_refused''
      (Some (refusal_detail c m)) (un_runs r))\<rparr> \<and> (\<forall>k. readMeta k (un_runs r') = readMeta k (un_runs r))"
proof (cases "readMeta rid (un_runs r)")
  case (Inr m)
  with assms have "refuse_retry env rid c m r = (Inl (RunNotRetryable rid' c), r')"
    by (auto simp: retry_run refuse_retry_run dest: carried_out_error split: option.splits if_splits)
  with Inr show ?thesis by (auto simp: refuse_retry_run)
qed (use assms in \<open>auto simp: retry_run split: option.splits if_splits\<close>)

theorem refused_retry_changes_only_the_timeline_witness:
  "readMeta sample_rid (un_runs (snd (retryRun sample_runner_env sample_rid (idle_runner created_store)))) = Inr sample_meta"
proof -
  have "fst (retryRun sample_runner_env sample_rid (idle_runner created_store)) = Inl (RunNotRetryable sample_rid StatusNotFailed)"
    using sample_exists by (simp add: retry_run idle_runner_def created_meta refuse_retry_run meta_of_def)
  then have "retryRun sample_runner_env sample_rid (idle_runner created_store) = (Inl (RunNotRetryable sample_rid StatusNotFailed),
      snd (retryRun sample_runner_env sample_rid (idle_runner created_store)))" by (metis prod.collapse)
  from refused_retry_changes_only_the_timeline [OF this] show ?thesis by (auto simp: idle_runner_def created_meta)
qed

lemma enqueue_active: "rid \<in> un_active r \<Longrightarrow> enqueue rid input r = (Inr False, r)"
  by (simp add: enqueue_def)

lemma on_runs_queue: "on_runs m r = (x, r') \<Longrightarrow> un_active r' = un_active r \<and> un_queue r' = un_queue r \<and> un_job r' = un_job r"
  by (auto simp: on_runs_def split: prod.splits sum.splits)

lemma forEach_frame:
  assumes "\<And>x s y s'. f x s = (y, s') \<Longrightarrow> g s' = g s"
  shows "forEach f xs s = (ys, s') \<Longrightarrow> g s' = g s"
proof (induction xs arbitrary: s ys s')
  case (Cons x xs)
  obtain y s1 where y: "f x s = (y, s1)" by force
  obtain zs s2 where zs: "forEach f xs s1 = (zs, s2)" by force
  have "g s1 = g s" "g s2 = g s1" using assms [OF y] Cons.IH [OF zs] by blast+
  moreover have "s' = s1 \<or> s' = s2" using Cons.prems y zs by (auto simp: andThen_def split: sum.splits)
  ultimately show ?case by auto
qed simp

text \<open>C27: 
  A retry that is answered while the failed work is still in progress is lost: the Run is pending again, but the work is not
  enqueued, and once the old work has settled nothing works on the Run.
\<close>

theorem retry_of_unsettled_work_is_lost:
  assumes "queue_ok r" "un_job r = Some j" "jb_run j = rid" "retryRun env rid r = (Inr m, r')"
  shows "rm_status m = RunPending \<and> readMeta rid (un_runs r') = Inr m \<and> un_queue r' = un_queue r
    \<and> readMeta rid (un_runs (work_throws j r')) = Inr m \<and> rid \<notin> set (working (work_throws j r'))"
proof -
  let ?part = "\<lambda>r :: 'a runner. (un_active r, un_queue r, un_job r)"
  have frame: "?part s' = ?part s" if "on_runs x s = (y, s')" for x :: "'b run_cmd" and s y s'
    using on_runs_queue [OF that] by simp
  from assms(4) obtain p where p: "carry_out_retry env rid p r = (Inr m, r')"
    by (auto simp: retry_run refuse_retry_def elim!: andThen_InrE split: option.splits sum.splits if_splits)
  then obtain u s1 us s2 s3 b where run:
    "(if yp_resetAttempts p then andThen (on_runs (resetAttempts (ue_runs env) rid)) (\<lambda>_. ret ()) else ret ()) r = (Inr u, s1)"
    "forEach (\<lambda>name. on_runs (deleteArtifact rid name)) (yp_discard p) s1 = (Inr us, s2)"
    "on_runs (reopen (ue_runs env) rid (yp_fromStage p) (yp_reason p)) s2 = (Inr m, s3)"
    "enqueue rid (yp_input p) s3 = (Inr b, r')"
    unfolding carry_out_retry_def by (elim andThen_InrE) auto
  have "?part s1 = ?part r" using run(1) by (auto elim!: andThen_InrE dest: on_runs_queue split: if_splits)
  moreover have "?part s2 = ?part s1" by (rule forEach_frame [OF _ run(2)]) (use on_runs_queue in blast)
  moreover have "?part s3 = ?part s2" using on_runs_queue [OF run(3)] by simp
  ultimately have part: "?part s3 = ?part r" by simp
  have "rid \<in> un_active r" using assms(1-3) by (auto simp: queue_ok_def working_def)
  then have last: "r' = s3" using run(4) part by (simp add: enqueue_active)
  obtain m0 where m0: "readMeta rid (un_runs s2) = Inr m0" "m = (back_to_pending m0)\<lparr>rm_skipReason := None, rm_connectionState := None\<rparr>"
    "readMeta rid (un_runs s3) = Inr m"
  proof (cases "readMeta rid (un_runs s2)")
    case (Inl e)
    with run(3) show ?thesis by (simp add: on_runs_def reopen_def transition_refused)
  next
    case (Inr m0)
    with run(3) that show ?thesis by (auto simp: on_runs_def reopen_def transition_moves readMeta_dir [of rid "un_runs s2"])
  qed
  with last part assms show ?thesis
    by (auto simp: back_to_pending_def work_throws_def settle_def queue_ok_def working_def)
qed

definition failed_sample :: "unit runner" where
  "failed_sample = \<lparr>un_runs = snd (failed sample_run_env sample_rid ''a'' ''e'' ''h'' \<lparr>ff_connectionState = None, ff_eventDetail = []\<rparr>
     created_store), un_active = {sample_rid}, un_queue = [], un_job = Some \<lparr>jb_run = sample_rid, jb_input = (), jb_stack = []\<rparr>,
     un_waiting = None\<rparr>"

lemma failed_sample_meta: "run_exists sample_rid (un_runs failed_sample)"
  "readMeta sample_rid (un_runs failed_sample) =
    Inr (failed_change ''a'' ''h'' \<lparr>ff_connectionState = None, ff_eventDetail = []\<rparr> sample_meta)"
  using sample_exists by (simp_all add: failed_sample_def failed_def transition_moves [OF created_meta] run_exists_def
      after_transition_def readMeta_def created_dir)

lemma failed_sample_retried: "\<exists>m r'. retryRun sample_runner_env sample_rid failed_sample = (Inr m, r')"
proof -
  obtain m s where "reopen sample_run_env sample_rid ''a'' ''again'' (un_runs failed_sample) = (Inr m, s)"
    by (simp add: reopen_def transition_moves [OF failed_sample_meta(2)])
  then have "on_runs (reopen sample_run_env sample_rid ''a'' ''again'') failed_sample = (Inr m, failed_sample\<lparr>un_runs := s\<rparr>)"
    by (simp add: on_runs_def)
  then have carried: "\<exists>r'. carry_out_retry sample_runner_env sample_rid
      \<lparr>yp_fromStage = ''a'', yp_reason = ''again'', yp_input = (), yp_resetAttempts = False, yp_discard = []\<rparr> failed_sample = (Inr m, r')"
    by (simp add: carry_out_retry_def andThen_def enqueue_def sample_runner_env_def)
  let ?m = "failed_change ''a'' ''h'' \<lparr>ff_connectionState = None, ff_eventDetail = []\<rparr> sample_meta"
  have "un_waiting failed_sample = None" "rm_status ?m = RunFailed" "\<not> no_stage ?m"
    by (simp_all add: failed_sample_def failed_change_def no_stage_def)
  moreover have "sm_planRetry (ue_module sample_runner_env) ?m = Some
      \<lparr>yp_fromStage = ''a'', yp_reason = ''again'', yp_input = (), yp_resetAttempts = False, yp_discard = []\<rparr>"
    by (simp add: sample_runner_env_def sample_module_def)
  ultimately show ?thesis using carried failed_sample_meta unfolding retry_run by simp blast
qed

theorem retry_of_unsettled_work_is_lost_witness:
  "\<exists>m r' j. retryRun sample_runner_env sample_rid failed_sample = (Inr m, r') \<and> rm_status m = RunPending
    \<and> sample_rid \<notin> set (working (work_throws j r'))"
proof -
  let ?j = "\<lparr>jb_run = sample_rid, jb_input = (), jb_stack = []\<rparr>"
  obtain m r' where m: "retryRun sample_runner_env sample_rid failed_sample = (Inr m, r')" using failed_sample_retried by blast
  have "queue_ok failed_sample" "un_job failed_sample = Some ?j" "jb_run ?j = sample_rid"
    by (simp_all add: failed_sample_def queue_ok_def working_def)
  from retry_of_unsettled_work_is_lost [OF this m] m show ?thesis by blast
qed

subsection \<open>Recovery\<close>

text \<open>C12: The sweep of a process that has just started (nothing active, nothing queued, not waiting for a configuration, each
  record filed under its own Run's name) returns exactly the Runs of its Module that have a plan to the queue, each once and
  pending, and answers how many.  Every other Run is left as it stood and out of the queue: a Run of another Module,
  one whose record cannot be read, one that waits for a time to come or for a person, one that has ended or failed, and
  one that was pending or running and whose timeline cannot be read.\<close>

theorem recovery_requeues_every_orphan:
  assumes "names_ok (un_runs r)" "un_active r = {}" "un_queue r = []" "un_waiting r = None"
  shows "\<exists>r'. recoverRuns env r = (Inr (length (un_queue r')), r') \<and> distinct (map fst (un_queue r'))
    \<and> (\<forall>rid. (case (readMeta rid (un_runs r), recovery_plan env (un_runs r) rid) of
        (Inr m, Some p) \<Rightarrow> if rm_module m = sm_id (ue_module env)
          then (rid, sp_input p) \<in> set (un_queue r') \<and> readMeta rid (un_runs r') = Inr (back_to_pending m)
          else rid \<notin> fst ` set (un_queue r') \<and> run_dir_of rid (un_runs r') = run_dir_of rid (un_runs r)
      | _ \<Rightarrow> rid \<notin> fst ` set (un_queue r') \<and> run_dir_of rid (un_runs r') = run_dir_of rid (un_runs r)))"
proof -
  let ?q = "\<lparr>rq_module = Some (sm_id (ue_module env)), rq_limit = None, rq_cursor = None\<rparr>"
  let ?rids = "own_runs env (un_runs r)"
  have list: "fst (list_runs ?q (un_runs r)) = List.map_filter (shown (un_runs r) ?q) (listed_names (un_runs r) None)"
    using whole_list [of ?q "un_runs r"] by simp
  have "sorted_wrt (>) ?rids"
    unfolding own_runs_def list by (rule shown_sorted [OF assms(1) descending_names [OF assms(1)]])
  then have distinct: "distinct ?rids" by (metis distinct_rev sorted_wrt_rev strict_sorted_iff rev_rev_ident)
  have own: "rid \<in> set ?rids \<longleftrightarrow> (\<exists>m. readMeta rid (un_runs r) = Inr m \<and> rm_module m = sm_id (ue_module env))" for rid
  proof -
    have "rid \<in> set ?rids \<longleftrightarrow> (\<exists>m e. readMeta e (un_runs r) = Inr m \<and> rm_module m = sm_id (ue_module env) \<and> su_id (toSummary m) = rid)"
      unfolding own_runs_def list set_map set_shown [OF assms(1), of ?q] by force
    with assms(1) show ?thesis by (auto simp: toSummary_def names_ok_def)
  qed
  have "sweepable ?rids r" using own assms(1,2) by (auto simp: sweepable_def names_ok_def)
  from sweep [OF distinct this, of env] obtain cs r' where r': "forEach (recover_run env) ?rids r = (Inr cs, r')"
    "un_queue r' = plans_of env (un_runs r) ?rids" "length (filter (\<lambda>c. c) cs) = length (un_queue r')"
    "swept env ?rids (un_runs r) (un_runs r')" using assms(3) by auto
  have "recoverRuns env r = (Inr (length (un_queue r')), r')"
    using r'(1,3) assms(4) by (simp add: recoverRuns_def)
  moreover have "distinct (map fst (un_queue r'))"
    unfolding r'(2) using distinct by (rule distinct_plans)
  moreover have "case (readMeta rid (un_runs r), recovery_plan env (un_runs r) rid) of
        (Inr m, Some p) \<Rightarrow> if rm_module m = sm_id (ue_module env)
          then (rid, sp_input p) \<in> set (un_queue r') \<and> readMeta rid (un_runs r') = Inr (back_to_pending m)
          else rid \<notin> fst ` set (un_queue r') \<and> run_dir_of rid (un_runs r') = run_dir_of rid (un_runs r)
      | _ \<Rightarrow> rid \<notin> fst ` set (un_queue r') \<and> run_dir_of rid (un_runs r') = run_dir_of rid (un_runs r)" for rid
  proof -
    have "if rid \<in> set ?rids \<and> recovery_plan env (un_runs r) rid \<noteq> None
      then \<exists>m. readMeta rid (un_runs r) = Inr m \<and> readMeta rid (un_runs r') = Inr (back_to_pending m)
      else run_dir_of rid (un_runs r') = run_dir_of rid (un_runs r)"
      using r'(4) unfolding swept_def by (rule spec)
    then show ?thesis
      using own [of rid] planned_iff [of rid _ env "un_runs r" ?rids]
      unfolding r'(2) by (cases "readMeta rid (un_runs r)"; cases "recovery_plan env (un_runs r) rid") auto
  qed
  ultimately show ?thesis by blast
qed

text \<open>The Run is taken up by the Module it belongs to, and left alone by another.\<close>

theorem recovery_requeues_every_orphan_witness:
  "(\<exists>r'. recoverRuns sample_runner_env (idle_runner created_store) = (Inr (length (un_queue r')), r')
      \<and> (sample_rid, ()) \<in> set (un_queue r'))
    \<and> (\<exists>r'. recoverRuns other_runner_env (idle_runner created_store) = (Inr (length (un_queue r')), r')
      \<and> sample_rid \<notin> fst ` set (un_queue r')
      \<and> run_dir_of sample_rid (un_runs r') = run_dir_of sample_rid created_store)"
proof -
  let ?r = "idle_runner created_store :: unit runner"
  have plan: "recovery_plan env (un_runs ?r) sample_rid = Some \<lparr>sp_fromStage = ''a'', sp_reason = ''restart'', sp_input = ()\<rparr>"
    if "env \<in> {sample_runner_env, other_runner_env}" for env
    using that by (auto simp: recovery_plan_def idle_runner_def created_meta clock_wait_def meta_of_def orphan_state_def created_events
        sample_runner_env_def other_runner_env_def sample_module_def)
  have meta: "readMeta sample_rid (un_runs ?r) = Inr sample_meta" "rm_module sample_meta = sm_id (ue_module sample_runner_env)"
    "rm_module sample_meta \<noteq> sm_id (ue_module other_runner_env)"
    by (simp_all add: idle_runner_def created_meta meta_of_def sample_new_def sample_runner_env_def other_runner_env_def sample_module_def)
  have ready: "names_ok (un_runs ?r)" "un_active ?r = {}" "un_queue ?r = []" "un_waiting ?r = None"
    by (simp_all add: idle_runner_def store_ok_names [OF created_ok])
  from recovery_requeues_every_orphan [OF ready, of sample_runner_env] obtain own where
    own: "recoverRuns sample_runner_env ?r = (Inr (length (un_queue own)), own)"
    "case (readMeta sample_rid (un_runs ?r), recovery_plan sample_runner_env (un_runs ?r) sample_rid) of
        (Inr m, Some p) \<Rightarrow> if rm_module m = sm_id (ue_module sample_runner_env)
          then (sample_rid, sp_input p) \<in> set (un_queue own) \<and> readMeta sample_rid (un_runs own) = Inr (back_to_pending m)
          else sample_rid \<notin> fst ` set (un_queue own) \<and> run_dir_of sample_rid (un_runs own) = run_dir_of sample_rid (un_runs ?r)
      | _ \<Rightarrow> sample_rid \<notin> fst ` set (un_queue own) \<and> run_dir_of sample_rid (un_runs own) = run_dir_of sample_rid (un_runs ?r)"
    by blast
  from recovery_requeues_every_orphan [OF ready, of other_runner_env] obtain other where
    other: "recoverRuns other_runner_env ?r = (Inr (length (un_queue other)), other)"
    "case (readMeta sample_rid (un_runs ?r), recovery_plan other_runner_env (un_runs ?r) sample_rid) of
        (Inr m, Some p) \<Rightarrow> if rm_module m = sm_id (ue_module other_runner_env)
          then (sample_rid, sp_input p) \<in> set (un_queue other) \<and> readMeta sample_rid (un_runs other) = Inr (back_to_pending m)
          else sample_rid \<notin> fst ` set (un_queue other) \<and> run_dir_of sample_rid (un_runs other) = run_dir_of sample_rid (un_runs ?r)
      | _ \<Rightarrow> sample_rid \<notin> fst ` set (un_queue other) \<and> run_dir_of sample_rid (un_runs other) = run_dir_of sample_rid (un_runs ?r)"
    by blast
  have "(sample_rid, ()) \<in> set (un_queue own)" using own(2) meta by (simp add: plan)
  moreover have "sample_rid \<notin> fst ` set (un_queue other)" "run_dir_of sample_rid (un_runs other) = run_dir_of sample_rid (un_runs ?r)"
    using other(2) meta by (simp_all add: plan)
  ultimately show ?thesis using own(1) other(1) by (auto simp: idle_runner_def)
qed

end
