(* ===== verification/CommitProtocol.thy ===== *)
theory CommitProtocol
  imports CalendarDate
begin

section \<open>The commit protocol and the schedule of wake-ups\<close>

text \<open>
  \<^verbatim>\<open>apps/server/src/engine/commit.ts\<close>: how one record of the Workspace is committed, each operation as it runs inside the
  critical section of its path; and \<^verbatim>\<open>engine/durableClock.ts\<close>, the schedules kept in one such record.  The digest, \<open>JSON.parse\<close>
  and \<open>JSON.stringify\<close> are arguments, and so is what a read of the published bytes answers, which on an intact mount is the
  bytes themselves.  \<open>wf_active\<close> are the paths an asynchronous writer is in the middle of.
\<close>

record workspace_files =
  wf_contents :: "string \<Rightarrow> string option"
  wf_active :: "string set"

record commit_env =
  ce_sha :: "string \<Rightarrow> string"
  ce_parse :: "string \<Rightarrow> jsval option"
  ce_print :: "jsval \<Rightarrow> string"
  ce_published :: "string \<Rightarrow> string \<Rightarrow> string"

datatype commit_error =
    NotReadable string
  | AlreadyBeingWritten string
  | OtherBytes string
  | PublishedMismatch string
  | VersionConflict string int int
  | NotAVersion string
  | ChangeThrew string

type_synonym 'a commit_cmd = "(workspace_files, commit_error, 'a) cmd"

definition intact :: "commit_env \<Rightarrow> bool" where
  "intact env \<longleftrightarrow> (\<forall>path bytes. ce_published env path bytes = bytes)"

definition put_file :: "string \<Rightarrow> string \<Rightarrow> workspace_files \<Rightarrow> workspace_files" where
  "put_file path bytes w = w\<lparr>wf_contents := (wf_contents w)(path \<mapsto> bytes)\<rparr>"

definition commit :: "commit_env \<Rightarrow> string \<Rightarrow> string \<Rightarrow> string commit_cmd" where
  "commit env path bytes w = (let w' = put_file path bytes w in
     if ce_published env path bytes = bytes then (Inr (ce_sha env bytes), w') else (Inl (PublishedMismatch path), w'))"

definition writeJson :: "commit_env \<Rightarrow> string \<Rightarrow> jsval \<Rightarrow> string commit_cmd" where
  "writeJson env path v = commit env path (ce_print env v @ [CHR 0x0A])"

definition readOrNull :: "string \<Rightarrow> workspace_files \<Rightarrow> string option" where
  "readOrNull path w = wf_contents w path"

definition readParsedOrNull :: "commit_env \<Rightarrow> string \<Rightarrow> workspace_files \<Rightarrow> commit_error + jsval" where
  "readParsedOrNull env path w = (case readOrNull path w of None \<Rightarrow> Inr JNull
     | Some t \<Rightarrow> (case ce_parse env t of None \<Rightarrow> Inl (NotReadable path) | Some v \<Rightarrow> Inr v))"

datatype immutable_outcome = Written string | Replayed string

definition writeImmutable :: "commit_env \<Rightarrow> string \<Rightarrow> string \<Rightarrow> immutable_outcome commit_cmd" where
  "writeImmutable env path bytes w = (case readOrNull path w of
      Some existing \<Rightarrow> (if existing \<noteq> bytes then Inl (OtherBytes path) else Inr (Replayed (ce_sha env bytes)), w)
    | None \<Rightarrow> andThen (commit env path bytes) (\<lambda>_. ret (Written (ce_sha env bytes))) w)"

text \<open>What the caller makes of the current record may be refused by throwing.\<close>

definition update_record :: "commit_env \<Rightarrow> string \<Rightarrow> (jsval \<Rightarrow> string + jsval) \<Rightarrow> jsval commit_cmd" where
  "update_record env path mutate =
     andThen (query (readParsedOrNull env path)) (\<lambda>current.
     andThen (check (case mutate current of Inl e \<Rightarrow> Inl (ChangeThrew e) | Inr v \<Rightarrow> Inr v)) (\<lambda>v.
     andThen (commit env path (ce_print env v @ [CHR 0x0A])) (\<lambda>_. ret v)))"

definition MAX_SAFE_INTEGER :: int where "MAX_SAFE_INTEGER = 9007199254740991"

fun generationOf :: "string \<Rightarrow> jsval \<Rightarrow> commit_error + int" where
  "generationOf path (JObj fs) = (case map_of fs ''generation'' of None \<Rightarrow> Inr 0
     | Some (JNum n) \<Rightarrow> if 0 \<le> n \<and> n \<le> MAX_SAFE_INTEGER then Inr n else Inl (NotAVersion path)
     | Some _ \<Rightarrow> Inl (NotAVersion path))"
| "generationOf path _ = Inr 0"

definition replace_record :: "commit_env \<Rightarrow> string \<Rightarrow> int \<Rightarrow> jsval \<Rightarrow> string commit_cmd" where
  "replace_record env path expected v =
     andThen (query (readParsedOrNull env path)) (\<lambda>current.
     andThen (check (generationOf path current)) (\<lambda>generation.
     andThen (require (generation = expected) (VersionConflict path expected generation)) (\<lambda>_.
       commit env path (ce_print env v @ [CHR 0x0A]))))"

definition readJsonRecord :: "commit_env \<Rightarrow> (jsval \<Rightarrow> bool) \<Rightarrow> string \<Rightarrow> workspace_files \<Rightarrow> commit_error + jsval option" where
  "readJsonRecord env guard path w = (case wf_contents w path of None \<Rightarrow> Inr None
     | Some t \<Rightarrow> (case ce_parse env t of None \<Rightarrow> Inl (NotReadable path)
         | Some v \<Rightarrow> if guard v then Inr (Some v) else Inl (NotReadable path)))"

definition writeFileVerifiedSync :: "commit_env \<Rightarrow> string \<Rightarrow> string \<Rightarrow> string commit_cmd" where
  "writeFileVerifiedSync env path bytes w =
     (if path \<in> wf_active w then (Inl (AlreadyBeingWritten path), w) else commit env path bytes w)"

subsection \<open>Schedules\<close>

record durable_schedule =
  ds_module :: string
  ds_key :: string
  ds_dueAt :: string
  ds_input :: jsval

text \<open>What the file holds: nothing, something else than an array, or an array, of which an entry that is no schedule has no value.\<close>

datatype schedule_file = NoSchedules | NotSchedules | Schedules "durable_schedule option list"

fun readSchedules :: "schedule_file \<Rightarrow> durable_schedule list" where
  "readSchedules (Schedules es) = List.map_filter (\<lambda>e. e) es"
| "readSchedules _ = []"

definition schedule_id :: "durable_schedule \<Rightarrow> string \<times> string" where
  "schedule_id d = (ds_module d, ds_key d)"

definition writeSchedules :: "durable_schedule list \<Rightarrow> schedule_file" where
  "writeSchedules ds = Schedules (map Some ds)"

text \<open>The first schedule of an identity is taken out.\<close>

fun remove_first :: "string \<times> string \<Rightarrow> durable_schedule list \<Rightarrow> durable_schedule list" where
  "remove_first k [] = []"
| "remove_first k (d # ds) = (if schedule_id d = k then ds else d # remove_first k ds)"

definition schedule :: "durable_schedule \<Rightarrow> schedule_file \<Rightarrow> schedule_file" where
  "schedule r f = writeSchedules (remove_first (schedule_id r) (readSchedules f) @ [r])"

definition remove_schedule :: "string \<Rightarrow> string \<Rightarrow> schedule_file \<Rightarrow> schedule_file" where
  "remove_schedule m k f = (let ds = readSchedules f; kept = filter (\<lambda>d. schedule_id d \<noteq> (m, k)) ds in
     if length kept \<noteq> length ds then writeSchedules kept else f)"

definition list_schedules :: "string option \<Rightarrow> schedule_file \<Rightarrow> durable_schedule list" where
  "list_schedules m f = (case m of None \<Rightarrow> readSchedules f | Some name \<Rightarrow> filter (\<lambda>d. ds_module d = name) (readSchedules f))"

definition due_schedules :: "(string \<Rightarrow> int option) \<Rightarrow> int \<Rightarrow> schedule_file \<Rightarrow> durable_schedule list" where
  "due_schedules parse now f = filter (\<lambda>d. case parse (ds_dueAt d) of None \<Rightarrow> False | Some t \<Rightarrow> t \<le> now) (readSchedules f)"

subsection \<open>What the commits promise\<close>

lemma replace_records_run:
  assumes "readParsedOrNull env path w = Inr v" "generationOf path v = Inr g"
  shows "replace_record env path expected new w =
    (if g = expected then commit env path (ce_print env new @ [CHR 0x0A]) w else (Inl (VersionConflict path expected g), w))"
  by (simp add: replace_record_def andThen_def assms)

text \<open>Of two writers that read the same generation the second is refused, if the record of the first moved it.\<close>

lemma second_writer_refused:
  assumes "intact env" "\<And>v. ce_parse env (ce_print env v @ [CHR 0x0A]) = Some v"
    and "replace_record env path g first w = (Inr sha, w1)" "generationOf path first = Inr g'" "g' \<noteq> g"
  shows "replace_record env path g second w1 = (Inl (VersionConflict path g g'), w1)"
proof -
  have "w1 = put_file path (ce_print env first @ [CHR 0x0A]) w"
    using assms(3) unfolding replace_record_def
    by (auto simp: commit_def Let_def elim!: run_elims andThen_InrE dest!: require_InrD split: if_splits)
  then have "readParsedOrNull env path w1 = Inr first" by (simp add: readParsedOrNull_def readOrNull_def put_file_def assms(2))
  from replace_records_run [OF this assms(4)] assms(5) show ?thesis by simp
qed

lemma immutable_once:
  assumes "intact env" "writeImmutable env path bytes w = (Inr x, w1)"
  shows "wf_contents w1 path = Some bytes \<and> writeImmutable env path bytes w1 = (Inr (Replayed (ce_sha env bytes)), w1)
    \<and> (other \<noteq> bytes \<longrightarrow> writeImmutable env path other w1 = (Inl (OtherBytes path), w1))"
proof -
  have "wf_contents w1 path = Some bytes"
    using assms by (auto simp: writeImmutable_def readOrNull_def commit_def Let_def put_file_def andThen_def intact_def
        split: option.splits if_splits)
  then show ?thesis by (simp add: writeImmutable_def readOrNull_def)
qed

subsection \<open>The schedules as a map\<close>

definition schedule_at :: "string \<times> string \<Rightarrow> schedule_file \<Rightarrow> durable_schedule option" where
  "schedule_at k f = find (\<lambda>d. schedule_id d = k) (readSchedules f)"

definition schedules_ok :: "schedule_file \<Rightarrow> bool" where
  "schedules_ok f \<longleftrightarrow> distinct (map schedule_id (readSchedules f))"

lemma read_written_schedules [simp]: "readSchedules (writeSchedules ds) = ds"
  by (induction ds) (simp_all add: writeSchedules_def map_filter_def)

lemma remove_first_filter: "distinct (map schedule_id ds) \<Longrightarrow> remove_first k ds = filter (\<lambda>d. schedule_id d \<noteq> k) ds"
  by (induction ds) (auto simp: rev_image_eqI intro!: filter_True [symmetric])

lemma find_filtered: "find (\<lambda>d. schedule_id d = k) (filter (\<lambda>d. schedule_id d \<noteq> j) ds)
    = (if k = j then None else find (\<lambda>d. schedule_id d = k) ds)"
  by (induction ds) auto

lemma find_at_end: "find P (xs @ [x]) = (case find P xs of None \<Rightarrow> if P x then Some x else None | Some y \<Rightarrow> Some y)"
  by (induction xs) auto

lemma schedule_replaces:
  assumes "schedules_ok f"
  shows "schedules_ok (schedule r f) \<and> schedule_at k (schedule r f) = (if k = schedule_id r then Some r else schedule_at k f)"
  using assms by (auto simp: schedules_ok_def schedule_at_def schedule_def remove_first_filter find_filtered find_at_end
      distinct_map_filter split: option.split)

lemma schedule_removed:
  assumes "schedules_ok f"
  shows "schedules_ok (remove_schedule m k f) \<and> schedule_at j (remove_schedule m k f) = (if j = (m, k) then None else schedule_at j f)"
proof (cases "length (filter (\<lambda>d. schedule_id d \<noteq> (m, k)) (readSchedules f)) = length (readSchedules f)")
  case True
  have "d \<noteq> (m, k)" if "d \<in> schedule_id ` set (readSchedules f)" for d
    using that True length_filter_less [of _ "readSchedules f" "\<lambda>d. schedule_id d \<noteq> (m, k)"] by fastforce
  then have "schedule_at (m, k) f = None" unfolding schedule_at_def find_None_iff by blast
  moreover have "remove_schedule m k f = f" using True by (simp add: remove_schedule_def Let_def)
  ultimately show ?thesis using assms by simp
next
  case False
  then have removed: "remove_schedule m k f = writeSchedules (filter (\<lambda>d. schedule_id d \<noteq> (m, k)) (readSchedules f))"
    by (simp add: remove_schedule_def Let_def)
  show ?thesis using assms unfolding schedules_ok_def schedule_at_def removed read_written_schedules
    by (simp add: find_filtered distinct_map_filter)
qed

end
