(* ===== verification/Spec2Isabelle.thy ===== *)
theory Spec2Isabelle
  imports TaskProperties StoreProperties LinkProperties ItemProperties PromotionProperties AutoProperties
    ContentProperties CatalogProperties MeetingProperties RunProperties CommitProtocol
begin

text \<open>
  Three products of the chief-of-staff demo, its Tasks, its Content Projects, and its Transcripts with their Meetings, and
  the engine its modules run on: the server code under \<^verbatim>\<open>apps/server/src\<close> (\<^verbatim>\<open>tasks\<close>, \<^verbatim>\<open>content-projects\<close>,
  \<^verbatim>\<open>source-adapters/diagnostics.ts\<close>, \<^verbatim>\<open>transcript-catalog\<close>, \<^verbatim>\<open>meetings\<close>, \<^verbatim>\<open>text\<close>, \<^verbatim>\<open>runs.ts\<close>, \<^verbatim>\<open>engine\<close>) and the shared types and functions under \<^verbatim>\<open>packages/shared/src\<close> it is
  written in.

  \<^bold>\<open>The program.\<close>  A folder of transcripts is read into the Transcript Catalog, and each Transcript is placed on a
  Meeting, a Calendar occurrence or one of its own.  A model extracts obligations from a Transcript, and the Tasks
  product keeps them: an obligation is first an Action Item, a proposal the owner reviews, and becomes a Task, accepted
  work, when the owner (or the policy the owner enabled) promotes it.  A Task may be represented by one record at Google
  Tasks or Asana, kept by a one-way bridge.  A Content Project is where public evidence, a message charter, outlines
  and drafts for publication are kept, each approved by its author before the next.  The modules of the program do their
  work in Runs, which the engine creates, queues, records stage by stage, retries, suspends and recovers after a restart.
  Everything is held in files of one Workspace.

  \<^bold>\<open>How code becomes definitions.\<close>  A method of a class over a store is a command, a function from the store to
  an answer or an error together with the store it leaves (\<^verbatim>\<open>Prelude\<close>: \<^term>\<open>ret\<close>, \<^term>\<open>throw\<close>, \<^term>\<open>andThen\<close>,
  \<^term>\<open>catching\<close>, \<^term>\<open>forEach\<close>); an exception is the left of the sum, so every refusal is a branch.  Clocks, random
  suffixes, the configuration, the digest and the answers of providers, models and other stores are fields of
  environment records (\<^typ>\<open>tasks_env\<close>, \<^typ>\<open>items_env\<close>, \<^typ>\<open>link_env\<close>, \<^typ>\<open>content_env\<close>, \<^typ>\<open>catalog_env\<close>,
  \<^typ>\<open>join_env\<close>).  A request body, whose members the code validates at run time, is a \<^typ>\<open>jsval\<close>, with undefined apart
  from null.  An integer of the code is an \<^typ>\<open>int\<close> or a \<^typ>\<open>nat\<close>, and where its bound matters (the generation of a
  snapshot) the largest safe integer is written out.  Where a method awaits, what other operations do to the files
  meanwhile is a function of the environment: a generation of content is a plan, a call and a landing, and the turn of
  a source file of the Catalog names what happens before it and during each of its three waits.

  \<^bold>\<open>Tasks, in the order of the theories.\<close>
  \<^item> \<^verbatim>\<open>Prelude\<close>, \<^verbatim>\<open>JsText\<close>, \<^verbatim>\<open>JsSort\<close>, \<^verbatim>\<open>CalendarDate\<close>: commands, lookups and replacements by key; strings and
    values as JavaScript has them; the stable sort; the check of a calendar day.
  \<^item> \<^verbatim>\<open>TaskTypes\<close>, \<^verbatim>\<open>TaskOrder\<close>: \<^verbatim>\<open>task.ts\<close> and \<^verbatim>\<open>task-grouping.ts\<close>.
  \<^item> \<^verbatim>\<open>Handoff\<close>, \<^verbatim>\<open>ActionItemTypes\<close>: the handoff and claim records of \<^verbatim>\<open>meeting-debrief.ts\<close>,
    \<^verbatim>\<open>handoff-notes.ts\<close> and \<^verbatim>\<open>action-item.ts\<close>.
  \<^item> \<^verbatim>\<open>TaskStore\<close>, \<^verbatim>\<open>StoreForms\<close>: \<^verbatim>\<open>store.ts\<close>.  The state \<^typ>\<open>wstore\<close> is what the files hold, readable or not; a
    locale states what a table of the store promises (a write is read back and leaves the other tables alone) and is
    interpreted on the three tables; the snapshot form and the three record files are two implementations of one
    store, and every operation of the Workspace commutes with the abstraction.
  \<^item> \<^verbatim>\<open>WorkspaceTasks\<close>, \<^verbatim>\<open>TaskFacts\<close>, \<^verbatim>\<open>TaskCommands\<close>: \<^verbatim>\<open>tasks.ts\<close>, command by command; the outcome of each
    command, the invariant \<^term>\<open>store_wf\<close> and the steps an owner can take.
  \<^item> \<^verbatim>\<open>ExternalLinks\<close>, \<^verbatim>\<open>LinkFacts\<close>, \<^verbatim>\<open>LinkRuns\<close>: \<^verbatim>\<open>external-link.ts\<close>.  The world of a link holds the store, the
    remaining answers of the provider and the calls made so far.
  \<^item> \<^verbatim>\<open>CanonicalJson\<close>, \<^verbatim>\<open>Materialization\<close>, \<^verbatim>\<open>ActionItems\<close>, \<^verbatim>\<open>ItemCommands\<close>, \<^verbatim>\<open>ItemFacts\<close>, \<^verbatim>\<open>ItemSteps\<close>,
    \<^verbatim>\<open>MaterializeFacts\<close>: \<^verbatim>\<open>materialization.ts\<close> and \<^verbatim>\<open>action-items.ts\<close>.
  \<^item> \<^verbatim>\<open>Promotion\<close>, \<^verbatim>\<open>Workspace\<close>, \<^verbatim>\<open>Redirects\<close>: \<^verbatim>\<open>promotion.ts\<close>, and the whole Workspace as a step relation in which owner
    commands, reviews, extractions, promotions and interruptions interleave; what its steps keep of the redirects.
  \<^item> \<^verbatim>\<open>PromotionAuthorization\<close>, \<^verbatim>\<open>PromotionEligibility\<close>, \<^verbatim>\<open>AutoPromotion\<close>: \<^verbatim>\<open>promotion-authorization.ts\<close>,
    \<^verbatim>\<open>promotion-eligibility.ts\<close>, \<^verbatim>\<open>auto-promotion.ts\<close>, \<^verbatim>\<open>overview.ts\<close> and \<^verbatim>\<open>briefing-projection.ts\<close>.
  \<^item> \<^verbatim>\<open>Samples\<close>: the concrete Workspace on which the witnesses run.

  \<^bold>\<open>Content Projects.\<close>
  \<^item> \<^verbatim>\<open>ContentTypes\<close>, \<^verbatim>\<open>SourceDiagnostics\<close>: \<^verbatim>\<open>content-engine.ts\<close>, \<^verbatim>\<open>source-items.ts\<close> with the Markdown downloads, and
    the sanitized diagnostics of \<^verbatim>\<open>diagnostics.ts\<close>.
  \<^item> \<^verbatim>\<open>BoundedLanes\<close>, \<^verbatim>\<open>ContentResearch\<close>: the pool of concurrent lookups as a step relation, and \<^verbatim>\<open>research.ts\<close>, the
    plan of queries and the run over a bundle.
  \<^item> \<^verbatim>\<open>ContentProjects\<close>, \<^verbatim>\<open>ContentEvidence\<close>, \<^verbatim>\<open>ContentOutlines\<close>: \<^verbatim>\<open>projects.ts\<close>, \<^verbatim>\<open>generation.ts\<close> (the types) and
    \<^verbatim>\<open>opportunity-projects.ts\<close>: Projects and their revisions, evidence and charters, outlines, drafts and approvals.
  \<^item> \<^verbatim>\<open>ContentLaws\<close>, \<^verbatim>\<open>ContentHistory\<close>, \<^verbatim>\<open>ContentRefines\<close>, \<^verbatim>\<open>ContentActions\<close>, \<^verbatim>\<open>ContentFacts\<close>, \<^verbatim>\<open>ContentSamples\<close>:
    the abstract steps a Project may take, what each kind of record must rest on, that every command is a sequence of
    those steps, and the concrete Project of the witnesses.

  \<^bold>\<open>Transcripts and Meetings.\<close>
  \<^item> \<^verbatim>\<open>JsRegex\<close>, \<^verbatim>\<open>MeetingNames\<close>, \<^verbatim>\<open>RegexFacts\<close>: regular expressions of JavaScript by backtracking, with groups and
    back references (\<^term>\<open>match_re\<close>); \<^verbatim>\<open>meetingFileName.ts\<close> and \<^verbatim>\<open>meetingDate.ts\<close> over them, one constructor per
    token of a pattern; and the relation of a pattern to the texts it reads, which the matcher decides.
  \<^item> \<^verbatim>\<open>TranscriptTypes\<close>, \<^verbatim>\<open>CatalogStore\<close>: the records of \<^verbatim>\<open>transcript.ts\<close> and \<^verbatim>\<open>meeting.ts\<close>, and the files of
    \<^verbatim>\<open>transcript-catalog/store.ts\<close>: a JSON file is missing, damaged or holds a value, and a directory of them is
    listed by name.
  \<^item> \<^verbatim>\<open>TranscriptCatalog\<close>, \<^verbatim>\<open>CatalogPass\<close>, \<^verbatim>\<open>TranscriptDeletion\<close>: \<^verbatim>\<open>catalog.ts\<close> (speaker labels, consent, inventory,
    associations; the pass over the source folder with its repairs) and \<^verbatim>\<open>deletion.ts\<close>.
  \<^item> \<^verbatim>\<open>CatalogLaws\<close>, \<^verbatim>\<open>CatalogRefines\<close>, \<^verbatim>\<open>CatalogFacts\<close>: the writes the Catalog may make (\<^term>\<open>catalog_write\<close>), that every
    operation is a sequence of them, and a locale (\<^verbatim>\<open>pass_law\<close>) of what a pass keeps, interpreted for one untouched
    Transcript and for a source under a tombstone.
  \<^item> \<^verbatim>\<open>MeetingStore\<close>, \<^verbatim>\<open>MeetingMatching\<close>, \<^verbatim>\<open>MeetingJoin\<close>: \<^verbatim>\<open>meetings/store.ts\<close>; the signals, the decision, the offers
    and the titles of \<^verbatim>\<open>matching.ts\<close>, \<^verbatim>\<open>association.ts\<close>, \<^verbatim>\<open>timeAnchor.ts\<close> and \<^verbatim>\<open>title.ts\<close>; and \<^verbatim>\<open>join.ts\<close> over the
    Meetings and the Catalog together, as \<^verbatim>\<open>composition/shell.ts\<close> joins them.
  \<^item> \<^verbatim>\<open>MeetingFacts\<close>, \<^verbatim>\<open>MeetingPasses\<close>, \<^verbatim>\<open>MeetingSteps\<close>: one placement and its cases, the standing pass as a whole, and a
    locale (\<^verbatim>\<open>join_invariant\<close>) of what every operation of the join keeps, interpreted for the soundness of both stores
    and for the Calendar's Meetings.

  \<^bold>\<open>Runs.\<close>
  \<^item> \<^verbatim>\<open>RunStore\<close>: \<^verbatim>\<open>runs.ts\<close> and \<^verbatim>\<open>paths.ts\<close>.  A Run is a record, a timeline modelled to the line (\<^typ>\<open>event_log\<close>: the
    complete lines and what follows the last line feed) and the files of its Module; every transition writes the record
    and then appends the events that tell it.
  \<^item> \<^verbatim>\<open>RunFacts\<close>, \<^verbatim>\<open>RunSteps\<close>, \<^verbatim>\<open>RunListing\<close>: the status a timeline tells, the contract of a transition (the locale
    \<^verbatim>\<open>honest_transition\<close>, interpreted on each), every sequence of operations, the stores a crash leaves
    (\<^term>\<open>transition_crashes\<close>), and the list with its pages.
  \<^item> \<^verbatim>\<open>Runner\<close>, \<^verbatim>\<open>RunnerSteps\<close>, \<^verbatim>\<open>RunRecovery\<close>: \<^verbatim>\<open>engine/runner.ts\<close> over the Run store, with the plans of a Module as
    arguments; the Runner as a step relation (\<^term>\<open>runner_step\<close>) in which the commands of the API, the calls of the work
    in progress, other writers of the Runs and crashes interleave; and the recovery sweep as one rewriting.
  \<^item> \<^verbatim>\<open>CommitProtocol\<close>: \<^verbatim>\<open>engine/commit.ts\<close>, each operation as it runs inside its critical section, and
    \<^verbatim>\<open>engine/durableClock.ts\<close>, whose schedules behave as a map.

  \<^bold>\<open>What is shown.\<close>  The theories whose names end in \<^verbatim>\<open>Properties\<close> state it.  Tasks: the reachable stores are well
  formed, a refusal changes nothing, no update is lost, what is undone is undone, listings and groups are complete
  and ordered by the calendar.  Store: what is written is read, what cannot be read is never written over, and the
  snapshot refines the plain files.  Links: at most one record is created at a provider, whatever it answers, for a
  Task whose record is not given up, and the bridge never changes accepted work.  Action Items: materializing an extraction again allocates nothing, a review
  changes one record and only appends to its history, and a redirect always lands at a held record.  Promotion: one Task per Action Item under
  every interleaving, and the recovery of an interrupted promotion.  Automation: it acts only on a record that holds
  everything it needs, and the compact surfaces count what the store holds.  Content: every revision stays sound and
  its history only grows, a supported claim cites frozen evidence, a generation lands only on what it was planned on,
  and research is bounded.  Catalog: its files stay sound whatever interleaves, registration happens once per source
  revision, a stored text is never rewritten, deletion writes its tombstone first and a tombstone keeps the source out.
  Meetings: one Meeting per identity and occurrence, only the source's own occurrence places a Transcript on the
  Calendar by itself, the standing pass places every Transcript of a Workspace it can settle and is idempotent at any later time, a merge carries every Transcript and
  a failed one forgets nothing, and no operation of the join touches a Meeting of the Calendar.  Runs: the
  timeline of every Run tells its status, a crash leaves a Run that was whole with a record and a timeline that can be read, the pages of the list
  cover every Run, a Run is queued or worked on once at a time, a refused retry changes only the timeline, and recovery
  returns exactly its Module's Runs with a plan to the queue.  Records: a stale generation is refused and an immutable record is
  written once.  A few theorems state
  behaviour that the comments of the code do not announce; their text says so.

  \<^bold>\<open>Bounds.\<close>  Following a redirect needs no fuel, because every round visits another of the held records (a cycle
  would be answered, and the reachable redirects have none); the seeds of repeated entries and the retries need none.  A repetition in a regular
  expression is matched with the length of the text as fuel, because every round of one reads a character; the loop that
  strips the artifact words of a file name has the length of the name, because every round shortens it.  The digest is a
  parameter: where identities must differ, the hypothesis is that the truncated digests of the entries at hand do
  not collide.  A collation (\<^verbatim>\<open>localeCompare\<close>) is a parameter too, and only where the order of what is offered matters is
  it assumed to be consistent.

  \<^bold>\<open>Not modelled.\<close>  The temporary sibling and the rename by which a file is replaced, and the syntax of JSON; log lines; the timers that start a refresh;
  the cutover and the legacy import (\<^verbatim>\<open>cutover.ts\<close>, \<^verbatim>\<open>legacy-migration.ts\<close>), the Asana form (\<^verbatim>\<open>asana-link.ts\<close>) and the
  wiring (\<^verbatim>\<open>composition.ts\<close>), which move directories and call services.  The URL parser, SHA-256, \<^verbatim>\<open>Date.parse\<close>, time
  zones and the conversion of documents are parameters, and so are the prompts and schemas of the model calls, whose
  answers are arguments.  The identity and relevance stores of the Catalog are seen as consumers that answer or throw;
  the days a time anchor lists are left out.  A standing pass of the join is modelled without other operations in
  between, and the deletion of a Transcript without a process that dies between its writes: what stops it is another store
  that throws.  Of the engine: the queue that serializes
  the writers of one path, the timer of the recovery loop and the notifications of a change; the work of a Module is any
  sequence of calls of its context.  Outside these: the HTTP routes, the reconciliation with the Calendar, the
  debrief, brief and scout modules, person research, the model providers and the web application.
\<close>

end
